(* ===== verification/Prelude.thy ===== *)
theory Prelude
  imports Main "HOL-Library.Word" "HOL-Library.State_Monad" "HOL-Library.Monad_Syntax"
begin

unbundle bit_operations_syntax

text \<open>
  Shared vocabulary of the development: machine integers, the error numbers of
  \<^verbatim>\<open>errno.h\<close>, the primitives of the state monad in which the drivers are written, the
  predicate used to reason about such programs compositionally (\<open>keeps\<close>: an invariant is
  preserved) and the lemmas about bit fields of 32-bit registers.
\<close>

section \<open>Machine integers and error numbers\<close>

type_synonym u8 = "8 word"
type_synonym u16 = "16 word"
type_synonym u32 = "32 word"
type_synonym u64 = "64 word"

text \<open>The values newlib's \<^verbatim>\<open>errno.h\<close> gives; the drivers return their negations.\<close>

abbreviation EPERM :: int where "EPERM \<equiv> 1"
abbreviation ENOENT :: int where "ENOENT \<equiv> 2"
abbreviation EIO :: int where "EIO \<equiv> 5"
abbreviation ENOMEM :: int where "ENOMEM \<equiv> 12"
abbreviation EFAULT :: int where "EFAULT \<equiv> 14"
abbreviation EBUSY :: int where "EBUSY \<equiv> 16"
abbreviation ENODEV :: int where "ENODEV \<equiv> 19"
abbreviation EINVAL :: int where "EINVAL \<equiv> 22"
abbreviation ERANGE :: int where "ERANGE \<equiv> 34"
abbreviation ENODATA :: int where "ENODATA \<equiv> 61"
abbreviation ENOSYS :: int where "ENOSYS \<equiv> 88"

section \<open>Programs as state transformers\<close>

named_theorems run_simps
named_theorems keeps_intros
named_theorems bit_field_simps

abbreviation ret :: "'a \<Rightarrow> ('s, 'a) state" where
  "ret \<equiv> State_Monad.return"

definition gets :: "('s \<Rightarrow> 'a) \<Rightarrow> ('s, 'a) state" where
  "gets f = State (\<lambda>s. (f s, s))"

definition modify :: "('s \<Rightarrow> 's) \<Rightarrow> ('s, unit) state" where
  "modify f = State (\<lambda>s. ((), f s))"

definition whenM :: "bool \<Rightarrow> ('s, unit) state \<Rightarrow> ('s, unit) state" where
  "whenM b m = (if b then m else ret ())"

abbreviation result :: "('s, 'a) state \<Rightarrow> 's \<Rightarrow> 'a" where
  "result m s \<equiv> fst (run_state m s)"

abbreviation final :: "('s, 'a) state \<Rightarrow> 's \<Rightarrow> 's" where
  "final m s \<equiv> snd (run_state m s)"

lemma run_gets [simp]: "run_state (gets f) s = (f s, s)"
  by (simp add: gets_def)

lemma run_modify [simp]: "run_state (modify f) s = ((), f s)"
  by (simp add: modify_def)

lemma run_whenM [simp]: "run_state (whenM b m) s = (if b then run_state m s else ((), s))"
  by (simp add: whenM_def)

lemma run_if [run_simps]:
  "run_state (if b then m else n) s = (if b then run_state m s else run_state n s)"
  by simp

lemmas [run_simps] = Let_def split_beta

subsection \<open>Invariant preservation\<close>

definition keeps :: "('s \<Rightarrow> bool) \<Rightarrow> ('s, 'a) state \<Rightarrow> bool" where
  "keeps I m \<longleftrightarrow> (\<forall>s. I s \<longrightarrow> I (final m s))"

lemma keepsI: "(\<And>s. I s \<Longrightarrow> I (final m s)) \<Longrightarrow> keeps I m"
  by (simp add: keeps_def)

lemma keepsD: "keeps I m \<Longrightarrow> I s \<Longrightarrow> I (final m s)"
  by (simp add: keeps_def)

lemma keeps_ret [keeps_intros]: "keeps I (ret x)"
  by (simp add: keeps_def)

lemma keeps_gets [keeps_intros]: "keeps I (gets f)"
  by (simp add: keeps_def)

lemma keeps_bind [keeps_intros]:
  "keeps I m \<Longrightarrow> (\<And>x. keeps I (f x)) \<Longrightarrow> keeps I (m \<bind> f)"
  by (simp add: keeps_def split_beta)

lemma keeps_if [keeps_intros]:
  "(b \<Longrightarrow> keeps I m) \<Longrightarrow> (\<not> b \<Longrightarrow> keeps I n) \<Longrightarrow> keeps I (if b then m else n)"
  by simp

lemma keeps_whenM [keeps_intros]: "(b \<Longrightarrow> keeps I m) \<Longrightarrow> keeps I (whenM b m)"
  by (simp add: keeps_def)

lemma keeps_option [keeps_intros]:
  "(x = None \<Longrightarrow> keeps I m) \<Longrightarrow> (\<And>y. x = Some y \<Longrightarrow> keeps I (f y)) \<Longrightarrow>
   keeps I (case x of None \<Rightarrow> m | Some y \<Rightarrow> f y)"
  by (cases x) simp_all

lemma keeps_prod [keeps_intros]:
  "(\<And>a b. keeps I (f a b)) \<Longrightarrow> keeps I (case p of (a, b) \<Rightarrow> f a b)"
  by (cases p) simp

lemma keeps_let [keeps_intros]: "(\<And>x. keeps I (f x)) \<Longrightarrow> keeps I (let x = v in f x)"
  by simp

lemma keeps_conj:
  "keeps I m \<Longrightarrow> keeps J m \<Longrightarrow> keeps (\<lambda>s. I s \<and> J s) m"
  by (simp add: keeps_def)

section \<open>Bits and register fields\<close>

lemma bit_1_word [bit_field_simps]: "bit (1 :: 'a::len word) n \<longleftrightarrow> n = 0"
  by (simp add: bit_simps)

lemma small_word_bit:
  fixes v :: "'a::len word"
  assumes "unat v < 2 ^ w" and "w \<le> n"
  shows "\<not> bit v n"
  using assms
  by (metis bit_take_bit_iff not_less take_bit_nat_eq_self_iff unsigned_take_bit_eq
      word_eq_iff_unsigned)

lemma mask_2: "mask 2 = (3 :: u32)"
  by (simp add: mask_eq_exp_minus_1)

lemma two_bits: "(w :: u32) AND 3 = 0 \<or> w AND 3 = 1 \<or> w AND 3 = 2 \<or> w AND 3 = 3"
proof -
  have "unat (w AND 3) \<le> unat (3 :: u32)"
    by (rule word_le_nat_alt [THEN iffD1], rule word_and_le1)
  then have "unat (w AND 3) < 4"
    by simp
  then have "unat (w AND 3) \<in> {0, 1, 2, 3}"
    by auto
  then have "(word_of_nat (unat (w AND 3)) :: u32) \<in> word_of_nat ` {0, 1, 2, 3}"
    by (rule imageI)
  then show ?thesis
    by simp
qed

lemma unat_drop_bit: "unat (drop_bit n w) = unat w div 2 ^ n"
proof -
  have "unat (drop_bit n w) = drop_bit n (unat w)"
    by (simp add: unsigned_drop_bit_eq take_bit_eq_mod)
  then show ?thesis
    by (simp add: drop_bit_eq_div)
qed

lemma ucast_u32_u64_u32 [simp]: "(ucast (ucast (a :: u32) :: u64) :: u32) = a"
  by (rule bit_word_eqI) (simp add: bit_simps)

lemma unat_mult_no_wrap:
  "unat a * unat b < 2 ^ LENGTH('a) \<Longrightarrow> unat (a * b :: 'a::len word) = unat a * unat b"
  by (simp add: unat_mult_lem)

text \<open>
  A register field: \<open>width\<close> bits from bit \<open>pos\<close> on, with the mask the header defines for
  it. The drivers read a field as \<open>(reg & MASK) >> POS\<close> and write it as
  \<open>(reg & ~MASK) | (v << POS)\<close>; the locale states the laws of these two idioms once.
\<close>

locale reg_field =
  fixes fmask :: u32 and pos :: nat and width :: nat
  assumes fmask_eq: "fmask = push_bit pos (mask width)"
    and fits: "pos + width \<le> 32"
begin

lemma bit_fmask: "bit fmask n \<longleftrightarrow> pos \<le> n \<and> n < pos + width"
  using fits by (auto simp: fmask_eq bit_simps)

lemma get_set:
  assumes "unat v < 2 ^ width"
  shows "drop_bit pos (((x AND NOT fmask) OR push_bit pos v) AND fmask) = v"
proof (rule bit_word_eqI)
  fix n assume n: "n < LENGTH(32)"
  have "width \<le> n \<longrightarrow> \<not> bit v n"
    using small_word_bit [OF assms, of n] by blast
  then show "bit (drop_bit pos (((x AND NOT fmask) OR push_bit pos v) AND fmask)) n = bit v n"
    using fits n by (auto simp: bit_simps bit_fmask)
qed

lemma get_set_low:
  assumes "unat v < 2 ^ width"
  shows "drop_bit pos ((x AND NOT fmask) OR push_bit pos v) AND mask width = v"
proof (rule bit_word_eqI)
  fix n assume n: "n < LENGTH(32)"
  have "width \<le> n \<longrightarrow> \<not> bit v n"
    using small_word_bit [OF assms, of n] by blast
  then show "bit (drop_bit pos ((x AND NOT fmask) OR push_bit pos v) AND mask width) n = bit v n"
    using fits n by (auto simp: bit_simps bit_fmask)
qed

lemma frame:
  assumes "unat v < 2 ^ width" and "\<not> bit fmask n"
  shows "bit ((x AND NOT fmask) OR push_bit pos v) n = bit x n"
proof -
  have "pos \<le> n \<longrightarrow> width \<le> n - pos"
    using assms(2) by (simp add: bit_fmask) linarith
  with small_word_bit [OF assms(1), of "n - pos"] have "pos \<le> n \<longrightarrow> \<not> bit v (n - pos)"
    by blast
  with assms(2) show ?thesis
    by (auto simp: bit_simps dest: bit_imp_le_length)
qed

end

text \<open>A register of equal lanes, \<open>w\<close> bits each: overwriting lane \<open>k\<close> leaves the others.\<close>

lemma lane_update:
  fixes v x :: u32
  assumes "w * k + w \<le> 32" and "unat x < 2 ^ w"
  shows "drop_bit (w * j) ((v AND NOT (push_bit (w * k) (mask w))) OR push_bit (w * k) x) AND mask w
       = (if j = k then x else drop_bit (w * j) v AND mask w)"
proof (rule bit_word_eqI)
  fix n assume n: "n < LENGTH(32)"
  let ?new = "(v AND NOT (push_bit (w * k) (mask w))) OR push_bit (w * k) x"
  have x: "\<And>m. w \<le> m \<Longrightarrow> \<not> bit x m"
    by (rule small_word_bit [OF assms(2)])
  have sep: "w * j + n < w * k \<or> w * k + w \<le> w * j + n" if "j \<noteq> k" and "n < w"
  proof (cases "j < k")
    case True
    then have "w * Suc j \<le> w * k" by (intro mult_le_mono) simp_all
    then show ?thesis using that by simp
  next
    case False
    then have "w * Suc k \<le> w * j" using that by (intro mult_le_mono) simp_all
    then show ?thesis using that by simp
  qed
  show "bit (drop_bit (w * j) ?new AND mask w) n
      = bit (if j = k then x else drop_bit (w * j) v AND mask w) n"
  proof (cases "n < w")
    case False
    then show ?thesis using x [of n] by (simp add: bit_simps)
  next
    case True
    show ?thesis
    proof (cases "j = k")
      case True
      then show ?thesis using \<open>n < w\<close> n assms(1) by (auto simp: bit_simps)
    next
      case False
      have "\<not> bit x (w * j + n - w * k)" if "w * k \<le> w * j + n"
        using sep [OF False \<open>n < w\<close>] that by (intro x) linarith
      moreover have "\<not> bit (push_bit (w * k) (mask w) :: u32) (w * j + n)"
        using sep [OF False \<open>n < w\<close>] by (auto simp: bit_simps)
      ultimately show ?thesis
        using False \<open>n < w\<close> by (auto simp: bit_simps dest: bit_imp_le_length)
    qed
  qed
qed

section \<open>Tables of descriptors\<close>

text \<open>
  Every driver keeps a static table with one entry per hardware instance and updates the entry
  of the instance it works on. The locale is the contract of such a table inside the machine
  state: \<open>get\<close> reads the entry of a key, \<open>upd\<close> changes it, and keys are independent.
\<close>

locale slots =
  fixes get :: "'s \<Rightarrow> 'k \<Rightarrow> 'v" and upd :: "'k \<Rightarrow> ('v \<Rightarrow> 'v) \<Rightarrow> 's \<Rightarrow> 's" and ok :: "'k \<Rightarrow> 's \<Rightarrow> bool"
  assumes get_upd_same: "ok k s \<Longrightarrow> get (upd k f s) k = f (get s k)"
    and get_upd_other: "j \<noteq> k \<Longrightarrow> get (upd k f s) j = get s j"
    and ok_upd: "ok j (upd k f s) = ok j s"
begin

definition all_slots :: "('v \<Rightarrow> bool) \<Rightarrow> 's \<Rightarrow> bool" where
  "all_slots P s \<longleftrightarrow> (\<forall>k. ok k s \<longrightarrow> P (get s k))"

lemma all_slots_upd:
  assumes "all_slots P s" and "\<And>v. P v \<Longrightarrow> P (f v)"
  shows "all_slots P (upd k f s)"
  unfolding all_slots_def
proof (intro allI impI)
  fix j assume "ok j (upd k f s)"
  then have j: "ok j s" by (simp add: ok_upd)
  with assms show "P (get (upd k f s) j)"
    by (cases "j = k") (simp_all add: get_upd_same get_upd_other all_slots_def)
qed

lemma keeps_all_slots:
  assumes "\<And>v. P v \<Longrightarrow> P (f v)"
  shows "keeps (all_slots P) (modify (upd k f))"
  using assms by (intro keepsI) (simp add: all_slots_upd)

lemma keeps_other_slot:
  assumes "j \<noteq> k"
  shows "keeps (\<lambda>s. get s j = v) (modify (upd k f))"
  using assms by (intro keepsI) (simp add: get_upd_other)

text \<open>A sequence of updates: the entry of a key is the composition of its own updates.\<close>

definition upds :: "('k \<times> ('v \<Rightarrow> 'v)) list \<Rightarrow> 's \<Rightarrow> 's" where
  "upds us s = foldl (\<lambda>s (k, f). upd k f s) s us"

lemma get_upds:
  assumes "ok k s"
  shows "get (upds us s) k = foldl (\<lambda>v (j, f). if j = k then f v else v) (get s k) us"
  using assms unfolding upds_def
proof (induction us arbitrary: s)
  case (Cons u us)
  obtain j f where u: "u = (j, f)" by (cases u)
  have "ok k (upd j f s)" using Cons.prems by (simp add: ok_upd)
  from Cons.IH [OF this] show ?case
    using Cons.prems by (cases "j = k") (simp_all add: u get_upd_same get_upd_other)
qed simp

end

end
