(* ===== verification/Machine.thy ===== *)
theory Machine
  imports Prelude
begin

unbundle bit_operations_syntax

text \<open>
  The machine the drivers run on. Everything outside \<^verbatim>\<open>src/\<close> that a driver talks to, the
  memory-mapped hardware, the CPU's system registers, the FreeRTOS kernel and the
  application's callbacks, is an \<open>env\<close>: functions of the history of the machine, so any
  (deterministic) device behaviour, including registers that change by themselves and reads
  with side effects, is one value of the type. What a driver does is the \<open>trace\<close>: the list
  of its accesses, kernel calls and callbacks, newest first. \<open>mem\<close> is the RAM in which the
  caller's buffers live. The record is extended by the static variables of each driver in
  the driver's own theory.
\<close>

section \<open>Events\<close>

text \<open>System registers read and written by \<^verbatim>\<open>drivers/gic\<close>.\<close>

datatype sysreg =
  ICC_IGRPEN0_EL1 | ICC_IGRPEN1_EL1 | ICC_EOIR1_EL1 | ICC_PMR_EL1 | MPIDR_EL1 | DAIFClr

text \<open>Function pointers and \<^verbatim>\<open>void *\<close> values the drivers store and pass on.\<close>

datatype fptr =
  F_NULL | F_gic_default_interrupt_handler | F_timer_irq_handler | F_wdt_isr
| F_gpio_irq_handler | F_uart_isr | F_console_flush_task
| F_mbox_poll_resp_task | F_mbox_irq_handler | F_seu_mailbox_complete | F_seu_irq_handler
| F_ecc_irq_handler | F_ecc_qspi_irq_handler | F_pdma_irq_handler
| F_i2c_isr | F_i2c_wdma_callback | F_i2c_rdma_callback | F_spi_isr | F_spi_dma_callback
| F_qspi_isr | F_flash_callback | F_user u64

datatype vptr =
  V_NULL | V_timer nat | V_wdt nat | V_uart nat | V_dma nat nat | V_i2c nat | V_spi nat bool
| V_spi_dma nat bool bool | V_qspi nat | V_addr u64

text \<open>The kernel API calls made by \<^verbatim>\<open>osal/freertos/osal.h\<close>.\<close>

datatype kcall =
  xTaskCreate fptr u64 int | vTaskDelay u64 | vTaskDelete
| xSemaphoreCreateBinary | xSemaphoreCreateCounting u64 u64 | xSemaphoreCreateMutex
| vSemaphoreDelete u64 | xSemaphoreGive u64 | xSemaphoreGiveFromISR u64
| xSemaphoreTake u64 u64 | xSemaphoreTakeFromISR u64 | xQueueReset u64
| portYIELD_FROM_ISR | xPortIsInsideInterrupt | xTaskGetSchedulerState
| taskENTER_CRITICAL | taskEXIT_CRITICAL
| pvPortMalloc u64 | vPortFree u64

text \<open>
  \<open>Call f p xs\<close>: the function \<open>f\<close> is called with the user context \<open>p\<close> and the scalar
  arguments \<open>xs\<close>; when it is given the address of a byte it leaves \<open>user_byte\<close> there. \<open>Smc f xs r\<close>: a call into the secure monitor with the registers \<open>xs\<close>, answered
  by \<open>r\<close> in x0. \<open>Cache_clean\<close> and \<open>Cache_invalidate\<close>: cache maintenance of a range of memory.
  \<open>UB\<close>: the code does something the C standard leaves undefined.
\<close>

datatype ev =
  Rd32 u64 u32 | Wr32 u64 u32 | Wr16 u64 u16 | Wr8 u64 u8 | Rd64 u64 u64 | Wr64 u64 u64 | Rd8 u64 u8
| SysRd sysreg u64 | SysWr sysreg u64
| Kern kcall u64
| Call fptr vptr "u64 list"
| Smc u64 "u64 list" u64
| Cache_clean u64 u64 | Cache_invalidate u64 u64
| UB string

record env =
  hw_rd32 :: "ev list \<Rightarrow> u64 \<Rightarrow> u32"
  hw_rd64 :: "ev list \<Rightarrow> u64 \<Rightarrow> u64"
  hw_rd8 :: "ev list \<Rightarrow> u64 \<Rightarrow> u8"
  cpu_rd :: "ev list \<Rightarrow> sysreg \<Rightarrow> u64"
  kernel :: "ev list \<Rightarrow> kcall \<Rightarrow> u64"
  stack_slot :: "ev list \<Rightarrow> u64"
  ms_to_ticks :: "u64 \<Rightarrow> u64"
  monitor :: "ev list \<Rightarrow> u64 \<Rightarrow> u64 list \<Rightarrow> u64 \<times> (nat \<Rightarrow> u64)"
  user_byte :: "ev list \<Rightarrow> u8 \<Rightarrow> u8"

record machine =
  env :: env
  trace :: "ev list"
  mem :: "u64 \<Rightarrow> u8"

section \<open>Primitive steps\<close>

definition emit :: "ev \<Rightarrow> ('x machine_scheme, unit) state" where
  "emit e = modify (\<lambda>s. s\<lparr>trace := e # trace s\<rparr>)"

text \<open>Accesses through a 64-bit pointer, as \<^verbatim>\<open>arm_gic.c\<close> makes them.\<close>

definition load32 :: "u64 \<Rightarrow> ('x machine_scheme, u32) state" where
  "load32 a = do {
     v \<leftarrow> gets (\<lambda>s. hw_rd32 (env s) (trace s) a);
     emit (Rd32 a v);
     ret v
   }"

definition load8 :: "u64 \<Rightarrow> ('x machine_scheme, u8) state" where
  "load8 a = do {
     v \<leftarrow> gets (\<lambda>s. hw_rd8 (env s) (trace s) a);
     emit (Rd8 a v);
     ret v
   }"

definition store32 :: "u64 \<Rightarrow> u32 \<Rightarrow> ('x machine_scheme, unit) state" where
  "store32 a v = emit (Wr32 a v)"

definition store8 :: "u64 \<Rightarrow> u8 \<Rightarrow> ('x machine_scheme, unit) state" where
  "store8 a v = emit (Wr8 a v)"

definition store64 :: "u64 \<Rightarrow> u64 \<Rightarrow> ('x machine_scheme, unit) state" where
  "store64 a v = emit (Wr64 a v)"

text \<open>
  \<^verbatim>\<open>RD_REG32\<close>, \<^verbatim>\<open>WR_REG32\<close> and their variants: the 32-bit address is widened to a pointer.
\<close>

definition RD_REG32 :: "u32 \<Rightarrow> ('x machine_scheme, u32) state" where
  "RD_REG32 a = load32 (ucast a)"

definition WR_REG32 :: "u32 \<Rightarrow> u32 \<Rightarrow> ('x machine_scheme, unit) state" where
  "WR_REG32 a v = store32 (ucast a) v"

definition WR_REG16 :: "u32 \<Rightarrow> u16 \<Rightarrow> ('x machine_scheme, unit) state" where
  "WR_REG16 a v = emit (Wr16 (ucast a) v)"

definition RD_REG64 :: "u32 \<Rightarrow> ('x machine_scheme, u64) state" where
  "RD_REG64 a = do {
     v \<leftarrow> gets (\<lambda>s. hw_rd64 (env s) (trace s) (ucast a));
     emit (Rd64 (ucast a) v);
     ret v
   }"

definition WR_REG64 :: "u32 \<Rightarrow> u64 \<Rightarrow> ('x machine_scheme, unit) state" where
  "WR_REG64 a v = store64 (ucast a) v"

definition read_sysreg :: "sysreg \<Rightarrow> ('x machine_scheme, u64) state" where
  "read_sysreg r = do {
     v \<leftarrow> gets (\<lambda>s. cpu_rd (env s) (trace s) r);
     emit (SysRd r v);
     ret v
   }"

definition write_sysreg :: "sysreg \<Rightarrow> u64 \<Rightarrow> ('x machine_scheme, unit) state" where
  "write_sysreg r v = emit (SysWr r v)"

definition kern :: "kcall \<Rightarrow> ('x machine_scheme, u64) state" where
  "kern c = do {
     v \<leftarrow> gets (\<lambda>s. kernel (env s) (trace s) c);
     emit (Kern c v);
     ret v
   }"

definition ub :: "string \<Rightarrow> ('x machine_scheme, unit) state" where
  "ub why = emit (UB why)"

text \<open>A left shift of a 32-bit operand; a count of 32 or more is undefined.\<close>

definition c_shl32 :: "u32 \<Rightarrow> u8 \<Rightarrow> ('x machine_scheme, u32) state" where
  "c_shl32 x n = (if unat n < 32 then ret (push_bit (unat n) x)
                  else do { ub ''shift''; ret 0 })"

text \<open>A right shift of a 32-bit operand; a count of 32 or more is undefined.\<close>

definition c_shr32 :: "u32 \<Rightarrow> u8 \<Rightarrow> ('x machine_scheme, u32) state" where
  "c_shr32 x n = (if unat n < 32 then ret (drop_bit (unat n) x)
                  else do { ub ''shift''; ret 0 })"

text \<open>RAM accesses of the caller's buffers.\<close>

definition peek :: "u64 \<Rightarrow> ('x machine_scheme, u8) state" where
  "peek a = gets (\<lambda>s. mem s a)"

definition poke :: "u64 \<Rightarrow> u8 \<Rightarrow> ('x machine_scheme, unit) state" where
  "poke a v = modify (\<lambda>s. s\<lparr>mem := (mem s)(a := v)\<rparr>)"

fun bytes_at :: "(u64 \<Rightarrow> u8) \<Rightarrow> u64 \<Rightarrow> nat \<Rightarrow> u8 list" where
  "bytes_at m a 0 = []"
| "bytes_at m a (Suc n) = m a # bytes_at m (a + 1) n"

lemma run_emit [simp]: "run_state (emit e) s = ((), s\<lparr>trace := e # trace s\<rparr>)"
  by (simp add: emit_def)

lemma run_load32 [simp]:
  "run_state (load32 a) s =
     (hw_rd32 (env s) (trace s) a, s\<lparr>trace := Rd32 a (hw_rd32 (env s) (trace s) a) # trace s\<rparr>)"
  by (simp add: load32_def)

lemma run_load8 [simp]:
  "run_state (load8 a) s =
     (hw_rd8 (env s) (trace s) a, s\<lparr>trace := Rd8 a (hw_rd8 (env s) (trace s) a) # trace s\<rparr>)"
  by (simp add: load8_def)

lemma run_RD_REG32 [simp]:
  "run_state (RD_REG32 a) s =
     (hw_rd32 (env s) (trace s) (ucast a),
      s\<lparr>trace := Rd32 (ucast a) (hw_rd32 (env s) (trace s) (ucast a)) # trace s\<rparr>)"
  by (simp add: RD_REG32_def)

lemma run_stores [simp]:
  "run_state (store32 a v) s = ((), s\<lparr>trace := Wr32 a v # trace s\<rparr>)"
  "run_state (store8 a b) s = ((), s\<lparr>trace := Wr8 a b # trace s\<rparr>)"
  "run_state (store64 a w) s = ((), s\<lparr>trace := Wr64 a w # trace s\<rparr>)"
  "run_state (WR_REG32 r v) s = ((), s\<lparr>trace := Wr32 (ucast r) v # trace s\<rparr>)"
  by (simp_all add: store32_def store8_def store64_def WR_REG32_def)

lemma run_reg64 [simp]:
  "run_state (RD_REG64 r) s =
     (hw_rd64 (env s) (trace s) (ucast r),
      s\<lparr>trace := Rd64 (ucast r) (hw_rd64 (env s) (trace s) (ucast r)) # trace s\<rparr>)"
  "run_state (WR_REG64 r d) s = ((), s\<lparr>trace := Wr64 (ucast r) d # trace s\<rparr>)"
  by (simp_all add: RD_REG64_def WR_REG64_def)

lemma run_sysreg [simp]:
  "run_state (read_sysreg r) s =
     (cpu_rd (env s) (trace s) r, s\<lparr>trace := SysRd r (cpu_rd (env s) (trace s) r) # trace s\<rparr>)"
  "run_state (write_sysreg r v) s = ((), s\<lparr>trace := SysWr r v # trace s\<rparr>)"
  by (simp_all add: read_sysreg_def write_sysreg_def)

lemma run_kern [simp]:
  "run_state (kern c) s =
     (kernel (env s) (trace s) c, s\<lparr>trace := Kern c (kernel (env s) (trace s) c) # trace s\<rparr>)"
  by (simp add: kern_def)

lemma run_ub [simp]: "run_state (ub w) s = ((), s\<lparr>trace := UB w # trace s\<rparr>)"
  by (simp add: ub_def)

lemma run_c_shifts [simp]:
  "run_state (c_shl32 x n) s =
     (if unat n < 32 then (push_bit (unat n) x, s) else (0, s\<lparr>trace := UB ''shift'' # trace s\<rparr>))"
  "run_state (c_shr32 x n) s =
     (if unat n < 32 then (drop_bit (unat n) x, s) else (0, s\<lparr>trace := UB ''shift'' # trace s\<rparr>))"
  by (simp_all add: c_shl32_def c_shr32_def)

lemma run_peek [simp]: "run_state (peek a) s = (mem s a, s)"
  by (simp add: peek_def)

lemma run_poke [simp]: "run_state (poke a v) s = ((), s\<lparr>mem := (mem s)(a := v)\<rparr>)"
  by (simp add: poke_def)

lemma ucast_u64_eq [simp]: "(ucast (a :: u32) :: u64) = ucast b \<longleftrightarrow> a = b"
proof
  assume eq: "(ucast a :: u64) = ucast b"
  show "a = b"
  proof (rule bit_word_eqI)
    fix n assume "n < LENGTH(32)"
    moreover have "bit (ucast a :: u64) n = bit (ucast b :: u64) n"
      by (simp add: eq)
    ultimately show "bit a n = bit b n"
      by (simp add: bit_simps)
  qed
qed simp

section \<open>What a program may emit\<close>

text \<open>
  \<open>emits P m\<close>: a run of \<open>m\<close> only adds events that satisfy \<open>P\<close> to the trace. It is the
  safety predicate of the development (which registers a driver may touch, absence of
  undefined behaviour), proved by walking over the code with the rules \<open>emits_intros\<close>.
\<close>

named_theorems emits_intros

definition emits :: "(ev \<Rightarrow> bool) \<Rightarrow> ('x machine_scheme, 'a) state \<Rightarrow> bool" where
  "emits P m \<longleftrightarrow> (\<forall>s. \<exists>es. trace (final m s) = es @ trace s \<and> list_all P es)"

lemma emitsI:
  "(\<And>s. \<exists>es. trace (final m s) = es @ trace s \<and> list_all P es) \<Longrightarrow> emits P m"
  by (simp add: emits_def)

lemma emitsD:
  assumes "emits P m"
  obtains es where "trace (final m s) = es @ trace s" and "list_all P es"
  using assms by (auto simp: emits_def)

lemma emits_mono: "emits P m \<Longrightarrow> (\<And>e. P e \<Longrightarrow> Q e) \<Longrightarrow> emits Q m"
  unfolding emits_def by (metis list.pred_mono_strong)

lemma emits_ret [emits_intros]: "emits P (ret x)"
  by (simp add: emits_def)

lemma emits_gets [emits_intros]: "emits P (gets f)"
  by (simp add: emits_def)

lemma emits_modify [emits_intros]: "(\<And>s. trace (f s) = trace s) \<Longrightarrow> emits P (modify f)"
  by (simp add: emits_def)

lemma emits_emit [emits_intros]: "P e \<Longrightarrow> emits P (emit e)"
  by (simp add: emits_def)

lemma emits_bind [emits_intros]:
  assumes m: "emits P m" and f: "\<And>x. emits P (f x)"
  shows "emits P (m \<bind> f)"
proof (rule emitsI)
  fix s
  obtain es where es: "trace (final m s) = es @ trace s" "list_all P es"
    using m by (rule emitsD)
  obtain fs where fs: "trace (final (f (result m s)) (final m s)) = fs @ trace (final m s)"
      "list_all P fs"
    using f by (rule emitsD)
  have "trace (final (m \<bind> f) s) = (fs @ es) @ trace s" "list_all P (fs @ es)"
    using es fs by (simp_all add: split_beta)
  then show "\<exists>es. trace (final (m \<bind> f) s) = es @ trace s \<and> list_all P es"
    by blast
qed

lemma emits_if [emits_intros]:
  "(b \<Longrightarrow> emits P m) \<Longrightarrow> (\<not> b \<Longrightarrow> emits P n) \<Longrightarrow> emits P (if b then m else n)"
  by simp

lemma emits_whenM [emits_intros]: "(b \<Longrightarrow> emits P m) \<Longrightarrow> emits P (whenM b m)"
  by (simp add: emits_def)

lemma emits_option [emits_intros]:
  "(x = None \<Longrightarrow> emits P m) \<Longrightarrow> (\<And>y. x = Some y \<Longrightarrow> emits P (f y)) \<Longrightarrow>
   emits P (case x of None \<Rightarrow> m | Some y \<Rightarrow> f y)"
  by (cases x) simp_all

lemma emits_prod [emits_intros]:
  "(\<And>a b. emits P (f a b)) \<Longrightarrow> emits P (case p of (a, b) \<Rightarrow> f a b)"
  by (cases p) simp

lemma emits_let [emits_intros]: "(\<And>x. emits P (f x)) \<Longrightarrow> emits P (let x = v in f x)"
  by simp

lemma emits_prims [emits_intros]:
  "(\<And>v. P (Rd32 a v)) \<Longrightarrow> emits P (load32 a)"
  "(\<And>v. P (Rd8 a v)) \<Longrightarrow> emits P (load8 a)"
  "(\<And>v. P (Rd32 (ucast r) v)) \<Longrightarrow> emits P (RD_REG32 r)"
  "P (Wr32 a w) \<Longrightarrow> emits P (store32 a w)"
  "P (Wr32 (ucast r) w) \<Longrightarrow> emits P (WR_REG32 r w)"
  "P (Wr8 a b) \<Longrightarrow> emits P (store8 a b)"
  "P (Wr64 a d) \<Longrightarrow> emits P (store64 a d)"
  "(\<And>v. P (Rd64 (ucast r) v)) \<Longrightarrow> emits P (RD_REG64 r)"
  "P (Wr64 (ucast r) d) \<Longrightarrow> emits P (WR_REG64 r d)"
  "(\<And>v. P (SysRd q v)) \<Longrightarrow> emits P (read_sysreg q)"
  "P (SysWr q d) \<Longrightarrow> emits P (write_sysreg q d)"
  "(\<And>v. P (Kern c v)) \<Longrightarrow> emits P (kern c)"
  "emits P (peek d)"
  "emits P (poke d b)"
  by (simp_all add: emits_def)

lemma emits_c_shifts [emits_intros]:
  "unat n < 32 \<or> P (UB ''shift'') \<Longrightarrow> emits P (c_shl32 x n)"
  "unat n < 32 \<or> P (UB ''shift'') \<Longrightarrow> emits P (c_shr32 x n)"
  by (auto simp: emits_def)

text \<open>Programs that only look, and programs that keep the environment.\<close>

fun is_write :: "ev \<Rightarrow> bool" where
  "is_write (Wr32 _ _) = True"
| "is_write (Wr16 _ _) = True"
| "is_write (Wr8 _ _) = True"
| "is_write (Wr64 _ _) = True"
| "is_write (SysWr _ _) = True"
| "is_write _ = False"

fun is_ub :: "ev \<Rightarrow> bool" where
  "is_ub (UB _) = True"
| "is_ub _ = False"

abbreviation env_is :: "env \<Rightarrow> 'x machine_scheme \<Rightarrow> bool" where
  "env_is e \<equiv> \<lambda>s. env s = e"

lemma keeps_env_prims [keeps_intros]:
  "keeps (env_is e) (emit v)" "keeps (env_is e) (load32 a)" "keeps (env_is e) (load8 a)" "keeps (env_is e) (RD_REG32 r)"
  "keeps (env_is e) (store32 a w)" "keeps (env_is e) (WR_REG32 r w)"
  "keeps (env_is e) (store8 a b)" "keeps (env_is e) (store64 a d)"
  "keeps (env_is e) (RD_REG64 r)" "keeps (env_is e) (WR_REG64 r d)"
  "keeps (env_is e) (read_sysreg q)" "keeps (env_is e) (write_sysreg q d)"
  "keeps (env_is e) (kern c)" "keeps (env_is e) (peek d)" "keeps (env_is e) (poke d b)"
  "keeps (env_is e) (c_shl32 w b)" "keeps (env_is e) (c_shr32 w b)" "keeps (env_is e) (ub n)"
  by (simp_all add: keeps_def)

lemma keeps_env_modify [keeps_intros]:
  "(\<And>s. env (f s) = env s) \<Longrightarrow> keeps (env_is e) (modify f)"
  by (simp add: keeps_def)

section \<open>Registers that hold what was written\<close>

text \<open>
  The documented behaviour of a read/write configuration register: a read returns the last
  value written. It is a hypothesis (\<open>reg_holds\<close>) of the round-trip properties, never of
  the model; \<open>ram_env\<close> is an environment in which all registers have it.
\<close>

fun last_wr32 :: "ev list \<Rightarrow> u64 \<Rightarrow> u32 option" where
  "last_wr32 [] a = None"
| "last_wr32 (Wr32 b v # t) a = (if b = a then Some v else last_wr32 t a)"
| "last_wr32 (_ # t) a = last_wr32 t a"

definition reg_holds :: "env \<Rightarrow> u64 \<Rightarrow> bool" where
  "reg_holds e a \<longleftrightarrow> (\<forall>t v. last_wr32 t a = Some v \<longrightarrow> hw_rd32 e t a = v)"

lemma reg_holdsD: "reg_holds e a \<Longrightarrow> last_wr32 t a = Some v \<Longrightarrow> hw_rd32 e t a = v"
  by (simp add: reg_holds_def)

definition ram_env :: env where
  "ram_env = \<lparr>hw_rd32 = (\<lambda>t a. case last_wr32 t a of None \<Rightarrow> 0 | Some v \<Rightarrow> v),
              hw_rd64 = (\<lambda>t a. 0), hw_rd8 = (\<lambda>t a. 0), cpu_rd = (\<lambda>_ _. 0), kernel = (\<lambda>_ _. 1), stack_slot = (\<lambda>_. 0x4000),
              ms_to_ticks = (\<lambda>t. t div 2), monitor = (\<lambda>_ _ _. (0, \<lambda>_. 0)),
              user_byte = (\<lambda>_ b. b)\<rparr>"

lemma reg_holds_ram [simp]: "reg_holds ram_env a"
  by (simp add: reg_holds_def ram_env_def)

end
