(* ===== verification/Osal.thy ===== *)
theory Osal
  imports Machine
begin

text \<open>
  \<^verbatim>\<open>osal/freertos/osal.h\<close>: the abstraction layer over the FreeRTOS kernel, in the
  configuration of \<^verbatim>\<open>FreeRTOS/Demo/SOCFPGA/FreeRTOSConfig.h\<close>
  (\<^verbatim>\<open>configSUPPORT_STATIC_ALLOCATION\<close> is 0, so the \<^verbatim>\<open>_def_t\<close> arguments are unused).
  The kernel's answers come from the environment. Handles are the kernel's pointers, 0 is
  \<^verbatim>\<open>NULL\<close>.
\<close>

section \<open>Constants\<close>

definition OSAL_TIMEOUT_WAIT_FOREVER :: u64 where
  "OSAL_TIMEOUT_WAIT_FOREVER = 0xFFFFFFFFFFFFFFFF"

definition portMAX_DELAY :: u64 where
  "portMAX_DELAY = 0xFFFFFFFFFFFFFFFF"

definition OSAL_KERNEL_RUNNING :: u32 where "OSAL_KERNEL_RUNNING = 0"
definition OSAL_KERNEL_NOT_RUNNING :: u32 where "OSAL_KERNEL_NOT_RUNNING = 1"
definition OSAL_KERNEL_NOT_STARTED :: u32 where "OSAL_KERNEL_NOT_STARTED = 2"

text \<open>The values \<^verbatim>\<open>xTaskGetSchedulerState\<close> is documented to return.\<close>

definition taskSCHEDULER_NOT_STARTED :: u64 where "taskSCHEDULER_NOT_STARTED = 1"
definition taskSCHEDULER_RUNNING :: u64 where "taskSCHEDULER_RUNNING = 2"

section \<open>Tasks and delays\<close>

definition osal_task_create :: "fptr \<Rightarrow> u64 \<Rightarrow> int \<Rightarrow> ('x machine_scheme, bool) state" where
  "osal_task_create routine argument priority = do {
     r \<leftarrow> kern (xTaskCreate routine argument priority);
     if sint r \<le> 0 then ret False else ret True
   }"

definition osal_ms2tick :: "u64 \<Rightarrow> ('x machine_scheme, u64) state" where
  "osal_ms2tick msec =
     (if msec = OSAL_TIMEOUT_WAIT_FOREVER then ret portMAX_DELAY
      else if msec = 0 then ret 0
      else do {
        ticks \<leftarrow> gets (\<lambda>s. ms_to_ticks (env s) msec);
        ret (if ticks = 0 then 1 else ticks)
      })"

definition osal_task_delay :: "u64 \<Rightarrow> ('x machine_scheme, unit) state" where
  "osal_task_delay msec = do {
     ticks \<leftarrow> gets (\<lambda>s. ms_to_ticks (env s) msec);
     _ \<leftarrow> kern (vTaskDelay ticks);
     ret ()
   }"

definition osal_task_delete :: "('x machine_scheme, unit) state" where
  "osal_task_delete = do { _ \<leftarrow> kern vTaskDelete; ret () }"

section \<open>Semaphores and mutexes\<close>

definition osal_semaphore_create :: "('x machine_scheme, u64) state" where
  "osal_semaphore_create = kern xSemaphoreCreateBinary"

definition osal_semaphore_counting_create :: "u64 \<Rightarrow> u64 \<Rightarrow> ('x machine_scheme, u64) state" where
  "osal_semaphore_counting_create uxMaxCount uxInitialCount =
     kern (xSemaphoreCreateCounting uxMaxCount uxInitialCount)"

definition osal_semaphore_delete :: "u64 \<Rightarrow> ('x machine_scheme, bool) state" where
  "osal_semaphore_delete hdl = do { _ \<leftarrow> kern (vSemaphoreDelete hdl); ret True }"

definition osal_semaphore_post :: "u64 \<Rightarrow> ('x machine_scheme, bool) state" where
  "osal_semaphore_post hdl = do {
     inside \<leftarrow> kern xPortIsInsideInterrupt;
     if inside = 0 then do {
       r \<leftarrow> kern (xSemaphoreGive hdl);
       ret (r \<noteq> 0)
     } else do {
       res \<leftarrow> kern (xSemaphoreGiveFromISR hdl);
       _ \<leftarrow> kern portYIELD_FROM_ISR;
       ret (res \<noteq> 0)
     }
   }"

definition osal_semaphore_wait :: "u64 \<Rightarrow> u64 \<Rightarrow> ('x machine_scheme, bool) state" where
  "osal_semaphore_wait hdl msec = do {
     inside \<leftarrow> kern xPortIsInsideInterrupt;
     if inside = 0 then do {
       ticks \<leftarrow> osal_ms2tick msec;
       r \<leftarrow> kern (xSemaphoreTake hdl ticks);
       ret (r \<noteq> 0)
     } else do {
       res \<leftarrow> kern (xSemaphoreTakeFromISR hdl);
       _ \<leftarrow> kern portYIELD_FROM_ISR;
       ret (res \<noteq> 0)
     }
   }"

definition osal_semaphore_reset :: "u64 \<Rightarrow> ('x machine_scheme, unit) state" where
  "osal_semaphore_reset hdl = do { _ \<leftarrow> kern (xQueueReset hdl); ret () }"

definition osal_mutex_create :: "('x machine_scheme, u64) state" where
  "osal_mutex_create = kern xSemaphoreCreateMutex"

definition osal_mutex_delete :: "u64 \<Rightarrow> ('x machine_scheme, bool) state" where
  "osal_mutex_delete hdl = do { _ \<leftarrow> kern (vSemaphoreDelete hdl); ret True }"

definition osal_mutex_lock :: "u64 \<Rightarrow> u64 \<Rightarrow> ('x machine_scheme, bool) state" where
  "osal_mutex_lock hdl msec = osal_semaphore_wait hdl msec"

definition osal_mutex_unlock :: "u64 \<Rightarrow> ('x machine_scheme, bool) state" where
  "osal_mutex_unlock hdl = osal_semaphore_post hdl"

section \<open>Kernel state and critical sections\<close>

definition osal_get_kernel_state :: "('x machine_scheme, u32) state" where
  "osal_get_kernel_state = do {
     st \<leftarrow> kern xTaskGetSchedulerState;
     ret (if st = taskSCHEDULER_RUNNING then OSAL_KERNEL_RUNNING
          else if st = taskSCHEDULER_NOT_STARTED then OSAL_KERNEL_NOT_STARTED
          else OSAL_KERNEL_NOT_RUNNING)
   }"

definition osal_enter_critical :: "('x machine_scheme, unit) state" where
  "osal_enter_critical = do { _ \<leftarrow> kern taskENTER_CRITICAL; ret () }"

definition osal_exit_critical :: "('x machine_scheme, unit) state" where
  "osal_exit_critical = do { _ \<leftarrow> kern taskEXIT_CRITICAL; ret () }"

definition osal_delay_ms :: "u64 \<Rightarrow> ('x machine_scheme, unit) state" where
  "osal_delay_ms msec = do {
     ticks \<leftarrow> gets (\<lambda>s. ms_to_ticks (env s) msec);
     _ \<leftarrow> kern (vTaskDelay ticks);
     ret ()
   }"

lemmas osal_defs =
  osal_task_create_def osal_ms2tick_def osal_task_delay_def osal_task_delete_def
  osal_semaphore_create_def osal_semaphore_counting_create_def osal_semaphore_delete_def
  osal_semaphore_post_def osal_semaphore_wait_def osal_semaphore_reset_def
  osal_mutex_create_def osal_mutex_delete_def osal_mutex_lock_def osal_mutex_unlock_def
  osal_get_kernel_state_def osal_enter_critical_def osal_exit_critical_def osal_delay_ms_def

section \<open>The layer only calls the kernel\<close>

fun is_kern :: "ev \<Rightarrow> bool" where
  "is_kern (Kern _ _) = True"
| "is_kern _ = False"

lemma osal_emits_kern:
  "emits is_kern (osal_task_create f a p)" "emits is_kern (osal_task_delay t)"
  "emits is_kern osal_task_delete" "emits is_kern osal_semaphore_create"
  "emits is_kern (osal_semaphore_delete h)" "emits is_kern (osal_semaphore_post h)"
  "emits is_kern (osal_semaphore_wait h t)" "emits is_kern osal_mutex_create"
  "emits is_kern (osal_mutex_delete h)" "emits is_kern (osal_mutex_lock h t)"
  "emits is_kern (osal_mutex_unlock h)" "emits is_kern osal_get_kernel_state"
  unfolding osal_defs by (intro emits_intros; simp)+

lemmas osal_emits [emits_intros] = osal_emits_kern [THEN emits_mono]

text \<open>
  A state component that no event changes is kept by every operation of the layer. Each
  driver's invariant is such a component: it does not look at the trace.
\<close>

definition trace_blind :: "('x machine_scheme \<Rightarrow> bool) \<Rightarrow> bool" where
  "trace_blind I \<longleftrightarrow> (\<forall>s t. I (s\<lparr>trace := t\<rparr>) = I s)"

lemma trace_blindI: "(\<And>s t. I (s\<lparr>trace := t\<rparr>) = I s) \<Longrightarrow> trace_blind I"
  by (simp add: trace_blind_def)

lemma keeps_emit_blind: "trace_blind I \<Longrightarrow> keeps I (emit e)"
  by (simp add: keeps_def trace_blind_def)

lemma keeps_prims_blind:
  assumes "trace_blind I"
  shows "keeps I (load32 a)" "keeps I (RD_REG32 r)" "keeps I (store32 a w)"
    "keeps I (WR_REG32 r w)" "keeps I (store8 a b)" "keeps I (store64 a d)"
    "keeps I (read_sysreg q)" "keeps I (write_sysreg q d)" "keeps I (kern c)"
    "keeps I (RD_REG64 r)" "keeps I (WR_REG64 r d)" "keeps I (WR_REG16 r e)"
    "keeps I (ub n)" "keeps I (c_shl32 w b)" "keeps I (c_shr32 w b)" "keeps I (peek d)"
  using assms by (simp_all add: keeps_def trace_blind_def WR_REG16_def)

lemma osal_keeps_blind:
  assumes "trace_blind I"
  shows "keeps I (osal_task_create f a p)" "keeps I (osal_task_delay t)"
    "keeps I osal_task_delete" "keeps I osal_semaphore_create"
    "keeps I (osal_semaphore_delete h)" "keeps I (osal_semaphore_post h)"
    "keeps I (osal_semaphore_wait h t)" "keeps I osal_mutex_create"
    "keeps I (osal_mutex_delete h)" "keeps I (osal_mutex_lock h t)"
    "keeps I (osal_mutex_unlock h)" "keeps I osal_get_kernel_state"
  unfolding osal_defs
  by (intro keeps_intros keeps_prims_blind [OF assms])+

end
