(* ===== verification/Arm_Gic.thy ===== *)
theory Arm_Gic
  imports Osal
begin

unbundle bit_operations_syntax

text \<open>
  The GICv3 driver, \<^verbatim>\<open>drivers/gic/arm_gic.c\<close>: register layouts as the C structures
  declare them, the driver's three static variables, and one definition per function. The two
  loops that wait for the hardware take fuel; running out of it is the value \<open>None\<close>.
\<close>

section \<open>Structure layout\<close>

text \<open>A member: its name, the size of an element in bytes and the number of elements.\<close>

type_synonym c_struct = "(string \<times> nat \<times> nat) list"

definition align_up :: "nat \<Rightarrow> nat \<Rightarrow> nat" where
  "align_up n a = (n + a - 1) div a * a"

fun offset_from :: "nat \<Rightarrow> c_struct \<Rightarrow> string \<Rightarrow> nat option" where
  "offset_from cur [] f = None"
| "offset_from cur ((g, sz, n) # ms) f =
     (if g = f then Some (align_up cur sz) else offset_from (align_up cur sz + sz * n) ms f)"

fun end_from :: "nat \<Rightarrow> c_struct \<Rightarrow> nat" where
  "end_from cur [] = cur"
| "end_from cur ((g, sz, n) # ms) = end_from (align_up cur sz + sz * n) ms"

definition offset_of :: "c_struct \<Rightarrow> string \<Rightarrow> nat" where
  "offset_of ms f = (case offset_from 0 ms f of Some n \<Rightarrow> n | None \<Rightarrow> 0)"

definition gic_v3_dist_if :: c_struct where
  "gic_v3_dist_if = [
     (''GICD_CTLR'', 4, 1), (''GICD_TYPER'', 4, 1), (''GICD_IIDR'', 4, 1), (''padding1'', 4, 5),
     (''GICD_FCTLR'', 4, 1), (''GICD_SAC'', 4, 1), (''padding2'', 4, 6),
     (''GICD_SETSPI_NSR'', 4, 1), (''padding3'', 4, 1), (''GICD_CLRSPI_NSR'', 4, 1),
     (''padding4'', 4, 1), (''GICD_SETSPI_SR'', 4, 1), (''padding5'', 4, 1),
     (''GICD_CLRSPI_SR'', 4, 1), (''padding6'', 4, 10), (''GICD_IGROUPR'', 4, 17),
     (''padding7'', 4, 15), (''GICD_ISENABLER'', 4, 17), (''padding8'', 4, 15),
     (''GICD_ICENABLER'', 4, 17), (''padding9'', 4, 15), (''GICD_ISPENDR'', 4, 17),
     (''padding10'', 4, 15), (''GICD_ICPENDR'', 4, 17), (''padding11'', 4, 15),
     (''GICD_ISACTIVER'', 4, 17), (''padding12'', 4, 15), (''GICD_ICACTIVER'', 4, 17),
     (''padding13'', 4, 22), (''GICD_IPRIORITYR'', 4, 136), (''padding14'', 4, 370),
     (''GICD_ICFGR'', 4, 34), (''padding15'', 4, 29), (''GICD_IGRPMODR'', 4, 17),
     (''padding16'', 4, 48), (''GICD_NSACR'', 4, 34), (''padding17'', 4, 5276),
     (''GICD_IROUTER'', 8, 544), (''padding561'', 4, 7042), (''GICD_ICLAR'', 4, 34),
     (''padding562'', 4, 29), (''GICD_IERRR'', 4, 17), (''padding563'', 4, 942),
     (''GICD_CFGID'', 4, 1), (''padding564'', 4, 1011), (''GICD_PIDR'', 4, 8),
     (''GICD_CIDR'', 4, 4)]"

definition gic_v3_rdist_lpis_if :: c_struct where
  "gic_v3_rdist_lpis_if = [
     (''GICR_CTLR'', 4, 1), (''GICR_IIDR'', 4, 1), (''GICR_TYPER'', 4, 2), (''padding1'', 4, 1),
     (''GICR_WAKER'', 4, 1), (''padding2'', 4, 2), (''GICR_FCTLR'', 4, 1), (''GICR_PWRR'', 4, 1),
     (''GICR_CLASS'', 4, 1), (''padding3'', 4, 17), (''GICR_PROPBASER'', 8, 1),
     (''GICR_PENDBASER'', 8, 1), (''padding5'', 4, 16340), (''GICR_PIDR'', 4, 8),
     (''GICR_CIDR'', 4, 4)]"

definition gic_v3_rdist_sgis_if :: c_struct where
  "gic_v3_rdist_sgis_if = [
     (''padding1'', 4, 32), (''GICR_IGROUPR0'', 4, 1), (''padding2'', 4, 31),
     (''GICR_ISENABLER0'', 4, 1), (''padding3'', 4, 31), (''GICR_ICENABLER0'', 4, 1),
     (''padding4'', 4, 31), (''GICR_ISPENDR0'', 4, 1), (''padding5'', 4, 31),
     (''GICR_ICPENDR0'', 4, 1), (''padding6'', 4, 31), (''GICR_ISACTIVER0'', 4, 1),
     (''padding7'', 4, 31), (''GICR_ICACTIVER0'', 4, 1), (''padding8'', 4, 31),
     (''GICR_IPRIORITYR'', 1, 32), (''padding9'', 4, 504), (''GICR_ICFGR'', 4, 2),
     (''padding10'', 4, 62), (''GICR_IGRPMODR0'', 4, 1), (''padding11'', 4, 63),
     (''GICR_NSACR'', 4, 1), (''padding12'', 4, 11391), (''GICR_MISCSTATUSR'', 4, 1),
     (''padding13'', 4, 1), (''GICR_IERRVR'', 4, 1), (''padding14'', 4, 1),
     (''GICR_SGIDR'', 8, 1), (''padding15'', 4, 3066), (''GICR_CFGID'', 4, 2)]"

text \<open>\<^verbatim>\<open>struct gic_v3_rdist_if\<close>: both members are aligned to \<^verbatim>\<open>0x10000\<close>.\<close>

definition rdist_sgis_offset :: nat where
  "rdist_sgis_offset = align_up (end_from 0 gic_v3_rdist_lpis_if) 0x10000"

definition rdist_size :: nat where
  "rdist_size = align_up (rdist_sgis_offset + end_from 0 gic_v3_rdist_sgis_if) 0x10000"

lemma gicd_offsets [simp]:
  "offset_of gic_v3_dist_if ''GICD_CTLR'' = 0x0"
  "offset_of gic_v3_dist_if ''GICD_TYPER'' = 0x4"
  "offset_of gic_v3_dist_if ''GICD_IGROUPR'' = 0x84"
  "offset_of gic_v3_dist_if ''GICD_ISENABLER'' = 0x104"
  "offset_of gic_v3_dist_if ''GICD_ICENABLER'' = 0x184"
  "offset_of gic_v3_dist_if ''GICD_ISPENDR'' = 0x204"
  "offset_of gic_v3_dist_if ''GICD_ICPENDR'' = 0x284"
  "offset_of gic_v3_dist_if ''GICD_IPRIORITYR'' = 0x420"
  "offset_of gic_v3_dist_if ''GICD_ICFGR'' = 0xC08"
  "offset_of gic_v3_dist_if ''GICD_IGRPMODR'' = 0xD04"
  "offset_of gic_v3_dist_if ''GICD_IROUTER'' = 0x6100"
  by (simp_all add: offset_of_def gic_v3_dist_if_def align_up_def)

lemma gicr_offsets [simp]:
  "offset_of gic_v3_rdist_lpis_if ''GICR_TYPER'' = 0x8"
  "offset_of gic_v3_rdist_lpis_if ''GICR_WAKER'' = 0x14"
  "offset_of gic_v3_rdist_sgis_if ''GICR_IGROUPR0'' = 0x80"
  "offset_of gic_v3_rdist_sgis_if ''GICR_ISENABLER0'' = 0x100"
  "offset_of gic_v3_rdist_sgis_if ''GICR_ICENABLER0'' = 0x180"
  "offset_of gic_v3_rdist_sgis_if ''GICR_ISPENDR0'' = 0x200"
  "offset_of gic_v3_rdist_sgis_if ''GICR_ICPENDR0'' = 0x280"
  "offset_of gic_v3_rdist_sgis_if ''GICR_IPRIORITYR'' = 0x400"
  "offset_of gic_v3_rdist_sgis_if ''GICR_ICFGR'' = 0xC00"
  "offset_of gic_v3_rdist_sgis_if ''GICR_IGRPMODR0'' = 0xD00"
  by (simp_all add: offset_of_def gic_v3_rdist_lpis_if_def gic_v3_rdist_sgis_if_def align_up_def)

lemma rdist_layout [simp]: "rdist_sgis_offset = 0x10000" "rdist_size = 0x20000"
  by (simp_all add: rdist_sgis_offset_def rdist_size_def gic_v3_rdist_lpis_if_def
      gic_v3_rdist_sgis_if_def align_up_def)

section \<open>State\<close>

definition REGISTER_SOCFPGA_DIST_BASE_ADDR :: u64 where
  "REGISTER_SOCFPGA_DIST_BASE_ADDR = 0x1D000000"
definition REGISTER_SOCFPGA_REDIS_BASE_ADDR :: u64 where
  "REGISTER_SOCFPGA_REDIS_BASE_ADDR = 0x1D060000"

text \<open>\<^verbatim>\<open>gic_dist\<close> and \<^verbatim>\<open>gic_redis\<close> are pointers, 0 is \<^verbatim>\<open>NULL\<close>.\<close>

record gic_state = machine +
  gic_dist :: u64
  gic_redis :: u64
  gic_max_redis :: u32

definition dist_reg :: "string \<Rightarrow> nat \<Rightarrow> u32 \<Rightarrow> 'x gic_state_scheme \<Rightarrow> u64" where
  "dist_reg f sz i s =
     gic_dist s + word_of_nat (offset_of gic_v3_dist_if f) + word_of_nat sz * ucast i"

definition lpis_reg :: "string \<Rightarrow> u32 \<Rightarrow> nat \<Rightarrow> 'x gic_state_scheme \<Rightarrow> u64" where
  "lpis_reg f idx i s =
     gic_redis s + word_of_nat rdist_size * ucast idx
       + word_of_nat (offset_of gic_v3_rdist_lpis_if f) + word_of_nat (4 * i)"

definition sgis_reg :: "string \<Rightarrow> nat \<Rightarrow> u32 \<Rightarrow> u32 \<Rightarrow> 'x gic_state_scheme \<Rightarrow> u64" where
  "sgis_reg f sz idx i s =
     gic_redis s + word_of_nat rdist_size * ucast idx + word_of_nat rdist_sgis_offset
       + word_of_nat (offset_of gic_v3_rdist_sgis_if f) + word_of_nat sz * ucast i"

section \<open>Constants\<close>

definition INTERRUPT_DCTRL_ENG0 :: u32 where "INTERRUPT_DCTRL_ENG0 = push_bit 0 1"
definition INTERRUPT_DCTRL_ENG1NS :: u32 where "INTERRUPT_DCTRL_ENG1NS = push_bit 1 1"
definition INTERRUPT_DCTRL_ENG1S :: u32 where "INTERRUPT_DCTRL_ENG1S = push_bit 2 1"
definition INTERRUPT_DCTRL_ARE_S :: u32 where "INTERRUPT_DCTRL_ARE_S = push_bit 4 1"
definition INTERRUPT_DCTRL_ARE_NS :: u32 where "INTERRUPT_DCTRL_ARE_NS = push_bit 5 1"
definition INTERRUPT_DCTRL_DS :: u32 where "INTERRUPT_DCTRL_DS = push_bit 6 1"

definition GICV3_GROUP0 :: u32 where "GICV3_GROUP0 = 0"
definition GICV3_GROUP1_SECURE :: u32 where "GICV3_GROUP1_SECURE = 1"
definition GICV3_GROUP1_NON_SECURE :: u32 where "GICV3_GROUP1_NON_SECURE = 2"
definition GICV3_CONFIG_LEVEL :: u32 where "GICV3_CONFIG_LEVEL = 0"
definition GICV3_CONFIG_EDGE :: u32 where "GICV3_CONFIG_EDGE = 2"
definition GICV3_ROUTE_MODE_ANY :: u32 where "GICV3_ROUTE_MODE_ANY = 0x80000000"
definition GICV3_ROUTE_MODE_COORDINATE :: u32 where "GICV3_ROUTE_MODE_COORDINATE = 0"
definition GICV3_ROUTE_AFF3_SHIFT :: nat where "GICV3_ROUTE_AFF3_SHIFT = 8"

lemmas gic_consts =
  GICV3_GROUP0_def GICV3_GROUP1_SECURE_def GICV3_GROUP1_NON_SECURE_def GICV3_CONFIG_LEVEL_def
  GICV3_CONFIG_EDGE_def GICV3_ROUTE_MODE_ANY_def GICV3_ROUTE_MODE_COORDINATE_def
  GICV3_ROUTE_AFF3_SHIFT_def

text \<open>\<^verbatim>\<open>portPRIORITY_SHIFT\<close> is 4: the interrupt controller has 16 priorities.\<close>

definition INTERRUPT_MAKE_PRIORITY :: "u8 \<Rightarrow> u32" where
  "INTERRUPT_MAKE_PRIORITY x = push_bit 4 (ucast x) AND 0xFF"

section \<open>Initialisation\<close>

fun gic_scan_redis :: "nat \<Rightarrow> u32 \<Rightarrow> ('x gic_state_scheme, u32 option) state" where
  "gic_scan_redis 0 idx = ret None"
| "gic_scan_redis (Suc fuel) idx = do {
     a \<leftarrow> gets (lpis_reg ''GICR_TYPER'' idx 0);
     v \<leftarrow> load32 a;
     if v AND push_bit 4 1 = 0 then gic_scan_redis fuel (idx + 1) else ret (Some idx)
   }"

definition gic_enable_gic :: "nat \<Rightarrow> ('x gic_state_scheme, int option) state" where
  "gic_enable_gic fuel = do {
     modify (\<lambda>s. s\<lparr>gic_dist := REGISTER_SOCFPGA_DIST_BASE_ADDR\<rparr>);
     modify (\<lambda>s. s\<lparr>gic_redis := REGISTER_SOCFPGA_REDIS_BASE_ADDR\<rparr>);
     d \<leftarrow> gets gic_dist;
     if d = 0 then ret (Some (- ENODEV))
     else do {
       found \<leftarrow> gic_scan_redis fuel 0;
       case found of
         None \<Rightarrow> ret None
       | Some idx \<Rightarrow> do {
           modify (\<lambda>s. s\<lparr>gic_max_redis := idx\<rparr>);
           a \<leftarrow> gets (dist_reg ''GICD_CTLR'' 4 0);
           store32 a (INTERRUPT_DCTRL_ARE_S OR INTERRUPT_DCTRL_ARE_NS OR INTERRUPT_DCTRL_DS);
           a \<leftarrow> gets (dist_reg ''GICD_CTLR'' 4 0);
           store32 a (INTERRUPT_DCTRL_ENG0 OR INTERRUPT_DCTRL_ENG1NS OR INTERRUPT_DCTRL_ENG1S
                      OR INTERRUPT_DCTRL_ARE_S OR INTERRUPT_DCTRL_ARE_NS OR INTERRUPT_DCTRL_DS);
           ret (Some 0)
         }
     }
   }"

text \<open>The \<^verbatim>\<open>do ... while (idx <= gic_max_redis)\<close> loop visits the indices in this order.\<close>

fun gic_find_redis :: "u32 \<Rightarrow> nat list \<Rightarrow> ('x gic_state_scheme, int) state" where
  "gic_find_redis affinity [] = ret (- ENOENT)"
| "gic_find_redis affinity (i # is) = do {
     a \<leftarrow> gets (lpis_reg ''GICR_TYPER'' (word_of_nat i) 1);
     v \<leftarrow> load32 a;
     if v = affinity then ret (int i) else gic_find_redis affinity is
   }"

definition gic_get_redis_id :: "u32 \<Rightarrow> ('x gic_state_scheme, int) state" where
  "gic_get_redis_id affinity = do {
     r \<leftarrow> gets gic_redis;
     if r = 0 then ret (- ENODEV)
     else do {
       mx \<leftarrow> gets gic_max_redis;
       gic_find_redis affinity [0..<Suc (unat mx)]
     }
   }"

fun gic_poll_waker :: "nat \<Rightarrow> u32 \<Rightarrow> ('x gic_state_scheme, unit option) state" where
  "gic_poll_waker 0 idx = ret None"
| "gic_poll_waker (Suc fuel) idx = do {
     a \<leftarrow> gets (lpis_reg ''GICR_WAKER'' idx 0);
     tmp \<leftarrow> load32 a;
     if tmp AND 0x4 \<noteq> 0 then gic_poll_waker fuel idx else ret (Some ())
   }"

definition gic_wakeup_redis :: "nat \<Rightarrow> u32 \<Rightarrow> ('x gic_state_scheme, int option) state" where
  "gic_wakeup_redis fuel idx = do {
     r \<leftarrow> gets gic_redis;
     if r = 0 then ret (Some (- ENODEV))
     else do {
       a \<leftarrow> gets (lpis_reg ''GICR_WAKER'' idx 0);
       tmp \<leftarrow> load32 a;
       store32 a (tmp AND NOT 0x2);
       woken \<leftarrow> gic_poll_waker fuel idx;
       case woken of None \<Rightarrow> ret None | Some _ \<Rightarrow> ret (Some 0)
     }
   }"

definition gic_is_valid_ext_spi :: "u32 \<Rightarrow> ('x gic_state_scheme, u32) state" where
  "gic_is_valid_ext_spi ident = do {
     a \<leftarrow> gets (dist_reg ''GICD_TYPER'' 4 0);
     t \<leftarrow> load32 a;
     if drop_bit 8 t AND 1 = 0 then ret 0
     else do {
       t \<leftarrow> load32 a;
       let max_spi = drop_bit 27 t AND 0x1F;
       let max_spi = (max_spi + 1) * 32;
       let max_spi = max_spi + 4096;
       if max_spi \<le> ident then ret 0 else ret 1
     }
   }"

definition gic_null :: "'x gic_state_scheme \<Rightarrow> bool" where
  "gic_null s \<longleftrightarrow> gic_redis s = 0 \<or> gic_dist s = 0"

section \<open>Configuration of an interrupt\<close>

definition gic_set_int_priority :: "u32 \<Rightarrow> u32 \<Rightarrow> u8 \<Rightarrow> ('x gic_state_scheme, int) state" where
  "gic_set_int_priority ident idx priority =
     (if priority AND 0xF0 = 0xF0 then ret (- EINVAL)
      else do {
        null \<leftarrow> gets gic_null;
        mx \<leftarrow> gets gic_max_redis;
        if null then ret (- ENODEV)
        else if ident < 31 then
          if idx > mx then ret (- ERANGE)
          else do {
            a \<leftarrow> gets (sgis_reg ''GICR_IPRIORITYR'' 1 idx ident);
            store8 a (ucast (INTERRUPT_MAKE_PRIORITY priority));
            ret 0
          }
        else if ident < 1020 then
          if ident = 31 then ret (- ERANGE)
          else do {
            let ident = ident - 32;
            let index = ident div 4;
            let offset = unat (ident AND 0x03) * 8;
            a \<leftarrow> gets (dist_reg ''GICD_IPRIORITYR'' 4 index);
            priority_temp \<leftarrow> load32 a;
            store32 a ((priority_temp AND NOT (push_bit offset 0xFF))
                       OR push_bit offset (INTERRUPT_MAKE_PRIORITY priority));
            ret 0
          }
        else ret (- ERANGE)
      })"

text \<open>The \<^verbatim>\<open>switch (security)\<close> of both halves of \<^verbatim>\<open>gic_set_int_group\<close>.\<close>

definition gic_group_bits :: "u32 \<Rightarrow> u32 \<Rightarrow> u32 \<Rightarrow> u32 \<Rightarrow> (u32 \<times> u32) option" where
  "gic_group_bits security b grp mod1 =
     (if security = GICV3_GROUP0 then Some (grp AND NOT b, mod1 AND NOT b)
      else if security = GICV3_GROUP1_SECURE then Some (grp AND NOT b, mod1 OR b)
      else if security = GICV3_GROUP1_NON_SECURE then Some (grp OR b, mod1 AND NOT b)
      else None)"

definition gic_set_int_group :: "u32 \<Rightarrow> u32 \<Rightarrow> u32 \<Rightarrow> ('x gic_state_scheme, int) state" where
  "gic_set_int_group ident idx security = do {
     null \<leftarrow> gets gic_null;
     mx \<leftarrow> gets gic_max_redis;
     if null then ret (- ENODEV)
     else if ident < 31 then
       if idx > mx then ret (- ERANGE)
       else do {
         let b = push_bit (unat ident) 1;
         ga \<leftarrow> gets (sgis_reg ''GICR_IGROUPR0'' 4 idx 0);
         ma \<leftarrow> gets (sgis_reg ''GICR_IGRPMODR0'' 4 idx 0);
         grp \<leftarrow> load32 ga;
         mod1 \<leftarrow> load32 ma;
         case gic_group_bits security b grp mod1 of
           None \<Rightarrow> ret (- EINVAL)
         | Some (g, m) \<Rightarrow> do { store32 ga g; store32 ma m; ret 0 }
       }
     else if ident < 1020 then
       if ident = 31 then ret (- ERANGE)
       else do {
         let ident = ident - 32;
         let bank = ident div 32;
         let b = push_bit (unat (ident AND 0x1F)) 1;
         ga \<leftarrow> gets (dist_reg ''GICD_IGROUPR'' 4 bank);
         ma \<leftarrow> gets (dist_reg ''GICD_IGRPMODR'' 4 bank);
         grp \<leftarrow> load32 ga;
         mod1 \<leftarrow> load32 ma;
         case gic_group_bits security b grp mod1 of
           None \<Rightarrow> ret (- EINVAL)
         | Some (g, m) \<Rightarrow> do { store32 ga g; store32 ma m; ret 0 }
       }
     else ret (- ERANGE)
   }"

definition gic_set_int_route :: "u32 \<Rightarrow> u32 \<Rightarrow> u32 \<Rightarrow> ('x gic_state_scheme, int) state" where
  "gic_set_int_route ident mode affinity = do {
     d \<leftarrow> gets gic_dist;
     if d = 0 then ret (- ENODEV)
     else do {
       bad \<leftarrow> (if ident \<le> 31 \<or> 1020 \<le> ident then
                 if ident \<le> 4095 \<or> 5120 \<le> ident then ret True
                 else do { v \<leftarrow> gic_is_valid_ext_spi ident; ret (v = 0) }
               else ret False);
       if bad then ret (- ERANGE)
       else do {
         let ident = ident - 32;
         let tmp = ucast (affinity AND 0x00FFFFFF)
                   OR push_bit GICV3_ROUTE_AFF3_SHIFT (ucast affinity AND 0xFF000000)
                   OR (ucast mode :: u64);
         if 31 < ident \<and> ident < 1020 then do {
           a \<leftarrow> gets (dist_reg ''GICD_IROUTER'' 8 ident);
           store64 a tmp;
           ret 0
         } else ret 0
       }
     }
   }"

definition gic_enable_int :: "u32 \<Rightarrow> u32 \<Rightarrow> ('x gic_state_scheme, int) state" where
  "gic_enable_int ident idx = do {
     null \<leftarrow> gets gic_null;
     mx \<leftarrow> gets gic_max_redis;
     if null then ret (- ENODEV)
     else if ident < 32 then
       if idx > mx then ret (- ERANGE)
       else do {
         whenM (ident < 16) (do {
           a \<leftarrow> gets (sgis_reg ''GICR_ICPENDR0'' 4 idx 0);
           v \<leftarrow> load32 a;
           store32 a (v OR push_bit (unat ident) 1)
         });
         a \<leftarrow> gets (sgis_reg ''GICR_ISENABLER0'' 4 idx 0);
         store32 a (push_bit (unat ident) 1);
         ret 0
       }
     else if ident < 1020 then
       if ident = 31 then ret (- ERANGE)
       else do {
         let ident = ident - 32;
         let bank = ident div 32;
         let b = push_bit (unat (ident AND 0x1F)) 1;
         a \<leftarrow> gets (dist_reg ''GICD_ISENABLER'' 4 bank);
         store32 a b;
         ret 0
       }
     else ret (- EINVAL)
   }"

definition gic_disable_int :: "u32 \<Rightarrow> u32 \<Rightarrow> ('x gic_state_scheme, int) state" where
  "gic_disable_int ident idx = do {
     null \<leftarrow> gets gic_null;
     mx \<leftarrow> gets gic_max_redis;
     if null then ret (- ENODEV)
     else if ident < 31 then
       if idx > mx then ret (- ERANGE)
       else do {
         a \<leftarrow> gets (sgis_reg ''GICR_ICENABLER0'' 4 idx 0);
         store32 a (push_bit (unat (ident AND 0x1F)) 1);
         ret 0
       }
     else if ident < 1020 then
       if ident = 31 then ret (- ERANGE)
       else do {
         let ident = ident - 32;
         let bank = ident div 32;
         let b = push_bit (unat (ident AND 0x1F)) 1;
         a \<leftarrow> gets (dist_reg ''GICD_ICENABLER'' 4 bank);
         store32 a b;
         ret 0
       }
     else ret (- EINVAL)
   }"

definition gic_set_int_type :: "u32 \<Rightarrow> u32 \<Rightarrow> u32 \<Rightarrow> ('x gic_state_scheme, int) state" where
  "gic_set_int_type ident idx ty = do {
     null \<leftarrow> gets gic_null;
     if null then ret (- ENODEV)
     else if ident < 31 then
       if ident < 16 then ret 0
       else do {
         a \<leftarrow> gets (sgis_reg ''GICR_ICFGR'' 4 idx 1);
         store32 a (push_bit (unat (ident - 16) * 2) (ty AND 0x3));
         ret 0
       }
     else if ident < 1020 then
       if ident = 31 then ret (- ERANGE)
       else do {
         let ident = ident - 32;
         let ty = ty AND 0x3;
         let bank = ident div 16;
         let ident = ident AND 0xF;
         let ident = ident * 2;
         let conf = push_bit (unat ident) ty;
         a \<leftarrow> gets (dist_reg ''GICD_ICFGR'' 4 bank);
         tmp \<leftarrow> load32 a;
         let tmp = tmp AND NOT (push_bit (unat ident) 0x3);
         let tmp = tmp OR conf;
         store32 a tmp;
         ret 0
       }
     else ret (- EINVAL)
   }"

section \<open>Pending state\<close>

definition gic_clear_int_pending :: "u32 \<Rightarrow> u32 \<Rightarrow> ('x gic_state_scheme, int) state" where
  "gic_clear_int_pending ident idx = do {
     null \<leftarrow> gets gic_null;
     mx \<leftarrow> gets gic_max_redis;
     if null then ret (- ENODEV)
     else if ident < 31 then
       if idx > mx then ret (- ERANGE)
       else do {
         a \<leftarrow> gets (sgis_reg ''GICR_ICPENDR0'' 4 idx 0);
         v \<leftarrow> load32 a;
         store32 a (v OR push_bit (unat ident) 1);
         ret 0
       }
     else if ident < 1020 then
       if ident = 31 then ret (- ERANGE)
       else do {
         let ident = ident - 32;
         let bank = ident div 32;
         let b = push_bit (unat (ident AND 0x1F)) 1;
         a \<leftarrow> gets (dist_reg ''GICD_ICPENDR'' 4 bank);
         store32 a b;
         ret 0
       }
     else ret (- EINVAL)
   }"

definition gic_set_int_pending :: "u32 \<Rightarrow> u32 \<Rightarrow> ('x gic_state_scheme, int) state" where
  "gic_set_int_pending ident0 idx = do {
     let ident = ident0 - 32;
     null \<leftarrow> gets gic_null;
     mx \<leftarrow> gets gic_max_redis;
     if null then ret (- ENODEV)
     else if ident < 31 then
       if idx > mx then ret (- ERANGE)
       else do {
         a \<leftarrow> gets (sgis_reg ''GICR_ISPENDR0'' 4 idx 0);
         v \<leftarrow> load32 a;
         store32 a (v OR push_bit (unat (ident AND 0x1F)) 1);
         ret 0
       }
     else if ident < 1020 then
       if ident = 31 then ret (- ERANGE)
       else do {
         let ident = ident - 32;
         let bank = ident div 32;
         let b = push_bit (unat (ident AND 0x1F)) 1;
         a \<leftarrow> gets (dist_reg ''GICD_ISPENDR'' 4 bank);
         v \<leftarrow> load32 a;
         store32 a (v OR b);
         ret 0
       }
     else ret (- EINVAL)
   }"

definition gic_enable_interrupts :: "('x gic_state_scheme, unit) state" where
  "gic_enable_interrupts = write_sysreg DAIFClr 0xF"

lemmas gic_defs =
  gic_get_redis_id_def gic_wakeup_redis_def gic_is_valid_ext_spi_def gic_set_int_priority_def
  gic_set_int_group_def gic_set_int_route_def gic_enable_int_def gic_disable_int_def
  gic_set_int_type_def gic_clear_int_pending_def gic_set_int_pending_def
  gic_enable_interrupts_def

section \<open>What stays unchanged\<close>

text \<open>The operations after initialisation only add to the trace.\<close>

definition same_but_trace :: "'x machine_scheme \<Rightarrow> 'x machine_scheme \<Rightarrow> bool" where
  "same_but_trace s0 s \<longleftrightarrow> s = s0\<lparr>trace := trace s\<rparr>"

lemma same_blind: "trace_blind (same_but_trace s0)"
proof (rule trace_blindI)
  fix s :: "'a machine_scheme" and t
  show "same_but_trace s0 (s\<lparr>trace := t\<rparr>) = same_but_trace s0 s"
    by (cases s0; cases s) (simp add: same_but_trace_def)
qed

lemma gic_find_keeps:
  assumes "trace_blind I"
  shows "keeps I (gic_find_redis affinity is)"
  by (induction "is") (auto intro!: keeps_intros keeps_prims_blind [OF assms])

lemma gic_poll_keeps:
  assumes "trace_blind I"
  shows "keeps I (gic_poll_waker fuel idx)"
  by (induction fuel) (auto intro!: keeps_intros keeps_prims_blind [OF assms])

lemma gic_keeps_blind:
  assumes "trace_blind I"
  shows "keeps I (gic_get_redis_id a)" "keeps I (gic_wakeup_redis fuel i)"
    "keeps I (gic_is_valid_ext_spi n)" "keeps I (gic_set_int_priority n i p)"
    "keeps I (gic_set_int_group n i g)" "keeps I (gic_set_int_route n md a)"
    "keeps I (gic_enable_int n i)" "keeps I (gic_disable_int n i)"
    "keeps I (gic_set_int_type n i ty)" "keeps I (gic_clear_int_pending n i)"
    "keeps I (gic_set_int_pending n i)" "keeps I gic_enable_interrupts"
  unfolding gic_defs
  by (intro keeps_intros keeps_prims_blind [OF assms] gic_find_keeps [OF assms]
      gic_poll_keeps [OF assms])+

section \<open>Architectural addresses\<close>

text \<open>
  The GICv3 architecture numbers the distributor's registers from interrupt 0: interrupt
  \<open>n\<close> has bit \<open>n mod 32\<close> of word \<open>n div 32\<close> of a one-bit register bank, and so on. The
  driver's structures start the arrays at interrupt 32 and the code subtracts 32 first; these
  lemmas say that the two agree.
\<close>

definition GICD_arch :: "nat \<Rightarrow> nat \<Rightarrow> nat \<Rightarrow> 'x gic_state_scheme \<Rightarrow> u64" where
  "GICD_arch reg stride i s = gic_dist s + word_of_nat (reg + stride * i)"

lemma unat_spi:
  fixes n :: u32
  assumes "32 \<le> n"
  shows "unat (n - 32) = unat n - 32" "32 \<le> unat n"
  using assms by (simp_all add: unat_sub word_le_nat_alt)

lemma unat_and_low:
  "unat (n AND 0x1F :: u32) = unat n mod 32" "unat (n AND 0xF :: u32) = unat n mod 16"
  "unat (n AND 0x3 :: u32) = unat n mod 4"
proof -
  have "unat (n AND mask k) = unat n mod 2 ^ k" for k
    by (metis take_bit_eq_mask take_bit_eq_mod unsigned_take_bit_eq)
  from this [of 5] this [of 4] this [of 2]
  show "unat (n AND 0x1F :: u32) = unat n mod 32" "unat (n AND 0xF :: u32) = unat n mod 16"
    "unat (n AND 0x3 :: u32) = unat n mod 4"
    by (simp_all add: mask_eq_exp_minus_1)
qed

lemma ucast_as_nat: "(ucast (i :: u32) :: u64) = word_of_nat (unat i)"
  by (simp add: unsigned_of_nat)

lemma dist_reg_arch:
  fixes n :: u32
  assumes "32 \<le> n" and "32 mod d = 0" and "0 < d" and "d < 2 ^ 32"
    and "offset_of gic_v3_dist_if f = reg + sz * (32 div d)"
  shows "dist_reg f sz ((n - 32) div word_of_nat d) s = GICD_arch reg sz (unat n div d) s"
proof -
  have "unat ((n - 32) div word_of_nat d) = (unat n - 32) div d"
    using assms(4)
    by (simp add: unat_div unat_spi [OF assms(1)] unsigned_of_nat take_bit_nat_eq_self)
  moreover have "unat n div d = 32 div d + (unat n - 32) div d"
    using unat_spi(2) [OF assms(1)] assms(2,3)
    by (metis div_plus_div_distrib_dvd_left le_add_diff_inverse mod_0_imp_dvd)
  ultimately show ?thesis
    by (simp add: dist_reg_def GICD_arch_def assms(5) ucast_as_nat algebra_simps)
qed

lemmas spi_bank_addr =
  dist_reg_arch [where d = 32 and sz = 4, simplified]
  dist_reg_arch [where d = 16 and sz = 4, simplified]
  dist_reg_arch [where d = 4 and sz = 4, simplified]
  dist_reg_arch [where d = 1 and sz = 8, simplified]

text \<open>The bit of an interrupt in a one-bit bank, after the driver's subtraction.\<close>

lemma spi_bit:
  fixes n :: u32
  assumes "32 \<le> n"
  shows "unat ((n - 32) AND 0x1F) = unat n mod 32" "unat ((n - 32) AND 0xF) = unat n mod 16"
    "unat ((n - 32) AND 0x3) = unat n mod 4"
proof -
  have sub: "(m - 32) mod d = m mod d" if "32 \<le> m" and "32 mod d = 0" for m d :: nat
    using that by (metis dvd_imp_mod_0 le_add_diff_inverse mod_0_imp_dvd mod_add_left_eq add.left_neutral)
  show "unat ((n - 32) AND 0x1F) = unat n mod 32" "unat ((n - 32) AND 0xF) = unat n mod 16"
    "unat ((n - 32) AND 0x3) = unat n mod 4"
    by (simp_all add: unat_and_low unat_spi [OF assms] sub)
qed

definition is_spi :: "u32 \<Rightarrow> bool" where
  "is_spi n \<longleftrightarrow> 32 \<le> n \<and> n < 1020"

lemma is_spiD:
  assumes "is_spi n"
  shows "32 \<le> n" "n < 1020" "\<not> n < 31" "\<not> n < 32" "n \<noteq> 31" "\<not> n \<le> 31" "\<not> 1020 \<le> n"
  using assms by (auto simp: is_spi_def word_less_nat_alt word_le_nat_alt)

text \<open>
  C30. Enabling, disabling and clearing the pending state of a shared peripheral interrupt
  \<open>n\<close> is one write of the single bit \<open>n mod 32\<close> to word \<open>n div 32\<close> of the architectural
  banks GICD_ISENABLER (0x100), GICD_ICENABLER (0x180) and GICD_ICPENDR (0x280): these are
  write-one registers, so no other interrupt is affected.
\<close>

theorem spi_enable_disable_clear:
  assumes "\<not> gic_null s" and "is_spi n"
  shows "run_state (gic_enable_int n idx) s =
      (0, s\<lparr>trace := Wr32 (GICD_arch 0x100 4 (unat n div 32) s) (push_bit (unat n mod 32) 1) # trace s\<rparr>)
    \<and> run_state (gic_disable_int n idx) s =
      (0, s\<lparr>trace := Wr32 (GICD_arch 0x180 4 (unat n div 32) s) (push_bit (unat n mod 32) 1) # trace s\<rparr>)
    \<and> run_state (gic_clear_int_pending n idx) s =
      (0, s\<lparr>trace := Wr32 (GICD_arch 0x280 4 (unat n div 32) s) (push_bit (unat n mod 32) 1) # trace s\<rparr>)"
  using assms is_spiD [OF assms(2)]
  by (simp add: gic_enable_int_def gic_disable_int_def gic_clear_int_pending_def Let_def
      spi_bank_addr spi_bit)

definition gic_machine :: gic_state where
  "gic_machine = \<lparr>env = ram_env, trace = [], mem = (\<lambda>_. 0), gic_dist = REGISTER_SOCFPGA_DIST_BASE_ADDR,
     gic_redis = REGISTER_SOCFPGA_REDIS_BASE_ADDR, gic_max_redis = 3\<rparr>"

lemma gic_machine_simps [simp]:
  "env gic_machine = ram_env" "trace gic_machine = []" "gic_dist gic_machine = 0x1D000000"
  "gic_redis gic_machine = 0x1D060000" "gic_max_redis gic_machine = 3" "\<not> gic_null gic_machine"
  by (simp_all add: gic_machine_def REGISTER_SOCFPGA_DIST_BASE_ADDR_def
      REGISTER_SOCFPGA_REDIS_BASE_ADDR_def gic_null_def)

theorem spi_enable_disable_clear_witness:
  "trace (final (gic_enable_int 145 0) gic_machine) = [Wr32 0x1D000110 0x20000]"
  using spi_enable_disable_clear [of gic_machine 145 0]
  by (simp add: is_spi_def GICD_arch_def)

text \<open>
  Setting the trigger type of a shared interrupt \<open>n\<close> is a read-modify-write of word
  \<open>n div 16\<close> of GICD_ICFGR (0xC00) in which the two-bit field \<open>n mod 16\<close> becomes the type and
  the fields of the fifteen other interrupts keep their values.
\<close>

theorem spi_type_field:
  assumes "\<not> gic_null s" and "is_spi n"
  shows "\<exists>w. run_state (gic_set_int_type n idx ty) s =
      (0, s\<lparr>trace := Wr32 (GICD_arch 0xC00 4 (unat n div 16) s) w
             # Rd32 (GICD_arch 0xC00 4 (unat n div 16) s)
                 (hw_rd32 (env s) (trace s) (GICD_arch 0xC00 4 (unat n div 16) s)) # trace s\<rparr>)
    \<and> (\<forall>j < 16. drop_bit (2 * j) w AND 3 =
         (if j = unat n mod 16 then ty AND 3
          else drop_bit (2 * j) (hw_rd32 (env s) (trace s) (GICD_arch 0xC00 4 (unat n div 16) s)) AND 3))"
proof -
  let ?a = "GICD_arch 0xC00 4 (unat n div 16) s"
  let ?v = "hw_rd32 (env s) (trace s) ?a"
  let ?k = "unat n mod 16"
  define w where "w = (?v AND NOT (push_bit (2 * ?k) 3)) OR push_bit (2 * ?k) (ty AND 3)"
  have dbl: "unat (((n - 32) AND 0xF) * 2) = 2 * ?k"
    by (simp add: unat_mult_no_wrap spi_bit [OF is_spiD(1) [OF assms(2)]])
  have "run_state (gic_set_int_type n idx ty) s = (0, s\<lparr>trace := Wr32 ?a w # Rd32 ?a ?v # trace s\<rparr>)"
    using assms(1) is_spiD [OF assms(2)]
    by (simp add: gic_set_int_type_def Let_def spi_bank_addr dbl w_def)
  moreover have "drop_bit (2 * j) w AND 3 = (if j = ?k then ty AND 3 else drop_bit (2 * j) ?v AND 3)" for j
    using lane_update [of 2 ?k "ty AND 3" j ?v] two_bits [of ty]
    by (auto simp: mask_2 w_def)
  ultimately show ?thesis
    by blast
qed

theorem spi_type_field_witness:
  "\<exists>w. trace (final (gic_set_int_type 145 0 2) gic_machine) = [Wr32 0x1D000C24 w, Rd32 0x1D000C24 0]
     \<and> drop_bit 2 w AND 3 = 2 \<and> drop_bit 4 w AND 3 = 0"
proof -
  obtain w where "run_state (gic_set_int_type 145 0 2) gic_machine =
      (0, gic_machine\<lparr>trace := [Wr32 0x1D000C24 w, Rd32 0x1D000C24 0]\<rparr>)"
    and "\<forall>j < 16. drop_bit (2 * j) w AND 3 = (if j = (1 :: nat) then 2 else 0)"
    using spi_type_field [of gic_machine 145 0 2]
    by (auto simp: is_spi_def GICD_arch_def ram_env_def)
  moreover from this(2) [rule_format, of 1] this(2) [rule_format, of 2]
  have "drop_bit 2 w AND 3 = 2" "drop_bit 4 w AND 3 = 0"
    by simp_all
  ultimately show ?thesis
    by auto
qed

lemma priority_bound: "unat (INTERRUPT_MAKE_PRIORITY p) < 2 ^ 8"
proof -
  have "INTERRUPT_MAKE_PRIORITY p \<le> 0xFF"
    unfolding INTERRUPT_MAKE_PRIORITY_def by (rule word_and_le1)
  then show ?thesis
    by (simp add: word_le_nat_alt)
qed

text \<open>
  C31. Setting the priority of a shared interrupt \<open>n\<close> is a read-modify-write of word
  \<open>n div 4\<close> of GICD_IPRIORITYR (0x400) in which byte \<open>n mod 4\<close> becomes the priority in its
  upper four bits and the bytes of the three other interrupts keep their values; a priority
  whose upper half is all ones is refused without an access.
\<close>

theorem spi_priority_byte:
  assumes "\<not> gic_null s" and "is_spi n"
  shows "if p AND 0xF0 = 0xF0 then run_state (gic_set_int_priority n idx p) s = (- EINVAL, s)
    else \<exists>w. run_state (gic_set_int_priority n idx p) s =
      (0, s\<lparr>trace := Wr32 (GICD_arch 0x400 4 (unat n div 4) s) w
             # Rd32 (GICD_arch 0x400 4 (unat n div 4) s)
                 (hw_rd32 (env s) (trace s) (GICD_arch 0x400 4 (unat n div 4) s)) # trace s\<rparr>)
    \<and> (\<forall>j < 4. drop_bit (8 * j) w AND 0xFF =
         (if j = unat n mod 4 then INTERRUPT_MAKE_PRIORITY p
          else drop_bit (8 * j) (hw_rd32 (env s) (trace s) (GICD_arch 0x400 4 (unat n div 4) s)) AND 0xFF))"
proof (cases "p AND 0xF0 = 0xF0")
  case True
  then show ?thesis by (simp add: gic_set_int_priority_def)
next
  case False
  let ?a = "GICD_arch 0x400 4 (unat n div 4) s"
  let ?v = "hw_rd32 (env s) (trace s) ?a"
  let ?k = "unat n mod 4"
  define w where "w = (?v AND NOT (push_bit (8 * ?k) 0xFF)) OR push_bit (8 * ?k) (INTERRUPT_MAKE_PRIORITY p)"
  have "run_state (gic_set_int_priority n idx p) s = (0, s\<lparr>trace := Wr32 ?a w # Rd32 ?a ?v # trace s\<rparr>)"
    using assms(1) is_spiD [OF assms(2)] False
    by (simp add: gic_set_int_priority_def Let_def spi_bank_addr spi_bit w_def mult.commute)
  moreover have "mask 8 = (0xFF :: u32)"
    by (simp add: mask_eq_exp_minus_1)
  then have "drop_bit (8 * j) w AND 0xFF =
      (if j = ?k then INTERRUPT_MAKE_PRIORITY p else drop_bit (8 * j) ?v AND 0xFF)" for j
    using lane_update [of 8 ?k "INTERRUPT_MAKE_PRIORITY p" j ?v] priority_bound
    by (simp add: w_def)
  ultimately show ?thesis
    using False by auto
qed

theorem spi_priority_byte_witness:
  "\<exists>w. trace (final (gic_set_int_priority 145 0 14) gic_machine) = [Wr32 0x1D000490 w, Rd32 0x1D000490 0]
     \<and> drop_bit 8 w AND 0xFF = 0xE0"
proof -
  obtain w where "run_state (gic_set_int_priority 145 0 14) gic_machine =
      (0, gic_machine\<lparr>trace := [Wr32 0x1D000490 w, Rd32 0x1D000490 0]\<rparr>)"
    and "\<forall>j < 4. drop_bit (8 * j) w AND 0xFF = (if j = (1 :: nat) then 0xE0 else 0)"
    using spi_priority_byte [of gic_machine 145 14 0]
    by (auto simp: is_spi_def GICD_arch_def ram_env_def INTERRUPT_MAKE_PRIORITY_def)
  moreover from this(2) [rule_format, of 1] have "drop_bit 8 w AND 0xFF = 0xE0"
    by simp
  ultimately show ?thesis
    by auto
qed

text \<open>The value of GICD_IROUTER: affinity level 3 moves up to bits 32 to 39.\<close>

definition irouter_value :: "u32 \<Rightarrow> u32 \<Rightarrow> u64" where
  "irouter_value mode affinity =
     ucast (affinity AND 0x00FFFFFF) OR push_bit 8 (ucast affinity AND 0xFF000000) OR ucast mode"

text \<open>
  Routing reports success for every shared interrupt, but only those from 64 on are
  routed: for \<open>n\<close> in 64..1019 the affinity is written to GICD_IROUTER<n> (0x6000 + 8n); for
  \<open>n\<close> in 32..63 the function returns 0 without any access, because the bound is tested after
  the number was reduced by 32.
\<close>

theorem spi_route:
  assumes "gic_dist s \<noteq> 0" and "is_spi n"
  shows "run_state (gic_set_int_route n mode affinity) s =
    (0, if n < 64 then s
        else s\<lparr>trace := Wr64 (GICD_arch 0x6000 8 (unat n) s) (irouter_value mode affinity) # trace s\<rparr>)"
proof -
  have "31 < n - 32 \<longleftrightarrow> \<not> n < 64" and "n - 32 < 1020"
    using is_spiD(1,2) [OF assms(2)]
    by (auto simp: word_less_nat_alt word_le_nat_alt unat_sub)
  then show ?thesis
    using assms(1) is_spiD [OF assms(2)]
    by (simp add: gic_set_int_route_def Let_def spi_bank_addr irouter_value_def gic_consts)
qed

theorem spi_route_witness:
  "result (gic_set_int_route 49 0 0x100) gic_machine = 0
   \<and> trace (final (gic_set_int_route 49 0 0x100) gic_machine) = []
   \<and> trace (final (gic_set_int_route 145 0 0x100) gic_machine) = [Wr64 0x1D006488 0x100]"
  using spi_route [of gic_machine 49 0 "0x100"] spi_route [of gic_machine 145 0 "0x100"]
  by (simp add: is_spi_def GICD_arch_def irouter_value_def)

text \<open>
  Setting the pending state of the shared interrupt \<open>n\<close> sets that of interrupt
  \<open>n - 32\<close>: the number is reduced by 32 twice. From 64 on this is another shared interrupt's
  bit in GICD_ISPENDR (0x200), read and written back with the bits of every interrupt of the
  word that was pending; for 32..62 it is the private interrupt's bit in the redistributor.
\<close>

theorem spi_set_pending_is_off_by_32:
  assumes "\<not> gic_null s" and "is_spi n" and "idx \<le> gic_max_redis s" and "n \<noteq> 63"
  shows "let m = unat n - 32;
             a = (if n < 64 then sgis_reg ''GICR_ISPENDR0'' 4 idx 0 s else GICD_arch 0x200 4 (m div 32) s);
             v = hw_rd32 (env s) (trace s) a
         in run_state (gic_set_int_pending n idx) s =
            (0, s\<lparr>trace := Wr32 a (v OR push_bit (m mod 32) 1) # Rd32 a v # trace s\<rparr>)"
proof -
  note spi = is_spiD [OF assms(2)]
  have sub: "unat (n - 32) = unat n - 32" "32 \<le> unat n" "unat n < 1020"
    using spi(1,2) by (auto simp: unat_spi word_less_nat_alt word_le_nat_alt)
  have n63: "unat n \<noteq> 63"
    using assms(4) by (auto simp: word_unat_eq_iff)
  show ?thesis
  proof (cases "n < 64")
    case True
    then have "n - 32 < 31"
      using sub n63 by (simp add: word_less_nat_alt)
    then show ?thesis
      using True assms(1,3) sub
      by (simp add: gic_set_int_pending_def Let_def unat_and_low leD)
  next
    case False
    then have "\<not> n - 32 < 31" "n - 32 < 1020" "n - 32 \<noteq> 31" "32 \<le> n - 32"
      using sub by (auto simp: word_less_nat_alt word_le_nat_alt word_unat_eq_iff)
    then show ?thesis
      using False assms(1,3) sub
      using spi_bank_addr(1) [where n = "n - 32" and reg = "0x200" and f = "''GICD_ISPENDR''" and s = s]
        spi_bit(1) [of "n - 32"]
      by (simp add: gic_set_int_pending_def Let_def)
  qed
qed

theorem spi_set_pending_is_off_by_32_witness:
  "trace (final (gic_set_int_pending 145 0) gic_machine) = [Wr32 0x1D00020C 0x20000, Rd32 0x1D00020C 0]"
  using spi_set_pending_is_off_by_32 [of gic_machine 145 0]
  by (simp add: is_spi_def GICD_arch_def ram_env_def Let_def)

text \<open>
  Setting the trigger type of a private interrupt (16..30) is not a read-modify-write: one
  write replaces the whole of GICR_ICFGR1, so the field of every other private interrupt
  becomes 0 (level), and the redistributor index is not checked.
\<close>

theorem ppi_type_resets_others:
  assumes "\<not> gic_null s" and "16 \<le> n" and "n < 31"
  shows "\<exists>w. run_state (gic_set_int_type n idx ty) s =
      (0, s\<lparr>trace := Wr32 (sgis_reg ''GICR_ICFGR'' 4 idx 1 s) w # trace s\<rparr>)
    \<and> (\<forall>j < 16. drop_bit (2 * j) w AND 3 = (if j = unat n - 16 then ty AND 3 else 0))"
proof -
  define k where "k = unat n - 16"
  have k: "unat (n - 16) = k" "k < 15"
    using assms(2,3) by (simp_all add: k_def unat_sub word_less_nat_alt word_le_nat_alt)
  define w where "w = push_bit (2 * k) (ty AND 3)"
  have "run_state (gic_set_int_type n idx ty) s =
      (0, s\<lparr>trace := Wr32 (sgis_reg ''GICR_ICFGR'' 4 idx 1 s) w # trace s\<rparr>)"
    using assms by (simp add: gic_set_int_type_def Let_def k w_def mult.commute)
  moreover have "drop_bit (2 * j) w AND 3 = (if j = k then ty AND 3 else 0)" for j
    using lane_update [of 2 k "ty AND 3" j 0] two_bits [of ty] k(2)
    by (auto simp: mask_2 w_def)
  ultimately show ?thesis
    unfolding k_def by blast
qed

theorem ppi_type_resets_others_witness:
  "\<exists>w. trace (final (gic_set_int_type 30 9 2) gic_machine) = [Wr32 0x1D190C04 w]"
  using ppi_type_resets_others [of gic_machine 30 9 2]
  by (auto simp: sgis_reg_def)

text \<open>The affinity registers do not change: one value per redistributor.\<close>

definition affinities :: "'x gic_state_scheme \<Rightarrow> (nat \<Rightarrow> u32) \<Rightarrow> bool" where
  "affinities s f \<longleftrightarrow> (\<forall>t i. hw_rd32 (env s) t (lpis_reg ''GICR_TYPER'' (word_of_nat i) 1 s) = f i)"

lemma lpis_reg_trace [simp]: "lpis_reg f i j (s\<lparr>trace := t\<rparr>) = lpis_reg f i j s"
  by (simp add: lpis_reg_def)

lemma affinities_trace [simp]: "affinities (s\<lparr>trace := t\<rparr>) f = affinities s f"
  by (simp add: affinities_def)

lemma gic_find_redis_result:
  assumes "affinities s f"
  shows "result (gic_find_redis a is) s = (case find (\<lambda>i. f i = a) is of Some i \<Rightarrow> int i | None \<Rightarrow> - ENOENT)"
  using assms
proof (induction "is" arbitrary: s)
  case (Cons i "is")
  have "hw_rd32 (env s) (trace s) (lpis_reg ''GICR_TYPER'' (word_of_nat i) 1 s) = f i"
    using Cons.prems by (simp add: affinities_def)
  then show ?case
    using Cons.IH [OF affinities_trace [THEN iffD2, OF Cons.prems]] by simp
qed simp

text \<open>
  Looking up the redistributor of a core returns the index of the first redistributor
  whose affinity register has the value asked for, among the indices 0 to gic_max_redis
  inclusive, and -ENOENT exactly when none has it.
\<close>

theorem redis_lookup:
  assumes "gic_redis s \<noteq> 0" and "affinities s f"
  shows "let r = result (gic_get_redis_id a) s in
     if \<exists>i \<le> unat (gic_max_redis s). f i = a
     then r = int (LEAST i. f i = a) \<and> f (nat r) = a
     else r = - ENOENT"
proof -
  let ?n = "Suc (unat (gic_max_redis s))"
  have res: "result (gic_get_redis_id a) s =
      (case find (\<lambda>i. f i = a) [0..<?n] of Some i \<Rightarrow> int i | None \<Rightarrow> - ENOENT)"
    using assms gic_find_redis_result [OF assms(2)] by (simp add: gic_get_redis_id_def)
  show ?thesis
  proof (cases "find (\<lambda>i. f i = a) [0..<?n]")
    case None
    then have "\<forall>i \<in> set [0..<?n]. f i \<noteq> a"
      unfolding find_None_iff by blast
    then have "\<nexists>i. i \<le> unat (gic_max_redis s) \<and> f i = a"
      by (auto simp: less_Suc_eq_le simp del: upt_Suc)
    with None show ?thesis
      by (simp add: res)
  next
    case (Some i)
    then have i: "i < ?n" "f i = a" "\<forall>j < i. f j \<noteq> a"
      unfolding find_Some_iff by (auto simp: nth_append less_Suc_eq_le simp del: upt_Suc)
    then have "(LEAST i. f i = a) = i"
      by (metis (mono_tags, lifting) Least_equality linorder_not_less)
    with i Some show ?thesis
      by (auto simp: res less_Suc_eq_le)
  qed
qed

definition affinity_machine :: gic_state where
  "affinity_machine = gic_machine\<lparr>env := ram_env\<lparr>hw_rd32 :=
     \<lambda>_ a. ucast (drop_bit 9 (a - 0x1D06000C))\<rparr>\<rparr>"

theorem redis_lookup_witness:
  "result (gic_get_redis_id 0x200) affinity_machine = 2"
proof -
  let ?f = "\<lambda>i. hw_rd32 (env affinity_machine) [] (lpis_reg ''GICR_TYPER'' (word_of_nat i) 1 affinity_machine)"
  have "affinities affinity_machine ?f"
    by (simp add: affinities_def affinity_machine_def)
  then have *: "let r = result (gic_get_redis_id 0x200) affinity_machine in
     if \<exists>i \<le> unat (gic_max_redis affinity_machine). ?f i = 0x200
     then r = int (LEAST i. ?f i = 0x200) \<and> ?f (nat r) = 0x200
     else r = - ENOENT"
    by (intro redis_lookup) (simp_all add: affinity_machine_def)
  have f: "?f 0 = 0" "?f 1 = 0x100" "?f 2 = 0x200"
    by (simp_all add: affinity_machine_def lpis_reg_def)
  have "(LEAST i. ?f i = 0x200) = 2"
  proof (rule Least_equality)
    fix y assume y: "?f y = 0x200"
    show "2 \<le> y"
    proof (rule ccontr)
      assume "\<not> 2 \<le> y"
      then have "y = 0 \<or> y = 1" by auto
      with y f(1,2) show False by (elim disjE) simp_all
    qed
  qed (rule f(3))
  moreover have "\<exists>i \<le> unat (gic_max_redis affinity_machine). ?f i = 0x200"
    using f(3) by (intro exI [of _ 2]) (simp add: affinity_machine_def)
  ultimately show ?thesis
    using * by (simp add: Let_def)
qed

section \<open>Start of the controller\<close>

text \<open>\<open>last_redis s n\<close>: frame \<open>n\<close> is the first that says it is the last of the block.\<close>

definition last_redis :: "'x gic_state_scheme \<Rightarrow> nat \<Rightarrow> bool" where
  "last_redis s n \<longleftrightarrow> (\<forall>t. \<forall>i \<le> n.
     bit (hw_rd32 (env s) t (lpis_reg ''GICR_TYPER'' (word_of_nat i) 0 s)) 4 = (i = n))"

lemma last_redis_trace [simp]: "last_redis (s\<lparr>trace := t\<rparr>) n = last_redis s n"
  by (simp add: last_redis_def)

lemma and_16_eq_0: "w AND 16 = 0 \<longleftrightarrow> \<not> bit w 4" for w :: u32
  by (simp add: bit_iff_and_push_bit_not_eq_0)

lemma scan_redis_finds:
  assumes "last_redis s n" and "i \<le> n" and "n - i < fuel"
  shows "\<exists>t. run_state (gic_scan_redis fuel (word_of_nat i)) s = (Some (word_of_nat n), s\<lparr>trace := t\<rparr>)"
  using assms
proof (induction fuel arbitrary: i s)
  case (Suc fuel)
  let ?a = "lpis_reg ''GICR_TYPER'' (word_of_nat i) 0 s"
  have b: "bit (hw_rd32 (env s) (trace s) ?a) 4 = (i = n)"
    using Suc.prems(1,2) by (simp add: last_redis_def)
  show ?case
  proof (cases "i = n")
    case True
    then show ?thesis using b by (auto simp: and_16_eq_0)
  next
    case False
    have "word_of_nat i + 1 = (word_of_nat (Suc i) :: u32)"
      by simp
    then show ?thesis
      using Suc.IH [of "s\<lparr>trace := Rd32 ?a (hw_rd32 (env s) (trace s) ?a) # trace s\<rparr>" "Suc i"]
        Suc.prems False b
      by (auto simp: and_16_eq_0 simp del: of_nat_Suc)
  qed
qed simp

text \<open>
  C32. Starting the controller terminates when some redistributor says it is the last one: if
  that is frame \<open>n\<close>, any fuel above \<open>n\<close> is enough; the function then returns 0, has recorded
  \<open>n\<close> as the highest index and both base pointers, and its last write enables all three
  interrupt groups with affinity routing.
\<close>

theorem enable_gic_terminates:
  assumes "last_redis (s\<lparr>gic_dist := REGISTER_SOCFPGA_DIST_BASE_ADDR,
                         gic_redis := REGISTER_SOCFPGA_REDIS_BASE_ADDR\<rparr>) n"
    and "n < fuel"
  shows "result (gic_enable_gic fuel) s = Some 0
    \<and> gic_max_redis (final (gic_enable_gic fuel) s) = word_of_nat n
    \<and> \<not> gic_null (final (gic_enable_gic fuel) s)
    \<and> hd (trace (final (gic_enable_gic fuel) s)) = Wr32 0x1D000000 0x77"
proof -
  let ?s = "s\<lparr>gic_dist := REGISTER_SOCFPGA_DIST_BASE_ADDR, gic_redis := REGISTER_SOCFPGA_REDIS_BASE_ADDR\<rparr>"
  obtain t where "run_state (gic_scan_redis fuel 0) ?s = (Some (word_of_nat n), ?s\<lparr>trace := t\<rparr>)"
    using scan_redis_finds [OF assms(1), of 0 fuel] assms(2) by auto
  then show ?thesis
    by (simp add: gic_enable_gic_def dist_reg_def gic_null_def REGISTER_SOCFPGA_DIST_BASE_ADDR_def
        REGISTER_SOCFPGA_REDIS_BASE_ADDR_def INTERRUPT_DCTRL_ENG0_def INTERRUPT_DCTRL_ENG1NS_def
        INTERRUPT_DCTRL_ENG1S_def INTERRUPT_DCTRL_ARE_S_def INTERRUPT_DCTRL_ARE_NS_def
        INTERRUPT_DCTRL_DS_def)
qed

definition one_redis_machine :: gic_state where
  "one_redis_machine = gic_machine\<lparr>env := ram_env\<lparr>hw_rd32 := \<lambda>_ _. 0x10\<rparr>\<rparr>"

theorem enable_gic_terminates_witness:
  "result (gic_enable_gic 1) one_redis_machine = Some 0"
  using enable_gic_terminates [of one_redis_machine 0 1]
  by (simp add: last_redis_def one_redis_machine_def bit_simps)

end
