(* ===== verification/Interrupt.thy ===== *)
theory Interrupt
  imports Arm_Gic
begin

unbundle bit_operations_syntax

text \<open>
  The interrupt layer, \<^verbatim>\<open>drivers/gic/socfpga_interrupt.c\<close> with the system-register
  helpers of \<^verbatim>\<open>arm_gic_reg.c\<close>: the numbering of the interrupts, the table of handlers,
  enabling and disabling, and the dispatch of an interrupt to its handler. Calling a function
  pointer is a parameter of the dispatcher, instantiated with the drivers' handlers in the
  root theory.
\<close>

section \<open>The interrupt numbers\<close>

text \<open>
  \<^verbatim>\<open>socfpga_hpu_interrupt_t\<close>: the enumerators in order, with the values the source
  gives; one without a value is its predecessor plus one.
\<close>

definition hpu_system_interrupts :: "(string \<times> nat option) list" where
  "hpu_system_interrupts = [
     (''YIELD_CORE_INTR'', None), (''PPI_START'', Some 22), (''EL1VIRT_TMR_INTR'', Some 27),
     (''EL1PHY_TMR_INTR'', Some 30), (''PPI_MAX'', Some 30), (''SDM_APS_MAILBOX_INTR'', Some 32),
     (''SDM_I2C_INTR0'', None), (''SDM_I2C_INTR1'', None), (''SDM_QSPI_INTR'', None),
     (''SDM_PWR_ALERT_INTR'', Some 38), (''SDM_HPS_SPARE_INTR0'', None),
     (''SDM_HPS_SPARE_INTR1'', None), (''SDM_HPS_SPARE_INTR2'', None),
     (''SECMGR_TRIPLE_REDUN_ERROR'', Some 46), (''SERR_GLOBAL'', None),
     (''INTERRUPT_CCU'', None), (''FPGA2HPS_INTERRUPT0'', None), (''FPGA2HPS_INTERRUPT1'', None),
     (''FPGA2HPS_INTERRUPT2'', None), (''FPGA2HPS_INTERRUPT3'', None),
     (''FPGA2HPS_INTERRUPT4'', None), (''FPGA2HPS_INTERRUPT5'', None),
     (''FPGA2HPS_INTERRUPT6'', None), (''FPGA2HPS_INTERRUPT7'', None),
     (''FPGA2HPS_INTERRUPT8'', None), (''FPGA2HPS_INTERRUPT9'', None),
     (''FPGA2HPS_INTERRUPT10'', None), (''FPGA2HPS_INTERRUPT11'', None),
     (''FPGA2HPS_INTERRUPT12'', None), (''FPGA2HPS_INTERRUPT13'', None),
     (''FPGA2HPS_INTERRUPT14'', None), (''FPGA2HPS_INTERRUPT15'', None),
     (''FPGA2HPS_INTERRUPT16'', None), (''FPGA2HPS_INTERRUPT17'', None),
     (''FPGA2HPS_INTERRUPT18'', None), (''FPGA2HPS_INTERRUPT19'', None),
     (''FPGA2HPS_INTERRUPT20'', None), (''FPGA2HPS_INTERRUPT21'', None),
     (''FPGA2HPS_INTERRUPT22'', None), (''FPGA2HPS_INTERRUPT23'', None),
     (''FPGA2HPS_INTERRUPT24'', None), (''FPGA2HPS_INTERRUPT25'', None),
     (''FPGA2HPS_INTERRUPT26'', None), (''FPGA2HPS_INTERRUPT27'', None),
     (''FPGA2HPS_INTERRUPT28'', None), (''FPGA2HPS_INTERRUPT29'', None),
     (''FPGA2HPS_INTERRUPT30'', None), (''FPGA2HPS_INTERRUPT31'', None),
     (''FPGA2HPS_INTERRUPT32'', None), (''FPGA2HPS_INTERRUPT33'', None),
     (''FPGA2HPS_INTERRUPT34'', None), (''FPGA2HPS_INTERRUPT35'', None),
     (''FPGA2HPS_INTERRUPT36'', None), (''FPGA2HPS_INTERRUPT37'', None),
     (''FPGA2HPS_INTERRUPT38'', None), (''FPGA2HPS_INTERRUPT39'', None),
     (''FPGA2HPS_INTERRUPT40'', None), (''FPGA2HPS_INTERRUPT41'', None),
     (''FPGA2HPS_INTERRUPT42'', None), (''FPGA2HPS_INTERRUPT43'', None),
     (''FPGA2HPS_INTERRUPT44'', None), (''FPGA2HPS_INTERRUPT45'', None),
     (''FPGA2HPS_INTERRUPT46'', None), (''FPGA2HPS_INTERRUPT47'', None),
     (''FPGA2HPS_INTERRUPT48'', None), (''FPGA2HPS_INTERRUPT49'', None),
     (''FPGA2HPS_INTERRUPT50'', None), (''FPGA2HPS_INTERRUPT51'', None),
     (''FPGA2HPS_INTERRUPT52'', None), (''FPGA2HPS_INTERRUPT53'', None),
     (''FPGA2HPS_INTERRUPT54'', None), (''FPGA2HPS_INTERRUPT55'', None),
     (''FPGA2HPS_INTERRUPT56'', None), (''FPGA2HPS_INTERRUPT57'', None),
     (''FPGA2HPS_INTERRUPT58'', None), (''FPGA2HPS_INTERRUPT59'', None),
     (''FPGA2HPS_INTERRUPT60'', None), (''FPGA2HPS_INTERRUPT61'', None),
     (''FPGA2HPS_INTERRUPT62'', None), (''FPGA2HPS_INTERRUPT63'', None)]"

definition hpu_peripheral_interrupts :: "(string \<times> nat option) list" where
  "hpu_peripheral_interrupts = [
     (''DMA_IRQ0'', None), (''DMA_IRQ1'', None), (''DMA_IRQ2'', None), (''DMA_IRQ3'', None),
     (''DMA0COMMON_IRQ'', None), (''DMA0COMBINED_IRQ'', None),
     (''USB_HOST_SYSTEM_ERR_IRQ'', Some 124), (''USB0IRQ'', None), (''USB1IRQ'', None),
     (''IO96B0_DBE_IRQ'', None), (''SDMMC_IRQ'', None), (''NAND_IRQ'', None),
     (''NAND_SYS_WAKE_IRQ'', None), (''SPI0IRQ'', None), (''SPI1IRQ'', None),
     (''SPI2IRQ'', None), (''SPI3IRQ'', None), (''I2C0IRQ'', None), (''I2C1IRQ'', None),
     (''I2C2IRQ'', None), (''I2C3IRQ'', None), (''I2C4IRQ'', None), (''UART0IRQ'', None),
     (''UART1IRQ'', None), (''GPIO0IRQ'', None), (''GPIO1IRQ'', None),
     (''TIMER_L4SP0IRQ'', Some 145), (''TIMER_L4SP1IRQ'', None), (''TIMER_OSC10IRQ'', None),
     (''TIMER_OSC11IRQ'', None), (''WDOG0IRQ'', None), (''WDOG1IRQ'', None),
     (''CLKMGR_IRQ'', None), (''IO96B1DBE_IRQ'', None), (''WDOG2IRQ'', Some 157),
     (''WDOG3IRQ'', None), (''SYS_TCU_GLOBAL_IRPT_S'', Some 160),
     (''SYS_TCU_GLOBAL_IRPT_NS'', None), (''SYS_TCU_CMD_SYNC_IRPT_S'', None),
     (''eesystcucmdsyncirptns'', None), (''SYS_TCU_PRI_Q_IRPT_NS'', None),
     (''SYS_TCU_EVENT_Q_IRPT_S'', None), (''SYS_TCU_EVENT_Q_IRPT_NS'', None),
     (''SYS_TCU_RAS_IRPT'', None), (''SYS_TCU_PMU_IRPT'', None), (''F2SOC_TBU_RAS_IRPT'', None),
     (''F2SOC_TBU_PMU_IRPT'', None), (''TSN_TBU_RAS_IRPT'', None), (''TSN_TBU_PMU_IRPT'', None),
     (''IO_TBU_RAS_IRPT'', None), (''IO_TBU_PMU_IRPT'', None), (''DMA_TBU_RAS_IRPT'', None),
     (''DMA_TBU_PMU_IRPT'', None), (''SDM_TBU_RAS_IRPT'', None), (''SDM_TBU_PMU_IRPT'', None),
     (''F2SDRAM_TBU_RAS_IRPT'', None), (''F2SDRAM_TBU_PMU_IRPT'', None)]"

definition hpu_cluster_interrupts :: "(string \<times> nat option) list" where
  "hpu_cluster_interrupts = [
     (''ETR_BUFINTR'', Some 195), (''I3C0IRQ'', None), (''I3C1IRQ'', None), (''DMA1IRQ0'', None),
     (''DMA1IRQ1'', None), (''DMA1IRQ2'', None), (''DMA1IRQ3'', None),
     (''DMA1COMMON_IRQ'', None), (''DMA1COMBINED_IRQ'', None), (''WDOG4IRQ'', Some 207),
     (''NCLUSTERPMUIRQ'', None), (''NFAULTIRQ0'', None), (''NFAULTIRQ1'', None),
     (''NFAULTIRQ2'', None), (''NFAULTIRQ3'', None), (''NFAULTIRQ4'', None),
     (''NERRIRQ0'', None), (''NERRIRQ1'', None), (''NERRIRQ2'', None), (''NERRIRQ3'', None),
     (''NERRIRQ4'', None), (''EMAC0IRQ'', Some 222), (''EMAC0TX_IRQ0'', None),
     (''EMAC0TX_IRQ1'', None), (''EMAC0TX_IRQ2'', None), (''EMAC0TX_IRQ3'', None),
     (''EMAC0TX_IRQ4'', None), (''EMAC0TX_IRQ5'', None), (''EMAC0TX_IRQ6'', None),
     (''EMAC0TX_IRQ7'', None), (''EMAC0RX_IRQ0'', None), (''EMAC0RX_IRQ1'', None),
     (''EMAC0RX_IRQ2'', None), (''EMAC0RX_IRQ3'', None), (''EMAC0RX_IRQ4'', None),
     (''EMAC0RX_IRQ5'', None), (''EMAC0RX_IRQ6'', None), (''EMAC0RX_IRQ7'', None),
     (''EMAC1IRQ'', None), (''EMAC1TX_IRQ0'', None), (''EMAC1TX_IRQ1'', None),
     (''EMAC1TX_IRQ2'', None), (''EMAC1TX_IRQ3'', None), (''EMAC1TX_IRQ4'', None),
     (''EMAC1TX_IRQ5'', None), (''EMAC1TX_IRQ6'', None), (''EMAC1TX_IRQ7'', None),
     (''EMAC1RX_IRQ0'', None), (''EMAC1RX_IRQ1'', None), (''EMAC1RX_IRQ2'', None),
     (''EMAC1RX_IRQ3'', None), (''EMAC1RX_IRQ4'', None), (''EMAC1RX_IRQ5'', None),
     (''EMAC1RX_IRQ6'', None), (''EMAC1RX_IRQ7'', None), (''EMAC2IRQ'', None),
     (''EMAC2TX_IRQ0'', None), (''EMAC2TX_IRQ1'', None), (''EMAC2TX_IRQ2'', None),
     (''EMAC2TX_IRQ3'', None), (''EMAC2TX_IRQ4'', None), (''EMAC2TX_IRQ5'', None),
     (''EMAC2TX_IRQ6'', None), (''EMAC2TX_IRQ7'', None), (''EMAC2RX_IRQ0'', None),
     (''EMAC2RX_IRQ1'', None), (''EMAC2RX_IRQ2'', None), (''EMAC2RX_IRQ3'', None),
     (''EMAC2RX_IRQ4'', None), (''EMAC2RX_IRQ5'', None), (''EMAC2RX_IRQ6'', None),
     (''EMAC2RX_IRQ7'', None), (''ECC_DERR_INTR_N'', None), (''MAX_HPU_SPI_INTERRUPT'', None)]"

fun enumerate_from :: "nat \<Rightarrow> (string \<times> nat option) list \<Rightarrow> (string \<times> nat) list" where
  "enumerate_from n [] = []"
| "enumerate_from n ((x, None) # es) = (x, n) # enumerate_from (Suc n) es"
| "enumerate_from n ((x, Some v) # es) = (x, v) # enumerate_from (Suc v) es"

definition hpu_interrupts :: "(string \<times> nat) list" where
  "hpu_interrupts =
     enumerate_from 0 (hpu_system_interrupts @ hpu_peripheral_interrupts @ hpu_cluster_interrupts)"

lemmas hpu_defs =
  hpu_interrupts_def hpu_system_interrupts_def hpu_peripheral_interrupts_def hpu_cluster_interrupts_def

text \<open>The enumerators the modelled drivers use, by their values.\<close>

definition PPI_MAX :: u32 where "PPI_MAX = 30"
definition SOCFPGA_SPI_START :: u32 where "SOCFPGA_SPI_START = 32"
definition SOCFPGA_MAX_SPI :: u32 where "SOCFPGA_MAX_SPI = 274"
definition MAX_HPU_SPI_INTERRUPT :: u32 where "MAX_HPU_SPI_INTERRUPT = 274"
definition MAX_SPI_HPU_INTERRUPT :: u32 where "MAX_SPI_HPU_INTERRUPT = 274"
definition UART0IRQ :: u32 where "UART0IRQ = 140"
definition UART1IRQ :: u32 where "UART1IRQ = 141"
definition GPIO0IRQ :: u32 where "GPIO0IRQ = 142"
definition GPIO1IRQ :: u32 where "GPIO1IRQ = 143"
definition TIMER_L4SP0IRQ :: u32 where "TIMER_L4SP0IRQ = 145"
definition TIMER_L4SP1IRQ :: u32 where "TIMER_L4SP1IRQ = 146"
definition TIMER_OSC10IRQ :: u32 where "TIMER_OSC10IRQ = 147"
definition TIMER_OSC11IRQ :: u32 where "TIMER_OSC11IRQ = 148"
definition WDOG0IRQ :: u32 where "WDOG0IRQ = 149"
definition WDOG1IRQ :: u32 where "WDOG1IRQ = 150"
definition WDOG2IRQ :: u32 where "WDOG2IRQ = 157"
definition WDOG3IRQ :: u32 where "WDOG3IRQ = 158"
definition WDOG4IRQ :: u32 where "WDOG4IRQ = 207"

lemmas irq_numbers [simp] =
  PPI_MAX_def SOCFPGA_SPI_START_def SOCFPGA_MAX_SPI_def MAX_HPU_SPI_INTERRUPT_def
  MAX_SPI_HPU_INTERRUPT_def UART0IRQ_def UART1IRQ_def GPIO0IRQ_def GPIO1IRQ_def
  TIMER_L4SP0IRQ_def TIMER_L4SP1IRQ_def TIMER_OSC10IRQ_def TIMER_OSC11IRQ_def WDOG0IRQ_def
  WDOG1IRQ_def WDOG2IRQ_def WDOG3IRQ_def WDOG4IRQ_def

text \<open>
  The numbers the drivers use are those the enumeration gives: the shared interrupts of the
  UARTs, GPIO blocks, timers and watchdogs have exactly these names and numbers, and the end
  marker is 274, the size of the handler table.
\<close>

theorem driver_irq_numbers:
  "filter (\<lambda>(x, n). 140 \<le> n \<and> n \<le> 150 \<or> 157 \<le> n \<and> n \<le> 158 \<or> n = 207 \<or> 274 \<le> n) hpu_interrupts =
     [(''UART0IRQ'', unat UART0IRQ), (''UART1IRQ'', unat UART1IRQ), (''GPIO0IRQ'', unat GPIO0IRQ),
      (''GPIO1IRQ'', unat GPIO1IRQ), (''TIMER_L4SP0IRQ'', unat TIMER_L4SP0IRQ),
      (''TIMER_L4SP1IRQ'', unat TIMER_L4SP1IRQ), (''TIMER_OSC10IRQ'', unat TIMER_OSC10IRQ),
      (''TIMER_OSC11IRQ'', unat TIMER_OSC11IRQ), (''WDOG0IRQ'', unat WDOG0IRQ),
      (''WDOG1IRQ'', unat WDOG1IRQ), (''WDOG2IRQ'', unat WDOG2IRQ), (''WDOG3IRQ'', unat WDOG3IRQ),
      (''WDOG4IRQ'', unat WDOG4IRQ), (''MAX_HPU_SPI_INTERRUPT'', unat MAX_HPU_SPI_INTERRUPT)]"
  by (simp add: hpu_defs)

section \<open>System registers of the CPU interface\<close>

definition gic_enable_group0_interrupts :: "('x gic_state_scheme, unit) state" where
  "gic_enable_group0_interrupts = write_sysreg ICC_IGRPEN0_EL1 1"

definition gic_enable_group1_interrupts :: "('x gic_state_scheme, unit) state" where
  "gic_enable_group1_interrupts = write_sysreg ICC_IGRPEN1_EL1 1"

definition gic_set_priority_mask :: "u32 \<Rightarrow> ('x gic_state_scheme, unit) state" where
  "gic_set_priority_mask msk = write_sysreg ICC_PMR_EL1 (ucast msk)"

text \<open>
  \<^verbatim>\<open>UBFX\<close> extracts bits 32..39 of MPIDR, \<^verbatim>\<open>BFI\<close> on the 32-bit register inserts
  them at bits 24..31 and clears the upper half.
\<close>

definition gic_get_cpu_affinity :: "('x gic_state_scheme, u64) state" where
  "gic_get_cpu_affinity = do {
     mpidr \<leftarrow> read_sysreg MPIDR_EL1;
     let x1 = drop_bit 32 mpidr AND 0xFF;
     ret ((mpidr AND 0x00FFFFFF) OR push_bit 24 x1)
   }"

section \<open>State\<close>

record irq_state = gic_state +
  interrupt_callbacks :: "(fptr \<times> vptr) list"

definition initial_callbacks :: "(fptr \<times> vptr) list" where
  "initial_callbacks = replicate (unat MAX_SPI_HPU_INTERRUPT) (F_gic_default_interrupt_handler, V_NULL)"

section \<open>Operations\<close>

text \<open>\<^verbatim>\<open>SOCFPGA_DEFAULT_INTERRUPT_SPIN\<close> is defined: the handler never returns.\<close>

definition gic_default_interrupt_handler :: "vptr \<Rightarrow> ('x irq_state_scheme, unit option) state" where
  "gic_default_interrupt_handler dat = ret None"

definition interrupt_enable_core_redis :: "nat \<Rightarrow> ('x irq_state_scheme, unit option) state" where
  "interrupt_enable_core_redis fuel = do {
     aff \<leftarrow> gic_get_cpu_affinity;
     gic_redis_id \<leftarrow> gic_get_redis_id (ucast aff);
     if gic_redis_id < 0 then ret (Some ())
     else do {
       r \<leftarrow> gic_wakeup_redis fuel (word_of_int gic_redis_id);
       case r of
         None \<Rightarrow> ret None
       | Some e \<Rightarrow>
           if e \<noteq> 0 then ret (Some ())
           else do {
             gic_set_priority_mask 0xFF;
             gic_enable_group1_interrupts;
             ret (Some ())
           }
     }
   }"

definition interrupt_init_gic :: "nat \<Rightarrow> ('x irq_state_scheme, unit option) state" where
  "interrupt_init_gic fuel = do {
     r \<leftarrow> gic_enable_gic fuel;
     case r of
       None \<Rightarrow> ret None
     | Some e \<Rightarrow> if e \<noteq> 0 then ret (Some ()) else interrupt_enable_core_redis fuel
   }"

definition SPI_INTERRUPT_TYPE_LEVEL :: u32 where "SPI_INTERRUPT_TYPE_LEVEL = 0"
definition SPI_INTERRUPT_TYPE_EDGE :: u32 where "SPI_INTERRUPT_TYPE_EDGE = 2"
definition SPI_INTERRUPT_MODE_ANY :: u32 where "SPI_INTERRUPT_MODE_ANY = 0"
definition SPI_INTERRUPT_MODE_TARGET :: u32 where "SPI_INTERRUPT_MODE_TARGET = 2"

text \<open>A sequence of calls, each returning early with its error: \<^verbatim>\<open>if (err != 0) return err;\<close>\<close>

definition and_then :: "('s, int) state \<Rightarrow> ('s, int) state \<Rightarrow> ('s, int) state" where
  "and_then m k = do { err \<leftarrow> m; if err \<noteq> 0 then ret err else k }"

definition interrupt_ppi_enable :: "u32 \<Rightarrow> u32 \<Rightarrow> u8 \<Rightarrow> u32 \<Rightarrow> ('x irq_state_scheme, int) state" where
  "interrupt_ppi_enable ident interrupt_type priority gic_redis_id =
     (if ident > PPI_MAX then ret (- ERANGE)
      else let ty = (if interrupt_type = SPI_INTERRUPT_TYPE_EDGE then GICV3_CONFIG_EDGE
                     else GICV3_CONFIG_LEVEL) in
        and_then (gic_set_int_group ident gic_redis_id GICV3_GROUP1_NON_SECURE)
       (and_then (gic_set_int_type ident gic_redis_id ty)
       (and_then (gic_set_int_priority ident gic_redis_id priority)
       (and_then (gic_enable_int ident gic_redis_id) (ret 0)))))"

definition interrupt_spi_enable ::
  "u32 \<Rightarrow> u32 \<Rightarrow> u32 \<Rightarrow> u8 \<Rightarrow> ('x irq_state_scheme, int) state" where
  "interrupt_spi_enable ident interrupt_type interrupt_mode priority = do {
     aff \<leftarrow> gic_get_cpu_affinity;
     let affinity = ucast aff;
     gic_redis_id \<leftarrow> gic_get_redis_id affinity;
     if ident > SOCFPGA_MAX_SPI \<or> ident < SOCFPGA_SPI_START then ret (- ERANGE)
     else if gic_redis_id < 0 then ret gic_redis_id
     else let ty = (if interrupt_type = SPI_INTERRUPT_TYPE_EDGE then GICV3_CONFIG_EDGE
                    else GICV3_CONFIG_LEVEL);
              mode = (if interrupt_mode = SPI_INTERRUPT_MODE_TARGET then GICV3_ROUTE_MODE_COORDINATE
                      else GICV3_ROUTE_MODE_ANY);
              rid = word_of_int gic_redis_id in
        and_then (gic_set_int_priority ident rid priority)
       (and_then (gic_set_int_group ident rid GICV3_GROUP1_NON_SECURE)
       (and_then (gic_set_int_route ident mode affinity)
       (and_then (gic_set_int_type ident rid ty)
       (and_then (gic_enable_int ident rid) (ret 0)))))
   }"

definition interrupt_enable :: "u32 \<Rightarrow> u8 \<Rightarrow> ('x irq_state_scheme, int) state" where
  "interrupt_enable ident priority =
     (if ident < SOCFPGA_SPI_START then do {
        aff \<leftarrow> gic_get_cpu_affinity;
        gic_redis_id \<leftarrow> gic_get_redis_id (ucast aff);
        if gic_redis_id < 0 then ret gic_redis_id
        else interrupt_ppi_enable ident SPI_INTERRUPT_TYPE_LEVEL priority (word_of_int gic_redis_id)
      } else interrupt_spi_enable ident SPI_INTERRUPT_TYPE_LEVEL SPI_INTERRUPT_MODE_TARGET priority)"

definition interrupt_disable :: "u32 \<Rightarrow> ('x irq_state_scheme, int) state" where
  "interrupt_disable ident = do {
     aff \<leftarrow> gic_get_cpu_affinity;
     gic_redis_id \<leftarrow> gic_get_redis_id (ucast aff);
     if gic_redis_id < 0 then ret gic_redis_id
     else gic_disable_int ident (word_of_int gic_redis_id)
   }"

text \<open>Writing an entry; beyond the end of the array it is undefined.\<close>

definition set_callback :: "u32 \<Rightarrow> (fptr \<times> vptr \<Rightarrow> fptr \<times> vptr) \<Rightarrow> 'x irq_state_scheme \<Rightarrow> 'x irq_state_scheme" where
  "set_callback ident f s =
     s\<lparr>interrupt_callbacks :=
        (interrupt_callbacks s)[unat ident := f (interrupt_callbacks s ! unat ident)]\<rparr>"

definition interrupt_register_isr :: "u32 \<Rightarrow> fptr \<Rightarrow> vptr \<Rightarrow> ('x irq_state_scheme, int) state" where
  "interrupt_register_isr ident callback user_data =
     (if ident > MAX_HPU_SPI_INTERRUPT then ret (- ERANGE)
      else if callback = F_NULL then ret (- EINVAL)
      else do {
        n \<leftarrow> gets (\<lambda>s. length (interrupt_callbacks s));
        if n \<le> unat ident then do { ub ''interrupt_callbacks''; ret 0 }
        else do { modify (set_callback ident (\<lambda>_. (callback, user_data))); ret 0 }
      })"

text \<open>\<open>None\<close>: the handler did not return. \<^verbatim>\<open>invoke\<close> is the call through the pointer.\<close>

definition interrupt_irq_handler ::
  "(fptr \<Rightarrow> vptr \<Rightarrow> ('x irq_state_scheme, unit option) state) \<Rightarrow> u32 \<Rightarrow>
   ('x irq_state_scheme, unit option) state" where
  "interrupt_irq_handler invoke interrupt_id = do {
     r \<leftarrow> (if interrupt_id < MAX_SPI_HPU_INTERRUPT then do {
             (callback, dat) \<leftarrow> gets (\<lambda>s. interrupt_callbacks s ! unat interrupt_id);
             invoke callback dat
           } else ret (Some ()));
     case r of
       None \<Rightarrow> ret None
     | Some _ \<Rightarrow> do { gic_enable_interrupts; ret (Some ()) }
   }"

lemmas irq_defs =
  gic_enable_group1_interrupts_def gic_set_priority_mask_def gic_get_cpu_affinity_def
  interrupt_enable_core_redis_def interrupt_ppi_enable_def interrupt_spi_enable_def
  interrupt_enable_def interrupt_disable_def interrupt_register_isr_def

section \<open>The handler table\<close>

interpretation callbacks: slots
  "\<lambda>(s :: 'x irq_state_scheme) k. interrupt_callbacks s ! unat (k :: u32)" set_callback
  "\<lambda>k s. unat k < length (interrupt_callbacks s)"
  by unfold_locales (auto simp: set_callback_def nth_list_update word_unat_eq_iff)

text \<open>
  C19. Registering a handler binds its interrupt and no other: after a registration that
  returns 0 and is defined, dispatching that interrupt calls the handler with its context and
  then unmasks interrupts, and dispatching any other interrupt does what it did before.
\<close>

theorem register_then_dispatch:
  assumes "n < MAX_SPI_HPU_INTERRUPT" and "f \<noteq> F_NULL"
    and "length (interrupt_callbacks s) = unat MAX_SPI_HPU_INTERRUPT"
  shows "result (interrupt_register_isr n f d) s = 0
    \<and> run_state (interrupt_irq_handler invoke n) (final (interrupt_register_isr n f d) s) =
        run_state (do { r \<leftarrow> invoke f d;
                        case r of None \<Rightarrow> ret None
                        | Some _ \<Rightarrow> do { gic_enable_interrupts; ret (Some ()) } })
          (final (interrupt_register_isr n f d) s)
    \<and> (\<forall>m. m \<noteq> n \<longrightarrow> interrupt_callbacks (final (interrupt_register_isr n f d) s) ! unat m
                     = interrupt_callbacks s ! unat m)"
proof -
  have n: "unat n < 274" "\<not> 274 < n" "\<not> 274 \<le> unat n"
    using assms(1) by (auto simp: word_less_nat_alt)
  have run: "run_state (interrupt_register_isr n f d) s = (0, set_callback n (\<lambda>_. (f, d)) s)"
    using n assms(2,3) by (simp add: interrupt_register_isr_def)
  have "interrupt_callbacks (set_callback n (\<lambda>_. (f, d)) s) ! unat n = (f, d)"
    using n(1) assms(3) by (intro callbacks.get_upd_same) simp
  then show ?thesis
    using assms(1) by (simp add: run interrupt_irq_handler_def callbacks.get_upd_other)
qed

definition irq_machine :: irq_state where
  "irq_machine = gic_state.extend gic_machine \<lparr>interrupt_callbacks = initial_callbacks\<rparr>"

lemma irq_machine_callbacks [simp]: "interrupt_callbacks irq_machine = initial_callbacks"
  by (simp add: irq_machine_def gic_state.defs)

theorem register_then_dispatch_witness:
  "result (interrupt_register_isr TIMER_L4SP0IRQ F_timer_irq_handler (V_timer 0)) irq_machine = 0"
  using register_then_dispatch [of TIMER_L4SP0IRQ F_timer_irq_handler irq_machine "V_timer 0" "\<lambda>_ _. ret None"]
  by (simp add: initial_callbacks_def)

text \<open>
  The bounds of registration and dispatch differ by one: interrupt 274 passes the check
  of the registration, which then writes past the end of the 274-entry table and reports
  success, and it can never be dispatched.
\<close>

theorem register_274_out_of_bounds:
  assumes "f \<noteq> F_NULL" and "length (interrupt_callbacks s) = unat MAX_SPI_HPU_INTERRUPT"
  shows "run_state (interrupt_register_isr 274 f d) s =
      (0, s\<lparr>trace := UB ''interrupt_callbacks'' # trace s\<rparr>)
    \<and> run_state (interrupt_irq_handler invoke 274) s =
      (Some (), s\<lparr>trace := SysWr DAIFClr 0xF # trace s\<rparr>)"
  using assms by (simp add: interrupt_register_isr_def interrupt_irq_handler_def gic_enable_interrupts_def)

theorem register_274_out_of_bounds_witness:
  "is_ub (hd (trace (final (interrupt_register_isr 274 F_timer_irq_handler (V_timer 0)) irq_machine)))"
  using register_274_out_of_bounds [of F_timer_irq_handler irq_machine "V_timer 0" "\<lambda>_ _. ret None"]
  by (simp add: initial_callbacks_def)

section \<open>Enabling a shared interrupt\<close>

lemma run_and_then [simp]:
  "run_state (and_then m k) s =
     (case run_state m s of (e, s') \<Rightarrow> if e \<noteq> 0 then (e, s') else run_state k s')"
  by (simp add: and_then_def split: prod.split)

lemma gic_null_trace [simp]: "gic_null (s\<lparr>trace := t\<rparr>) = gic_null s"
  by (simp add: gic_null_def)

lemma GICD_arch_trace [simp]: "GICD_arch r d i (s\<lparr>trace := t\<rparr>) = GICD_arch r d i s"
  by (simp add: GICD_arch_def)

text \<open>The configuration steps succeed on a shared interrupt and change nothing but the trace.\<close>

lemma spi_steps_succeed:
  assumes "\<not> gic_null s" and "is_spi n"
  shows "p AND 0xF0 \<noteq> 0xF0 \<Longrightarrow> \<exists>t. run_state (gic_set_int_priority n i p) s = (0, s\<lparr>trace := t\<rparr>)"
    and "\<exists>t. run_state (gic_set_int_group n i GICV3_GROUP1_NON_SECURE) s = (0, s\<lparr>trace := t\<rparr>)"
    and "\<exists>t. run_state (gic_set_int_route n md a) s = (0, s\<lparr>trace := t\<rparr>)"
    and "\<exists>t. run_state (gic_set_int_type n i ty) s = (0, s\<lparr>trace := t\<rparr>)"
    and "run_state (gic_enable_int n i) s =
      (0, s\<lparr>trace := Wr32 (GICD_arch 0x100 4 (unat n div 32) s) (push_bit (unat n mod 32) 1) # trace s\<rparr>)"
  using assms(1) is_spiD [OF assms(2)]
  by (auto simp: gic_set_int_priority_def gic_set_int_group_def gic_group_bits_def gic_consts
      gic_set_int_route_def gic_set_int_type_def gic_enable_int_def gic_null_def Let_def
      spi_bank_addr spi_bit intro: exI [of _ "trace s"])

lemma gic_find_emits: "emits (\<lambda>e. \<not> is_write e) (gic_find_redis a is)"
  by (induction "is") (auto intro!: emits_intros)

lemma lookup_emits: "emits (\<lambda>e. \<not> is_write e) (do { aff \<leftarrow> gic_get_cpu_affinity; gic_get_redis_id (ucast aff) })"
  unfolding gic_get_cpu_affinity_def gic_get_redis_id_def Let_def
  by (auto intro!: emits_intros gic_find_emits)

definition spi_lookup :: "('x irq_state_scheme, u32 \<times> int) state" where
  "spi_lookup = do { aff \<leftarrow> gic_get_cpu_affinity; r \<leftarrow> gic_get_redis_id (ucast aff); ret (ucast aff, r) }"

lemma spi_lookup_run:
  fixes s :: "'x irq_state_scheme"
  obtains es where "final spi_lookup s = s\<lparr>trace := es @ trace s\<rparr>" and "list_all (\<lambda>e. \<not> is_write e) es"
proof -
  have "keeps (same_but_trace s) (spi_lookup :: ('x irq_state_scheme, u32 \<times> int) state)"
    unfolding spi_lookup_def gic_get_cpu_affinity_def
    by (intro keeps_intros keeps_prims_blind [OF same_blind] gic_keeps_blind [OF same_blind])
  then have "final spi_lookup s = s\<lparr>trace := trace (final spi_lookup s)\<rparr>"
    using keepsD [of "same_but_trace s" spi_lookup s] by (simp add: same_but_trace_def)
  moreover have "emits (\<lambda>e. \<not> is_write e) (spi_lookup :: ('x irq_state_scheme, u32 \<times> int) state)"
    unfolding spi_lookup_def gic_get_cpu_affinity_def gic_get_redis_id_def Let_def
    by (auto intro!: emits_intros gic_find_emits)
  then obtain es where "trace (final spi_lookup s) = es @ trace s" "list_all (\<lambda>e. \<not> is_write e) es"
    by (rule emitsD)
  ultimately show ?thesis
    using that by metis
qed

lemma spi_enable_eq:
  "run_state (interrupt_spi_enable n it im p) s =
     (case run_state spi_lookup s of ((affinity, r), s') \<Rightarrow>
        if n > SOCFPGA_MAX_SPI \<or> n < SOCFPGA_SPI_START then (- ERANGE, s')
        else if r < 0 then (r, s')
        else run_state
          (and_then (gic_set_int_priority n (word_of_int r) p)
          (and_then (gic_set_int_group n (word_of_int r) GICV3_GROUP1_NON_SECURE)
          (and_then (gic_set_int_route n (if im = SPI_INTERRUPT_MODE_TARGET then GICV3_ROUTE_MODE_COORDINATE else GICV3_ROUTE_MODE_ANY) affinity)
          (and_then (gic_set_int_type n (word_of_int r) (if it = SPI_INTERRUPT_TYPE_EDGE then GICV3_CONFIG_EDGE else GICV3_CONFIG_LEVEL))
          (and_then (gic_enable_int n (word_of_int r)) (ret 0)))))) s')"
  by (simp add: interrupt_spi_enable_def spi_lookup_def split_beta Let_def)

text \<open>What a run of \<^verbatim>\<open>interrupt_spi_enable\<close> added to the trace.\<close>

definition added :: "'x machine_scheme \<Rightarrow> 'x machine_scheme \<Rightarrow> ev list" where
  "added s s' = take (length (trace s') - length (trace s)) (trace s')"

lemma added_append [simp]: "added s (s'\<lparr>trace := es @ trace s\<rparr>) = es"
  by (simp add: added_def)


section \<open>What the drivers above can rely on\<close>

text \<open>A predicate that looks neither at the trace nor at the handler table is kept by every
  operation of this layer: the invariants of the drivers above are such predicates.\<close>

definition irq_blind :: "('x irq_state_scheme \<Rightarrow> bool) \<Rightarrow> bool" where
  "irq_blind I \<longleftrightarrow> trace_blind I \<and> (\<forall>n f s. I (set_callback n f s) = I s)"

lemma irq_blindI:
  "(\<And>s t. I (s\<lparr>trace := t\<rparr>) = I s) \<Longrightarrow> (\<And>n f s. I (set_callback n f s) = I s) \<Longrightarrow> irq_blind I"
  by (simp add: irq_blind_def trace_blind_def)

lemma irq_blind_trace: "irq_blind I \<Longrightarrow> trace_blind I"
  by (simp add: irq_blind_def)

lemma irq_keeps_blind:
  assumes "irq_blind I"
  shows "keeps I (interrupt_register_isr n f d)" "keeps I (interrupt_enable n p)"
    "keeps I (interrupt_disable n)"
proof -
  note blind = irq_blind_trace [OF assms]
  have cb: "keeps I (modify (set_callback n g))" for g
    using assms by (simp add: keeps_def irq_blind_def)
  show "keeps I (interrupt_register_isr n f d)" "keeps I (interrupt_enable n p)"
    "keeps I (interrupt_disable n)"
    unfolding irq_defs and_then_def Let_def
    by (intro keeps_intros keeps_prims_blind [OF blind] gic_keeps_blind [OF blind] cb)+
qed

end
