(* ===== verification/Rst_Mngr.thy ===== *)
theory Rst_Mngr
  imports Osal
begin

unbundle bit_operations_syntax

text \<open>
  The reset manager, \<^verbatim>\<open>drivers/reset_mngr\<close>: the peripheral ids of
  \<^verbatim>\<open>reset_periphrl_t\<close> (an unsigned enum, so a 32-bit word), the register and bit of
  each id as the header computes them, and the four operations.
\<close>

section \<open>Peripheral ids, registers and bits\<close>

definition RST_PERIPHERAL_START :: u32 where "RST_PERIPHERAL_START = 0"
definition RST_WATCHDOG0 :: u32 where "RST_WATCHDOG0 = 32"
definition RST_L4SYSTIMER0 :: u32 where "RST_L4SYSTIMER0 = 36"
definition RST_L4SYSTIMER1 :: u32 where "RST_L4SYSTIMER1 = 37"
definition RST_SPTIMER0 :: u32 where "RST_SPTIMER0 = 38"
definition RST_SPTIMER1 :: u32 where "RST_SPTIMER1 = 39"
definition RST_UART0 :: u32 where "RST_UART0 = 48"
definition RST_UART1 :: u32 where "RST_UART1 = 49"
definition RST_GPIO0 :: u32 where "RST_GPIO0 = 56"
definition RST_GPIO1 :: u32 where "RST_GPIO1 = 57"
definition RST_WATCHDOG4 :: u32 where "RST_WATCHDOG4 = 58"
definition RST_SOC2FPGA_BRIDGE :: u32 where "RST_SOC2FPGA_BRIDGE = 64"
definition RST_PERIPHERAL_END :: u32 where "RST_PERIPHERAL_END = 67"

lemmas rst_ids =
  RST_PERIPHERAL_START_def RST_WATCHDOG0_def RST_L4SYSTIMER0_def RST_L4SYSTIMER1_def
  RST_SPTIMER0_def RST_SPTIMER1_def RST_UART0_def RST_UART1_def RST_GPIO0_def
  RST_GPIO1_def RST_WATCHDOG4_def RST_SOC2FPGA_BRIDGE_def RST_PERIPHERAL_END_def

definition RESET_MANAGER_BASE_ADDR :: u32 where "RESET_MANAGER_BASE_ADDR = 0x10D11000"
definition RESET_PER0MODRST :: u32 where "RESET_PER0MODRST = 0x24"
definition RESET_PER1MODRST :: u32 where "RESET_PER1MODRST = 0x28"
definition RESET_BRGMODRST :: u32 where "RESET_BRGMODRST = 0x2C"

lemmas rst_regs =
  RESET_MANAGER_BASE_ADDR_def RESET_PER0MODRST_def RESET_PER1MODRST_def RESET_BRGMODRST_def

definition rstmgr_get_base_addr :: "u32 \<Rightarrow> u32" where
  "rstmgr_get_base_addr p =
     (if p < 32 then RESET_PER0MODRST + RESET_MANAGER_BASE_ADDR
      else if 32 < p \<and> p \<le> 53 then RESET_PER1MODRST + RESET_MANAGER_BASE_ADDR
      else RESET_BRGMODRST + RESET_MANAGER_BASE_ADDR)"

definition rstmgr_get_bit_pos :: "u32 \<Rightarrow> u8" where
  "rstmgr_get_bit_pos p =
     (if p < 32 then ucast p
      else if 32 < p \<and> p < 64 then ucast (p - 32)
      else ucast (p - 64))"

section \<open>Operations\<close>

definition rst_invalid :: "u32 \<Rightarrow> bool" where
  "rst_invalid per \<longleftrightarrow> per < RST_PERIPHERAL_START \<or> per > RST_PERIPHERAL_END"

definition rstmgr_assert_reset :: "u32 \<Rightarrow> ('x machine_scheme, int) state" where
  "rstmgr_assert_reset per =
     (if rst_invalid per then ret (- EINVAL)
      else do {
        let base_addr = rstmgr_get_base_addr per;
        let bit_pos = rstmgr_get_bit_pos per;
        val \<leftarrow> RD_REG32 base_addr;
        b \<leftarrow> c_shl32 1 bit_pos;
        WR_REG32 base_addr (val OR b);
        ret 0
      })"

definition rstmgr_deassert_reset :: "u32 \<Rightarrow> ('x machine_scheme, int) state" where
  "rstmgr_deassert_reset per =
     (if rst_invalid per then ret (- EINVAL)
      else do {
        let base_addr = rstmgr_get_base_addr per;
        let bit_pos = rstmgr_get_bit_pos per;
        val \<leftarrow> RD_REG32 base_addr;
        b \<leftarrow> c_shl32 1 bit_pos;
        WR_REG32 base_addr (val AND NOT b);
        ret 0
      })"

definition rstmgr_toggle_reset :: "u32 \<Rightarrow> ('x machine_scheme, int) state" where
  "rstmgr_toggle_reset per =
     (if rst_invalid per then ret (- EINVAL)
      else do {
        r \<leftarrow> rstmgr_assert_reset per;
        if r \<noteq> 0 then ret (- EINVAL)
        else do {
          osal_task_delay 1;
          ret 0
        }
      })"

text \<open>The out parameter \<^verbatim>\<open>*stat\<close> is the second component, \<open>None\<close> where it is not written.\<close>

definition rstmgr_get_reset_status :: "u32 \<Rightarrow> ('x machine_scheme, int \<times> u8 option) state" where
  "rstmgr_get_reset_status per =
     (if rst_invalid per then ret (- EINVAL, None)
      else do {
        let base_addr = rstmgr_get_base_addr per;
        let bit_pos = rstmgr_get_bit_pos per;
        val \<leftarrow> RD_REG32 base_addr;
        v \<leftarrow> c_shr32 val bit_pos;
        ret (0, Some (ucast v AND 1))
      })"

lemmas rstmgr_defs =
  rstmgr_assert_reset_def rstmgr_deassert_reset_def rstmgr_toggle_reset_def
  rstmgr_get_reset_status_def

section \<open>Bit positions\<close>

lemma unat_bit_pos:
  "unat (rstmgr_get_bit_pos p) =
     (if p < 32 then unat p
      else if 32 < p \<and> p < 64 then unat (p - 32) mod 256
      else unat (p - 64) mod 256)"
proof -
  have "unat (ucast x :: u8) = unat x mod 256" for x :: u32
    by (simp add: unsigned_ucast_eq take_bit_eq_mod)
  moreover have "p < 32 \<Longrightarrow> unat p mod 256 = unat p"
    by (simp add: word_less_nat_alt)
  ultimately show ?thesis
    by (simp add: rstmgr_get_bit_pos_def)
qed

lemma bit_pos_bound:
  assumes "p \<le> 67" and "p \<noteq> 32"
  shows "unat (rstmgr_get_bit_pos p) < 32"
proof -
  have p: "unat p \<le> 67" "unat p \<noteq> 32"
    using assms by (simp_all add: word_le_nat_alt word_unat_eq_iff)
  consider "p < 32" | "32 < p \<and> p < 64" | "64 \<le> p"
    using assms by (metis linorder_less_linear not_less)
  then show ?thesis
  proof cases
    case 1
    then show ?thesis by (simp add: unat_bit_pos word_less_nat_alt)
  next
    case 2
    then have "unat (p - 32) = unat p - 32" and "unat p < 64"
      by (simp_all add: unat_sub word_less_nat_alt word_le_nat_alt)
    with 2 show ?thesis by (auto simp: unat_bit_pos word_less_nat_alt)
  next
    case 3
    then have "unat (p - 64) = unat p - 64" and "\<not> p < 32" and "\<not> p < 64"
      by (simp_all add: unat_sub word_less_nat_alt word_le_nat_alt)
    with p(1) show ?thesis by (simp add: unat_bit_pos)
  qed
qed

lemma bit_pos_32: "unat (rstmgr_get_bit_pos 32) = 224"
  by (simp add: rstmgr_get_bit_pos_def)

lemma low_bit_of_byte: "(ucast (drop_bit n w) :: u8) AND 1 = of_bool (bit w n)" for w :: u32
  by (rule bit_word_eqI) (auto simp: bit_simps)

lemma rst_invalid_iff: "rst_invalid per \<longleftrightarrow> 67 < per"
  by (simp add: rst_invalid_def rst_ids)

lemma rstmgr_keeps_blind:
  assumes "trace_blind I"
  shows "keeps I (rstmgr_assert_reset per)" "keeps I (rstmgr_deassert_reset per)"
    "keeps I (rstmgr_toggle_reset per)" "keeps I (rstmgr_get_reset_status per)"
  unfolding rstmgr_defs
  by (intro keeps_intros keeps_prims_blind [OF assms] osal_keeps_blind [OF assms])+

text \<open>What the operations do on a valid id, as one equation each.\<close>

lemma run_assert_reset:
  assumes "per \<le> 67" and "per \<noteq> 32"
  shows "run_state (rstmgr_assert_reset per) s =
    (let a = ucast (rstmgr_get_base_addr per); v = hw_rd32 (env s) (trace s) a
     in (0, s\<lparr>trace := Wr32 a (set_bit (unat (rstmgr_get_bit_pos per)) v) # Rd32 a v # trace s\<rparr>))"
  using assms bit_pos_bound [OF assms]
  by (simp add: rstmgr_assert_reset_def rst_invalid_iff set_bit_eq_or Let_def)

lemma run_deassert_reset:
  assumes "per \<le> 67" and "per \<noteq> 32"
  shows "run_state (rstmgr_deassert_reset per) s =
    (let a = ucast (rstmgr_get_base_addr per); v = hw_rd32 (env s) (trace s) a
     in (0, s\<lparr>trace := Wr32 a (unset_bit (unat (rstmgr_get_bit_pos per)) v) # Rd32 a v # trace s\<rparr>))"
  using assms bit_pos_bound [OF assms]
  by (simp add: rstmgr_deassert_reset_def rst_invalid_iff unset_bit_eq_and_not Let_def)

lemma run_get_reset_status:
  assumes "per \<le> 67" and "per \<noteq> 32"
  shows "run_state (rstmgr_get_reset_status per) s =
    (let a = ucast (rstmgr_get_base_addr per); v = hw_rd32 (env s) (trace s) a
     in ((0, Some (of_bool (bit v (unat (rstmgr_get_bit_pos per))))),
         s\<lparr>trace := Rd32 a v # trace s\<rparr>))"
  using assms bit_pos_bound [OF assms]
  by (simp add: rstmgr_get_reset_status_def rst_invalid_iff low_bit_of_byte Let_def)

section \<open>The register layout of the header\<close>

text \<open>
  The bit-field section of \<^verbatim>\<open>socfpga_rst_mngr_reg.h\<close> lists where each peripheral's reset
  bit is: the entries \<open>(id, register offset, bit)\<close>, in the order of the ids.
\<close>

definition rst_header_table :: "(u32 \<times> u32 \<times> nat) list" where
  "rst_header_table = [
     (0, RESET_PER0MODRST, 0), (1, RESET_PER0MODRST, 1), (2, RESET_PER0MODRST, 2),
     (3, RESET_PER0MODRST, 3), (4, RESET_PER0MODRST, 4), (5, RESET_PER0MODRST, 5),
     (6, RESET_PER0MODRST, 6), (7, RESET_PER0MODRST, 7), (8, RESET_PER0MODRST, 8),
     (9, RESET_PER0MODRST, 9), (10, RESET_PER0MODRST, 10), (11, RESET_PER0MODRST, 11),
     (12, RESET_PER0MODRST, 12), (13, RESET_PER0MODRST, 13), (15, RESET_PER0MODRST, 15),
     (16, RESET_PER0MODRST, 16), (17, RESET_PER0MODRST, 17), (18, RESET_PER0MODRST, 18),
     (19, RESET_PER0MODRST, 19), (20, RESET_PER0MODRST, 20), (21, RESET_PER0MODRST, 21),
     (22, RESET_PER0MODRST, 22), (24, RESET_PER0MODRST, 24), (25, RESET_PER0MODRST, 25),
     (26, RESET_PER0MODRST, 26), (27, RESET_PER0MODRST, 27), (28, RESET_PER0MODRST, 28),
     (29, RESET_PER0MODRST, 29), (30, RESET_PER0MODRST, 30), (31, RESET_PER0MODRST, 31),
     (32, RESET_PER1MODRST, 0), (33, RESET_PER1MODRST, 1), (34, RESET_PER1MODRST, 2),
     (35, RESET_PER1MODRST, 3), (36, RESET_PER1MODRST, 4), (37, RESET_PER1MODRST, 5),
     (38, RESET_PER1MODRST, 6), (39, RESET_PER1MODRST, 7), (40, RESET_PER1MODRST, 8),
     (41, RESET_PER1MODRST, 9), (42, RESET_PER1MODRST, 10), (43, RESET_PER1MODRST, 11),
     (44, RESET_PER1MODRST, 12), (45, RESET_PER1MODRST, 13), (46, RESET_PER1MODRST, 14),
     (48, RESET_PER1MODRST, 16), (49, RESET_PER1MODRST, 17), (56, RESET_PER1MODRST, 24),
     (57, RESET_PER1MODRST, 25), (58, RESET_PER1MODRST, 26), (64, RESET_BRGMODRST, 0),
     (65, RESET_BRGMODRST, 1), (66, RESET_BRGMODRST, 2), (67, RESET_BRGMODRST, 3)
   ]"

definition rst_agrees :: "u32 \<times> u32 \<times> nat \<Rightarrow> bool" where
  "rst_agrees = (\<lambda>(per, reg, b).
     rstmgr_get_base_addr per = reg + RESET_MANAGER_BASE_ADDR \<and> unat (rstmgr_get_bit_pos per) = b)"

text \<open>
  The register and bit the reset manager computes agree with the header's bit-field table
  for every peripheral except four: watchdog 0 (id 32) and the two GPIO blocks and watchdog 4
  (ids 56, 57, 58), whose bits lie in PER1MODRST but are looked up in the bridge register.
\<close>

theorem rst_header_disagreements:
  "filter (\<lambda>e. \<not> rst_agrees e) rst_header_table =
     [(RST_WATCHDOG0, RESET_PER1MODRST, 0), (RST_GPIO0, RESET_PER1MODRST, 24),
      (RST_GPIO1, RESET_PER1MODRST, 25), (RST_WATCHDOG4, RESET_PER1MODRST, 26)]"
  by (simp add: rst_header_table_def rst_agrees_def rstmgr_get_base_addr_def
      rstmgr_get_bit_pos_def rst_ids rst_regs)

section \<open>Round trip and absence of undefined behaviour\<close>

text \<open>
  On a reset register that holds what is written to it, asserting the reset of a
  peripheral makes its reset status 1 and deasserting it makes it 0, for every valid id but
  watchdog 0.
\<close>

theorem rst_status_roundtrip:
  assumes "per \<le> RST_PERIPHERAL_END" and "per \<noteq> RST_WATCHDOG0"
    and "reg_holds (env s) (ucast (rstmgr_get_base_addr per))"
  shows "result (rstmgr_get_reset_status per) (final (rstmgr_assert_reset per) s) = (0, Some 1)
    \<and> result (rstmgr_get_reset_status per) (final (rstmgr_deassert_reset per) s) = (0, Some 0)"
  using assms bit_pos_bound [of per]
  by (simp add: rst_ids run_assert_reset run_deassert_reset run_get_reset_status Let_def
      reg_holds_def bit_simps)

theorem rst_status_roundtrip_witness:
  "result (rstmgr_get_reset_status RST_UART1)
     (final (rstmgr_assert_reset RST_UART1) \<lparr>env = ram_env, trace = [], mem = (\<lambda>_. 0)\<rparr>) = (0, Some 1)"
  using rst_status_roundtrip [of RST_UART1 "\<lparr>env = ram_env, trace = [], mem = (\<lambda>_. 0)\<rparr>"]
  by (simp add: rst_ids)

abbreviation no_ub :: "ev \<Rightarrow> bool" where
  "no_ub e \<equiv> \<not> is_ub e"

lemma no_ub_kern: "is_kern e \<Longrightarrow> no_ub e"
  by (cases e) simp_all

lemma rst_no_ub:
  assumes "per \<noteq> 32"
  shows "emits no_ub (rstmgr_assert_reset per)" "emits no_ub (rstmgr_deassert_reset per)"
    "emits no_ub (rstmgr_toggle_reset per)" "emits no_ub (rstmgr_get_reset_status per)"
  unfolding rstmgr_defs
  using assms by (auto intro!: emits_intros bit_pos_bound simp: rst_invalid_iff no_ub_kern)

lemma rst_ub_watchdog0:
  "\<not> emits no_ub (rstmgr_toggle_reset 32 :: (machine, int) state)"
  "\<not> emits no_ub (rstmgr_deassert_reset 32 :: (machine, int) state)"
  "\<not> emits no_ub (rstmgr_get_reset_status 32 :: (machine, int \<times> u8 option) state)"
  by (auto simp: emits_def rstmgr_defs rst_invalid_iff bit_pos_32 osal_task_delay_def Let_def
      Cons_eq_append_conv)

text \<open>
  The operations of the reset manager are free of undefined behaviour on every id,
  valid or not, except watchdog 0: there the computed bit position is 224 and shifting a
  32-bit value by it is undefined.
\<close>

theorem rst_no_ub_but_watchdog0:
  "emits no_ub (rstmgr_toggle_reset per :: (machine, int) state) = (per \<noteq> RST_WATCHDOG0)"
  "emits no_ub (rstmgr_deassert_reset per :: (machine, int) state) = (per \<noteq> RST_WATCHDOG0)"
  "emits no_ub (rstmgr_get_reset_status per :: (machine, int \<times> u8 option) state)
     = (per \<noteq> RST_WATCHDOG0)"
  unfolding rst_ids by (metis rst_no_ub rst_ub_watchdog0)+

text \<open>
  Toggling a reset asserts it and waits, and that is all: the only register write of
  the operation sets the peripheral's bit, so the peripheral is still held in reset when the
  operation reports success.
\<close>

theorem rst_toggle_leaves_asserted:
  assumes "per \<le> RST_PERIPHERAL_END" and "per \<noteq> RST_WATCHDOG0"
    and "reg_holds (env s) (ucast (rstmgr_get_base_addr per))"
  shows "result (rstmgr_toggle_reset per) s = 0
    \<and> result (rstmgr_get_reset_status per) (final (rstmgr_toggle_reset per) s) = (0, Some 1)"
  using assms bit_pos_bound [of per]
  by (simp add: rst_ids rstmgr_toggle_reset_def osal_task_delay_def rst_invalid_iff
      run_assert_reset run_get_reset_status Let_def reg_holds_def bit_simps)

theorem rst_toggle_leaves_asserted_witness:
  "result (rstmgr_get_reset_status RST_SPTIMER0)
     (final (rstmgr_toggle_reset RST_SPTIMER0) \<lparr>env = ram_env, trace = [], mem = (\<lambda>_. 0)\<rparr>) = (0, Some 1)"
  using rst_toggle_leaves_asserted [of RST_SPTIMER0 "\<lparr>env = ram_env, trace = [], mem = (\<lambda>_. 0)\<rparr>"]
  by (simp add: rst_ids)

end
