(* ===== verification/Clk_Mngr.thy ===== *)
theory Clk_Mngr
  imports Osal
begin

unbundle bit_operations_syntax

text \<open>
  The clock manager, \<^verbatim>\<open>drivers/clk_mngr\<close>: the clock tree as the boot firmware left it is
  read back from the PLL registers (\<open>clk_mngr_get_clk\<close>), and nine two-bit divider fields of
  the register NOCDIV are set and read (\<open>clk_mngr_set_divisor\<close>, \<open>clk_mngr_get_divisor\<close>).
\<close>

section \<open>Registers, fields and clock ids\<close>

definition CLK_MNGR_BASE_ADDR :: u32 where "CLK_MNGR_BASE_ADDR = 0x10D10000"
definition SYS_MNGR_BASE_ADDR :: u32 where "SYS_MNGR_BASE_ADDR = 0x10D12000"
definition MAINPLL_CLK_MNGR_NOCCLK :: u32 where "MAINPLL_CLK_MNGR_NOCCLK = 0x40"
definition MAINPLL_CLK_MNGR_NOCDIV :: u32 where "MAINPLL_CLK_MNGR_NOCDIV = 0x44"
definition MAINPLL_CLK_MNGR_PLLGLOB :: u32 where "MAINPLL_CLK_MNGR_PLLGLOB = 0x48"
definition MAINPLL_CLK_MNGR_PLLC2 :: u32 where "MAINPLL_CLK_MNGR_PLLC2 = 0x64"
definition MAINPLL_CLK_MNGR_PLLC3 :: u32 where "MAINPLL_CLK_MNGR_PLLC3 = 0x68"
definition MAINPLL_CLK_MNGR_PLLM :: u32 where "MAINPLL_CLK_MNGR_PLLM = 0x6C"
definition PERPLL_CLK_MNGR_PLLGLOB :: u32 where "PERPLL_CLK_MNGR_PLLGLOB = 0x9C"
definition PERPLL_CLK_MNGR_PLLC0 :: u32 where "PERPLL_CLK_MNGR_PLLC0 = 0xB0"
definition PERPLL_CLK_MNGR_PLLC1 :: u32 where "PERPLL_CLK_MNGR_PLLC1 = 0xB4"
definition PERPLL_CLK_MNGR_PLLM :: u32 where "PERPLL_CLK_MNGR_PLLM = 0xC0"
definition CLK_MNGR_DSUCTR :: u32 where "CLK_MNGR_DSUCTR = 0xFC"
definition SYS_MNGR_BOOT_SCRATCH_COLD0 :: u32 where "SYS_MNGR_BOOT_SCRATCH_COLD0 = 0x200"
definition SYS_MNGR_BOOT_SCRATCH_COLD1 :: u32 where "SYS_MNGR_BOOT_SCRATCH_COLD1 = 0x204"
definition SYS_MNGR_BOOT_SCRATCH_COLD2 :: u32 where "SYS_MNGR_BOOT_SCRATCH_COLD2 = 0x208"

definition CLK_MNGR_NOCCLK_SRC_MASK :: u32 where "CLK_MNGR_NOCCLK_SRC_MASK = 0x00070000"
definition CLK_MNGR_NOCCLK_SRC_POS :: nat where "CLK_MNGR_NOCCLK_SRC_POS = 16"
definition CLK_MNGR_PLLGLOB_PSRC_MASK :: u32 where "CLK_MNGR_PLLGLOB_PSRC_MASK = 0x00030000"
definition CLK_MNGR_PLLGLOB_PSRC_POS :: nat where "CLK_MNGR_PLLGLOB_PSRC_POS = 16"
definition CLK_MNGR_PLLGLOB_AREFCLKDIV_MASK :: u32 where
  "CLK_MNGR_PLLGLOB_AREFCLKDIV_MASK = 0x00000F00"
definition CLK_MNGR_PLLGLOB_AREFCLKDIV_POS :: nat where "CLK_MNGR_PLLGLOB_AREFCLKDIV_POS = 8"
definition CLK_MNGR_PLLM_MDIV_MASK :: u32 where "CLK_MNGR_PLLM_MDIV_MASK = 0x000003FF"
definition CLK_MNGR_PLLC0_DIV_MASK :: u32 where "CLK_MNGR_PLLC0_DIV_MASK = 0x000007FF"
definition CLK_MNGR_EN_L4MPCLKEN_POS :: nat where "CLK_MNGR_EN_L4MPCLKEN_POS = 2"

definition CLK_MNGR_NOCDIV_L4SYSFREECLK_MASK :: u32 where "CLK_MNGR_NOCDIV_L4SYSFREECLK_MASK = 0x0000000C"
definition CLK_MNGR_NOCDIV_L4SYSFREECLK_POS :: nat where "CLK_MNGR_NOCDIV_L4SYSFREECLK_POS = 2"
definition CLK_MNGR_NOCDIV_L4MPCLK_MASK :: u32 where "CLK_MNGR_NOCDIV_L4MPCLK_MASK = 0x00000030"
definition CLK_MNGR_NOCDIV_L4MPCLK_POS :: nat where "CLK_MNGR_NOCDIV_L4MPCLK_POS = 4"
definition CLK_MNGR_NOCDIV_L4SPCLK_MASK :: u32 where "CLK_MNGR_NOCDIV_L4SPCLK_MASK = 0x000000C0"
definition CLK_MNGR_NOCDIV_L4SPCLK_POS :: nat where "CLK_MNGR_NOCDIV_L4SPCLK_POS = 6"
definition CLK_MNGR_NOCDIV_SOFTPHYDIV_MASK :: u32 where "CLK_MNGR_NOCDIV_SOFTPHYDIV_MASK = 0x00030000"
definition CLK_MNGR_NOCDIV_SOFTPHYDIV_POS :: nat where "CLK_MNGR_NOCDIV_SOFTPHYDIV_POS = 16"
definition CLK_MNGR_NOCDIV_CCUDIV_MASK :: u32 where "CLK_MNGR_NOCDIV_CCUDIV_MASK = 0x000C0000"
definition CLK_MNGR_NOCDIV_CCUDIV_POS :: nat where "CLK_MNGR_NOCDIV_CCUDIV_POS = 18"
definition CLK_MNGR_NOCDIV_MPUPERIPHDIV_MASK :: u32 where "CLK_MNGR_NOCDIV_MPUPERIPHDIV_MASK = 0x00300000"
definition CLK_MNGR_NOCDIV_MPUPERIPHDIV_POS :: nat where "CLK_MNGR_NOCDIV_MPUPERIPHDIV_POS = 20"
definition CLK_MNGR_NOCDIV_CSCLK_MASK :: u32 where "CLK_MNGR_NOCDIV_CSCLK_MASK = 0x03000000"
definition CLK_MNGR_NOCDIV_CSCLK_POS :: nat where "CLK_MNGR_NOCDIV_CSCLK_POS = 24"
definition CLK_MNGR_NOCDIV_CSTRACECLK_MASK :: u32 where "CLK_MNGR_NOCDIV_CSTRACECLK_MASK = 0x0C000000"
definition CLK_MNGR_NOCDIV_CSTRACECLK_POS :: nat where "CLK_MNGR_NOCDIV_CSTRACECLK_POS = 26"
definition CLK_MNGR_NOCDIV_CSPDBGCLK_MASK :: u32 where "CLK_MNGR_NOCDIV_CSPDBGCLK_MASK = 0x30000000"
definition CLK_MNGR_NOCDIV_CSPDBGCLK_POS :: nat where "CLK_MNGR_NOCDIV_CSPDBGCLK_POS = 28"

lemmas clk_regs =
  CLK_MNGR_BASE_ADDR_def SYS_MNGR_BASE_ADDR_def MAINPLL_CLK_MNGR_NOCCLK_def
  MAINPLL_CLK_MNGR_NOCDIV_def MAINPLL_CLK_MNGR_PLLGLOB_def MAINPLL_CLK_MNGR_PLLC2_def
  MAINPLL_CLK_MNGR_PLLC3_def MAINPLL_CLK_MNGR_PLLM_def PERPLL_CLK_MNGR_PLLGLOB_def
  PERPLL_CLK_MNGR_PLLC0_def PERPLL_CLK_MNGR_PLLC1_def PERPLL_CLK_MNGR_PLLM_def
  CLK_MNGR_DSUCTR_def SYS_MNGR_BOOT_SCRATCH_COLD0_def SYS_MNGR_BOOT_SCRATCH_COLD1_def
  SYS_MNGR_BOOT_SCRATCH_COLD2_def

lemmas clk_fields =
  CLK_MNGR_NOCCLK_SRC_MASK_def CLK_MNGR_NOCCLK_SRC_POS_def CLK_MNGR_PLLGLOB_PSRC_MASK_def
  CLK_MNGR_PLLGLOB_PSRC_POS_def CLK_MNGR_PLLGLOB_AREFCLKDIV_MASK_def
  CLK_MNGR_PLLGLOB_AREFCLKDIV_POS_def CLK_MNGR_PLLM_MDIV_MASK_def
  CLK_MNGR_PLLC0_DIV_MASK_def CLK_MNGR_EN_L4MPCLKEN_POS_def
  CLK_MNGR_NOCDIV_L4SYSFREECLK_MASK_def CLK_MNGR_NOCDIV_L4SYSFREECLK_POS_def
  CLK_MNGR_NOCDIV_L4MPCLK_MASK_def CLK_MNGR_NOCDIV_L4MPCLK_POS_def
  CLK_MNGR_NOCDIV_L4SPCLK_MASK_def CLK_MNGR_NOCDIV_L4SPCLK_POS_def
  CLK_MNGR_NOCDIV_SOFTPHYDIV_MASK_def CLK_MNGR_NOCDIV_SOFTPHYDIV_POS_def
  CLK_MNGR_NOCDIV_CCUDIV_MASK_def CLK_MNGR_NOCDIV_CCUDIV_POS_def
  CLK_MNGR_NOCDIV_MPUPERIPHDIV_MASK_def CLK_MNGR_NOCDIV_MPUPERIPHDIV_POS_def
  CLK_MNGR_NOCDIV_CSCLK_MASK_def CLK_MNGR_NOCDIV_CSCLK_POS_def
  CLK_MNGR_NOCDIV_CSTRACECLK_MASK_def CLK_MNGR_NOCDIV_CSTRACECLK_POS_def
  CLK_MNGR_NOCDIV_CSPDBGCLK_MASK_def CLK_MNGR_NOCDIV_CSPDBGCLK_POS_def

definition MAIN_PLL_CLK_SRC :: u32 where "MAIN_PLL_CLK_SRC = 0"
definition PERI_PLL_CLK_SRC :: u32 where "PERI_PLL_CLK_SRC = 1"
definition PSRC_EOSC1_CLK :: u32 where "PSRC_EOSC1_CLK = 0"
definition PSRC_CBINTOSC_CLK :: u32 where "PSRC_CBINTOSC_CLK = 1"
definition PSRC_F2S_FREE_CLK :: u32 where "PSRC_F2S_FREE_CLK = 2"
definition CLKMGR_INTOSC_CLOCK_RATE_HZ :: u32 where "CLKMGR_INTOSC_CLOCK_RATE_HZ = 460000000"
definition QSPI_CLOCK_MULTIPLIER :: u32 where "QSPI_CLOCK_MULTIPLIER = 1000"

datatype clock_block =
  CLOCK_MPU | CLOCK_SDMMC | CLOCK_QSPI | CLOCK_SP_TIMER | CLOCK_OSC1TIMER | CLOCK_SSPI
| CLOCK_L4MAIN | CLOCK_UART | CLOCK_WDT | CLOCK_I2C | CLOCK_INVALID

definition L4_SYS_FREE_CLK :: u32 where "L4_SYS_FREE_CLK = 0"
definition L4_MP_CLK :: u32 where "L4_MP_CLK = 1"
definition L4_SP_CLK :: u32 where "L4_SP_CLK = 2"
definition SOFT_PHY_DIV :: u32 where "SOFT_PHY_DIV = 3"
definition CCU_DIV :: u32 where "CCU_DIV = 4"
definition MPU_PERIPH_DIV :: u32 where "MPU_PERIPH_DIV = 5"
definition CS_CLK :: u32 where "CS_CLK = 6"
definition CS_TRACE_CLK :: u32 where "CS_TRACE_CLK = 7"
definition CS_PDBG_CLK :: u32 where "CS_PDBG_CLK = 8"

lemmas clk_ids =
  MAIN_PLL_CLK_SRC_def PERI_PLL_CLK_SRC_def PSRC_EOSC1_CLK_def PSRC_CBINTOSC_CLK_def
  PSRC_F2S_FREE_CLK_def CLKMGR_INTOSC_CLOCK_RATE_HZ_def QSPI_CLOCK_MULTIPLIER_def
  L4_SYS_FREE_CLK_def L4_MP_CLK_def L4_SP_CLK_def SOFT_PHY_DIV_def CCU_DIV_def
  MPU_PERIPH_DIV_def CS_CLK_def CS_TRACE_CLK_def CS_PDBG_CLK_def

section \<open>Clock rates\<close>

definition pclk_mngr_get_src_ref_clk :: "u32 \<Rightarrow> ('x machine_scheme, u32) state" where
  "pclk_mngr_get_src_ref_clk pll_glob_reg_val = do {
     let src_pll_value = drop_bit CLK_MNGR_PLLGLOB_PSRC_POS
                           (pll_glob_reg_val AND CLK_MNGR_PLLGLOB_PSRC_MASK);
     src_clk_value \<leftarrow>
       (if src_pll_value = PSRC_EOSC1_CLK
        then RD_REG32 (SYS_MNGR_BASE_ADDR + SYS_MNGR_BOOT_SCRATCH_COLD1)
        else if src_pll_value = PSRC_CBINTOSC_CLK then ret CLKMGR_INTOSC_CLOCK_RATE_HZ
        else if src_pll_value = PSRC_F2S_FREE_CLK
        then RD_REG32 (SYS_MNGR_BASE_ADDR + SYS_MNGR_BOOT_SCRATCH_COLD2)
        else ret 0);
     if src_clk_value \<noteq> 0 then do {
       let aref_clk_div = drop_bit CLK_MNGR_PLLGLOB_AREFCLKDIV_POS
                            (pll_glob_reg_val AND CLK_MNGR_PLLGLOB_AREFCLKDIV_MASK);
       if aref_clk_div = 0 then ret 0
       else ret (src_clk_value div aref_clk_div)
     } else ret 0
   }"

definition pclk_mngr_get_clk :: "u32 \<Rightarrow> u32 \<Rightarrow> u32 \<Rightarrow> ('x machine_scheme, u32) state" where
  "pclk_mngr_get_clk clk_src_reg pll_channel_config_reg_main pll_channel_config_reg_peri = do {
     clk_src \<leftarrow> RD_REG32 clk_src_reg;
     let src_clk = drop_bit CLK_MNGR_NOCCLK_SRC_POS (clk_src AND CLK_MNGR_NOCCLK_SRC_MASK);
     (clk_div_ctrl_reg_val, pll_channel_config_reg_val, pll_glob_reg_val) \<leftarrow>
       (if src_clk = MAIN_PLL_CLK_SRC then do {
          m \<leftarrow> RD_REG32 (CLK_MNGR_BASE_ADDR + MAINPLL_CLK_MNGR_PLLM);
          c \<leftarrow> RD_REG32 pll_channel_config_reg_main;
          g \<leftarrow> RD_REG32 (CLK_MNGR_BASE_ADDR + MAINPLL_CLK_MNGR_PLLGLOB);
          ret (m, c, g)
        } else if src_clk = PERI_PLL_CLK_SRC then do {
          m \<leftarrow> RD_REG32 (CLK_MNGR_BASE_ADDR + PERPLL_CLK_MNGR_PLLM);
          c \<leftarrow> RD_REG32 pll_channel_config_reg_peri;
          g \<leftarrow> RD_REG32 (CLK_MNGR_BASE_ADDR + PERPLL_CLK_MNGR_PLLGLOB);
          ret (m, c, g)
        } else ret (0, 0, 0));
     ref_clk_val \<leftarrow> pclk_mngr_get_src_ref_clk pll_glob_reg_val;
     if ref_clk_val \<noteq> 0 then do {
       let clk_mdiv = clk_div_ctrl_reg_val AND CLK_MNGR_PLLM_MDIV_MASK;
       let ref_clk_val = ref_clk_val * clk_mdiv;
       let pll_clk_slice_div = pll_channel_config_reg_val AND CLK_MNGR_PLLC0_DIV_MASK;
       if pll_clk_slice_div = 0 then ret ref_clk_val
       else ret (ref_clk_val div pll_clk_slice_div)
     } else ret 0
   }"

definition pclk_mngr_get_l3_main_free_clk :: "('x machine_scheme, u32) state" where
  "pclk_mngr_get_l3_main_free_clk =
     pclk_mngr_get_clk (CLK_MNGR_BASE_ADDR + MAINPLL_CLK_MNGR_NOCCLK)
       (CLK_MNGR_BASE_ADDR + MAINPLL_CLK_MNGR_PLLC3) (CLK_MNGR_BASE_ADDR + PERPLL_CLK_MNGR_PLLC1)"

definition pclk_mngr_get_l4_sp_clk :: "('x machine_scheme, u32) state" where
  "pclk_mngr_get_l4_sp_clk = do {
     l4_sp_clk \<leftarrow> pclk_mngr_get_l3_main_free_clk;
     if l4_sp_clk \<noteq> 0 then do {
       d \<leftarrow> RD_REG32 (CLK_MNGR_BASE_ADDR + MAINPLL_CLK_MNGR_NOCDIV);
       let l4_sp_clk_div = drop_bit CLK_MNGR_NOCDIV_L4SPCLK_POS (d AND CLK_MNGR_NOCDIV_L4SPCLK_MASK);
       ret (drop_bit (unat l4_sp_clk_div) l4_sp_clk)
     } else ret l4_sp_clk
   }"

definition pclk_mngr_get_sp_timer_clk :: "('x machine_scheme, u32) state" where
  "pclk_mngr_get_sp_timer_clk = pclk_mngr_get_l4_sp_clk"

definition pclk_mngr_get_uart_clk :: "('x machine_scheme, u32) state" where
  "pclk_mngr_get_uart_clk = pclk_mngr_get_l4_sp_clk"

definition pclk_mngr_get_i2c_clk :: "('x machine_scheme, u32) state" where
  "pclk_mngr_get_i2c_clk = pclk_mngr_get_l4_sp_clk"

definition pclk_mngr_get_l4_sys_free_clk :: "('x machine_scheme, u32) state" where
  "pclk_mngr_get_l4_sys_free_clk = do {
     l4_sys_free_clk \<leftarrow> pclk_mngr_get_l3_main_free_clk;
     if l4_sys_free_clk \<noteq> 0 then do {
       d \<leftarrow> RD_REG32 (CLK_MNGR_BASE_ADDR + MAINPLL_CLK_MNGR_NOCDIV);
       let l4_sys_free_clk_div =
         drop_bit CLK_MNGR_NOCDIV_L4SYSFREECLK_POS (d AND CLK_MNGR_NOCDIV_L4SYSFREECLK_MASK);
       ret (drop_bit (unat l4_sys_free_clk_div) l4_sys_free_clk)
     } else ret l4_sys_free_clk
   }"

definition pclk_mngr_get_wdt_clk :: "('x machine_scheme, u32) state" where
  "pclk_mngr_get_wdt_clk = pclk_mngr_get_l4_sys_free_clk"

definition pclk_mngr_get_osc1_timer_clk :: "('x machine_scheme, u32) state" where
  "pclk_mngr_get_osc1_timer_clk = pclk_mngr_get_l4_sys_free_clk"

definition pclk_mngr_get_qspi_clk :: "('x machine_scheme, u32) state" where
  "pclk_mngr_get_qspi_clk = do {
     qspi_clk \<leftarrow> RD_REG32 (SYS_MNGR_BASE_ADDR + SYS_MNGR_BOOT_SCRATCH_COLD0);
     ret (qspi_clk * QSPI_CLOCK_MULTIPLIER)
   }"

definition pclk_mngr_get_l4_main_clk :: "('x machine_scheme, u32) state" where
  "pclk_mngr_get_l4_main_clk = pclk_mngr_get_l3_main_free_clk"

definition pclk_mngr_get_sspi_clk :: "('x machine_scheme, u32) state" where
  "pclk_mngr_get_sspi_clk = pclk_mngr_get_l4_main_clk"

definition pclk_mngr_get_l4_mp_clk :: "('x machine_scheme, u32) state" where
  "pclk_mngr_get_l4_mp_clk = do {
     l4_mp_clk \<leftarrow> pclk_mngr_get_l3_main_free_clk;
     if l4_mp_clk \<noteq> 0 then do {
       d \<leftarrow> RD_REG32 (CLK_MNGR_BASE_ADDR + MAINPLL_CLK_MNGR_NOCDIV);
       let l4_mp_clk_div = drop_bit CLK_MNGR_EN_L4MPCLKEN_POS (d AND CLK_MNGR_NOCDIV_L4MPCLK_MASK);
       ret (drop_bit (unat l4_mp_clk_div) l4_mp_clk)
     } else ret l4_mp_clk
   }"

definition pclk_mngr_get_sdmmc_clk :: "('x machine_scheme, u32) state" where
  "pclk_mngr_get_sdmmc_clk = pclk_mngr_get_l4_mp_clk"

definition pclk_mngr_get_mpu_clk :: "('x machine_scheme, u32) state" where
  "pclk_mngr_get_mpu_clk =
     pclk_mngr_get_clk (CLK_MNGR_BASE_ADDR + CLK_MNGR_DSUCTR)
       (CLK_MNGR_BASE_ADDR + MAINPLL_CLK_MNGR_PLLC2) (CLK_MNGR_BASE_ADDR + PERPLL_CLK_MNGR_PLLC0)"

text \<open>The out parameter \<^verbatim>\<open>*pclock_rate\<close> is the second component; it is always written.\<close>

definition clk_mngr_get_clk :: "clock_block \<Rightarrow> ('x machine_scheme, int \<times> u32) state" where
  "clk_mngr_get_clk clock_block_name = do {
     rate \<leftarrow> (case clock_block_name of
         CLOCK_MPU \<Rightarrow> pclk_mngr_get_mpu_clk
       | CLOCK_SDMMC \<Rightarrow> pclk_mngr_get_sdmmc_clk
       | CLOCK_QSPI \<Rightarrow> pclk_mngr_get_qspi_clk
       | CLOCK_SP_TIMER \<Rightarrow> pclk_mngr_get_sp_timer_clk
       | CLOCK_OSC1TIMER \<Rightarrow> pclk_mngr_get_osc1_timer_clk
       | CLOCK_SSPI \<Rightarrow> pclk_mngr_get_sspi_clk
       | CLOCK_UART \<Rightarrow> pclk_mngr_get_uart_clk
       | CLOCK_WDT \<Rightarrow> pclk_mngr_get_wdt_clk
       | CLOCK_I2C \<Rightarrow> pclk_mngr_get_i2c_clk
       | _ \<Rightarrow> ret 0);
     ret (if rate = 0 then - EINVAL else 0, rate)
   }"

lemmas clk_rate_defs =
  pclk_mngr_get_src_ref_clk_def pclk_mngr_get_clk_def pclk_mngr_get_l3_main_free_clk_def
  pclk_mngr_get_l4_sp_clk_def pclk_mngr_get_sp_timer_clk_def pclk_mngr_get_uart_clk_def
  pclk_mngr_get_i2c_clk_def pclk_mngr_get_l4_sys_free_clk_def pclk_mngr_get_wdt_clk_def
  pclk_mngr_get_osc1_timer_clk_def pclk_mngr_get_qspi_clk_def pclk_mngr_get_l4_main_clk_def
  pclk_mngr_get_sspi_clk_def pclk_mngr_get_l4_mp_clk_def pclk_mngr_get_sdmmc_clk_def
  pclk_mngr_get_mpu_clk_def clk_mngr_get_clk_def

section \<open>Dividers\<close>

text \<open>
  Each setter keeps the other fields of NOCDIV and writes back the divider's code; a divider
  it does not know returns early, before the write.
\<close>

definition pclk_mngr_set_l4_sys_free_clk_div :: "u8 \<Rightarrow> ('x machine_scheme, u32) state" where
  "pclk_mngr_set_l4_sys_free_clk_div divisor = do {
     r \<leftarrow> RD_REG32 (CLK_MNGR_BASE_ADDR + MAINPLL_CLK_MNGR_NOCDIV);
     let reg_val = r AND NOT CLK_MNGR_NOCDIV_L4SYSFREECLK_MASK;
     case (if divisor = 1 then Some (reg_val OR push_bit CLK_MNGR_NOCDIV_L4SYSFREECLK_POS 0)
           else if divisor = 2 then Some (reg_val OR push_bit CLK_MNGR_NOCDIV_L4SYSFREECLK_POS 1)
           else if divisor = 4 then Some (reg_val OR push_bit CLK_MNGR_NOCDIV_L4SYSFREECLK_POS 2)
           else None) of
       None \<Rightarrow> ret (word_of_int (- EINVAL))
     | Some reg_val \<Rightarrow> do {
         WR_REG32 (CLK_MNGR_BASE_ADDR + MAINPLL_CLK_MNGR_NOCDIV) reg_val;
         ret 0
       }
   }"

definition pclk_mngr_set_l4_mp_clk_div :: "u8 \<Rightarrow> ('x machine_scheme, u32) state" where
  "pclk_mngr_set_l4_mp_clk_div divisor = do {
     r \<leftarrow> RD_REG32 (CLK_MNGR_BASE_ADDR + MAINPLL_CLK_MNGR_NOCDIV);
     let reg_val = r AND NOT CLK_MNGR_NOCDIV_L4MPCLK_MASK;
     case (if divisor = 1 then Some (reg_val OR push_bit CLK_MNGR_NOCDIV_L4MPCLK_POS 0)
           else if divisor = 2 then Some (reg_val OR push_bit CLK_MNGR_NOCDIV_L4MPCLK_POS 1)
           else None) of
       None \<Rightarrow> ret (word_of_int (- EINVAL))
     | Some reg_val \<Rightarrow> do {
         WR_REG32 (CLK_MNGR_BASE_ADDR + MAINPLL_CLK_MNGR_NOCDIV) reg_val;
         ret 0
       }
   }"

definition pclk_mngr_set_l4_sp_clk_div :: "u8 \<Rightarrow> ('x machine_scheme, u32) state" where
  "pclk_mngr_set_l4_sp_clk_div divisor = do {
     r \<leftarrow> RD_REG32 (CLK_MNGR_BASE_ADDR + MAINPLL_CLK_MNGR_NOCDIV);
     let reg_val = r AND NOT CLK_MNGR_NOCDIV_L4SPCLK_MASK;
     case (if divisor = 1 then Some (reg_val OR push_bit CLK_MNGR_NOCDIV_L4SPCLK_POS 0)
           else if divisor = 2 then Some (reg_val OR push_bit CLK_MNGR_NOCDIV_L4SPCLK_POS 1)
           else if divisor = 4 then Some (reg_val OR push_bit CLK_MNGR_NOCDIV_L4SPCLK_POS 2)
           else None) of
       None \<Rightarrow> ret (word_of_int (- EINVAL))
     | Some reg_val \<Rightarrow> do {
         WR_REG32 (CLK_MNGR_BASE_ADDR + MAINPLL_CLK_MNGR_NOCDIV) reg_val;
         ret 0
       }
   }"

definition pclk_mngr_set_soft_phy_div :: "u8 \<Rightarrow> ('x machine_scheme, u32) state" where
  "pclk_mngr_set_soft_phy_div divisor = do {
     r \<leftarrow> RD_REG32 (CLK_MNGR_BASE_ADDR + MAINPLL_CLK_MNGR_NOCDIV);
     let reg_val = r AND NOT CLK_MNGR_NOCDIV_SOFTPHYDIV_MASK;
     case (if divisor = 1 then Some (reg_val OR push_bit CLK_MNGR_NOCDIV_SOFTPHYDIV_POS 0)
           else if divisor = 2 then Some (reg_val OR push_bit CLK_MNGR_NOCDIV_SOFTPHYDIV_POS 1)
           else if divisor = 4 then Some (reg_val OR push_bit CLK_MNGR_NOCDIV_SOFTPHYDIV_POS 2)
           else None) of
       None \<Rightarrow> ret (word_of_int (- EINVAL))
     | Some reg_val \<Rightarrow> do {
         WR_REG32 (CLK_MNGR_BASE_ADDR + MAINPLL_CLK_MNGR_NOCDIV) reg_val;
         ret 0
       }
   }"

definition pclk_mngr_set_ccu_div :: "u8 \<Rightarrow> ('x machine_scheme, u32) state" where
  "pclk_mngr_set_ccu_div divisor = do {
     r \<leftarrow> RD_REG32 (CLK_MNGR_BASE_ADDR + MAINPLL_CLK_MNGR_NOCDIV);
     let reg_val = r AND NOT CLK_MNGR_NOCDIV_CCUDIV_MASK;
     case (if divisor = 1 then Some (reg_val OR push_bit CLK_MNGR_NOCDIV_CCUDIV_POS 0)
           else if divisor = 2 then Some (reg_val OR push_bit CLK_MNGR_NOCDIV_CCUDIV_POS 1)
           else None) of
       None \<Rightarrow> ret (word_of_int (- EINVAL))
     | Some reg_val \<Rightarrow> do {
         WR_REG32 (CLK_MNGR_BASE_ADDR + MAINPLL_CLK_MNGR_NOCDIV) reg_val;
         ret 0
       }
   }"

definition pclk_mngr_set_mpu_periph_div :: "u8 \<Rightarrow> ('x machine_scheme, u32) state" where
  "pclk_mngr_set_mpu_periph_div divisor = do {
     r \<leftarrow> RD_REG32 (CLK_MNGR_BASE_ADDR + MAINPLL_CLK_MNGR_NOCDIV);
     let reg_val = r AND NOT CLK_MNGR_NOCDIV_MPUPERIPHDIV_MASK;
     case (if divisor = 1 then Some (reg_val OR push_bit CLK_MNGR_NOCDIV_MPUPERIPHDIV_POS 0)
           else if divisor = 2 then Some (reg_val OR push_bit CLK_MNGR_NOCDIV_MPUPERIPHDIV_POS 1)
           else if divisor = 4 then Some (reg_val OR push_bit CLK_MNGR_NOCDIV_MPUPERIPHDIV_POS 2)
           else None) of
       None \<Rightarrow> ret (word_of_int (- EINVAL))
     | Some reg_val \<Rightarrow> do {
         WR_REG32 (CLK_MNGR_BASE_ADDR + MAINPLL_CLK_MNGR_NOCDIV) reg_val;
         ret 0
       }
   }"

definition pclk_mngr_set_cs_clk_div :: "u8 \<Rightarrow> ('x machine_scheme, u32) state" where
  "pclk_mngr_set_cs_clk_div divisor = do {
     r \<leftarrow> RD_REG32 (CLK_MNGR_BASE_ADDR + MAINPLL_CLK_MNGR_NOCDIV);
     let reg_val = r AND NOT CLK_MNGR_NOCDIV_CSCLK_MASK;
     case (if divisor = 1 then Some (reg_val OR push_bit CLK_MNGR_NOCDIV_CSCLK_POS 0)
           else if divisor = 2 then Some (reg_val OR push_bit CLK_MNGR_NOCDIV_CSCLK_POS 1)
           else if divisor = 4 then Some (reg_val OR push_bit CLK_MNGR_NOCDIV_CSCLK_POS 2)
           else if divisor = 8 then Some (reg_val OR push_bit CLK_MNGR_NOCDIV_CSCLK_POS 3)
           else None) of
       None \<Rightarrow> ret (word_of_int (- EINVAL))
     | Some reg_val \<Rightarrow> do {
         WR_REG32 (CLK_MNGR_BASE_ADDR + MAINPLL_CLK_MNGR_NOCDIV) reg_val;
         ret 0
       }
   }"

definition pclk_mngr_set_cs_trace_clk_div :: "u8 \<Rightarrow> ('x machine_scheme, u32) state" where
  "pclk_mngr_set_cs_trace_clk_div divisor = do {
     r \<leftarrow> RD_REG32 (CLK_MNGR_BASE_ADDR + MAINPLL_CLK_MNGR_NOCDIV);
     let reg_val = r AND NOT CLK_MNGR_NOCDIV_CSTRACECLK_MASK;
     case (if divisor = 1 then Some (reg_val OR push_bit CLK_MNGR_NOCDIV_CSTRACECLK_POS 0)
           else if divisor = 2 then Some (reg_val OR push_bit CLK_MNGR_NOCDIV_CSTRACECLK_POS 1)
           else if divisor = 4 then Some (reg_val OR push_bit CLK_MNGR_NOCDIV_CSTRACECLK_POS 2)
           else if divisor = 8 then Some (reg_val OR push_bit CLK_MNGR_NOCDIV_CSTRACECLK_POS 3)
           else None) of
       None \<Rightarrow> ret (word_of_int (- EINVAL))
     | Some reg_val \<Rightarrow> do {
         WR_REG32 (CLK_MNGR_BASE_ADDR + MAINPLL_CLK_MNGR_NOCDIV) reg_val;
         ret 0
       }
   }"

definition pclk_mngr_set_cs_pdbg_clk_div :: "u8 \<Rightarrow> ('x machine_scheme, u32) state" where
  "pclk_mngr_set_cs_pdbg_clk_div divisor = do {
     r \<leftarrow> RD_REG32 (CLK_MNGR_BASE_ADDR + MAINPLL_CLK_MNGR_NOCDIV);
     let reg_val = r AND NOT CLK_MNGR_NOCDIV_CSPDBGCLK_MASK;
     case (if divisor = 1 then Some (reg_val OR push_bit CLK_MNGR_NOCDIV_CSPDBGCLK_POS 0)
           else if divisor = 2 then Some (reg_val OR push_bit CLK_MNGR_NOCDIV_CSPDBGCLK_POS 1)
           else if divisor = 4 then Some (reg_val OR push_bit CLK_MNGR_NOCDIV_CSPDBGCLK_POS 2)
           else if divisor = 8 then Some (reg_val OR push_bit CLK_MNGR_NOCDIV_CSPDBGCLK_POS 3)
           else None) of
       None \<Rightarrow> ret (word_of_int (- EINVAL))
     | Some reg_val \<Rightarrow> do {
         WR_REG32 (CLK_MNGR_BASE_ADDR + MAINPLL_CLK_MNGR_NOCDIV) reg_val;
         ret 0
       }
   }"

text \<open>The getters; \<^verbatim>\<open>return -EINVAL\<close> is converted to \<^verbatim>\<open>uint8_t\<close>.\<close>

definition pclk_mngr_get_l4_sys_free_clk_div :: "('x machine_scheme, u8) state" where
  "pclk_mngr_get_l4_sys_free_clk_div = do {
     reg_val \<leftarrow> RD_REG32 (CLK_MNGR_BASE_ADDR + MAINPLL_CLK_MNGR_NOCDIV);
     let d = drop_bit CLK_MNGR_NOCDIV_L4SYSFREECLK_POS reg_val AND 3;
     ret (if d = 2 then 4 else if d = 1 then 2 else if d = 0 then 0
          else word_of_int (- EINVAL))
   }"

definition pclk_mngr_get_l4_mp_clk_div :: "('x machine_scheme, u8) state" where
  "pclk_mngr_get_l4_mp_clk_div = do {
     reg_val \<leftarrow> RD_REG32 (CLK_MNGR_BASE_ADDR + MAINPLL_CLK_MNGR_NOCDIV);
     let d = drop_bit CLK_MNGR_NOCDIV_L4MPCLK_POS reg_val AND 3;
     ret (if d = 1 then 2 else if d = 0 then 0
          else word_of_int (- EINVAL))
   }"

definition pclk_mngr_get_l4_sp_clk_div :: "('x machine_scheme, u8) state" where
  "pclk_mngr_get_l4_sp_clk_div = do {
     reg_val \<leftarrow> RD_REG32 (CLK_MNGR_BASE_ADDR + MAINPLL_CLK_MNGR_NOCDIV);
     let d = drop_bit CLK_MNGR_NOCDIV_L4SPCLK_POS reg_val AND 3;
     ret (if d = 2 then 4 else if d = 1 then 2 else if d = 0 then 0
          else word_of_int (- EINVAL))
   }"

definition pclk_mngr_get_soft_phy_div :: "('x machine_scheme, u8) state" where
  "pclk_mngr_get_soft_phy_div = do {
     reg_val \<leftarrow> RD_REG32 (CLK_MNGR_BASE_ADDR + MAINPLL_CLK_MNGR_NOCDIV);
     let d = drop_bit CLK_MNGR_NOCDIV_SOFTPHYDIV_POS reg_val AND 3;
     ret (if d = 2 then 4 else if d = 1 then 2 else if d = 0 then 0
          else word_of_int (- EINVAL))
   }"

definition pclk_mngr_get_ccu_div :: "('x machine_scheme, u8) state" where
  "pclk_mngr_get_ccu_div = do {
     reg_val \<leftarrow> RD_REG32 (CLK_MNGR_BASE_ADDR + MAINPLL_CLK_MNGR_NOCDIV);
     let d = drop_bit CLK_MNGR_NOCDIV_CCUDIV_POS reg_val AND 3;
     ret (if d = 1 then 2 else if d = 0 then 0
          else word_of_int (- EINVAL))
   }"

definition pclk_mngr_get_mpu_periph_div :: "('x machine_scheme, u8) state" where
  "pclk_mngr_get_mpu_periph_div = do {
     reg_val \<leftarrow> RD_REG32 (CLK_MNGR_BASE_ADDR + MAINPLL_CLK_MNGR_NOCDIV);
     let d = drop_bit CLK_MNGR_NOCDIV_MPUPERIPHDIV_POS reg_val AND 3;
     ret (if d = 2 then 4 else if d = 1 then 2 else if d = 0 then 0
          else word_of_int (- EINVAL))
   }"

definition pclk_mngr_get_cs_clk_div :: "('x machine_scheme, u8) state" where
  "pclk_mngr_get_cs_clk_div = do {
     reg_val \<leftarrow> RD_REG32 (CLK_MNGR_BASE_ADDR + MAINPLL_CLK_MNGR_NOCDIV);
     let d = drop_bit CLK_MNGR_NOCDIV_CSCLK_POS reg_val AND 3;
     ret (if d = 3 then 8 else if d = 2 then 4 else if d = 1 then 2 else if d = 0 then 0
          else word_of_int (- EINVAL))
   }"

definition pclk_mngr_get_cs_trace_clk_div :: "('x machine_scheme, u8) state" where
  "pclk_mngr_get_cs_trace_clk_div = do {
     reg_val \<leftarrow> RD_REG32 (CLK_MNGR_BASE_ADDR + MAINPLL_CLK_MNGR_NOCDIV);
     let d = drop_bit CLK_MNGR_NOCDIV_CSTRACECLK_POS reg_val AND 3;
     ret (if d = 3 then 8 else if d = 2 then 4 else if d = 1 then 2 else if d = 0 then 0
          else word_of_int (- EINVAL))
   }"

definition pclk_mngr_get_cs_pdbg_clk_div :: "('x machine_scheme, u8) state" where
  "pclk_mngr_get_cs_pdbg_clk_div = do {
     reg_val \<leftarrow> RD_REG32 (CLK_MNGR_BASE_ADDR + MAINPLL_CLK_MNGR_NOCDIV);
     let d = drop_bit CLK_MNGR_NOCDIV_CSPDBGCLK_POS reg_val AND 3;
     ret (if d = 3 then 8 else if d = 2 then 4 else if d = 1 then 2 else if d = 0 then 0
          else word_of_int (- EINVAL))
   }"

definition clk_mngr_set_divisor :: "u32 \<Rightarrow> u8 \<Rightarrow> ('x machine_scheme, int) state" where
  "clk_mngr_set_divisor clock_type divisor = do {
     r \<leftarrow> (if clock_type = L4_SYS_FREE_CLK then pclk_mngr_set_l4_sys_free_clk_div divisor
           else if clock_type = L4_MP_CLK then pclk_mngr_set_l4_mp_clk_div divisor
           else if clock_type = L4_SP_CLK then pclk_mngr_set_l4_sp_clk_div divisor
           else if clock_type = SOFT_PHY_DIV then pclk_mngr_set_soft_phy_div divisor
           else if clock_type = CCU_DIV then pclk_mngr_set_ccu_div divisor
           else if clock_type = MPU_PERIPH_DIV then pclk_mngr_set_mpu_periph_div divisor
           else if clock_type = CS_CLK then pclk_mngr_set_cs_clk_div divisor
           else if clock_type = CS_TRACE_CLK then pclk_mngr_set_cs_trace_clk_div divisor
           else if clock_type = CS_PDBG_CLK then pclk_mngr_set_cs_pdbg_clk_div divisor
           else ret 1);
     let ret_val = (if r \<noteq> 0 then - 1 else 1 :: int);
     ret (if ret_val = - 1 then - EINVAL else 0)
   }"

definition clk_mngr_get_divisor :: "u32 \<Rightarrow> ('x machine_scheme, int \<times> u8) state" where
  "clk_mngr_get_divisor clock_type = do {
     divisor \<leftarrow> (if clock_type = L4_SYS_FREE_CLK then pclk_mngr_get_l4_sys_free_clk_div
           else if clock_type = L4_MP_CLK then pclk_mngr_get_l4_mp_clk_div
           else if clock_type = L4_SP_CLK then pclk_mngr_get_l4_sp_clk_div
           else if clock_type = SOFT_PHY_DIV then pclk_mngr_get_soft_phy_div
           else if clock_type = CCU_DIV then pclk_mngr_get_ccu_div
           else if clock_type = MPU_PERIPH_DIV then pclk_mngr_get_mpu_periph_div
           else if clock_type = CS_CLK then pclk_mngr_get_cs_clk_div
           else if clock_type = CS_TRACE_CLK then pclk_mngr_get_cs_trace_clk_div
           else if clock_type = CS_PDBG_CLK then pclk_mngr_get_cs_pdbg_clk_div
           else ret 0);
     ret (if divisor = 0 then - EINVAL else 0, divisor)
   }"

lemmas clk_set_defs =
  pclk_mngr_set_l4_sys_free_clk_div_def
  pclk_mngr_set_l4_mp_clk_div_def
  pclk_mngr_set_l4_sp_clk_div_def
  pclk_mngr_set_soft_phy_div_def
  pclk_mngr_set_ccu_div_def
  pclk_mngr_set_mpu_periph_div_def
  pclk_mngr_set_cs_clk_div_def
  pclk_mngr_set_cs_trace_clk_div_def
  pclk_mngr_set_cs_pdbg_clk_div_def
  clk_mngr_set_divisor_def

lemmas clk_get_defs =
  pclk_mngr_get_l4_sys_free_clk_div_def
  pclk_mngr_get_l4_mp_clk_div_def
  pclk_mngr_get_l4_sp_clk_div_def
  pclk_mngr_get_soft_phy_div_def
  pclk_mngr_get_ccu_div_def
  pclk_mngr_get_mpu_periph_div_def
  pclk_mngr_get_cs_clk_div_def
  pclk_mngr_get_cs_trace_clk_div_def
  pclk_mngr_get_cs_pdbg_clk_div_def
  clk_mngr_get_divisor_def

section \<open>The divider fields are register fields\<close>

interpretation sysfree: reg_field CLK_MNGR_NOCDIV_L4SYSFREECLK_MASK CLK_MNGR_NOCDIV_L4SYSFREECLK_POS 2
  by unfold_locales (simp_all add: clk_fields mask_eq_exp_minus_1)

interpretation l4mp: reg_field CLK_MNGR_NOCDIV_L4MPCLK_MASK CLK_MNGR_NOCDIV_L4MPCLK_POS 2
  by unfold_locales (simp_all add: clk_fields mask_eq_exp_minus_1)

interpretation l4sp: reg_field CLK_MNGR_NOCDIV_L4SPCLK_MASK CLK_MNGR_NOCDIV_L4SPCLK_POS 2
  by unfold_locales (simp_all add: clk_fields mask_eq_exp_minus_1)

interpretation softphy: reg_field CLK_MNGR_NOCDIV_SOFTPHYDIV_MASK CLK_MNGR_NOCDIV_SOFTPHYDIV_POS 2
  by unfold_locales (simp_all add: clk_fields mask_eq_exp_minus_1)

interpretation ccu: reg_field CLK_MNGR_NOCDIV_CCUDIV_MASK CLK_MNGR_NOCDIV_CCUDIV_POS 2
  by unfold_locales (simp_all add: clk_fields mask_eq_exp_minus_1)

interpretation mpuperiph: reg_field CLK_MNGR_NOCDIV_MPUPERIPHDIV_MASK CLK_MNGR_NOCDIV_MPUPERIPHDIV_POS 2
  by unfold_locales (simp_all add: clk_fields mask_eq_exp_minus_1)

interpretation csclk: reg_field CLK_MNGR_NOCDIV_CSCLK_MASK CLK_MNGR_NOCDIV_CSCLK_POS 2
  by unfold_locales (simp_all add: clk_fields mask_eq_exp_minus_1)

interpretation cstrace: reg_field CLK_MNGR_NOCDIV_CSTRACECLK_MASK CLK_MNGR_NOCDIV_CSTRACECLK_POS 2
  by unfold_locales (simp_all add: clk_fields mask_eq_exp_minus_1)

interpretation cspdbg: reg_field CLK_MNGR_NOCDIV_CSPDBGCLK_MASK CLK_MNGR_NOCDIV_CSPDBGCLK_POS 2
  by unfold_locales (simp_all add: clk_fields mask_eq_exp_minus_1)

section \<open>The divider interface against its table\<close>

text \<open>
  The reference: one row per clock, with the mask and position of its NOCDIV field and the
  dividers it supports. The code of a divider is its logarithm.
\<close>

definition nocdiv_table :: "(u32 \<times> u32 \<times> nat \<times> u8 list) list" where
  "nocdiv_table = [
     (L4_SYS_FREE_CLK, CLK_MNGR_NOCDIV_L4SYSFREECLK_MASK, CLK_MNGR_NOCDIV_L4SYSFREECLK_POS, [1, 2, 4]),
     (L4_MP_CLK, CLK_MNGR_NOCDIV_L4MPCLK_MASK, CLK_MNGR_NOCDIV_L4MPCLK_POS, [1, 2]),
     (L4_SP_CLK, CLK_MNGR_NOCDIV_L4SPCLK_MASK, CLK_MNGR_NOCDIV_L4SPCLK_POS, [1, 2, 4]),
     (SOFT_PHY_DIV, CLK_MNGR_NOCDIV_SOFTPHYDIV_MASK, CLK_MNGR_NOCDIV_SOFTPHYDIV_POS, [1, 2, 4]),
     (CCU_DIV, CLK_MNGR_NOCDIV_CCUDIV_MASK, CLK_MNGR_NOCDIV_CCUDIV_POS, [1, 2]),
     (MPU_PERIPH_DIV, CLK_MNGR_NOCDIV_MPUPERIPHDIV_MASK, CLK_MNGR_NOCDIV_MPUPERIPHDIV_POS, [1, 2, 4]),
     (CS_CLK, CLK_MNGR_NOCDIV_CSCLK_MASK, CLK_MNGR_NOCDIV_CSCLK_POS, [1, 2, 4, 8]),
     (CS_TRACE_CLK, CLK_MNGR_NOCDIV_CSTRACECLK_MASK, CLK_MNGR_NOCDIV_CSTRACECLK_POS, [1, 2, 4, 8]),
     (CS_PDBG_CLK, CLK_MNGR_NOCDIV_CSPDBGCLK_MASK, CLK_MNGR_NOCDIV_CSPDBGCLK_POS, [1, 2, 4, 8])]"

definition div_code :: "u8 \<Rightarrow> u32" where
  "div_code d = (if d = 1 then 0 else if d = 2 then 1 else if d = 4 then 2 else 3)"

definition nocdiv_update :: "u32 \<Rightarrow> u8 \<Rightarrow> u32 \<Rightarrow> u32 option" where
  "nocdiv_update ct d v =
     (case map_of nocdiv_table ct of
        None \<Rightarrow> None
      | Some (m, p, ds) \<Rightarrow>
          if d \<in> set ds then Some ((v AND NOT m) OR push_bit p (div_code d)) else None)"

abbreviation NOCDIV :: u64 where
  "NOCDIV \<equiv> ucast (CLK_MNGR_BASE_ADDR + MAINPLL_CLK_MNGR_NOCDIV)"

lemma set_divisor_table:
  "run_state (clk_mngr_set_divisor ct d) s =
     (if map_of nocdiv_table ct = None then (- EINVAL, s)
      else let v = hw_rd32 (env s) (trace s) NOCDIV in
        case nocdiv_update ct d v of
          None \<Rightarrow> (- EINVAL, s\<lparr>trace := Rd32 NOCDIV v # trace s\<rparr>)
        | Some w \<Rightarrow> (0, s\<lparr>trace := Wr32 NOCDIV w # Rd32 NOCDIV v # trace s\<rparr>))"
  by (simp add: clk_set_defs nocdiv_table_def nocdiv_update_def clk_ids div_code_def Let_def)

text \<open>
  C39. Setting a divider is the table's update of the register NOCDIV: a supported divider of a
  known clock rewrites the two bits of that clock's field, keeps all others and returns 0; an
  unsupported divider returns -EINVAL after reading but without writing; an unknown clock
  returns -EINVAL without any access.
\<close>

theorem set_divisor_meets_table:
  "run_state (clk_mngr_set_divisor ct d) s =
     (if map_of nocdiv_table ct = None then (- EINVAL, s)
      else let v = hw_rd32 (env s) (trace s) NOCDIV in
        case nocdiv_update ct d v of
          None \<Rightarrow> (- EINVAL, s\<lparr>trace := Rd32 NOCDIV v # trace s\<rparr>)
        | Some w \<Rightarrow> (0, s\<lparr>trace := Wr32 NOCDIV w # Rd32 NOCDIV v # trace s\<rparr>))"
  by (rule set_divisor_table)

text \<open>What a getter returns for a code of the field: the divider list's entry, 0 for code 0.\<close>

definition nocdiv_decode :: "u8 list \<Rightarrow> u32 \<Rightarrow> u8" where
  "nocdiv_decode ds c =
     (if c = 0 then 0 else if c = 1 \<and> 1 < length ds then ds ! 1
      else if c = 2 \<and> 2 < length ds then ds ! 2 else if c = 3 \<and> 3 < length ds then ds ! 3
      else word_of_int (- EINVAL))"

lemma get_divisor_table:
  "run_state (clk_mngr_get_divisor ct) s =
     (case map_of nocdiv_table ct of
        None \<Rightarrow> ((- EINVAL, 0), s)
      | Some (m, p, ds) \<Rightarrow>
         let v = hw_rd32 (env s) (trace s) NOCDIV; d = nocdiv_decode ds (drop_bit p v AND 3)
         in ((if d = 0 then - EINVAL else 0, d), s\<lparr>trace := Rd32 NOCDIV v # trace s\<rparr>))"
  by (simp add: clk_get_defs clk_ids nocdiv_table_def nocdiv_decode_def Let_def)

lemma nocdiv_lookup:
  assumes "(ct, row) \<in> set nocdiv_table"
  shows "map_of nocdiv_table ct = Some row"
proof (rule map_of_is_SomeI [OF _ assms])
  show "distinct (map fst nocdiv_table)"
    by (simp add: nocdiv_table_def clk_ids)
qed

lemma run_get_divisor:
  assumes "(ct, m, p, ds) \<in> set nocdiv_table"
  shows "run_state (clk_mngr_get_divisor ct) s =
    (let v = hw_rd32 (env s) (trace s) NOCDIV; d = nocdiv_decode ds (drop_bit p v AND 3)
     in ((if d = 0 then - EINVAL else 0, d), s\<lparr>trace := Rd32 NOCDIV v # trace s\<rparr>))"
  by (simp add: get_divisor_table nocdiv_lookup [OF assms])

lemma run_set_divisor:
  assumes "(ct, m, p, ds) \<in> set nocdiv_table" and "d \<in> set ds"
  shows "run_state (clk_mngr_set_divisor ct d) s =
    (let v = hw_rd32 (env s) (trace s) NOCDIV; w = (v AND NOT m) OR push_bit p (div_code d)
     in (0, s\<lparr>trace := Wr32 NOCDIV w # Rd32 NOCDIV v # trace s\<rparr>))"
  using assms(2) by (simp add: set_divisor_table nocdiv_update_def nocdiv_lookup [OF assms(1)] Let_def)

lemma nocdiv_fields:
  assumes "(ct, m, p, ds) \<in> set nocdiv_table"
  shows "reg_field m p 2"
  using assms unfolding nocdiv_table_def
  by (auto intro: sysfree.reg_field_axioms l4mp.reg_field_axioms l4sp.reg_field_axioms
      softphy.reg_field_axioms ccu.reg_field_axioms mpuperiph.reg_field_axioms
      csclk.reg_field_axioms cstrace.reg_field_axioms cspdbg.reg_field_axioms)

lemma div_code_bound: "unat (div_code d) < 2 ^ 2"
  by (simp add: div_code_def)

lemma decode_div_code:
  assumes "(ct, m, p, ds) \<in> set nocdiv_table" and "d \<in> set ds"
  shows "nocdiv_decode ds (div_code d) = (if d = 1 then 0 else d)"
  using assms unfolding nocdiv_table_def by (auto simp: nocdiv_decode_def div_code_def)

text \<open>
  Round trip of a divider: on a register that holds what is written, setting a supported
  divider succeeds and reading it back gives the divider, except that divider 1 (field code
  0) is read back as 0 with the error -EINVAL.
\<close>

theorem divisor_roundtrip:
  assumes "(ct, m, p, ds) \<in> set nocdiv_table" and "d \<in> set ds"
    and "reg_holds (env s) NOCDIV"
  shows "result (clk_mngr_set_divisor ct d) s = 0
    \<and> result (clk_mngr_get_divisor ct) (final (clk_mngr_set_divisor ct d) s)
        = (if d = 1 then (- EINVAL, 0) else (0, d))"
proof -
  define w where "w = (hw_rd32 (env s) (trace s) NOCDIV AND NOT m) OR push_bit p (div_code d)"
  have "drop_bit p w AND 3 = div_code d"
    using reg_field.get_set_low [OF nocdiv_fields [OF assms(1)] div_code_bound]
    by (simp add: w_def mask_2)
  moreover have "hw_rd32 (env s) (Wr32 NOCDIV w # t) NOCDIV = w" for t
    using assms(3) by (rule reg_holdsD) simp
  moreover have "d \<noteq> 0"
    using assms(1,2) by (auto simp: nocdiv_table_def)
  ultimately show ?thesis
    using decode_div_code [OF assms(1,2)]
    by (simp add: run_set_divisor [OF assms(1,2)] run_get_divisor [OF assms(1)] Let_def
        flip: w_def)
qed

theorem divisor_roundtrip_witness:
  "result (clk_mngr_get_divisor CS_CLK)
     (final (clk_mngr_set_divisor CS_CLK 8) \<lparr>env = ram_env, trace = [], mem = (\<lambda>_. 0)\<rparr>) = (0, 8)"
  using divisor_roundtrip [of CS_CLK CLK_MNGR_NOCDIV_CSCLK_MASK CLK_MNGR_NOCDIV_CSCLK_POS "[1, 2, 4, 8]" 8
      "\<lparr>env = ram_env, trace = [], mem = (\<lambda>_. 0)\<rparr>"]
  by (simp add: nocdiv_table_def)

text \<open>The fields of different clocks do not overlap.\<close>

lemma nocdiv_disjoint:
  assumes "(ct, m, p, ds) \<in> set nocdiv_table" and "(ct', m', p', ds') \<in> set nocdiv_table"
    and "ct \<noteq> ct'"
  shows "p + 2 \<le> p' \<or> p' + 2 \<le> p"
  using assms unfolding nocdiv_table_def by (auto simp: clk_fields clk_ids)

lemma reg_field_other:
  assumes "reg_field m p 2" and "unat c < 2 ^ 2" and "p + 2 \<le> q \<or> q + 2 \<le> p"
  shows "drop_bit q ((v AND NOT m) OR push_bit p c) AND 3 = drop_bit q v AND (3 :: u32)"
proof (rule bit_word_eqI)
  fix n
  have "n < 2 \<Longrightarrow> \<not> bit m (q + n)"
    using assms(3) by (auto simp: reg_field.bit_fmask [OF assms(1)])
  then show "bit (drop_bit q ((v AND NOT m) OR push_bit p c) AND 3) n = bit (drop_bit q v AND 3) n"
    unfolding mask_2 [symmetric]
    using reg_field.frame [OF assms(1,2), of "q + n" v]
    by (auto simp: bit_simps)
qed

text \<open>
  Setting one clock's divider does not disturb another's: with NOCDIV holding what is
  written, every other clock reads back the same divider and status as before.
\<close>

theorem divisor_isolation:
  assumes "(ct, m, p, ds) \<in> set nocdiv_table" and "(ct', m', p', ds') \<in> set nocdiv_table"
    and "ct \<noteq> ct'" and "d \<in> set ds" and "reg_holds (env s) NOCDIV"
  shows "result (clk_mngr_get_divisor ct') (final (clk_mngr_set_divisor ct d) s)
       = result (clk_mngr_get_divisor ct') s"
proof -
  define v where "v = hw_rd32 (env s) (trace s) NOCDIV"
  define w where "w = (v AND NOT m) OR push_bit p (div_code d)"
  have "drop_bit p' w AND 3 = drop_bit p' v AND 3"
    unfolding w_def
    by (rule reg_field_other [OF nocdiv_fields [OF assms(1)] div_code_bound
          nocdiv_disjoint [OF assms(1-3)]])
  moreover have "hw_rd32 (env s) (Wr32 NOCDIV w # t) NOCDIV = w" for t
    using assms(5) by (rule reg_holdsD) simp
  ultimately show ?thesis
    by (simp add: run_set_divisor [OF assms(1,4)] run_get_divisor [OF assms(2)] Let_def
        flip: v_def w_def)
qed

theorem divisor_isolation_witness:
  "result (clk_mngr_get_divisor L4_SP_CLK)
     (final (clk_mngr_set_divisor CS_CLK 8) \<lparr>env = ram_env, trace = [], mem = (\<lambda>_. 0)\<rparr>)
   = result (clk_mngr_get_divisor L4_SP_CLK) \<lparr>env = ram_env, trace = [], mem = (\<lambda>_. 0)\<rparr>"
  using divisor_isolation [of CS_CLK CLK_MNGR_NOCDIV_CSCLK_MASK CLK_MNGR_NOCDIV_CSCLK_POS "[1, 2, 4, 8]"
      L4_SP_CLK CLK_MNGR_NOCDIV_L4SPCLK_MASK CLK_MNGR_NOCDIV_L4SPCLK_POS "[1, 2, 4]" 8
      "\<lparr>env = ram_env, trace = [], mem = (\<lambda>_. 0)\<rparr>"]
  by (simp add: nocdiv_table_def clk_ids)

section \<open>Rates\<close>

lemma clk_keeps_env:
  "keeps (env_is e) (pclk_mngr_get_src_ref_clk g)"
  "keeps (env_is e) (pclk_mngr_get_clk a b c)"
  "keeps (env_is e) pclk_mngr_get_l3_main_free_clk"
  unfolding clk_rate_defs by (intro keeps_intros)+

lemma l3_env [simp]: "env (final pclk_mngr_get_l3_main_free_clk s) = env s"
  using keepsD [OF clk_keeps_env(3) [of "env s"], of s] by simp

lemma l4_mp_field:
  "unat (drop_bit 2 d AND 12 :: u32) = 4 * unat (drop_bit 4 d AND (3 :: u32))"
proof -
  have "drop_bit 2 (d AND push_bit 4 (mask 2)) = push_bit 2 (drop_bit 4 d AND mask 2 :: u32)"
    by (rule bit_word_eqI) (auto simp: bit_simps)
  moreover have "push_bit 4 (mask 2) = (0x30 :: u32)"
    by (simp add: mask_2)
  ultimately have "drop_bit 2 d AND 12 = push_bit 2 (drop_bit 4 d AND (3 :: u32))"
    by (simp add: mask_2)
  then show ?thesis
    using two_bits [of "drop_bit 4 d"] by (elim disjE) simp_all
qed

text \<open>
  The rate reported for the L4 MP clock (the SD/MMC controller's) is the L3 clock shifted
  right by four times the divider code, because the field is extracted with the position of
  the clock's enable bit (2) instead of the field's (4): code 1, which the setter stores for
  divider 2, is reported as a division by 16.
\<close>

theorem sdmmc_rate_shift:
  "result (clk_mngr_get_clk CLOCK_SDMMC) s =
     (let l3 = result pclk_mngr_get_l3_main_free_clk s;
          code = drop_bit 4 (hw_rd32 (env s) (trace (final pclk_mngr_get_l3_main_free_clk s)) NOCDIV) AND 3;
          rate = drop_bit (4 * unat code) l3
      in (if rate = 0 then - EINVAL else 0, rate))"
  by (simp add: clk_mngr_get_clk_def pclk_mngr_get_sdmmc_clk_def pclk_mngr_get_l4_mp_clk_def
      split_beta Let_def CLK_MNGR_EN_L4MPCLKEN_POS_def CLK_MNGR_NOCDIV_L4MPCLK_MASK_def l4_mp_field)

text \<open>Registers that nothing but the boot firmware changes: reads give one value each.\<close>

definition stable_regs :: "env \<Rightarrow> (u32 \<Rightarrow> u32) \<Rightarrow> bool" where
  "stable_regs e r \<longleftrightarrow> (\<forall>t a. hw_rd32 e t (ucast a) = r a)"

lemma stable_regsD [simp]: "stable_regs e r \<Longrightarrow> hw_rd32 e t (ucast a) = r a"
  by (simp add: stable_regs_def)

definition field :: "u32 \<Rightarrow> nat \<Rightarrow> u32 \<Rightarrow> u32" where
  "field m p v = drop_bit p (v AND m)"

definition main_pll_selected :: "(u32 \<Rightarrow> u32) \<Rightarrow> bool" where
  "main_pll_selected r \<longleftrightarrow>
     field CLK_MNGR_NOCCLK_SRC_MASK CLK_MNGR_NOCCLK_SRC_POS
       (r (CLK_MNGR_BASE_ADDR + MAINPLL_CLK_MNGR_NOCCLK)) = MAIN_PLL_CLK_SRC
   \<and> field CLK_MNGR_PLLGLOB_PSRC_MASK CLK_MNGR_PLLGLOB_PSRC_POS
       (r (CLK_MNGR_BASE_ADDR + MAINPLL_CLK_MNGR_PLLGLOB)) = PSRC_EOSC1_CLK"

text \<open>The clock tree in natural numbers: oscillator / reference divider * multiplier / slice.\<close>

definition ref_rate :: "(u32 \<Rightarrow> u32) \<Rightarrow> nat" where
  "ref_rate r =
     unat (r (SYS_MNGR_BASE_ADDR + SYS_MNGR_BOOT_SCRATCH_COLD1))
       div unat (field CLK_MNGR_PLLGLOB_AREFCLKDIV_MASK CLK_MNGR_PLLGLOB_AREFCLKDIV_POS
                  (r (CLK_MNGR_BASE_ADDR + MAINPLL_CLK_MNGR_PLLGLOB)))"

definition vco_rate :: "(u32 \<Rightarrow> u32) \<Rightarrow> nat" where
  "vco_rate r = ref_rate r *
     unat (r (CLK_MNGR_BASE_ADDR + MAINPLL_CLK_MNGR_PLLM) AND CLK_MNGR_PLLM_MDIV_MASK)"

definition l3_rate :: "(u32 \<Rightarrow> u32) \<Rightarrow> nat" where
  "l3_rate r = vco_rate r
     div unat (r (CLK_MNGR_BASE_ADDR + MAINPLL_CLK_MNGR_PLLC3) AND CLK_MNGR_PLLC0_DIV_MASK)"

lemma l3_main_free_rate:
  assumes "stable_regs (env s) r" and "main_pll_selected r" and "vco_rate r < 2 ^ 32"
    and "r (CLK_MNGR_BASE_ADDR + MAINPLL_CLK_MNGR_PLLC3) AND CLK_MNGR_PLLC0_DIV_MASK \<noteq> 0"
  shows "unat (result pclk_mngr_get_l3_main_free_clk s) = l3_rate r"
proof -
  let ?osc = "r (SYS_MNGR_BASE_ADDR + SYS_MNGR_BOOT_SCRATCH_COLD1)"
  let ?aref = "field CLK_MNGR_PLLGLOB_AREFCLKDIV_MASK CLK_MNGR_PLLGLOB_AREFCLKDIV_POS
                 (r (CLK_MNGR_BASE_ADDR + MAINPLL_CLK_MNGR_PLLGLOB))"
  have "run_state (pclk_mngr_get_src_ref_clk (r (CLK_MNGR_BASE_ADDR + MAINPLL_CLK_MNGR_PLLGLOB))) t
      = (?osc div ?aref, snd (run_state (pclk_mngr_get_src_ref_clk (r (CLK_MNGR_BASE_ADDR + MAINPLL_CLK_MNGR_PLLGLOB))) t))"
    if "env t = env s" for t :: "'a machine_scheme"
    using that assms(1,2)
    by (simp add: pclk_mngr_get_src_ref_clk_def main_pll_selected_def field_def Let_def)
  note ref = this [THEN arg_cong [of _ _ fst], simplified]
  have res: "result pclk_mngr_get_l3_main_free_clk s =
      (if ?osc div ?aref = 0 then 0
       else (?osc div ?aref * (r (CLK_MNGR_BASE_ADDR + MAINPLL_CLK_MNGR_PLLM) AND CLK_MNGR_PLLM_MDIV_MASK))
         div (r (CLK_MNGR_BASE_ADDR + MAINPLL_CLK_MNGR_PLLC3) AND CLK_MNGR_PLLC0_DIV_MASK))"
    using assms
    by (simp add: pclk_mngr_get_l3_main_free_clk_def pclk_mngr_get_clk_def Let_def split_beta ref
        main_pll_selected_def field_def)
  have "unat ?osc div unat ?aref = 0" if "?osc div ?aref = 0"
    using that by (metis unat_div unat_0)
  then show ?thesis
    using assms(3)
    by (simp add: res l3_rate_def vco_rate_def ref_rate_def unat_mult_no_wrap unat_div)
qed

text \<open>
  The rates of the slow peripherals: with the main PLL on the external oscillator, a
  non-zero slice divider and a VCO rate that fits 32 bits, the UART, I2C and SP-timer clocks
  are the L3 rate divided by two to the L4SP code and the watchdog and system-timer clocks the
  L3 rate divided by two to the L4SYSFREE code.
\<close>

theorem l4_rates:
  assumes "stable_regs (env s) r" and "main_pll_selected r" and "vco_rate r < 2 ^ 32"
    and "r (CLK_MNGR_BASE_ADDR + MAINPLL_CLK_MNGR_PLLC3) AND CLK_MNGR_PLLC0_DIV_MASK \<noteq> 0"
  shows "(\<forall>b \<in> {CLOCK_UART, CLOCK_I2C, CLOCK_SP_TIMER}.
      unat (snd (result (clk_mngr_get_clk b) s)) = l3_rate r div 2 ^ unat
        (field CLK_MNGR_NOCDIV_L4SPCLK_MASK CLK_MNGR_NOCDIV_L4SPCLK_POS
          (r (CLK_MNGR_BASE_ADDR + MAINPLL_CLK_MNGR_NOCDIV))))
    \<and> (\<forall>b \<in> {CLOCK_WDT, CLOCK_OSC1TIMER}.
      unat (snd (result (clk_mngr_get_clk b) s)) = l3_rate r div 2 ^ unat
        (field CLK_MNGR_NOCDIV_L4SYSFREECLK_MASK CLK_MNGR_NOCDIV_L4SYSFREECLK_POS
          (r (CLK_MNGR_BASE_ADDR + MAINPLL_CLK_MNGR_NOCDIV))))"
  using l3_main_free_rate [OF assms] assms(1)
  by (auto simp: clk_mngr_get_clk_def clk_rate_defs(4-10) split_beta Let_def field_def unat_drop_bit)

text \<open>A boot configuration: a 25 MHz oscillator, multiplied by 128, with slice divider 8.\<close>

definition boot_regs :: "u32 \<Rightarrow> u32" where
  "boot_regs a =
     (if a = SYS_MNGR_BASE_ADDR + SYS_MNGR_BOOT_SCRATCH_COLD1 then 25000000
      else if a = CLK_MNGR_BASE_ADDR + MAINPLL_CLK_MNGR_PLLGLOB then 0x100
      else if a = CLK_MNGR_BASE_ADDR + MAINPLL_CLK_MNGR_PLLM then 128
      else if a = CLK_MNGR_BASE_ADDR + MAINPLL_CLK_MNGR_PLLC3 then 8
      else if a = CLK_MNGR_BASE_ADDR + MAINPLL_CLK_MNGR_NOCDIV then 0x84
      else 0)"

definition boot_env :: env where
  "boot_env = ram_env\<lparr>hw_rd32 := \<lambda>_ a. boot_regs (ucast a)\<rparr>"

lemma boot_stable: "stable_regs boot_env boot_regs"
  by (simp add: stable_regs_def boot_env_def)

theorem l4_rates_witness:
  "unat (snd (result (clk_mngr_get_clk CLOCK_UART) \<lparr>env = boot_env, trace = [], mem = (\<lambda>_. 0)\<rparr>))
     = 100000000"
  using l4_rates [of "\<lparr>env = boot_env, trace = [], mem = (\<lambda>_. 0)\<rparr>" boot_regs]
  by (simp add: boot_stable main_pll_selected_def vco_rate_def ref_rate_def l3_rate_def field_def
      boot_regs_def clk_regs clk_fields clk_ids)

fun is_rd32 :: "ev \<Rightarrow> bool" where
  "is_rd32 (Rd32 _ _) = True"
| "is_rd32 _ = False"

text \<open>
  Asking for a rate only reads registers, and its status is -EINVAL exactly when the rate
  is 0; that is so for the ids the switch does not list, the L4 main clock among them, although
  its rate function exists.
\<close>

lemma get_clk_total:
  "emits is_rd32 (clk_mngr_get_clk b) \<and>
   fst (result (clk_mngr_get_clk b) s) = (if snd (result (clk_mngr_get_clk b) s) = 0 then - EINVAL else 0) \<and>
   run_state (clk_mngr_get_clk CLOCK_L4MAIN) s = ((- EINVAL, 0), s)"
proof (intro conjI)
  show "emits is_rd32 (clk_mngr_get_clk b)"
    by (cases b; simp add: clk_rate_defs; intro emits_intros; simp)
qed (simp_all add: clk_mngr_get_clk_def split_beta)

text \<open>
  A reserved field code is reported as a success: when the two bits of the L4 SP field are
  3, the divider read back is 234, the error code -EINVAL cut to eight bits, with status 0.
\<close>

theorem reserved_divisor_is_success:
  assumes "drop_bit CLK_MNGR_NOCDIV_L4SPCLK_POS (hw_rd32 (env s) (trace s) NOCDIV) AND 3 = 3"
  shows "result (clk_mngr_get_divisor L4_SP_CLK) s = (0, 234)"
  using assms by (simp add: get_divisor_table nocdiv_table_def nocdiv_decode_def clk_ids Let_def)

theorem reserved_divisor_is_success_witness:
  "result (clk_mngr_get_divisor L4_SP_CLK)
     \<lparr>env = ram_env, trace = [Wr32 NOCDIV 0xC0], mem = (\<lambda>_. 0)\<rparr> = (0, 234)"
  using reserved_divisor_is_success [of "\<lparr>env = ram_env, trace = [Wr32 NOCDIV 0xC0], mem = (\<lambda>_. 0)\<rparr>"]
  by (simp add: ram_env_def clk_fields)

section \<open>Invariants of other components\<close>

lemma clk_keeps_blind:
  assumes "trace_blind I"
  shows "keeps I (clk_mngr_get_clk b)"
  by (cases b; simp add: clk_rate_defs Let_def; intro keeps_intros keeps_prims_blind [OF assms])

end
