(* ===== verification/Timer.thy ===== *)
theory Timer
  imports Interrupt Rst_Mngr Clk_Mngr
begin

unbundle bit_operations_syntax

text \<open>
  The timer driver, \<^verbatim>\<open>drivers/timer\<close>: four timers, each with a descriptor whose state
  machine is closed / open, unconfigured / configured, stopped / running. A handle is a
  pointer to a descriptor, modelled by its index; \<open>None\<close> is \<^verbatim>\<open>NULL\<close>. The user's callback
  is an event of the trace.
\<close>

section \<open>Registers and instances\<close>

definition SPTIMER0_BASE_ADDR :: u32 where "SPTIMER0_BASE_ADDR = 0x10C03000"
definition SPTIMER1_BASE_ADDR :: u32 where "SPTIMER1_BASE_ADDR = 0x10C03100"
definition OSC1_TIMER0_BASE_ADDR :: u32 where "OSC1_TIMER0_BASE_ADDR = 0x10D00000"
definition OSC1_TIMER1_BASE_ADDR :: u32 where "OSC1_TIMER1_BASE_ADDR = 0x10D00100"
definition TIMER_TIMER1LOADCOUNT :: u32 where "TIMER_TIMER1LOADCOUNT = 0x0000"
definition TIMER_TIMER1CURRENTVAL :: u32 where "TIMER_TIMER1CURRENTVAL = 0x0004"
definition TIMER_TIMER1CONTROLREG :: u32 where "TIMER_TIMER1CONTROLREG = 0x0008"
definition TIMER_TIMER1EOI :: u32 where "TIMER_TIMER1EOI = 0x000C"
definition TIMER_INTERRUPT_MASK_MASK :: u32 where "TIMER_INTERRUPT_MASK_MASK = 0x4"
definition TIMER_MODE_MASK :: u32 where "TIMER_MODE_MASK = 0x2"
definition TIMER_ENABLE_MASK :: u32 where "TIMER_ENABLE_MASK = 0x1"
definition TIMER_DISABLE :: u32 where "TIMER_DISABLE = 0x0"
definition TIMER_ENABLE :: u32 where "TIMER_ENABLE = 0x1"
definition TIMER_FREE_RUNNING_PERIOD :: u32 where "TIMER_FREE_RUNNING_PERIOD = 0xFFFFFFFF"
definition GIC_INTERRUPT_PRIORITY_TIMER :: u8 where "GIC_INTERRUPT_PRIORITY_TIMER = 14"

definition TIMER_SYS0 :: u32 where "TIMER_SYS0 = 0"
definition TIMER_SYS1 :: u32 where "TIMER_SYS1 = 1"
definition TIMER_SP0 :: u32 where "TIMER_SP0 = 2"
definition TIMER_SP1 :: u32 where "TIMER_SP1 = 3"
definition TIMER_N_INSTANCE :: u32 where "TIMER_N_INSTANCE = 4"

lemmas timer_consts =
  SPTIMER0_BASE_ADDR_def SPTIMER1_BASE_ADDR_def OSC1_TIMER0_BASE_ADDR_def OSC1_TIMER1_BASE_ADDR_def
  TIMER_TIMER1LOADCOUNT_def TIMER_TIMER1CURRENTVAL_def TIMER_TIMER1CONTROLREG_def
  TIMER_TIMER1EOI_def TIMER_INTERRUPT_MASK_MASK_def TIMER_MODE_MASK_def TIMER_ENABLE_MASK_def
  TIMER_DISABLE_def TIMER_ENABLE_def TIMER_FREE_RUNNING_PERIOD_def GIC_INTERRUPT_PRIORITY_TIMER_def
  TIMER_SYS0_def TIMER_SYS1_def TIMER_SP0_def TIMER_SP1_def TIMER_N_INSTANCE_def

section \<open>State\<close>

record timer_context =
  base_address :: u32
  is_running :: bool
  is_open :: bool
  is_configured :: bool
  interrupt_id :: u32
  clk_hz :: u32
  callback_func :: fptr
  usr_cntxt :: vptr

record timer_state = irq_state +
  timer_descriptor :: "nat \<Rightarrow> timer_context"

type_synonym timer_handle_t = "nat option"

definition timer_zero :: timer_context where
  "timer_zero = \<lparr>base_address = 0, is_running = False, is_open = False, is_configured = False,
     interrupt_id = 0, clk_hz = 0, callback_func = F_NULL, usr_cntxt = V_NULL\<rparr>"

definition upd_timer :: "nat \<Rightarrow> (timer_context \<Rightarrow> timer_context) \<Rightarrow> 'x timer_state_scheme \<Rightarrow> 'x timer_state_scheme" where
  "upd_timer i f s = s\<lparr>timer_descriptor := (timer_descriptor s)(i := f (timer_descriptor s i))\<rparr>"

abbreviation get_timer :: "nat \<Rightarrow> ('x timer_state_scheme, timer_context) state" where
  "get_timer i \<equiv> gets (\<lambda>s. timer_descriptor s i)"

section \<open>Operations\<close>

definition timer_get_rst_instance :: "u32 \<Rightarrow> u32" where
  "timer_get_rst_instance instance0 =
     (if instance0 = TIMER_SYS0 then RST_L4SYSTIMER0
      else if instance0 = TIMER_SYS1 then RST_L4SYSTIMER1
      else if instance0 = TIMER_SP0 then RST_SPTIMER0
      else if instance0 = TIMER_SP1 then RST_SPTIMER1
      else RST_PERIPHERAL_END)"

definition timer_us_to_ticks :: "u32 \<Rightarrow> u32 \<Rightarrow> u32" where
  "timer_us_to_ticks clk time_us =
     (let ticks = (ucast clk * ucast time_us :: u64);
          ticks = ticks div 1000000
      in if ticks > 0xFFFFFFFF then TIMER_FREE_RUNNING_PERIOD else ucast ticks)"

definition TIMER_TICKS_TO_US :: "u32 \<Rightarrow> u32 \<Rightarrow> u32" where
  "TIMER_TICKS_TO_US clk ticks = ucast ((ucast ticks * 1000000 :: u64) div ucast clk)"

text \<open>The \<^verbatim>\<open>switch (instance)\<close> of \<^verbatim>\<open>timer_open\<close>.\<close>

definition timer_resources :: "u32 \<Rightarrow> (u32 \<times> u32 \<times> clock_block) option" where
  "timer_resources instance0 =
     (if instance0 = TIMER_SYS0 then Some (OSC1_TIMER0_BASE_ADDR, TIMER_OSC10IRQ, CLOCK_OSC1TIMER)
      else if instance0 = TIMER_SYS1 then Some (OSC1_TIMER1_BASE_ADDR, TIMER_OSC11IRQ, CLOCK_OSC1TIMER)
      else if instance0 = TIMER_SP0 then Some (SPTIMER0_BASE_ADDR, TIMER_L4SP0IRQ, CLOCK_SP_TIMER)
      else if instance0 = TIMER_SP1 then Some (SPTIMER1_BASE_ADDR, TIMER_L4SP1IRQ, CLOCK_SP_TIMER)
      else None)"

text \<open>\<^verbatim>\<open>timer_open\<close> from the reset on, for a descriptor whose base address and
  interrupt are set.\<close>

definition timer_bring_up ::
  "nat \<Rightarrow> u32 \<Rightarrow> u32 \<Rightarrow> clock_block \<Rightarrow> u32 \<Rightarrow> ('x timer_state_scheme, timer_handle_t) state" where
  "timer_bring_up h base irq clock_block_id rst_instance =
     (if rst_instance = RST_PERIPHERAL_END then ret None
      else do {
        (status, res) \<leftarrow> rstmgr_get_reset_status rst_instance;
        if status \<noteq> 0 then ret None
        else do {
          status \<leftarrow> (if res \<noteq> Some 0 then rstmgr_toggle_reset rst_instance else ret 0);
          if status \<noteq> 0 then ret None
          else do {
            (err, clk) \<leftarrow> clk_mngr_get_clk clock_block_id;
            if err \<noteq> 0 then ret None
            else do {
              modify (upd_timer h (\<lambda>c. c\<lparr>clk_hz := clk\<rparr>));
              err \<leftarrow> interrupt_register_isr irq F_timer_irq_handler (V_timer h);
              if err \<noteq> 0 then ret None
              else do {
                err \<leftarrow> interrupt_enable irq GIC_INTERRUPT_PRIORITY_TIMER;
                if err \<noteq> 0 then ret None
                else do {
                  val \<leftarrow> RD_REG32 (base + TIMER_TIMER1CONTROLREG);
                  WR_REG32 (base + TIMER_TIMER1CONTROLREG) (val AND NOT TIMER_INTERRUPT_MASK_MASK);
                  modify (upd_timer h (\<lambda>c. c\<lparr>is_open := True\<rparr>));
                  ret (Some h)
                }
              }
            }
          }
        }
      })"

definition timer_open :: "u32 \<Rightarrow> ('x timer_state_scheme, timer_handle_t) state" where
  "timer_open instance0 =
     (if instance0 \<ge> TIMER_N_INSTANCE then ret None
      else do {
        let h = unat instance0;
        c \<leftarrow> get_timer h;
        if is_open c then ret None
        else case timer_resources instance0 of
          None \<Rightarrow> ret None
        | Some (base, irq, clock_block_id) \<Rightarrow> do {
            modify (upd_timer h (\<lambda>c. c\<lparr>base_address := base, interrupt_id := irq\<rparr>));
            timer_bring_up h base irq clock_block_id (timer_get_rst_instance instance0)
          }
      })"

definition timer_set_period_us :: "timer_handle_t \<Rightarrow> u32 \<Rightarrow> ('x timer_state_scheme, int) state" where
  "timer_set_period_us htimer period =
     (case htimer of None \<Rightarrow> ret (- EINVAL)
      | Some h \<Rightarrow> do {
          c \<leftarrow> get_timer h;
          if is_running c then ret (- EBUSY)
          else do {
            let ctl = base_address c + TIMER_TIMER1CONTROLREG;
            val \<leftarrow> RD_REG32 ctl;
            let val = val AND NOT (TIMER_ENABLE_MASK OR TIMER_MODE_MASK OR TIMER_INTERRUPT_MASK_MASK);
            WR_REG32 ctl val;
            let count_val = timer_us_to_ticks (clk_hz c) period;
            whenM (count_val \<noteq> TIMER_FREE_RUNNING_PERIOD) (WR_REG32 ctl (val OR TIMER_MODE_MASK));
            WR_REG32 (base_address c + TIMER_TIMER1LOADCOUNT) count_val;
            modify (upd_timer h (\<lambda>c. c\<lparr>is_configured := True\<rparr>));
            ret 0
          }
        })"

definition timer_start :: "timer_handle_t \<Rightarrow> ('x timer_state_scheme, int) state" where
  "timer_start htimer =
     (case htimer of None \<Rightarrow> ret (- EINVAL)
      | Some h \<Rightarrow> do {
          c \<leftarrow> get_timer h;
          if \<not> is_configured c then ret (- EINVAL)
          else if is_running c then ret (- EBUSY)
          else do {
            val \<leftarrow> RD_REG32 (base_address c + TIMER_TIMER1CONTROLREG);
            WR_REG32 (base_address c + TIMER_TIMER1CONTROLREG) (val OR TIMER_ENABLE);
            modify (upd_timer h (\<lambda>c. c\<lparr>is_running := True\<rparr>));
            ret 0
          }
        })"

definition timer_stop :: "timer_handle_t \<Rightarrow> ('x timer_state_scheme, int) state" where
  "timer_stop htimer =
     (case htimer of None \<Rightarrow> ret (- EINVAL)
      | Some h \<Rightarrow> do {
          c \<leftarrow> get_timer h;
          if \<not> is_running c then ret (- EPERM)
          else do {
            WR_REG32 (base_address c + TIMER_TIMER1CONTROLREG) TIMER_DISABLE;
            modify (upd_timer h (\<lambda>c. c\<lparr>is_running := False, is_configured := False\<rparr>));
            ret 0
          }
        })"

definition timer_close :: "timer_handle_t \<Rightarrow> ('x timer_state_scheme, int) state" where
  "timer_close htimer =
     (case htimer of None \<Rightarrow> ret (- EINVAL)
      | Some h \<Rightarrow> do {
          c \<leftarrow> get_timer h;
          if \<not> is_open c then ret (- EINVAL)
          else do {
            WR_REG32 (base_address c + TIMER_TIMER1CONTROLREG) TIMER_DISABLE;
            err \<leftarrow> interrupt_disable (interrupt_id c);
            if err \<noteq> 0 then ret (- EFAULT)
            else do {
              modify (upd_timer h (\<lambda>_. timer_zero\<lparr>interrupt_id := MAX_HPU_SPI_INTERRUPT\<rparr>));
              ret 0
            }
          }
        })"

text \<open>The out parameters are the second component, \<open>None\<close> where they are not written; the
  callers' pointers are not \<^verbatim>\<open>NULL\<close>.\<close>

definition timer_get_value_raw :: "timer_handle_t \<Rightarrow> ('x timer_state_scheme, int \<times> u32 option) state" where
  "timer_get_value_raw htimer =
     (case htimer of None \<Rightarrow> ret (- EINVAL, None)
      | Some h \<Rightarrow> do {
          c \<leftarrow> get_timer h;
          if \<not> is_running c then ret (- EPERM, None)
          else do {
            v \<leftarrow> RD_REG32 (base_address c + TIMER_TIMER1CURRENTVAL);
            ret (0, Some v)
          }
        })"

definition timer_get_value_us :: "timer_handle_t \<Rightarrow> ('x timer_state_scheme, int \<times> u32 option) state" where
  "timer_get_value_us htimer =
     (case htimer of None \<Rightarrow> ret (- EINVAL, None)
      | Some h \<Rightarrow> do {
          c \<leftarrow> get_timer h;
          if \<not> is_running c then ret (- EPERM, None)
          else do {
            count_val \<leftarrow> RD_REG32 (base_address c + TIMER_TIMER1CURRENTVAL);
            if clk_hz c = 0 then ret (- EINVAL, None)
            else ret (0, Some (TIMER_TICKS_TO_US (clk_hz c) count_val))
          }
        })"

definition timer_set_callback :: "timer_handle_t \<Rightarrow> fptr \<Rightarrow> vptr \<Rightarrow> ('x timer_state_scheme, int) state" where
  "timer_set_callback htimer callback param =
     (case htimer of None \<Rightarrow> ret (- EINVAL)
      | Some h \<Rightarrow> do {
          modify (upd_timer h (\<lambda>c. c\<lparr>callback_func := callback, usr_cntxt := param\<rparr>));
          ret 0
        })"

text \<open>\<^verbatim>\<open>void *data\<close> is cast to a handle without a check.\<close>

definition timer_irq_handler :: "vptr \<Rightarrow> ('x timer_state_scheme, unit) state" where
  "timer_irq_handler dat =
     (case dat of
        V_timer h \<Rightarrow> do {
          c \<leftarrow> get_timer h;
          _ \<leftarrow> RD_REG32 (base_address c + TIMER_TIMER1EOI);
          whenM (callback_func c \<noteq> F_NULL) (emit (Call (callback_func c) (usr_cntxt c) []))
        }
      | _ \<Rightarrow> ub ''timer handle'')"

lemmas timer_op_defs =
  timer_open_def timer_bring_up_def timer_set_period_us_def timer_start_def timer_stop_def timer_close_def
  timer_get_value_raw_def timer_get_value_us_def timer_set_callback_def timer_irq_handler_def

section \<open>Ticks and microseconds\<close>

lemma unat_ucast_u32_u64 [simp]: "unat (ucast (a :: u32) :: u64) = unat a"
  by (simp add: unsigned_ucast_eq take_bit_nat_eq_self order_less_le_trans [OF unsigned_less])

lemma unat_u32_bound: "unat (a :: u32) \<le> 0xFFFFFFFF"
proof -
  have "unat a < 2 ^ LENGTH(32)"
    by (rule unsigned_less)
  then show ?thesis by simp
qed

lemma unat_mult_u64: "unat (ucast (a :: u32) * ucast (b :: u32) :: u64) = unat a * unat b"
proof -
  have "unat a * unat b \<le> 0xFFFFFFFF * 0xFFFFFFFF"
    by (intro mult_le_mono unat_u32_bound)
  then show ?thesis
    by (subst unat_mult_no_wrap) simp_all
qed

lemma unat_ucast_small: "unat (w :: u64) \<le> 0xFFFFFFFF \<Longrightarrow> unat (ucast w :: u32) = unat w"
  by (simp add: unsigned_ucast_eq take_bit_nat_eq_self)

lemma us_to_ticks_eq:
  "unat (timer_us_to_ticks clk us) = min (unat clk * unat us div 1000000) 0xFFFFFFFF"
proof -
  let ?t = "(ucast clk * ucast us :: u64) div 1000000"
  have t: "unat ?t = unat clk * unat us div 1000000"
    by (simp add: unat_div unat_mult_u64)
  have "?t > 0xFFFFFFFF \<longleftrightarrow> unat clk * unat us div 1000000 > 0xFFFFFFFF"
    by (simp add: word_less_nat_alt t)
  then show ?thesis
    by (auto simp: timer_us_to_ticks_def TIMER_FREE_RUNNING_PERIOD_def unat_ucast_small t Let_def min_def)
qed

text \<open>
  The period conversion saturates instead of wrapping: the load count is the number of
  whole ticks in the period, cut off at 2^32 - 1, for every clock and every period.
\<close>

theorem timer_period_saturates:
  "unat (timer_us_to_ticks clk us) = min (unat clk * unat us div 1000000) (2 ^ 32 - 1)
   \<and> (timer_us_to_ticks clk us = TIMER_FREE_RUNNING_PERIOD
       \<longleftrightarrow> 2 ^ 32 - 1 \<le> unat clk * unat us div 1000000)"
proof -
  have "timer_us_to_ticks clk us = TIMER_FREE_RUNNING_PERIOD
      \<longleftrightarrow> unat (timer_us_to_ticks clk us) = 0xFFFFFFFF"
    by (simp add: TIMER_FREE_RUNNING_PERIOD_def word_unat_eq_iff)
  then show ?thesis
    by (simp add: us_to_ticks_eq min_def)
qed

lemma ticks_to_us_eq:
  assumes "clk \<noteq> 0" and "unat ticks * 1000000 div unat clk \<le> 0xFFFFFFFF"
  shows "unat (TIMER_TICKS_TO_US clk ticks) = unat ticks * 1000000 div unat clk"
proof -
  have "unat (ucast ticks * 1000000 :: u64) = unat ticks * 1000000"
    using unat_u32_bound [of ticks] by (subst unat_mult_no_wrap) simp_all
  then have "unat ((ucast ticks * 1000000 :: u64) div ucast clk) = unat ticks * 1000000 div unat clk"
    by (simp add: unat_div)
  then show ?thesis
    using assms(2) by (simp add: TIMER_TICKS_TO_US_def unat_ucast_small)
qed

lemma div_add_le: "(a + b) div c \<le> a div c + b div c + (1 :: nat)"
proof (cases "c = 0")
  case False
  then have "a mod c + b mod c < 2 * c"
    by (metis add_less_mono mod_less_divisor mult_2 neq0_conv)
  then have "(a mod c + b mod c) div c < 2"
    by (simp add: less_mult_imp_div_less)
  then show ?thesis
    by (simp add: div_add1_eq [of a b c])
qed simp

text \<open>
  Converting a period to ticks and back never gives more than the period, and loses at
  most one tick: on a running clock and without saturation the result is within
  1000000 / clk + 1 microseconds below the period.
\<close>

theorem timer_us_roundtrip:
  assumes "clk \<noteq> 0" and "timer_us_to_ticks clk us \<noteq> TIMER_FREE_RUNNING_PERIOD"
  shows "unat (TIMER_TICKS_TO_US clk (timer_us_to_ticks clk us)) \<le> unat us
    \<and> unat us \<le> unat (TIMER_TICKS_TO_US clk (timer_us_to_ticks clk us)) + 1000000 div unat clk + 1"
proof -
  let ?c = "unat clk" and ?u = "unat us"
  define t where "t = ?c * ?u div 1000000"
  have c: "0 < ?c"
    using assms(1) by (simp add: unat_gt_0)
  have "unat (timer_us_to_ticks clk us) \<noteq> 0xFFFFFFFF"
    using assms(2) by (auto simp: TIMER_FREE_RUNNING_PERIOD_def word_unat_eq_iff)
  then have ticks: "unat (timer_us_to_ticks clk us) = t"
    by (simp add: us_to_ticks_eq t_def min_def split: if_splits)
  have low: "t * 1000000 \<le> ?c * ?u" and high: "?c * ?u < t * 1000000 + 1000000"
    unfolding t_def using div_times_less_eq_dividend [of "?c * ?u" 1000000]
    by (simp_all add: mult.commute dividend_less_div_times)
  have le: "t * 1000000 div ?c \<le> ?u"
    using div_le_mono [OF low, of ?c] c by simp
  then have us: "unat (TIMER_TICKS_TO_US clk (timer_us_to_ticks clk us)) = t * 1000000 div ?c"
    using ticks_to_us_eq [OF assms(1), of "timer_us_to_ticks clk us"] unat_u32_bound [of us]
    by (simp add: ticks)
  have "?u = ?c * ?u div ?c"
    using c by simp
  also have "\<dots> \<le> (t * 1000000 + 1000000) div ?c"
    using high by (intro div_le_mono) simp
  also have "\<dots> \<le> t * 1000000 div ?c + 1000000 div ?c + 1"
    by (rule div_add_le)
  finally show ?thesis
    using le us by simp
qed

theorem timer_us_roundtrip_witness:
  "unat (TIMER_TICKS_TO_US 100000000 (timer_us_to_ticks 100000000 2500)) \<le> 2500"
proof -
  have "timer_us_to_ticks 100000000 2500 \<noteq> TIMER_FREE_RUNNING_PERIOD"
    by (simp add: timer_us_to_ticks_def TIMER_FREE_RUNNING_PERIOD_def)
  then show ?thesis
    using timer_us_roundtrip [of 100000000 2500] by simp
qed

section \<open>The descriptor table\<close>

interpretation timers: slots timer_descriptor upd_timer "\<lambda>_ _. True"
  by unfold_locales (simp_all add: upd_timer_def)

lemma timer_descriptor_trace [simp]: "timer_descriptor (s\<lparr>trace := t\<rparr>) = timer_descriptor s"
  by simp

lemma upd_timer_fields [simp]:
  "env (upd_timer i f s) = env s" "trace (upd_timer i f s) = trace s"
  "gic_dist (upd_timer i f s) = gic_dist s" "gic_redis (upd_timer i f s) = gic_redis s"
  "interrupt_callbacks (upd_timer i f s) = interrupt_callbacks s"
  by (simp_all add: upd_timer_def)

lemma timer_descriptor_upd:
  "timer_descriptor (upd_timer i f s) j = (if j = i then f (timer_descriptor s i) else timer_descriptor s j)"
  by (simp add: upd_timer_def)

lemma timer_descriptor_callback [simp]: "timer_descriptor (set_callback n f s) = timer_descriptor s"
  by (simp add: set_callback_def)

subsection \<open>What the lower layers leave alone\<close>

lemma slots_irq_blind: "irq_blind (timers.all_slots P)"
  by (rule irq_blindI) (simp_all add: timers.all_slots_def)

subsection \<open>Reachable states\<close>

text \<open>What an application and the hardware can do with the driver, in any order.\<close>

datatype timer_op =
  T_open u32 | T_set_period timer_handle_t u32 | T_start timer_handle_t | T_stop timer_handle_t
| T_close timer_handle_t | T_get_raw timer_handle_t | T_get_us timer_handle_t
| T_set_callback timer_handle_t fptr vptr | T_irq vptr

fun timer_do :: "timer_op \<Rightarrow> ('x timer_state_scheme, unit) state" where
  "timer_do (T_open i) = do { _ \<leftarrow> timer_open i; ret () }"
| "timer_do (T_set_period h p) = do { _ \<leftarrow> timer_set_period_us h p; ret () }"
| "timer_do (T_start h) = do { _ \<leftarrow> timer_start h; ret () }"
| "timer_do (T_stop h) = do { _ \<leftarrow> timer_stop h; ret () }"
| "timer_do (T_close h) = do { _ \<leftarrow> timer_close h; ret () }"
| "timer_do (T_get_raw h) = do { _ \<leftarrow> timer_get_value_raw h; ret () }"
| "timer_do (T_get_us h) = do { _ \<leftarrow> timer_get_value_us h; ret () }"
| "timer_do (T_set_callback h f p) = do { _ \<leftarrow> timer_set_callback h f p; ret () }"
| "timer_do (T_irq d) = timer_irq_handler d"

inductive timer_reaches :: "'x timer_state_scheme \<Rightarrow> 'x timer_state_scheme \<Rightarrow> bool" for s0 where
  start: "timer_reaches s0 s0"
| step: "timer_reaches s0 s \<Longrightarrow> timer_reaches s0 (final (timer_do op) s)"

inductive_cases timer_reachesE: "timer_reaches s0 s"

text \<open>A running timer is configured.\<close>

definition timer_inv :: "timer_context \<Rightarrow> bool" where
  "timer_inv c \<longleftrightarrow> (is_running c \<longrightarrow> is_configured c)"

abbreviation timers_inv :: "'x timer_state_scheme \<Rightarrow> bool" where
  "timers_inv \<equiv> timers.all_slots timer_inv"

lemma keeps_whole: "keeps I m \<Longrightarrow> keeps I (do { _ \<leftarrow> m; ret () })"
  by (intro keeps_intros)

lemma keeps_timers_inv_upd:
  assumes "\<And>v. timer_inv v \<Longrightarrow> timer_inv (f v)"
  shows "keeps timers_inv (modify (upd_timer h f))"
  using assms by (rule timers.keeps_all_slots)

lemma timer_ops_keep_inv:
  "keeps timers_inv (timer_open i)" "keeps timers_inv (timer_set_period_us h p)"
  "keeps timers_inv (timer_stop h)" "keeps timers_inv (timer_close h)"
  "keeps timers_inv (timer_get_value_raw h)" "keeps timers_inv (timer_get_value_us h)"
  "keeps timers_inv (timer_set_callback h f q)" "keeps timers_inv (timer_irq_handler d)"
proof -
  note only = slots_irq_blind [of timer_inv]
  note rules = keeps_intros keeps_timers_inv_upd keeps_prims_blind [OF irq_blind_trace [OF only]]
    rstmgr_keeps_blind [OF irq_blind_trace [OF only]] clk_keeps_blind [OF irq_blind_trace [OF only]]
    irq_keeps_blind [OF only] keeps_emit_blind [OF irq_blind_trace [OF only]]
  show "keeps timers_inv (timer_set_period_us h p)" "keeps timers_inv (timer_stop h)"
    "keeps timers_inv (timer_close h)" "keeps timers_inv (timer_get_value_raw h)"
    "keeps timers_inv (timer_get_value_us h)" "keeps timers_inv (timer_set_callback h f q)"
    unfolding timer_op_defs Let_def
    by (intro rules; simp add: timer_inv_def timer_zero_def)+
  show "keeps timers_inv (timer_open i)"
    unfolding timer_op_defs Let_def
    by (intro rules; simp add: timer_inv_def)
  show "keeps timers_inv (timer_irq_handler d)"
    unfolding timer_op_defs by (cases d; simp; intro rules)
qed

lemma timer_start_keeps_inv: "keeps timers_inv (timer_start h)"
proof (cases h)
  case (Some i)
  show ?thesis
  proof (rule keepsI)
    fix s :: "'a timer_state_scheme" assume inv: "timers_inv s"
    then show "timers_inv (final (timer_start h) s)"
      by (auto simp: Some timer_start_def timers.all_slots_def timer_descriptor_upd timer_inv_def)
  qed
qed (simp add: timer_start_def keeps_ret)


definition timer_machine :: timer_state where
  "timer_machine = irq_state.extend irq_machine \<lparr>timer_descriptor = (\<lambda>_. timer_zero)\<rparr>"

lemma timer_machine_simps [simp]:
  "timer_descriptor timer_machine h = timer_zero" "env timer_machine = ram_env"
  "trace timer_machine = []" "interrupt_callbacks timer_machine = initial_callbacks"
  by (simp_all add: timer_machine_def irq_state.defs irq_machine_def gic_state.defs gic_machine_def)


section \<open>Opening\<close>

text \<open>Frame equations: what the lower layers do not touch.\<close>

lemma frame_of_keeps:
  assumes "\<And>v. keeps (\<lambda>s. f s = v) m"
  shows "f (final m s) = f s"
  using keepsD [OF assms [of "f s"], of s] by simp

lemma timer_frame [simp]:
  fixes s :: "'x timer_state_scheme"
  shows "timer_descriptor (final (interrupt_register_isr n f d) s) = timer_descriptor s"
    "timer_descriptor (final (interrupt_enable n p) s) = timer_descriptor s"
    "timer_descriptor (final (interrupt_disable n) s) = timer_descriptor s"
    "timer_descriptor (final (rstmgr_get_reset_status r) s) = timer_descriptor s"
    "timer_descriptor (final (rstmgr_toggle_reset r) s) = timer_descriptor s"
    "timer_descriptor (final (clk_mngr_get_clk b) s) = timer_descriptor s"
proof -
  have only: "irq_blind (\<lambda>s :: 'x timer_state_scheme. timer_descriptor s = v)" for v
    by (rule irq_blindI) simp_all
  show "timer_descriptor (final (interrupt_register_isr n f d) s) = timer_descriptor s"
    "timer_descriptor (final (interrupt_enable n p) s) = timer_descriptor s"
    "timer_descriptor (final (interrupt_disable n) s) = timer_descriptor s"
    by (intro frame_of_keeps irq_keeps_blind [OF only])+
  show "timer_descriptor (final (rstmgr_get_reset_status r) s) = timer_descriptor s"
    "timer_descriptor (final (rstmgr_toggle_reset r) s) = timer_descriptor s"
    "timer_descriptor (final (clk_mngr_get_clk b) s) = timer_descriptor s"
    by (intro frame_of_keeps rstmgr_keeps_blind clk_keeps_blind irq_blind_trace [OF only])+
qed

lemma callbacks_frame [simp]:
  fixes s :: "'x irq_state_scheme"
  shows "interrupt_callbacks (final (interrupt_enable n p) s) = interrupt_callbacks s"
    "interrupt_callbacks (final (interrupt_disable n) s) = interrupt_callbacks s"
    "interrupt_callbacks (final (rstmgr_get_reset_status r) s) = interrupt_callbacks s"
    "interrupt_callbacks (final (rstmgr_toggle_reset r) s) = interrupt_callbacks s"
    "interrupt_callbacks (final (clk_mngr_get_clk b) s) = interrupt_callbacks s"
proof -
  have blind: "trace_blind (\<lambda>s :: 'x irq_state_scheme. interrupt_callbacks s = v)" for v
    by (simp add: trace_blind_def)
  show "interrupt_callbacks (final (interrupt_enable n p) s) = interrupt_callbacks s"
    "interrupt_callbacks (final (interrupt_disable n) s) = interrupt_callbacks s"
    unfolding irq_defs and_then_def Let_def
    by (intro frame_of_keeps keeps_intros keeps_prims_blind [OF blind] gic_keeps_blind [OF blind])+
  show "interrupt_callbacks (final (rstmgr_get_reset_status r) s) = interrupt_callbacks s"
    "interrupt_callbacks (final (rstmgr_toggle_reset r) s) = interrupt_callbacks s"
    "interrupt_callbacks (final (clk_mngr_get_clk b) s) = interrupt_callbacks s"
    by (intro frame_of_keeps rstmgr_keeps_blind [OF blind] clk_keeps_blind [OF blind])+
qed

lemma register_isr_run:
  assumes "n < MAX_SPI_HPU_INTERRUPT" and "f \<noteq> F_NULL"
    and "length (interrupt_callbacks s) = unat MAX_SPI_HPU_INTERRUPT"
  shows "run_state (interrupt_register_isr n f d) s = (0, set_callback n (\<lambda>_. (f, d)) s)"
proof -
  have "unat n < 274" "\<not> 274 < n" "\<not> 274 \<le> unat n"
    using assms(1) by (auto simp: word_less_nat_alt)
  then show ?thesis
    using assms(2,3) by (simp add: interrupt_register_isr_def)
qed

lemma clk_rate_nonzero: "fst (result (clk_mngr_get_clk b) s) = 0 \<longleftrightarrow> snd (result (clk_mngr_get_clk b) s) \<noteq> 0"
  by (simp add: clk_mngr_get_clk_def split_beta)

lemma timer_bring_up_result:
  assumes "length (interrupt_callbacks s) = unat MAX_SPI_HPU_INTERRUPT"
    and "irq < MAX_SPI_HPU_INTERRUPT"
  shows "case result (timer_bring_up h base irq cb rst) s of
      None \<Rightarrow> \<forall>j. is_open (timer_descriptor (final (timer_bring_up h base irq cb rst) s) j)
                   = is_open (timer_descriptor s j)
    | Some h' \<Rightarrow> h' = h \<and>
       (let s' = final (timer_bring_up h base irq cb rst) s; c = timer_descriptor s' h in
         is_open c \<and> clk_hz c \<noteq> 0
       \<and> base_address c = base_address (timer_descriptor s h)
       \<and> interrupt_id c = interrupt_id (timer_descriptor s h)
       \<and> interrupt_callbacks s' ! unat irq = (F_timer_irq_handler, V_timer h)
       \<and> (\<exists>v. hd (trace s') = Wr32 (ucast (base + TIMER_TIMER1CONTROLREG))
                                (v AND NOT TIMER_INTERRUPT_MASK_MASK)))"
proof -
  have "unat irq < 274"
    using assms(2) by (simp add: word_less_nat_alt)
  then have cb: "interrupt_callbacks (set_callback irq (\<lambda>_. x) t) ! unat irq = x"
    if "interrupt_callbacks t = interrupt_callbacks s" for t x
    using that assms(1) by (intro callbacks.get_upd_same) simp
  show ?thesis
    using assms
    by (simp add: timer_bring_up_def split_beta Let_def register_isr_run timer_descriptor_upd cb
        clk_rate_nonzero) blast
qed

text \<open>
  Opening a timer: a handle is returned only for a valid, closed instance, and then the
  descriptor is open with the base address and interrupt of that instance and a non-zero
  clock, the handler table sends the interrupt to the driver with this handle, and the last
  access unmasks the timer's interrupt; when \<^verbatim>\<open>NULL\<close> is returned no descriptor became open.
\<close>

lemma timer_open_result:
  assumes "length (interrupt_callbacks s) = unat MAX_SPI_HPU_INTERRUPT"
  shows "case result (timer_open i) s of
      None \<Rightarrow> \<forall>h. is_open (timer_descriptor (final (timer_open i) s) h) = is_open (timer_descriptor s h)
    | Some h \<Rightarrow> h = unat i \<and> h < 4 \<and> \<not> is_open (timer_descriptor s h) \<and>
       (let s' = final (timer_open i) s; c = timer_descriptor s' h in
         is_open c \<and> clk_hz c \<noteq> 0
       \<and> (\<exists>b. timer_resources i = Some (base_address c, interrupt_id c, b))
       \<and> interrupt_callbacks s' ! unat (interrupt_id c) = (F_timer_irq_handler, V_timer h)
       \<and> (\<exists>v. hd (trace s') = Wr32 (ucast (base_address c + TIMER_TIMER1CONTROLREG))
                                (v AND NOT TIMER_INTERRUPT_MASK_MASK)))"
proof (cases "i \<ge> TIMER_N_INSTANCE \<or> is_open (timer_descriptor s (unat i)) \<or> timer_resources i = None")
  case True
  then show ?thesis by (auto simp: timer_open_def Let_def)
next
  case False
  then obtain base irq cb where res: "timer_resources i = Some (base, irq, cb)"
    by auto
  let ?s = "upd_timer (unat i) (\<lambda>c. c\<lparr>base_address := base, interrupt_id := irq\<rparr>) s"
  have run: "run_state (timer_open i) s =
      run_state (timer_bring_up (unat i) base irq cb (timer_get_rst_instance i)) ?s"
    using False res by (simp add: timer_open_def Let_def)
  have irq: "irq < MAX_SPI_HPU_INTERRUPT"
    using res by (auto simp: timer_resources_def split: if_splits)
  have i: "unat i < 4"
    using False by (simp add: timer_consts not_le word_less_nat_alt)
  show ?thesis
    using timer_bring_up_result [of ?s irq "unat i" base cb "timer_get_rst_instance i"] assms irq i False
    by (cases "result (timer_open i) s")
      (auto simp: run res timer_descriptor_upd Let_def split: if_splits)
qed

text \<open>The machine after boot: clocks running, no reset asserted, one redistributor.\<close>

definition boot_machine :: timer_state where
  "boot_machine = timer_machine\<lparr>env := boot_env, gic_max_redis := 0\<rparr>"

lemma boot_machine_simps [simp]:
  "env boot_machine = boot_env" "trace boot_machine = []" "timer_descriptor boot_machine h = timer_zero"
  "interrupt_callbacks boot_machine = initial_callbacks" "gic_redis boot_machine = 0x1D060000"
  "gic_dist boot_machine = 0x1D000000" "gic_max_redis boot_machine = 0"
  by (simp_all add: boot_machine_def timer_machine_def irq_state.defs irq_machine_def
      gic_state.defs gic_machine_def REGISTER_SOCFPGA_DIST_BASE_ADDR_def REGISTER_SOCFPGA_REDIS_BASE_ADDR_def)

lemmas boot_eval =
  timer_consts rst_ids rstmgr_defs rst_invalid_def rstmgr_get_base_addr_def
  rstmgr_get_bit_pos_def rst_regs boot_env_def boot_regs_def clk_regs clk_fields clk_ids
  clk_rate_defs irq_defs gic_defs and_then_def gic_consts gic_group_bits_def Let_def
  timer_descriptor_upd timer_zero_def initial_callbacks_def ram_env_def gic_null_def
  dist_reg_def sgis_reg_def lpis_reg_def set_callback_def upd_timer_def
  SPI_INTERRUPT_TYPE_LEVEL_def SPI_INTERRUPT_TYPE_EDGE_def SPI_INTERRUPT_MODE_TARGET_def

lemma boot_open: "result (timer_open TIMER_SP0) boot_machine = Some 2"
  by (simp add: timer_open_def timer_bring_up_def timer_resources_def timer_get_rst_instance_def boot_eval)

lemma timer_open_example:
  "is_open (timer_descriptor (final (timer_open TIMER_SP0) boot_machine) 2)"
  using timer_open_result [of boot_machine TIMER_SP0] boot_open
  by (simp add: initial_callbacks_def Let_def)

section \<open>Programming the period\<close>

text \<open>
  Setting the period of a stopped timer first disables it, then writes the control
  register with the user-defined-count mode exactly when the period does not saturate, then
  the load count, all in the instance's own registers, leaving the reserved bits as read; the
  timer is then configured. On a running timer nothing is accessed and -EBUSY is returned.
\<close>

theorem timer_period_programming:
  "run_state (timer_set_period_us (Some h) period) s =
     (let c = timer_descriptor s h;
          ctl = ucast (base_address c + TIMER_TIMER1CONTROLREG);
          ld = ucast (base_address c + TIMER_TIMER1LOADCOUNT);
          v = hw_rd32 (env s) (trace s) ctl;
          v0 = v AND NOT 7;
          n = timer_us_to_ticks (clk_hz c) period
      in if is_running c then (- EBUSY, s)
         else (0, upd_timer h (\<lambda>c. c\<lparr>is_configured := True\<rparr>)
           (s\<lparr>trace := Wr32 ld n
              # (if n = 0xFFFFFFFF then [] else [Wr32 ctl (v0 OR 2)])
              @ Wr32 ctl v0 # Rd32 ctl v # trace s\<rparr>)))"
  by (simp add: timer_set_period_us_def Let_def timer_consts upd_timer_def)

text \<open>
  The interrupt handler of a timer reads the end-of-interrupt register, which clears the
  interrupt, before it calls the user's callback, calls it exactly once with the user's
  context, and calls nothing when no callback is set.
\<close>

theorem timer_isr_clears_then_calls:
  "run_state (timer_irq_handler (V_timer h)) s =
     (let c = timer_descriptor s h; eoi = ucast (base_address c + TIMER_TIMER1EOI)
      in ((), s\<lparr>trace := (if callback_func c = F_NULL then [] else [Call (callback_func c) (usr_cntxt c) []])
                        @ Rd32 eoi (hw_rd32 (env s) (trace s) eoi) # trace s\<rparr>))"
  by (simp add: timer_irq_handler_def Let_def)

text \<open>
  A handle stays usable after it is closed: after a successful close, setting a period on
  it returns 0 and writes to the absolute addresses 0 and 8, because the closed descriptor's
  base address is 0 and only \<^verbatim>\<open>NULL\<close> is rejected.
\<close>

theorem timer_use_after_close:
  assumes "result (timer_close (Some h)) s = 0"
  shows "let s1 = final (timer_close (Some h)) s; s2 = final (timer_set_period_us (Some h) p) s1 in
     result (timer_set_period_us (Some h) p) s1 = 0
     \<and> take 2 (trace s2) = [Wr32 0 0, Wr32 8 ((hw_rd32 (env s1) (trace s1) 8 AND NOT 7) OR 2)]"
proof -
  have c: "timer_descriptor (final (timer_close (Some h)) s) h = timer_zero\<lparr>interrupt_id := MAX_HPU_SPI_INTERRUPT\<rparr>"
    using assms by (simp add: timer_close_def timer_descriptor_upd Let_def split_beta split: if_splits)
  show ?thesis
    by (simp add: timer_set_period_us_def c Let_def timer_zero_def timer_consts timer_us_to_ticks_def)
qed

theorem timer_use_after_close_witness:
  "result (timer_set_period_us (Some 2) 10)
     (final (timer_close (Some 2)) (upd_timer 2 (\<lambda>c. c\<lparr>is_open := True, interrupt_id := 145\<rparr>) boot_machine)) = 0"
proof -
  have "result (timer_close (Some 2)) (upd_timer 2 (\<lambda>c. c\<lparr>is_open := True, interrupt_id := 145\<rparr>) boot_machine) = 0"
    by (simp add: timer_close_def boot_eval)
  from timer_use_after_close [OF this, of 10] show ?thesis
    by (simp add: Let_def)
qed

end
