(* ===== verification/Watchdog.thy ===== *)
theory Watchdog
  imports Timer
begin

unbundle bit_operations_syntax

text \<open>
  The watchdog driver, \<^verbatim>\<open>drivers/wdt\<close>: five watchdogs, each opened, given an initial and
  a regular timeout, started, restarted and stopped. A handle is the index of a descriptor.
  The record of the state extends the timer driver's only to put all drivers in one state.
\<close>

section \<open>Registers\<close>

definition GET_WDT_BASE_ADDRESS :: "u32 \<Rightarrow> u32" where
  "GET_WDT_BASE_ADDRESS instance0 = 0x10D00200 + instance0 * 0x100"

definition MAX_WATCHDOG_INSTANCES :: u32 where "MAX_WATCHDOG_INSTANCES = 5"
definition SOCFPGA_RESET_MANAGER_BASE :: u32 where "SOCFPGA_RESET_MANAGER_BASE = 0x10D11000"
definition WDT_PER1MODRST_OFFSET :: u32 where "WDT_PER1MODRST_OFFSET = 0x28"
definition WDT_CR :: u32 where "WDT_CR = 0x0000"
definition WDT_TORR :: u32 where "WDT_TORR = 0x0004"
definition WDT_CRR :: u32 where "WDT_CRR = 0x000C"
definition WDT_STAT :: u32 where "WDT_STAT = 0x0010"
definition WDT_EOI :: u32 where "WDT_EOI = 0x0014"
definition WDT_CR_RMOD_POS :: nat where "WDT_CR_RMOD_POS = 1"
definition WDT_CR_WDT_EN_MASK :: u32 where "WDT_CR_WDT_EN_MASK = 0x1"
definition WDT_CR_WDT_EN_POS :: nat where "WDT_CR_WDT_EN_POS = 0"
definition WDT_TORR_TOP_INIT_MASK :: u32 where "WDT_TORR_TOP_INIT_MASK = 0x000000F0"
definition WDT_TORR_TOP_INIT_POS :: nat where "WDT_TORR_TOP_INIT_POS = 4"
definition WDT_TORR_TOP_MASK :: u32 where "WDT_TORR_TOP_MASK = 0x0000000F"
definition WDT_TORR_TOP_POS :: nat where "WDT_TORR_TOP_POS = 0"
definition WDT_CRR_WDT_CRR_POS :: nat where "WDT_CRR_WDT_CRR_POS = 0"
definition WDT_CRR_RESTART_VAL :: u32 where "WDT_CRR_RESTART_VAL = 0x76"
definition WDT_STAT_WDT_STAT_MASK :: u32 where "WDT_STAT_WDT_STAT_MASK = 0x1"
definition GIC_INTERRUPT_PRIORITY_WDOG :: u8 where "GIC_INTERRUPT_PRIORITY_WDOG = 14"

definition WDT_STOPPED :: u32 where "WDT_STOPPED = 0"
definition WDT_RUNNING :: u32 where "WDT_RUNNING = 1"
definition WDT_EXPIRED :: u32 where "WDT_EXPIRED = 2"
definition WDT_TIMEOUT_RST :: u32 where "WDT_TIMEOUT_RST = 0"
definition WDT_TIMEOUT_INTR :: u32 where "WDT_TIMEOUT_INTR = 1"
definition WDT_SET_INIT_TIMEOUT :: u32 where "WDT_SET_INIT_TIMEOUT = 0"
definition WDT_GET_INIT_TIMEOUT :: u32 where "WDT_GET_INIT_TIMEOUT = 1"
definition WDT_SET_TIMEOUT :: u32 where "WDT_SET_TIMEOUT = 2"
definition WDT_GET_TIMEOUT :: u32 where "WDT_GET_TIMEOUT = 3"
definition WDT_GET_STATUS :: u32 where "WDT_GET_STATUS = 4"
definition WDT_SET_TIMEOUT_BEHAVIOUR :: u32 where "WDT_SET_TIMEOUT_BEHAVIOUR = 5"

lemmas wdt_regs =
  SOCFPGA_RESET_MANAGER_BASE_def WDT_PER1MODRST_OFFSET_def WDT_CR_def WDT_TORR_def WDT_CRR_def
  WDT_STAT_def WDT_EOI_def WDT_CR_RMOD_POS_def WDT_CR_WDT_EN_MASK_def WDT_CR_WDT_EN_POS_def
  WDT_TORR_TOP_INIT_MASK_def WDT_TORR_TOP_INIT_POS_def WDT_TORR_TOP_MASK_def WDT_TORR_TOP_POS_def
  WDT_CRR_WDT_CRR_POS_def WDT_CRR_RESTART_VAL_def WDT_STAT_WDT_STAT_MASK_def
  GIC_INTERRUPT_PRIORITY_WDOG_def MAX_WATCHDOG_INSTANCES_def

lemmas wdt_cmds =
  WDT_SET_INIT_TIMEOUT_def WDT_GET_INIT_TIMEOUT_def WDT_SET_TIMEOUT_def WDT_GET_TIMEOUT_def
  WDT_GET_STATUS_def WDT_SET_TIMEOUT_BEHAVIOUR_def WDT_STOPPED_def WDT_RUNNING_def
  WDT_EXPIRED_def WDT_TIMEOUT_RST_def WDT_TIMEOUT_INTR_def

section \<open>State\<close>

record wdt_context =
  base_addr :: u32
  inst :: u32
  is_open :: bool
  is_config_done :: u64
  callback :: fptr
  clk_hz :: u32
  cb_usercontext :: vptr

record wdt_state = timer_state +
  wdt_descriptors :: "nat \<Rightarrow> wdt_context"

type_synonym wdt_handle_t = "nat option"

definition upd_wdt :: "nat \<Rightarrow> (wdt_context \<Rightarrow> wdt_context) \<Rightarrow> 'x wdt_state_scheme \<Rightarrow> 'x wdt_state_scheme" where
  "upd_wdt i f s = s\<lparr>wdt_descriptors := (wdt_descriptors s)(i := f (wdt_descriptors s i))\<rparr>"

abbreviation get_wdt :: "nat \<Rightarrow> ('x wdt_state_scheme, wdt_context) state" where
  "get_wdt i \<equiv> gets (\<lambda>s. wdt_descriptors s i)"

section \<open>Timeouts and the TOP field\<close>

text \<open>\<^verbatim>\<open>while (ticks > 1U) { ticks >>= 1U; top++; }\<close>\<close>

function wdt_log2 :: "u64 \<Rightarrow> u32 \<Rightarrow> u32" where
  "wdt_log2 ticks tp = (if ticks > 1 then wdt_log2 (drop_bit 1 ticks) (tp + 1) else tp)"
  by auto
termination
proof (relation "measure (\<lambda>(ticks, tp). unat ticks)")
  fix ticks :: u64 and tp :: u32
  assume "ticks > 1"
  then show "((drop_bit 1 ticks, tp + 1), ticks, tp) \<in> measure (\<lambda>(ticks, tp). unat ticks)"
    by (simp add: unat_drop_bit word_less_nat_alt)
qed simp

declare wdt_log2.simps [simp del]

definition ms_to_top :: "u64 \<Rightarrow> u32 \<Rightarrow> u32" where
  "ms_to_top clk timeout_ms =
     (let ticks = (if timeout_ms \<noteq> 0 then (clk * ucast timeout_ms) div 1000 - 1 else 0);
          tp = wdt_log2 ticks 0;
          tp = (if tp > 15 then tp - 15 else 0)
      in if tp > 15 then 15 else tp)"

text \<open>A division by zero is undefined.\<close>

definition top_to_ms :: "u64 \<Rightarrow> u8 \<Rightarrow> ('x machine_scheme, u32) state" where
  "top_to_ms clk tp =
     (if clk = 0 then do { ub ''division by zero''; ret 0 }
      else ret (ucast ((push_bit (unat tp + 16) 1 * 1000) div clk)))"

section \<open>Operations\<close>

definition get_intr_id :: "u32 \<Rightarrow> u32" where
  "get_intr_id instance0 =
     (if instance0 = 0 then WDOG0IRQ else if instance0 = 1 then WDOG1IRQ
      else if instance0 = 2 then WDOG2IRQ else if instance0 = 3 then WDOG3IRQ
      else if instance0 = 4 then WDOG4IRQ else WDOG0IRQ)"

definition wdt_reset_bit :: "u32 \<Rightarrow> nat option" where
  "wdt_reset_bit instance0 =
     (if instance0 = 0 then Some 0 else if instance0 = 1 then Some 1 else if instance0 = 2 then Some 2
      else if instance0 = 3 then Some 3 else if instance0 = 4 then Some 26 else None)"

definition de_assert_reset :: "u32 \<Rightarrow> ('x wdt_state_scheme, unit) state" where
  "de_assert_reset instance0 =
     (case wdt_reset_bit instance0 of
        None \<Rightarrow> ret ()
      | Some b \<Rightarrow> do {
          val \<leftarrow> RD_REG32 (SOCFPGA_RESET_MANAGER_BASE + WDT_PER1MODRST_OFFSET);
          WR_REG32 (SOCFPGA_RESET_MANAGER_BASE + WDT_PER1MODRST_OFFSET) (val AND NOT (push_bit b 1))
        })"

definition wdt_open :: "u32 \<Rightarrow> ('x wdt_state_scheme, wdt_handle_t) state" where
  "wdt_open instance0 =
     (if instance0 \<ge> MAX_WATCHDOG_INSTANCES then ret None
      else do {
        let h = unat instance0;
        modify (upd_wdt h (\<lambda>c. c\<lparr>inst := instance0\<rparr>));
        de_assert_reset instance0;
        c \<leftarrow> get_wdt h;
        if is_open c then ret None
        else do {
          modify (upd_wdt h (\<lambda>c. c\<lparr>base_addr := GET_WDT_BASE_ADDRESS instance0\<rparr>));
          (err, clk) \<leftarrow> clk_mngr_get_clk CLOCK_WDT;
          if err = 1 then ret None
          else do {
            modify (upd_wdt h (\<lambda>c. c\<lparr>is_open := True\<rparr>));
            modify (upd_wdt h (\<lambda>c. c\<lparr>clk_hz := clk\<rparr>));
            ret (Some h)
          }
        }
      })"

definition wdt_start :: "wdt_handle_t \<Rightarrow> ('x wdt_state_scheme, int) state" where
  "wdt_start hwdt =
     (case hwdt of None \<Rightarrow> ret (- EINVAL)
      | Some h \<Rightarrow> do {
          c \<leftarrow> get_wdt h;
          if is_config_done c \<noteq> 0x3 then ret (- ENODATA)
          else do {
            val \<leftarrow> RD_REG32 (base_addr c + WDT_CR);
            WR_REG32 (base_addr c + WDT_CR) (val OR push_bit WDT_CR_WDT_EN_POS 1);
            ret 0
          }
        })"

definition wdt_stop :: "wdt_handle_t \<Rightarrow> ('x wdt_state_scheme, int) state" where
  "wdt_stop hwdt =
     (case hwdt of None \<Rightarrow> ret (- EINVAL)
      | Some h \<Rightarrow> do {
          c \<leftarrow> get_wdt h;
          if \<not> is_open c then ret (- EINVAL)
          else do {
            modify (upd_wdt h (\<lambda>c. c\<lparr>is_config_done := 0\<rparr>));
            val \<leftarrow> RD_REG32 (base_addr c + WDT_CR);
            WR_REG32 (base_addr c + WDT_CR) (val AND NOT (push_bit WDT_CR_WDT_EN_POS 1));
            ret 0
          }
        })"

definition wdt_restart :: "wdt_handle_t \<Rightarrow> ('x wdt_state_scheme, int) state" where
  "wdt_restart hwdt =
     (case hwdt of None \<Rightarrow> ret (- EINVAL)
      | Some h \<Rightarrow> do {
          c \<leftarrow> get_wdt h;
          if is_config_done c \<noteq> 0x3 then ret (- ENODATA)
          else do {
            WR_REG32 (base_addr c + WDT_CRR) (push_bit WDT_CRR_WDT_CRR_POS WDT_CRR_RESTART_VAL);
            ret 0
          }
        })"

definition set_response_mode :: "nat \<Rightarrow> u32 \<Rightarrow> ('x wdt_state_scheme, int) state" where
  "set_response_mode h config = do {
     c \<leftarrow> get_wdt h;
     if config = WDT_TIMEOUT_INTR then do {
       val \<leftarrow> RD_REG32 (base_addr c + WDT_CR);
       WR_REG32 (base_addr c + WDT_CR) (val OR push_bit WDT_CR_RMOD_POS 1);
       let ident = get_intr_id (inst c);
       err \<leftarrow> interrupt_enable ident GIC_INTERRUPT_PRIORITY_WDOG;
       if err \<noteq> 0 then ret (- EIO)
       else do {
         err \<leftarrow> interrupt_register_isr ident F_wdt_isr (V_wdt h);
         if err \<noteq> 0 then ret (- EIO) else ret 0
       }
     } else do {
       val \<leftarrow> RD_REG32 (base_addr c + WDT_CR);
       WR_REG32 (base_addr c + WDT_CR) (val AND NOT (push_bit WDT_CR_RMOD_POS 1));
       ret 0
     }
   }"

text \<open>
  The argument \<^verbatim>\<open>param\<close> is \<open>None\<close> for \<^verbatim>\<open>NULL\<close> and the word it points to otherwise;
  the second component of the result is the word written to it, if any.
\<close>

definition wdt_ioctl :: "wdt_handle_t \<Rightarrow> u32 \<Rightarrow> u32 option \<Rightarrow> ('x wdt_state_scheme, int \<times> u32 option) state" where
  "wdt_ioctl hwdt cmd param =
     (case (hwdt, param) of
        (Some h, Some p) \<Rightarrow> do {
          c \<leftarrow> get_wdt h;
          if \<not> is_open c then ret (- EINVAL, None)
          else if cmd = WDT_SET_INIT_TIMEOUT then do {
            let timeout = ms_to_top (ucast (clk_hz c)) p;
            val \<leftarrow> RD_REG32 (base_addr c + WDT_TORR);
            WR_REG32 (base_addr c + WDT_TORR)
              ((val AND NOT WDT_TORR_TOP_INIT_MASK)
               OR (push_bit WDT_TORR_TOP_INIT_POS timeout AND WDT_TORR_TOP_INIT_MASK));
            modify (upd_wdt h (\<lambda>c. c\<lparr>is_config_done := is_config_done c OR 0x1\<rparr>));
            ret (0, None)
          }
          else if cmd = WDT_GET_INIT_TIMEOUT then do {
            val \<leftarrow> RD_REG32 (base_addr c + WDT_TORR);
            ms \<leftarrow> top_to_ms (ucast (clk_hz c))
                    (ucast (drop_bit WDT_TORR_TOP_INIT_POS (val AND WDT_TORR_TOP_INIT_MASK)));
            ret (0, Some ms)
          }
          else if cmd = WDT_SET_TIMEOUT then
            if p = 0 then ret (- EINVAL, None)
            else do {
              let timeout = ms_to_top (ucast (clk_hz c)) p;
              val \<leftarrow> RD_REG32 (base_addr c + WDT_TORR);
              WR_REG32 (base_addr c + WDT_TORR)
                ((val AND NOT WDT_TORR_TOP_MASK)
                 OR (push_bit WDT_TORR_TOP_POS timeout AND WDT_TORR_TOP_MASK));
              modify (upd_wdt h (\<lambda>c. c\<lparr>is_config_done := is_config_done c OR 0x2\<rparr>));
              ret (0, None)
            }
          else if cmd = WDT_GET_TIMEOUT then do {
            val \<leftarrow> RD_REG32 (base_addr c + WDT_TORR);
            ms \<leftarrow> top_to_ms (ucast (clk_hz c)) (ucast (val AND WDT_TORR_TOP_MASK));
            ret (0, Some ms)
          }
          else if cmd = WDT_GET_STATUS then do {
            val \<leftarrow> RD_REG32 (base_addr c + WDT_CR);
            if val AND WDT_CR_WDT_EN_MASK = 0 then ret (0, Some WDT_STOPPED)
            else do {
              val \<leftarrow> RD_REG32 (base_addr c + WDT_STAT);
              ret (0, Some (if val AND WDT_STAT_WDT_STAT_MASK \<noteq> 0 then WDT_EXPIRED else WDT_RUNNING))
            }
          }
          else if cmd = WDT_SET_TIMEOUT_BEHAVIOUR then do {
            r \<leftarrow> set_response_mode h p;
            ret (if r \<noteq> 0 then - EINVAL else 0, None)
          }
          else ret (- EINVAL, None)
        }
      | _ \<Rightarrow> ret (- EINVAL, None))"

definition wdt_set_callback :: "wdt_handle_t \<Rightarrow> fptr \<Rightarrow> vptr \<Rightarrow> ('x wdt_state_scheme, unit) state" where
  "wdt_set_callback hwdt cb param =
     (case hwdt of None \<Rightarrow> ret ()
      | Some h \<Rightarrow> do {
          c \<leftarrow> get_wdt h;
          whenM (is_open c) (modify (upd_wdt h (\<lambda>c. c\<lparr>callback := cb, cb_usercontext := param\<rparr>)))
        })"

definition wdt_close :: "wdt_handle_t \<Rightarrow> ('x wdt_state_scheme, int) state" where
  "wdt_close hwdt =
     (case hwdt of None \<Rightarrow> ret (- EINVAL)
      | Some h \<Rightarrow> do {
          c \<leftarrow> get_wdt h;
          if \<not> is_open c then ret (- EINVAL)
          else do {
            stop \<leftarrow> wdt_stop (Some h);
            if stop \<noteq> 0 then ret (- EINVAL)
            else do {
              modify (upd_wdt h (\<lambda>c. c\<lparr>is_open := False, is_config_done := 0\<rparr>));
              ret 0
            }
          }
        })"

definition wdt_isr :: "vptr \<Rightarrow> ('x wdt_state_scheme, unit) state" where
  "wdt_isr dat =
     (case dat of
        V_NULL \<Rightarrow> ret ()
      | V_wdt h \<Rightarrow> do {
          c \<leftarrow> get_wdt h;
          _ \<leftarrow> RD_REG32 (base_addr c + WDT_EOI);
          whenM (callback c \<noteq> F_NULL) (emit (Call (callback c) (cb_usercontext c) []))
        }
      | _ \<Rightarrow> ub ''watchdog handle'')"

lemmas wdt_op_defs =
  wdt_open_def wdt_start_def wdt_stop_def wdt_restart_def set_response_mode_def wdt_ioctl_def
  wdt_set_callback_def wdt_close_def wdt_isr_def de_assert_reset_def top_to_ms_def

section \<open>The timeout is long enough\<close>

lemma wdt_log2_spec:
  "0 < unat t \<Longrightarrow> \<exists>k < 64. wdt_log2 t acc = acc + word_of_nat k \<and> 2 ^ k \<le> unat t \<and> unat t < 2 ^ (k + 1)"
proof (induction t acc rule: wdt_log2.induct)
  case (1 t acc)
  show ?case
  proof (cases "t > 1")
    case False
    then have "unat t = 1"
      using 1(2) by (simp add: word_less_nat_alt)
    then show ?thesis
      using False by (intro exI [of _ 0]) (simp add: wdt_log2.simps [of t])
  next
    case True
    then have two: "2 \<le> unat t"
      by (simp add: word_less_nat_alt)
    then obtain k where k: "k < 64" "wdt_log2 (drop_bit 1 t) (acc + 1) = acc + 1 + word_of_nat k"
        "2 ^ k \<le> unat t div 2" "unat t div 2 < 2 ^ (k + 1)"
      using 1(1) [OF True] by (auto simp: unat_drop_bit)
    then have b: "2 ^ Suc k \<le> unat t" "unat t < 2 ^ (Suc k + 1)"
      by simp_all
    have "unat t < 2 ^ 64"
      using unsigned_less [of t] by simp
    with b(1) have "(2 :: nat) ^ Suc k < 2 ^ 64"
      by (rule order.strict_trans1)
    then have "Suc k < 64"
      by (rule power_less_imp_less_exp [rotated]) simp
    with k(2) b True show ?thesis
      by (intro exI [of _ "Suc k"]) (simp add: wdt_log2.simps [of t])
  qed
qed

lemma clk_times_ms:
  "unat ((ucast (clk :: u32) * ucast (ms :: u32) :: u64) div 1000) = unat clk * unat ms div 1000"
  by (simp add: unat_div unat_mult_u64)

lemma top_from_log:
  assumes "k < 64"
  shows "unat (let tp = (word_of_nat k :: u32); tp = (if tp > 15 then tp - 15 else 0)
               in if tp > 15 then 15 else tp) = min 15 (k - 15)"
proof -
  have k: "unat (word_of_nat k :: u32) = k"
    using assms by (simp add: unsigned_of_nat take_bit_nat_eq_self)
  show ?thesis
  proof (cases "15 < k")
    case True
    then have "unat (word_of_nat k - 15 :: u32) = k - 15"
      by (subst unat_sub) (simp_all add: word_le_nat_alt k)
    with True show ?thesis
      by (auto simp: word_less_nat_alt k Let_def min_def)
  next
    case False
    then show ?thesis
      by (simp add: word_less_nat_alt k Let_def)
  qed
qed

lemma ms_to_top_least:
  fixes clk ms :: u32
  defines "n \<equiv> unat clk * unat ms div 1000"
  assumes "1 \<le> n"
  shows "unat (ms_to_top (ucast clk) ms) = (LEAST t. t = 15 \<or> n \<le> 2 ^ (t + 16))"
proof -
  let ?t = "(ucast clk * ucast ms :: u64) div 1000 - 1"
  have ms: "ms \<noteq> 0"
    using assms by auto
  have t: "unat ?t = n - 1"
    using assms by (subst unat_sub) (simp_all add: clk_times_ms word_le_nat_alt)
  obtain k where k: "k < 64" "wdt_log2 ?t 0 = word_of_nat k" "n \<le> 2 ^ (k + 1)" "k = 0 \<or> 2 ^ k \<le> n - 1"
  proof (cases "n = 1")
    case True
    then have "?t = 0" using t by (simp add: unat_eq_zero)
    then show ?thesis using that [of 0] True by (simp add: wdt_log2.simps)
  next
    case False
    then show ?thesis
      using wdt_log2_spec [of ?t 0] assms(2) that unfolding t by auto
  qed
  have "unat (ms_to_top (ucast clk) ms) = min 15 (k - 15)"
    using top_from_log [OF k(1)] ms by (simp add: ms_to_top_def k(2))
  also have "\<dots> = (LEAST t. t = 15 \<or> n \<le> 2 ^ (t + 16))"
  proof (rule Least_equality [symmetric])
    have "n \<le> 2 ^ (k - 15 + 16)"
      by (rule order.trans [OF k(3)], rule power_increasing) simp_all
    then show "min 15 (k - 15) = 15 \<or> n \<le> 2 ^ (min 15 (k - 15) + 16)"
      by (cases "15 \<le> k - 15") (simp_all add: min_def)
  next
    fix y assume y: "y = 15 \<or> n \<le> 2 ^ (y + 16)"
    show "min 15 (k - 15) \<le> y"
    proof (rule ccontr)
      assume less: "\<not> min 15 (k - 15) \<le> y"
      then have "y + 16 \<le> k" and "n \<le> 2 ^ (y + 16)"
        using y by auto
      then have "n \<le> 2 ^ k"
        by (meson one_le_numeral order.trans power_increasing)
      with k(4) less assms(2) show False
        by auto
    qed
  qed
  finally show ?thesis .
qed

text \<open>
  C37. The timeout field computed for a timeout of at least one tick is the least one whose
  period 2^(TOP+16) is not shorter than the timeout, or the maximum 15 when there is none.
\<close>

theorem wdt_top_is_least_sufficient:
  fixes clk ms :: u32
  assumes "1000 \<le> unat clk * unat ms"
  shows "unat (ms_to_top (ucast clk) ms) = (LEAST t. t = 15 \<or> unat clk * unat ms div 1000 \<le> 2 ^ (t + 16))"
  using assms by (intro ms_to_top_least) simp

theorem wdt_top_is_least_sufficient_witness:
  "unat (ms_to_top (ucast (100000000 :: u32)) 10) = (LEAST t. t = 15 \<or> (1000000 :: nat) \<le> 2 ^ (t + 16))"
  using wdt_top_is_least_sufficient [of 100000000 10] by simp

section \<open>The timeout register\<close>

interpretation top_init: reg_field WDT_TORR_TOP_INIT_MASK WDT_TORR_TOP_INIT_POS 4
  by unfold_locales (simp_all add: wdt_regs mask_eq_exp_minus_1)

interpretation top_regular: reg_field WDT_TORR_TOP_MASK WDT_TORR_TOP_POS 4
  by unfold_locales (simp_all add: wdt_regs mask_eq_exp_minus_1)

lemma ms_to_top_bound: "unat (ms_to_top clk ms) < 2 ^ 4"
  by (simp add: ms_to_top_def Let_def word_less_nat_alt)

text \<open>Masking a shifted value that fits its field changes nothing.\<close>

context reg_field
begin

lemma shifted_fits:
  assumes "unat v < 2 ^ width"
  shows "push_bit pos v AND fmask = push_bit pos v"
proof (rule bit_word_eqI)
  fix n assume n: "n < LENGTH(32)"
  have "width \<le> n - pos \<longrightarrow> \<not> bit v (n - pos)"
    using small_word_bit [OF assms, of "n - pos"] by blast
  then show "bit (push_bit pos v AND fmask) n = bit (push_bit pos v) n"
    using fits n by (auto simp: bit_simps bit_fmask)
qed

end

definition wdt_torr :: "wdt_context \<Rightarrow> u64" where
  "wdt_torr c = ucast (base_addr c + WDT_TORR)"

lemma upd_wdt_fields [simp]:
  "env (upd_wdt i f s) = env s" "trace (upd_wdt i f s) = trace s"
  "wdt_descriptors (upd_wdt i f s) = (wdt_descriptors s)(i := f (wdt_descriptors s i))"
  by (simp_all add: upd_wdt_def)

lemma wdt_descriptors_trace [simp]: "wdt_descriptors (s\<lparr>trace := t\<rparr>) = wdt_descriptors s"
  by simp

text \<open>The two fields of the timeout register: reading them and replacing them.\<close>

definition torr_init :: "u32 \<Rightarrow> u32" where
  "torr_init w = drop_bit WDT_TORR_TOP_INIT_POS (w AND WDT_TORR_TOP_INIT_MASK)"

definition torr_top :: "u32 \<Rightarrow> u32" where
  "torr_top w = w AND WDT_TORR_TOP_MASK"

definition torr_with_init :: "u32 \<Rightarrow> u32 \<Rightarrow> u32" where
  "torr_with_init w t = (w AND NOT WDT_TORR_TOP_INIT_MASK)
     OR (push_bit WDT_TORR_TOP_INIT_POS t AND WDT_TORR_TOP_INIT_MASK)"

definition torr_with_top :: "u32 \<Rightarrow> u32 \<Rightarrow> u32" where
  "torr_with_top w t = (w AND NOT WDT_TORR_TOP_MASK) OR (push_bit WDT_TORR_TOP_POS t AND WDT_TORR_TOP_MASK)"

lemma torr_fields:
  assumes "unat t < 2 ^ 4"
  shows "torr_init (torr_with_init w t) = t" "torr_top (torr_with_top w t) = t"
    "torr_init (torr_with_top w t) = torr_init w" "torr_top (torr_with_init w t) = torr_top w"
proof -
  show "torr_init (torr_with_init w t) = t"
    unfolding torr_init_def torr_with_init_def top_init.shifted_fits [OF assms]
    by (rule top_init.get_set [OF assms])
  show "torr_top (torr_with_top w t) = t"
    unfolding torr_top_def torr_with_top_def top_regular.shifted_fits [OF assms]
    using top_regular.get_set [OF assms, of w] by (simp add: WDT_TORR_TOP_POS_def)
  show "torr_init (torr_with_top w t) = torr_init w"
    unfolding torr_init_def torr_with_top_def
    by (rule bit_word_eqI) (auto simp: bit_simps top_init.bit_fmask top_regular.bit_fmask
        WDT_TORR_TOP_INIT_POS_def WDT_TORR_TOP_POS_def)
  show "torr_top (torr_with_init w t) = torr_top w"
    unfolding torr_top_def torr_with_init_def
    by (rule bit_word_eqI) (auto simp: bit_simps top_init.bit_fmask top_regular.bit_fmask
        WDT_TORR_TOP_INIT_POS_def WDT_TORR_TOP_POS_def)
qed

text \<open>The period of a field value in milliseconds.\<close>

definition wdt_period :: "u32 \<Rightarrow> u8 \<Rightarrow> u32" where
  "wdt_period clk t = ucast ((push_bit (unat t + 16) 1 * 1000 :: u64) div ucast clk)"

lemma wdt_ioctl_run:
  fixes s :: "'x wdt_state_scheme" and h :: nat
  defines "c \<equiv> wdt_descriptors s h"
  defines "v \<equiv> hw_rd32 (env s) (trace s) (wdt_torr c)"
  assumes "is_open c" and "clk_hz c \<noteq> 0"
  shows "ms \<noteq> 0 \<Longrightarrow> run_state (wdt_ioctl (Some h) WDT_SET_TIMEOUT (Some ms)) s = ((0, None),
      upd_wdt h (\<lambda>c. c\<lparr>is_config_done := is_config_done c OR 2\<rparr>)
       (s\<lparr>trace := Wr32 (wdt_torr c) (torr_with_top v (ms_to_top (ucast (clk_hz c)) ms))
                    # Rd32 (wdt_torr c) v # trace s\<rparr>))"
    and "run_state (wdt_ioctl (Some h) WDT_SET_INIT_TIMEOUT (Some ms)) s = ((0, None),
      upd_wdt h (\<lambda>c. c\<lparr>is_config_done := is_config_done c OR 1\<rparr>)
       (s\<lparr>trace := Wr32 (wdt_torr c) (torr_with_init v (ms_to_top (ucast (clk_hz c)) ms))
                    # Rd32 (wdt_torr c) v # trace s\<rparr>))"
    and "result (wdt_ioctl (Some h) WDT_GET_TIMEOUT (Some x)) s
      = (0, Some (wdt_period (clk_hz c) (ucast (torr_top v))))"
    and "result (wdt_ioctl (Some h) WDT_GET_INIT_TIMEOUT (Some x)) s
      = (0, Some (wdt_period (clk_hz c) (ucast (torr_init v))))"
  using assms(3,4)
  unfolding c_def v_def
  by (simp_all add: wdt_ioctl_def wdt_cmds Let_def wdt_torr_def torr_with_top_def torr_with_init_def
      torr_top_def torr_init_def wdt_period_def top_to_ms_def)

text \<open>
  Setting a timeout and reading it back: with the timeout register holding what is written,
  the value read is the period 2^(TOP+16) in milliseconds of the field computed for it, for the
  regular and for the initial timeout, and setting either leaves the other as it was.
\<close>

theorem wdt_timeout_roundtrip:
  assumes "is_open (wdt_descriptors s h)" and "clk_hz (wdt_descriptors s h) \<noteq> 0"
    and "reg_holds (env s) (wdt_torr (wdt_descriptors s h))" and "ms \<noteq> 0"
  shows "let clk = clk_hz (wdt_descriptors s h);
             s1 = final (wdt_ioctl (Some h) WDT_SET_TIMEOUT (Some ms)) s;
             s2 = final (wdt_ioctl (Some h) WDT_SET_INIT_TIMEOUT (Some ms)) s;
             set_value = (0, Some (wdt_period clk (ucast (ms_to_top (ucast clk) ms))))
         in result (wdt_ioctl (Some h) WDT_GET_TIMEOUT (Some x)) s1 = set_value
          \<and> result (wdt_ioctl (Some h) WDT_GET_INIT_TIMEOUT (Some x)) s2 = set_value
          \<and> result (wdt_ioctl (Some h) WDT_GET_INIT_TIMEOUT (Some x)) s1
              = result (wdt_ioctl (Some h) WDT_GET_INIT_TIMEOUT (Some x)) s
          \<and> result (wdt_ioctl (Some h) WDT_GET_TIMEOUT (Some x)) s2
              = result (wdt_ioctl (Some h) WDT_GET_TIMEOUT (Some x)) s"
proof -
  have hold: "hw_rd32 (env s) (Wr32 (wdt_torr (wdt_descriptors s h)) w # t) (wdt_torr (wdt_descriptors s h)) = w"
    for w t using assms(3) by (rule reg_holdsD) simp
  note fields = torr_fields [OF ms_to_top_bound]
  have torr: "wdt_torr (c\<lparr>is_config_done := d\<rparr>) = wdt_torr c" for c d
    by (simp add: wdt_torr_def)
  show ?thesis
    using assms(1,2,4) by (simp add: wdt_ioctl_run Let_def hold fields torr)
qed

definition wdt_machine :: wdt_state where
  "wdt_machine = timer_state.extend boot_machine \<lparr>wdt_descriptors = (\<lambda>_.
     \<lparr>base_addr = 0, inst = 0, is_open = False, is_config_done = 0, callback = F_NULL, clk_hz = 0,
      cb_usercontext = V_NULL\<rparr>)\<rparr>"

lemma wdt_machine_simps [simp]:
  "env wdt_machine = boot_env" "trace wdt_machine = []"
  "wdt_descriptors wdt_machine h = \<lparr>base_addr = 0, inst = 0, is_open = False, is_config_done = 0,
     callback = F_NULL, clk_hz = 0, cb_usercontext = V_NULL\<rparr>"
  by (simp_all add: wdt_machine_def timer_state.defs boot_machine_def timer_machine_def
      irq_state.defs irq_machine_def gic_state.defs gic_machine_def)

definition open_wdt_machine :: wdt_state where
  "open_wdt_machine = upd_wdt 0 (\<lambda>c. c\<lparr>base_addr := 0x10D00200, is_open := True, clk_hz := 100000000\<rparr>)
     (wdt_machine\<lparr>env := ram_env\<rparr>)"

theorem wdt_timeout_roundtrip_witness:
  "result (wdt_ioctl (Some 0) WDT_GET_TIMEOUT (Some 0))
     (final (wdt_ioctl (Some 0) WDT_SET_TIMEOUT (Some 10)) open_wdt_machine)
   = (0, Some (wdt_period 100000000 (ucast (ms_to_top 100000000 10))))"
  using wdt_timeout_roundtrip [of open_wdt_machine 0 10 0]
  by (simp add: open_wdt_machine_def Let_def)

section \<open>Reachable states\<close>

datatype wdt_op =
  W_open u32 | W_start wdt_handle_t | W_stop wdt_handle_t | W_restart wdt_handle_t
| W_ioctl wdt_handle_t u32 "u32 option" | W_set_callback wdt_handle_t fptr vptr
| W_close wdt_handle_t | W_irq vptr

fun wdt_do :: "wdt_op \<Rightarrow> ('x wdt_state_scheme, unit) state" where
  "wdt_do (W_open i) = do { _ \<leftarrow> wdt_open i; ret () }"
| "wdt_do (W_start h) = do { _ \<leftarrow> wdt_start h; ret () }"
| "wdt_do (W_stop h) = do { _ \<leftarrow> wdt_stop h; ret () }"
| "wdt_do (W_restart h) = do { _ \<leftarrow> wdt_restart h; ret () }"
| "wdt_do (W_ioctl h c p) = do { _ \<leftarrow> wdt_ioctl h c p; ret () }"
| "wdt_do (W_set_callback h f p) = wdt_set_callback h f p"
| "wdt_do (W_close h) = do { _ \<leftarrow> wdt_close h; ret () }"
| "wdt_do (W_irq d) = wdt_isr d"

inductive wdt_reaches :: "'x wdt_state_scheme \<Rightarrow> 'x wdt_state_scheme \<Rightarrow> bool" for s0 where
  start: "wdt_reaches s0 s0"
| step: "wdt_reaches s0 s \<Longrightarrow> wdt_reaches s0 (final (wdt_do op) s)"

inductive_cases wdt_reachesE: "wdt_reaches s0 s"

text \<open>A watchdog with any timeout set is open, and only the two timeout bits are ever set.\<close>

definition wdt_inv :: "wdt_context \<Rightarrow> bool" where
  "wdt_inv c \<longleftrightarrow> (is_open c \<or> is_config_done c = 0) \<and> is_config_done c AND NOT 3 = 0"

interpretation wdts: slots wdt_descriptors upd_wdt "\<lambda>_ _. True"
  by unfold_locales (simp_all add: upd_wdt_def)

abbreviation wdts_inv :: "'x wdt_state_scheme \<Rightarrow> bool" where
  "wdts_inv \<equiv> wdts.all_slots wdt_inv"

lemma wdt_callbacks_frame [simp]: "wdt_descriptors (set_callback n f s) = wdt_descriptors s"
  by (simp add: set_callback_def)

lemma wdt_slots_blind: "irq_blind (wdts.all_slots P)"
  by (rule irq_blindI) (simp_all add: wdts.all_slots_def)

lemma keeps_wdts_inv_upd:
  assumes "\<And>v. wdt_inv v \<Longrightarrow> wdt_inv (f v)"
  shows "keeps wdts_inv (modify (upd_wdt h f))"
  using assms by (rule wdts.keeps_all_slots)

lemmas wdts_keep_rules =
  keeps_intros keeps_wdts_inv_upd keeps_prims_blind [OF irq_blind_trace [OF wdt_slots_blind]]
  clk_keeps_blind [OF irq_blind_trace [OF wdt_slots_blind]] irq_keeps_blind [OF wdt_slots_blind]
  keeps_emit_blind [OF irq_blind_trace [OF wdt_slots_blind]]

lemma wdt_ops_keep_inv:
  "keeps wdts_inv (wdt_start h)" "keeps wdts_inv (wdt_stop h)" "keeps wdts_inv (wdt_restart h)"
  "keeps wdts_inv (wdt_close h)" "keeps wdts_inv (wdt_set_callback h f q)"
  "keeps wdts_inv (set_response_mode i m)" "keeps wdts_inv (wdt_open n)"
  unfolding wdt_op_defs Let_def
  by (intro wdts_keep_rules; simp add: wdt_inv_def)+

lemma wdt_isr_keeps_inv: "keeps wdts_inv (wdt_isr d)"
  unfolding wdt_isr_def by (cases d; simp; intro wdts_keep_rules)

text \<open>Setting a timeout keeps the invariant because the descriptor was found open.\<close>

lemma wdts_inv_set_bit:
  assumes "wdts_inv s" and "is_open (wdt_descriptors s h)" and "b AND NOT 3 = 0"
  shows "wdts_inv (upd_wdt h (\<lambda>c. c\<lparr>is_config_done := is_config_done c OR b\<rparr>) (s\<lparr>trace := t\<rparr>))"
  using assms
  by (auto simp: wdts.all_slots_def wdt_inv_def bit.conj_disj_distrib2)

lemma wdt_ioctl_keeps_inv: "keeps wdts_inv (wdt_ioctl h cmd p)"
proof (cases "\<exists>i q. h = Some i \<and> p = Some q")
  case False
  then have "wdt_ioctl h cmd p = (ret (- EINVAL, None) :: ('a wdt_state_scheme, int \<times> u32 option) state)"
    by (cases h; cases p) (auto simp: wdt_ioctl_def)
  then show ?thesis by (simp add: keeps_ret)
next
  case True
  then obtain i q where hp: "h = Some i" "p = Some q" by auto
  show ?thesis
  proof (cases "cmd = WDT_SET_INIT_TIMEOUT \<or> cmd = WDT_SET_TIMEOUT")
    case True
    then show ?thesis
      by (auto simp: hp keeps_def wdt_ioctl_def wdt_cmds Let_def intro!: wdts_inv_set_bit)
  next
    case False
    show ?thesis
      unfolding hp wdt_ioctl_def top_to_ms_def Let_def prod.case option.case
      by (intro wdts_keep_rules wdt_ops_keep_inv(6); use False in blast)
  qed
qed



section \<open>Clock and reset\<close>

lemma ms_to_top_no_clock:
  assumes "ms \<noteq> 0"
  shows "ms_to_top 0 ms = 15"
proof -
  have max: "unat (- 1 :: u64) = 2 ^ 64 - 1"
    by (simp add: unsigned_minus_1_eq_mask mask_eq_exp_minus_1)
  obtain k where k: "k < 64" "wdt_log2 (- 1) 0 = word_of_nat k" "2 ^ 64 - 1 < (2 :: nat) ^ (k + 1)"
    using wdt_log2_spec [of "- 1" 0] unfolding max by auto
  have "\<not> k + 1 \<le> 63"
  proof
    assume "k + 1 \<le> 63"
    then have "(2 :: nat) ^ (k + 1) \<le> 2 ^ 63"
      by (rule power_increasing) simp
    with k(3) show False by simp
  qed
  with k(1) have "k = 63" by simp
  have "unat (ms_to_top 0 ms) = min 15 (k - 15)"
    using top_from_log [OF k(1)] assms by (simp add: ms_to_top_def k(2))
  then show ?thesis
    by (simp add: \<open>k = 63\<close> word_unat_eq_iff)
qed

text \<open>
  A failing clock is not noticed: the status of the clock manager is compared with 1, a
  value it never returns, so opening a closed watchdog always returns a handle, also when the
  clock rate is 0; on such a handle every positive timeout becomes the longest one, and
  reading a timeout divides by zero.
\<close>

theorem wdt_open_ignores_clock_failure:
  assumes "i < MAX_WATCHDOG_INSTANCES" and "\<not> is_open (wdt_descriptors s (unat i))"
  shows "result (wdt_open i) s = Some (unat i)
    \<and> (let s' = final (wdt_open i) s; c = wdt_descriptors s' (unat i) in
        is_open c \<and> base_addr c = GET_WDT_BASE_ADDRESS i
        \<and> (clk_hz c = 0 \<longrightarrow>
             (\<forall>ms. ms \<noteq> 0 \<longrightarrow> ms_to_top (ucast (clk_hz c)) ms = 15)
             \<and> is_ub (hd (trace (final (wdt_ioctl (Some (unat i)) WDT_GET_TIMEOUT (Some x)) s')))))"
proof -
  have err: "fst (result (clk_mngr_get_clk b) t) \<noteq> 1" for b and t :: "'a wdt_state_scheme"
    by (simp add: clk_mngr_get_clk_def split_beta)
  have only: "irq_blind (\<lambda>s :: 'a wdt_state_scheme. wdt_descriptors s = v)" for v
    by (rule irq_blindI) simp_all
  have frame: "wdt_descriptors (final (clk_mngr_get_clk b) t) = wdt_descriptors t"
    for b and t :: "'a wdt_state_scheme"
    by (intro frame_of_keeps clk_keeps_blind irq_blind_trace [OF only])
  have deassert: "wdt_descriptors (final (de_assert_reset i) t) = wdt_descriptors t"
    for t :: "'a wdt_state_scheme"
    by (simp add: de_assert_reset_def split: option.split)
  show ?thesis
    using assms
    by (simp add: wdt_open_def not_le [symmetric] split_beta Let_def err frame deassert
        wdt_ioctl_def wdt_cmds top_to_ms_def ms_to_top_no_clock)
qed

theorem wdt_open_ignores_clock_failure_witness:
  "result (wdt_open 2) (wdt_machine\<lparr>env := ram_env\<rparr>) = Some 2"
  using wdt_open_ignores_clock_failure [of 2 "wdt_machine\<lparr>env := ram_env\<rparr>"]
  by (simp add: wdt_regs)

text \<open>The reset manager's id of a watchdog.\<close>

definition wdt_rst_id :: "u32 \<Rightarrow> u32" where
  "wdt_rst_id i = (if i = 4 then RST_WATCHDOG4 else RST_WATCHDOG0 + i)"

lemma wdt_instances:
  assumes "i < MAX_WATCHDOG_INSTANCES"
  shows "i = 0 \<or> i = 1 \<or> i = 2 \<or> i = 3 \<or> i = 4"
proof -
  have "unat i < 5"
    using assms by (simp add: MAX_WATCHDOG_INSTANCES_def word_less_nat_alt)
  then have "unat i \<in> {0, 1, 2, 3, 4}"
    by auto
  then have "(word_of_nat (unat i) :: u32) \<in> word_of_nat ` {0, 1, 2, 3, 4}"
    by (rule imageI)
  then show ?thesis by simp
qed

text \<open>
  The driver releases its watchdogs from reset by its own table: opening reads PER1MODRST
  and writes it back with exactly the bit cleared that the reset manager's header lists for
  the watchdog, also for watchdogs 0 and 4, for which the reset manager itself would use
  another register or an undefined shift.
\<close>

theorem wdt_reset_follows_header:
  assumes "i < MAX_WATCHDOG_INSTANCES"
  shows "\<exists>b. (wdt_rst_id i, RESET_PER1MODRST, b) \<in> set rst_header_table
    \<and> run_state (de_assert_reset i) s =
       (let a = ucast (RESET_PER1MODRST + RESET_MANAGER_BASE_ADDR); v = hw_rd32 (env s) (trace s) a
        in ((), s\<lparr>trace := Wr32 a (unset_bit b v) # Rd32 a v # trace s\<rparr>))"
proof -
  obtain b where b: "wdt_reset_bit i = Some b" "(wdt_rst_id i, RESET_PER1MODRST, b) \<in> set rst_header_table"
    using wdt_instances [OF assms]
    by (elim disjE)
      (auto simp: wdt_reset_bit_def wdt_rst_id_def rst_ids rst_header_table_def)
  then show ?thesis
    by (auto simp: de_assert_reset_def wdt_regs rst_regs Let_def unset_bit_eq_and_not
        intro!: exI [of _ b])
qed

theorem wdt_reset_follows_header_witness:
  "trace (final (de_assert_reset 4) (wdt_machine\<lparr>env := ram_env\<lparr>hw_rd32 := \<lambda>_ _. 0xFFFFFFFF\<rparr>\<rparr>))
     = [Wr32 0x10D11028 0xFBFFFFFF, Rd32 0x10D11028 0xFFFFFFFF]"
  using wdt_reset_follows_header [of 4 "wdt_machine\<lparr>env := ram_env\<lparr>hw_rd32 := \<lambda>_ _. 0xFFFFFFFF\<rparr>\<rparr>"]
  by (auto simp: wdt_regs wdt_rst_id_def rst_ids rst_header_table_def rst_regs Let_def
      unset_bit_eq_and_not)

end
