(* ===== verification/Gpio.thy ===== *)
theory Gpio
  imports Watchdog
begin

unbundle bit_operations_syntax

text \<open>
  The GPIO driver, \<^verbatim>\<open>drivers/gpio\<close>: 48 pins in two blocks of 24, each pin with a
  descriptor, direction, interrupt type and callback. The interrupt handler of a block gets a
  pointer to a local variable of the function that registered it: the variable lives in a
  stack slot of the machine's memory.
\<close>

section \<open>Registers\<close>

definition GPIO_SWPORTA_DR :: u32 where "GPIO_SWPORTA_DR = 0x0000"
definition GPIO_SWPORTA_DDR :: u32 where "GPIO_SWPORTA_DDR = 0x0004"
definition GPIO_INTEN :: u32 where "GPIO_INTEN = 0x0030"
definition GPIO_INTTYPE_LEVEL :: u32 where "GPIO_INTTYPE_LEVEL = 0x0038"
definition GPIO_INT_POLARITY :: u32 where "GPIO_INT_POLARITY = 0x003C"
definition GPIO_INTSTATUS :: u32 where "GPIO_INTSTATUS = 0x0040"
definition GPIO_PORTA_EOI :: u32 where "GPIO_PORTA_EOI = 0x004C"
definition GPIO_EXT_PORTA :: u32 where "GPIO_EXT_PORTA = 0x0050"
definition GPIO_PINS_PER_REG :: u32 where "GPIO_PINS_PER_REG = 24"
definition GPIO_NUM_PINS :: u32 where "GPIO_NUM_PINS = 48"
definition GPIO0_PIN23 :: u32 where "GPIO0_PIN23 = 23"
definition GPIO1_PIN23 :: u32 where "GPIO1_PIN23 = 47"
definition GPIO_INSTANCE1 :: u8 where "GPIO_INSTANCE1 = 0"
definition PINMUX_GPIO :: u32 where "PINMUX_GPIO = 0x08"
definition PINMUX_MASK :: u32 where "PINMUX_MASK = 0x0F"
definition GPIO0_BASE_ADDR :: u32 where "GPIO0_BASE_ADDR = 0x10C03200"
definition GPIO1_BASE_ADDR :: u32 where "GPIO1_BASE_ADDR = 0x10C03300"
definition GIC_INTERRUPT_PRIORITY_GPIO :: u8 where "GIC_INTERRUPT_PRIORITY_GPIO = 14"

definition PINMUX_REG :: "u32 \<Rightarrow> u32" where
  "PINMUX_REG p = (if p < 40 then 0x10D13000 + p * 4 else 0x10D13100 + (p - 40) * 4)"

definition GET_GPIO_BASE_ADDR :: "u32 \<Rightarrow> u32" where
  "GET_GPIO_BASE_ADDR instance0 = (if instance0 < 24 then GPIO0_BASE_ADDR else GPIO1_BASE_ADDR)"

datatype gpio_int_t =
  GPIO_INT_NONE | GPIO_INT_RISING | GPIO_INT_FALLING | GPIO_INT_LOW | GPIO_INT_HIGH

datatype gpio_dir_t = GPIO_DIR_IN | GPIO_DIR_OUT

lemmas gpio_regs =
  GPIO_SWPORTA_DR_def GPIO_SWPORTA_DDR_def GPIO_INTEN_def GPIO_INTTYPE_LEVEL_def
  GPIO_INT_POLARITY_def GPIO_INTSTATUS_def GPIO_PORTA_EOI_def GPIO_EXT_PORTA_def
  GPIO_PINS_PER_REG_def GPIO_NUM_PINS_def GPIO0_PIN23_def GPIO1_PIN23_def GPIO_INSTANCE1_def
  PINMUX_GPIO_def PINMUX_MASK_def GPIO0_BASE_ADDR_def GPIO1_BASE_ADDR_def

section \<open>State\<close>

record gpio_context =
  is_open :: bool
  inst :: u32
  callback_fn :: fptr
  cb_usercontext :: vptr

record gpio_state = wdt_state +
  gpio_descriptors :: "nat \<Rightarrow> gpio_context"

type_synonym gpio_handle_t = "nat option"

definition gpio_zero :: gpio_context where
  "gpio_zero = \<lparr>is_open = False, inst = 0, callback_fn = F_NULL, cb_usercontext = V_NULL\<rparr>"

definition upd_gpio :: "nat \<Rightarrow> (gpio_context \<Rightarrow> gpio_context) \<Rightarrow> 'x gpio_state_scheme \<Rightarrow> 'x gpio_state_scheme" where
  "upd_gpio i f s = s\<lparr>gpio_descriptors := (gpio_descriptors s)(i := f (gpio_descriptors s i))\<rparr>"

abbreviation get_gpio :: "nat \<Rightarrow> ('x gpio_state_scheme, gpio_context) state" where
  "get_gpio i \<equiv> gets (\<lambda>s. gpio_descriptors s i)"

section \<open>Register bits\<close>

definition is_pin_gpio :: "u32 \<Rightarrow> ('x machine_scheme, bool) state" where
  "is_pin_gpio pin = do {
     val \<leftarrow> RD_REG32 (PINMUX_REG pin);
     ret (val AND PINMUX_MASK = PINMUX_GPIO)
   }"

text \<open>\<^verbatim>\<open>1U << pin\<close> is defined because the pin, reduced by 24, is below 24.\<close>

definition set_gpio_reg_bit :: "u32 \<Rightarrow> u32 \<Rightarrow> u8 \<Rightarrow> ('x machine_scheme, unit) state" where
  "set_gpio_reg_bit reg pin val = do {
     let base_add = GET_GPIO_BASE_ADDR pin;
     let pin = (if pin \<ge> GPIO_PINS_PER_REG then pin - GPIO_PINS_PER_REG else pin);
     reg_val \<leftarrow> RD_REG32 (base_add + reg);
     let reg_val = reg_val AND NOT (push_bit (unat pin) 1);
     let reg_val = reg_val OR push_bit (unat pin) (ucast val);
     WR_REG32 (base_add + reg) reg_val
   }"

definition get_gpio_reg_bit :: "u32 \<Rightarrow> u32 \<Rightarrow> ('x machine_scheme, u8) state" where
  "get_gpio_reg_bit reg pin = do {
     val \<leftarrow> RD_REG32 (GET_GPIO_BASE_ADDR pin + reg);
     let pin = (if pin \<ge> GPIO_PINS_PER_REG then pin - GPIO_PINS_PER_REG else pin);
     ret (ucast (drop_bit (unat pin) val AND 0x01))
   }"

section \<open>Direction, state and interrupts of a pin\<close>

definition gpio_set_direction :: "u32 \<Rightarrow> gpio_dir_t \<Rightarrow> ('x machine_scheme, unit) state" where
  "gpio_set_direction pin dir =
     (if dir = GPIO_DIR_IN then set_gpio_reg_bit GPIO_SWPORTA_DDR pin 0
      else set_gpio_reg_bit GPIO_SWPORTA_DDR pin 1)"

definition gpio_get_direction :: "u32 \<Rightarrow> ('x machine_scheme, u8) state" where
  "gpio_get_direction pin = get_gpio_reg_bit GPIO_SWPORTA_DDR pin"

definition gpio_read_state :: "u32 \<Rightarrow> ('x machine_scheme, u8) state" where
  "gpio_read_state pin = get_gpio_reg_bit GPIO_EXT_PORTA pin"

definition gpio_write_state :: "u32 \<Rightarrow> u8 \<Rightarrow> ('x machine_scheme, unit) state" where
  "gpio_write_state pin st = set_gpio_reg_bit GPIO_SWPORTA_DR pin st"

text \<open>The three writes of an interrupt type: level/edge, polarity, enable.\<close>

definition gpio_config_interrupt :: "u32 \<Rightarrow> gpio_int_t \<Rightarrow> ('x machine_scheme, unit) state" where
  "gpio_config_interrupt pin ty =
     (case ty of
        GPIO_INT_NONE \<Rightarrow> set_gpio_reg_bit GPIO_INTEN pin 0
      | GPIO_INT_RISING \<Rightarrow> do { set_gpio_reg_bit GPIO_INTTYPE_LEVEL pin 1;
          set_gpio_reg_bit GPIO_INT_POLARITY pin 1; set_gpio_reg_bit GPIO_INTEN pin 1 }
      | GPIO_INT_FALLING \<Rightarrow> do { set_gpio_reg_bit GPIO_INTTYPE_LEVEL pin 1;
          set_gpio_reg_bit GPIO_INT_POLARITY pin 0; set_gpio_reg_bit GPIO_INTEN pin 1 }
      | GPIO_INT_LOW \<Rightarrow> do { set_gpio_reg_bit GPIO_INTTYPE_LEVEL pin 0;
          set_gpio_reg_bit GPIO_INT_POLARITY pin 0; set_gpio_reg_bit GPIO_INTEN pin 1 }
      | GPIO_INT_HIGH \<Rightarrow> do { set_gpio_reg_bit GPIO_INTTYPE_LEVEL pin 0;
          set_gpio_reg_bit GPIO_INT_POLARITY pin 1; set_gpio_reg_bit GPIO_INTEN pin 1 })"

text \<open>\<^verbatim>\<open>&gpio_inst\<close> is the address of a stack slot, given by the environment.\<close>

definition gpio_set_interrupt :: "u32 \<Rightarrow> gpio_int_t \<Rightarrow> ('x gpio_state_scheme, bool) state" where
  "gpio_set_interrupt pin ty = do {
     let (ident, gpio_inst) = (if pin < GPIO_PINS_PER_REG then (GPIO0IRQ, 0 :: u8) else (GPIO1IRQ, 1));
     a \<leftarrow> gets (\<lambda>s. stack_slot (env s) (trace s));
     poke a gpio_inst;
     err \<leftarrow> interrupt_register_isr ident F_gpio_irq_handler (V_addr a);
     if err \<noteq> 0 then ret False
     else do {
       set_gpio_reg_bit GPIO_PORTA_EOI pin 1;
       gpio_config_interrupt pin ty;
       if ty \<noteq> GPIO_INT_NONE then do {
         err \<leftarrow> interrupt_enable ident GIC_INTERRUPT_PRIORITY_GPIO;
         ret (err = 0)
       } else ret True
     }
   }"

definition gpio_get_interrupt :: "u32 \<Rightarrow> ('x machine_scheme, gpio_int_t) state" where
  "gpio_get_interrupt pin = do {
     res1 \<leftarrow> get_gpio_reg_bit GPIO_INTTYPE_LEVEL pin;
     res2 \<leftarrow> get_gpio_reg_bit GPIO_INT_POLARITY pin;
     let res1 = push_bit 1 res1 OR res2;
     let ret_val = (if res1 = 0 then GPIO_INT_LOW else if res1 = 1 then GPIO_INT_HIGH
                    else if res1 = 2 then GPIO_INT_FALLING else if res1 = 3 then GPIO_INT_RISING
                    else GPIO_INT_NONE);
     res1 \<leftarrow> get_gpio_reg_bit GPIO_INTEN pin;
     ret (if res1 = 0 then GPIO_INT_NONE else ret_val)
   }"

text \<open>The \<^verbatim>\<open>for\<close> loop over the pins of the block, with the indices still to visit.\<close>

fun gpio_serve :: "u32 \<Rightarrow> u32 \<Rightarrow> nat list \<Rightarrow> ('x gpio_state_scheme, unit) state" where
  "gpio_serve int_stat pin_offset [] = ret ()"
| "gpio_serve int_stat pin_offset (i # is) = do {
     whenM (int_stat AND push_bit i 1 = push_bit i 1) (do {
       let pin = word_of_nat i + pin_offset;
       c \<leftarrow> get_gpio (unat pin);
       whenM (callback_fn c \<noteq> F_NULL) (do {
         pin_state \<leftarrow> get_gpio_reg_bit GPIO_SWPORTA_DR pin;
         emit (Call (callback_fn c) (cb_usercontext c) [ucast pin_state])
       })
     });
     gpio_serve int_stat pin_offset is
   }"

text \<open>\<^verbatim>\<open>*(uint8_t *)data\<close> reads the byte the pointer leads to when the interrupt comes.\<close>

definition gpio_irq_handler :: "vptr \<Rightarrow> ('x gpio_state_scheme, unit) state" where
  "gpio_irq_handler dat =
     (case dat of
        V_addr a \<Rightarrow> do {
          gpio_inst \<leftarrow> peek a;
          let gpio_base = (if gpio_inst = GPIO_INSTANCE1 then GPIO0_BASE_ADDR else GPIO1_BASE_ADDR);
          int_stat \<leftarrow> RD_REG32 (gpio_base + GPIO_INTSTATUS);
          WR_REG32 (gpio_base + GPIO_PORTA_EOI) int_stat;
          let pin_offset = (if gpio_inst = GPIO_INSTANCE1 then 0 else GPIO_PINS_PER_REG);
          gpio_serve int_stat pin_offset [0..<unat GPIO_PINS_PER_REG]
        }
      | _ \<Rightarrow> ub ''gpio data'')"

definition gpio_get_rst_instance :: "u32 \<Rightarrow> u32" where
  "gpio_get_rst_instance pin =
     (if pin \<le> GPIO0_PIN23 then RST_GPIO0 else if pin \<le> GPIO1_PIN23 then RST_GPIO1 else RST_GPIO1)"

section \<open>Operations\<close>

definition gpio_open :: "u32 \<Rightarrow> ('x gpio_state_scheme, gpio_handle_t) state" where
  "gpio_open pin =
     (if pin \<ge> GPIO_NUM_PINS then ret None
      else do {
        gpio \<leftarrow> is_pin_gpio pin;
        if \<not> gpio then ret None
        else do {
          let h = unat pin;
          c \<leftarrow> get_gpio h;
          if is_open c then ret None
          else do {
            let rst_instance = gpio_get_rst_instance pin;
            (status, reset_status) \<leftarrow> rstmgr_get_reset_status rst_instance;
            if status \<noteq> 0 then ret None
            else do {
              status \<leftarrow> (if reset_status \<noteq> Some 0 then rstmgr_toggle_reset rst_instance else ret 0);
              if status \<noteq> 0 then ret None
              else do {
                modify (upd_gpio h (\<lambda>_. gpio_zero\<lparr>is_open := True, inst := pin\<rparr>));
                ret (Some h)
              }
            }
          }
        }
      })"

text \<open>The commands of \<^verbatim>\<open>gpio_ioctl\<close> with the value \<^verbatim>\<open>buf\<close> points to, and what is
  written back through it.\<close>

datatype gpio_cmd =
  SET_GPIO_DIR gpio_dir_t | SET_GPIO_INT gpio_int_t | GET_GPIO_DIRECTION | GET_GPIO_INT
| GPIO_CMD_NULL_BUF | GPIO_CMD_INVALID

datatype gpio_out = O_none | O_dir u8 | O_int gpio_int_t

definition gpio_ioctl :: "gpio_handle_t \<Rightarrow> gpio_cmd \<Rightarrow> ('x gpio_state_scheme, int \<times> gpio_out) state" where
  "gpio_ioctl hgpio cmd =
     (case hgpio of None \<Rightarrow> ret (- EINVAL, O_none)
      | Some h \<Rightarrow> do {
          c \<leftarrow> get_gpio h;
          case cmd of
            SET_GPIO_DIR dir_config \<Rightarrow> do { gpio_set_direction (inst c) dir_config; ret (0, O_none) }
          | SET_GPIO_INT intr_config \<Rightarrow> do {
              ok \<leftarrow> gpio_set_interrupt (inst c) intr_config;
              ret (if ok then 0 else - EINVAL, O_none)
            }
          | GET_GPIO_DIRECTION \<Rightarrow> do { d \<leftarrow> gpio_get_direction (inst c); ret (0, O_dir d) }
          | GET_GPIO_INT \<Rightarrow> do { t \<leftarrow> gpio_get_interrupt (inst c); ret (0, O_int t) }
          | _ \<Rightarrow> ret (- EINVAL, O_none)
        })"

definition gpio_set_callback :: "gpio_handle_t \<Rightarrow> fptr \<Rightarrow> vptr \<Rightarrow> ('x gpio_state_scheme, unit) state" where
  "gpio_set_callback hgpio cb param =
     (case hgpio of None \<Rightarrow> ret ()
      | Some h \<Rightarrow> modify (upd_gpio h (\<lambda>c. c\<lparr>callback_fn := cb, cb_usercontext := param\<rparr>)))"

definition gpio_read_sync :: "gpio_handle_t \<Rightarrow> ('x gpio_state_scheme, int \<times> u8 option) state" where
  "gpio_read_sync hgpio =
     (case hgpio of None \<Rightarrow> ret (- EINVAL, None)
      | Some h \<Rightarrow> do {
          c \<leftarrow> get_gpio h;
          if \<not> is_open c then ret (- EINVAL, None)
          else do { v \<leftarrow> gpio_read_state (inst c); ret (0, Some v) }
        })"

definition gpio_write_sync :: "gpio_handle_t \<Rightarrow> u8 \<Rightarrow> ('x gpio_state_scheme, int) state" where
  "gpio_write_sync hgpio st =
     (case hgpio of None \<Rightarrow> ret (- EINVAL)
      | Some h \<Rightarrow> do {
          c \<leftarrow> get_gpio h;
          if \<not> is_open c then ret (- EINVAL)
          else do { gpio_write_state (inst c) st; ret 0 }
        })"

definition gpio_close :: "gpio_handle_t \<Rightarrow> ('x gpio_state_scheme, int) state" where
  "gpio_close hgpio =
     (case hgpio of None \<Rightarrow> ret (- EINVAL)
      | Some h \<Rightarrow> do {
          c \<leftarrow> get_gpio h;
          if \<not> is_open c then ret (- EINVAL)
          else do {
            ty \<leftarrow> gpio_get_interrupt (inst c);
            ok \<leftarrow> (if ty \<noteq> GPIO_INT_NONE then do {
                     ok \<leftarrow> gpio_set_interrupt (inst c) GPIO_INT_NONE;
                     whenM ok (modify (upd_gpio h (\<lambda>c. c\<lparr>callback_fn := F_NULL\<rparr>)));
                     ret ok
                   } else ret True);
            if \<not> ok then ret (- EINVAL)
            else do {
              modify (upd_gpio h (\<lambda>c. c\<lparr>is_open := False\<rparr>));
              ret 0
            }
          }
        })"

lemmas gpio_op_defs =
  gpio_open_def gpio_ioctl_def gpio_set_callback_def gpio_read_sync_def gpio_write_sync_def
  gpio_close_def

section \<open>One bit of a block register\<close>

text \<open>The register and the bit of a pin.\<close>

definition gpio_reg_of :: "u32 \<Rightarrow> u32 \<Rightarrow> u64" where
  "gpio_reg_of reg pin = ucast (GET_GPIO_BASE_ADDR pin + reg)"

definition gpio_bit_of :: "u32 \<Rightarrow> nat" where
  "gpio_bit_of pin = unat (if pin \<ge> GPIO_PINS_PER_REG then pin - GPIO_PINS_PER_REG else pin)"

lemma gpio_bit_bound:
  assumes "pin < GPIO_NUM_PINS"
  shows "gpio_bit_of pin < 24"
  using assms by (auto simp: gpio_bit_of_def gpio_regs word_less_nat_alt word_le_nat_alt unat_sub)

lemma gpio_bit_inj:
  assumes "pin < GPIO_NUM_PINS" and "pin' < GPIO_NUM_PINS" and "(pin < 24) = (pin' < 24)"
  shows "gpio_bit_of pin = gpio_bit_of pin' \<longleftrightarrow> pin = pin'"
  using assms
  by (auto simp: gpio_bit_of_def gpio_regs word_less_nat_alt word_le_nat_alt unat_sub word_unat_eq_iff
      split: if_splits)

lemma low_bit: "(ucast (drop_bit n w AND 1) :: u8) = of_bool (bit w n)" for w :: u32
  by (rule bit_word_eqI) (auto simp: bit_simps)

lemma run_get_bit:
  "run_state (get_gpio_reg_bit reg pin) s =
     (let v = hw_rd32 (env s) (trace s) (gpio_reg_of reg pin)
      in (of_bool (bit v (gpio_bit_of pin)), s\<lparr>trace := Rd32 (gpio_reg_of reg pin) v # trace s\<rparr>))"
  by (simp add: get_gpio_reg_bit_def gpio_reg_of_def gpio_bit_of_def Let_def low_bit)

text \<open>The word that \<^verbatim>\<open>set_gpio_reg_bit\<close> writes.\<close>

definition gpio_put :: "nat \<Rightarrow> u8 \<Rightarrow> u32 \<Rightarrow> u32" where
  "gpio_put k val v = (v AND NOT (push_bit k 1)) OR push_bit k (ucast val)"

lemma run_set_bit:
  "run_state (set_gpio_reg_bit reg pin val) s =
     (let a = gpio_reg_of reg pin; v = hw_rd32 (env s) (trace s) a
      in ((), s\<lparr>trace := Wr32 a (gpio_put (gpio_bit_of pin) val v) # Rd32 a v # trace s\<rparr>))"
  by (simp add: set_gpio_reg_bit_def gpio_reg_of_def gpio_bit_of_def gpio_put_def Let_def)

lemma bit_gpio_put:
  assumes "k < 24" and "j < 24"
  shows "bit (gpio_put k (of_bool b) v) j = (if j = k then b else bit v j)"
  using assms by (auto simp: gpio_put_def bit_simps)

lemma gpio_reg_of_block: "(pin < 24) = (pin' < 24) \<Longrightarrow> gpio_reg_of reg pin' = gpio_reg_of reg pin"
  by (simp add: gpio_reg_of_def GET_GPIO_BASE_ADDR_def)

text \<open>
  Setting one pin's bit in a register that holds what is written: the pin reads back the
  value, every other pin of the block reads what it read before, and the access is one
  read-modify-write of the block's own register.
\<close>

theorem gpio_bit_roundtrip:
  assumes "pin < GPIO_NUM_PINS" and "pin' < GPIO_NUM_PINS" and "(pin < 24) = (pin' < 24)"
    and "reg_holds (env s) (gpio_reg_of reg pin)"
  shows "result (get_gpio_reg_bit reg pin') (final (set_gpio_reg_bit reg pin (of_bool b)) s)
       = (if pin' = pin then of_bool b else result (get_gpio_reg_bit reg pin') s)
    \<and> (\<exists>v w. trace (final (set_gpio_reg_bit reg pin (of_bool b)) s)
            = Wr32 (gpio_reg_of reg pin) w # Rd32 (gpio_reg_of reg pin) v # trace s)"
proof -
  note reg = gpio_reg_of_block [OF assms(3)]
  have hold: "hw_rd32 (env s) (Wr32 (gpio_reg_of reg pin) w # t) (gpio_reg_of reg pin) = w" for w t
    using assms(4) by (rule reg_holdsD) simp
  show ?thesis
    using gpio_bit_inj [OF assms(2,1)] assms(3) gpio_bit_bound [OF assms(1)] gpio_bit_bound [OF assms(2)]
    by (auto simp: run_get_bit run_set_bit Let_def reg hold bit_gpio_put)
qed

theorem gpio_bit_roundtrip_witness:
  "result (get_gpio_reg_bit GPIO_SWPORTA_DDR 30)
     (final (set_gpio_reg_bit GPIO_SWPORTA_DDR 30 1) \<lparr>env = ram_env, trace = [], mem = (\<lambda>_. 0)\<rparr>) = 1"
  using gpio_bit_roundtrip [of 30 30 "\<lparr>env = ram_env, trace = [], mem = (\<lambda>_. 0)\<rparr>" GPIO_SWPORTA_DDR True]
  by (simp add: gpio_regs)

text \<open>
  A state other than 0 and 1 reaches past the pin: writing 2 to a pin leaves the pin's own
  output low and drives the next pin of the block high.
\<close>

theorem gpio_write_beyond_pin:
  assumes "is_open (gpio_descriptors s h)" and "inst (gpio_descriptors s h) = pin"
    and "pin < GPIO_NUM_PINS" and "pin \<noteq> 23" and "pin \<noteq> 47"
    and "reg_holds (env s) (gpio_reg_of GPIO_SWPORTA_DR pin)"
  shows "let s' = final (gpio_write_sync (Some h) 2) s in
      result (gpio_write_sync (Some h) 2) s = 0
    \<and> result (get_gpio_reg_bit GPIO_SWPORTA_DR pin) s' = 0
    \<and> result (get_gpio_reg_bit GPIO_SWPORTA_DR (pin + 1)) s' = 1"
proof -
  let ?a = "gpio_reg_of GPIO_SWPORTA_DR pin"
  have hold: "hw_rd32 (env s) (Wr32 ?a w # t) ?a = w" for w t
    using assms(6) by (rule reg_holdsD) simp
  have u: "unat (pin + 1) = unat pin + 1" "unat pin < 48" "unat pin \<noteq> 23" "unat pin \<noteq> 47"
    using assms(3-5) by (auto simp: gpio_regs word_less_nat_alt word_unat_eq_iff unat_word_ariths)
  then have next_bit: "gpio_bit_of (pin + 1) = gpio_bit_of pin + 1" and block: "(pin < 24) = (pin + 1 < 24)"
    by (auto simp: gpio_bit_of_def gpio_regs word_less_nat_alt word_le_nat_alt unat_sub)
  have "bit (gpio_put k 2 v) k = False" "bit (gpio_put k 2 v) (k + 1) = True" if "k < 24" for k v
    using that by (auto simp: gpio_put_def bit_simps)
  then show ?thesis
    using assms(1,2) gpio_bit_bound [OF assms(3)] gpio_reg_of_block [OF block]
    by (simp add: gpio_write_sync_def gpio_write_state_def run_set_bit run_get_bit Let_def hold next_bit)
qed

definition gpio_machine :: gpio_state where
  "gpio_machine = wdt_state.extend wdt_machine \<lparr>gpio_descriptors = (\<lambda>_. gpio_zero)\<rparr>"

lemma gpio_machine_simps [simp]:
  "env gpio_machine = boot_env" "trace gpio_machine = []" "mem gpio_machine = (\<lambda>_. 0)"
  "gpio_descriptors gpio_machine = (\<lambda>_. gpio_zero)" "interrupt_callbacks gpio_machine = initial_callbacks"
  "gic_redis gpio_machine = 0x1D060000" "gic_dist gpio_machine = 0x1D000000" "gic_max_redis gpio_machine = 0"
  by (simp_all add: gpio_machine_def wdt_state.defs wdt_machine_def timer_state.defs boot_machine_def
      timer_machine_def irq_state.defs irq_machine_def gic_state.defs gic_machine_def
      REGISTER_SOCFPGA_DIST_BASE_ADDR_def REGISTER_SOCFPGA_REDIS_BASE_ADDR_def)

lemma upd_gpio_fields [simp]:
  "env (upd_gpio i f s) = env s" "trace (upd_gpio i f s) = trace s" "mem (upd_gpio i f s) = mem s"
  "gpio_descriptors (upd_gpio i f s) = (gpio_descriptors s)(i := f (gpio_descriptors s i))"
  by (simp_all add: upd_gpio_def)

theorem gpio_write_beyond_pin_witness:
  "result (gpio_write_sync (Some 5) 2)
     (upd_gpio 5 (\<lambda>c. c\<lparr>is_open := True, inst := 5\<rparr>) (gpio_machine\<lparr>env := ram_env\<rparr>)) = 0"
  using gpio_write_beyond_pin [of "upd_gpio 5 (\<lambda>c. c\<lparr>is_open := True, inst := 5\<rparr>) (gpio_machine\<lparr>env := ram_env\<rparr>)" 5 5]
  by (simp add: gpio_regs Let_def)

section \<open>Interrupt configuration\<close>

lemma gpio_regs_distinct:
  "gpio_reg_of GPIO_INTTYPE_LEVEL pin \<noteq> gpio_reg_of GPIO_INT_POLARITY pin"
  "gpio_reg_of GPIO_INTTYPE_LEVEL pin \<noteq> gpio_reg_of GPIO_INTEN pin"
  "gpio_reg_of GPIO_INT_POLARITY pin \<noteq> gpio_reg_of GPIO_INTEN pin"
  by (simp_all add: gpio_reg_of_def GET_GPIO_BASE_ADDR_def gpio_regs)

lemma last_wr32_at [simp]: "last_wr32 (Wr32 a v # t) a = Some v"
  by simp

text \<open>
  Configuring a pin's interrupt and reading the configuration back gives the same type,
  for all five types, when the level, polarity and enable registers hold what is written.
\<close>

theorem gpio_interrupt_roundtrip:
  assumes "pin < GPIO_NUM_PINS"
    and "reg_holds (env s) (gpio_reg_of GPIO_INTTYPE_LEVEL pin)"
    and "reg_holds (env s) (gpio_reg_of GPIO_INT_POLARITY pin)"
    and "reg_holds (env s) (gpio_reg_of GPIO_INTEN pin)"
  shows "result (gpio_get_interrupt pin) (final (gpio_config_interrupt pin ty) s) = ty"
proof -
  let ?k = "gpio_bit_of pin"
  note k = gpio_bit_bound [OF assms(1)]
  have put1: "bit (gpio_put ?k 1 v) ?k" and put0: "\<not> bit (gpio_put ?k 0 v) ?k" for v
    using bit_gpio_put [OF k k, of True v] bit_gpio_put [OF k k, of False v] by simp_all
  note holds = assms(2-4) [THEN reg_holdsD]
  note distinct = gpio_regs_distinct [of pin] gpio_regs_distinct [of pin, symmetric]
  show ?thesis
    using put0 put1 distinct
    by (cases ty)
      (simp_all add: gpio_config_interrupt_def gpio_get_interrupt_def run_get_bit run_set_bit Let_def
        holds)
qed

theorem gpio_interrupt_roundtrip_witness:
  "result (gpio_get_interrupt 47)
     (final (gpio_config_interrupt 47 GPIO_INT_FALLING) \<lparr>env = ram_env, trace = [], mem = (\<lambda>_. 0)\<rparr>)
   = GPIO_INT_FALLING"
  using gpio_interrupt_roundtrip [of 47 "\<lparr>env = ram_env, trace = [], mem = (\<lambda>_. 0)\<rparr>"]
  by (simp add: gpio_regs)

section \<open>The interrupt handler\<close>

text \<open>The calls of callbacks in a trace, in the order they were made.\<close>

fun calls :: "ev list \<Rightarrow> (fptr \<times> vptr \<times> u64 list) list" where
  "calls [] = []"
| "calls (Call f c xs # t) = calls t @ [(f, c, xs)]"
| "calls (_ # t) = calls t"

text \<open>The pins of a block whose bit is set and that have a callback, in ascending order.\<close>

definition active_pins :: "u32 \<Rightarrow> nat \<Rightarrow> 'x gpio_state_scheme \<Rightarrow> nat list \<Rightarrow> nat list" where
  "active_pins stat off s is =
     filter (\<lambda>p. callback_fn (gpio_descriptors s p) \<noteq> F_NULL)
       (map (\<lambda>i. i + off) (filter (\<lambda>i. bit stat i) is))"

definition pin_call :: "(u32 \<Rightarrow> u32) \<Rightarrow> 'x gpio_state_scheme \<Rightarrow> nat \<Rightarrow> fptr \<times> vptr \<times> u64 list" where
  "pin_call r s p =
     (callback_fn (gpio_descriptors s p), cb_usercontext (gpio_descriptors s p),
      [of_bool (bit (r (GET_GPIO_BASE_ADDR (word_of_nat p) + GPIO_SWPORTA_DR)) (gpio_bit_of (word_of_nat p)))])"

lemma active_pins_Cons:
  "active_pins stat off s (i # is) =
     (if bit stat i \<and> callback_fn (gpio_descriptors s (i + off)) \<noteq> F_NULL
      then (i + off) # active_pins stat off s is else active_pins stat off s is)"
  by (simp add: active_pins_def)

lemma bit_test: "(w AND 2 ^ i = 2 ^ i) = bit w i" if "i < 32" for w :: u32
proof -
  have "w AND push_bit i 1 = (if bit w i then push_bit i 1 else 0)"
    by (rule bit_word_eqI) (auto simp: bit_simps)
  moreover have "bit (push_bit i 1 :: u32) i"
    using that by (simp add: bit_simps)
  then have "push_bit i 1 \<noteq> (0 :: u32)"
    by (metis bit_0_eq bot_apply bot_bool_def)
  ultimately show ?thesis
    by (auto simp: push_bit_of_1)
qed

lemma gpio_serve_calls:
  assumes "stable_regs (env s) r" and "\<forall>i \<in> set is. i < 24" and "off = 0 \<or> off = 24"
  shows "calls (trace (final (gpio_serve stat (word_of_nat off) is) s))
       = calls (trace s) @ map (pin_call r s) (active_pins stat off s is)"
  using assms(1,2)
proof (induction "is" arbitrary: s)
  case Nil
  then show ?case by (simp add: active_pins_def)
next
  case (Cons i "is")
  let ?p = "word_of_nat i + word_of_nat off :: u32"
  have i: "i < 24" using Cons.prems by simp
  have p: "unat ?p = i + off"
    using i assms(3) by (auto simp: unsigned_of_nat take_bit_nat_eq_self simp flip: of_nat_add)
  have blind: "active_pins stat off (s\<lparr>trace := t\<rparr>) js = active_pins stat off s js"
    "pin_call r (s\<lparr>trace := t\<rparr>) = pin_call r s" for t js
    by (simp_all add: active_pins_def pin_call_def fun_eq_iff)
  have step: "calls (trace (final (gpio_serve stat (word_of_nat off) is) (s\<lparr>trace := t\<rparr>)))
      = calls t @ map (pin_call r s) (active_pins stat off s is)" for t
    using Cons.IH [of "s\<lparr>trace := t\<rparr>"] Cons.prems by (simp add: blind)
  have call: "pin_call r s (i + off) = (callback_fn (gpio_descriptors s (i + off)),
      cb_usercontext (gpio_descriptors s (i + off)),
      [of_bool (bit (r (GET_GPIO_BASE_ADDR ?p + GPIO_SWPORTA_DR)) (gpio_bit_of ?p))])"
    by (simp add: pin_call_def)
  show ?case
    using Cons.prems(1) i step [of "trace s"]
    by (simp add: bit_test step p run_get_bit Let_def gpio_reg_of_def call active_pins_Cons)
qed

lemma gpio_serve_emits: "emits (\<lambda>e. \<not> is_write e) (gpio_serve stat off is)"
  by (induction "is") (auto simp: get_gpio_reg_bit_def Let_def intro!: emits_intros)


text \<open>Block 1 with the interrupts of its pins 0, 3 and 5 active and all outputs low.\<close>

definition busy_regs :: "u32 \<Rightarrow> u32" where
  "busy_regs a = (if a = GPIO1_BASE_ADDR + GPIO_INTSTATUS then 0x29 else 0)"

definition busy_machine :: gpio_state where
  "busy_machine = upd_gpio 24 (\<lambda>c. c\<lparr>callback_fn := F_user 1\<rparr>)
     (upd_gpio 29 (\<lambda>c. c\<lparr>callback_fn := F_user 2\<rparr>)
       (gpio_machine\<lparr>env := ram_env\<lparr>hw_rd32 := \<lambda>_ a. busy_regs (ucast a)\<rparr>, mem := \<lambda>_. 1\<rparr>))"

lemma busy_stable: "stable_regs (env busy_machine) busy_regs"
  by (simp add: busy_machine_def stable_regs_def)

lemma busy_pins: "active_pins 0x29 24 busy_machine [0..<24] = [24, 29]"
proof -
  have f: "filter (\<lambda>i. bit (0x29 :: u32) i) [0..<24] = [0, 3, 5]"
    by (simp add: upt_rec)
  show ?thesis
    unfolding active_pins_def f by (simp add: busy_machine_def gpio_zero_def)
qed


lemma gpio_callbacks_frame [simp]:
  fixes s :: "'x irq_state_scheme"
  shows "interrupt_callbacks (final (set_gpio_reg_bit reg pin v) s) = interrupt_callbacks s"
    and "interrupt_callbacks (final (gpio_config_interrupt pin ty) s) = interrupt_callbacks s"
  by (cases ty; simp add: run_set_bit gpio_config_interrupt_def Let_def)+

lemma gpio_set_interrupt_registers:
  assumes "length (interrupt_callbacks s) = unat MAX_SPI_HPU_INTERRUPT"
  shows "interrupt_callbacks (final (gpio_set_interrupt pin ty) s) =
     (interrupt_callbacks s)[if pin < 24 then 142 else 143 :=
        (F_gpio_irq_handler, V_addr (stack_slot (env s) (trace s)))]"
  using assms
  by (simp add: gpio_set_interrupt_def Let_def split_beta register_isr_run set_callback_def
      GPIO_PINS_PER_REG_def)

text \<open>
  The handler's argument dangles: registering the interrupt of a pin of block 1 stores the
  address of a local variable. If that stack slot has been reused (its byte is 0) when the
  interrupt of block 1 comes, the handler reads and acknowledges the status of block 0.
\<close>

theorem gpio_handler_argument_dangles:
  assumes "24 \<le> pin" and "length (interrupt_callbacks s) = unat MAX_SPI_HPU_INTERRUPT"
    and "m (stack_slot (env s) (trace s)) = 0"
  shows "let s' = (final (gpio_set_interrupt pin ty) s)\<lparr>mem := m\<rparr>;
             (f, d) = interrupt_callbacks s' ! unat GPIO1IRQ
         in f = F_gpio_irq_handler
          \<and> (\<exists>v es. trace (final (gpio_irq_handler d) s') =
               es @ Wr32 (ucast (GPIO0_BASE_ADDR + GPIO_PORTA_EOI)) v
                  # Rd32 (ucast (GPIO0_BASE_ADDR + GPIO_INTSTATUS)) v # trace s')"
proof -
  let ?a = "stack_slot (env s) (trace s)"
  have cb: "interrupt_callbacks (final (gpio_set_interrupt pin ty) s) ! 143 = (F_gpio_irq_handler, V_addr ?a)"
    using assms(1,2) by (simp add: gpio_set_interrupt_registers not_le [symmetric])
  have "\<exists>v es. trace (final (gpio_irq_handler (V_addr ?a)) s') =
      es @ Wr32 (ucast (GPIO0_BASE_ADDR + GPIO_PORTA_EOI)) v
         # Rd32 (ucast (GPIO0_BASE_ADDR + GPIO_INTSTATUS)) v # trace s'" if "mem s' ?a = 0" for s' :: "'a gpio_state_scheme"
  proof -
    let ?v = "hw_rd32 (env s') (trace s') (ucast (GPIO0_BASE_ADDR + GPIO_INTSTATUS))"
    define s1 where "s1 = s'\<lparr>trace := Wr32 (ucast (GPIO0_BASE_ADDR + GPIO_PORTA_EOI)) ?v
        # Rd32 (ucast (GPIO0_BASE_ADDR + GPIO_INTSTATUS)) ?v # trace s'\<rparr>"
    have "final (gpio_irq_handler (V_addr ?a)) s' = final (gpio_serve ?v 0 [0..<24]) s1"
      using that by (simp add: gpio_irq_handler_def GPIO_INSTANCE1_def GPIO_PINS_PER_REG_def Let_def s1_def)
    moreover obtain es where "trace (final (gpio_serve ?v 0 [0..<24]) s1) = es @ trace s1"
      by (rule emitsD [OF gpio_serve_emits])
    ultimately show ?thesis
      by (auto simp: s1_def)
  qed
  from this [of "(final (gpio_set_interrupt pin ty) s)\<lparr>mem := m\<rparr>"] show ?thesis
    using cb assms(3) by (simp add: Let_def)
qed

theorem gpio_handler_argument_dangles_witness:
  "fst (interrupt_callbacks (final (gpio_set_interrupt 30 GPIO_INT_RISING) gpio_machine) ! unat GPIO1IRQ)
     = F_gpio_irq_handler"
  using gpio_handler_argument_dangles [of 30 gpio_machine "\<lambda>_. 0" GPIO_INT_RISING]
  by (simp add: initial_callbacks_def Let_def split_beta)

section \<open>Opening\<close>

text \<open>
  A pin is opened only when the pin multiplexer gives it to the GPIO block and it is not
  open already; the handle is then the pin's own descriptor, open and without a callback, and
  every other descriptor is unchanged. When \<^verbatim>\<open>NULL\<close> is returned no descriptor changed.
\<close>

theorem gpio_open_result:
  "case result (gpio_open pin) s of
     None \<Rightarrow> gpio_descriptors (final (gpio_open pin) s) = gpio_descriptors s
   | Some h \<Rightarrow> h = unat pin \<and> pin < GPIO_NUM_PINS \<and> \<not> is_open (gpio_descriptors s h)
       \<and> hw_rd32 (env s) (trace s) (ucast (PINMUX_REG pin)) AND PINMUX_MASK = PINMUX_GPIO
       \<and> gpio_descriptors (final (gpio_open pin) s) =
          (gpio_descriptors s)(h := gpio_zero\<lparr>is_open := True, inst := pin\<rparr>)"
proof -
  have blind: "trace_blind (\<lambda>s :: 'a gpio_state_scheme. gpio_descriptors s = v)" for v
    by (simp add: trace_blind_def)
  have frame: "gpio_descriptors (final (rstmgr_get_reset_status r) t) = gpio_descriptors t"
    "gpio_descriptors (final (rstmgr_toggle_reset r) t) = gpio_descriptors t"
    for r and t :: "'a gpio_state_scheme"
    by (intro frame_of_keeps rstmgr_keeps_blind [OF blind])+
  show ?thesis
    by (simp add: gpio_open_def is_pin_gpio_def split_beta Let_def frame) (simp add: not_le)
qed

interpretation pins: slots gpio_descriptors upd_gpio "\<lambda>_ _. True"
  by unfold_locales (simp_all add: upd_gpio_def)

end
