(* ===== verification/Uart_LL.thy ===== *)
theory Uart_LL
  imports Rst_Mngr Clk_Mngr
begin

unbundle bit_operations_syntax

text \<open>
  The register level of the UART driver, \<^verbatim>\<open>drivers/uart/socfpga_uart_ll.c\<close>: clock and
  reset, line configuration and baud rate, the FIFOs and the interrupt enables. The caller's
  buffers are in the machine's memory.
\<close>

section \<open>Registers\<close>

definition GET_UART_BASE_ADDRESS :: "u32 \<Rightarrow> u32" where
  "GET_UART_BASE_ADDRESS instance0 = 0x10C02000 + instance0 * 0x100"

definition CLK_PERPLL :: u32 where "CLK_PERPLL = 0x10D1007C"
definition CLK_PERPLL_EN :: u32 where "CLK_PERPLL_EN = 0x0 + CLK_PERPLL"
definition CLK_EN_SHIFT :: nat where "CLK_EN_SHIFT = 20"
definition UART_RBR :: u32 where "UART_RBR = 0x0000"
definition UART_DLL :: u32 where "UART_DLL = 0x0000"
definition UART_THR :: u32 where "UART_THR = 0x0000"
definition UART_IER :: u32 where "UART_IER = 0x0004"
definition UART_DLH :: u32 where "UART_DLH = 0x0004"
definition UART_IIR :: u32 where "UART_IIR = 0x0008"
definition UART_FCR :: u32 where "UART_FCR = 0x0008"
definition UART_LCR :: u32 where "UART_LCR = 0x000C"
definition UART_LSR :: u32 where "UART_LSR = 0x0014"
definition UART_USR :: u32 where "UART_USR = 0x007C"
definition UART_IER_PTIME_POS :: nat where "UART_IER_PTIME_POS = 7"
definition UART_IER_ELSI_POS :: nat where "UART_IER_ELSI_POS = 2"
definition UART_IER_ETBEI_POS :: nat where "UART_IER_ETBEI_POS = 1"
definition UART_IER_ERBFI_POS :: nat where "UART_IER_ERBFI_POS = 0"
definition UART_FCR_XFIFOR_POS :: nat where "UART_FCR_XFIFOR_POS = 2"
definition UART_FCR_RFIFOR_POS :: nat where "UART_FCR_RFIFOR_POS = 1"
definition UART_FCR_FIFOE_POS :: nat where "UART_FCR_FIFOE_POS = 0"
definition UART_LCR_DLAB_POS :: nat where "UART_LCR_DLAB_POS = 7"
definition UART_LCR_EPS_POS :: nat where "UART_LCR_EPS_POS = 4"
definition UART_LCR_PEN_POS :: nat where "UART_LCR_PEN_POS = 3"
definition UART_LCR_STOP_POS :: nat where "UART_LCR_STOP_POS = 2"
definition UART_LCR_DLS_POS :: nat where "UART_LCR_DLS_POS = 0"
definition UART_LSR_THRE_MASK :: u32 where "UART_LSR_THRE_MASK = 0x20"
definition UART_USR_TFNF_POS :: nat where "UART_USR_TFNF_POS = 1"
definition UART_USR_RFNE_POS :: nat where "UART_USR_RFNE_POS = 3"
definition UART_MAX_INSTANCE :: u32 where "UART_MAX_INSTANCE = 2"
definition UART_POLL_TIMEOUT_COUNT :: nat where "UART_POLL_TIMEOUT_COUNT = 100000"

definition NO_INTERRUPT :: u32 where "NO_INTERRUPT = 0x1"
definition THR_EMPTY :: u32 where "THR_EMPTY = 0x2"
definition RX_DATA_RDY :: u32 where "RX_DATA_RDY = 0x4"
definition CHAR_TIMEOUT :: u32 where "CHAR_TIMEOUT = 0xC"
definition UART_NO_INT :: u32 where "UART_NO_INT = 0"
definition UART_TXBUF_EMPTY_INT :: u32 where "UART_TXBUF_EMPTY_INT = 0x1"
definition UART_RXBUF_RDY_INT :: u32 where "UART_RXBUF_RDY_INT = 0x2"
definition UART_HW_ERR_INT :: u32 where "UART_HW_ERR_INT = 0x3"

lemmas uart_regs =
  CLK_PERPLL_def CLK_PERPLL_EN_def CLK_EN_SHIFT_def UART_RBR_def UART_DLL_def UART_THR_def
  UART_IER_def UART_DLH_def UART_IIR_def UART_FCR_def UART_LCR_def UART_LSR_def UART_USR_def
  UART_MAX_INSTANCE_def

lemmas uart_bits =
  UART_IER_PTIME_POS_def UART_IER_ELSI_POS_def UART_IER_ETBEI_POS_def UART_IER_ERBFI_POS_def
  UART_FCR_XFIFOR_POS_def UART_FCR_RFIFOR_POS_def UART_FCR_FIFOE_POS_def UART_LCR_DLAB_POS_def
  UART_LCR_EPS_POS_def UART_LCR_PEN_POS_def UART_LCR_STOP_POS_def UART_LCR_DLS_POS_def
  UART_LSR_THRE_MASK_def UART_USR_TFNF_POS_def UART_USR_RFNE_POS_def

lemmas uart_ints =
  NO_INTERRUPT_def THR_EMPTY_def RX_DATA_RDY_def CHAR_TIMEOUT_def UART_NO_INT_def
  UART_TXBUF_EMPTY_INT_def UART_RXBUF_RDY_INT_def UART_HW_ERR_INT_def

datatype uart_parity_t = UART_PARITY_NONE | UART_PARITY_ODD | UART_PARITY_EVEN
datatype uart_stop_bits_t = UART_STOP_BITS_1 | UART_STOP_BITS_2
datatype uart_interrupt_id_t = INTERRUPT_RX | INTERRUPT_TX | INTERRUPT_HW

text \<open>The two line settings as finite types, so that statements about all of them compute.\<close>

instantiation uart_parity_t :: enum
begin

definition "enum_uart_parity_t = [UART_PARITY_NONE, UART_PARITY_ODD, UART_PARITY_EVEN]"
definition "enum_all_uart_parity_t P \<longleftrightarrow> P UART_PARITY_NONE \<and> P UART_PARITY_ODD \<and> P UART_PARITY_EVEN"
definition "enum_ex_uart_parity_t P \<longleftrightarrow> P UART_PARITY_NONE \<or> P UART_PARITY_ODD \<or> P UART_PARITY_EVEN"

instance
proof
  show "(UNIV :: uart_parity_t set) = set enum_class.enum"
    using uart_parity_t.nchotomy by (auto simp: enum_uart_parity_t_def)
  fix P :: "uart_parity_t \<Rightarrow> bool"
  show "enum_class.enum_all P \<longleftrightarrow> Ball UNIV P"
    unfolding enum_all_uart_parity_t_def using uart_parity_t.exhaust by (metis UNIV_I)
  show "enum_class.enum_ex P \<longleftrightarrow> Bex UNIV P"
    unfolding enum_ex_uart_parity_t_def using uart_parity_t.exhaust by (metis UNIV_I)
qed (simp add: enum_uart_parity_t_def)

end

instantiation uart_stop_bits_t :: enum
begin

definition "enum_uart_stop_bits_t = [UART_STOP_BITS_1, UART_STOP_BITS_2]"
definition "enum_all_uart_stop_bits_t P \<longleftrightarrow> P UART_STOP_BITS_1 \<and> P UART_STOP_BITS_2"
definition "enum_ex_uart_stop_bits_t P \<longleftrightarrow> P UART_STOP_BITS_1 \<or> P UART_STOP_BITS_2"

instance
proof
  show "(UNIV :: uart_stop_bits_t set) = set enum_class.enum"
    using uart_stop_bits_t.nchotomy by (auto simp: enum_uart_stop_bits_t_def)
  fix P :: "uart_stop_bits_t \<Rightarrow> bool"
  show "enum_class.enum_all P \<longleftrightarrow> Ball UNIV P"
    unfolding enum_all_uart_stop_bits_t_def using uart_stop_bits_t.exhaust by (metis UNIV_I)
  show "enum_class.enum_ex P \<longleftrightarrow> Bex UNIV P"
    unfolding enum_ex_uart_stop_bits_t_def using uart_stop_bits_t.exhaust by (metis UNIV_I)
qed (simp add: enum_uart_stop_bits_t_def)

end

section \<open>Clock, reset and FIFO set-up\<close>

definition uart_enable_clock :: "u32 \<Rightarrow> ('x machine_scheme, unit) state" where
  "uart_enable_clock instance0 = do {
     val \<leftarrow> RD_REG32 CLK_PERPLL;
     WR_REG32 CLK_PERPLL_EN (val OR push_bit (CLK_EN_SHIFT + unat instance0) 1)
   }"

definition uart_disable_clock :: "u32 \<Rightarrow> ('x machine_scheme, unit) state" where
  "uart_disable_clock instance0 = do {
     val \<leftarrow> RD_REG32 CLK_PERPLL;
     WR_REG32 CLK_PERPLL_EN (val AND NOT (push_bit (CLK_EN_SHIFT + unat instance0) 1))
   }"

definition uart_assert_reset :: "u32 \<Rightarrow> ('x machine_scheme, unit) state" where
  "uart_assert_reset instance0 = do {
     _ \<leftarrow> rstmgr_assert_reset (if instance0 = 1 then RST_UART1 else RST_UART0);
     ret ()
   }"

definition uart_deassert_reset :: "u32 \<Rightarrow> ('x machine_scheme, unit) state" where
  "uart_deassert_reset instance0 = do {
     _ \<leftarrow> rstmgr_deassert_reset (if instance0 = 1 then RST_UART1 else RST_UART0);
     ret ()
   }"

definition uart_config_fifo :: "u32 \<Rightarrow> ('x machine_scheme, unit) state" where
  "uart_config_fifo base_address =
     WR_REG32 (base_address + UART_FCR)
       (push_bit UART_FCR_FIFOE_POS 1 OR push_bit UART_FCR_RFIFOR_POS 1 OR push_bit UART_FCR_XFIFOR_POS 1)"

text \<open>The two delay loops have no effect on the machine's state.\<close>

definition uart_init :: "u32 \<Rightarrow> ('x machine_scheme, unit) state" where
  "uart_init instance0 = do {
     uart_enable_clock instance0;
     uart_assert_reset instance0;
     uart_deassert_reset instance0;
     uart_config_fifo (GET_UART_BASE_ADDRESS instance0)
   }"

definition uart_deinit :: "u32 \<Rightarrow> ('x machine_scheme, unit) state" where
  "uart_deinit instance0 = uart_disable_clock instance0"

section \<open>Line configuration\<close>

definition uart_set_config ::
  "u32 \<Rightarrow> uart_parity_t \<Rightarrow> uart_stop_bits_t \<Rightarrow> u32 \<Rightarrow> ('x machine_scheme, unit) state" where
  "uart_set_config base_address parity stopbit wordlen = do {
     let val = (case parity of
         UART_PARITY_ODD \<Rightarrow> push_bit UART_LCR_PEN_POS 1
       | UART_PARITY_EVEN \<Rightarrow> push_bit UART_LCR_PEN_POS 1 OR push_bit UART_LCR_EPS_POS 1
       | UART_PARITY_NONE \<Rightarrow> 0);
     let val = val OR push_bit UART_LCR_DLS_POS (wordlen - 5);
     let val = (if stopbit = UART_STOP_BITS_2 then val OR push_bit UART_LCR_STOP_POS 1 else val);
     WR_REG32 (base_address + UART_LCR) val
   }"

definition uart_set_baud :: "u32 \<Rightarrow> u32 \<Rightarrow> ('x machine_scheme, u32) state" where
  "uart_set_baud base_address baud = do {
     (err, peri_clk) \<leftarrow> clk_mngr_get_clk CLOCK_UART;
     if err \<noteq> 0 then ret 0
     else if baud = 0 then ret 0
     else do {
       let lcr_var = drop_bit 4 ((peri_clk + push_bit 3 baud) div baud);
       lcr_data \<leftarrow> RD_REG32 (base_address + UART_LCR);
       let lcr_data = lcr_data OR push_bit UART_LCR_DLAB_POS 1;
       WR_REG32 (base_address + UART_LCR) lcr_data;
       WR_REG32 (base_address + UART_DLL) (lcr_var AND 0xFF);
       WR_REG32 (base_address + UART_DLH) (drop_bit 8 lcr_var AND 0xFF);
       let lcr_data = lcr_data AND NOT (push_bit UART_LCR_DLAB_POS 1);
       WR_REG32 (base_address + UART_LCR) lcr_data;
       ret 1
     }
   }"

definition uart_get_baud :: "u32 \<Rightarrow> ('x machine_scheme, u32) state" where
  "uart_get_baud base_address = do {
     lcr_data \<leftarrow> RD_REG32 (base_address + UART_LCR);
     let lcr_data = lcr_data OR push_bit UART_LCR_DLAB_POS 1;
     WR_REG32 (base_address + UART_LCR) lcr_data;
     div_lsb \<leftarrow> RD_REG32 (base_address + UART_DLL);
     div_msb \<leftarrow> RD_REG32 (base_address + UART_DLH);
     let lcr_data = lcr_data AND NOT (push_bit UART_LCR_DLAB_POS 1);
     WR_REG32 (base_address + UART_LCR) lcr_data;
     let lcr_var = push_bit 8 div_msb OR div_lsb;
     (err, peri_clk) \<leftarrow> clk_mngr_get_clk CLOCK_UART;
     if err \<noteq> 0 then ret 0
     else if lcr_var \<noteq> 0 then ret (peri_clk div (push_bit 4 lcr_var - 8))
     else ret 0
   }"

definition uart_get_config ::
  "u32 \<Rightarrow> ('x machine_scheme, u32 \<times> uart_parity_t \<times> uart_stop_bits_t \<times> u32) state" where
  "uart_get_config base_address = do {
     baud \<leftarrow> uart_get_baud base_address;
     val \<leftarrow> RD_REG32 (base_address + UART_LCR);
     let bf_val = drop_bit UART_LCR_PEN_POS val AND 3;
     let parity = (if bf_val = 3 then UART_PARITY_EVEN else if bf_val = 1 then UART_PARITY_ODD
                   else UART_PARITY_NONE);
     let bf_val = drop_bit UART_LCR_STOP_POS val AND 1;
     let stopbit = (if bf_val = 1 then UART_STOP_BITS_2 else UART_STOP_BITS_1);
     let bf_val = drop_bit UART_LCR_DLS_POS val AND 3;
     ret (baud, parity, stopbit, bf_val + 5)
   }"

section \<open>Interrupts and FIFOs\<close>

definition get_int_status :: "u32 \<Rightarrow> ('x machine_scheme, u32) state" where
  "get_int_status base_address = do {
     val \<leftarrow> RD_REG32 (base_address + UART_IIR);
     let val = val AND 0xF;
     ret (if val = NO_INTERRUPT then UART_NO_INT
          else if val = RX_DATA_RDY \<or> val = CHAR_TIMEOUT then UART_RXBUF_RDY_INT
          else if val = THR_EMPTY then UART_TXBUF_EMPTY_INT
          else UART_HW_ERR_INT)
   }"

text \<open>
  The FIFO loops count down \<^verbatim>\<open>bytes\<close>, the first argument; \<^verbatim>\<open>bytes_done\<close> is a
  16-bit counter and the index into the buffer.
\<close>

fun uart_write_loop :: "nat \<Rightarrow> u32 \<Rightarrow> u64 \<Rightarrow> u16 \<Rightarrow> ('x machine_scheme, u16) state" where
  "uart_write_loop 0 base_address buf bytes_done = ret bytes_done"
| "uart_write_loop (Suc bytes) base_address buf bytes_done = do {
     st \<leftarrow> RD_REG32 (base_address + UART_USR);
     if drop_bit UART_USR_TFNF_POS st AND 1 = 1 then do {
       b \<leftarrow> peek (buf + ucast bytes_done);
       WR_REG32 (base_address + UART_THR) (ucast b);
       uart_write_loop bytes base_address buf (bytes_done + 1)
     } else ret bytes_done
   }"

definition uart_write_fifo :: "u32 \<Rightarrow> u64 \<Rightarrow> u32 \<Rightarrow> ('x machine_scheme, u16) state" where
  "uart_write_fifo base_address buf bytes = uart_write_loop (unat bytes) base_address buf 0"

fun uart_read_loop :: "nat \<Rightarrow> u32 \<Rightarrow> u64 \<Rightarrow> u16 \<Rightarrow> ('x machine_scheme, u16) state" where
  "uart_read_loop 0 base_address buf bytes_done = ret bytes_done"
| "uart_read_loop (Suc bytes) base_address buf bytes_done = do {
     st \<leftarrow> RD_REG32 (base_address + UART_USR);
     if drop_bit UART_USR_RFNE_POS st AND 1 = 1 then do {
       v \<leftarrow> RD_REG32 (base_address + UART_RBR);
       poke (buf + ucast bytes_done) (ucast v);
       uart_read_loop bytes base_address buf (bytes_done + 1)
     } else ret bytes_done
   }"

definition uart_read_fifo :: "u32 \<Rightarrow> u64 \<Rightarrow> u32 \<Rightarrow> ('x machine_scheme, u16) state" where
  "uart_read_fifo base_address buf bytes = uart_read_loop (unat bytes) base_address buf 0"

definition uart_enable_interrupt :: "u32 \<Rightarrow> uart_interrupt_id_t \<Rightarrow> ('x machine_scheme, unit) state" where
  "uart_enable_interrupt base_address ident = do {
     val \<leftarrow> RD_REG32 (base_address + UART_IER);
     case ident of
       INTERRUPT_RX \<Rightarrow> WR_REG32 (base_address + UART_IER) (val OR push_bit UART_IER_ERBFI_POS 1)
     | INTERRUPT_TX \<Rightarrow> WR_REG32 (base_address + UART_IER)
         (val OR push_bit UART_IER_ETBEI_POS 1 OR push_bit UART_IER_PTIME_POS 1)
     | INTERRUPT_HW \<Rightarrow> WR_REG32 (base_address + UART_IER) (val OR push_bit UART_IER_ELSI_POS 1)
   }"

definition uart_disable_interrupt :: "u32 \<Rightarrow> uart_interrupt_id_t \<Rightarrow> ('x machine_scheme, unit) state" where
  "uart_disable_interrupt base_address ident = do {
     val \<leftarrow> RD_REG32 (base_address + UART_IER);
     case ident of
       INTERRUPT_RX \<Rightarrow> WR_REG32 (base_address + UART_IER) (val AND NOT (push_bit UART_IER_ERBFI_POS 1))
     | INTERRUPT_TX \<Rightarrow> WR_REG32 (base_address + UART_IER)
         (val AND NOT (push_bit UART_IER_ETBEI_POS 1) AND NOT (push_bit UART_IER_PTIME_POS 1))
     | INTERRUPT_HW \<Rightarrow> WR_REG32 (base_address + UART_IER) (val AND NOT (push_bit UART_IER_ELSI_POS 1))
   }"

text \<open>The inner loop of the polling write: \<open>False\<close> when the timeout count is used up.\<close>

fun uart_wait_thre :: "nat \<Rightarrow> u32 \<Rightarrow> ('x machine_scheme, bool) state" where
  "uart_wait_thre 0 base_address = ret False"
| "uart_wait_thre (Suc timeout) base_address = do {
     st \<leftarrow> RD_REG32 (base_address + UART_LSR);
     if st AND UART_LSR_THRE_MASK \<noteq> 0 then ret True
     else if timeout = 0 then ret False
     else uart_wait_thre timeout base_address
   }"

fun uart_poll_loop :: "nat \<Rightarrow> u32 \<Rightarrow> u64 \<Rightarrow> u32 \<Rightarrow> ('x machine_scheme, u32) state" where
  "uart_poll_loop 0 base_address buf len = ret len"
| "uart_poll_loop (Suc n) base_address buf len = do {
     ready \<leftarrow> uart_wait_thre UART_POLL_TIMEOUT_COUNT base_address;
     if \<not> ready then ret len
     else do {
       b \<leftarrow> peek (buf + ucast len);
       WR_REG32 (base_address + UART_THR) (ucast b);
       uart_poll_loop n base_address buf (len + 1)
     }
   }"

definition uart_tx_polling :: "u32 \<Rightarrow> u64 \<Rightarrow> u32 \<Rightarrow> ('x machine_scheme, u32) state" where
  "uart_tx_polling base_address buf nbytes = uart_poll_loop (unat nbytes) base_address buf 0"

lemmas uart_ll_defs =
  uart_enable_clock_def uart_disable_clock_def uart_assert_reset_def uart_deassert_reset_def
  uart_config_fifo_def uart_init_def uart_deinit_def uart_set_config_def uart_set_baud_def
  uart_get_baud_def uart_get_config_def get_int_status_def uart_write_fifo_def uart_read_fifo_def
  uart_enable_interrupt_def uart_disable_interrupt_def uart_tx_polling_def

section \<open>Frames\<close>

lemma reads_keep_last_wr32:
  "list_all is_rd32 es \<Longrightarrow> last_wr32 (es @ t) a = last_wr32 t a"
proof (induction es)
  case (Cons e es)
  then show ?case by (cases e) simp_all
qed simp

lemma get_clk_frame [simp]:
  "env (final (clk_mngr_get_clk b) s) = env s" "mem (final (clk_mngr_get_clk b) s) = mem s"
  "last_wr32 (trace (final (clk_mngr_get_clk b) s)) a = last_wr32 (trace s) a"
proof -
  have keeps: "keeps (\<lambda>s :: 'a machine_scheme. env s = e) (clk_mngr_get_clk b)"
    "keeps (\<lambda>s :: 'a machine_scheme. mem s = m) (clk_mngr_get_clk b)" for e m
    by (intro clk_keeps_blind trace_blindI; simp)+
  show "env (final (clk_mngr_get_clk b) s) = env s" "mem (final (clk_mngr_get_clk b) s) = mem s"
    using keepsD [OF keeps(1) [of "env s"], of s] keepsD [OF keeps(2) [of "mem s"], of s] by simp_all
  obtain es where "trace (final (clk_mngr_get_clk b) s) = es @ trace s" "list_all is_rd32 es"
    by (rule emitsD [OF get_clk_total [THEN conjunct1]])
  then show "last_wr32 (trace (final (clk_mngr_get_clk b) s)) a = last_wr32 (trace s) a"
    by (simp add: reads_keep_last_wr32)
qed

section \<open>The line configuration round trip\<close>

definition lcr_word :: "uart_parity_t \<Rightarrow> uart_stop_bits_t \<Rightarrow> u32 \<Rightarrow> u32" where
  "lcr_word parity stopbit wordlen =
     (case parity of UART_PARITY_ODD \<Rightarrow> 8 | UART_PARITY_EVEN \<Rightarrow> 24 | UART_PARITY_NONE \<Rightarrow> 0)
     OR (wordlen - 5) OR (if stopbit = UART_STOP_BITS_2 then 4 else 0)"

lemma run_set_config:
  "run_state (uart_set_config base parity stopbit wordlen) s =
     ((), s\<lparr>trace := Wr32 (ucast (base + UART_LCR)) (lcr_word parity stopbit wordlen) # trace s\<rparr>)"
  by (cases parity; cases stopbit; simp add: uart_set_config_def lcr_word_def uart_bits Let_def or.assoc)

definition lcr_decode :: "u32 \<Rightarrow> uart_parity_t \<times> uart_stop_bits_t \<times> u32" where
  "lcr_decode v =
     (let p = drop_bit 3 v AND 3
      in (if p = 3 then UART_PARITY_EVEN else if p = 1 then UART_PARITY_ODD else UART_PARITY_NONE,
          if drop_bit 2 v AND 1 = 1 then UART_STOP_BITS_2 else UART_STOP_BITS_1, (v AND 3) + 5))"

lemma lcr_decode_encode:
  assumes "5 \<le> wordlen" and "wordlen \<le> 8"
  shows "lcr_decode ((lcr_word p s wordlen OR 0x80) AND NOT 0x80) = (p, s, wordlen)"
proof -
  have "unat wordlen \<in> {5, 6, 7, 8}"
    using assms by (auto simp: word_le_nat_alt)
  then have "(word_of_nat (unat wordlen) :: u32) \<in> word_of_nat ` {5, 6, 7, 8}"
    by (rule imageI)
  then have w: "wordlen = 5 \<or> wordlen = 6 \<or> wordlen = 7 \<or> wordlen = 8"
    by simp
  have "enum_class.enum_all (\<lambda>p. enum_class.enum_all (\<lambda>s.
      lcr_decode ((lcr_word p s wordlen OR 0x80) AND NOT 0x80) = (p, s, wordlen)))"
    using w unfolding enum_all_uart_parity_t_def enum_all_uart_stop_bits_t_def
    by (elim disjE; simp add: lcr_word_def lcr_decode_def Let_def)
  then show ?thesis
    by (simp only: enum_all_UNIV) simp
qed

lemma get_config_decodes:
  assumes "reg_holds (env s) (ucast (base + UART_LCR))" and "last_wr32 (trace s) (ucast (base + UART_LCR)) = Some v"
  shows "snd (result (uart_get_config base) s) = lcr_decode ((v OR 0x80) AND NOT 0x80)"
proof -
  let ?a = "ucast (base + UART_LCR) :: u64" and ?w = "(v OR 0x80) AND NOT 0x80"
  have v: "hw_rd32 (env s) (trace s) ?a = v"
    using assms by (rule reg_holdsD)
  have "env (final (uart_get_baud base) s) = env s"
    "last_wr32 (trace (final (uart_get_baud base) s)) ?a = Some ?w"
    by (simp_all add: uart_get_baud_def Let_def split_beta v uart_bits)
  with reg_holdsD [OF assms(1)]
  have w: "hw_rd32 (env (final (uart_get_baud base) s)) (trace (final (uart_get_baud base) s)) ?a = ?w"
    by simp
  show ?thesis
    by (simp add: uart_get_config_def split_beta Let_def w lcr_decode_def uart_bits)
qed

text \<open>
  C36. The line settings read back are the ones set, for the three parities, both stop-bit
  settings and the word lengths 5 to 8, when the line control register holds what is written;
  reading them back, which opens and closes the divisor latch, leaves them unchanged.
\<close>

theorem uart_config_roundtrip:
  assumes "5 \<le> wordlen" and "wordlen \<le> 8" and "reg_holds (env s) (ucast (base + UART_LCR))"
  shows "snd (result (uart_get_config base) (final (uart_set_config base p st wordlen) s))
       = (p, st, wordlen)"
proof -
  let ?s = "final (uart_set_config base p st wordlen) s"
  have "snd (result (uart_get_config base) ?s)
      = lcr_decode ((lcr_word p st wordlen OR 0x80) AND NOT 0x80)"
    using assms(3) by (intro get_config_decodes) (simp_all add: run_set_config)
  then show ?thesis
    by (simp only: lcr_decode_encode [OF assms(1,2)])
qed

theorem uart_config_roundtrip_witness:
  "snd (result (uart_get_config 0x10C02000)
     (final (uart_set_config 0x10C02000 UART_PARITY_EVEN UART_STOP_BITS_2 7)
       \<lparr>env = ram_env, trace = [], mem = (\<lambda>_. 0)\<rparr>)) = (UART_PARITY_EVEN, UART_STOP_BITS_2, 7)"
  by (rule uart_config_roundtrip) simp_all

section \<open>The baud rate\<close>

lemma blind_run_final:
  fixes s :: "'x machine_scheme"
  assumes "\<And>I :: 'x machine_scheme \<Rightarrow> bool. trace_blind I \<Longrightarrow> keeps I m"
  shows "final m s = s\<lparr>trace := trace (final m s)\<rparr>"
proof -
  have "trace_blind (\<lambda>s' :: 'x machine_scheme. s'\<lparr>trace := []\<rparr> = s\<lparr>trace := []\<rparr>)"
    by (rule trace_blindI) simp
  from keepsD [OF assms [OF this], of s] have "(final m s)\<lparr>trace := []\<rparr> = s\<lparr>trace := []\<rparr>"
    by simp
  then have "(final m s)\<lparr>trace := []\<rparr>\<lparr>trace := trace (final m s)\<rparr> = s\<lparr>trace := []\<rparr>\<lparr>trace := trace (final m s)\<rparr>"
    by (rule arg_cong)
  then show ?thesis
    by simp
qed

lemmas get_clk_final = blind_run_final [OF clk_keeps_blind]

definition baud_divisor :: "nat \<Rightarrow> nat \<Rightarrow> nat" where
  "baud_divisor clk baud = (clk + 8 * baud) div (16 * baud)"

lemma baud_divisor_nearest:
  assumes "0 < b"
  shows "16 * b * baud_divisor c b \<le> c + 8 * b" and "c < 16 * b * baud_divisor c b + 8 * b"
proof -
  have "(c + 8 * b) div (16 * b) * (16 * b) \<le> c + 8 * b"
    by (rule div_times_less_eq_dividend)
  then show "16 * b * baud_divisor c b \<le> c + 8 * b"
    by (simp add: baud_divisor_def mult.commute)
  have "c + 8 * b < 16 * b + (c + 8 * b) div (16 * b) * (16 * b)"
    using assms by (intro dividend_less_div_times) simp
  then show "c < 16 * b * baud_divisor c b + 8 * b"
    by (simp add: baud_divisor_def mult.commute)
qed

lemma baud_word:
  fixes clk baud :: u32
  assumes "unat clk + 8 * unat baud < 2 ^ 32"
  shows "unat (drop_bit 4 ((clk + push_bit 3 baud) div baud)) = baud_divisor (unat clk) (unat baud)"
proof -
  have b: "unat (push_bit 3 baud) = 8 * unat baud"
    using assms by (simp add: push_bit_eq_mult unat_mult_no_wrap mult.commute)
  have "unat (clk + push_bit 3 baud) = unat clk + 8 * unat baud"
    using assms by (simp add: unat_add_lem [THEN iffD1] b)
  then show ?thesis
    by (simp add: unat_drop_bit unat_div baud_divisor_def div_mult2_eq mult.commute)
qed

lemma run_set_baud:
  assumes "result (clk_mngr_get_clk CLOCK_UART) s = (0, clk)" and "baud \<noteq> 0"
  shows "run_state (uart_set_baud base baud) s =
     (let s1 = final (clk_mngr_get_clk CLOCK_UART) s; lcr = ucast (base + UART_LCR);
          v = hw_rd32 (env s) (trace s1) lcr; d = drop_bit 4 ((clk + push_bit 3 baud) div baud)
      in (1, s1\<lparr>trace := Wr32 lcr ((v OR 0x80) AND NOT 0x80)
                 # Wr32 (ucast (base + UART_DLH)) (drop_bit 8 d AND 0xFF)
                 # Wr32 (ucast (base + UART_DLL)) (d AND 0xFF)
                 # Wr32 lcr (v OR 0x80) # Rd32 lcr v # trace s1\<rparr>))"
  using assms by (simp add: uart_set_baud_def split_beta Let_def uart_bits)

text \<open>
  The divisor programmed for a baud rate is the best one: for every rate that is not 0
  and does not overflow the 32-bit sum, 16 times the rate times the divisor is within 8 times
  the rate of the peripheral clock. It is written low byte first, between the opening and the
  closing of the divisor latch.
\<close>

theorem uart_baud_divisor_best:
  assumes "result (clk_mngr_get_clk CLOCK_UART) s = (0, clk)" and "baud \<noteq> 0"
    and "unat clk + 8 * unat baud < 2 ^ 32"
  shows "\<exists>d. 16 * unat baud * unat d \<le> unat clk + 8 * unat baud
    \<and> unat clk < 16 * unat baud * unat d + 8 * unat baud
    \<and> result (uart_set_baud base baud) s = 1
    \<and> (\<exists>v. trace (final (uart_set_baud base baud) s) =
        Wr32 (ucast (base + UART_LCR)) ((v OR 0x80) AND NOT 0x80)
        # Wr32 (ucast (base + UART_DLH)) (drop_bit 8 d AND 0xFF)
        # Wr32 (ucast (base + UART_DLL)) (d AND 0xFF)
        # Wr32 (ucast (base + UART_LCR)) (v OR 0x80) # Rd32 (ucast (base + UART_LCR)) v
        # trace (final (clk_mngr_get_clk CLOCK_UART) s))"
proof -
  have "0 < unat baud"
    using assms(2) by (simp add: unat_gt_0)
  note nearest = baud_divisor_nearest [OF this, of "unat clk"]
  show ?thesis
    by (rule exI [of _ "drop_bit 4 ((clk + push_bit 3 baud) div baud)"])
      (use nearest in \<open>simp only: baud_word [OF assms(3)] run_set_baud [OF assms(1,2)] Let_def,
        simp\<close>)
qed

text \<open>The UART of base address \<open>0x10C02000\<close> in a machine with the clocks of the boot configuration.\<close>

lemma boot_uart_clk: "result (clk_mngr_get_clk CLOCK_UART) \<lparr>env = boot_env, trace = t, mem = m\<rparr> = (0, 100000000)"
  by (simp add: clk_rate_defs Let_def boot_env_def boot_regs_def clk_regs clk_fields clk_ids)

theorem uart_baud_divisor_best_witness:
  "result (uart_set_baud 0x10C02000 115200) \<lparr>env = boot_env, trace = [], mem = (\<lambda>_. 0)\<rparr> = 1"
  using uart_baud_divisor_best [OF boot_uart_clk, of 115200 "0x10C02000" "[]" "\<lambda>_. 0"] by simp blast

text \<open>
  The divisor latch as the 16550 documents it: while DLAB (bit 7 of the line control register)
  is set, the registers at offsets 0 and 4 hold what was last written to them with DLAB set.
\<close>

definition dlab :: "u32 \<Rightarrow> ev list \<Rightarrow> bool" where
  "dlab base t = (case last_wr32 t (ucast (base + UART_LCR)) of None \<Rightarrow> False | Some v \<Rightarrow> bit v 7)"

fun latched :: "u32 \<Rightarrow> ev list \<Rightarrow> u64 \<Rightarrow> u32 option" where
  "latched base [] a = None"
| "latched base (e # t) a =
     (case e of Wr32 b v \<Rightarrow> if b = a \<and> dlab base t then Some v else latched base t a
      | _ \<Rightarrow> latched base t a)"

definition divisor_latch :: "env \<Rightarrow> u32 \<Rightarrow> bool" where
  "divisor_latch e base \<longleftrightarrow>
     (\<forall>t v. \<forall>a \<in> {ucast (base + UART_DLL), ucast (base + UART_DLH)}.
        dlab base t \<longrightarrow> latched base t a = Some v \<longrightarrow> hw_rd32 e t a = v)"

lemma divisor_latchD:
  assumes "divisor_latch e base" and "dlab base t"
  shows "latched base t (ucast (base + UART_DLL)) = Some v \<Longrightarrow> hw_rd32 e t (ucast (base + UART_DLL)) = v"
    and "latched base t (ucast (base + UART_DLH)) = Some w \<Longrightarrow> hw_rd32 e t (ucast (base + UART_DLH)) = w"
  using assms by (simp_all add: divisor_latch_def)

lemma latch_offsets [simp]:
  "UART_DLL \<noteq> UART_LCR" "UART_DLH \<noteq> UART_LCR" "UART_LCR \<noteq> UART_DLL" "UART_LCR \<noteq> UART_DLH"
  "UART_DLL \<noteq> UART_DLH" "UART_DLH \<noteq> UART_DLL"
  by (simp_all add: uart_regs)

lemma dlab_or [simp]: "bit ((v OR 0x80) :: u32) 7" "\<not> bit ((w AND NOT 0x80) :: u32) 7"
proof -
  have "(0x80 :: u32) = push_bit 7 1" by simp
  then show "bit ((v OR 0x80) :: u32) 7" "\<not> bit ((w AND NOT 0x80) :: u32) 7"
    by (auto simp: bit_simps)
qed

lemma latch_bytes:
  fixes d :: u32
  assumes "unat d < 65536"
  shows "push_bit 8 (drop_bit 8 d AND 0xFF) OR (d AND 0xFF) = d"
proof -
  have m: "(0xFF :: u32) = mask 8" by (simp add: mask_eq_exp_minus_1)
  have "n < 16" if "bit d n" for n
    using assms that small_word_bit [of d 16 n] by (simp add: not_le [symmetric]) blast
  then show ?thesis
    by (intro bit_word_eqI) (fastforce simp: m bit_simps not_le)
qed

lemma run_get_baud:
  assumes "reg_holds (env s) (ucast (base + UART_LCR))" and "divisor_latch (env s) base"
    and "last_wr32 (trace s) (ucast (base + UART_LCR)) = Some v"
    and "latched base (trace s) (ucast (base + UART_DLL)) = Some lo"
    and "latched base (trace s) (ucast (base + UART_DLH)) = Some hi"
    and "\<And>t. result (clk_mngr_get_clk CLOCK_UART) (s\<lparr>trace := t\<rparr>) = (0, clk)"
  shows "result (uart_get_baud base) s =
     (if push_bit 8 hi OR lo = 0 then 0 else clk div (push_bit 4 (push_bit 8 hi OR lo) - 8))"
proof -
  let ?a = "ucast (base + UART_LCR) :: u64"
  have v: "hw_rd32 (env s) (trace s) ?a = v"
    using assms(1,3) by (rule reg_holdsD)
  let ?t = "Wr32 ?a (v OR 0x80) # Rd32 ?a v # trace s"
  have on: "dlab base ?t" "dlab base (Rd32 (ucast (base + UART_DLL)) lo # ?t)"
    by (simp_all add: dlab_def)
  have lo: "hw_rd32 (env s) ?t (ucast (base + UART_DLL)) = lo"
    by (rule divisor_latchD(1) [OF assms(2) on(1)]) (simp add: assms(4))
  have hi: "hw_rd32 (env s) (Rd32 (ucast (base + UART_DLL)) lo # ?t) (ucast (base + UART_DLH)) = hi"
    by (rule divisor_latchD(2) [OF assms(2) on(2)]) (simp add: assms(5))
  show ?thesis
    by (simp add: uart_get_baud_def split_beta Let_def uart_bits v lo hi assms(6))
qed

lemma latched_reads: "list_all is_rd32 es \<Longrightarrow> latched base (es @ t) a = latched base t a"
proof (induction es)
  case (Cons e es)
  then show ?case by (cases e) simp_all
qed simp

text \<open>
  The baud rate read back is too high: after a rate has been programmed, with a divisor
  \<open>d\<close> between 1 and 65535, UART_GET_CONFIG reports clock / (16 d - 8), while the line runs at
  clock / (16 d); the line control register holds what is written, the divisor latch behaves
  as documented and the clock does not change.
\<close>

theorem uart_baud_overreported:
  assumes "reg_holds (env s) (ucast (base + UART_LCR))" and "divisor_latch (env s) base"
    and "\<And>t. result (clk_mngr_get_clk CLOCK_UART) (s\<lparr>trace := t\<rparr>) = (0, clk)" and "baud \<noteq> 0"
    and "unat clk + 8 * unat baud < 2 ^ 32"
    and "d = baud_divisor (unat clk) (unat baud)" and "0 < d" and "d < 65536"
  shows "unat (result (uart_get_baud base) (final (uart_set_baud base baud) s)) = unat clk div (16 * d - 8)
    \<and> unat clk div (16 * d) \<le> unat (result (uart_get_baud base) (final (uart_set_baud base baud) s))"
proof -
  let ?w = "drop_bit 4 ((clk + push_bit 3 baud) div baud)"
  note set = run_set_baud [OF assms(3) [of "trace s", simplified] assms(4)]
  have d: "unat ?w = d"
    using baud_word [OF assms(5)] assms(6) by simp
  have d16: "unat (push_bit 4 ?w) = 16 * d"
    using assms(8) d by (simp add: push_bit_eq_mult unat_mult_no_wrap mult.commute)
  have d8: "unat (push_bit 4 ?w - 8) = 16 * d - 8"
    using assms(7) by (subst unat_sub) (simp_all add: word_le_nat_alt d16)
  have w0: "?w \<noteq> 0"
    using assms(7) d by auto
  define s2 where "s2 = final (uart_set_baud base baud) s"
  obtain t0 where t0: "final (clk_mngr_get_clk CLOCK_UART) s = s\<lparr>trace := t0\<rparr>"
    using get_clk_final by blast
  have s2: "s2 = s\<lparr>trace := trace s2\<rparr>" "env s2 = env s"
    by (simp_all add: s2_def set Let_def t0)
  have regs: "last_wr32 (trace s2) (ucast (base + UART_LCR)) \<noteq> None"
    "latched base (trace s2) (ucast (base + UART_DLL)) = Some (?w AND 0xFF)"
    "latched base (trace s2) (ucast (base + UART_DLH)) = Some (drop_bit 8 ?w AND 0xFF)"
    by (simp_all add: s2_def set Let_def dlab_def)
  then obtain v where v: "last_wr32 (trace s2) (ucast (base + UART_LCR)) = Some v"
    by blast
  have clk: "result (clk_mngr_get_clk CLOCK_UART) (s2\<lparr>trace := t\<rparr>) = (0, clk)" for t
    by (subst s2(1)) (simp add: assms(3))
  have "result (uart_get_baud base) s2 = clk div (push_bit 4 ?w - 8)"
    using run_get_baud [OF _ _ v regs(2,3) clk] assms(1,2) s2(2) w0 d assms(8)
    by (simp only: latch_bytes) simp
  then have eq: "unat (result (uart_get_baud base) s2) = unat clk div (16 * d - 8)"
    by (simp add: unat_div d8)
  have "unat clk div (16 * d) \<le> unat clk div (16 * d - 8)"
    using assms(7) by (intro div_le_mono2) simp_all
  then show ?thesis
    by (simp add: eq s2_def [symmetric])
qed

text \<open>A UART with a divisor latch, clocked at 100 MHz.\<close>

definition uart_env :: "u32 \<Rightarrow> env" where
  "uart_env base = ram_env\<lparr>hw_rd32 := \<lambda>t a.
     if a = ucast (base + UART_LCR) then (case last_wr32 t a of None \<Rightarrow> 0 | Some v \<Rightarrow> v)
     else if a = ucast (base + UART_DLL) \<or> a = ucast (base + UART_DLH)
       then (if dlab base t then (case latched base t a of None \<Rightarrow> 0 | Some v \<Rightarrow> v) else 0)
     else boot_regs (ucast a)\<rparr>"

lemma uart_env_latch: "reg_holds (uart_env base) (ucast (base + UART_LCR))" "divisor_latch (uart_env base) base"
  by (auto simp: reg_holds_def divisor_latch_def uart_env_def)

lemma uart_env_clk:
  "result (clk_mngr_get_clk CLOCK_UART) \<lparr>env = uart_env 0x10C02000, trace = t, mem = m\<rparr> = (0, 100000000)"
  by (simp add: clk_rate_defs Let_def uart_env_def boot_regs_def clk_regs clk_fields clk_ids uart_regs)

theorem uart_baud_overreported_witness:
  "unat (result (uart_get_baud 0x10C02000) (final (uart_set_baud 0x10C02000 115200)
     \<lparr>env = uart_env 0x10C02000, trace = [], mem = (\<lambda>_. 0)\<rparr>)) = 116822"
  using uart_baud_overreported [where s = "\<lparr>env = uart_env 0x10C02000, trace = [], mem = (\<lambda>_. 0)\<rparr>"
      and base = "0x10C02000" and clk = 100000000 and baud = 115200 and d = 54]
  by (simp add: uart_env_latch uart_env_clk baud_divisor_def)

section \<open>What the FIFO loops transfer\<close>

text \<open>The words written to a register, oldest first.\<close>

fun sent :: "u64 \<Rightarrow> ev list \<Rightarrow> u32 list" where
  "sent a [] = []"
| "sent a (Wr32 b v # t) = (if b = a then sent a t @ [v] else sent a t)"
| "sent a (_ # t) = sent a t"

definition thr :: "u32 \<Rightarrow> u64" where
  "thr base = ucast (base + UART_THR)"

lemma bytes_at_add: "bytes_at m a (i + j) = bytes_at m a i @ bytes_at m (a + word_of_nat i) j"
  by (induction i arbitrary: a) (simp_all add: ac_simps)

lemma length_bytes_at [simp]: "length (bytes_at m a n) = n"
  by (induction n arbitrary: a) simp_all

lemma ucast_u16_of_nat: "i < 65536 \<Longrightarrow> (ucast (word_of_nat i :: u16) :: u64) = word_of_nat i"
  by (simp add: word_unat_eq_iff unsigned_ucast_eq unsigned_of_nat take_bit_nat_eq_self)

text \<open>
  Loops that fill a transmit FIFO: each round asks a status register whether there is room and
  writes one word to a data register. The contract is a locale, which the drivers with such
  loops interpret on theirs; its lemma says that a run sends a prefix of what it was to send.
\<close>

locale fifo_filler =
  fixes loop :: "nat \<Rightarrow> 'c::len word \<Rightarrow> ('x machine_scheme, 'c word) state"
    and status data :: u32
    and room :: "u32 \<Rightarrow> bool"
    and item :: "(u64 \<Rightarrow> u8) \<Rightarrow> 'c word \<Rightarrow> u32"
  assumes loop_none: "loop 0 c = ret c"
    and loop_more: "run_state (loop (Suc r) c) s =
      (let st = hw_rd32 (env s) (trace s) (ucast status); s1 = s\<lparr>trace := Rd32 (ucast status) st # trace s\<rparr>
       in if room st then run_state (loop r (c + 1)) (s1\<lparr>trace := Wr32 (ucast data) (item (mem s) c) # trace s1\<rparr>)
          else (c, s1))"
begin

lemma fills:
  "\<exists>k t es. k \<le> r \<and> run_state (loop r (word_of_nat i)) s = (word_of_nat (i + k), s\<lparr>trace := t\<rparr>)
    \<and> sent (ucast data) t = sent (ucast data) (trace s) @ map (\<lambda>j. item (mem s) (word_of_nat j)) [i..<i + k]
    \<and> t = es @ trace s \<and> list_all (\<lambda>e. \<exists>v. e = Rd32 (ucast status) v \<or> e = Wr32 (ucast data) v) es"
proof (induction r arbitrary: i s)
  case 0
  then show ?case
    by (intro exI [of _ 0] exI [of _ "trace s"] exI [of _ "[]"]) (simp add: loop_none)
next
  case (Suc r)
  let ?st = "hw_rd32 (env s) (trace s) (ucast status)"
  let ?t1 = "Rd32 (ucast status) ?st # trace s"
  show ?case
  proof (cases "room ?st")
    case False
    then show ?thesis
      by (intro exI [of _ 0] exI [of _ ?t1] exI [of _ "[Rd32 (ucast status) ?st]"]) (simp add: loop_more Let_def)
  next
    case True
    let ?w = "item (mem s) (word_of_nat i)"
    let ?s = "s\<lparr>trace := Wr32 (ucast data) ?w # ?t1\<rparr>"
    obtain k t es where k: "k \<le> r"
      and run: "run_state (loop r (word_of_nat (Suc i))) ?s = (word_of_nat (Suc i + k), ?s\<lparr>trace := t\<rparr>)"
      and snt: "sent (ucast data) t = sent (ucast data) (trace ?s)
          @ map (\<lambda>j. item (mem ?s) (word_of_nat j)) [Suc i..<Suc i + k]"
      and es: "t = es @ trace ?s" "list_all (\<lambda>e. \<exists>v. e = Rd32 (ucast status) v \<or> e = Wr32 (ucast data) v) es"
      using Suc.IH [of "Suc i" ?s] by blast
    have run': "run_state (loop (Suc r) (word_of_nat i)) s = (word_of_nat (i + Suc k), s\<lparr>trace := t\<rparr>)"
      using True run by (simp add: loop_more Let_def add.commute)
    have "sent (ucast data) t = sent (ucast data) (trace s)
        @ map (\<lambda>j. item (mem s) (word_of_nat j)) (i # [Suc i..<Suc i + k])"
      using snt by simp
    also have "i # [Suc i..<Suc i + k] = [i..<i + Suc k]"
      by (simp add: upt_conv_Cons del: upt_Suc)
    finally show ?thesis
      using k run' es
      by (intro exI [of _ "Suc k"] exI [of _ t] exI [of _ "es @ [Wr32 (ucast data) ?w, Rd32 (ucast status) ?st]"]) simp
  qed
qed

end

text \<open>The UART's loop, with its 16-bit counter.\<close>

interpretation uart_filler: fifo_filler "\<lambda>r. uart_write_loop r base buf" "base + UART_USR" "base + UART_THR"
    "\<lambda>st. drop_bit UART_USR_TFNF_POS st AND 1 = 1" "\<lambda>m c. ucast (m (buf + ucast c))" for base buf
  by unfold_locales (simp_all add: Let_def)

lemma bytes_at_map: "bytes_at m a n = map (\<lambda>j. m (a + word_of_nat j)) [0..<n]"
  by (induction n arbitrary: a) (simp_all add: upt_conv_Cons map_Suc_upt [symmetric] add.assoc del: upt_Suc)

lemma map_upt_shift: "map f [i..<i + k] = map (\<lambda>j. f (i + j)) [0..<k]"
  by (simp add: list_eq_iff_nth_eq)

lemma write_loop_sends:
  assumes "i + n < 65536"
  shows "\<exists>k t. k \<le> n
    \<and> run_state (uart_write_loop n base buf (word_of_nat i)) s = (word_of_nat (i + k), s\<lparr>trace := t\<rparr>)
    \<and> sent (thr base) t = sent (thr base) (trace s) @ map ucast (bytes_at (mem s) (buf + word_of_nat i) k)"
proof -
  obtain k t where k: "k \<le> n"
    and run: "run_state (uart_write_loop n base buf (word_of_nat i)) s = (word_of_nat (i + k), s\<lparr>trace := t\<rparr>)"
    and snt: "sent (thr base) t = sent (thr base) (trace s)
      @ map (\<lambda>j. ucast (mem s (buf + ucast (word_of_nat j :: u16)))) [i..<i + k]"
    using uart_filler.fills [of n base buf i s] unfolding thr_def by blast
  have "map (\<lambda>j. ucast (mem s (buf + ucast (word_of_nat j :: u16)))) [i..<i + k]
      = map ucast (bytes_at (mem s) (buf + word_of_nat i) k)"
  proof -
    have "(ucast (word_of_nat (i + j) :: u16) :: u64) = word_of_nat i + word_of_nat j" if "j < k" for j
      using that k assms by (subst ucast_u16_of_nat) simp_all
    then show ?thesis
      by (simp add: bytes_at_map map_upt_shift add.assoc del: of_nat_add)
  qed
  with k run snt show ?thesis by metis
qed

text \<open>
  Writing to the transmit FIFO sends a prefix of the buffer: whatever the device answers,
  the number returned is the number of bytes moved to the transmit register, those are the
  first bytes of the buffer in order and once each, and nothing else of the machine changes.
\<close>

theorem uart_write_fifo_prefix:
  assumes "unat n < 65536"
  shows "\<exists>k t. k \<le> unat n
    \<and> run_state (uart_write_fifo base buf n) s = (word_of_nat k, s\<lparr>trace := t\<rparr>)
    \<and> sent (thr base) t = sent (thr base) (trace s) @ map ucast (bytes_at (mem s) buf k)"
  using write_loop_sends [of 0 "unat n" base buf s] assms by (simp add: uart_write_fifo_def)

lemma write_fifo_sends:
  assumes "unat n < 65536"
  obtains k t where "k \<le> unat n"
    "run_state (uart_write_fifo base buf n) s = (word_of_nat k, s\<lparr>trace := t\<rparr>)"
    "sent (thr base) t = sent (thr base) (trace s) @ map ucast (bytes_at (mem s) buf k)"
  using write_loop_sends [of 0 "unat n" base buf s] assms by (auto simp: uart_write_fifo_def)

text \<open>A device with room for three bytes.\<close>

definition fifo3_env :: env where
  "fifo3_env = ram_env\<lparr>hw_rd32 := \<lambda>t _. if length (sent (thr 0x10C02000) t) < 3 then 2 else 0\<rparr>"

theorem uart_write_fifo_prefix_witness:
  "\<exists>k t. k \<le> 5
    \<and> run_state (uart_write_fifo 0x10C02000 0x100 5) \<lparr>env = fifo3_env, trace = [], mem = \<lambda>a. ucast a\<rparr>
      = (word_of_nat k, \<lparr>env = fifo3_env, trace = t, mem = \<lambda>a. ucast a\<rparr>)
    \<and> sent (thr 0x10C02000) t = map ucast (bytes_at (\<lambda>a. ucast a) 0x100 k)"
  using uart_write_fifo_prefix [of 5 "0x10C02000" "0x100" "\<lparr>env = fifo3_env, trace = [], mem = \<lambda>a. ucast a\<rparr>"]
  by simp

lemma wait_thre_reads:
  "\<exists>b t. run_state (uart_wait_thre n base) s = (b, s\<lparr>trace := t\<rparr>) \<and> sent a t = sent a (trace s)"
proof (induction n arbitrary: s)
  case 0
  then show ?case by (intro exI [of _ False] exI [of _ "trace s"]) simp
next
  case (Suc n)
  let ?l = "ucast (base + UART_LSR) :: u64"
  let ?t = "Rd32 ?l (hw_rd32 (env s) (trace s) ?l) # trace s"
  obtain b t where "run_state (uart_wait_thre n base) (s\<lparr>trace := ?t\<rparr>) = (b, s\<lparr>trace := t\<rparr>)"
      "sent a t = sent a (trace s)"
    using Suc.IH [of "s\<lparr>trace := ?t\<rparr>"] by auto
  then show ?case
    by (simp add: split_beta) (metis sent.simps(3))
qed

lemma poll_loop_sends:
  assumes "i + n < 2 ^ 32"
  shows "\<exists>k t. k \<le> n
    \<and> run_state (uart_poll_loop n base buf (word_of_nat i)) s = (word_of_nat (i + k), s\<lparr>trace := t\<rparr>)
    \<and> sent (thr base) t = sent (thr base) (trace s) @ map ucast (bytes_at (mem s) (buf + word_of_nat i) k)"
  using assms
proof (induction n arbitrary: i s)
  case 0
  then show ?case
    by (intro exI [of _ 0] exI [of _ "trace s"]) simp
next
  case (Suc n)
  obtain b t where wait: "run_state (uart_wait_thre UART_POLL_TIMEOUT_COUNT base) s = (b, s\<lparr>trace := t\<rparr>)"
      "sent (thr base) t = sent (thr base) (trace s)"
    using wait_thre_reads by blast
  show ?case
  proof (cases b)
    case False
    then show ?thesis
      using wait by (intro exI [of _ 0] exI [of _ t]) simp
  next
    case True
    let ?s = "s\<lparr>trace := Wr32 (thr base) (ucast (mem s (buf + word_of_nat i))) # t\<rparr>"
    have i: "(ucast (word_of_nat i :: u32) :: u64) = word_of_nat i" "Suc i + n < 2 ^ 32"
      using Suc.prems
      by (simp_all add: word_unat_eq_iff unsigned_ucast_eq unsigned_of_nat take_bit_nat_eq_self)
    obtain k u where k: "k \<le> n"
        and run: "run_state (uart_poll_loop n base buf (word_of_nat (Suc i))) ?s
          = (word_of_nat (Suc i + k), ?s\<lparr>trace := u\<rparr>)"
        and snt: "sent (thr base) u = sent (thr base) (trace ?s)
          @ map ucast (bytes_at (mem ?s) (buf + word_of_nat (Suc i)) k)"
      using Suc.IH [OF i(2), of ?s] by blast
    have "word_of_nat i + 1 = (word_of_nat (Suc i) :: u32)"
      by simp
    then have "run_state (uart_poll_loop (Suc n) base buf (word_of_nat i)) s
        = (word_of_nat (i + Suc k), s\<lparr>trace := u\<rparr>)"
      using True run wait by (simp add: i thr_def add.commute)
    moreover have "sent (thr base) u = sent (thr base) (trace s)
        @ map ucast (bytes_at (mem s) (buf + word_of_nat i) (Suc k))"
      using snt wait by (simp add: add.commute add.left_commute)
    ultimately show ?thesis
      using k by (intro exI [of _ "Suc k"] exI [of _ u]) simp
  qed
qed

lemma tx_polling_sends:
  obtains k t where "k \<le> unat n"
    "run_state (uart_tx_polling base buf n) s = (word_of_nat k, s\<lparr>trace := t\<rparr>)"
    "sent (thr base) t = sent (thr base) (trace s) @ map ucast (bytes_at (mem s) buf k)"
proof -
  have "0 + unat n < 2 ^ 32"
    using unsigned_less [of n] by simp
  from poll_loop_sends [OF this, of base buf s] that show ?thesis
    by (auto simp: uart_tx_polling_def)
qed

end
