(* ===== verification/Uart.thy ===== *)
theory Uart
  imports Gpio Uart_LL
begin

unbundle bit_operations_syntax

text \<open>
  The UART driver, \<^verbatim>\<open>drivers/uart/socfpga_uart.c\<close>: two ports, each with a descriptor that
  says which transfers are under way, how many bytes are left and where they are. A transfer
  is started by an API call and finished by the interrupt handler. A handle is a pointer into
  the descriptor table, modelled by its index; \<open>None\<close> is \<^verbatim>\<open>NULL\<close>.
\<close>

section \<open>State\<close>

record uart_context =
  is_open :: bool
  inst :: u32
  tx_is_busy :: bool
  rx_is_busy :: bool
  tx_is_async :: bool
  rx_is_async :: bool
  base_address :: u32
  tx_bytes_left :: u64
  rx_bytes_left :: u64
  tx_size :: u64
  rx_size :: u64
  tx_buf :: u64
  rx_buf :: u64
  callback_fn :: fptr
  cb_user_context :: vptr
  mutex :: u64
  rd_sem :: u64
  wr_sem :: u64

record uart_state = gpio_state +
  uart_descriptors :: "nat \<Rightarrow> uart_context"

type_synonym uart_handle_t = "nat option"

record uart_config_t =
  baud :: u32
  parity :: uart_parity_t
  stop_bits :: uart_stop_bits_t
  wlen :: u32

definition uart_zero :: uart_context where
  "uart_zero = \<lparr>is_open = False, inst = 0, tx_is_busy = False, rx_is_busy = False,
     tx_is_async = False, rx_is_async = False, base_address = 0, tx_bytes_left = 0,
     rx_bytes_left = 0, tx_size = 0, rx_size = 0, tx_buf = 0, rx_buf = 0, callback_fn = F_NULL,
     cb_user_context = V_NULL, mutex = 0, rd_sem = 0, wr_sem = 0\<rparr>"

definition upd_uart :: "nat \<Rightarrow> (uart_context \<Rightarrow> uart_context) \<Rightarrow> 'x uart_state_scheme \<Rightarrow> 'x uart_state_scheme" where
  "upd_uart i f s = s\<lparr>uart_descriptors := (uart_descriptors s)(i := f (uart_descriptors s i))\<rparr>"

abbreviation get_uart :: "nat \<Rightarrow> ('x uart_state_scheme, uart_context) state" where
  "get_uart i \<equiv> gets (\<lambda>s. uart_descriptors s i)"

definition GIC_INTERRUPT_PRIORITY_UART :: u8 where "GIC_INTERRUPT_PRIORITY_UART = 14"
definition UART_WR_DONE :: u64 where "UART_WR_DONE = 0"
definition UART_RD_DONE :: u64 where "UART_RD_DONE = 1"
definition configUART_SYNC_TIMEOUT_MS :: u64 where
  "configUART_SYNC_TIMEOUT_MS = OSAL_TIMEOUT_WAIT_FOREVER"

definition GET_INT_ID :: "u32 \<Rightarrow> u32" where
  "GET_INT_ID instance0 = (if instance0 = 1 then UART1IRQ else UART0IRQ)"

section \<open>Opening, configuration and closing\<close>

definition uart_is_handle_valid :: "uart_handle_t \<Rightarrow> bool" where
  "uart_is_handle_valid handle \<longleftrightarrow> handle = Some 0 \<or> handle = Some 1"

definition uart_open :: "u32 \<Rightarrow> ('x uart_state_scheme, uart_handle_t) state" where
  "uart_open instance0 =
     (if instance0 \<ge> UART_MAX_INSTANCE then ret None
      else do {
        let handle = unat instance0;
        c \<leftarrow> get_uart handle;
        if is_open c then ret None
        else do {
          modify (upd_uart handle (\<lambda>_. uart_zero\<lparr>is_open := True, inst := instance0,
            base_address := GET_UART_BASE_ADDRESS instance0\<rparr>));
          let int_id = GET_INT_ID instance0;
          err \<leftarrow> interrupt_register_isr int_id F_uart_isr (V_uart handle);
          if err \<noteq> 0 then ret None
          else do {
            err \<leftarrow> interrupt_enable int_id GIC_INTERRUPT_PRIORITY_UART;
            if err \<noteq> 0 then ret None
            else do {
              m \<leftarrow> osal_mutex_create;
              r \<leftarrow> osal_semaphore_create;
              w \<leftarrow> osal_semaphore_create;
              modify (upd_uart handle (\<lambda>c. c\<lparr>mutex := m, rd_sem := r, wr_sem := w\<rparr>));
              if m = 0 \<or> r = 0 \<or> w = 0 then do {
                modify (upd_uart handle (\<lambda>c. c\<lparr>is_open := False\<rparr>));
                ret None
              } else do {
                uart_init instance0;
                ret (Some handle)
              }
            }
          }
        }
      })"

text \<open>The commands with the value \<^verbatim>\<open>buf\<close> points to, and what is written back.\<close>

datatype uart_ioctl_t =
  UART_SET_CONFIG uart_config_t | UART_GET_CONFIG | UART_GET_TX_NBYTES | UART_GET_RX_NBYTES
| UART_GET_TX_STATE | UART_GET_RX_STATE | UART_CMD_NULL_BUF | UART_CMD_INVALID

datatype uart_out = UO_none | UO_config uart_config_t | UO_nbytes u16 | UO_state int

definition uart_ioctl :: "uart_handle_t \<Rightarrow> uart_ioctl_t \<Rightarrow> ('x uart_state_scheme, int \<times> uart_out) state" where
  "uart_ioctl huart cmd =
     (case huart of
        None \<Rightarrow> ret (- EINVAL, UO_none)
      | Some h \<Rightarrow>
          if \<not> uart_is_handle_valid huart then ret (- EINVAL, UO_none)
          else do {
            c \<leftarrow> get_uart h;
            case cmd of
              UART_SET_CONFIG config \<Rightarrow>
                if tx_is_busy c \<or> rx_is_busy c then ret (- EBUSY, UO_none)
                else do {
                  uart_set_config (base_address c) (parity config) (stop_bits config) (wlen config);
                  ok \<leftarrow> uart_set_baud (base_address c) (baud config);
                  ret (if ok \<noteq> 1 then - EINVAL else 0, UO_none)
                }
            | UART_GET_CONFIG \<Rightarrow> do {
                (b, p, st, wl) \<leftarrow> uart_get_config (base_address c);
                ret (0, UO_config \<lparr>baud = b, parity = p, stop_bits = st, wlen = wl\<rparr>)
              }
            | UART_GET_TX_NBYTES \<Rightarrow>
                ret (0, UO_nbytes (ucast ((tx_size c - tx_bytes_left c) AND 0xFFFF)))
            | UART_GET_RX_NBYTES \<Rightarrow>
                ret (0, UO_nbytes (ucast ((rx_size c - rx_bytes_left c) AND 0xFFFF)))
            | UART_GET_TX_STATE \<Rightarrow> ret (0, UO_state (if tx_is_busy c then - EBUSY else 0))
            | UART_GET_RX_STATE \<Rightarrow> ret (0, UO_state (if rx_is_busy c then - EBUSY else 0))
            | _ \<Rightarrow> ret (- EINVAL, UO_none)
          })"

definition uart_set_callback :: "uart_handle_t \<Rightarrow> fptr \<Rightarrow> vptr \<Rightarrow> ('x uart_state_scheme, int) state" where
  "uart_set_callback huart cb param =
     (case huart of
        None \<Rightarrow> ret (- EINVAL)
      | Some h \<Rightarrow> do {
          c \<leftarrow> get_uart h;
          locked \<leftarrow> osal_mutex_lock (mutex c) OSAL_TIMEOUT_WAIT_FOREVER;
          if \<not> locked then ret 0
          else do {
            c \<leftarrow> get_uart h;
            if tx_is_busy c \<or> rx_is_busy c then do {
              unlocked \<leftarrow> osal_mutex_unlock (mutex c);
              ret (if \<not> unlocked then - EIO else - EBUSY)
            } else do {
              modify (upd_uart h (\<lambda>c. c\<lparr>callback_fn := cb, cb_user_context := param\<rparr>));
              unlocked \<leftarrow> osal_mutex_unlock (mutex c);
              ret (if \<not> unlocked then - EIO else 0)
            }
          }
        })"

definition uart_cancel :: "uart_handle_t \<Rightarrow> ('x uart_state_scheme, int) state" where
  "uart_cancel huart =
     (if huart = None \<or> \<not> uart_is_handle_valid huart then ret (- EINVAL) else ret (- ENOSYS))"

definition uart_close :: "uart_handle_t \<Rightarrow> ('x uart_state_scheme, int) state" where
  "uart_close huart =
     (case huart of
        None \<Rightarrow> ret (- EINVAL)
      | Some h \<Rightarrow> do {
          c \<leftarrow> get_uart h;
          if \<not> is_open c then ret (- EINVAL)
          else do {
            ok \<leftarrow> osal_semaphore_delete (rd_sem c);
            if \<not> ok then ret (- EFAULT)
            else do {
              ok \<leftarrow> osal_semaphore_delete (wr_sem c);
              if \<not> ok then ret (- EFAULT)
              else do {
                uart_deinit (inst c);
                modify (upd_uart h (\<lambda>c. c\<lparr>is_open := False\<rparr>));
                ret 0
              }
            }
          }
        })"

section \<open>Starting a transfer\<close>

text \<open>
  The guard that opens each transfer: under the mutex, the port must be open and the direction
  idle, and is marked busy. \<open>None\<close>: the caller goes on, which it also does when the lock was
  not obtained; \<open>Some e\<close>: the caller returns \<open>e\<close>.
\<close>

definition uart_claim_tx :: "nat \<Rightarrow> bool \<Rightarrow> ('x uart_state_scheme, int option) state" where
  "uart_claim_tx h async = do {
     c \<leftarrow> get_uart h;
     locked \<leftarrow> osal_mutex_lock (mutex c) OSAL_TIMEOUT_WAIT_FOREVER;
     if \<not> locked then ret None
     else if \<not> is_open c then do {
       unlocked \<leftarrow> osal_mutex_unlock (mutex c);
       ret (Some (if \<not> unlocked then - EIO else - EINVAL))
     } else if tx_is_busy c then do {
       unlocked \<leftarrow> osal_mutex_unlock (mutex c);
       ret (Some (if \<not> unlocked then - EIO else - EBUSY))
     } else do {
       modify (upd_uart h (\<lambda>c. c\<lparr>tx_is_busy := True, tx_is_async := async\<rparr>));
       unlocked \<leftarrow> osal_mutex_unlock (mutex c);
       ret (if \<not> unlocked then Some (- EIO) else None)
     }
   }"

definition uart_claim_rx :: "nat \<Rightarrow> bool \<Rightarrow> ('x uart_state_scheme, int option) state" where
  "uart_claim_rx h async = do {
     c \<leftarrow> get_uart h;
     locked \<leftarrow> osal_mutex_lock (mutex c) OSAL_TIMEOUT_WAIT_FOREVER;
     if \<not> locked then ret None
     else if \<not> is_open c then do {
       unlocked \<leftarrow> osal_mutex_unlock (mutex c);
       ret (Some (if \<not> unlocked then - EIO else - EINVAL))
     } else if rx_is_busy c then do {
       unlocked \<leftarrow> osal_mutex_unlock (mutex c);
       ret (Some (if \<not> unlocked then - EIO else - EBUSY))
     } else do {
       modify (upd_uart h (\<lambda>c. c\<lparr>rx_is_busy := True, rx_is_async := async\<rparr>));
       unlocked \<leftarrow> osal_mutex_unlock (mutex c);
       ret (if \<not> unlocked then Some (- EIO) else None)
     }
   }"

definition uart_write :: "nat \<Rightarrow> u64 \<Rightarrow> u32 \<Rightarrow> ('x uart_state_scheme, unit) state" where
  "uart_write h buffer nbytes = do {
     modify (upd_uart h (\<lambda>c. c\<lparr>tx_bytes_left := ucast nbytes\<rparr>));
     c \<leftarrow> get_uart h;
     byte_count \<leftarrow> uart_write_fifo (base_address c) buffer nbytes;
     modify (upd_uart h (\<lambda>c. c\<lparr>tx_bytes_left := tx_bytes_left c - ucast byte_count,
                             tx_buf := tx_buf c + ucast byte_count\<rparr>));
     uart_enable_interrupt (base_address c) INTERRUPT_TX
   }"

definition uart_read :: "nat \<Rightarrow> u64 \<Rightarrow> u32 \<Rightarrow> ('x uart_state_scheme, int) state" where
  "uart_read h buffer nbytes = do {
     modify (upd_uart h (\<lambda>c. c\<lparr>rx_bytes_left := ucast nbytes\<rparr>));
     c \<leftarrow> get_uart h;
     byte_count \<leftarrow> uart_read_fifo (base_address c) buffer nbytes;
     modify (upd_uart h (\<lambda>c. c\<lparr>rx_bytes_left := rx_bytes_left c - ucast byte_count,
                             rx_buf := rx_buf c + ucast byte_count\<rparr>));
     c \<leftarrow> get_uart h;
     if rx_bytes_left c > 0 then do { uart_enable_interrupt (base_address c) INTERRUPT_RX; ret 0 }
     else if rx_is_async c then do {
       whenM (callback_fn c \<noteq> F_NULL) (emit (Call (callback_fn c) (cb_user_context c) [UART_RD_DONE]));
       modify (upd_uart h (\<lambda>c. c\<lparr>rx_is_async := False, rx_is_busy := False\<rparr>));
       ret 0
     } else do {
       ok \<leftarrow> osal_semaphore_post (rd_sem c);
       ret (if \<not> ok then - EIO else 0)
     }
   }"

definition uart_transfer_args_ok :: "uart_handle_t \<Rightarrow> u64 \<Rightarrow> u32 \<Rightarrow> bool" where
  "uart_transfer_args_ok huart buf nbytes \<longleftrightarrow> \<not> (\<not> uart_is_handle_valid huart \<or> buf = 0 \<or> nbytes = 0)"

definition uart_write_async :: "uart_handle_t \<Rightarrow> u64 \<Rightarrow> u32 \<Rightarrow> ('x uart_state_scheme, int) state" where
  "uart_write_async huart buf nbytes =
     (if \<not> uart_transfer_args_ok huart buf nbytes then ret (- EINVAL)
      else do {
        let h = the huart;
        claimed \<leftarrow> uart_claim_tx h True;
        case claimed of
          Some e \<Rightarrow> ret e
        | None \<Rightarrow> do {
            modify (upd_uart h (\<lambda>c. c\<lparr>tx_buf := buf, tx_size := ucast nbytes\<rparr>));
            uart_write h buf nbytes;
            ret 0
          }
      })"

text \<open>
  In the blocking calls, \<open>during\<close> is what happens between the start of the transfer and the
  end of the wait: the interrupts taken meanwhile.
\<close>

definition uart_write_sync ::
  "('x uart_state_scheme, unit) state \<Rightarrow> uart_handle_t \<Rightarrow> u64 \<Rightarrow> u32 \<Rightarrow> ('x uart_state_scheme, int) state" where
  "uart_write_sync during huart buf nbytes =
     (if \<not> uart_transfer_args_ok huart buf nbytes then ret (- EINVAL)
      else do {
        let h = the huart;
        claimed \<leftarrow> uart_claim_tx h False;
        case claimed of
          Some e \<Rightarrow> ret e
        | None \<Rightarrow> do {
            modify (upd_uart h (\<lambda>c. c\<lparr>tx_buf := buf, tx_size := ucast nbytes\<rparr>));
            uart_write h buf nbytes;
            during;
            c \<leftarrow> get_uart h;
            tx_sem_return \<leftarrow> osal_semaphore_wait (wr_sem c) configUART_SYNC_TIMEOUT_MS;
            whenM tx_sem_return (modify (upd_uart h (\<lambda>c. c\<lparr>tx_is_busy := False\<rparr>)));
            ret 0
          }
      })"

definition uart_write_polling :: "uart_handle_t \<Rightarrow> u64 \<Rightarrow> u32 \<Rightarrow> ('x uart_state_scheme, int) state" where
  "uart_write_polling huart buf nbytes =
     (if \<not> uart_transfer_args_ok huart buf nbytes then ret (- EINVAL)
      else do {
        let h = the huart;
        c \<leftarrow> get_uart h;
        if \<not> is_open c then ret (- EINVAL)
        else do {
          modify (upd_uart h (\<lambda>c. c\<lparr>tx_is_busy := True, tx_is_async := False\<rparr>));
          written \<leftarrow> uart_tx_polling (base_address c) buf nbytes;
          modify (upd_uart h (\<lambda>c. c\<lparr>tx_is_busy := False\<rparr>));
          ret (if written \<noteq> nbytes then - EIO else 0)
        }
      })"

definition uart_read_async :: "uart_handle_t \<Rightarrow> u64 \<Rightarrow> u32 \<Rightarrow> ('x uart_state_scheme, int) state" where
  "uart_read_async huart buf nbytes =
     (if \<not> uart_transfer_args_ok huart buf nbytes then ret (- EINVAL)
      else do {
        let h = the huart;
        claimed \<leftarrow> uart_claim_rx h True;
        case claimed of
          Some e \<Rightarrow> ret e
        | None \<Rightarrow> do {
            modify (upd_uart h (\<lambda>c. c\<lparr>rx_buf := buf, rx_size := ucast nbytes\<rparr>));
            err \<leftarrow> uart_read h buf nbytes;
            ret (if err \<noteq> 0 then - EIO else 0)
          }
      })"

definition uart_read_sync ::
  "('x uart_state_scheme, unit) state \<Rightarrow> uart_handle_t \<Rightarrow> u64 \<Rightarrow> u32 \<Rightarrow> ('x uart_state_scheme, int) state" where
  "uart_read_sync during huart buf nbytes =
     (if \<not> uart_transfer_args_ok huart buf nbytes then ret (- EINVAL)
      else do {
        let h = the huart;
        claimed \<leftarrow> uart_claim_rx h False;
        case claimed of
          Some e \<Rightarrow> ret e
        | None \<Rightarrow> do {
            modify (upd_uart h (\<lambda>c. c\<lparr>rx_buf := buf, rx_size := ucast nbytes\<rparr>));
            err \<leftarrow> uart_read h buf nbytes;
            if err \<noteq> 0 then ret (- EIO)
            else do {
              during;
              c \<leftarrow> get_uart h;
              rx_sem_return \<leftarrow> osal_semaphore_wait (rd_sem c) configUART_SYNC_TIMEOUT_MS;
              whenM (\<not> rx_sem_return) (uart_disable_interrupt (base_address c) INTERRUPT_RX);
              modify (upd_uart h (\<lambda>c. c\<lparr>rx_is_busy := False\<rparr>));
              ret 0
            }
          }
      })"

section \<open>The interrupt handler\<close>

text \<open>The receive and the transmit case of the \<^verbatim>\<open>switch\<close>.\<close>

definition uart_isr_rx :: "nat \<Rightarrow> ('x uart_state_scheme, unit) state" where
  "uart_isr_rx h = do {
     c \<leftarrow> get_uart h;
     whenM (rx_bytes_left c > 0) (do {
       rx_byte_count \<leftarrow> uart_read_fifo (base_address c) (rx_buf c) (ucast (rx_bytes_left c));
       modify (upd_uart h (\<lambda>c. c\<lparr>rx_bytes_left := rx_bytes_left c - ucast rx_byte_count,
                               rx_buf := rx_buf c + ucast rx_byte_count\<rparr>))
     });
     c \<leftarrow> get_uart h;
     whenM (rx_bytes_left c = 0) (do {
       uart_disable_interrupt (base_address c) INTERRUPT_RX;
       if rx_is_async c then do {
         whenM (callback_fn c \<noteq> F_NULL) (emit (Call (callback_fn c) (cb_user_context c) [UART_RD_DONE]));
         modify (upd_uart h (\<lambda>c. c\<lparr>rx_is_async := False, rx_is_busy := False\<rparr>))
       } else do { _ \<leftarrow> osal_semaphore_post (rd_sem c); ret () }
     })
   }"

definition uart_isr_tx :: "nat \<Rightarrow> ('x uart_state_scheme, unit) state" where
  "uart_isr_tx h = do {
     c \<leftarrow> get_uart h;
     if tx_bytes_left c > 0 then do {
       tx_byte_count \<leftarrow> uart_write_fifo (base_address c) (tx_buf c) (ucast (tx_bytes_left c));
       modify (upd_uart h (\<lambda>c. c\<lparr>tx_bytes_left := tx_bytes_left c - ucast tx_byte_count,
                               tx_buf := tx_buf c + ucast tx_byte_count\<rparr>))
     } else do {
       uart_disable_interrupt (base_address c) INTERRUPT_TX;
       if tx_is_async c then do {
         whenM (callback_fn c \<noteq> F_NULL) (emit (Call (callback_fn c) (cb_user_context c) [UART_WR_DONE]));
         modify (upd_uart h (\<lambda>c. c\<lparr>tx_is_async := False, tx_is_busy := False\<rparr>))
       } else do { _ \<leftarrow> osal_semaphore_post (wr_sem c); ret () }
     }
   }"

text \<open>The parameter is checked against the two descriptors.\<close>

definition uart_isr :: "vptr \<Rightarrow> ('x uart_state_scheme, unit) state" where
  "uart_isr param =
     (case param of
        V_uart h \<Rightarrow>
          if \<not> uart_is_handle_valid (Some h) then ret ()
          else do {
            c \<leftarrow> get_uart h;
            ident \<leftarrow> get_int_status (base_address c);
            if ident = UART_RXBUF_RDY_INT then uart_isr_rx h
            else if ident = UART_TXBUF_EMPTY_INT then uart_isr_tx h
            else ret ()
          }
      | _ \<Rightarrow> ret ())"

lemmas uart_op_defs =
  uart_open_def uart_ioctl_def uart_set_callback_def uart_cancel_def uart_close_def uart_write_def
  uart_read_def uart_write_async_def uart_write_sync_def uart_write_polling_def uart_read_async_def
  uart_read_sync_def uart_isr_rx_def uart_isr_tx_def uart_isr_def uart_claim_tx_def uart_claim_rx_def

section \<open>The descriptor table\<close>

interpretation ports: slots uart_descriptors upd_uart "\<lambda>_ _. True"
  by unfold_locales (simp_all add: upd_uart_def)

lemma uart_descriptors_upd:
  "uart_descriptors (upd_uart i f s) j = (if j = i then f (uart_descriptors s i) else uart_descriptors s j)"
  by (simp add: upd_uart_def)

lemma upd_uart_fields [simp]:
  "env (upd_uart i f s) = env s" "trace (upd_uart i f s) = trace s" "mem (upd_uart i f s) = mem s"
  "interrupt_callbacks (upd_uart i f s) = interrupt_callbacks s"
  "gic_dist (upd_uart i f s) = gic_dist s" "gic_redis (upd_uart i f s) = gic_redis s"
  "upd_uart i f (s\<lparr>trace := t\<rparr>) = (upd_uart i f s)\<lparr>trace := t\<rparr>"
  by (simp_all add: upd_uart_def)

section \<open>Programs that do not transmit\<close>

text \<open>
  \<open>quiet a m\<close>: a run of \<open>m\<close> changes nothing but the trace and does not write the
  register \<open>a\<close>; it may read, program other registers, and call the kernel.
\<close>

named_theorems quiet_intros

definition quiet :: "u64 \<Rightarrow> ('x machine_scheme, 'a) state \<Rightarrow> bool" where
  "quiet a m \<longleftrightarrow> (\<forall>s. \<exists>t. final m s = s\<lparr>trace := t\<rparr> \<and> sent a t = sent a (trace s))"

lemma quietI: "(\<And>s. \<exists>t. final m s = s\<lparr>trace := t\<rparr> \<and> sent a t = sent a (trace s)) \<Longrightarrow> quiet a m"
  by (simp add: quiet_def)

lemma quietE:
  assumes "quiet a m"
  obtains t where "final m s = s\<lparr>trace := t\<rparr>" "sent a t = sent a (trace s)"
  using assms by (auto simp: quiet_def)

lemma quiet_same: "(\<And>s. final m s = s) \<Longrightarrow> quiet a m"
  by (intro quietI) (metis machine.surjective machine.update_convs(2))

lemma quiet_ret [quiet_intros]: "quiet a (ret x)" and quiet_gets [quiet_intros]: "quiet a (gets f)"
  and quiet_peek [quiet_intros]: "quiet a (peek p)"
  by (rule quiet_same, simp)+

lemma quiet_bind [quiet_intros]:
  assumes m: "quiet a m" and f: "\<And>x. quiet a (f x)"
  shows "quiet a (m \<bind> f)"
proof (rule quietI)
  fix s
  obtain t where t: "final m s = s\<lparr>trace := t\<rparr>" "sent a t = sent a (trace s)"
    using m by (rule quietE)
  obtain u where "final (f (result m s)) (s\<lparr>trace := t\<rparr>) = (s\<lparr>trace := t\<rparr>)\<lparr>trace := u\<rparr>"
      "sent a u = sent a (trace (s\<lparr>trace := t\<rparr>))"
    using f by (rule quietE)
  with t show "\<exists>v. final (m \<bind> f) s = s\<lparr>trace := v\<rparr> \<and> sent a v = sent a (trace s)"
    by (simp add: split_beta) metis
qed

lemma quiet_if [quiet_intros]: "(b \<Longrightarrow> quiet a m) \<Longrightarrow> (\<not> b \<Longrightarrow> quiet a n) \<Longrightarrow> quiet a (if b then m else n)"
  by simp

lemma quiet_whenM [quiet_intros]: "(b \<Longrightarrow> quiet a m) \<Longrightarrow> quiet a (whenM b m)"
  unfolding whenM_def by (intro quiet_intros)

lemma quiet_prod [quiet_intros]: "(\<And>x y. quiet a (f x y)) \<Longrightarrow> quiet a (case p of (x, y) \<Rightarrow> f x y)"
  by (cases p) simp

lemma quiet_let [quiet_intros]: "(\<And>x. quiet a (f x)) \<Longrightarrow> quiet a (let x = v in f x)"
  by simp

lemma quiet_emit [quiet_intros]:
  assumes "\<And>v. e \<noteq> Wr32 a v"
  shows "quiet a (emit e)"
proof -
  have "sent a (e # t) = sent a t" for t
  proof (cases e)
    case (Wr32 b v)
    with assms [of v] show ?thesis by auto
  qed simp_all
  then show ?thesis
    by (auto simp: quiet_def intro!: exI)
qed

lemma quiet_prims [quiet_intros]:
  "quiet a (load32 b)" "quiet a (RD_REG32 r)" "quiet a (kern c)"
  by (auto simp: quiet_def intro!: exI)

lemma quiet_write [quiet_intros]: "a \<noteq> ucast r \<Longrightarrow> quiet a (WR_REG32 r v)"
  by (auto simp: quiet_def intro!: exI)

lemma quiet_osal [quiet_intros]:
  "quiet a (osal_semaphore_wait h t)" "quiet a (osal_semaphore_post h)"
  "quiet a (osal_mutex_lock h t)" "quiet a (osal_mutex_unlock h)"
  unfolding osal_defs by (intro quiet_intros)+

lemma quiet_get_clk [quiet_intros]: "quiet a (clk_mngr_get_clk b)"
  by (cases b; simp add: clk_rate_defs Let_def; intro quiet_intros)

lemma thr_offsets:
  "thr base \<noteq> ucast (base + UART_LCR)" "thr base \<noteq> ucast (base + UART_IER)"
  by (simp_all add: thr_def uart_regs)

lemma quiet_uart_ll [quiet_intros]:
  "quiet (thr base) (uart_enable_interrupt base i)" "quiet (thr base) (uart_disable_interrupt base i)"
  "quiet (thr base) (uart_get_config base)" "quiet a (get_int_status base)"
  unfolding uart_enable_interrupt_def uart_disable_interrupt_def uart_get_config_def uart_get_baud_def
    get_int_status_def
  by (cases i; simp; intro quiet_intros thr_offsets)
    (cases i; simp; intro quiet_intros thr_offsets | intro quiet_intros thr_offsets)+

text \<open>A kernel that grants what is asked of it: locks are obtained and released.\<close>

definition granting :: "env \<Rightarrow> bool" where
  "granting e \<longleftrightarrow> (\<forall>t c. c \<noteq> xPortIsInsideInterrupt \<longrightarrow> kernel e t c \<noteq> 0)"

lemma granted:
  assumes "granting (env s)"
  shows "result (osal_mutex_lock m t) s" and "result (osal_mutex_unlock m) s"
    and "result (osal_semaphore_wait m t) s" and "result (osal_semaphore_post m) s"
  using assms by (simp_all add: osal_defs granting_def split_beta)

lemma granted_run:
  assumes "granting (env s)"
  obtains t where "run_state (osal_mutex_lock m w) s = (True, s\<lparr>trace := t\<rparr>)" "sent a t = sent a (trace s)"
proof -
  obtain t where "final (osal_mutex_lock m w) s = s\<lparr>trace := t\<rparr>" "sent a t = sent a (trace s)"
    by (rule quietE [OF quiet_osal(3)])
  with that granted(1) [OF assms, of m w] show ?thesis
    by (metis prod.collapse)
qed

lemma released_run:
  assumes "granting (env s)"
  obtains t where "run_state (osal_mutex_unlock m) s = (True, s\<lparr>trace := t\<rparr>)" "sent a t = sent a (trace s)"
proof -
  obtain t where "final (osal_mutex_unlock m) s = s\<lparr>trace := t\<rparr>" "sent a t = sent a (trace s)"
    by (rule quietE [OF quiet_osal(4)])
  with that granted(2) [OF assms, of m] show ?thesis
    by (metis prod.collapse)
qed

lemma lock_unlock_run:
  assumes "granting (env s)"
  obtains t u where "run_state (osal_mutex_lock m w) s = (True, s\<lparr>trace := t\<rparr>)"
    "run_state (osal_mutex_unlock m) (s\<lparr>trace := t\<rparr>) = (True, s\<lparr>trace := u\<rparr>)"
    "sent a u = sent a (trace s)"
proof -
  obtain t where t: "run_state (osal_mutex_lock m w) s = (True, s\<lparr>trace := t\<rparr>)" "sent a t = sent a (trace s)"
    by (rule granted_run [OF assms])
  have "granting (env (s\<lparr>trace := t\<rparr>))"
    using assms by simp
  then obtain u where "run_state (osal_mutex_unlock m) (s\<lparr>trace := t\<rparr>) = (True, (s\<lparr>trace := t\<rparr>)\<lparr>trace := u\<rparr>)"
      "sent a u = sent a (trace (s\<lparr>trace := t\<rparr>))"
    by (rule released_run)
  with t that show ?thesis
    by simp
qed

section \<open>The transmit stream\<close>

text \<open>
  The transmitter of port \<open>h\<close> while it sends the \<open>n\<close> bytes at \<open>buf\<close>: what has been written
  to the transmit register since the start is the part of the buffer that the descriptor does
  not count as left, the descriptor points to the rest, and the port is idle only when nothing
  is left.
\<close>

definition tx_stream ::
  "nat \<Rightarrow> u32 \<Rightarrow> (u64 \<Rightarrow> u8) \<Rightarrow> u64 \<Rightarrow> nat \<Rightarrow> u32 list \<Rightarrow> 'x uart_state_scheme \<Rightarrow> bool" where
  "tx_stream h base m buf n before s \<longleftrightarrow>
     (let c = uart_descriptors s h; left = unat (tx_bytes_left c)
      in base_address c = base \<and> mem s = m \<and> granting (env s) \<and> left \<le> n \<and> is_open c
       \<and> tx_buf c = buf + word_of_nat (n - left) \<and> tx_size c = word_of_nat n
       \<and> rx_bytes_left c = 0 \<and> (\<not> tx_is_busy c \<longrightarrow> left = 0)
       \<and> sent (thr base) (trace s) = before @ map ucast (bytes_at m buf (n - left)))"

lemma tx_stream_quiet:
  fixes m :: "('x uart_state_scheme, 'a) state"
  assumes "quiet (thr base) m"
  shows "keeps (tx_stream h base mm buf n before) m"
proof (rule keepsI)
  fix s :: "'x uart_state_scheme" assume "tx_stream h base mm buf n before s"
  moreover obtain t where "final m s = s\<lparr>trace := t\<rparr>" "sent (thr base) t = sent (thr base) (trace s)"
    using assms by (rule quietE)
  ultimately show "tx_stream h base mm buf n before (final m s)"
    by (simp add: tx_stream_def)
qed

lemma tx_stream_upd:
  assumes "\<And>c. (base_address (f c), tx_bytes_left (f c), is_open (f c), tx_buf (f c), tx_size (f c),
      rx_bytes_left (f c)) = (base_address c, tx_bytes_left c, is_open c, tx_buf c, tx_size c, rx_bytes_left c)"
    and "\<And>c. tx_is_busy (f c) = tx_is_busy c"
  shows "keeps (tx_stream h base mm buf n before) (modify (upd_uart h f))"
  using assms by (intro keepsI) (simp add: tx_stream_def uart_descriptors_upd Let_def)

lemma tx_stream_other:
  assumes "j \<noteq> h"
  shows "keeps (tx_stream h base mm buf n before) (modify (upd_uart j f))"
  using assms by (intro keepsI) (simp add: tx_stream_def uart_descriptors_upd)

lemma word_of_nat_small: "i < 65536 \<Longrightarrow> unat (word_of_nat i :: u64) = i"
  "i < 65536 \<Longrightarrow> unat (word_of_nat i :: u32) = i"
  by (simp_all add: unsigned_of_nat take_bit_nat_eq_self)

lemma unat_ucast_u64_u32: "unat (w :: u64) < 65536 \<Longrightarrow> unat (ucast w :: u32) = unat w"
  by (simp add: unsigned_ucast_eq take_bit_nat_eq_self)

text \<open>The transmitter with nothing left to send.\<close>

definition tx_idle ::
  "nat \<Rightarrow> u32 \<Rightarrow> (u64 \<Rightarrow> u8) \<Rightarrow> u64 \<Rightarrow> nat \<Rightarrow> u32 list \<Rightarrow> 'x uart_state_scheme \<Rightarrow> bool" where
  "tx_idle h base m buf n before s \<longleftrightarrow>
     tx_stream h base m buf n before s \<and> tx_bytes_left (uart_descriptors s h) = 0"

lemma tx_idle_quiet:
  fixes m :: "('x uart_state_scheme, 'a) state"
  assumes "quiet (thr base) m"
  shows "keeps (tx_idle h base mm buf n before) m"
proof (rule keepsI)
  fix s :: "'x uart_state_scheme" assume "tx_idle h base mm buf n before s"
  moreover obtain t where "final m s = s\<lparr>trace := t\<rparr>"
    using assms by (rule quietE)
  ultimately show "tx_idle h base mm buf n before (final m s)"
    using keepsD [OF tx_stream_quiet [OF assms]] by (fastforce simp: tx_idle_def)
qed

lemma tx_idle_upd:
  "keeps (tx_idle h base mm buf n before) (modify (upd_uart h (\<lambda>c. c\<lparr>tx_is_async := False, tx_is_busy := False\<rparr>)))"
  by (intro keepsI) (simp add: tx_idle_def tx_stream_def uart_descriptors_upd Let_def)

text \<open>One call of the FIFO writer, accounted for in the descriptor, advances the stream.\<close>

definition advance :: "nat \<Rightarrow> uart_context \<Rightarrow> uart_context" where
  "advance k c = c\<lparr>tx_bytes_left := tx_bytes_left c - word_of_nat k, tx_buf := tx_buf c + word_of_nat k\<rparr>"

lemma tx_stream_advance:
  assumes inv: "tx_stream h base m buf n before s" and n: "n < 65536"
    and k: "k \<le> unat (tx_bytes_left (uart_descriptors s h))"
    and t: "sent (thr base) t = sent (thr base) (trace s)
              @ map ucast (bytes_at m (tx_buf (uart_descriptors s h)) k)"
  shows "tx_stream h base m buf n before (upd_uart h (advance k) (s\<lparr>trace := t\<rparr>))"
proof -
  let ?c = "uart_descriptors s h" and ?left = "unat (tx_bytes_left (uart_descriptors s h))"
  have left: "?left \<le> n" and buf: "tx_buf ?c = buf + word_of_nat (n - ?left)"
    and snt: "sent (thr base) (trace s) = before @ map ucast (bytes_at m buf (n - ?left))"
    using inv by (simp_all add: tx_stream_def Let_def)
  have k16: "unat (word_of_nat k :: u64) = k"
    using k left n by (simp add: word_of_nat_small)
  have left': "unat (tx_bytes_left ?c - word_of_nat k) = ?left - k"
    using k by (subst unat_sub) (simp_all add: word_le_nat_alt k16)
  have split: "n - (?left - k) = (n - ?left) + k"
    using k left by simp
  have buf': "tx_buf ?c + word_of_nat k = buf + word_of_nat (n - (?left - k))"
    by (simp only: buf split of_nat_add add.assoc)
  have sent': "sent (thr base) t = before @ map ucast (bytes_at m buf (n - (?left - k)))"
    by (simp only: t snt split bytes_at_add buf map_append append_assoc)
  have rest: "base_address ?c = base" "mem s = m" "granting (env s)" "is_open ?c"
    "tx_size ?c = word_of_nat n" "rx_bytes_left ?c = 0" "\<not> tx_is_busy ?c \<longrightarrow> ?left - k = 0"
    "?left - k \<le> n"
    using inv left by (simp_all add: tx_stream_def Let_def)
  show ?thesis
    by (simp add: tx_stream_def uart_descriptors_upd advance_def Let_def left' sent' buf' rest)
qed

lemma write_fifo_advances:
  assumes inv: "tx_stream h base m buf n before s" and n: "n < 65536"
  obtains k t where
    "run_state (uart_write_fifo base (tx_buf (uart_descriptors s h))
       (ucast (tx_bytes_left (uart_descriptors s h)))) s = (word_of_nat k, s\<lparr>trace := t\<rparr>)"
    "(ucast (word_of_nat k :: u16) :: u64) = word_of_nat k"
    "tx_stream h base m buf n before (upd_uart h (advance k) (s\<lparr>trace := t\<rparr>))"
proof -
  let ?c = "uart_descriptors s h"
  have left: "unat (tx_bytes_left ?c) < 65536" and m: "mem s = m"
    using inv n by (simp_all add: tx_stream_def Let_def)
  obtain k t where k: "k \<le> unat (tx_bytes_left ?c)"
      and run: "run_state (uart_write_fifo base (tx_buf ?c) (ucast (tx_bytes_left ?c))) s
        = (word_of_nat k, s\<lparr>trace := t\<rparr>)"
      and t: "sent (thr base) t = sent (thr base) (trace s) @ map ucast (bytes_at (mem s) (tx_buf ?c) k)"
    using write_fifo_sends [of "ucast (tx_bytes_left ?c)" base "tx_buf ?c" s]
    by (auto simp: unat_ucast_u64_u32 left)
  have "(ucast (word_of_nat k :: u16) :: u64) = word_of_nat k"
    using k left by (intro ucast_u16_of_nat) simp
  with that run tx_stream_advance [OF inv n k] t m show ?thesis
    by blast
qed

lemma isr_tx_keeps_stream:
  assumes n: "n < 65536"
  shows "keeps (tx_stream h base m buf n before) (uart_isr_tx h)"
proof (rule keepsI)
  fix s :: "'x uart_state_scheme" assume inv: "tx_stream h base m buf n before s"
  let ?c = "uart_descriptors s h"
  have base: "base_address ?c = base"
    using inv by (simp add: tx_stream_def Let_def)
  show "tx_stream h base m buf n before (final (uart_isr_tx h) s)"
  proof (cases "tx_bytes_left ?c > 0")
    case True
    obtain k t where "run_state (uart_write_fifo base (tx_buf ?c) (ucast (tx_bytes_left ?c))) s
          = (word_of_nat k, s\<lparr>trace := t\<rparr>)"
        and "(ucast (word_of_nat k :: u16) :: u64) = word_of_nat k"
        and "tx_stream h base m buf n before (upd_uart h (advance k) (s\<lparr>trace := t\<rparr>))"
      by (rule write_fifo_advances [OF inv n])
    with True show ?thesis
      by (simp add: uart_isr_tx_def base advance_def [abs_def] split_beta)
  next
    case False
    then have idle: "tx_bytes_left ?c = 0"
      by (simp add: word_gt_0)
    let ?J = "tx_idle h base m buf n before"
    have "keeps ?J (do {
       uart_disable_interrupt base INTERRUPT_TX;
       if tx_is_async ?c then do {
         whenM (callback_fn ?c \<noteq> F_NULL) (emit (Call (callback_fn ?c) (cb_user_context ?c) [UART_WR_DONE]));
         modify (upd_uart h (\<lambda>c. c\<lparr>tx_is_async := False, tx_is_busy := False\<rparr>))
       } else do { _ \<leftarrow> osal_semaphore_post (wr_sem ?c); ret () } })"
      by (intro keeps_intros tx_idle_quiet tx_idle_upd quiet_intros; simp)
    from keepsD [OF this, of s] show ?thesis
      using False inv idle
      by (cases "tx_is_async ?c"; cases "callback_fn ?c = F_NULL";
          simp add: uart_isr_tx_def base tx_idle_def split_beta)
  qed
qed

lemma isr_rx_keeps_stream: "keeps (tx_stream h base m buf n before) (uart_isr_rx h)"
proof (rule keepsI)
  fix s :: "'x uart_state_scheme" assume inv: "tx_stream h base m buf n before s"
  let ?c = "uart_descriptors s h"
  have c: "base_address ?c = base" "rx_bytes_left ?c = 0"
    using inv by (simp_all add: tx_stream_def Let_def)
  have "keeps (tx_stream h base m buf n before) (do {
       uart_disable_interrupt base INTERRUPT_RX;
       if rx_is_async ?c then do {
         whenM (callback_fn ?c \<noteq> F_NULL) (emit (Call (callback_fn ?c) (cb_user_context ?c) [UART_RD_DONE]));
         modify (upd_uart h (\<lambda>c. c\<lparr>rx_is_async := False, rx_is_busy := False\<rparr>))
       } else do { _ \<leftarrow> osal_semaphore_post (rd_sem ?c); ret () } })"
    by (intro keeps_intros tx_stream_quiet tx_stream_upd quiet_intros; simp)
  from keepsD [OF this inv] show "tx_stream h base m buf n before (final (uart_isr_rx h) s)"
    by (cases "rx_is_async ?c"; cases "callback_fn ?c = F_NULL"; simp add: uart_isr_rx_def c split_beta)
qed

lemma isr_keeps_stream:
  assumes "n < 65536"
  shows "keeps (tx_stream h base m buf n before) (uart_isr (V_uart h))"
  unfolding uart_isr_def vptr.case
  by (intro keeps_intros isr_rx_keeps_stream isr_tx_keeps_stream [OF assms]
      tx_stream_quiet quiet_uart_ll(4))

text \<open>While the port is busy, the calls that would disturb it are refused.\<close>

lemma busy_write_quiet:
  assumes "granting (env s)" and "is_open (uart_descriptors s h)" and "tx_is_busy (uart_descriptors s h)"
  shows "\<exists>t e. run_state (uart_write_async (Some h) b k) s = (e, s\<lparr>trace := t\<rparr>) \<and> sent a t = sent a (trace s)
    \<and> (uart_transfer_args_ok (Some h) b k \<longrightarrow> e = - EBUSY)"
proof (cases "uart_transfer_args_ok (Some h) b k")
  case True
  let ?c = "uart_descriptors s h"
  obtain t u where
      "run_state (osal_mutex_lock (mutex ?c) OSAL_TIMEOUT_WAIT_FOREVER) s = (True, s\<lparr>trace := t\<rparr>)"
      "run_state (osal_mutex_unlock (mutex ?c)) (s\<lparr>trace := t\<rparr>) = (True, s\<lparr>trace := u\<rparr>)"
      "sent a u = sent a (trace s)"
    by (rule lock_unlock_run [OF assms(1)])
  with True assms show ?thesis
    by (simp add: uart_write_async_def uart_claim_tx_def) blast
qed (auto simp: uart_write_async_def intro!: exI [of _ "trace s"])

lemma busy_write_sync_quiet:
  assumes "granting (env s)" and "is_open (uart_descriptors s h)" and "tx_is_busy (uart_descriptors s h)"
  shows "\<exists>t e. run_state (uart_write_sync during (Some h) b k) s = (e, s\<lparr>trace := t\<rparr>)
    \<and> sent a t = sent a (trace s)"
proof (cases "uart_transfer_args_ok (Some h) b k")
  case True
  let ?c = "uart_descriptors s h"
  obtain t u where
      "run_state (osal_mutex_lock (mutex ?c) OSAL_TIMEOUT_WAIT_FOREVER) s = (True, s\<lparr>trace := t\<rparr>)"
      "run_state (osal_mutex_unlock (mutex ?c)) (s\<lparr>trace := t\<rparr>) = (True, s\<lparr>trace := u\<rparr>)"
      "sent a u = sent a (trace s)"
    by (rule lock_unlock_run [OF assms(1)])
  with True assms show ?thesis
    by (simp add: uart_write_sync_def uart_claim_tx_def) blast
qed (auto simp: uart_write_sync_def intro!: exI [of _ "trace s"])

lemma busy_callback_quiet:
  assumes "granting (env s)" and "tx_is_busy (uart_descriptors s h)"
  shows "\<exists>t e. run_state (uart_set_callback (Some h) f p) s = (e, s\<lparr>trace := t\<rparr>) \<and> sent a t = sent a (trace s)"
proof -
  let ?c = "uart_descriptors s h"
  obtain t u where
      "run_state (osal_mutex_lock (mutex ?c) OSAL_TIMEOUT_WAIT_FOREVER) s = (True, s\<lparr>trace := t\<rparr>)"
      "run_state (osal_mutex_unlock (mutex ?c)) (s\<lparr>trace := t\<rparr>) = (True, s\<lparr>trace := u\<rparr>)"
      "sent a u = sent a (trace s)"
    by (rule lock_unlock_run [OF assms(1)])
  with assms show ?thesis
    by (simp add: uart_set_callback_def) blast
qed

lemma busy_ioctl_quiet:
  assumes "tx_is_busy (uart_descriptors s h)" and "base_address (uart_descriptors s h) = base"
  shows "\<exists>t e. run_state (uart_ioctl (Some h) cmd) s = (e, s\<lparr>trace := t\<rparr>)
    \<and> sent (thr base) t = sent (thr base) (trace s)"
proof (cases "cmd = UART_GET_CONFIG \<and> uart_is_handle_valid (Some h)")
  case True
  obtain t where "final (uart_get_config base) s = s\<lparr>trace := t\<rparr>" "sent (thr base) t = sent (thr base) (trace s)"
    by (rule quietE [OF quiet_uart_ll(3)])
  with True assms(2) show ?thesis
    by (auto simp: uart_ioctl_def split_beta)
next
  case False
  have same: "s = s\<lparr>trace := trace s\<rparr>" by simp
  show ?thesis
    using False assms(1)
    by (cases cmd) (auto simp: uart_ioctl_def intro!: exI [of _ "trace s"])
qed

text \<open>
  What can happen while the port has a transfer of ours under way: its interrupt, and on the
  same port any further write, ioctl or change of callback, which find it busy.
\<close>

inductive tx_reaches :: "nat \<Rightarrow> 'x uart_state_scheme \<Rightarrow> 'x uart_state_scheme \<Rightarrow> bool" for h s0 where
  started: "tx_reaches h s0 s0"
| interrupt: "tx_reaches h s0 s \<Longrightarrow> tx_reaches h s0 (final (uart_isr (V_uart h)) s)"
| write_async: "tx_reaches h s0 s \<Longrightarrow> tx_is_busy (uart_descriptors s h) \<Longrightarrow>
    tx_reaches h s0 (final (uart_write_async (Some h) b k) s)"
| write_sync: "tx_reaches h s0 s \<Longrightarrow> tx_is_busy (uart_descriptors s h) \<Longrightarrow>
    tx_reaches h s0 (final (uart_write_sync during (Some h) b k) s)"
| callback: "tx_reaches h s0 s \<Longrightarrow> tx_is_busy (uart_descriptors s h) \<Longrightarrow>
    tx_reaches h s0 (final (uart_set_callback (Some h) f p) s)"
| ioctl: "tx_reaches h s0 s \<Longrightarrow> tx_is_busy (uart_descriptors s h) \<Longrightarrow>
    tx_reaches h s0 (final (uart_ioctl (Some h) cmd) s)"

inductive_cases tx_reachesE: "tx_reaches h s0 s"

lemma tx_stream_trace:
  assumes "tx_stream h base m buf n before s" and "sent (thr base) t = sent (thr base) (trace s)"
  shows "tx_stream h base m buf n before (s\<lparr>trace := t\<rparr>)"
  using assms by (simp add: tx_stream_def)

lemma tx_reaches_stream:
  assumes "tx_reaches h s0 s" and "tx_stream h base m buf n before s0" and "n < 65536"
  shows "tx_stream h base m buf n before s"
  using assms
proof (induction rule: tx_reaches.induct)
  case (interrupt s)
  then show ?case by (intro keepsD [OF isr_keeps_stream]) simp_all
next
  case (write_async s b k)
  then have inv: "tx_stream h base m buf n before s" by simp
  then have "granting (env s)" "is_open (uart_descriptors s h)"
    by (simp_all add: tx_stream_def Let_def)
  from busy_write_quiet [OF this write_async.hyps(2), of b k "thr base"]
  obtain t where "final (uart_write_async (Some h) b k) s = s\<lparr>trace := t\<rparr>"
      "sent (thr base) t = sent (thr base) (trace s)" by auto
  then show ?case using tx_stream_trace [OF inv] by simp
next
  case (write_sync s during b k)
  then have inv: "tx_stream h base m buf n before s" by simp
  then have "granting (env s)" "is_open (uart_descriptors s h)"
    by (simp_all add: tx_stream_def Let_def)
  from busy_write_sync_quiet [OF this write_sync.hyps(2), of during b k "thr base"]
  obtain t where "final (uart_write_sync during (Some h) b k) s = s\<lparr>trace := t\<rparr>"
      "sent (thr base) t = sent (thr base) (trace s)" by auto
  then show ?case using tx_stream_trace [OF inv] by simp
next
  case (callback s f p)
  then have inv: "tx_stream h base m buf n before s" by simp
  then have "granting (env s)"
    by (simp add: tx_stream_def Let_def)
  from busy_callback_quiet [OF this callback.hyps(2), of f p "thr base"]
  obtain t where "final (uart_set_callback (Some h) f p) s = s\<lparr>trace := t\<rparr>"
      "sent (thr base) t = sent (thr base) (trace s)" by auto
  then show ?case using tx_stream_trace [OF inv] by simp
next
  case (ioctl s cmd)
  then have inv: "tx_stream h base m buf n before s" by simp
  then have "base_address (uart_descriptors s h) = base"
    by (simp add: tx_stream_def Let_def)
  from busy_ioctl_quiet [OF ioctl.hyps(2) this, of cmd]
  obtain t where "final (uart_ioctl (Some h) cmd) s = s\<lparr>trace := t\<rparr>"
      "sent (thr base) t = sent (thr base) (trace s)" by auto
  then show ?case using tx_stream_trace [OF inv] by simp
qed simp

text \<open>The start of the stream.\<close>

lemma write_async_starts_stream:
  assumes ok: "result (uart_write_async (Some h) buf nb) s = 0" and g: "granting (env s)"
    and nb: "unat nb < 65536" and rx: "rx_bytes_left (uart_descriptors s h) = 0"
  shows "tx_stream h (base_address (uart_descriptors s h)) (mem s) buf (unat nb)
    (sent (thr (base_address (uart_descriptors s h))) (trace s)) (final (uart_write_async (Some h) buf nb) s)"
proof -
  let ?c = "uart_descriptors s h" and ?base = "base_address (uart_descriptors s h)"
  let ?before = "sent (thr ?base) (trace s)"
  obtain t where t: "run_state (osal_mutex_lock (mutex ?c) OSAL_TIMEOUT_WAIT_FOREVER) s = (True, s\<lparr>trace := t\<rparr>)"
      "sent (thr ?base) t = ?before"
    by (rule granted_run [OF g])
  have args: "uart_transfer_args_ok (Some h) buf nb"
    using ok by (auto simp: uart_write_async_def split: if_splits)
  have rel: "result (osal_mutex_unlock (mutex ?c)) (s\<lparr>trace := t\<rparr>)"
    using g by (intro granted(2)) simp
  have idle: "is_open ?c \<and> \<not> tx_is_busy ?c"
    using ok args t rel by (auto simp: uart_write_async_def uart_claim_tx_def split_beta split: if_splits)
  let ?s1 = "upd_uart h (\<lambda>c. c\<lparr>tx_is_busy := True, tx_is_async := True\<rparr>) (s\<lparr>trace := t\<rparr>)"
  have "granting (env ?s1)"
    using g by simp
  then obtain u where u: "run_state (osal_mutex_unlock (mutex ?c)) ?s1 = (True, ?s1\<lparr>trace := u\<rparr>)"
      "sent (thr ?base) u = sent (thr ?base) (trace ?s1)"
    by (rule released_run)
  let ?s2 = "upd_uart h (\<lambda>c. c\<lparr>tx_bytes_left := ucast nb\<rparr>)
     (upd_uart h (\<lambda>c. c\<lparr>tx_buf := buf, tx_size := ucast nb\<rparr>) (?s1\<lparr>trace := u\<rparr>))"
  have n64: "unat (ucast nb :: u64) = unat nb"
    by (rule unat_ucast_u32_u64)
  have start: "tx_stream h ?base (mem s) buf (unat nb) ?before ?s2"
    using g idle rx t u by (simp add: tx_stream_def uart_descriptors_upd Let_def n64)
  obtain k v where k: "run_state (uart_write_fifo ?base (tx_buf (uart_descriptors ?s2 h))
         (ucast (tx_bytes_left (uart_descriptors ?s2 h)))) ?s2 = (word_of_nat k, ?s2\<lparr>trace := v\<rparr>)"
      "(ucast (word_of_nat k :: u16) :: u64) = word_of_nat k"
      "tx_stream h ?base (mem s) buf (unat nb) ?before (upd_uart h (advance k) (?s2\<lparr>trace := v\<rparr>))"
    by (rule write_fifo_advances [OF start nb])
  have run: "final (uart_write_async (Some h) buf nb) s =
     final (uart_enable_interrupt ?base INTERRUPT_TX) (upd_uart h (advance k) (?s2\<lparr>trace := v\<rparr>))"
    using k t u idle args
    by (simp add: uart_write_async_def uart_claim_tx_def uart_write_def uart_descriptors_upd
        advance_def [abs_def] split_beta)
  show ?thesis
    unfolding run by (rule keepsD [OF tx_stream_quiet [OF quiet_uart_ll(1)] k(3)])
qed


text \<open>Port 0 open, on a device that has room and whose interrupt reports an empty FIFO.\<close>

definition uart_machine :: uart_state where
  "uart_machine = gpio_state.extend gpio_machine \<lparr>uart_descriptors = (\<lambda>_. uart_zero)\<rparr>"

lemma uart_machine_simps [simp]:
  "env uart_machine = boot_env" "trace uart_machine = []" "mem uart_machine = (\<lambda>_. 0)"
  "uart_descriptors uart_machine = (\<lambda>_. uart_zero)" "interrupt_callbacks uart_machine = initial_callbacks"
  "gic_redis uart_machine = 0x1D060000" "gic_dist uart_machine = 0x1D000000" "gic_max_redis uart_machine = 0"
  by (simp_all add: uart_machine_def gpio_state.defs gpio_machine_def wdt_state.defs wdt_machine_def
      timer_state.defs boot_machine_def timer_machine_def irq_state.defs irq_machine_def
      gic_state.defs gic_machine_def REGISTER_SOCFPGA_DIST_BASE_ADDR_def
      REGISTER_SOCFPGA_REDIS_BASE_ADDR_def)

definition port_machine :: uart_state where
  "port_machine = upd_uart 0 (\<lambda>_. uart_zero\<lparr>is_open := True, base_address := 0x10C02000, mutex := 1\<rparr>)
     (uart_machine\<lparr>env := ram_env\<lparr>hw_rd32 := \<lambda>_ _. 2\<rparr>, mem := \<lambda>a. ucast a\<rparr>)"

lemma port_machine_simps [simp]:
  "env port_machine = ram_env\<lparr>hw_rd32 := \<lambda>_ _. 2\<rparr>" "trace port_machine = []" "mem port_machine = ucast"
  "uart_descriptors port_machine 0 = uart_zero\<lparr>is_open := True, base_address := 0x10C02000, mutex := 1\<rparr>"
  by (simp_all add: port_machine_def uart_descriptors_upd fun_eq_iff)

lemma port_write_accepted: "result (uart_write_async (Some 0) 0x100 2) port_machine = 0"
  by (simp add: uart_write_async_def uart_claim_tx_def uart_transfer_args_ok_def uart_is_handle_valid_def
      osal_defs ram_env_def uart_zero_def split_beta)


section \<open>Opening and closing\<close>

lemma uart_descriptors_callback [simp]: "uart_descriptors (set_callback n f s) = uart_descriptors s"
  by (simp add: set_callback_def)

lemma uart_frame [simp]:
  fixes s :: "'x uart_state_scheme"
  shows "uart_descriptors (final (interrupt_register_isr n f d) s) = uart_descriptors s"
    "uart_descriptors (final (interrupt_enable n p) s) = uart_descriptors s"
    "uart_descriptors (final osal_mutex_create s) = uart_descriptors s"
    "uart_descriptors (final osal_semaphore_create s) = uart_descriptors s"
    "uart_descriptors (final (osal_semaphore_delete m) s) = uart_descriptors s"
    "uart_descriptors (final (uart_init i) s) = uart_descriptors s"
    "uart_descriptors (final (uart_deinit i) s) = uart_descriptors s"
    "interrupt_callbacks (final (uart_init i) s) = interrupt_callbacks s"
    "interrupt_callbacks (final osal_mutex_create s) = interrupt_callbacks s"
    "interrupt_callbacks (final osal_semaphore_create s) = interrupt_callbacks s"
proof -
  have only: "irq_blind (\<lambda>s :: 'x uart_state_scheme. uart_descriptors s = v)" for v
    by (rule irq_blindI) simp_all
  have cb: "trace_blind (\<lambda>s :: 'x uart_state_scheme. interrupt_callbacks s = v)" for v
    by (rule trace_blindI) simp
  note blind = irq_blind_trace [OF only]
  show "uart_descriptors (final (interrupt_register_isr n f d) s) = uart_descriptors s"
    "uart_descriptors (final (interrupt_enable n p) s) = uart_descriptors s"
    "uart_descriptors (final osal_mutex_create s) = uart_descriptors s"
    "uart_descriptors (final osal_semaphore_create s) = uart_descriptors s"
    "uart_descriptors (final (osal_semaphore_delete m) s) = uart_descriptors s"
    by (intro frame_of_keeps irq_keeps_blind [OF only] osal_keeps_blind [OF blind])+
  show "uart_descriptors (final (uart_init i) s) = uart_descriptors s"
    "uart_descriptors (final (uart_deinit i) s) = uart_descriptors s"
    unfolding uart_ll_defs
    by (intro frame_of_keeps keeps_intros keeps_prims_blind [OF blind] rstmgr_keeps_blind [OF blind])+
  show "interrupt_callbacks (final (uart_init i) s) = interrupt_callbacks s"
    unfolding uart_ll_defs
    by (intro frame_of_keeps keeps_intros keeps_prims_blind [OF cb] rstmgr_keeps_blind [OF cb])
  show "interrupt_callbacks (final osal_mutex_create s) = interrupt_callbacks s"
    "interrupt_callbacks (final osal_semaphore_create s) = interrupt_callbacks s"
    by (intro frame_of_keeps osal_keeps_blind [OF cb])+
qed

lemma uart_int_id: "GET_INT_ID i < MAX_SPI_HPU_INTERRUPT" "unat (GET_INT_ID i) < 274"
  by (simp_all add: GET_INT_ID_def)

text \<open>
  Opening a port returns a handle only for instance 0 or 1 that is not open, and then the
  descriptor is open and idle with the instance's base address, its three kernel objects exist,
  and the port's interrupt is bound to the driver's handler with this handle; the other port's
  descriptor never changes.
\<close>

theorem uart_open_result:
  assumes "length (interrupt_callbacks s) = unat MAX_SPI_HPU_INTERRUPT"
  shows "(case result (uart_open i) s of None \<Rightarrow> True
    | Some h \<Rightarrow> h = unat i \<and> h < 2 \<and> \<not> is_open (uart_descriptors s h) \<and>
       (let s' = final (uart_open i) s; c = uart_descriptors s' h in
         is_open c \<and> \<not> tx_is_busy c \<and> \<not> rx_is_busy c \<and> tx_bytes_left c = 0 \<and> rx_bytes_left c = 0
       \<and> base_address c = GET_UART_BASE_ADDRESS i
       \<and> mutex c \<noteq> 0 \<and> rd_sem c \<noteq> 0 \<and> wr_sem c \<noteq> 0
       \<and> interrupt_callbacks s' ! unat (GET_INT_ID i) = (F_uart_isr, V_uart h)))
    \<and> (\<forall>j. j \<noteq> unat i \<longrightarrow> uart_descriptors (final (uart_open i) s) j = uart_descriptors s j)"
proof (cases "i \<ge> UART_MAX_INSTANCE \<or> is_open (uart_descriptors s (unat i))")
  case True
  then show ?thesis by (auto simp: uart_open_def Let_def)
next
  case False
  have cb: "interrupt_callbacks (set_callback (GET_INT_ID i) (\<lambda>_. x) t) ! unat (GET_INT_ID i) = x"
    if "interrupt_callbacks t = interrupt_callbacks s" for t x
    using that assms uart_int_id(2) by (intro callbacks.get_upd_same) simp
  have "unat i < 2"
    using False by (simp add: UART_MAX_INSTANCE_def not_le word_less_nat_alt)
  then show ?thesis
    using False assms uart_int_id
    by (simp add: uart_open_def split_beta Let_def register_isr_run uart_descriptors_upd cb
        uart_zero_def)
qed

theorem uart_open_result_witness:
  "base_address (uart_descriptors (final (uart_open 1) uart_machine) 1) = 0x10C02100"
proof -
  have "result (uart_open 1) uart_machine = Some 1"
    by (simp add: uart_open_def GET_INT_ID_def UART_MAX_INSTANCE_def uart_zero_def
        GIC_INTERRUPT_PRIORITY_UART_def osal_defs upd_uart_def boot_eval split_beta word_le_nat_alt)
  then show ?thesis
    using uart_open_result [of uart_machine 1]
    by (simp add: initial_callbacks_def Let_def GET_UART_BASE_ADDRESS_def)
qed

text \<open>
  An attempt to open a port before the interrupt controller is set up disables the port
  for good: it returns \<^verbatim>\<open>NULL\<close>, leaves the descriptor marked open, and from then on, as
  long as nobody touches the descriptor, every attempt returns \<^verbatim>\<open>NULL\<close>, the interrupt
  controller being set up or not; there is no handle to close.
\<close>

theorem uart_open_before_gic:
  fixes s :: "'x uart_state_scheme"
  assumes "gic_redis s = 0" and "i < UART_MAX_INSTANCE" and "\<not> is_open (uart_descriptors s (unat i))"
    and "length (interrupt_callbacks s) = unat MAX_SPI_HPU_INTERRUPT"
  shows "result (uart_open i) s = None
    \<and> (\<forall>s' :: 'x uart_state_scheme. uart_descriptors s' = uart_descriptors (final (uart_open i) s)
         \<longrightarrow> result (uart_open i) s' = None)"
proof -
  have enable: "result (interrupt_enable (GET_INT_ID i) p) t = - ENODEV"
    if "gic_redis t = 0" for p and t :: "'x uart_state_scheme"
    using that by (simp add: interrupt_enable_def interrupt_spi_enable_def gic_get_redis_id_def
        gic_get_cpu_affinity_def GET_INT_ID_def Let_def split_beta)
  have "result (uart_open i) s = None \<and> is_open (uart_descriptors (final (uart_open i) s) (unat i))"
    using assms uart_int_id
    by (simp add: uart_open_def split_beta Let_def register_isr_run uart_descriptors_upd enable not_le
        set_callback_def)
  moreover have "result (uart_open i) s' = None" if "is_open (uart_descriptors s' (unat i))"
    for s' :: "'x uart_state_scheme"
    using that by (simp add: uart_open_def Let_def)
  ultimately show ?thesis
    by metis
qed

theorem uart_open_before_gic_witness:
  "result (uart_open 0) (uart_machine\<lparr>gic_redis := 0\<rparr>) = None
   \<and> result (uart_open 0) ((final (uart_open 0) (uart_machine\<lparr>gic_redis := 0\<rparr>))\<lparr>gic_redis := 0x1D060000\<rparr>) = None"
proof -
  have "0 < UART_MAX_INSTANCE"
    by (simp add: UART_MAX_INSTANCE_def)
  note * = uart_open_before_gic [OF _ this, where s = "uart_machine\<lparr>gic_redis := 0\<rparr>"]
  have "result (uart_open 0) ((final (uart_open 0) (uart_machine\<lparr>gic_redis := 0\<rparr>))\<lparr>gic_redis := 0x1D060000\<rparr>) = None"
    by (rule * [THEN conjunct2, rule_format]) (simp_all add: uart_zero_def initial_callbacks_def)
  moreover have "result (uart_open 0) (uart_machine\<lparr>gic_redis := 0\<rparr>) = None"
    by (rule * [THEN conjunct1]) (simp_all add: uart_zero_def initial_callbacks_def)
  ultimately show ?thesis by simp
qed

text \<open>
  The busy check is skipped when the mutex is not obtained, which is what happens in an
  interrupt handler while a task holds it: the write is accepted although a transfer is under
  way, and the descriptor of that transfer is overwritten with the new buffer's length and the
  old one's bytes still to send are dropped.
\<close>

theorem uart_write_without_lock:
  assumes "uart_transfer_args_ok (Some h) buf nb" and "unat nb < 65536"
    and "\<not> result (osal_mutex_lock (mutex (uart_descriptors s h)) OSAL_TIMEOUT_WAIT_FOREVER) s"
  shows "result (uart_write_async (Some h) buf nb) s = 0
    \<and> tx_size (uart_descriptors (final (uart_write_async (Some h) buf nb) s) h) = ucast nb
    \<and> (\<exists>k \<le> unat nb. tx_buf (uart_descriptors (final (uart_write_async (Some h) buf nb) s) h) = buf + word_of_nat k)"
proof -
  let ?c = "uart_descriptors s h"
  obtain t where t: "final (osal_mutex_lock (mutex ?c) OSAL_TIMEOUT_WAIT_FOREVER) s = s\<lparr>trace := t\<rparr>"
    by (rule quietE [OF quiet_osal(3)])
  then have lock: "run_state (osal_mutex_lock (mutex ?c) OSAL_TIMEOUT_WAIT_FOREVER) s = (False, s\<lparr>trace := t\<rparr>)"
    using assms(3) by (metis prod.collapse)
  let ?s = "upd_uart h (\<lambda>c. c\<lparr>tx_bytes_left := ucast nb\<rparr>)
     (upd_uart h (\<lambda>c. c\<lparr>tx_buf := buf, tx_size := ucast nb\<rparr>) (s\<lparr>trace := t\<rparr>))"
  obtain k u where k: "k \<le> unat nb" "run_state (uart_write_fifo (base_address ?c) buf nb) ?s = (word_of_nat k, ?s\<lparr>trace := u\<rparr>)"
    by (rule write_fifo_sends [OF assms(2), of "base_address ?c" buf ?s])
  have k16: "(ucast (word_of_nat k :: u16) :: u64) = word_of_nat k"
    using k(1) assms(2) by (intro ucast_u16_of_nat) simp
  have "uart_descriptors (final (uart_enable_interrupt b x) w) = uart_descriptors w" for b x and w :: "'a uart_state_scheme"
    by (rule quietE [OF quiet_uart_ll(1), of b x w]) simp
  then show ?thesis
    using assms(1) k lock k16
    by (auto simp: uart_write_async_def uart_claim_tx_def uart_write_def uart_descriptors_upd split_beta)
qed

text \<open>The kernel reports that the code runs in an interrupt handler and that the mutex is taken.\<close>

theorem uart_write_without_lock_witness:
  "result (uart_write_async (Some 0) 0x900 2)
     (upd_uart 0 (\<lambda>c. c\<lparr>tx_is_busy := True, tx_buf := 0x100, tx_bytes_left := 7\<rparr>)
       (port_machine\<lparr>env := ram_env\<lparr>kernel := \<lambda>_ c. if c = xPortIsInsideInterrupt then 1 else 0\<rparr>\<rparr>)) = 0"
  by (intro uart_write_without_lock [THEN conjunct1])
    (simp_all add: uart_transfer_args_ok_def uart_is_handle_valid_def osal_defs)

text \<open>
  Closing a port does not return everything opening took: of the three kernel objects, the
  two semaphores are deleted and the mutex is not, whatever state the port is in; nor is the
  interrupt disabled or a running transfer ended: the busy flags and the remaining byte counts
  stay, and the interrupt controller is not accessed.
\<close>

theorem uart_close_keeps_mutex:
  assumes "is_open (uart_descriptors s h)"
  shows "let c = uart_descriptors s h; s' = final (uart_close (Some h)) s
     in result (uart_close (Some h)) s = 0
      \<and> uart_descriptors s' = (uart_descriptors s)(h := c\<lparr>is_open := False\<rparr>)
      \<and> (\<exists>v w. trace s' = [Wr32 (ucast CLK_PERPLL_EN) w, Rd32 (ucast CLK_PERPLL) v,
           Kern (vSemaphoreDelete (wr_sem c)) (kernel (env s) (Kern (vSemaphoreDelete (rd_sem c))
              (kernel (env s) (trace s) (vSemaphoreDelete (rd_sem c))) # trace s) (vSemaphoreDelete (wr_sem c))),
           Kern (vSemaphoreDelete (rd_sem c)) (kernel (env s) (trace s) (vSemaphoreDelete (rd_sem c)))]
           @ trace s)
      \<and> interrupt_callbacks s' = interrupt_callbacks s"
  using assms by (simp add: uart_close_def osal_semaphore_delete_def uart_deinit_def
      uart_disable_clock_def Let_def upd_uart_def)

theorem uart_close_keeps_mutex_witness:
  "mutex (uart_descriptors (final (uart_close (Some 0)) port_machine) 0) = 1"
  using uart_close_keeps_mutex [of port_machine 0] by (simp add: Let_def)

end
