(* ===== verification/Console.thy ===== *)
theory Console
  imports Uart
begin

unbundle bit_operations_syntax

text \<open>
  The console, \<^verbatim>\<open>drivers/console/socfpga_console.c\<close>, with
  \<^verbatim>\<open>configCONSOLE_MAKE_FLUSH_TASK\<close> 1 as \<^verbatim>\<open>FreeRTOSConfig.h\<close> sets it: writers put
  bytes into a ring buffer, a flush task takes them out and gives them to the UART driver;
  bytes that do not fit are dropped and counted. The two static buffers handed to other code
  (\<^verbatim>\<open>int_buf\<close>, \<^verbatim>\<open>drop_msg\<close>) are memory at addresses that the linker chooses.
\<close>

section \<open>A lossy bounded queue\<close>

text \<open>
  The interface of a queue that drops what does not fit: \<open>put\<close> appends while there is room,
  \<open>get\<close> takes the oldest element. The client lemmas are about any sequence of the two.
\<close>

locale lossy_queue =
  fixes contents :: "'s \<Rightarrow> 'a list" and wf :: "'s \<Rightarrow> bool" and cap :: nat
    and full :: "'s \<Rightarrow> bool" and empty :: "'s \<Rightarrow> bool"
    and put :: "'a \<Rightarrow> 's \<Rightarrow> 's" and first :: "'s \<Rightarrow> 'a" and drop1 :: "'s \<Rightarrow> 's"
  assumes full_iff: "wf s \<Longrightarrow> full s \<longleftrightarrow> length (contents s) = cap"
    and empty_iff: "wf s \<Longrightarrow> empty s \<longleftrightarrow> contents s = []"
    and bounded: "wf s \<Longrightarrow> length (contents s) \<le> cap"
    and put_wf: "wf s \<Longrightarrow> wf (put x s)"
    and put_contents: "wf s \<Longrightarrow> \<not> full s \<Longrightarrow> contents (put x s) = contents s @ [x]"
    and drop1_wf: "wf s \<Longrightarrow> wf (drop1 s)"
    and get_contents: "wf s \<Longrightarrow> \<not> empty s \<Longrightarrow> contents s = first s # contents (drop1 s)"
begin

text \<open>Putting a list stops at the first element that does not fit.\<close>

fun put_all :: "'a list \<Rightarrow> 's \<Rightarrow> 's" where
  "put_all [] s = s"
| "put_all (x # xs) s = (if full s then s else put_all xs (put x s))"

fun get_upto :: "nat \<Rightarrow> 's \<Rightarrow> 'a list \<times> 's" where
  "get_upto 0 s = ([], s)"
| "get_upto (Suc n) s = (if empty s then ([], s)
     else case get_upto n (drop1 s) of (xs, s') \<Rightarrow> (first s # xs, s'))"

lemma put_all_wf: "wf s \<Longrightarrow> wf (put_all xs s)"
  by (induction xs arbitrary: s) (simp_all add: put_wf)

lemma put_all_contents:
  "wf s \<Longrightarrow> contents (put_all xs s) = contents s @ take (cap - length (contents s)) xs"
proof (induction xs arbitrary: s)
  case (Cons x xs)
  show ?case
  proof (cases "full s")
    case True
    then show ?thesis using Cons.prems full_iff by simp
  next
    case False
    then have "length (contents s) < cap"
      using Cons.prems full_iff bounded [OF Cons.prems] by fastforce
    then have "cap - length (contents s) = Suc (cap - Suc (length (contents s)))"
      by simp
    then show ?thesis
      using Cons.IH [OF put_wf [OF Cons.prems]] Cons.prems False by (simp add: put_contents)
  qed
qed simp

lemma get_upto_wf: "wf s \<Longrightarrow> wf (snd (get_upto n s))"
  by (induction n arbitrary: s) (simp_all add: drop1_wf split_beta)

lemma get_upto_contents:
  "wf s \<Longrightarrow> fst (get_upto n s) = take n (contents s) \<and> contents (snd (get_upto n s)) = drop n (contents s)"
proof (induction n arbitrary: s)
  case (Suc n)
  show ?case
  proof (cases "empty s")
    case True
    then show ?thesis using Suc.prems empty_iff by simp
  next
    case False
    have "contents s = first s # contents (drop1 s)"
      by (rule get_contents [OF Suc.prems False])
    then show ?thesis
      using Suc.IH [OF drop1_wf [OF Suc.prems]] False by (simp add: split_beta)
  qed
qed simp

text \<open>First in, first out: what is taken is what was there and then what was put.\<close>

lemma fifo:
  assumes "wf s" and "length (contents s) + length xs \<le> cap"
  shows "fst (get_upto (length (contents s) + length xs) (put_all xs s)) = contents s @ xs"
  using assms by (simp add: get_upto_contents put_all_wf put_all_contents)

end

section \<open>State\<close>

record console_state = uart_state +
  ringbuf :: "u8 list"
  ring_head :: u32
  ring_tail :: u32
  int_buf :: u64
  drop_msg :: u64
  dropped_bytes :: u32
  console_write_sem :: u64
  hconsole_uart :: uart_handle_t
  console_config :: uart_config_t
  signal_bytes_available :: u64

definition CONSOLE_FLAG_TASK_LOOP :: u64 where "CONSOLE_FLAG_TASK_LOOP = 1"
definition CONSOLE_BUF_SIZE :: u32 where "CONSOLE_BUF_SIZE = 4096"
definition CONSOLE_CFG_MAX_LEN :: nat where "CONSOLE_CFG_MAX_LEN = 17"
definition CONSOLE_DROP_MSG_LEN :: nat where "CONSOLE_DROP_MSG_LEN = 48"
definition configCONSOLE_FLUSH_TASK_PRIORITY :: int where "configCONSOLE_FLUSH_TASK_PRIORITY = 0"

section \<open>The ring buffer\<close>

definition console_is_ringbuf_full :: "'x console_state_scheme \<Rightarrow> bool" where
  "console_is_ringbuf_full s \<longleftrightarrow> (ring_head s + 1) mod CONSOLE_BUF_SIZE = ring_tail s"

definition ring_put :: "u8 \<Rightarrow> 'x console_state_scheme \<Rightarrow> 'x console_state_scheme" where
  "ring_put b s = s\<lparr>ringbuf := (ringbuf s)[unat (ring_head s) := b],
                   ring_head := (ring_head s + 1) mod CONSOLE_BUF_SIZE\<rparr>"

definition ring_first :: "'x console_state_scheme \<Rightarrow> u8" where
  "ring_first s = ringbuf s ! unat (ring_tail s)"

definition ring_drop :: "'x console_state_scheme \<Rightarrow> 'x console_state_scheme" where
  "ring_drop s = s\<lparr>ring_tail := (ring_tail s + 1) mod CONSOLE_BUF_SIZE\<rparr>"

definition ring_empty :: "'x console_state_scheme \<Rightarrow> bool" where
  "ring_empty s \<longleftrightarrow> ring_tail s = ring_head s"

text \<open>The loop over \<^verbatim>\<open>idx\<close>, with the number of iterations still to do.\<close>

fun console_write_loop :: "nat \<Rightarrow> u64 \<Rightarrow> u32 \<Rightarrow> u32 \<Rightarrow> ('x console_state_scheme, unit) state" where
  "console_write_loop 0 buf length0 idx = ret ()"
| "console_write_loop (Suc n) buf length0 idx = do {
     is_full \<leftarrow> gets console_is_ringbuf_full;
     if is_full then modify (\<lambda>s. s\<lparr>dropped_bytes := dropped_bytes s + (length0 - idx)\<rparr>)
     else do {
       b \<leftarrow> peek (buf + ucast idx);
       modify (ring_put b);
       console_write_loop n buf length0 (idx + 1)
     }
   }"

definition console_write_ringbuf :: "u64 \<Rightarrow> u32 \<Rightarrow> ('x console_state_scheme, int) state" where
  "console_write_ringbuf buf length0 =
     (if buf = 0 \<or> length0 = 0 then ret (- 1)
      else do { console_write_loop (unat length0) buf length0 0; ret 0 })"

fun console_read_loop :: "nat \<Rightarrow> u64 \<Rightarrow> u32 \<Rightarrow> ('x console_state_scheme, u32) state" where
  "console_read_loop 0 buf bytes_read = ret bytes_read"
| "console_read_loop (Suc n) buf bytes_read = do {
     is_empty \<leftarrow> gets ring_empty;
     if is_empty then ret bytes_read
     else do {
       b \<leftarrow> gets ring_first;
       poke (buf + ucast bytes_read) b;
       modify ring_drop;
       console_read_loop n buf (bytes_read + 1)
     }
   }"

definition console_read_ringbuf :: "u64 \<Rightarrow> u32 \<Rightarrow> ('x console_state_scheme, int) state" where
  "console_read_ringbuf buf length0 =
     (if buf = 0 \<or> length0 = 0 then ret (- 1)
      else do { n \<leftarrow> console_read_loop (unat length0) buf 0; ret (sint n) })"

section \<open>The ring as a queue\<close>

text \<open>Indices wrap at 4096; one slot stays free, so the ring holds at most 4095 bytes.\<close>

definition ring_wf :: "'x console_state_scheme \<Rightarrow> bool" where
  "ring_wf s \<longleftrightarrow> length (ringbuf s) = 4096 \<and> unat (ring_head s) < 4096 \<and> unat (ring_tail s) < 4096"

definition wrap :: "nat \<Rightarrow> nat" where
  "wrap i = (if i < 4096 then i else i - 4096)"

definition ring_len :: "'x console_state_scheme \<Rightarrow> nat" where
  "ring_len s = wrap (unat (ring_head s) + 4096 - unat (ring_tail s))"

definition ring_contents :: "'x console_state_scheme \<Rightarrow> u8 list" where
  "ring_contents s = map (\<lambda>i. ringbuf s ! wrap (unat (ring_tail s) + i)) [0..<ring_len s]"

lemma unat_next:
  assumes "unat (i :: u32) < 4096"
  shows "unat ((i + 1) mod CONSOLE_BUF_SIZE) = wrap (unat i + 1)"
proof -
  have "unat (i + 1) = unat i + 1"
    using assms by (subst unat_add_lem [THEN iffD1]) simp_all
  then show ?thesis
    using assms by (cases "unat i = 4095") (simp_all add: CONSOLE_BUF_SIZE_def unat_mod wrap_def)
qed

lemma wrap_Suc: "t < 4096 \<Longrightarrow> i < 4095 \<Longrightarrow> wrap (wrap (Suc t) + i) = wrap (Suc (t + i))"
  by (auto simp: wrap_def)

lemma ring_put_simps [simp]:
  "ringbuf (ring_put b s) = (ringbuf s)[unat (ring_head s) := b]" "ring_tail (ring_put b s) = ring_tail s"
  "ring_head (ring_put b s) = (ring_head s + 1) mod CONSOLE_BUF_SIZE"
  by (simp_all add: ring_put_def)

lemma ring_drop_simps [simp]:
  "ringbuf (ring_drop s) = ringbuf s" "ring_head (ring_drop s) = ring_head s"
  "ring_tail (ring_drop s) = (ring_tail s + 1) mod CONSOLE_BUF_SIZE"
  by (simp_all add: ring_drop_def)

lemma nth_ring_contents:
  "i < ring_len s \<Longrightarrow> ring_contents s ! i = ringbuf s ! wrap (unat (ring_tail s) + i)"
  by (simp add: ring_contents_def)

lemma length_ring_contents [simp]: "length (ring_contents s) = ring_len s"
  by (simp add: ring_contents_def)

lemma ring_len_bound: "ring_wf s \<Longrightarrow> ring_len s \<le> 4095"
  by (auto simp: ring_wf_def ring_len_def wrap_def)

lemma ring_full_iff: "ring_wf s \<Longrightarrow> console_is_ringbuf_full s \<longleftrightarrow> ring_len s = 4095"
  by (auto simp: console_is_ringbuf_full_def word_unat_eq_iff unat_next ring_wf_def ring_len_def wrap_def)

lemma ring_empty_iff: "ring_wf s \<Longrightarrow> ring_empty s \<longleftrightarrow> ring_len s = 0"
  by (auto simp: ring_empty_def word_unat_eq_iff ring_wf_def ring_len_def wrap_def)

lemma ring_put_wf: "ring_wf s \<Longrightarrow> ring_wf (ring_put b s)"
  by (auto simp: ring_wf_def ring_put_def unat_next wrap_def)

lemma ring_drop_wf: "ring_wf s \<Longrightarrow> ring_wf (ring_drop s)"
  by (auto simp: ring_wf_def ring_drop_def unat_next wrap_def)

lemma ring_put_contents:
  assumes "ring_wf s" and "\<not> console_is_ringbuf_full s"
  shows "ring_contents (ring_put b s) = ring_contents s @ [b]"
proof (rule nth_equalityI)
  let ?h = "unat (ring_head s)" and ?t = "unat (ring_tail s)"
  have bounds: "?h < 4096" "?t < 4096" "length (ringbuf s) = 4096"
    using assms(1) by (simp_all add: ring_wf_def)
  have "ring_len s \<noteq> 4095"
    using assms ring_full_iff by blast
  then have len: "ring_len (ring_put b s) = Suc (ring_len s)"
    using bounds by (auto simp: ring_len_def ring_put_def unat_next wrap_def)
  then show "length (ring_contents (ring_put b s)) = length (ring_contents s @ [b])"
    by simp
  fix i assume "i < length (ring_contents (ring_put b s))"
  then have i: "i < Suc (ring_len s)"
    by (simp add: len)
  have at: "wrap (?t + i) = ?h \<longleftrightarrow> i = ring_len s"
    using i bounds by (auto simp: wrap_def ring_len_def split: if_splits)
  show "ring_contents (ring_put b s) ! i = (ring_contents s @ [b]) ! i"
  proof (cases "i = ring_len s")
    case True
    with at bounds show ?thesis
      by (simp add: nth_ring_contents len nth_append)
  next
    case False
    with i have "i < ring_len s" by simp
    moreover have "wrap (?t + i) \<noteq> ?h"
      using False at by simp
    ultimately show ?thesis
      by (simp add: nth_ring_contents len nth_append)
  qed
qed

lemma ring_get_contents:
  assumes "ring_wf s" and "\<not> ring_empty s"
  shows "ring_contents s = ring_first s # ring_contents (ring_drop s)"
proof (rule nth_equalityI)
  let ?h = "unat (ring_head s)" and ?t = "unat (ring_tail s)"
  have bounds: "?h < 4096" "?t < 4096"
    using assms(1) by (simp_all add: ring_wf_def)
  have "ring_len s \<noteq> 0"
    using assms ring_empty_iff by blast
  then have len: "ring_len s = Suc (ring_len (ring_drop s))"
    using bounds by (auto simp: ring_len_def ring_drop_def unat_next wrap_def split: if_splits)
  then show "length (ring_contents s) = length (ring_first s # ring_contents (ring_drop s))"
    by simp
  fix i assume "i < length (ring_contents s)"
  then have i: "i < Suc (ring_len (ring_drop s))"
    by (simp add: len)
  have "ring_len (ring_drop s) \<le> 4095"
    using assms(1) by (intro ring_len_bound ring_drop_wf)
  with i show "ring_contents s ! i = (ring_first s # ring_contents (ring_drop s)) ! i"
    using bounds
    by (cases i) (simp_all add: nth_ring_contents len unat_next wrap_Suc ring_first_def wrap_def [of "?t"])
qed

interpretation ring: lossy_queue ring_contents ring_wf 4095 console_is_ringbuf_full ring_empty
  ring_put ring_first ring_drop
  by unfold_locales
    (simp_all add: ring_full_iff ring_empty_iff ring_len_bound ring_put_wf ring_put_contents
      ring_drop_wf ring_get_contents flip: length_0_conv)

section \<open>The loops are queue operations\<close>

lemma ring_frames [simp]:
  "ring_contents (s\<lparr>trace := t\<rparr>) = ring_contents s" "ring_contents (s\<lparr>mem := m\<rparr>) = ring_contents s"
  "ring_contents (s\<lparr>dropped_bytes := d\<rparr>) = ring_contents s"
  "ring_wf (s\<lparr>trace := t\<rparr>) = ring_wf s" "ring_wf (s\<lparr>mem := m\<rparr>) = ring_wf s"
  "ring_wf (s\<lparr>dropped_bytes := d\<rparr>) = ring_wf s"
  "ring_len (s\<lparr>mem := m\<rparr>) = ring_len s" "ring_len (s\<lparr>trace := t\<rparr>) = ring_len s"
  "ring_len (s\<lparr>dropped_bytes := d\<rparr>) = ring_len s"
  by (simp_all add: ring_contents_def ring_wf_def ring_len_def)

lemma ring_put_frames [simp]:
  "mem (ring_put b s) = mem s" "dropped_bytes (ring_put b s) = dropped_bytes s"
  by (simp_all add: ring_put_def)

lemma ucast_next: "unat (i :: u32) + Suc n \<le> unat (l :: u32) \<Longrightarrow> (ucast (i + 1) :: u64) = ucast i + 1"
  and unat_next_index: "unat (i :: u32) + Suc n \<le> unat (l :: u32) \<Longrightarrow> unat (i + 1) = unat i + 1"
proof -
  assume le: "unat i + Suc n \<le> unat l"
  then have "unat i + 1 \<le> 0xFFFFFFFF"
    using unat_u32_bound [of l] by simp
  then show u: "unat (i + 1) = unat i + 1"
    by (subst unat_add_lem [THEN iffD1]) simp_all
  have "unat (ucast i + 1 :: u64) = unat i + 1"
    using \<open>unat i + 1 \<le> 0xFFFFFFFF\<close> by (subst unat_add_lem [THEN iffD1]) simp_all
  with u show "(ucast (i + 1) :: u64) = ucast i + 1"
    by (simp add: word_unat_eq_iff)
qed

lemma write_loop_puts:
  assumes "ring_wf s" and "unat idx + n = unat len"
  shows "final (console_write_loop n buf len idx) s =
     (ring.put_all (bytes_at (mem s) (buf + ucast idx) n) s)
       \<lparr>dropped_bytes := dropped_bytes s + word_of_nat (n - (4095 - ring_len s))\<rparr>"
  using assms
proof (induction n arbitrary: idx s)
  case (Suc n)
  let ?b = "mem s (buf + ucast idx)"
  have rest: "len - idx = word_of_nat (Suc n)"
    using Suc.prems(2) by (metis add_diff_cancel_left' of_nat_unat ucast_id unat_sub word_le_nat_alt le_add1)
  have idx: "unat (idx + 1) + n = unat len" "(ucast (idx + 1) :: u64) = ucast idx + 1"
    using Suc.prems(2) unat_next_index [of idx n len] ucast_next [of idx n len] by simp_all
  show ?case
  proof (cases "console_is_ringbuf_full s")
    case True
    then show ?thesis
      using Suc.prems(1) by (simp add: ring_full_iff rest del: of_nat_Suc)
  next
    case False
    then have "ring_len s < 4095"
      using Suc.prems(1) ring_full_iff ring_len_bound by (metis le_neq_implies_less)
    moreover from ring_put_contents [OF Suc.prems(1) False, THEN arg_cong [of _ _ length], of ?b]
    have "ring_len (ring_put ?b s) = Suc (ring_len s)"
      by simp
    ultimately show ?thesis
      using Suc.IH [OF ring_put_wf [OF Suc.prems(1)] idx(1)] False
      by (simp add: idx(2) add.assoc)
  qed
qed simp

lemma take_bytes_at: "take k (bytes_at m a n) = bytes_at m a (min k n)"
proof (induction n arbitrary: a k)
  case (Suc n)
  then show ?case by (cases k) simp_all
qed simp

lemma write_ring_puts:
  assumes "ring_wf s" and "buf \<noteq> 0" and "n \<noteq> 0"
  shows "result (console_write_ringbuf buf n) s = 0" and "ring_wf (final (console_write_ringbuf buf n) s)"
    and "ring_contents (final (console_write_ringbuf buf n) s)
      = ring_contents s @ take (4095 - ring_len s) (bytes_at (mem s) buf (unat n))"
    and "dropped_bytes (final (console_write_ringbuf buf n) s)
      = dropped_bytes s + word_of_nat (unat n - (4095 - ring_len s))"
  using assms write_loop_puts [OF assms(1), of 0 "unat n" n buf]
  by (simp_all add: console_write_ringbuf_def split_beta ring.put_all_wf ring.put_all_contents)

text \<open>
  C17. Writing to the ring appends, in order, as many bytes of the buffer as fit (the ring
  holds 4095) and counts the others as dropped; the ring stays well formed and the call
  succeeds in both cases.
\<close>

theorem console_write_appends:
  assumes "ring_wf s" and "buf \<noteq> 0" and "n \<noteq> 0"
  shows "let s' = final (console_write_ringbuf buf n) s;
             k = min (4095 - length (ring_contents s)) (unat n)
     in result (console_write_ringbuf buf n) s = 0 \<and> ring_wf s'
      \<and> ring_contents s' = ring_contents s @ bytes_at (mem s) buf k
      \<and> dropped_bytes s' = dropped_bytes s + word_of_nat (unat n - k)"
proof -
  have diff: "unat n - (4095 - ring_len s) = unat n - min (4095 - ring_len s) (unat n)"
    by simp
  show ?thesis
    using write_ring_puts [OF assms] by (simp add: Let_def take_bytes_at diff)
qed

text \<open>Storing a list of bytes.\<close>

fun store_bytes :: "(u64 \<Rightarrow> u8) \<Rightarrow> u64 \<Rightarrow> u8 list \<Rightarrow> (u64 \<Rightarrow> u8)" where
  "store_bytes m a [] = m"
| "store_bytes m a (x # xs) = store_bytes (m(a := x)) (a + 1) xs"

lemma store_bytes_other:
  "(\<forall>i < length xs. b \<noteq> a + word_of_nat i) \<Longrightarrow> store_bytes m a xs b = m b"
proof (induction xs arbitrary: m a)
  case (Cons x xs)
  have "b \<noteq> a + 1 + word_of_nat i" if "i < length xs" for i
    using Cons.prems [THEN spec, of "Suc i"] that by (simp add: ac_simps)
  moreover have "b \<noteq> a"
    using Cons.prems [THEN spec, of 0] by simp
  ultimately show ?case
    using Cons.IH by simp
qed simp

lemma bytes_at_store: "length xs \<le> 4096 \<Longrightarrow> bytes_at (store_bytes m a xs) a (length xs) = xs"
proof (induction xs arbitrary: m a)
  case (Cons x xs)
  have "a \<noteq> a + 1 + word_of_nat i" if "i < length xs" for i
  proof -
    have "unat (word_of_nat (Suc i) :: u64) = Suc i"
      using that Cons.prems by (intro word_of_nat_small) simp
    then have "(word_of_nat (Suc i) :: u64) \<noteq> 0"
      by (metis nat.distinct(1) unat_0)
    then show ?thesis
      by (simp add: add.assoc)
  qed
  then have "store_bytes (m(a := x)) (a + 1) xs a = x"
    by (subst store_bytes_other) simp_all
  then show ?case
    using Cons by simp
qed simp

lemma get_upto_mem:
  "ring.get_upto n (s\<lparr>mem := m\<rparr>) = (fst (ring.get_upto n s), (snd (ring.get_upto n s))\<lparr>mem := m\<rparr>)"
proof (induction n arbitrary: s)
  case (Suc n)
  have "ring_drop (s\<lparr>mem := m\<rparr>) = (ring_drop s)\<lparr>mem := m\<rparr>" "ring_first (s\<lparr>mem := m\<rparr>) = ring_first s"
    "ring_empty (s\<lparr>mem := m\<rparr>) = ring_empty s"
    by (simp_all add: ring_drop_def ring_first_def ring_empty_def)
  then show ?case
    by (simp add: Suc.IH split_beta)
qed simp

lemma get_upto_len: "length (fst (ring.get_upto n s)) \<le> n"
  by (induction n arbitrary: s) (simp_all add: split_beta)

lemma read_loop_gets:
  assumes "unat k + n \<le> 4096"
  shows "run_state (console_read_loop n buf k) s =
     (let (xs, s') = ring.get_upto n s
      in (k + word_of_nat (length xs), s'\<lparr>mem := store_bytes (mem s) (buf + ucast k) xs\<rparr>))"
  using assms
proof (induction n arbitrary: k s)
  case (Suc n)
  have k: "unat (k + 1) + n \<le> 4096" "(ucast (k + 1) :: u64) = ucast k + 1"
    using Suc.prems unat_next_index [of k n 4096] ucast_next [of k n 4096] by simp_all
  show ?case
  proof (cases "ring_empty s")
    case False
    define f where "f = (mem s)(buf + ucast k := ring_first s)"
    have step: "ring_drop (s\<lparr>mem := f\<rparr>) = (ring_drop s)\<lparr>mem := f\<rparr>"
      by (simp add: ring_drop_def)
    have "run_state (console_read_loop (Suc n) buf k) s
        = run_state (console_read_loop n buf (k + 1)) ((ring_drop s)\<lparr>mem := f\<rparr>)"
      using False by (simp add: f_def [symmetric] step)
    also have "\<dots> = (let (xs, s') = ring.get_upto n (ring_drop s)
        in (k + 1 + word_of_nat (length xs), s'\<lparr>mem := store_bytes f (buf + ucast k + 1) xs\<rparr>))"
      using Suc.IH [OF k(1), of "(ring_drop s)\<lparr>mem := f\<rparr>"]
      by (simp add: k(2) get_upto_mem split_beta Let_def add.assoc)
    finally show ?thesis
      using False by (simp add: split_beta Let_def f_def add.assoc)
  qed simp
qed simp

lemma read_ring_takes:
  assumes "ring_wf s" and "buf \<noteq> 0" and "n \<noteq> 0" and "unat n \<le> 4096"
  shows "let xs = take (unat n) (ring_contents s); s' = final (console_read_ringbuf buf n) s
     in result (console_read_ringbuf buf n) s = int (length xs) \<and> ring_wf s'
      \<and> ring_contents s' = drop (unat n) (ring_contents s)
      \<and> mem s' = store_bytes (mem s) buf xs"
proof -
  let ?xs = "take (unat n) (ring_contents s)"
  have "length ?xs < 2 ^ 31"
    using ring_len_bound [OF assms(1)] by simp
  then have "sint (word_of_nat (length ?xs) :: u32) = int (length ?xs)"
    by (simp add: signed_of_nat signed_take_bit_int_eq_self)
  then show ?thesis
    using assms read_loop_gets [of 0 "unat n" buf s] ring.get_upto_contents [OF assms(1), of "unat n"]
      ring.get_upto_wf [OF assms(1), of "unat n"]
    by (simp add: console_read_ringbuf_def Let_def split_beta)
qed

text \<open>
  C18. Reading the ring takes the oldest bytes, in order: the call returns how many, stores
  exactly them at the caller's buffer and leaves the others in the ring.
\<close>

theorem console_read_takes_oldest:
  assumes "ring_wf s" and "buf \<noteq> 0" and "n \<noteq> 0" and "unat n \<le> 4096"
  shows "let k = min (unat n) (length (ring_contents s)); s' = final (console_read_ringbuf buf n) s
     in result (console_read_ringbuf buf n) s = int k \<and> ring_wf s'
      \<and> bytes_at (mem s') buf k @ ring_contents s' = ring_contents s"
proof -
  let ?xs = "take (unat n) (ring_contents s)"
  have "length ?xs \<le> 4096"
    using ring_len_bound [OF assms(1)] by simp
  note store = bytes_at_store [OF this, of "mem s" buf]
  show ?thesis
    using read_ring_takes [OF assms] store by (simp add: Let_def min.commute)
qed

section \<open>Configuration\<close>

text \<open>
  \<^verbatim>\<open>sscanf(config_str, "%d-%d%c%d", ...)\<close>: white space, a sign and decimal digits for
  each number, the literal hyphen, any character; \<open>None\<close> when fewer than four items are read.
  The string is without its terminating zero.
\<close>

definition is_space :: "char \<Rightarrow> bool" where
  "is_space c \<longleftrightarrow> (let n = of_char c :: nat in n = 32 \<or> 9 \<le> n \<and> n \<le> 13)"

definition is_digit :: "char \<Rightarrow> bool" where
  "is_digit c \<longleftrightarrow> (let n = of_char c :: nat in 48 \<le> n \<and> n \<le> 57)"

definition digit_val :: "char \<Rightarrow> int" where
  "digit_val c = int (of_char c) - 48"

fun scan_digits :: "int \<Rightarrow> string \<Rightarrow> int \<times> string" where
  "scan_digits acc [] = (acc, [])"
| "scan_digits acc (c # s) = (if is_digit c then scan_digits (10 * acc + digit_val c) s else (acc, c # s))"

definition scan_int :: "string \<Rightarrow> (int \<times> string) option" where
  "scan_int s =
     (let s = dropWhile is_space s;
          (neg, s) = (case s of c # r \<Rightarrow> if c = CHR ''-'' then (True, r) else if c = CHR ''+'' then (False, r)
                        else (False, s) | [] \<Rightarrow> (False, s))
      in case s of
           [] \<Rightarrow> None
         | c # r \<Rightarrow> if \<not> is_digit c then None
             else case scan_digits 0 s of (n, r) \<Rightarrow> Some (if neg then - n else n, r))"

definition scan_config :: "string \<Rightarrow> (int \<times> int \<times> char \<times> int) option" where
  "scan_config s = do {
     (baudrate, s) \<leftarrow> scan_int s;
     s \<leftarrow> (case s of c # r \<Rightarrow> if c = CHR ''-'' then Some r else None | [] \<Rightarrow> None);
     (word_length, s) \<leftarrow> scan_int s;
     (par, s) \<leftarrow> (case s of c # r \<Rightarrow> Some (c, r) | [] \<Rightarrow> None);
     (num_stop_bits, s) \<leftarrow> scan_int s;
     Some (baudrate, word_length, par, num_stop_bits)
   }"

definition fits_int :: "int \<Rightarrow> bool" where
  "fits_int i \<longleftrightarrow> - (2 ^ 31) \<le> i \<and> i < 2 ^ 31"

definition console_wlen :: "int \<Rightarrow> u32" where
  "console_wlen word_length =
     (if word_length = 5 then 5 else if word_length = 6 then 6 else if word_length = 7 then 7 else 8)"

definition console_parity :: "char \<Rightarrow> uart_parity_t" where
  "console_parity c =
     (if c = CHR ''n'' \<or> c = CHR ''N'' then UART_PARITY_NONE
      else if c = CHR ''o'' \<or> c = CHR ''O'' then UART_PARITY_ODD
      else if c = CHR ''e'' \<or> c = CHR ''E'' then UART_PARITY_EVEN else UART_PARITY_NONE)"

text \<open>The clean-up of the write lock that each failing path of \<^verbatim>\<open>console_init\<close> repeats.\<close>

definition console_drop_lock :: "('x console_state_scheme, unit) state" where
  "console_drop_lock = do {
     sem \<leftarrow> gets console_write_sem;
     _ \<leftarrow> osal_semaphore_delete sem;
     modify (\<lambda>s. s\<lparr>console_write_sem := 0\<rparr>)
   }"

definition console_make_lock :: "('x console_state_scheme, int) state" where
  "console_make_lock = do {
     sem \<leftarrow> gets console_write_sem;
     if sem \<noteq> 0 then ret 0
     else do {
       sem \<leftarrow> osal_semaphore_create;
       modify (\<lambda>s. s\<lparr>console_write_sem := sem\<rparr>);
       if sem = 0 then ret (- ENOMEM)
       else do {
         ok \<leftarrow> osal_semaphore_post sem;
         if \<not> ok then do { console_drop_lock; ret (- ENOMEM) } else ret 0
       }
     }
   }"

text \<open>\<^verbatim>\<open>console_init\<close> from the opening of the port on.\<close>

definition console_start ::
  "u32 \<Rightarrow> uart_config_t \<Rightarrow> ('x console_state_scheme, int) state" where
  "console_start ident config = do {
     h \<leftarrow> uart_open ident;
     modify (\<lambda>s. s\<lparr>hconsole_uart := h\<rparr>);
     if h = None then do { console_drop_lock; ret (- EBUSY) }
     else do {
       modify (\<lambda>s. s\<lparr>console_config := config\<rparr>);
       (err, _) \<leftarrow> uart_ioctl h (UART_SET_CONFIG config);
       if err \<noteq> 0 then do {
         _ \<leftarrow> uart_close h;
         modify (\<lambda>s. s\<lparr>hconsole_uart := None\<rparr>);
         console_drop_lock;
         ret err
       } else do {
         sig \<leftarrow> osal_semaphore_create;
         modify (\<lambda>s. s\<lparr>signal_bytes_available := sig\<rparr>);
         if sig = 0 then do {
           _ \<leftarrow> uart_close h;
           modify (\<lambda>s. s\<lparr>hconsole_uart := None\<rparr>);
           console_drop_lock;
           ret (- ENOMEM)
         } else do {
           ok \<leftarrow> osal_task_create F_console_flush_task CONSOLE_FLAG_TASK_LOOP configCONSOLE_FLUSH_TASK_PRIORITY;
           if \<not> ok then do {
             _ \<leftarrow> uart_close h;
             modify (\<lambda>s. s\<lparr>hconsole_uart := None\<rparr>);
             console_drop_lock;
             _ \<leftarrow> osal_semaphore_delete sig;
             modify (\<lambda>s. s\<lparr>signal_bytes_available := 0\<rparr>);
             ret (- ENOMEM)
           } else ret 0
         }
       }
     }
   }"

text \<open>A number that does not fit an \<^verbatim>\<open>int\<close> makes the scan undefined.\<close>

definition console_init :: "u32 \<Rightarrow> string option \<Rightarrow> ('x console_state_scheme, int) state" where
  "console_init ident config_str = do {
     h \<leftarrow> gets hconsole_uart;
     if h \<noteq> None then ret (- EBUSY)
     else case config_str of
       None \<Rightarrow> ret (- EINVAL)
     | Some str \<Rightarrow>
         if length str > CONSOLE_CFG_MAX_LEN then ret (- EINVAL)
         else case scan_config str of
           None \<Rightarrow> ret (- EINVAL)
         | Some (baudrate, word_length, par, num_stop_bits) \<Rightarrow> do {
             whenM (\<not> (fits_int baudrate \<and> fits_int word_length \<and> fits_int num_stop_bits)) (ub ''sscanf'');
             err \<leftarrow> console_make_lock;
             if err \<noteq> 0 then ret err
             else console_start ident \<lparr>baud = word_of_int baudrate, parity = console_parity par,
               stop_bits = (if num_stop_bits > 1 then UART_STOP_BITS_2 else UART_STOP_BITS_1),
               wlen = console_wlen word_length\<rparr>
           }
   }"

section \<open>Writing, flushing and reading\<close>

definition console_lock :: "('x console_state_scheme, int) state" where
  "console_lock = do {
     sem \<leftarrow> gets console_write_sem;
     if sem \<noteq> 0 then do {
       ok \<leftarrow> osal_semaphore_wait sem OSAL_TIMEOUT_WAIT_FOREVER;
       ret (if \<not> ok then - EBUSY else 0)
     } else ret (- ENODEV)
   }"

definition console_unlock :: "('x console_state_scheme, int) state" where
  "console_unlock = do {
     sem \<leftarrow> gets console_write_sem;
     if sem \<noteq> 0 then do {
       ok \<leftarrow> osal_semaphore_post sem;
       ret (if \<not> ok then - EPERM else 0)
     } else ret (- ENODEV)
   }"

text \<open>The two identical blocks that put bytes into the ring and count them if that fails.\<close>

definition console_queue :: "u64 \<Rightarrow> int \<Rightarrow> ('x console_state_scheme, int) state" where
  "console_queue buf length0 = do {
     err \<leftarrow> console_write_ringbuf buf (word_of_int length0);
     if err \<noteq> 0 then do {
       modify (\<lambda>s. s\<lparr>dropped_bytes := dropped_bytes s + word_of_int length0\<rparr>);
       ret (- ENOMEM)
     } else ret length0
   }"

definition console_fill_buf :: "u64 \<Rightarrow> int \<Rightarrow> ('x console_state_scheme, int) state" where
  "console_fill_buf buf length0 = do {
     h \<leftarrow> gets hconsole_uart;
     if h = None then ret (- EINVAL)
     else if length0 \<le> 0 then ret (- EINVAL)
     else do {
       inside \<leftarrow> kern xPortIsInsideInterrupt;
       if inside \<noteq> 0 then console_queue buf length0
       else do {
         k_state \<leftarrow> osal_get_kernel_state;
         if k_state = OSAL_KERNEL_NOT_STARTED then do {
           poll_ret \<leftarrow> uart_write_polling h buf (word_of_int length0);
           ret (if poll_ret = 0 then length0 else poll_ret)
         } else console_queue buf length0
       }
     }
   }"

definition console_signal_fill :: "('x console_state_scheme, unit) state" where
  "console_signal_fill = do {
     sig \<leftarrow> gets signal_bytes_available;
     whenM (sig \<noteq> 0) (do { _ \<leftarrow> osal_semaphore_post sig; ret () })
   }"

definition console_write :: "u64 \<Rightarrow> int \<Rightarrow> ('x console_state_scheme, int) state" where
  "console_write buf length0 = do {
     h \<leftarrow> gets hconsole_uart;
     if h = None then ret (- EINVAL)
     else do {
       r \<leftarrow> console_fill_buf buf length0;
       console_signal_fill;
       ret r
     }
   }"

text \<open>
  The \<^verbatim>\<open>do ... while (bytes_read)\<close> loop, with fuel: writers may refill the ring while
  the port sends (\<open>during\<close>), so it need not end. \<open>None\<close>: out of fuel.
\<close>

fun console_drain ::
  "('x console_state_scheme, unit) state \<Rightarrow> nat \<Rightarrow> ('x console_state_scheme, unit option) state" where
  "console_drain during 0 = ret None"
| "console_drain during (Suc fuel) = do {
     buf \<leftarrow> gets int_buf;
     bytes_read \<leftarrow> console_read_ringbuf buf CONSOLE_BUF_SIZE;
     h \<leftarrow> gets hconsole_uart;
     _ \<leftarrow> uart_write_sync during h buf (word_of_int bytes_read);
     if bytes_read \<noteq> 0 then console_drain during fuel else ret (Some ())
   }"

text \<open>\<^verbatim>\<open>snprintf\<close> of the message: the decimal number between two fixed strings.\<close>

fun decimal :: "nat \<Rightarrow> string" where
  "decimal n = (if n < 10 then [] else decimal (n div 10)) @ [char_of (48 + n mod 10)]"

declare decimal.simps [simp del]

definition drop_text :: "u32 \<Rightarrow> string" where
  "drop_text drops =
     [char_of (13 :: nat), char_of (10 :: nat)] @ ''[console: '' @ decimal (unat drops) @ '' bytes dropped]''
     @ [char_of (13 :: nat), char_of (10 :: nat)]"

definition console_report_drops ::
  "('x console_state_scheme, unit) state \<Rightarrow> ('x console_state_scheme, unit) state" where
  "console_report_drops during = do {
     drops \<leftarrow> gets dropped_bytes;
     whenM (drops > 0) (do {
       modify (\<lambda>s. s\<lparr>dropped_bytes := 0\<rparr>);
       a \<leftarrow> gets drop_msg;
       modify (\<lambda>s. s\<lparr>mem := store_bytes (mem s) a
         (map of_char (take (CONSOLE_DROP_MSG_LEN - 1) (drop_text drops)) @ [0])\<rparr>);
       let msg_len = length (drop_text drops);
       h \<leftarrow> gets hconsole_uart;
       whenM (msg_len > 0) (do { _ \<leftarrow> uart_write_sync during h a (word_of_nat msg_len); ret () })
     })
   }"

definition console_clear_pending ::
  "('x console_state_scheme, unit) state \<Rightarrow> nat \<Rightarrow> ('x console_state_scheme, unit option) state" where
  "console_clear_pending during fuel = do {
     h \<leftarrow> gets hconsole_uart;
     if h = None then ret (Some ())
     else do {
       is_empty \<leftarrow> gets ring_empty;
       r \<leftarrow> (if \<not> is_empty then do {
              _ \<leftarrow> console_lock;
              r \<leftarrow> console_drain during fuel;
              case r of None \<Rightarrow> ret None
              | Some _ \<Rightarrow> do { _ \<leftarrow> console_unlock; ret (Some ()) }
            } else ret (Some ()));
       case r of
         None \<Rightarrow> ret None
       | Some _ \<Rightarrow> do { console_report_drops during; ret (Some ()) }
     }
   }"

text \<open>The flush task; a failed assertion stops the system.\<close>

fun console_flush_task ::
  "('x console_state_scheme, unit) state \<Rightarrow> nat \<Rightarrow> u64 \<Rightarrow> ('x console_state_scheme, unit option) state" where
  "console_flush_task during 0 flags = ret None"
| "console_flush_task during (Suc fuel) flags =
     (if flags AND CONSOLE_FLAG_TASK_LOOP \<noteq> 0 then do {
        sig \<leftarrow> gets signal_bytes_available;
        err \<leftarrow> osal_semaphore_wait sig OSAL_TIMEOUT_WAIT_FOREVER;
        if \<not> err then ret None
        else do {
          r \<leftarrow> console_clear_pending during fuel;
          case r of None \<Rightarrow> ret None | Some _ \<Rightarrow> console_flush_task during fuel flags
        }
      } else do { osal_task_delete; ret (Some ()) })"

definition console_read ::
  "('x console_state_scheme, unit) state \<Rightarrow> u64 \<Rightarrow> int \<Rightarrow> ('x console_state_scheme, int) state" where
  "console_read during buf length0 = do {
     h \<leftarrow> gets hconsole_uart;
     uart_read_sync during h buf (word_of_int length0)
   }"

definition console_deinit :: "('x console_state_scheme, int) state" where
  "console_deinit = do {
     h \<leftarrow> gets hconsole_uart;
     r \<leftarrow> (if h \<noteq> None then do {
            r \<leftarrow> uart_close h;
            whenM (r = 0) (modify (\<lambda>s. s\<lparr>hconsole_uart := None\<rparr>));
            ret r
          } else ret 0);
     sem \<leftarrow> gets console_write_sem;
     whenM (sem \<noteq> 0) console_drop_lock;
     ret r
   }"

section \<open>Witness machine\<close>

definition console_machine :: console_state where
  "console_machine = uart_state.extend port_machine
     \<lparr>ringbuf = replicate 4096 0, ring_head = 0, ring_tail = 0, int_buf = 0x8000, drop_msg = 0xA000,
      dropped_bytes = 0, console_write_sem = 1, hconsole_uart = Some 0,
      console_config = \<lparr>baud = 0, parity = UART_PARITY_NONE, stop_bits = UART_STOP_BITS_1, wlen = 8\<rparr>,
      signal_bytes_available = 1\<rparr>"

lemma console_machine_simps [simp]:
  "env console_machine = ram_env\<lparr>hw_rd32 := \<lambda>_ _. 2\<rparr>" "trace console_machine = []"
  "mem console_machine = ucast" "ringbuf console_machine = replicate 4096 0"
  "ring_head console_machine = 0" "ring_tail console_machine = 0" "int_buf console_machine = 0x8000"
  "hconsole_uart console_machine = Some 0" "dropped_bytes console_machine = 0"
  "console_write_sem console_machine = 1" "signal_bytes_available console_machine = 1"
  "uart_descriptors console_machine 0 = uart_zero\<lparr>is_open := True, base_address := 0x10C02000, mutex := 1\<rparr>"
  using port_machine_simps by (simp_all add: console_machine_def uart_state.defs)

lemma console_machine_empty [simp]: "ring_len console_machine = 0" "ring_wf console_machine"
  "ring_contents console_machine = []"
  by (simp_all add: ring_len_def wrap_def ring_wf_def ring_contents_def)

lemma console_machine_written:
  "ring_wf (final (console_write_ringbuf 0x100 3) console_machine)"
  "ring_contents (final (console_write_ringbuf 0x100 3) console_machine) = [0, 1, 2]"
proof -
  have "bytes_at (mem console_machine) 0x100 3 = [0, 1, 2]"
    by (simp add: numeral_3_eq_3)
  then show "ring_wf (final (console_write_ringbuf 0x100 3) console_machine)"
    "ring_contents (final (console_write_ringbuf 0x100 3) console_machine) = [0, 1, 2]"
    using write_ring_puts(2,3) [of console_machine "0x100" 3] by simp_all
qed

theorem console_write_appends_witness:
  "ring_contents (final (console_write_ringbuf 0x100 3) console_machine) = bytes_at ucast 0x100 3"
  using console_write_appends [of console_machine "0x100" 3] by (simp add: Let_def)

theorem console_read_takes_oldest_witness:
  "ring_contents (final (console_read_ringbuf 0x8000 2) (final (console_write_ringbuf 0x100 3) console_machine)) = [2]"
proof -
  let ?s = "final (console_write_ringbuf 0x100 3) console_machine"
  show ?thesis
    using console_read_takes_oldest [of ?s "0x8000" 2] by (simp add: Let_def console_machine_written)
qed

section \<open>The reported length\<close>

text \<open>
  The number of bytes reported is not the number accepted: called from an interrupt
  handler with more bytes than fit, \<^verbatim>\<open>console_fill_buf\<close> queues only the bytes there is room
  for and returns the whole length as if it had queued them all; only the internal drop counter
  shows the difference.
\<close>

theorem console_fill_overreports:
  assumes "ring_wf s" and "hconsole_uart s \<noteq> None" and "buf \<noteq> 0"
    and "kernel (env s) (trace s) xPortIsInsideInterrupt \<noteq> 0"
    and "4095 - length (ring_contents s) < n" and "n < 2 ^ 31"
  shows "let s' = final (console_fill_buf buf (int n)) s
     in result (console_fill_buf buf (int n)) s = int n
      \<and> length (ring_contents s') = 4095
      \<and> dropped_bytes s' = dropped_bytes s + word_of_nat (n - (4095 - length (ring_contents s)))"
proof -
  let ?t = "Kern xPortIsInsideInterrupt (kernel (env s) (trace s) xPortIsInsideInterrupt) # trace s"
  have n: "unat (word_of_nat n :: u32) = n"
    using assms(6) by (simp add: unsigned_of_nat take_bit_nat_eq_self)
  then have n0: "(word_of_nat n :: u32) \<noteq> 0" "int n \<noteq> 0"
    using assms(5) by auto
  have len: "ring_len s \<le> 4095"
    by (rule ring_len_bound [OF assms(1)])
  let ?s = "s\<lparr>trace := ?t\<rparr>"
  note queue = write_ring_puts [of ?s buf "word_of_nat n", simplified, OF assms(1,3) n0(1)]
  have "ring_len (final (console_write_ringbuf buf (word_of_nat n)) ?s) = 4095"
    using assms(5) len arg_cong [OF queue(3), of length] by (simp add: n)
  then show ?thesis
    using assms(2,4,5) n0 queue
    by (simp add: console_fill_buf_def console_queue_def Let_def split_beta n)
qed

theorem console_fill_overreports_witness:
  "result (console_fill_buf 0x100 5000) console_machine = 5000"
  using console_fill_overreports [of console_machine "0x100" 5000]
  by (simp add: Let_def ram_env_def)

section \<open>The configuration string\<close>

lemma digit_char: "d < 10 \<Longrightarrow> (of_char (char_of (48 + d) :: char) :: nat) = 48 + d"
  by simp

lemma decimal_not_empty: "decimal n \<noteq> []"
  by (simp add: decimal.simps [of n])

lemma decimal_digits: "c \<in> set (decimal n) \<Longrightarrow> is_digit c"
proof (induction n rule: decimal.induct)
  case (1 n)
  then show ?case
    using digit_char [of "n mod 10"] by (auto simp: decimal.simps [of n] is_digit_def Let_def split: if_splits)
qed

lemma scan_digits_append:
  assumes "\<forall>c \<in> set s. is_digit c"
  shows "scan_digits acc (s @ r) = scan_digits (fst (scan_digits acc s)) r"
  using assms by (induction s arbitrary: acc) auto

lemma scan_decimal: "fst (scan_digits acc (decimal n)) = acc * 10 ^ length (decimal n) + int n"
proof (induction n arbitrary: acc rule: decimal.induct)
  case (1 n)
  have d: "is_digit (char_of (48 + n mod 10))" "digit_val (char_of (48 + n mod 10)) = int (n mod 10)"
    using digit_char [of "n mod 10"] by (simp_all add: is_digit_def digit_val_def Let_def)
  show ?case
  proof (cases "n < 10")
    case True
    then show ?thesis using d by (simp add: decimal.simps [of n])
  next
    case False
    have "fst (scan_digits acc (decimal (n div 10) @ [char_of (48 + n mod 10)]))
        = 10 * (acc * 10 ^ length (decimal (n div 10)) + int (n div 10)) + int (n mod 10)"
      using 1 [OF False, of acc] decimal_digits d
      by (subst scan_digits_append) auto
    also have "\<dots> = acc * 10 ^ Suc (length (decimal (n div 10))) + int n"
      by (simp add: algebra_simps zdiv_int zmod_int)
    finally show ?thesis
      using False by (simp add: decimal.simps [of n])
  qed
qed

lemma dropWhile_space_decimal: "dropWhile is_space (decimal n @ r) = decimal n @ r"
proof -
  obtain c cs where d: "decimal n = c # cs"
    using decimal_not_empty by (cases "decimal n") auto
  then have "is_digit c"
    using decimal_digits [of c n] by simp
  then have "\<not> is_space c"
    by (auto simp: is_digit_def is_space_def Let_def)
  with d show ?thesis by simp
qed

lemma scan_int_decimal:
  assumes "r = [] \<or> \<not> is_digit (hd r)"
  shows "scan_int (decimal n @ r) = Some (int n, r)"
proof -
  obtain c cs where d: "decimal n = c # cs"
    using decimal_not_empty by (cases "decimal n") auto
  then have c: "is_digit c"
    using decimal_digits [of c n] by simp
  then have sign: "c \<noteq> CHR ''-''" "c \<noteq> CHR ''+''"
    by (auto simp: is_digit_def Let_def)
  have "scan_digits 0 (decimal n @ r) = scan_digits (int n) r"
    using decimal_digits scan_decimal [of 0 n] by (subst scan_digits_append) auto
  also have "\<dots> = (int n, r)"
    using assms by (cases r) auto
  finally have "scan_digits 0 (c # cs @ r) = (int n, r)"
    using d by simp
  then show ?thesis
    using c sign dropWhile_space_decimal [of n r] d
    by (simp add: scan_int_def Let_def)
qed

text \<open>
  Every configuration written in the documented form, baud rate, hyphen, word length,
  parity character, stop bits, is read back exactly, for every parity character that is not a
  digit, whatever follows the stop bits if it is not a digit.
\<close>

theorem scan_config_roundtrip:
  assumes "\<not> is_digit p" and "rest = [] \<or> \<not> is_digit (hd rest)"
  shows "scan_config (decimal b @ ''-'' @ decimal w @ [p] @ decimal n @ rest) = Some (int b, int w, p, int n)"
proof -
  have hyphen: "\<not> is_digit (CHR ''-'')"
    by (simp add: is_digit_def Let_def)
  have 1: "scan_int (decimal b @ CHR ''-'' # decimal w @ p # decimal n @ rest)
      = Some (int b, CHR ''-'' # decimal w @ p # decimal n @ rest)"
    using hyphen by (intro scan_int_decimal) simp
  have 2: "scan_int (decimal w @ p # decimal n @ rest) = Some (int w, p # decimal n @ rest)"
    using assms(1) by (intro scan_int_decimal) simp
  have 3: "scan_int (decimal n @ rest) = Some (int n, rest)"
    using assms(2) by (intro scan_int_decimal)
  show ?thesis
    by (simp add: scan_config_def 1 2 3)
qed

theorem scan_config_roundtrip_witness: "scan_config ''115200-8N1'' = Some (115200, 8, CHR ''N'', 1)"
proof -
  have d: "decimal 115200 = ''115200''" "decimal 8 = ''8''" "decimal (Suc 0) = ''1''"
    by (simp_all add: decimal.simps char_of_def bit_Suc_0_iff)
  have "\<not> is_digit (CHR ''N'')"
    by (simp add: is_digit_def Let_def)
  from scan_config_roundtrip [OF this, of "[]" 115200 8 1] show ?thesis
    by (simp add: d)
qed

section \<open>The drop message\<close>

lemma decimal_length: "n < 10 ^ Suc k \<Longrightarrow> length (decimal n) \<le> Suc k"
proof (induction k arbitrary: n)
  case 0
  then show ?case by (simp add: decimal.simps [of n])
next
  case (Suc k)
  show ?case
  proof (cases "n < 10")
    case False
    have "n div 10 < 10 ^ Suc k"
      using Suc.prems by (simp add: less_mult_imp_div_less mult.commute)
    from Suc.IH [OF this] False show ?thesis
      by (simp add: decimal.simps [of n])
  qed (simp add: decimal.simps [of n])
qed

text \<open>
  The message about dropped bytes fits its 48-byte buffer with its terminating zero for
  every value of the counter, so it is never cut and the length given to the UART is the
  number of bytes stored.
\<close>

theorem drop_message_fits: "length (drop_text drops) + 1 \<le> CONSOLE_DROP_MSG_LEN"
proof -
  have "unat drops < 10 ^ Suc 9"
    using unat_u32_bound [of drops] by simp
  then have "length (decimal (unat drops)) \<le> Suc 9"
    by (rule decimal_length)
  then show ?thesis
    by (simp add: drop_text_def CONSOLE_DROP_MSG_LEN_def)
qed

section \<open>Polling output\<close>

lemma ring_upd_uart [simp]:
  "ring_contents (upd_uart i f s) = ring_contents s" "ring_wf (upd_uart i f s) = ring_wf s"
  by (simp_all add: upd_uart_def ring_contents_def ring_len_def ring_wf_def)

lemma write_polling_sends:
  fixes s :: "'x console_state_scheme"
  assumes "base_address (uart_descriptors s h) = base" and "nb \<noteq> 0"
  obtains k r s' where "run_state (uart_write_polling (Some h) buf nb) s = (r, s')" "k \<le> unat nb"
    "sent (thr base) (trace s') = sent (thr base) (trace s) @ map ucast (bytes_at (mem s) buf k)"
    "r = 0 \<longleftrightarrow> k = unat nb" "r \<le> 0" "ring_contents s' = ring_contents s"
proof (cases "uart_transfer_args_ok (Some h) buf nb \<and> is_open (uart_descriptors s h)")
  case False
  then have "run_state (uart_write_polling (Some h) buf nb) s = (- EINVAL, s)"
    by (auto simp: uart_write_polling_def)
  moreover have "0 < unat nb"
    using assms(2) by (simp add: unat_gt_0)
  ultimately show ?thesis
    using that [of "- EINVAL" s 0] by simp
next
  case True
  let ?s = "upd_uart h (\<lambda>c. c\<lparr>tx_is_busy := True, tx_is_async := False\<rparr>) s"
  obtain k t where k: "k \<le> unat nb" "run_state (uart_tx_polling base buf nb) ?s = (word_of_nat k, ?s\<lparr>trace := t\<rparr>)"
      "sent (thr base) t = sent (thr base) (trace ?s) @ map ucast (bytes_at (mem ?s) buf k)"
    by (rule tx_polling_sends)
  have "unat (word_of_nat k :: u32) = k"
    using k(1) unat_u32_bound [of nb] by (simp add: unsigned_of_nat take_bit_nat_eq_self)
  then have eq: "word_of_nat k = nb \<longleftrightarrow> k = unat nb"
    by (auto simp: word_unat_eq_iff)
  show ?thesis
    using True k eq assms(1)
    by (intro that [of "if word_of_nat k \<noteq> nb then - EIO else 0" "upd_uart h (\<lambda>c. c\<lparr>tx_is_busy := False\<rparr>) (?s\<lparr>trace := t\<rparr>)" k])
      (simp_all add: uart_write_polling_def)
qed

lemma quiet_signal: "quiet a console_signal_fill"
  unfolding console_signal_fill_def by (intro quiet_intros)

text \<open>
  Before the scheduler runs, console output goes straight to the port: when
  \<^verbatim>\<open>console_write\<close> returns the length, exactly the caller's bytes have been written to the
  transmit register, in order; otherwise it returns an error and at most a proper prefix has
  been written. The ring is not used.
\<close>

theorem console_polling_output:
  assumes "hconsole_uart s = Some h" and "base_address (uart_descriptors s h) = base" and "0 < n" and "n < 2 ^ 31"
    and "\<And>t. kernel (env s) t xPortIsInsideInterrupt = 0"
    and "\<And>t. kernel (env s) t xTaskGetSchedulerState = taskSCHEDULER_NOT_STARTED"
  shows "let s' = final (console_write buf (int n)) s; r = result (console_write buf (int n)) s
     in \<exists>k \<le> n. sent (thr base) (trace s') = sent (thr base) (trace s) @ map ucast (bytes_at (mem s) buf k)
        \<and> (r = int n \<longleftrightarrow> k = n) \<and> (r \<noteq> int n \<longrightarrow> r < 0)
        \<and> ring_contents s' = ring_contents s"
proof -
  let ?n = "word_of_nat n :: u32"
  have n: "unat ?n = n" "?n \<noteq> 0"
    using assms(3,4) by (simp_all add: unsigned_of_nat take_bit_nat_eq_self word_unat_eq_iff)
  define t where "t = Kern xTaskGetSchedulerState taskSCHEDULER_NOT_STARTED # Kern xPortIsInsideInterrupt 0 # trace s"
  have base: "base_address (uart_descriptors (s\<lparr>trace := t\<rparr>) h) = base"
    using assms(2) by simp
  obtain k r s' where run: "run_state (uart_write_polling (Some h) buf ?n) (s\<lparr>trace := t\<rparr>) = (r, s')"
      and k: "k \<le> unat ?n" "r = 0 \<longleftrightarrow> k = unat ?n" "r \<le> 0"
      and s': "sent (thr base) (trace s') = sent (thr base) (trace (s\<lparr>trace := t\<rparr>))
        @ map ucast (bytes_at (mem (s\<lparr>trace := t\<rparr>)) buf k)" "ring_contents s' = ring_contents (s\<lparr>trace := t\<rparr>)"
    using write_polling_sends [OF base n(2)] .
  obtain u where u: "final console_signal_fill s' = s'\<lparr>trace := u\<rparr>" "sent (thr base) u = sent (thr base) (trace s')"
    by (rule quietE [OF quiet_signal])
  have "run_state (console_write buf (int n)) s = (if r = 0 then int n else r, s'\<lparr>trace := u\<rparr>)"
    using assms run u(1)
    by (simp add: console_write_def console_fill_buf_def osal_get_kernel_state_def split_beta t_def
        OSAL_KERNEL_RUNNING_def OSAL_KERNEL_NOT_STARTED_def taskSCHEDULER_NOT_STARTED_def taskSCHEDULER_RUNNING_def)
  then show ?thesis
    using k s' u(2) n assms(3) by (auto simp: Let_def t_def intro!: exI [of _ k])
qed

text \<open>A machine before the scheduler is started, on a port whose transmitter is always ready.\<close>

definition early_machine :: console_state where
  "early_machine = console_machine\<lparr>env := ram_env\<lparr>hw_rd32 := \<lambda>_ _. 0x20, kernel := \<lambda>_ c.
     if c = xPortIsInsideInterrupt then 0 else 1\<rparr>\<rparr>"

theorem console_polling_output_witness:
  "\<exists>k \<le> 2. sent (thr 0x10C02000) (trace (final (console_write 0x100 2) early_machine))
     = map ucast (bytes_at (mem early_machine) 0x100 k)"
  using console_polling_output [of early_machine 0 "0x10C02000" 2 "0x100"]
  by (auto simp: early_machine_def taskSCHEDULER_NOT_STARTED_def Let_def uart_zero_def)

section \<open>What the UART driver leaves alone\<close>

text \<open>State that neither the layers below the UART driver nor its descriptors change.\<close>

definition uart_blind :: "('x uart_state_scheme \<Rightarrow> bool) \<Rightarrow> bool" where
  "uart_blind I \<longleftrightarrow> irq_blind I \<and> (\<forall>h f s. I (upd_uart h f s) = I s)"

lemma uart_blindI:
  assumes "irq_blind I" and "\<And>h f s. I (upd_uart h f s) = I s"
  shows "uart_blind I"
  using assms by (simp add: uart_blind_def)

lemma fifo_keeps_blind:
  assumes "trace_blind I"
  shows "keeps I (uart_write_fifo base buf n)"
proof -
  have "keeps I (uart_write_loop k base buf i)" for k i
    by (induction k arbitrary: i)
      (simp add: keeps_ret, unfold uart_write_loop.simps, intro keeps_intros keeps_prims_blind [OF assms])
  then show ?thesis
    by (simp add: uart_write_fifo_def)
qed

lemma uart_keeps_blind:
  assumes "uart_blind I"
  shows "keeps I (uart_open i)" "keeps I (uart_ioctl h cmd)" "keeps I (uart_close h)"
    "keeps I during \<Longrightarrow> keeps I (uart_write_sync during h buf n)"
proof -
  have irq: "irq_blind I" and upd: "\<And>h f. keeps I (modify (upd_uart h f))"
    using assms by (simp_all add: uart_blind_def keeps_def)
  note t = irq_blind_trace [OF irq]
  note rules = keeps_intros upd keeps_prims_blind [OF t] osal_keeps_blind [OF t] irq_keeps_blind [OF irq]
    rstmgr_keeps_blind [OF t] clk_keeps_blind [OF t] fifo_keeps_blind [OF t]
  show "keeps I (uart_open i)"
    unfolding uart_open_def uart_ll_defs Let_def by (intro rules)
  show "keeps I (uart_ioctl h cmd)"
    unfolding uart_ioctl_def uart_ll_defs Let_def
    by (cases cmd; simp only: uart_ioctl_t.case; intro rules)
  show "keeps I (uart_close h)"
    unfolding uart_close_def uart_ll_defs Let_def by (intro rules)
  assume "keeps I during"
  note during = this
  show "keeps I (uart_write_sync during h buf n)"
    unfolding uart_write_sync_def uart_claim_tx_def uart_write_def uart_enable_interrupt_def Let_def
    by (simp only: uart_interrupt_id_t.case) (intro rules during)
qed

section \<open>Draining the ring\<close>

text \<open>The part of the state that belongs to the console's queue.\<close>

definition queue_part :: "'x console_state_scheme \<Rightarrow> u8 list \<times> u32 \<times> u32 \<times> u64 \<times> u32 \<times> uart_handle_t" where
  "queue_part s = (ringbuf s, ring_head s, ring_tail s, int_buf s, dropped_bytes s, hconsole_uart s)"

lemma queue_part_contents:
  assumes "queue_part s = queue_part s'"
  shows "ring_contents s = ring_contents s'" "ring_wf s = ring_wf s'" "int_buf s = int_buf s'"
    "dropped_bytes s = dropped_bytes s'" "hconsole_uart s = hconsole_uart s'"
  using assms by (simp_all add: queue_part_def ring_contents_def ring_len_def ring_wf_def)

lemma queue_part_blind: "uart_blind (\<lambda>s. queue_part s = v)"
  by (intro uart_blindI irq_blindI) (simp_all add: queue_part_def set_callback_def upd_uart_def)

lemma get_upto_frames [simp]:
  "env (snd (ring.get_upto n s)) = env s" "trace (snd (ring.get_upto n s)) = trace s"
  "uart_descriptors (snd (ring.get_upto n s)) = uart_descriptors s"
  "int_buf (snd (ring.get_upto n s)) = int_buf s" "dropped_bytes (snd (ring.get_upto n s)) = dropped_bytes s"
  "hconsole_uart (snd (ring.get_upto n s)) = hconsole_uart s"
  by (induction n arbitrary: s) (simp_all add: split_beta ring_drop_def)

lemma read_all:
  assumes "ring_wf s" and "int_buf s \<noteq> 0"
  shows "result (console_read_ringbuf (int_buf s) CONSOLE_BUF_SIZE) s = int (length (ring_contents s))"
    and "ring_contents (final (console_read_ringbuf (int_buf s) CONSOLE_BUF_SIZE) s) = []"
    and "ring_wf (final (console_read_ringbuf (int_buf s) CONSOLE_BUF_SIZE) s)"
  using read_ring_takes [of s "int_buf s" CONSOLE_BUF_SIZE] ring_len_bound [OF assms(1)] assms
  by (simp_all add: CONSOLE_BUF_SIZE_def Let_def)

lemma read_frames:
  assumes "int_buf s \<noteq> 0"
  shows "env (final (console_read_ringbuf (int_buf s) CONSOLE_BUF_SIZE) s) = env s"
    "trace (final (console_read_ringbuf (int_buf s) CONSOLE_BUF_SIZE) s) = trace s"
    "uart_descriptors (final (console_read_ringbuf (int_buf s) CONSOLE_BUF_SIZE) s) = uart_descriptors s"
    "int_buf (final (console_read_ringbuf (int_buf s) CONSOLE_BUF_SIZE) s) = int_buf s"
    "dropped_bytes (final (console_read_ringbuf (int_buf s) CONSOLE_BUF_SIZE) s) = dropped_bytes s"
    "hconsole_uart (final (console_read_ringbuf (int_buf s) CONSOLE_BUF_SIZE) s) = hconsole_uart s"
  using read_loop_gets [of 0 4096 "int_buf s" s] assms
  by (simp_all add: console_read_ringbuf_def CONSOLE_BUF_SIZE_def split_beta Let_def)

text \<open>One iteration of the loop, for a transfer during which nobody uses the console.\<close>

definition drain_step :: "('x console_state_scheme, unit) state \<Rightarrow> 'x console_state_scheme \<Rightarrow> 'x console_state_scheme" where
  "drain_step during s =
     (let s1 = final (console_read_ringbuf (int_buf s) CONSOLE_BUF_SIZE) s
      in final (uart_write_sync during (hconsole_uart s) (int_buf s)
           (word_of_int (int (length (ring_contents s))))) s1)"

lemma drain_step_effect:
  assumes "ring_wf s" and "int_buf s \<noteq> 0" and "\<And>v. keeps (\<lambda>s. queue_part s = v) during"
  shows "ring_contents (drain_step during s) = []" "ring_wf (drain_step during s)"
    "int_buf (drain_step during s) = int_buf s" "dropped_bytes (drain_step during s) = dropped_bytes s"
    "hconsole_uart (drain_step during s) = hconsole_uart s"
proof -
  let ?s1 = "final (console_read_ringbuf (int_buf s) CONSOLE_BUF_SIZE) s"
  have "queue_part (drain_step during s) = queue_part ?s1"
    unfolding drain_step_def Let_def
    by (intro frame_of_keeps uart_keeps_blind(4) queue_part_blind assms(3))
  note q = queue_part_contents [OF this]
  show "ring_contents (drain_step during s) = []" "ring_wf (drain_step during s)"
    "int_buf (drain_step during s) = int_buf s" "dropped_bytes (drain_step during s) = dropped_bytes s"
    "hconsole_uart (drain_step during s) = hconsole_uart s"
    using q read_all [OF assms(1,2)] read_frames [OF assms(2)] by simp_all
qed

lemma drain_unfold:
  assumes "ring_wf s" and "int_buf s \<noteq> 0"
  shows "run_state (console_drain during (Suc fuel)) s =
     (if ring_contents s = [] then (Some (), drain_step during s)
      else run_state (console_drain during fuel) (drain_step during s))"
proof -
  have "int (length (ring_contents s)) = 0 \<longleftrightarrow> ring_contents s = []"
    by (simp del: length_ring_contents)
  then show ?thesis
    using read_all [OF assms] read_frames [OF assms(2)]
    by (simp add: drain_step_def Let_def split_beta del: length_ring_contents of_nat_eq_0_iff)
qed

lemma drain_two:
  assumes "ring_wf s" and "int_buf s \<noteq> 0" and "\<And>v. keeps (\<lambda>s. queue_part s = v) during"
  shows "run_state (console_drain during (Suc (Suc fuel))) s =
     (Some (), if ring_contents s = [] then drain_step during s else drain_step during (drain_step during s))"
  using assms drain_step_effect [OF assms] by (simp add: drain_unfold del: console_drain.simps)

text \<open>
  C40. The flush loop ends and empties the ring: when nobody writes to the console meanwhile,
  two rounds are enough whatever the UART driver answers, the ring is then empty, and the drop
  counter is unchanged.
\<close>

theorem console_drain_terminates:
  assumes "ring_wf s" and "int_buf s \<noteq> 0" and "\<And>v. keeps (\<lambda>s. queue_part s = v) during"
  shows "result (console_drain during (Suc (Suc fuel))) s = Some ()
    \<and> ring_contents (final (console_drain during (Suc (Suc fuel))) s) = []
    \<and> dropped_bytes (final (console_drain during (Suc (Suc fuel))) s) = dropped_bytes s"
proof -
  note one = drain_step_effect [OF assms]
  have "ring_wf (drain_step during s)" "int_buf (drain_step during s) \<noteq> 0"
    using one assms(2) by simp_all
  note two = drain_step_effect [OF this assms(3)]
  show ?thesis
    using one two by (simp add: drain_two [OF assms] del: console_drain.simps)
qed

lemma console_machine_int_buf [simp]:
  "int_buf (final (console_write_ringbuf 0x100 3) console_machine) = 0x8000"
proof -
  have "int_buf (ring.put_all xs s) = int_buf s" for xs and s :: console_state
    by (induction xs arbitrary: s) (simp_all add: ring_put_def)
  then show ?thesis
    using write_loop_puts [of console_machine 0 3 3 "0x100"]
    by (simp add: console_write_ringbuf_def split_beta)
qed

theorem console_drain_terminates_witness:
  "ring_contents (final (console_drain (ret ()) 2) (final (console_write_ringbuf 0x100 3) console_machine)) = []"
  using console_drain_terminates [of "final (console_write_ringbuf 0x100 3) console_machine" "ret ()" 0, folded numeral_2_eq_2]
  by (simp add: console_machine_written keeps_ret del: console_drain.simps)

text \<open>
  The flush loop loses what the UART driver refuses: if the port is busy with another
  transfer, the pending bytes are taken out of the ring, the driver's -EBUSY is ignored, not a
  single word is transmitted, and the bytes are not counted as dropped.
\<close>

theorem console_drain_loses_refused:
  assumes "ring_wf s" and "int_buf s \<noteq> 0" and "hconsole_uart s = Some h" and "granting (env s)"
    and "is_open (uart_descriptors s h)" and "tx_is_busy (uart_descriptors s h)"
  shows "let s' = final (console_drain (ret ()) 2) s
     in result (console_drain (ret ()) 2) s = Some () \<and> ring_contents s' = []
      \<and> dropped_bytes s' = dropped_bytes s \<and> sent a (trace s') = sent a (trace s)"
proof -
  have during: "keeps (\<lambda>s :: 'a console_state_scheme. queue_part s = v) (ret ())" for v
    by (rule keeps_ret)
  have step: "sent a (trace (drain_step (ret ()) t)) = sent a (trace t)
      \<and> uart_descriptors (drain_step (ret ()) t) = uart_descriptors t \<and> env (drain_step (ret ()) t) = env t"
    if t: "int_buf t \<noteq> 0" "hconsole_uart t = Some h" "granting (env t)"
      "is_open (uart_descriptors t h)" "tx_is_busy (uart_descriptors t h)" for t :: "'a console_state_scheme"
  proof -
    let ?t1 = "final (console_read_ringbuf (int_buf t) CONSOLE_BUF_SIZE) t"
    have "granting (env ?t1)" "is_open (uart_descriptors ?t1 h)" "tx_is_busy (uart_descriptors ?t1 h)"
      using t read_frames [OF t(1)] by simp_all
    from busy_write_sync_quiet [OF this, of "ret ()" "int_buf t" "word_of_int (int (length (ring_contents t)))" a]
    show ?thesis
      using t(2) read_frames [OF t(1)] by (auto simp: drain_step_def Let_def)
  qed
  note one = drain_step_effect [OF assms(1,2) during]
  note sent1 = step [OF assms(2-6)]
  have two: "ring_contents (drain_step (ret ()) (drain_step (ret ()) s)) = []"
    "dropped_bytes (drain_step (ret ()) (drain_step (ret ()) s)) = dropped_bytes s"
    using drain_step_effect [OF one(2) _ during] one assms(2) by simp_all
  have sent2: "sent a (trace (drain_step (ret ()) (drain_step (ret ()) s))) = sent a (trace s)"
    using step [of "drain_step (ret ()) s"] one sent1 assms by simp
  show ?thesis
    using one two sent1 sent2 drain_two [OF assms(1,2) during, of 0]
    by (simp add: Let_def numeral_2_eq_2 del: console_drain.simps)
qed

text \<open>The port sends another buffer while a byte waits in the ring.\<close>

definition busy_console :: console_state where
  "busy_console = (upd_uart 0 (\<lambda>c. c\<lparr>tx_is_busy := True\<rparr>) console_machine)\<lparr>ring_head := 1\<rparr>"

theorem console_drain_loses_refused_witness:
  "ring_contents busy_console = [0] \<and> ring_contents (final (console_drain (ret ()) 2) busy_console) = []
   \<and> sent (thr 0x10C02000) (trace (final (console_drain (ret ()) 2) busy_console)) = []"
proof -
  have "ring_contents busy_console = [0]"
    by (simp add: busy_console_def ring_contents_def ring_len_def wrap_def upd_uart_def)
  moreover have "ring_wf busy_console"
    by (simp add: busy_console_def ring_wf_def upd_uart_def)
  moreover have "env busy_console = env console_machine" "trace busy_console = []" "int_buf busy_console = 0x8000"
    "hconsole_uart busy_console = Some 0"
    "uart_descriptors busy_console 0 = uart_zero\<lparr>is_open := True, base_address := 0x10C02000, mutex := 1, tx_is_busy := True\<rparr>"
    by (simp_all add: busy_console_def uart_descriptors_upd upd_uart_def)
  ultimately show ?thesis
    using console_drain_loses_refused [of busy_console 0 "thr 0x10C02000"]
    by (simp add: Let_def granting_def ram_env_def del: console_drain.simps)
qed

section \<open>Initialisation\<close>

text \<open>The handles the console owns.\<close>

definition owned :: "'x console_state_scheme \<Rightarrow> uart_handle_t \<times> u64 \<times> u64" where
  "owned s = (hconsole_uart s, console_write_sem s, signal_bytes_available s)"

lemma owned_blind: "uart_blind (\<lambda>s. owned s = v)"
  by (intro uart_blindI irq_blindI) (simp_all add: owned_def set_callback_def upd_uart_def)

lemma owned_frames:
  "owned (final (uart_open i) s) = owned s" "owned (final (uart_ioctl h cmd) s) = owned s"
  "owned (final (uart_close h) s) = owned s" "owned (final osal_semaphore_create s) = owned s"
  "owned (final (osal_semaphore_post m) s) = owned s" "owned (final (osal_semaphore_delete m) s) = owned s"
  "owned (final (osal_task_create f a p) s) = owned s"
proof -
  note t = irq_blind_trace [OF owned_blind [unfolded uart_blind_def, THEN conjunct1]]
  show "owned (final (uart_open i) s) = owned s" "owned (final (uart_ioctl h cmd) s) = owned s"
    "owned (final (uart_close h) s) = owned s"
    by (intro frame_of_keeps uart_keeps_blind owned_blind)+
  show "owned (final osal_semaphore_create s) = owned s"
    "owned (final (osal_semaphore_post m) s) = owned s" "owned (final (osal_semaphore_delete m) s) = owned s"
    "owned (final (osal_task_create f a p) s) = owned s"
    by (intro frame_of_keeps osal_keeps_blind t)+
qed

lemmas owned_fields =
  owned_frames [unfolded owned_def prod.inject, THEN conjunct1]
  owned_frames [unfolded owned_def prod.inject, THEN conjunct2, THEN conjunct1]
  owned_frames [unfolded owned_def prod.inject, THEN conjunct2, THEN conjunct2]

lemma make_lock_result:
  "result console_make_lock s = 0 \<longrightarrow> console_write_sem (final console_make_lock s) \<noteq> 0"
  "result console_make_lock s \<noteq> 0 \<longrightarrow> console_write_sem (final console_make_lock s) = 0"
  "hconsole_uart (final console_make_lock s) = hconsole_uart s"
  "signal_bytes_available (final console_make_lock s) = signal_bytes_available s"
  by (simp_all add: console_make_lock_def console_drop_lock_def split_beta owned_fields)

lemma start_result:
  "result (console_start i config) s = 0 \<longrightarrow>
     hconsole_uart (final (console_start i config) s) \<noteq> None
   \<and> console_write_sem (final (console_start i config) s) = console_write_sem s
   \<and> signal_bytes_available (final (console_start i config) s) \<noteq> 0"
  "result (console_start i config) s \<noteq> 0 \<longrightarrow>
     hconsole_uart (final (console_start i config) s) = None
   \<and> console_write_sem (final (console_start i config) s) = 0
   \<and> signal_bytes_available (final (console_start i config) s) \<in> {0, signal_bytes_available s}"
  by (simp_all add: console_start_def console_drop_lock_def split_beta owned_fields)

text \<open>
  Initialisation is all or nothing: after success the console owns an open port, a write
  lock and the flush signal; after a failure of an unused console, whatever step failed, it
  owns none of the three.
\<close>

theorem console_init_all_or_nothing:
  assumes "owned s = (None, 0, 0)"
  shows "let s' = final (console_init i cfg) s
     in if result (console_init i cfg) s = 0
        then hconsole_uart s' \<noteq> None \<and> console_write_sem s' \<noteq> 0 \<and> signal_bytes_available s' \<noteq> 0
        else owned s' = (None, 0, 0)"
proof (cases "case cfg of None \<Rightarrow> None | Some str \<Rightarrow> if length str > CONSOLE_CFG_MAX_LEN then None else scan_config str")
  case None
  then show ?thesis
    using assms by (auto simp: console_init_def owned_def Let_def split: option.splits if_splits)
next
  case (Some q)
  then obtain str b w p n where cfg: "cfg = Some str" "\<not> length str > CONSOLE_CFG_MAX_LEN"
      "scan_config str = Some (b, w, p, n)"
    by (cases q) (auto split: option.splits if_splits)
  let ?config = "\<lparr>baud = word_of_int b, parity = console_parity p,
     stop_bits = (if n > 1 then UART_STOP_BITS_2 else UART_STOP_BITS_1), wlen = console_wlen w\<rparr>"
  define s1 where "s1 = (if fits_int b \<and> fits_int w \<and> fits_int n then s else s\<lparr>trace := UB ''sscanf'' # trace s\<rparr>)"
  have s1: "hconsole_uart s1 = None" "console_write_sem s1 = 0" "signal_bytes_available s1 = 0"
    using assms by (simp_all add: s1_def owned_def)
  have run: "run_state (console_init i cfg) s =
     (let r = result console_make_lock s1; s2 = final console_make_lock s1
      in if r \<noteq> 0 then (r, s2) else run_state (console_start i ?config) s2)"
    using cfg assms by (simp add: console_init_def owned_def s1_def split_beta Let_def)
  show ?thesis
    using make_lock_result [of s1] s1 start_result [of i ?config "final console_make_lock s1"]
    by (cases "result (console_start i ?config) (final console_make_lock s1) = 0")
      (auto simp: run Let_def owned_def)
qed

theorem console_init_all_or_nothing_witness:
  "owned (final (console_init 0 (Some ''115200''))
     (console_machine\<lparr>hconsole_uart := None, console_write_sem := 0, signal_bytes_available := 0\<rparr>)) = (None, 0, 0)"
proof -
  let ?s = "console_machine\<lparr>hconsole_uart := None, console_write_sem := 0, signal_bytes_available := 0\<rparr>"
  have "scan_config ''115200'' = None"
    by (simp add: scan_config_def scan_int_def is_space_def is_digit_def Let_def)
  then have "result (console_init 0 (Some ''115200'')) ?s = - EINVAL"
    by (simp add: console_init_def CONSOLE_CFG_MAX_LEN_def)
  then show ?thesis
    using console_init_all_or_nothing [of ?s 0 "Some ''115200''"] by (simp add: owned_def Let_def)
qed

end
