(* ===== verification/Mailbox.thy ===== *)
theory Mailbox
  imports Console
begin

unbundle bit_operations_syntax

text \<open>
  The client of the secure device manager's mailbox, \<^verbatim>\<open>drivers/sdm_mailbox\<close>: calls into the
  secure monitor, jobs of up to 14 clients, and the task that collects the responses. A client's
  handle is a pointer into the table of clients, modelled by its index; \<open>None\<close> is \<^verbatim>\<open>NULL\<close>. The
  allocated descriptor is the pointer \<open>mbox_descriptor\<close> with its contents \<open>mbox_data\<close>.
\<close>

section \<open>Calls into the secure monitor\<close>

text \<open>
  \<^verbatim>\<open>smc_call\<close> loads eleven registers from the array and stores them back. An array that is
  shorter is overrun, which is undefined; the model then keeps to the words that exist.
\<close>

definition smc_call :: "u64 \<Rightarrow> u64 list \<Rightarrow> ('x console_state_scheme, int \<times> u64 list) state" where
  "smc_call fn_id reg_val = do {
     _ \<leftarrow> console_lock;
     whenM (length reg_val < 11) (ub ''smc_call: array overrun'');
     (x0, x) \<leftarrow> gets (\<lambda>s. monitor (env s) (trace s) fn_id reg_val);
     emit (Smc fn_id reg_val x0);
     _ \<leftarrow> console_unlock;
     ret (sint (ucast x0 :: u32), map (\<lambda>i. if i < 11 then x i else reg_val ! i) [0..<length reg_val])
   }"

section \<open>State\<close>

definition MAX_CLIENT_INSTANCES :: nat where "MAX_CLIENT_INSTANCES = 16"
definition MAX_JOB_ID :: u8 where "MAX_JOB_ID = 16"
definition JOB_POOL_FULL :: u16 where "JOB_POOL_FULL = 0xFFFF"
definition SIP_SMC_GET_RESP :: u64 where "SIP_SMC_GET_RESP = 0x420000C8"
definition SIP_SMC_GET_TRANS_ID :: u64 where "SIP_SMC_GET_TRANS_ID = 0x420000C9"
definition SIP_GENERIC_MAILBOX_CMD :: u64 where "SIP_GENERIC_MAILBOX_CMD = 0x420000EE"
definition ATF_CLIENT_ID :: u8 where "ATF_CLIENT_ID = 1"
definition MBOX_TASK_CLOSED :: u8 where "MBOX_TASK_CLOSED = 0"
definition MBOX_TASK_OPEN :: u8 where "MBOX_TASK_OPEN = 1"
definition MBOX_TASK_BUSY :: u8 where "MBOX_TASK_BUSY = 2"
definition SDM_APS_MAILBOX_INTR :: u32 where "SDM_APS_MAILBOX_INTR = 32"

definition FORMAT_TRANS_ID :: "u8 \<Rightarrow> u8 \<Rightarrow> u64" where
  "FORMAT_TRANS_ID cid jid = push_bit 4 (ucast cid AND 0xF) OR (ucast jid AND 0xF)"

definition GET_CLIENT_ID :: "u8 \<Rightarrow> u8" where
  "GET_CLIENT_ID trans_id = drop_bit 4 (trans_id AND 0xF0)"

definition GET_JOB_ID :: "u8 \<Rightarrow> u8" where
  "GET_JOB_ID trans_id = trans_id AND 0xF"

text \<open>\<open>job_resp\<close> holds for each of the 16 jobs the address and length of the response buffer.\<close>

record sdm_client_descriptor =
  job_pool :: u16
  job_head :: u8
  client_status :: u8
  call_back :: fptr
  client_mutex :: u64
  client_free :: u64
  job_resp :: "(u64 \<times> u64) list"

record sdm_mbox_descriptor =
  client_list_mutex :: u64
  call_complete_sem :: u64
  task_state :: u8

record mbox_state = console_state +
  mbox_descriptor :: u64
  mbox_data :: sdm_mbox_descriptor
  client_descriptors :: "nat \<Rightarrow> sdm_client_descriptor"

type_synonym sdm_client_handle_t = "nat option"

definition client_zero :: sdm_client_descriptor where
  "client_zero = \<lparr>job_pool = 0, job_head = 0, client_status = 0, call_back = F_NULL,
     client_mutex = 0, client_free = 0, job_resp = replicate 16 (0, 0)\<rparr>"

definition upd_client ::
  "nat \<Rightarrow> (sdm_client_descriptor \<Rightarrow> sdm_client_descriptor) \<Rightarrow> 'x mbox_state_scheme \<Rightarrow> 'x mbox_state_scheme" where
  "upd_client i f s = s\<lparr>client_descriptors := (client_descriptors s)(i := f (client_descriptors s i))\<rparr>"

abbreviation get_client :: "nat \<Rightarrow> ('x mbox_state_scheme, sdm_client_descriptor) state" where
  "get_client i \<equiv> gets (\<lambda>s. client_descriptors s i)"

text \<open>Dereferencing \<^verbatim>\<open>mbox_descriptor\<close>.\<close>

definition mbox_deref :: "('x mbox_state_scheme, sdm_mbox_descriptor) state" where
  "mbox_deref = do {
     p \<leftarrow> gets mbox_descriptor;
     whenM (p = 0) (ub ''NULL mbox_descriptor'');
     gets mbox_data
   }"

definition upd_mbox :: "(sdm_mbox_descriptor \<Rightarrow> sdm_mbox_descriptor) \<Rightarrow> ('x mbox_state_scheme, unit) state" where
  "upd_mbox f = do {
     _ \<leftarrow> mbox_deref;
     modify (\<lambda>s. s\<lparr>mbox_data := f (mbox_data s)\<rparr>)
   }"

section \<open>Job ids\<close>

text \<open>
  The search for a free bit of the pool from \<open>i\<close> on, around the end; sixteen steps see every bit
  (\<open>job_scan_total\<close>), \<open>None\<close> would be a loop that does not end.
\<close>

fun job_scan :: "nat \<Rightarrow> u16 \<Rightarrow> u8 \<Rightarrow> u8 option" where
  "job_scan 0 pool i = None"
| "job_scan (Suc n) pool i =
     (if pool AND push_bit (unat i) 1 \<noteq> 0 then job_scan n pool ((i + 1) mod MAX_JOB_ID) else Some i)"

definition assign_job_id :: "sdm_client_handle_t \<Rightarrow> ('x mbox_state_scheme, u8 option) state" where
  "assign_job_id mbox_handle =
     (case mbox_handle of
        None \<Rightarrow> ret (Some 0xFF)
      | Some h \<Rightarrow> do {
          c \<leftarrow> get_client h;
          if job_pool c = JOB_POOL_FULL then ret (Some 0xFF)
          else do {
            d \<leftarrow> mbox_deref;
            locked \<leftarrow> osal_mutex_lock (client_list_mutex d) OSAL_TIMEOUT_WAIT_FOREVER;
            if \<not> locked then ret (Some 0)
            else do {
              c \<leftarrow> get_client h;
              case job_scan 16 (job_pool c) (job_head c) of
                None \<Rightarrow> ret None
              | Some i \<Rightarrow> do {
                  modify (upd_client h (\<lambda>c. c\<lparr>job_pool := job_pool c OR push_bit (unat i) 1\<rparr>));
                  modify (upd_client h (\<lambda>c. c\<lparr>job_head := (i + 1) mod MAX_JOB_ID\<rparr>));
                  d \<leftarrow> mbox_deref;
                  unlocked \<leftarrow> osal_mutex_unlock (client_list_mutex d);
                  ret (Some (if \<not> unlocked then 0xFF else i))
                }
            }
          }
        })"

definition free_job_id :: "u8 \<Rightarrow> u8 \<Rightarrow> ('x mbox_state_scheme, int) state" where
  "free_job_id client_id job_id = do {
     let h = unat client_id;
     c \<leftarrow> get_client h;
     if job_pool c = 0 then ret (- EIO)
     else do {
       d \<leftarrow> mbox_deref;
       locked \<leftarrow> osal_mutex_lock (client_list_mutex d) OSAL_TIMEOUT_WAIT_FOREVER;
       if \<not> locked then ret 0
       else do {
         modify (upd_client h (\<lambda>c. c\<lparr>job_pool := job_pool c XOR push_bit (unat job_id) 1\<rparr>));
         d \<leftarrow> mbox_deref;
         unlocked \<leftarrow> osal_mutex_unlock (client_list_mutex d);
         ret (if \<not> unlocked then - EIO else 0)
       }
     }
   }"

section \<open>Bytes and words\<close>

text \<open>The little-endian view of an array of 64-bit words, for the calls of \<^verbatim>\<open>memcpy\<close>.\<close>

definition le_bytes :: "u64 \<Rightarrow> u8 list" where
  "le_bytes w = map (\<lambda>i. ucast (drop_bit (8 * i) w)) [0..<8]"

definition bytes_of_words :: "u64 list \<Rightarrow> u8 list" where
  "bytes_of_words ws = concat (map le_bytes ws)"

fun le_word :: "u8 list \<Rightarrow> u64" where
  "le_word [] = 0"
| "le_word (b # bs) = ucast b OR push_bit 8 (le_word bs)"

fun words_of_bytes :: "nat \<Rightarrow> u8 list \<Rightarrow> u64 list" where
  "words_of_bytes 0 bs = []"
| "words_of_bytes (Suc n) bs = le_word (take 8 bs) # words_of_bytes n (drop 8 bs)"

section \<open>Collecting responses\<close>

text \<open>One response: what the loop's body does with the transaction id it has found.\<close>

definition poll_response :: "u8 \<Rightarrow> u64 list \<Rightarrow> ('x mbox_state_scheme, u64 list) state" where
  "poll_response trans_id smc_args =
     (let client_id = GET_CLIENT_ID trans_id; h = unat client_id; job_id = GET_JOB_ID trans_id in
      if client_id = ATF_CLIENT_ID then ret smc_args
      else do {
        (r, smc_args) \<leftarrow> smc_call SIP_SMC_GET_RESP (smc_args[0 := ucast trans_id]);
        if r \<noteq> 0 then ret (replicate 12 0)
        else do {
          c \<leftarrow> get_client h;
          let (p, len) = job_resp c ! unat job_id;
          whenM (p \<noteq> 0 \<and> len \<noteq> 0) (do {
            whenM (len > 96) (ub ''memcpy: past smc_args'');
            modify (\<lambda>s. s\<lparr>mem := store_bytes (mem s) p (take (unat len) (bytes_of_words smc_args))\<rparr>)
          });
          e \<leftarrow> free_job_id client_id job_id;
          if e \<noteq> 0 then ret smc_args
          else do {
            c \<leftarrow> get_client h;
            whenM (call_back c \<noteq> F_NULL) (emit (Call (call_back c) V_NULL smc_args));
            _ \<leftarrow> osal_semaphore_post (client_free c);
            ret smc_args
          }
        }
      })"

text \<open>The inner loop over \<open>j\<close>, with the number of bits still to look at.\<close>

fun next_bit :: "nat \<Rightarrow> u64 \<Rightarrow> nat \<Rightarrow> nat" where
  "next_bit 0 w j = j"
| "next_bit (Suc n) w j = (if drop_bit j w AND 1 = 1 then j else next_bit n w (j + 1))"

text \<open>
  The loop over one word of the bit mask; \<open>j\<close> is not reset between two rounds. Every round clears
  a bit, so 64 rounds are enough (\<open>poll_word_visits_bits\<close>); \<open>None\<close> is a loop that goes on.
\<close>

fun poll_word :: "nat \<Rightarrow> u8 \<Rightarrow> nat \<Rightarrow> u64 \<Rightarrow> u64 list \<Rightarrow> ('x mbox_state_scheme, u64 list option) state" where
  "poll_word 0 i j w args = ret (if w = 0 then Some args else None)"
| "poll_word (Suc n) i j w args =
     (if w = 0 then ret (Some args)
      else do {
        let j = next_bit (64 - j) w j;
        whenM (j \<ge> 64) (ub ''shift'');
        args \<leftarrow> poll_response (i * 64 + word_of_nat j) args;
        poll_word n i j (w AND NOT (push_bit j 1)) args
      })"

fun poll_words :: "u8 \<Rightarrow> u64 list \<Rightarrow> u64 list \<Rightarrow> ('x mbox_state_scheme, u64 list option) state" where
  "poll_words i [] args = ret (Some args)"
| "poll_words i (w # ws) args = do {
     r \<leftarrow> poll_word 64 i 0 w args;
     case r of None \<Rightarrow> ret None | Some args \<Rightarrow> poll_words (i + 1) ws args
   }"

text \<open>
  The task: it waits for the interrupt, collects the responses, enables the interrupt again. One
  round ends by going on, by deleting the task, or by returning from the task's function.
\<close>

datatype poll_exit = Poll_again | Poll_deleted | Poll_returned

definition mbox_poll_finish :: "('x mbox_state_scheme, poll_exit option) state" where
  "mbox_poll_finish = do {
     upd_mbox (\<lambda>d. d\<lparr>task_state := MBOX_TASK_OPEN\<rparr>);
     e \<leftarrow> interrupt_enable SDM_APS_MAILBOX_INTR 14;
     ret (Some (if e \<noteq> 0 then Poll_returned else Poll_again))
   }"

definition mbox_poll_round :: "('x mbox_state_scheme, poll_exit option) state" where
  "mbox_poll_round = do {
     d \<leftarrow> mbox_deref;
     signalled \<leftarrow> osal_semaphore_wait (call_complete_sem d) OSAL_TIMEOUT_WAIT_FOREVER;
     if \<not> signalled then mbox_poll_finish
     else do {
       d \<leftarrow> mbox_deref;
       if task_state d = MBOX_TASK_CLOSED then do {
         osal_task_delete;
         ret (Some Poll_deleted)
       } else do {
         (r, bitmask) \<leftarrow> smc_call SIP_SMC_GET_TRANS_ID (replicate 4 0);
         if r \<noteq> 0 then mbox_poll_finish
         else do {
           collected \<leftarrow> poll_words 0 bitmask (replicate 12 0);
           case collected of None \<Rightarrow> ret None | Some _ \<Rightarrow> mbox_poll_finish
         }
       }
     }
   }"

fun mbox_poll_rounds :: "nat \<Rightarrow> ('x mbox_state_scheme, poll_exit option) state" where
  "mbox_poll_rounds 0 = ret None"
| "mbox_poll_rounds (Suc n) = do {
     r \<leftarrow> mbox_poll_round;
     if r = Some Poll_again then mbox_poll_rounds n else ret r
   }"

definition mbox_poll_resp_task :: "nat \<Rightarrow> ('x mbox_state_scheme, poll_exit option) state" where
  "mbox_poll_resp_task n = do {
     smc_args \<leftarrow> gets (\<lambda>s. stack_slot (env s) (trace s));
     emit (Cache_clean smc_args 96);
     emit (Cache_invalidate smc_args 96);
     mbox_poll_rounds n
   }"

section \<open>Clients\<close>

definition mbox_open_client :: "('x mbox_state_scheme, sdm_client_handle_t) state" where
  "mbox_open_client = do {
     d \<leftarrow> mbox_deref;
     locked \<leftarrow> osal_mutex_lock (client_list_mutex d) OSAL_TIMEOUT_WAIT_FOREVER;
     if \<not> locked then ret None
     else do {
       cs \<leftarrow> gets client_descriptors;
       let found = find (\<lambda>i. client_status (cs i) = 0) [2..<MAX_CLIENT_INSTANCES];
       posted \<leftarrow> (case found of
           None \<Rightarrow> ret True
         | Some i \<Rightarrow> do {
             modify (upd_client i (\<lambda>c. c\<lparr>client_status := 1\<rparr>));
             m \<leftarrow> osal_mutex_create;
             modify (upd_client i (\<lambda>c. c\<lparr>client_mutex := m\<rparr>));
             f \<leftarrow> osal_semaphore_create;
             modify (upd_client i (\<lambda>c. c\<lparr>client_free := f\<rparr>));
             osal_semaphore_post f
           });
       if \<not> posted then ret None
       else do {
         d \<leftarrow> mbox_deref;
         unlocked \<leftarrow> osal_mutex_unlock (client_list_mutex d);
         ret (if \<not> unlocked then None else found)
       }
     }
   }"

definition mbox_close_client :: "sdm_client_handle_t \<Rightarrow> ('x mbox_state_scheme, int) state" where
  "mbox_close_client mbox_handle =
     (case mbox_handle of
        None \<Rightarrow> ret (- EINVAL)
      | Some h \<Rightarrow> do {
          c \<leftarrow> get_client h;
          if client_status c = 0 then ret (- EINVAL)
          else if job_pool c \<noteq> 0 then ret (- EIO)
          else do {
            d \<leftarrow> mbox_deref;
            locked \<leftarrow> osal_mutex_lock (client_list_mutex d) OSAL_TIMEOUT_WAIT_FOREVER;
            if \<not> locked then ret 0
            else do {
              locked \<leftarrow> osal_mutex_lock (client_mutex c) OSAL_TIMEOUT_WAIT_FOREVER;
              ok \<leftarrow> (if \<not> locked then ret True
                else do {
                  modify (upd_client h (\<lambda>c. c\<lparr>job_pool := 0, job_head := 0, client_status := 0\<rparr>));
                  deleted \<leftarrow> osal_semaphore_delete (client_free c);
                  if \<not> deleted then ret False
                  else do {
                    modify (upd_client h (\<lambda>c. c\<lparr>job_resp := replicate 16 (0, 0)\<rparr>));
                    osal_mutex_unlock (client_mutex c)
                  }
                });
              if \<not> ok then ret (- EIO)
              else do {
                d \<leftarrow> mbox_deref;
                unlocked \<leftarrow> osal_mutex_unlock (client_list_mutex d);
                if \<not> unlocked then ret (- EIO)
                else do {
                  deleted \<leftarrow> osal_mutex_delete (client_mutex c);
                  ret (if \<not> deleted then - EIO else 0)
                }
              }
            }
          }
        })"

definition mbox_set_callback :: "sdm_client_handle_t \<Rightarrow> fptr \<Rightarrow> ('x mbox_state_scheme, int) state" where
  "mbox_set_callback mbox_handle cb =
     (case mbox_handle of
        None \<Rightarrow> ret (- EIO)
      | Some h \<Rightarrow> do {
          c \<leftarrow> get_client h;
          locked \<leftarrow> osal_mutex_lock (client_mutex c) OSAL_TIMEOUT_WAIT_FOREVER;
          whenM locked (modify (upd_client h (\<lambda>c. c\<lparr>call_back := cb\<rparr>)));
          unlocked \<leftarrow> osal_mutex_unlock (client_mutex c);
          ret (if \<not> unlocked then - EIO else 0)
        })"

section \<open>Sending\<close>

text \<open>
  \<^verbatim>\<open>memcpy(&smc_values[1], mbox_args, arg_len)\<close> over eleven zero words: undefined when it reads
  past the caller's words or writes past the array.
\<close>

definition copy_args :: "u64 list \<Rightarrow> nat \<Rightarrow> u64 list" where
  "copy_args args n = words_of_bytes 11 (take n (bytes_of_words args) @ replicate 88 0)"

text \<open>The result \<open>None\<close>: the call does not return.\<close>

definition sip_svc_transact ::
  "nat \<Rightarrow> u8 \<Rightarrow> u8 \<Rightarrow> u64 \<Rightarrow> u64 list option \<Rightarrow> u32 \<Rightarrow> u64 \<Rightarrow> u32 \<Rightarrow> ('x mbox_state_scheme, int) state" where
  "sip_svc_transact h client_id job_id smc_func_id mbox_args arg_len resp_data resp_len = do {
     modify (upd_client h (\<lambda>c. c\<lparr>job_resp := (job_resp c)[unat job_id := (resp_data, ucast resp_len)]\<rparr>));
     smc_values \<leftarrow> (case mbox_args of
         None \<Rightarrow> ret (replicate 11 0)
       | Some args \<Rightarrow> do {
           whenM (unat arg_len > 88 \<or> unat arg_len > 8 * length args) (ub ''memcpy'');
           ret (copy_args args (unat arg_len))
         });
     e \<leftarrow> interrupt_enable SDM_APS_MAILBOX_INTR 14;
     if e \<noteq> 0 then ret (- EIO)
     else do {
       (r, _) \<leftarrow> smc_call smc_func_id (FORMAT_TRANS_ID client_id job_id # smc_values);
       c \<leftarrow> get_client h;
       freed \<leftarrow> (if resp_data = 0 \<or> resp_len = 0 \<or> r \<noteq> 0 then do {
           e \<leftarrow> free_job_id client_id job_id;
           if e \<noteq> 0 then ret False else osal_semaphore_post (client_free c)
         } else ret True);
       if \<not> freed then ret (- EIO)
       else do {
         unlocked \<leftarrow> osal_mutex_unlock (client_mutex c);
         ret (if \<not> unlocked then - EIO else - r)
       }
     }
   }"

definition sip_svc_send ::
  "sdm_client_handle_t \<Rightarrow> u64 \<Rightarrow> u64 list option \<Rightarrow> u32 \<Rightarrow> u64 \<Rightarrow> u32 \<Rightarrow> ('x mbox_state_scheme, int option) state" where
  "sip_svc_send mbox_handle smc_func_id mbox_args arg_len resp_data resp_len =
     (case mbox_handle of
        None \<Rightarrow> ret (Some (- EIO))
      | Some h \<Rightarrow> do {
          c \<leftarrow> get_client h;
          if client_status c = 0 \<or> (mbox_args \<noteq> None \<and> arg_len = 0) \<or> (mbox_args = None \<and> arg_len \<noteq> 0)
          then ret (Some (- EIO))
          else do {
            cs \<leftarrow> gets client_descriptors;
            case find (\<lambda>i. cs i = c) [2..<MAX_CLIENT_INSTANCES] of
              None \<Rightarrow> ret (Some (- EIO))
            | Some client_id \<Rightarrow> do {
                free \<leftarrow> osal_semaphore_wait (client_free c) OSAL_TIMEOUT_WAIT_FOREVER;
                if \<not> free then ret (Some 0)
                else do {
                  locked \<leftarrow> osal_mutex_lock (client_mutex c) OSAL_TIMEOUT_WAIT_FOREVER;
                  if \<not> locked then ret (Some 0)
                  else do {
                    job \<leftarrow> assign_job_id mbox_handle;
                    case job of
                      None \<Rightarrow> ret None
                    | Some job_id \<Rightarrow>
                        if job_id \<ge> MAX_JOB_ID then ret (Some (- EIO))
                        else do {
                          r \<leftarrow> sip_svc_transact h (word_of_nat client_id) job_id smc_func_id mbox_args
                                 arg_len resp_data resp_len;
                          ret (Some r)
                        }
                  }
                }
              }
          }
        })"

definition mbox_send_command ::
  "sdm_client_handle_t \<Rightarrow> u32 \<Rightarrow> u64 \<Rightarrow> u32 \<Rightarrow> u64 \<Rightarrow> u32 \<Rightarrow> u64 \<Rightarrow> u32 \<Rightarrow> ('x mbox_state_scheme, int option) state" where
  "mbox_send_command mbox_handle command command_args arg_size resp resp_size smc_resp smc_resp_len =
     (if mbox_handle = None then ret (Some (- EINVAL))
      else if arg_size mod 4 \<noteq> 0 \<or> resp_size mod 4 \<noteq> 0 then ret (Some (- EINVAL))
      else do {
        whenM (command_args \<noteq> 0 \<and> arg_size \<noteq> 0) (emit (Cache_clean command_args (ucast arg_size)));
        whenM (resp \<noteq> 0 \<or> resp_size \<noteq> 0) (emit (Cache_invalidate resp (ucast resp_size)));
        sip_svc_send mbox_handle SIP_GENERIC_MAILBOX_CMD
          (Some [ucast command, command_args, ucast arg_size, resp, ucast resp_size]) 40
          smc_resp smc_resp_len
      })"

section \<open>Start-up, shut-down and the interrupt\<close>

text \<open>
  The contents of the memory that \<^verbatim>\<open>pvPortMalloc\<close> returns are unspecified: \<open>mbox_data\<close> keeps
  whatever it held. A null pointer is used like any other.
\<close>

definition mbox_init :: "('x mbox_state_scheme, int) state" where
  "mbox_init = do {
     p \<leftarrow> gets mbox_descriptor;
     if p \<noteq> 0 then ret 0
     else do {
       p \<leftarrow> kern (pvPortMalloc 24);
       modify (\<lambda>s. s\<lparr>mbox_descriptor := p\<rparr>);
       m \<leftarrow> osal_mutex_create;
       upd_mbox (\<lambda>d. d\<lparr>client_list_mutex := m\<rparr>);
       w \<leftarrow> osal_semaphore_counting_create (word_of_nat MAX_CLIENT_INSTANCES) 0;
       upd_mbox (\<lambda>d. d\<lparr>call_complete_sem := w\<rparr>);
       if m = 0 \<or> w = 0 then ret (- EIO)
       else do {
         created \<leftarrow> osal_task_create F_mbox_poll_resp_task 0 3;
         if \<not> created then ret (- EIO)
         else do {
           e \<leftarrow> interrupt_register_isr SDM_APS_MAILBOX_INTR F_mbox_irq_handler V_NULL;
           if e \<noteq> 0 then ret (- EIO)
           else do {
             upd_mbox (\<lambda>d. d\<lparr>task_state := MBOX_TASK_OPEN\<rparr>);
             ret 0
           }
         }
       }
     }
   }"

definition mbox_deinit :: "('x mbox_state_scheme, int) state" where
  "mbox_deinit = do {
     p \<leftarrow> gets mbox_descriptor;
     if p = 0 then ret (- EIO)
     else do {
       d \<leftarrow> mbox_deref;
       if task_state d = MBOX_TASK_CLOSED \<or> task_state d = MBOX_TASK_BUSY then ret (- EIO)
       else do {
         cs \<leftarrow> gets client_descriptors;
         if \<exists>i \<in> set [2..<MAX_CLIENT_INSTANCES]. client_status (cs i) = 1 then ret (- EIO)
         else do {
           e \<leftarrow> interrupt_disable SDM_APS_MAILBOX_INTR;
           if e \<noteq> 0 then ret (- EIO)
           else do {
             upd_mbox (\<lambda>d. d\<lparr>task_state := MBOX_TASK_CLOSED\<rparr>);
             posted \<leftarrow> osal_semaphore_post (call_complete_sem d);
             if \<not> posted then ret (- EIO)
             else do {
               deleted \<leftarrow> osal_mutex_delete (client_list_mutex d);
               if \<not> deleted then ret (- EIO)
               else do {
                 deleted \<leftarrow> osal_semaphore_delete (call_complete_sem d);
                 if \<not> deleted then ret (- EIO)
                 else do {
                   upd_mbox (\<lambda>_. \<lparr>client_list_mutex = 0, call_complete_sem = 0, task_state = 0\<rparr>);
                   _ \<leftarrow> kern (vPortFree p);
                   modify (\<lambda>s. s\<lparr>mbox_descriptor := 0\<rparr>);
                   ret 0
                 }
               }
             }
           }
         }
       }
     }
   }"

definition mbox_irq_handler :: "vptr \<Rightarrow> ('x mbox_state_scheme, unit) state" where
  "mbox_irq_handler param = do {
     e \<leftarrow> interrupt_disable SDM_APS_MAILBOX_INTR;
     if e \<noteq> 0 then ret ()
     else do {
       upd_mbox (\<lambda>d. d\<lparr>task_state := MBOX_TASK_BUSY\<rparr>);
       d \<leftarrow> mbox_deref;
       _ \<leftarrow> osal_semaphore_post (call_complete_sem d);
       ret ()
     }
   }"

lemmas mbox_consts =
  MAX_CLIENT_INSTANCES_def MAX_JOB_ID_def JOB_POOL_FULL_def SIP_SMC_GET_RESP_def
  SIP_SMC_GET_TRANS_ID_def SIP_GENERIC_MAILBOX_CMD_def ATF_CLIENT_ID_def MBOX_TASK_CLOSED_def
  MBOX_TASK_OPEN_def MBOX_TASK_BUSY_def SDM_APS_MAILBOX_INTR_def

interpretation clients: slots client_descriptors upd_client "\<lambda>_ _. True"
  by unfold_locales (simp_all add: upd_client_def)

section \<open>Transaction ids\<close>

lemma nibbles: "bit (0xF :: int) n \<longleftrightarrow> n < 4" "bit (0xF0 :: int) n \<longleftrightarrow> 4 \<le> n \<and> n < 8"
proof -
  have m: "(0xF :: int) = mask 4" "(0xF0 :: int) = push_bit 4 (mask 4)"
    by (simp_all add: mask_eq_exp_minus_1)
  show "bit (0xF :: int) n \<longleftrightarrow> n < 4" "bit (0xF0 :: int) n \<longleftrightarrow> 4 \<le> n \<and> n < 8"
    unfolding m by (auto simp only: bit_mask_iff bit_push_bit_iff possible_bit_int)
qed

lemma trans_id_fields:
  assumes "cid < 16" and "jid < 16"
  shows "GET_CLIENT_ID (ucast (FORMAT_TRANS_ID cid jid)) = cid"
    and "GET_JOB_ID (ucast (FORMAT_TRANS_ID cid jid)) = jid"
proof -
  have hi: "bit cid n \<Longrightarrow> n < 4" "bit jid n \<Longrightarrow> n < 4" for n
    using assms small_word_bit [of cid 4 n] small_word_bit [of jid 4 n]
    by (auto simp: word_less_nat_alt not_le [symmetric])
  show "GET_CLIENT_ID (ucast (FORMAT_TRANS_ID cid jid)) = cid"
    by (rule bit_word_eqI)
      (use hi in \<open>auto simp: GET_CLIENT_ID_def FORMAT_TRANS_ID_def bit_simps nibbles not_less\<close>)
  show "GET_JOB_ID (ucast (FORMAT_TRANS_ID cid jid)) = jid"
    by (rule bit_word_eqI)
      (use hi in \<open>auto simp: GET_JOB_ID_def FORMAT_TRANS_ID_def bit_simps nibbles not_less\<close>)
qed

section \<open>Job ids\<close>

lemma job_scan_sound:
  "job_scan n pool i = Some k \<Longrightarrow> i < 16 \<Longrightarrow> k < 16 \<and> \<not> bit pool (unat k)"
  by (induction n arbitrary: i)
    (auto simp: MAX_JOB_ID_def bit_iff_and_push_bit_not_eq_0 word_mod_less_divisor split: if_splits)

lemma job_scan_none:
  "job_scan n pool i = None \<Longrightarrow> i < 16 \<Longrightarrow> m < n \<Longrightarrow> bit pool ((unat i + m) mod 16)"
proof (induction n arbitrary: i m)
  case (Suc n)
  have i: "unat i < 16" "bit pool (unat i)" "job_scan n pool ((i + 1) mod MAX_JOB_ID) = None"
    using Suc.prems by (auto simp: bit_iff_and_push_bit_not_eq_0 word_less_nat_alt split: if_splits)
  have next_i: "unat ((i + 1) mod 16) = (unat i + 1) mod 16"
    using i(1) by (simp add: unat_mod unat_word_ariths)
  show ?case
  proof (cases m)
    case (Suc m')
    have "bit pool ((unat ((i + 1) mod 16) + m') mod 16)"
      using Suc.IH [of "(i + 1) mod MAX_JOB_ID" m'] i(3) Suc Suc.prems(3)
      by (simp add: MAX_JOB_ID_def word_mod_less_divisor)
    then show ?thesis
      by (simp add: next_i Suc mod_simps add.assoc)
  qed (use i in simp)
qed simp

lemma job_scan_total:
  assumes "pool \<noteq> JOB_POOL_FULL" and "i < 16"
  shows "\<exists>k. job_scan 16 pool i = Some k \<and> k < 16 \<and> \<not> bit pool (unat k)"
proof (cases "job_scan 16 pool i")
  case None
  have "bit pool k" if "k < 16" for k
  proof -
    have "unat i < 16"
      using assms(2) by (simp add: word_less_nat_alt)
    then have "(unat i + (k + 16 - unat i) mod 16) mod 16 = k"
      using that by (simp add: mod_simps)
    then show ?thesis
      using job_scan_none [OF None assms(2), of "(k + 16 - unat i) mod 16"] by simp
  qed
  moreover have "bit JOB_POOL_FULL k" if "k < 16" for k
  proof -
    have full: "JOB_POOL_FULL = mask 16"
      by (simp add: JOB_POOL_FULL_def mask_eq_exp_minus_1)
    show ?thesis
      unfolding full using that by (simp only: bit_mask_iff possible_bit_word) simp
  qed
  ultimately have "pool = JOB_POOL_FULL"
    by (intro bit_word_eqI) simp
  with assms(1) show ?thesis by simp
qed (use job_scan_sound assms(2) in auto)

section \<open>The scan of the bit mask\<close>

text \<open>The reference: the pending transaction ids in ascending order, served one after the other.\<close>

definition pending_bits :: "u64 \<Rightarrow> nat \<Rightarrow> nat list" where
  "pending_bits w j = filter (bit w) [j..<64]"

fun pending_ids :: "u8 \<Rightarrow> u64 list \<Rightarrow> u8 list" where
  "pending_ids i [] = []"
| "pending_ids i (w # ws) = map (\<lambda>j. i * 64 + word_of_nat j) (pending_bits w 0) @ pending_ids (i + 1) ws"

fun poll_all :: "u8 list \<Rightarrow> u64 list \<Rightarrow> ('x mbox_state_scheme, u64 list) state" where
  "poll_all [] args = ret args"
| "poll_all (t # ts) args = do { args \<leftarrow> poll_response t args; poll_all ts args }"

lemma poll_all_append: "poll_all (ts @ us) = (\<lambda>args. do { args \<leftarrow> poll_all ts args; poll_all us args })"
  by (induction ts) (rule ext, simp)+

lemma pending_bits_step:
  assumes "j < 64"
  shows "pending_bits w j = (if bit w j then j # pending_bits w (Suc j) else pending_bits w (Suc j))"
  using assms by (simp add: pending_bits_def upt_conv_Cons)

lemma next_bit_pending:
  "n = 64 - j \<Longrightarrow> pending_bits w j = k # ks \<Longrightarrow> next_bit n w j = k"
proof (induction n arbitrary: j)
  case (Suc n)
  then have j: "j < 64" "n = 64 - Suc j" by simp_all
  have "drop_bit j w AND 1 = 1 \<longleftrightarrow> bit w j"
    by (metis and_one_eq bit_iff_odd_drop_bit odd_iff_mod_2_eq_one zero_neq_one mod2_eq_if)
  then show ?case
    using Suc.IH [OF j(2)] Suc.prems(2) by (auto simp: pending_bits_step [OF j(1)] split: if_splits)
qed (simp add: pending_bits_def)

lemma pending_bits_cons:
  "pending_bits w j = k # ks \<Longrightarrow> j \<le> k \<and> k < 64 \<and> bit w k \<and> ks = pending_bits w (Suc k)"
proof (induction "64 - j" arbitrary: j)
  case (Suc n)
  then have j: "j < 64" "n = 64 - Suc j" by simp_all
  show ?case
    using Suc.hyps(1) [OF j(2)] Suc.prems j(1)
    by (cases "bit w j") (auto simp: pending_bits_step [OF j(1)])
qed (simp add: pending_bits_def)

lemma pending_bits_clear:
  "k < 64 \<Longrightarrow> pending_bits (w AND NOT (push_bit k 1)) k = pending_bits w (Suc k)"
  by (subst pending_bits_step)
    (auto simp: pending_bits_def bit_simps intro!: filter_cong)

lemma pending_bits_none:
  assumes "pending_bits w j = []" and "\<forall>k<j. \<not> bit w k"
  shows "w = 0"
proof (rule bit_word_eqI)
  fix n assume "n < LENGTH(64)"
  then show "bit w n = bit 0 n"
    using assms by (cases "n < j") (auto simp: pending_bits_def filter_empty_conv)
qed

lemma poll_word_visits_bits:
  "\<forall>k<j. \<not> bit w k \<Longrightarrow> length (pending_bits w j) \<le> n \<Longrightarrow>
   (poll_word n i j w args :: ('x mbox_state_scheme, u64 list option) state) =
     do { args \<leftarrow> poll_all (map (\<lambda>j. i * 64 + word_of_nat j) (pending_bits w j)) args; ret (Some args) }"
proof (induction n arbitrary: j w args)
  case 0
  then have "w = 0" by (intro pending_bits_none) simp_all
  with 0 show ?case by simp
next
  case (Suc n)
  show ?case
  proof (cases "pending_bits w j")
    case Nil
    with Suc.prems(1) have "w = 0" by (intro pending_bits_none)
    with Nil show ?thesis by simp
  next
    case (Cons k ks)
    have k: "j \<le> k" "k < 64" "bit w k" "ks = pending_bits w (Suc k)"
      using pending_bits_cons [OF Cons] by simp_all
    have w: "w \<noteq> 0" using k(3) by auto
    let ?w = "w AND NOT (push_bit k 1)"
    have low: "\<forall>m<k. \<not> bit ?w m"
    proof (intro allI impI)
      fix m assume "m < k"
      show "\<not> bit ?w m"
      proof
        assume "bit ?w m"
        then have "bit w m" by (simp add: bit_simps)
        with Suc.prems(1) have "j \<le> m" using not_le by blast
        then have "m \<in> set (pending_bits w j)"
          using \<open>bit w m\<close> \<open>m < k\<close> k(2) by (simp add: pending_bits_def)
        then have "m = k \<or> m \<in> set (pending_bits w (Suc k))"
          using Cons k(4) by auto
        with \<open>m < k\<close> show False by (auto simp: pending_bits_def)
      qed
    qed
    have rest: "pending_bits ?w k = ks"
      using pending_bits_clear [OF k(2)] k(4) by simp
    have len: "length (pending_bits ?w k) \<le> n"
      using Suc.prems(2) Cons rest by simp
    have nb: "next_bit (64 - j) w j = k"
      by (rule next_bit_pending [OF refl Cons])
    have IH: "(poll_word n i k ?w :: _ \<Rightarrow> ('x mbox_state_scheme, _) state) = (\<lambda>args. do {
        args \<leftarrow> poll_all (map (\<lambda>j. i * 64 + word_of_nat j) (pending_bits ?w k)) args; ret (Some args) })"
      by (rule ext) (rule Suc.IH [OF low len])
    show ?thesis
      using w k(2) by (simp add: nb Let_def IH rest Cons whenM_def del: push_bit_of_1)
  qed
qed

lemma pending_bits_length: "length (pending_bits w 0) \<le> 64"
  by (metis pending_bits_def length_filter_le length_upt diff_zero)

lemma poll_words_all:
  "poll_words i ws args = do { args \<leftarrow> poll_all (pending_ids i ws) args; ret (Some args) }"
  by (induction ws arbitrary: i args)
    (simp_all add: poll_word_visits_bits pending_bits_length poll_all_append)

lemma poll_all_skips_atf:
  "poll_all (filter (\<lambda>t. GET_CLIENT_ID t \<noteq> ATF_CLIENT_ID) ts) = poll_all ts"
  by (induction ts) (rule ext, simp add: poll_response_def)+

text \<open>
  C16. The response task visits every pending transaction once, in ascending order, and ends:
  whatever bit mask the secure monitor reports, the two nested loops do exactly what serving the
  list of set bits does, the transactions of the firmware's own client left out.
\<close>

theorem mbox_scan_complete:
  "poll_words 0 bitmask args =
     do { args \<leftarrow> poll_all (filter (\<lambda>t. GET_CLIENT_ID t \<noteq> ATF_CLIENT_ID) (pending_ids 0 bitmask)) args;
          ret (Some args) }"
  by (simp add: poll_words_all poll_all_skips_atf)

section \<open>What the layers below leave alone\<close>

lemma irq_enable_keeps:
  assumes "trace_blind I"
  shows "keeps I (interrupt_enable n p)" "keeps I (interrupt_disable n)"
  unfolding interrupt_enable_def interrupt_disable_def interrupt_ppi_enable_def
    interrupt_spi_enable_def and_then_def gic_get_cpu_affinity_def Let_def
  by (intro keeps_intros keeps_prims_blind [OF assms] gic_keeps_blind [OF assms])+

lemma smc_keeps:
  assumes "trace_blind I"
  shows "keeps I (smc_call f xs)"
  unfolding smc_call_def console_lock_def console_unlock_def
  by (intro keeps_intros keeps_prims_blind [OF assms] osal_keeps_blind [OF assms] keeps_emit_blind [OF assms])

lemma lower_frame:
  fixes f :: "'x mbox_state_scheme \<Rightarrow> 'v"
  assumes "\<And>s t. f (s\<lparr>trace := t\<rparr>) = f s"
  shows "f (final (osal_mutex_lock h w) s) = f s" "f (final (osal_mutex_unlock h) s) = f s"
    "f (final (osal_semaphore_wait h w) s) = f s" "f (final (osal_semaphore_post h) s) = f s"
    "f (final osal_mutex_create s) = f s" "f (final osal_semaphore_create s) = f s"
    "f (final (osal_mutex_delete h) s) = f s" "f (final (osal_semaphore_delete h) s) = f s"
    "f (final (osal_task_create r a p) s) = f s" "f (final osal_task_delete s) = f s"
    "f (final (interrupt_enable n q) s) = f s" "f (final (interrupt_disable n) s) = f s"
    "f (final (smc_call fn xs) s) = f s"
proof -
  have blind: "trace_blind (\<lambda>s. f s = v)" for v
    by (rule trace_blindI) (simp add: assms)
  show "f (final (osal_mutex_lock h w) s) = f s" "f (final (osal_mutex_unlock h) s) = f s"
    "f (final (osal_semaphore_wait h w) s) = f s" "f (final (osal_semaphore_post h) s) = f s"
    "f (final osal_mutex_create s) = f s" "f (final osal_semaphore_create s) = f s"
    "f (final (osal_mutex_delete h) s) = f s" "f (final (osal_semaphore_delete h) s) = f s"
    "f (final (osal_task_create r a p) s) = f s" "f (final osal_task_delete s) = f s"
    by (intro frame_of_keeps osal_keeps_blind blind)+
  show "f (final (interrupt_enable n q) s) = f s" "f (final (interrupt_disable n) s) = f s"
    by (intro frame_of_keeps irq_enable_keeps blind)+
  show "f (final (smc_call fn xs) s) = f s"
    by (intro frame_of_keeps smc_keeps blind)
qed

lemma mbox_trace_fields:
  "env (s\<lparr>trace := t\<rparr>) = env s" "mem (s\<lparr>trace := t\<rparr>) = mem s"
  "client_descriptors (s'\<lparr>trace := t\<rparr>) = client_descriptors s'" "mbox_data (s'\<lparr>trace := t\<rparr>) = mbox_data s'"
  "mbox_descriptor (s'\<lparr>trace := t\<rparr>) = mbox_descriptor s'"
  by simp_all

lemmas mbox_frames [simp] =
  lower_frame [of env, OF mbox_trace_fields(1)] lower_frame [of mem, OF mbox_trace_fields(2)]
  lower_frame [of client_descriptors, OF mbox_trace_fields(3)]
  lower_frame [of mbox_data, OF mbox_trace_fields(4)] lower_frame [of mbox_descriptor, OF mbox_trace_fields(5)]

lemma upd_client_fields [simp]:
  "env (upd_client h f s) = env s" "mem (upd_client h f s) = mem s" "trace (upd_client h f s) = trace s"
  "mbox_data (upd_client h f s) = mbox_data s" "mbox_descriptor (upd_client h f s) = mbox_descriptor s"
  "client_descriptors (upd_client h f s) = (client_descriptors s)(h := f (client_descriptors s h))"
  by (simp_all add: upd_client_def)

lemma mbox_deref_result [simp]: "result mbox_deref s = mbox_data s"
  by (simp add: mbox_deref_def)

lemma mbox_deref_fields [simp]:
  "env (final mbox_deref s) = env s" "mem (final mbox_deref s) = mem s"
  "client_descriptors (final mbox_deref s) = client_descriptors s"
  "mbox_data (final mbox_deref s) = mbox_data s" "mbox_descriptor (final mbox_deref s) = mbox_descriptor s"
  by (simp_all add: mbox_deref_def)

section \<open>Job ids, run\<close>

lemma assign_job_id_run:
  assumes "granting (env s)" and "job_pool (client_descriptors s h) \<noteq> JOB_POOL_FULL"
    and "job_head (client_descriptors s h) < 16"
  obtains j where "result (assign_job_id (Some h)) s = Some j" and "j < 16"
    and "\<not> bit (job_pool (client_descriptors s h)) (unat j)"
    and "client_descriptors (final (assign_job_id (Some h)) s) =
      (client_descriptors s)(h := (client_descriptors s h)\<lparr>
         job_pool := job_pool (client_descriptors s h) OR push_bit (unat j) 1,
         job_head := (j + 1) mod MAX_JOB_ID\<rparr>)"
    and "env (final (assign_job_id (Some h)) s) = env s" "mem (final (assign_job_id (Some h)) s) = mem s"
proof -
  obtain j where j: "job_scan 16 (job_pool (client_descriptors s h)) (job_head (client_descriptors s h)) = Some j"
      "j < 16" "\<not> bit (job_pool (client_descriptors s h)) (unat j)"
    using job_scan_total [OF assms(2,3)] by blast
  show thesis
    by (rule that [of j])
      (use j assms in \<open>simp_all add: assign_job_id_def split_beta granted del: push_bit_of_1\<close>)
qed

lemma free_job_id_run:
  assumes "granting (env s)" and "job_pool (client_descriptors s (unat c)) \<noteq> 0"
  shows "result (free_job_id c j) s = 0"
    and "client_descriptors (final (free_job_id c j) s) =
      (client_descriptors s)(unat c := (client_descriptors s (unat c))\<lparr>
         job_pool := job_pool (client_descriptors s (unat c)) XOR push_bit (unat j) 1\<rparr>)"
    and "env (final (free_job_id c j) s) = env s" "mem (final (free_job_id c j) s) = mem s"
  using assms by (simp_all add: free_job_id_def Let_def split_beta granted del: push_bit_of_1)

lemma take_back_bit:
  fixes w :: "'a::len word"
  shows "\<not> bit w k \<Longrightarrow> (w OR push_bit k 1) XOR push_bit k 1 = w"
  by (rule bit_word_eqI) (auto simp: bit_simps simp del: push_bit_of_1)

lemma set_bit_nonzero:
  fixes w :: "'a::len word"
  assumes "k < LENGTH('a)"
  shows "w OR push_bit k 1 \<noteq> 0"
proof
  assume "w OR push_bit k 1 = 0"
  moreover have "bit (w OR push_bit k 1) k"
    using assms by (simp add: bit_simps del: push_bit_of_1)
  ultimately show False by simp
qed

section \<open>A request and its response\<close>

definition own_contents :: "'x mbox_state_scheme \<Rightarrow> nat \<Rightarrow> bool" where
  "own_contents s h \<longleftrightarrow> h \<in> {2..<16} \<and> (\<forall>i \<in> {2..<16}. client_descriptors s i = client_descriptors s h \<longrightarrow> i = h)"

lemma find_SomeD: "find P xs = Some x \<Longrightarrow> P x \<and> x \<in> set xs"
  by (induction xs) (auto split: if_splits)

lemma find_own_client:
  assumes "own_contents s h"
  shows "find (\<lambda>i. client_descriptors s i = client_descriptors s h) [2..<MAX_CLIENT_INSTANCES] = Some h"
proof (cases "find (\<lambda>i. client_descriptors s i = client_descriptors s h) [2..<MAX_CLIENT_INSTANCES]")
  case None
  then have "\<not> (\<exists>i. i \<in> set [2..<16] \<and> client_descriptors s i = client_descriptors s h)"
    by (simp only: find_None_iff MAX_CLIENT_INSTANCES_def) simp
  with assms show ?thesis
    by (auto simp: own_contents_def simp del: upt_rec_numeral)
next
  case (Some i)
  from find_SomeD [OF Some] have "client_descriptors s i = client_descriptors s h" "i \<in> {2..<16}"
    by (simp_all add: MAX_CLIENT_INSTANCES_def del: upt_rec_numeral)
  with assms Some show ?thesis
    by (auto simp: own_contents_def)
qed

lemma sip_svc_send_queues:
  assumes "granting (env s)" and "own_contents s h"
    and "job_pool (client_descriptors s h) \<noteq> JOB_POOL_FULL" and "job_head (client_descriptors s h) < 16"
    and "p \<noteq> 0" and "n \<noteq> 0"
    and sent: "result (sip_svc_send (Some h) f args len p n) s = Some 0"
  obtains j where "j < 16" and "\<not> bit (job_pool (client_descriptors s h)) (unat j)"
    and "client_descriptors (final (sip_svc_send (Some h) f args len p n) s) =
      (client_descriptors s)(h := (client_descriptors s h)\<lparr>
         job_pool := job_pool (client_descriptors s h) OR push_bit (unat j) 1,
         job_head := (j + 1) mod MAX_JOB_ID,
         job_resp := (job_resp (client_descriptors s h))[unat j := (p, ucast n)]\<rparr>)"
    and "env (final (sip_svc_send (Some h) f args len p n) s) = env s"
    and "mem (final (sip_svc_send (Some h) f args len p n) s) = mem s"
proof -
  let ?s1 = "final (osal_mutex_lock (client_mutex (client_descriptors s h)) OSAL_TIMEOUT_WAIT_FOREVER)
    (final (osal_semaphore_wait (client_free (client_descriptors s h)) OSAL_TIMEOUT_WAIT_FOREVER) s)"
  obtain j where j: "result (assign_job_id (Some h)) ?s1 = Some j" "j < 16"
      "\<not> bit (job_pool (client_descriptors s h)) (unat j)"
      "client_descriptors (final (assign_job_id (Some h)) ?s1) =
        (client_descriptors s)(h := (client_descriptors s h)\<lparr>
           job_pool := job_pool (client_descriptors s h) OR push_bit (unat j) 1,
           job_head := (j + 1) mod MAX_JOB_ID\<rparr>)"
      "env (final (assign_job_id (Some h)) ?s1) = env s" "mem (final (assign_job_id (Some h)) ?s1) = mem s"
    by (rule assign_job_id_run [of ?s1 h]) (use assms(1,3,4) in simp_all)
  let ?t = "sip_svc_transact h (word_of_nat h) j f args len p n"
  let ?s2 = "final (assign_job_id (Some h)) ?s1"
  have run: "run_state (sip_svc_send (Some h) f args len p n) s = (Some (result ?t ?s2), final ?t ?s2)"
    using sent j(1,2) assms(1)
    by (auto simp: sip_svc_send_def find_own_client [OF assms(2)] split_beta granted MAX_JOB_ID_def not_le
        split: if_splits)
  have r: "result ?t ?s2 = 0"
    using sent by (simp add: run)
  show thesis
  proof (rule that [OF j(2,3)])
  qed (use r assms(1,5,6) in \<open>auto simp: run sip_svc_transact_def split_beta granted j split: option.splits if_splits\<close>)
qed

lemma emits_calls:
  assumes "emits (\<lambda>e. case e of Call _ _ _ \<Rightarrow> False | _ \<Rightarrow> True) m"
  shows "calls (trace (final m s)) = calls (trace s)"
proof -
  obtain es where es: "trace (final m s) = es @ trace s" "list_all (\<lambda>e. case e of Call _ _ _ \<Rightarrow> False | _ \<Rightarrow> True) es"
    using assms by (rule emitsD)
  from es(2) have "calls (es @ t) = calls t" for t
  proof (induction es)
    case (Cons e es)
    then show ?case by (cases e) simp_all
  qed simp
  with es(1) show ?thesis by simp
qed

lemma lower_calls [simp]:
  "calls (trace (final (osal_mutex_lock h w) s)) = calls (trace s)"
  "calls (trace (final (osal_mutex_unlock h) s)) = calls (trace s)"
  "calls (trace (final (osal_semaphore_post h) s)) = calls (trace s)"
  "calls (trace (final (smc_call f xs) s')) = calls (trace s')"
  "calls (trace (final mbox_deref m)) = calls (trace m)"
  unfolding smc_call_def console_lock_def console_unlock_def mbox_deref_def
  by (intro emits_calls emits_intros osal_emits; auto elim: is_kern.elims split: ev.splits simp: ub_def intro!: emits_intros)+

lemma free_job_id_calls [simp]: "calls (trace (final (free_job_id c j) s)) = calls (trace s)"
  by (simp add: free_job_id_def Let_def split_beta)

lemma bytes_of_words_length: "length (bytes_of_words ws) = 8 * length ws"
  by (induction ws) (simp_all add: bytes_of_words_def le_bytes_def)

lemma smc_call_result:
  "result (smc_call f xs) s =
     (let (x0, x) = monitor (env s) (trace (if length xs < 11 then (final console_lock s)\<lparr>trace :=
            UB ''smc_call: array overrun'' # trace (final console_lock s)\<rparr> else final console_lock s)) f xs
      in (sint (ucast x0 :: u32), map (\<lambda>i. if i < 11 then x i else xs ! i) [0..<length xs]))"
  if "env (final console_lock s) = env s"
  using that by (simp add: smc_call_def split_beta Let_def)

text \<open>The words a response consists of: eleven registers, and the array's last word.\<close>

definition response :: "(nat \<Rightarrow> u64) \<Rightarrow> u64 list \<Rightarrow> u64 list" where
  "response x args = map x [0..<11] @ drop 11 args"

lemma poll_response_run:
  assumes "granting (env s)" and "2 \<le> h" "h < 16" "j < 16" and t: "t = ucast (FORMAT_TRANS_ID (word_of_nat h) j)"
    and "length args = 12" and "job_pool (client_descriptors s h) \<noteq> 0"
    and "job_resp (client_descriptors s h) ! unat j = (p, n)" and "p \<noteq> 0" and "n \<noteq> 0" and "n \<le> 96"
    and answer: "\<And>tr regs. monitor (env s) tr SIP_SMC_GET_RESP regs = (0, x)"
  shows "mem (final (poll_response t args) s) = store_bytes (mem s) p (take (unat n) (bytes_of_words (response x args)))"
    and "client_descriptors (final (poll_response t args) s) =
      (client_descriptors s)(h := (client_descriptors s h)\<lparr>job_pool := job_pool (client_descriptors s h) XOR push_bit (unat j) 1\<rparr>)"
    and "calls (trace (final (poll_response t args) s)) = calls (trace s) @
      (if call_back (client_descriptors s h) = F_NULL then []
       else [(call_back (client_descriptors s h), V_NULL, response x args)])"
proof -
  have h: "unat (word_of_nat h :: u8) = h" "(word_of_nat h :: u8) < 16"
    using assms(3) by (simp_all add: word_less_nat_alt unsigned_of_nat take_bit_nat_eq_self)
  have ids: "GET_CLIENT_ID t = word_of_nat h" "GET_JOB_ID t = j"
    using trans_id_fields [OF h(2) assms(4)] by (simp_all add: t)
  have atf: "(word_of_nat h :: u8) \<noteq> ATF_CLIENT_ID"
  proof
    assume "(word_of_nat h :: u8) = ATF_CLIENT_ID"
    then have "unat (word_of_nat h :: u8) = 1" by (simp add: ATF_CLIENT_ID_def)
    with h(1) assms(2) show False by simp
  qed
  have env: "env (final console_lock s) = env s"
    unfolding console_lock_def
    by (intro frame_of_keeps keeps_intros osal_keeps_blind trace_blindI) simp
  have upd: "map (\<lambda>i. if i < 11 then x i else args[0 := ucast t] ! i) [0..<12] = response x args"
  proof (rule nth_equalityI)
    fix i assume "i < length (map (\<lambda>i. if i < 11 then x i else args[0 := ucast t] ! i) [0..<12])"
    then have "i < 11 \<or> i = 11" by auto
    then show "map (\<lambda>i. if i < 11 then x i else args[0 := ucast t] ! i) [0..<12] ! i = response x args ! i"
      using assms(6) by (auto simp: response_def nth_append)
  qed (simp add: response_def assms(6))
  have smc: "result (smc_call SIP_SMC_GET_RESP (args[0 := ucast t])) s = (0, response x args)"
    using smc_call_result [OF env, of SIP_SMC_GET_RESP "args[0 := ucast t]"] upd
    by (simp add: answer assms(6) Let_def)
  show "mem (final (poll_response t args) s) = store_bytes (mem s) p (take (unat n) (bytes_of_words (response x args)))"
    "client_descriptors (final (poll_response t args) s) =
      (client_descriptors s)(h := (client_descriptors s h)\<lparr>job_pool := job_pool (client_descriptors s h) XOR push_bit (unat j) 1\<rparr>)"
    "calls (trace (final (poll_response t args) s)) = calls (trace s) @
      (if call_back (client_descriptors s h) = F_NULL then []
       else [(call_back (client_descriptors s h), V_NULL, response x args)])"
    using assms(1,7-11)
    by (simp_all add: poll_response_def Let_def split_beta ids atf h smc free_job_id_run not_less del: push_bit_of_1)
qed


text \<open>A machine with one client, number 2, open; the monitor answers every call with ones.\<close>

definition mbox_machine :: mbox_state where
  "mbox_machine = console_state.extend
     (console_machine\<lparr>env := boot_env\<lparr>monitor := \<lambda>_ _ _. (0, \<lambda>_. 1)\<rparr>, trace := []\<rparr>)
     \<lparr>mbox_descriptor = 0x9000, mbox_data = \<lparr>client_list_mutex = 1, call_complete_sem = 1, task_state = 1\<rparr>,
      client_descriptors = (\<lambda>_. client_zero)(2 := client_zero\<lparr>client_status := 1, client_mutex := 1,
        client_free := 1, call_back := F_user 1\<rparr>)\<rparr>"

lemma mbox_machine_simps [simp]:
  "env mbox_machine = boot_env\<lparr>monitor := \<lambda>_ _ _. (0, \<lambda>_. 1)\<rparr>" "trace mbox_machine = []"
  "mbox_descriptor mbox_machine = 0x9000" "console_write_sem mbox_machine = 1"
  "mbox_data mbox_machine = \<lparr>client_list_mutex = 1, call_complete_sem = 1, task_state = 1\<rparr>"
  "gic_redis mbox_machine = 0x1D060000" "gic_dist mbox_machine = 0x1D000000" "gic_max_redis mbox_machine = 0"
  "client_descriptors mbox_machine = (\<lambda>_. client_zero)(2 := client_zero\<lparr>client_status := 1, client_mutex := 1,
      client_free := 1, call_back := F_user 1\<rparr>)"
  by (simp_all add: mbox_machine_def console_state.defs console_machine_def uart_state.defs port_machine_def
      uart_machine_def upd_uart_def gpio_state.defs gpio_machine_def wdt_state.defs wdt_machine_def timer_state.defs
      boot_machine_def timer_machine_def irq_state.defs irq_machine_def gic_state.defs gic_machine_def
      REGISTER_SOCFPGA_DIST_BASE_ADDR_def REGISTER_SOCFPGA_REDIS_BASE_ADDR_def)

lemma mbox_machine_own: "own_contents mbox_machine 2"
  by (auto simp: own_contents_def client_zero_def)

lemma mbox_machine_granting: "granting (env mbox_machine)"
  by (simp add: granting_def boot_env_def ram_env_def)

lemma job_scan_first: "job_scan 16 0 0 = Some 0"
  by (simp add: numeral_eq_Suc)

lemma mbox_machine_send: "result (sip_svc_send (Some 2) 0xC2000001 None 0 0x5000 16) mbox_machine = Some 0"
  by (simp add: sip_svc_send_def find_own_client [OF mbox_machine_own, simplified] client_zero_def
      sip_svc_transact_def smc_call_def console_lock_def console_unlock_def assign_job_id_def mbox_deref_def
      osal_defs boot_eval mbox_consts upd_client_def job_scan_first FORMAT_TRANS_ID_def free_job_id_def)


section \<open>Opening and closing clients\<close>


lemma mbox_close_keeps_callback:
  "call_back (client_descriptors (final (mbox_close_client (Some h)) s) i) = call_back (client_descriptors s i)"
  by (simp add: mbox_close_client_def split_beta)

text \<open>The array for the bit mask has four words, the call stores eleven.\<close>

lemma mbox_bitmask_overrun:
  "UB ''smc_call: array overrun'' \<in> set (trace (final (smc_call SIP_SMC_GET_TRANS_ID (replicate 4 0)) s))"
  by (simp add: smc_call_def console_unlock_def split_beta osal_defs)

text \<open>A failed start-up is reported as a success the next time.\<close>

lemma mbox_init_failure_forgotten:
  assumes "mbox_descriptor s = 0" and "kernel (env s) (trace s) (pvPortMalloc 24) \<noteq> 0"
    and "result mbox_init s = - EIO"
  shows "result mbox_init (final mbox_init s) = 0"
proof -
  have "mbox_descriptor (final mbox_init s) \<noteq> 0"
    using assms(1,2)
    by (simp add: mbox_init_def split_beta upd_mbox_def osal_semaphore_counting_create_def
        interrupt_register_isr_def set_callback_def)
  then show ?thesis
    by (subst mbox_init_def) simp
qed


section \<open>Reachable states\<close>

datatype mbox_op =
  M_init | M_deinit | M_open | M_close sdm_client_handle_t | M_set_callback sdm_client_handle_t fptr
| M_send sdm_client_handle_t u64 "u64 list option" u32 u64 u32
| M_command sdm_client_handle_t u32 u64 u32 u64 u32 u64 u32 | M_irq | M_poll_round

fun mbox_do :: "mbox_op \<Rightarrow> ('x mbox_state_scheme, unit) state" where
  "mbox_do M_init = do { _ \<leftarrow> mbox_init; ret () }"
| "mbox_do M_deinit = do { _ \<leftarrow> mbox_deinit; ret () }"
| "mbox_do M_open = do { _ \<leftarrow> mbox_open_client; ret () }"
| "mbox_do (M_close h) = do { _ \<leftarrow> mbox_close_client h; ret () }"
| "mbox_do (M_set_callback h f) = do { _ \<leftarrow> mbox_set_callback h f; ret () }"
| "mbox_do (M_send h f xs l p n) = do { _ \<leftarrow> sip_svc_send h f xs l p n; ret () }"
| "mbox_do (M_command h c a al r rl p n) = do { _ \<leftarrow> mbox_send_command h c a al r rl p n; ret () }"
| "mbox_do M_irq = mbox_irq_handler V_NULL"
| "mbox_do M_poll_round = do { _ \<leftarrow> mbox_poll_round; ret () }"

inductive mbox_reaches :: "'x mbox_state_scheme \<Rightarrow> 'x mbox_state_scheme \<Rightarrow> bool" for s0 where
  start: "mbox_reaches s0 s0"
| step: "mbox_reaches s0 s \<Longrightarrow> mbox_reaches s0 (final (mbox_do op) s)"

definition client_wf :: "sdm_client_descriptor \<Rightarrow> bool" where
  "client_wf c \<longleftrightarrow> job_head c < 16 \<and> length (job_resp c) = 16"

abbreviation clients_wf :: "'x mbox_state_scheme \<Rightarrow> bool" where
  "clients_wf \<equiv> clients.all_slots client_wf"

lemma clients_wf_blind: "irq_blind clients_wf"
  by (rule irq_blindI) (simp_all add: clients.all_slots_def set_callback_def)

lemma clients_wf_upd:
  assumes "\<And>c. client_wf c \<Longrightarrow> client_wf (f c)"
  shows "keeps clients_wf (modify (upd_client h f))"
  using assms by (rule clients.keeps_all_slots)

lemma clients_wf_modify: "(\<And>s. client_descriptors (f s) = client_descriptors s) \<Longrightarrow> keeps clients_wf (modify f)"
  by (simp add: keeps_def clients.all_slots_def)

lemma keeps_case_u8_option [keeps_intros]:
  "(\<And>y. keeps I (f y)) \<Longrightarrow> keeps I m \<Longrightarrow> keeps I (case x of None \<Rightarrow> m | Some y \<Rightarrow> f y)"
  by (cases x) simp_all

lemma mbox_ops_keep_wf:
  "keeps clients_wf mbox_init" "keeps clients_wf mbox_deinit" "keeps clients_wf mbox_open_client"
  "keeps clients_wf (mbox_close_client h)" "keeps clients_wf (mbox_set_callback h g)"
  "keeps clients_wf (sip_svc_send h f xs l p n)" "keeps clients_wf (mbox_send_command h c a al r rl p n)"
  "keeps clients_wf (mbox_irq_handler d)" "keeps clients_wf mbox_poll_round"
proof -
  note t = irq_blind_trace [OF clients_wf_blind]
  note base = keeps_intros keeps_prims_blind [OF t] osal_keeps_blind [OF t] irq_keeps_blind [OF clients_wf_blind]
    keeps_emit_blind [OF t] smc_keeps [OF t] clients_wf_upd clients_wf_modify
  have deref: "keeps clients_wf mbox_deref" "keeps clients_wf (upd_mbox u)" for u
    unfolding upd_mbox_def mbox_deref_def by (intro base; simp)+
  have free: "keeps clients_wf (free_job_id c j)" for c j
    unfolding free_job_id_def Let_def by (intro base deref; simp add: client_wf_def)
  have assign: "keeps clients_wf (assign_job_id h)" for h
    unfolding assign_job_id_def by (intro base deref; simp add: client_wf_def MAX_JOB_ID_def word_mod_less_divisor)
  show "keeps clients_wf mbox_init" "keeps clients_wf mbox_deinit" "keeps clients_wf mbox_open_client"
    "keeps clients_wf (mbox_close_client h)" "keeps clients_wf (mbox_set_callback h g)"
    "keeps clients_wf (mbox_irq_handler d)"
    unfolding mbox_init_def mbox_deinit_def mbox_open_client_def mbox_close_client_def mbox_set_callback_def
      mbox_irq_handler_def osal_semaphore_counting_create_def Let_def
    by (intro base deref; simp add: client_wf_def)+
  have transact: "keeps clients_wf (sip_svc_transact h c j f xs l p n)" for h c j f xs l p n
    unfolding sip_svc_transact_def Let_def by (intro base deref free; simp add: client_wf_def)
  show send: "keeps clients_wf (sip_svc_send h f xs l p n)" for h f xs l p n
    unfolding sip_svc_send_def by (intro base assign transact)
  show "keeps clients_wf (mbox_send_command h c a al r rl p n)"
    unfolding mbox_send_command_def by (intro base send)
  have response: "keeps clients_wf (poll_response i args)" for i args
    unfolding poll_response_def Let_def by (intro base deref free; simp)
  have "keeps clients_wf (poll_all ts args)" for ts args
    by (induction ts arbitrary: args) (simp_all add: keeps_ret keeps_bind response)
  then show "keeps clients_wf mbox_poll_round"
    unfolding mbox_poll_round_def mbox_poll_finish_def poll_words_all by (intro base deref)
qed

text \<open>
  C22. The search for a job id ends: in every state reachable from well-formed clients by any
  sequence of calls, interrupts and rounds of the response task, sending returns, although the
  search loop as written would not end on a full pool or without a bound on its start.
\<close>

theorem mbox_send_returns:
  assumes "mbox_reaches s0 s" and "clients_wf s0"
  shows "result (sip_svc_send h f args len p n) s \<noteq> None"
proof -
  from assms have wf: "clients_wf s"
  proof (induction rule: mbox_reaches.induct)
    case (step s op)
    have "keeps clients_wf (mbox_do op)"
      by (cases op) (simp_all add: keeps_whole mbox_ops_keep_wf)
    with step show ?case by (blast dest: keepsD)
  qed
  have assign: "result (assign_job_id (Some k)) t \<noteq> None" if "client_descriptors t = client_descriptors s" for k and t :: "'a mbox_state_scheme"
  proof -
    have "job_head (client_descriptors t k) < 16"
      using wf that by (simp add: clients.all_slots_def client_wf_def)
    then show ?thesis
      using job_scan_total [of "job_pool (client_descriptors t k)" "job_head (client_descriptors t k)"]
      by (cases "job_pool (client_descriptors t k) = JOB_POOL_FULL") (auto simp: assign_job_id_def split_beta split: option.split)
  qed
  show ?thesis
  proof (cases h)
    case (Some k)
    let ?c = "client_descriptors s k"
    have "result (assign_job_id (Some k)) (final (osal_mutex_lock (client_mutex ?c) OSAL_TIMEOUT_WAIT_FOREVER)
        (final (osal_semaphore_wait (client_free ?c) OSAL_TIMEOUT_WAIT_FOREVER) s)) \<noteq> None"
      by (rule assign) simp
    with Some show ?thesis
      by (auto simp: sip_svc_send_def split_beta split: option.split)
  qed (simp add: sip_svc_send_def)
qed

theorem mbox_send_returns_witness:
  "result (sip_svc_send (Some 2) 0xC2000001 None 0 0 0) (final (mbox_do M_irq) mbox_machine) \<noteq> None"
  using mbox_send_returns [OF mbox_reaches.step [OF mbox_reaches.start], of mbox_machine]
  by (simp add: clients.all_slots_def client_wf_def client_zero_def del: mbox_do.simps)

end
