(* ===== verification/Secure_Services.thy ===== *)
theory Secure_Services
  imports Mailbox
begin

unbundle bit_operations_syntax

text \<open>
  The drivers that are a few calls into the secure monitor: the bridges between the processor
  and the FPGA (\<^verbatim>\<open>drivers/bridge\<close>), rebooting (\<^verbatim>\<open>drivers/reboot_mngr\<close>) and loading and freezing
  the FPGA (\<^verbatim>\<open>drivers/fpga_manager\<close>). Their argument arrays are shorter than the eleven
  registers that are stored back, so each of these calls overruns its array; what the monitor is
  asked and what is made of its answer does not depend on that.
\<close>

abbreviation ETIMEDOUT :: int where "ETIMEDOUT \<equiv> 116"
abbreviation ENOTSUP :: int where "ENOTSUP \<equiv> 134"

section \<open>Bridges\<close>

definition SOC2FPGA_MASK :: u64 where "SOC2FPGA_MASK = 1"
definition LWHPS2FPGA_MASK :: u64 where "LWHPS2FPGA_MASK = 2"
definition FPGA2SOC_MASK :: u64 where "FPGA2SOC_MASK = 4"
definition F2SDRAM_MASK :: u64 where "F2SDRAM_MASK = 8"
definition SIP_SMC_HPS_SET_BRIDGES :: u64 where "SIP_SMC_HPS_SET_BRIDGES = 0xC2000032"
definition SIP_SMC_STATUS_OK :: int where "SIP_SMC_STATUS_OK = 0"
definition BRIDGE_ENABLE :: u64 where "BRIDGE_ENABLE = 3"
definition BRIDGE_DISABLE :: u64 where "BRIDGE_DISABLE = 2"

text \<open>The body the eight functions share.\<close>

definition set_bridge :: "u64 \<Rightarrow> u64 \<Rightarrow> ('x console_state_scheme, int) state" where
  "set_bridge cmd bridge_mask = do {
     (smc_ret, _) \<leftarrow> smc_call SIP_SMC_HPS_SET_BRIDGES [cmd, bridge_mask];
     ret (if smc_ret = SIP_SMC_STATUS_OK then 0 else - EIO)
   }"

definition enable_hps2fpga_bridge :: "('x console_state_scheme, int) state" where
  "enable_hps2fpga_bridge = set_bridge BRIDGE_ENABLE SOC2FPGA_MASK"

definition disable_hps2fpga_bridge :: "('x console_state_scheme, int) state" where
  "disable_hps2fpga_bridge = set_bridge BRIDGE_DISABLE SOC2FPGA_MASK"

definition enable_lwhps2fpga_bridge :: "('x console_state_scheme, int) state" where
  "enable_lwhps2fpga_bridge = set_bridge BRIDGE_ENABLE LWHPS2FPGA_MASK"

definition disable_lwhps2fpga_bridge :: "('x console_state_scheme, int) state" where
  "disable_lwhps2fpga_bridge = set_bridge BRIDGE_DISABLE LWHPS2FPGA_MASK"

definition enable_fpga2hps_bridge :: "('x console_state_scheme, int) state" where
  "enable_fpga2hps_bridge = set_bridge BRIDGE_ENABLE FPGA2SOC_MASK"

definition disable_fpga2hps_bridge :: "('x console_state_scheme, int) state" where
  "disable_fpga2hps_bridge = set_bridge BRIDGE_DISABLE FPGA2SOC_MASK"

definition enable_fpga2sdram_bridge :: "('x console_state_scheme, int) state" where
  "enable_fpga2sdram_bridge = set_bridge BRIDGE_ENABLE F2SDRAM_MASK"

definition disable_fpga2sdram_bridge :: "('x console_state_scheme, int) state" where
  "disable_fpga2sdram_bridge = set_bridge BRIDGE_DISABLE F2SDRAM_MASK"

section \<open>Rebooting\<close>

definition REBOOT_COLD :: u32 where "REBOOT_COLD = 0"
definition REBOOT_WARM :: u32 where "REBOOT_WARM = 1"
definition COLD_REBOOT_CMD :: u64 where "COLD_REBOOT_CMD = 0x84000009"
definition WARM_REBOOT_CMD :: u64 where "WARM_REBOOT_CMD = 0x84000012"
definition PSCI_E_NOT_SUPPORTED :: int where "PSCI_E_NOT_SUPPORTED = - 1"
definition PSCI_E_INVALID_PARAMS :: int where "PSCI_E_INVALID_PARAMS = - 2"

record reboot_state = mbox_state +
  cold_boot_callback :: fptr
  warm_boot_callback :: fptr

definition reboot_mngr_set_callback :: "fptr \<Rightarrow> u32 \<Rightarrow> ('x reboot_state_scheme, int) state" where
  "reboot_mngr_set_callback cb event =
     (if event = REBOOT_COLD then do { modify (\<lambda>s. s\<lparr>cold_boot_callback := cb\<rparr>); ret 0 }
      else if event = REBOOT_WARM then do { modify (\<lambda>s. s\<lparr>warm_boot_callback := cb\<rparr>); ret 0 }
      else ret (- EINVAL))"

text \<open>The request itself; it does not return when the monitor reboots.\<close>

definition reboot_request :: "u64 \<Rightarrow> ('x reboot_state_scheme, int) state" where
  "reboot_request reset_command = do {
     (r, _) \<leftarrow> smc_call reset_command [0, 0, 0];
     ret (if r = PSCI_E_NOT_SUPPORTED then - ENOTSUP
          else if r = PSCI_E_INVALID_PARAMS then - EINVAL
          else - EINVAL)
   }"

definition reboot_mngr_do_reboot :: "u32 \<Rightarrow> ('x reboot_state_scheme, int) state" where
  "reboot_mngr_do_reboot event =
     (if event = REBOOT_COLD then do {
        cb \<leftarrow> gets cold_boot_callback;
        whenM (cb \<noteq> F_NULL) (emit (Call cb V_NULL []));
        reboot_request COLD_REBOOT_CMD
      } else if event = REBOOT_WARM then do {
        cb \<leftarrow> gets warm_boot_callback;
        whenM (cb \<noteq> F_NULL) (emit (Call cb V_NULL []));
        reboot_request WARM_REBOOT_CMD
      } else ret (- EINVAL))"

section \<open>Loading the FPGA\<close>

definition FPGA_CONFIG_START :: u64 where "FPGA_CONFIG_START = 0xC2000001"
definition FPGA_CONFIG_WRITE_COMPLETE :: u64 where "FPGA_CONFIG_WRITE_COMPLETE = 0xC2000003"
definition FPGA_CONFIG_WRITE :: u64 where "FPGA_CONFIG_WRITE = 0x42000002"
definition FPGA_CONFIG_ISDONE :: u64 where "FPGA_CONFIG_ISDONE = 0xC2000004"
definition SMC_CMD_SUCCESS :: int where "SMC_CMD_SUCCESS = 0"
definition SMC_STATUS_ERROR :: int where "SMC_STATUS_ERROR = 4"

text \<open>
  The loop with \<^verbatim>\<open>retry\<close> rounds left. The response buffer is not cleared between rounds, so
  the words of one answer are the arguments of the next question.
\<close>

fun fpga_wait :: "nat \<Rightarrow> u64 list \<Rightarrow> ('x console_state_scheme, int) state" where
  "fpga_wait 0 resp_buffer = ret (- ETIMEDOUT)"
| "fpga_wait (Suc retry) resp_buffer = do {
     (r, resp_buffer) \<leftarrow> smc_call FPGA_CONFIG_WRITE_COMPLETE resp_buffer;
     if r = SMC_CMD_SUCCESS \<and> list_all (\<lambda>w. w = 0) resp_buffer then do {
       (r, _) \<leftarrow> smc_call FPGA_CONFIG_ISDONE (replicate 8 0);
       ret (if r = SMC_CMD_SUCCESS then 0 else - EIO)
     }
     else if r = SMC_STATUS_ERROR then ret (- EIO)
     else do {
       osal_delay_ms 10;
       fpga_wait retry resp_buffer
     }
   }"

definition send_fpga_bitstream :: "u64 \<Rightarrow> u64 \<Rightarrow> ('x console_state_scheme, int) state" where
  "send_fpga_bitstream rbf_ptr file_size = do {
     (r, sdm_args) \<leftarrow> smc_call FPGA_CONFIG_START (replicate 8 0);
     if r \<noteq> SMC_CMD_SUCCESS then ret (- EIO)
     else do {
       (r, _) \<leftarrow> smc_call FPGA_CONFIG_WRITE (sdm_args[0 := rbf_ptr, 1 := file_size]);
       if r \<noteq> SMC_CMD_SUCCESS then ret (- EIO)
       else fpga_wait 100 (replicate 3 0)
     }
   }"

definition load_fpga_bitstream :: "u64 \<Rightarrow> u32 \<Rightarrow> ('x console_state_scheme, int) state" where
  "load_fpga_bitstream rbf_ptr rbf_file_size = send_fpga_bitstream rbf_ptr (ucast rbf_file_size)"

section \<open>Freezing a region\<close>

definition PR_FREEZE_BASE :: u32 where "PR_FREEZE_BASE = 0x20020400"
definition FREEZE_CSR_STATUS :: u32 where "FREEZE_CSR_STATUS = 0"
definition FREEZE_CSR_CTRL :: u32 where "FREEZE_CSR_CTRL = 4"
definition FREEZE_CSR_STATUS_FREEZE_STATUS_MASK :: u32 where "FREEZE_CSR_STATUS_FREEZE_STATUS_MASK = 1"
definition FREEZE_CSR_STATUS_UNFREEZE_STATUS_MASK :: u32 where "FREEZE_CSR_STATUS_UNFREEZE_STATUS_MASK = 2"
definition FREEZE_CSR_CTRL_FREEZE_REQ :: u32 where "FREEZE_CSR_CTRL_FREEZE_REQ = 1"
definition FREEZE_CSR_CTRL_RESET_REQ :: u32 where "FREEZE_CSR_CTRL_RESET_REQ = 2"
definition FREEZE_CSR_CTRL_UNFREEZE_REQ :: u32 where "FREEZE_CSR_CTRL_UNFREEZE_REQ = 4"

text \<open>The wait for a status bit, with the rounds left; \<open>pause\<close> is the delay between them, if any.\<close>

fun freeze_wait :: "('x machine_scheme, unit) state \<Rightarrow> nat \<Rightarrow> u32 \<Rightarrow> ('x machine_scheme, bool) state" where
  "freeze_wait pause 0 m = ret False"
| "freeze_wait pause (Suc timeout) m = do {
     reg_val \<leftarrow> RD_REG32 (PR_FREEZE_BASE + FREEZE_CSR_STATUS);
     if reg_val AND m = m then ret True
     else do { pause; freeze_wait pause timeout m }
   }"

definition freeze_ctrl :: "(u32 \<Rightarrow> u32) \<Rightarrow> ('x machine_scheme, unit) state" where
  "freeze_ctrl f = do {
     reg_val \<leftarrow> RD_REG32 (PR_FREEZE_BASE + FREEZE_CSR_CTRL);
     WR_REG32 (PR_FREEZE_BASE + FREEZE_CSR_CTRL) (f reg_val)
   }"

definition freeze_pr_region :: "('x machine_scheme, int) state" where
  "freeze_pr_region = do {
     freeze_ctrl (\<lambda>v. v OR FREEZE_CSR_CTRL_FREEZE_REQ);
     ok \<leftarrow> freeze_wait (osal_task_delay 1) 1000 FREEZE_CSR_STATUS_FREEZE_STATUS_MASK;
     if \<not> ok then ret (- ETIMEDOUT)
     else do {
       freeze_ctrl (\<lambda>v. v OR FREEZE_CSR_CTRL_RESET_REQ);
       ret 0
     }
   }"

definition unfreeze_pr_region :: "('x machine_scheme, int) state" where
  "unfreeze_pr_region = do {
     freeze_ctrl (\<lambda>v. v AND NOT FREEZE_CSR_CTRL_RESET_REQ);
     freeze_ctrl (\<lambda>v. v OR FREEZE_CSR_CTRL_UNFREEZE_REQ);
     ok \<leftarrow> freeze_wait (ret ()) 1000 FREEZE_CSR_STATUS_UNFREEZE_STATUS_MASK;
     ret (if \<not> ok then - ETIMEDOUT else 0)
   }"

definition do_freeze_pr_region :: "('x machine_scheme, int) state" where
  "do_freeze_pr_region = freeze_pr_region"

definition do_unfreeze_pr_region :: "('x machine_scheme, int) state" where
  "do_unfreeze_pr_region = unfreeze_pr_region"

lemmas secure_consts =
  SOC2FPGA_MASK_def LWHPS2FPGA_MASK_def FPGA2SOC_MASK_def F2SDRAM_MASK_def SIP_SMC_HPS_SET_BRIDGES_def
  SIP_SMC_STATUS_OK_def BRIDGE_ENABLE_def BRIDGE_DISABLE_def REBOOT_COLD_def REBOOT_WARM_def
  COLD_REBOOT_CMD_def WARM_REBOOT_CMD_def PSCI_E_NOT_SUPPORTED_def PSCI_E_INVALID_PARAMS_def
  FPGA_CONFIG_START_def FPGA_CONFIG_WRITE_COMPLETE_def FPGA_CONFIG_WRITE_def FPGA_CONFIG_ISDONE_def
  SMC_CMD_SUCCESS_def SMC_STATUS_ERROR_def

section \<open>What the monitor is asked\<close>

text \<open>The questions to the monitor with their answers, in order.\<close>

fun smcs :: "ev list \<Rightarrow> (u64 \<times> u64 list \<times> int) list" where
  "smcs [] = []"
| "smcs (Smc f xs r # t) = smcs t @ [(f, xs, sint (ucast r :: u32))]"
| "smcs (_ # t) = smcs t"

lemma emits_smcs:
  assumes "emits is_kern m"
  shows "smcs (trace (final m s)) = smcs (trace s)"
proof -
  obtain es where es: "trace (final m s) = es @ trace s" "list_all is_kern es"
    using assms by (rule emitsD)
  from es(2) have "smcs (es @ t) = smcs t" for t
  proof (induction es)
    case (Cons e es)
    then show ?case by (cases e) simp_all
  qed simp
  with es(1) show ?thesis by simp
qed

lemma osal_smcs [simp]:
  "smcs (trace (final console_lock s)) = smcs (trace s)" "smcs (trace (final console_unlock s)) = smcs (trace s)"
  "smcs (trace (final (osal_delay_ms n) t)) = smcs (trace t)"
proof -
  have lock: "emits is_kern console_lock" "emits is_kern console_unlock"
    unfolding console_lock_def console_unlock_def by (intro emits_intros osal_emits_kern)+
  show "smcs (trace (final console_lock s)) = smcs (trace s)" "smcs (trace (final console_unlock s)) = smcs (trace s)"
    by (intro emits_smcs lock)+
  show "smcs (trace (final (osal_delay_ms n) t)) = smcs (trace t)"
    by (simp add: osal_delay_ms_def)
qed

lemma smc_call_smcs:
  "smcs (trace (final (smc_call f xs) s)) = smcs (trace s) @ [(f, xs, fst (result (smc_call f xs) s))]"
  "length (snd (result (smc_call f xs) s)) = length xs"
  by (simp_all add: smc_call_def split_beta)
text \<open>
  Every bridge function asks the secure monitor exactly once, for its own bridge and
  direction, and returns 0 exactly when the monitor's status is 0; the eight requests are
  pairwise different, so no function acts on another's bridge.
\<close>

theorem bridge_requests:
  fixes s :: "'x console_state_scheme"
  defines "asks \<equiv> \<lambda>(m :: ('x console_state_scheme, int) state, xs). \<exists>r.
      smcs (trace (final m s)) = smcs (trace s) @ [(SIP_SMC_HPS_SET_BRIDGES, xs, r)]
      \<and> result m s = (if r = 0 then 0 else - EIO)"
  shows "list_all asks
      [(enable_hps2fpga_bridge, [3, 1]), (disable_hps2fpga_bridge, [2, 1]),
       (enable_lwhps2fpga_bridge, [3, 2]), (disable_lwhps2fpga_bridge, [2, 2]),
       (enable_fpga2hps_bridge, [3, 4]), (disable_fpga2hps_bridge, [2, 4]),
       (enable_fpga2sdram_bridge, [3, 8]), (disable_fpga2sdram_bridge, [2, 8])]"
  unfolding asks_def enable_hps2fpga_bridge_def disable_hps2fpga_bridge_def enable_lwhps2fpga_bridge_def
    disable_lwhps2fpga_bridge_def enable_fpga2hps_bridge_def disable_fpga2hps_bridge_def
    enable_fpga2sdram_bridge_def disable_fpga2sdram_bridge_def set_bridge_def
  by (simp add: split_beta smc_call_smcs secure_consts)

text \<open>
  A reboot request runs the callback registered for its kind, and only that, before the
  monitor is asked, and asks once with the kind's own command; an unknown kind does neither.
  When the monitor returns, the result is an error whatever it answered.
\<close>

theorem reboot_runs_callback_first:
  "let cb = (if k = REBOOT_COLD then cold_boot_callback s else warm_boot_callback s);
       t = (if cb = F_NULL then trace s else Call cb V_NULL [] # trace s)
   in (if k = REBOOT_COLD \<or> k = REBOOT_WARM
       then final (reboot_mngr_do_reboot k) s = final (smc_call
              (if k = REBOOT_COLD then COLD_REBOOT_CMD else WARM_REBOOT_CMD) [0, 0, 0]) (s\<lparr>trace := t\<rparr>)
          \<and> result (reboot_mngr_do_reboot k) s < 0
       else run_state (reboot_mngr_do_reboot k) s = (- EINVAL, s))"
  by (simp add: reboot_mngr_do_reboot_def reboot_request_def split_beta Let_def secure_consts)

section \<open>Loading the FPGA\<close>

lemma fpga_wait_log:
  "length resp = 3 \<Longrightarrow> \<exists>polls check. smcs (trace (final (fpga_wait n resp) s)) = smcs (trace s) @ polls @ check
     \<and> length polls \<le> n \<and> list_all (\<lambda>q. fst q = FPGA_CONFIG_WRITE_COMPLETE) polls
     \<and> length check \<le> 1 \<and> list_all (\<lambda>q. fst q = FPGA_CONFIG_ISDONE) check
     \<and> (result (fpga_wait n resp) s = 0 \<longleftrightarrow> check = [(FPGA_CONFIG_ISDONE, replicate 8 0, 0)])
     \<and> (result (fpga_wait n resp) s = 0 \<longrightarrow> polls \<noteq> [] \<and> snd (snd (last polls)) = 0)"
proof (induction n arbitrary: resp s)
  case (Suc n)
  let ?ask = "smc_call FPGA_CONFIG_WRITE_COMPLETE resp"
  let ?r = "fst (result ?ask s)" and ?resp = "snd (result ?ask s)" and ?s1 = "final ?ask s"
  let ?q = "(FPGA_CONFIG_WRITE_COMPLETE, resp, ?r)"
  have log: "smcs (trace ?s1) = smcs (trace s) @ [?q]" "length ?resp = 3"
    using Suc.prems by (simp_all add: smc_call_smcs)
  consider "?r = 0 \<and> list_all (\<lambda>w. w = 0) ?resp" | "?r = 4" | "?r \<noteq> 4" "\<not> (?r = 0 \<and> list_all (\<lambda>w. w = 0) ?resp)"
    by blast
  then show ?case
  proof cases
    case 1
    let ?is = "smc_call FPGA_CONFIG_ISDONE (replicate 8 0)"
    have asked: "smcs (trace (final ?is ?s1)) = smcs (trace s) @ [?q] @ [(FPGA_CONFIG_ISDONE, replicate 8 0, fst (result ?is ?s1))]"
      by (simp add: smc_call_smcs log)
    show ?thesis
      by (rule exI [of _ "[?q]"], rule exI [of _ "[(FPGA_CONFIG_ISDONE, replicate 8 0, fst (result ?is ?s1))]"])
        (use 1 asked in \<open>simp add: split_beta SMC_CMD_SUCCESS_def\<close>)
  next
    case 2
    show ?thesis
      by (rule exI [of _ "[?q]"], rule exI [of _ "[]"])
        (use 2 in \<open>simp add: split_beta SMC_CMD_SUCCESS_def SMC_STATUS_ERROR_def log\<close>)
  next
    case 3
    obtain polls check where IH: "smcs (trace (final (fpga_wait n ?resp) (final (osal_delay_ms 10) ?s1)))
          = smcs (trace s) @ [?q] @ polls @ check" "length polls \<le> n"
        "list_all (\<lambda>q. fst q = FPGA_CONFIG_WRITE_COMPLETE) polls" "length check \<le> 1"
        "list_all (\<lambda>q. fst q = FPGA_CONFIG_ISDONE) check"
        "result (fpga_wait n ?resp) (final (osal_delay_ms 10) ?s1) = 0 \<longleftrightarrow> check = [(FPGA_CONFIG_ISDONE, replicate 8 0, 0)]"
        "result (fpga_wait n ?resp) (final (osal_delay_ms 10) ?s1) = 0 \<longrightarrow> polls \<noteq> [] \<and> snd (snd (last polls)) = 0"
      using Suc.IH [OF log(2), of "final (osal_delay_ms 10) ?s1"] by (auto simp: log(1))
    have run: "run_state (fpga_wait (Suc n) resp) s = run_state (fpga_wait n ?resp) (final (osal_delay_ms 10) ?s1)"
      using 3 by (auto simp: split_beta SMC_CMD_SUCCESS_def SMC_STATUS_ERROR_def)
    show ?thesis
      unfolding run by (rule exI [of _ "?q # polls"], rule exI [of _ "check"]) (use IH in auto)
  qed
qed (auto intro!: exI [of _ "[]"])

text \<open>
  C28. Loading a bitstream follows the configuration protocol and ends: the requests are a start,
  a write, at most 100 polls for completion and at most one final check, in this order, and the
  load reports success exactly when it ends with a final check that the monitor answered with 0,
  after a start, a write and a last poll that were answered with 0.
\<close>

theorem fpga_load_protocol:
  "\<exists>start wr polls check.
     smcs (trace (final (load_fpga_bitstream p n) s)) = smcs (trace s) @ [(FPGA_CONFIG_START, replicate 8 0, start)] @ wr @ polls @ check
     \<and> length wr \<le> 1 \<and> list_all (\<lambda>q. fst q = FPGA_CONFIG_WRITE) wr
     \<and> length polls \<le> 100 \<and> list_all (\<lambda>q. fst q = FPGA_CONFIG_WRITE_COMPLETE) polls
     \<and> length check \<le> 1 \<and> list_all (\<lambda>q. fst q = FPGA_CONFIG_ISDONE) check
     \<and> (result (load_fpga_bitstream p n) s = 0 \<longleftrightarrow> check = [(FPGA_CONFIG_ISDONE, replicate 8 0, 0)])
     \<and> (result (load_fpga_bitstream p n) s = 0 \<longrightarrow> start = 0 \<and> polls \<noteq> [] \<and> snd (snd (last polls)) = 0
          \<and> (\<exists>rest. wr = [(FPGA_CONFIG_WRITE, p # ucast n # rest, 0)]))"
proof -
  let ?start = "smc_call FPGA_CONFIG_START (replicate 8 0)"
  let ?s1 = "final ?start s" and ?args = "(snd (result ?start s))[0 := p, 1 := ucast n]"
  let ?send = "smc_call FPGA_CONFIG_WRITE ?args"
  have log: "smcs (trace ?s1) = smcs (trace s) @ [(FPGA_CONFIG_START, replicate 8 0, fst (result ?start s))]"
    "length (snd (result ?start s)) = 8"
    by (simp_all add: smc_call_smcs)
  have log2: "smcs (trace (final ?send ?s1)) = smcs (trace ?s1) @ [(FPGA_CONFIG_WRITE, ?args, fst (result ?send ?s1))]"
    by (simp add: smc_call_smcs)
  obtain a b rest where args: "snd (result ?start s) = a # b # rest"
    using log(2) by (cases "snd (result ?start s)"; cases "tl (snd (result ?start s))") auto
  show ?thesis
  proof (cases "fst (result ?start s) = 0 \<and> fst (result ?send ?s1) = 0")
    case True
    obtain polls check where w: "smcs (trace (final (fpga_wait 100 (replicate 3 0)) (final ?send ?s1)))
          = smcs (trace (final ?send ?s1)) @ polls @ check" "length polls \<le> 100"
        "list_all (\<lambda>q. fst q = FPGA_CONFIG_WRITE_COMPLETE) polls" "length check \<le> 1"
        "list_all (\<lambda>q. fst q = FPGA_CONFIG_ISDONE) check"
        "result (fpga_wait 100 (replicate 3 0)) (final ?send ?s1) = 0 \<longleftrightarrow> check = [(FPGA_CONFIG_ISDONE, replicate 8 0, 0)]"
        "result (fpga_wait 100 (replicate 3 0)) (final ?send ?s1) = 0 \<longrightarrow> polls \<noteq> [] \<and> snd (snd (last polls)) = 0"
      using fpga_wait_log [of "replicate 3 0" 100 "final ?send ?s1"] by auto
    from True have run: "run_state (load_fpga_bitstream p n) s = run_state (fpga_wait 100 (replicate 3 0)) (final ?send ?s1)"
      by (simp add: load_fpga_bitstream_def send_fpga_bitstream_def split_beta SMC_CMD_SUCCESS_def)
    show ?thesis
      unfolding run by (rule exI [of _ 0], rule exI [of _ "[(FPGA_CONFIG_WRITE, ?args, 0)]"], rule exI [of _ polls],
          rule exI [of _ "check"]) (use w True in \<open>simp add: smc_call_smcs args\<close>)
  next
    case False
    let ?w = "if fst (result ?start s) = 0 then [(FPGA_CONFIG_WRITE, ?args, fst (result ?send ?s1))] else []"
    have run: "run_state (load_fpga_bitstream p n) s =
        (- EIO, if fst (result ?start s) = 0 then final ?send ?s1 else ?s1)"
      using False by (auto simp: load_fpga_bitstream_def send_fpga_bitstream_def split_beta SMC_CMD_SUCCESS_def)
    show ?thesis
      unfolding run by (rule exI [of _ "fst (result ?start s)"], rule exI [of _ ?w], rule exI [of _ "[]"],
          rule exI [of _ "[]"]) (simp add: smc_call_smcs)
  qed
qed


theorem fpga_load_protocol_witness:
  "\<exists>start rest. smcs (trace (final (load_fpga_bitstream 0x80000000 64) mbox_machine))
     = (FPGA_CONFIG_START, replicate 8 0, start) # rest \<and> length rest \<le> 102"
proof -
  obtain start w polls "check" where
    "smcs (trace (final (load_fpga_bitstream 0x80000000 64) mbox_machine))
       = smcs (trace mbox_machine) @ [(FPGA_CONFIG_START, replicate 8 0, start)] @ w @ polls @ check"
    "length w \<le> 1" "length polls \<le> 100" "length check \<le> 1"
    using fpga_load_protocol [of "0x80000000" 64 mbox_machine] by auto
  then show ?thesis by auto
qed

end
