(* ===== verification/Ecc.thy ===== *)
theory Ecc
  imports Secure_Services
begin

unbundle bit_operations_syntax

text \<open>
  The driver of the memories' error correction, \<^verbatim>\<open>drivers/ecc\<close>, built without
  \<^verbatim>\<open>ECC_DUAL_PORT\<close> as the repository builds it: twelve modules, enabled one by one, whose
  interrupts are served by two handlers that count single and double bit errors. The QSPI
  module's registers are reached through the secure monitor.
\<close>

section \<open>Registers and state\<close>

definition ECC_OCRAM_BASE_ADDR :: u32 where "ECC_OCRAM_BASE_ADDR = 0x108CC000"
definition ECC_EMAC0_RX_BASE_ADDR :: u32 where "ECC_EMAC0_RX_BASE_ADDR = 0x108C0000"
definition ECC_EMAC0_TX_BASE_ADDR :: u32 where "ECC_EMAC0_TX_BASE_ADDR = 0x108C0400"
definition ECC_EMAC1_RX_BASE_ADDR :: u32 where "ECC_EMAC1_RX_BASE_ADDR = 0x108C0800"
definition ECC_EMAC1_TX_BASE_ADDR :: u32 where "ECC_EMAC1_TX_BASE_ADDR = 0x108C0C00"
definition ECC_EMAC2_RX_BASE_ADDR :: u32 where "ECC_EMAC2_RX_BASE_ADDR = 0x108C1000"
definition ECC_EMAC2_TX_BASE_ADDR :: u32 where "ECC_EMAC2_TX_BASE_ADDR = 0x108C1400"
definition ECC_USB0_RAM0_BASE_ADDR :: u32 where "ECC_USB0_RAM0_BASE_ADDR = 0x108C4000"
definition ECC_USB1_RAM0_BASE_ADDR :: u32 where "ECC_USB1_RAM0_BASE_ADDR = 0x108C4400"
definition ECC_USB1_RAM1_BASE_ADDR :: u32 where "ECC_USB1_RAM1_BASE_ADDR = 0x108C4800"
definition ECC_USB1_RAM2_BASE_ADDR :: u32 where "ECC_USB1_RAM2_BASE_ADDR = 0x108C4C00"
definition ECC_QSPI_BASE_ADDR :: u32 where "ECC_QSPI_BASE_ADDR = 0x10A22000"

definition ECC_CTRL :: u32 where "ECC_CTRL = 0x8"
definition ECC_INIT_STAT :: u32 where "ECC_INIT_STAT = 0xC"
definition ECC_ERR_INT_EN :: u32 where "ECC_ERR_INT_EN = 0x10"
definition ECC_ERR_INT_SET :: u32 where "ECC_ERR_INT_SET = 0x14"
definition ECC_ERR_INT_RESET :: u32 where "ECC_ERR_INT_RESET = 0x18"
definition ECC_INT_MODE :: u32 where "ECC_INT_MODE = 0x1C"
definition ECC_INT_STAT :: u32 where "ECC_INT_STAT = 0x20"
definition ECC_INT_TEST :: u32 where "ECC_INT_TEST = 0x24"
definition ECC_D_ERR_ADDR_A :: u32 where "ECC_D_ERR_ADDR_A = 0x2C"
definition ECC_S_ERR_ADDR_A :: u32 where "ECC_S_ERR_ADDR_A = 0x30"
definition ECC_S_ERR_CNT :: u32 where "ECC_S_ERR_CNT = 0x3C"
definition ECC_PENDING_ERROR_A_MASK :: u32 where "ECC_PENDING_ERROR_A_MASK = 0x101"
definition ECC_PENDING_SB_ERR_MASK :: u32 where "ECC_PENDING_SB_ERR_MASK = 0x10001"
definition ECC_PENDING_DB_ERR_MASK :: u32 where "ECC_PENDING_DB_ERR_MASK = 0x1000100"
definition ECC_SBERR_PORTA_MASK :: u32 where "ECC_SBERR_PORTA_MASK = 0x1"
definition ECC_DBERR_PORTA_MASK :: u32 where "ECC_DBERR_PORTA_MASK = 0x100"
definition ECC_MAX_INSTANCES :: nat where "ECC_MAX_INSTANCES = 13"
definition ECC_MODULES_MASK :: u32 where "ECC_MODULES_MASK = 0x1FFE"
definition ECC_MEM_WAIT_TIMEOUT :: nat where "ECC_MEM_WAIT_TIMEOUT = 10000"
definition SMC_SECURE_REG_WR :: u64 where "SMC_SECURE_REG_WR = 0xC2000008"
definition SMC_SECURE_REG_RD :: u64 where "SMC_SECURE_REG_RD = 0xC2000007"
definition SYS_MNGR_ECC_INTMASK_SET :: u32 where "SYS_MNGR_ECC_INTMASK_SET = 0x94"
definition SYS_MNGR_ECC_INTMASK_CLR :: u32 where "SYS_MNGR_ECC_INTMASK_CLR = 0x98"
definition SYS_MNGR_ECC_INTSTATUS_SERR :: u32 where "SYS_MNGR_ECC_INTSTATUS_SERR = 0x9C"
definition SYS_MNGR_ECC_INTSTATUS_DERR :: u32 where "SYS_MNGR_ECC_INTSTATUS_DERR = 0xA0"

definition ECC_OCRAM :: nat where "ECC_OCRAM = 1"
definition ECC_USB0_RAM0 :: nat where "ECC_USB0_RAM0 = 2"
definition ECC_USB1_RAM2 :: nat where "ECC_USB1_RAM2 = 3"
definition ECC_EMAC0_RX :: nat where "ECC_EMAC0_RX = 4"
definition ECC_EMAC0_TX :: nat where "ECC_EMAC0_TX = 5"
definition ECC_EMAC1_RX :: nat where "ECC_EMAC1_RX = 6"
definition ECC_EMAC1_TX :: nat where "ECC_EMAC1_TX = 7"
definition ECC_EMAC2_RX :: nat where "ECC_EMAC2_RX = 8"
definition ECC_EMAC2_TX :: nat where "ECC_EMAC2_TX = 9"
definition ECC_QSPI :: nat where "ECC_QSPI = 10"
definition ECC_USB1_RAM1 :: nat where "ECC_USB1_RAM1 = 11"
definition ECC_USB1_RAM0 :: nat where "ECC_USB1_RAM0 = 12"
definition ECC_SINGLE_BIT_ERROR :: u32 where "ECC_SINGLE_BIT_ERROR = 1"
definition ECC_DOUBLE_BIT_ERROR :: u32 where "ECC_DOUBLE_BIT_ERROR = 2"
definition GIC_INTERRUPT_PRIORITY_EDAC :: u8 where "GIC_INTERRUPT_PRIORITY_EDAC = 14"
definition SERR_GLOBAL :: u32 where "SERR_GLOBAL = 47"
definition ECC_DERR_INTR_N :: u32 where "ECC_DERR_INTR_N = 273"
definition SDM_HPS_SPARE_INTR0 :: u32 where "SDM_HPS_SPARE_INTR0 = 39"
definition SDM_HPS_SPARE_INTR1 :: u32 where "SDM_HPS_SPARE_INTR1 = 40"
definition SDM_HPS_SPARE_INTR2 :: u32 where "SDM_HPS_SPARE_INTR2 = 41"

lemmas ecc_consts =
  ECC_OCRAM_BASE_ADDR_def ECC_EMAC0_RX_BASE_ADDR_def ECC_EMAC0_TX_BASE_ADDR_def ECC_EMAC1_RX_BASE_ADDR_def
  ECC_EMAC1_TX_BASE_ADDR_def ECC_EMAC2_RX_BASE_ADDR_def ECC_EMAC2_TX_BASE_ADDR_def ECC_USB0_RAM0_BASE_ADDR_def
  ECC_USB1_RAM0_BASE_ADDR_def ECC_USB1_RAM1_BASE_ADDR_def ECC_USB1_RAM2_BASE_ADDR_def ECC_QSPI_BASE_ADDR_def
  ECC_OCRAM_def ECC_USB0_RAM0_def ECC_USB1_RAM2_def ECC_EMAC0_RX_def ECC_EMAC0_TX_def ECC_EMAC1_RX_def
  ECC_EMAC1_TX_def ECC_EMAC2_RX_def ECC_EMAC2_TX_def ECC_QSPI_def ECC_USB1_RAM1_def ECC_USB1_RAM0_def

record ecc_blk_data_t =
  base_addr :: u32
  sbe_err_cnt :: u32
  dbe_err_cnt :: u32

record ecc_state = reboot_state +
  ecc_instances :: "nat \<Rightarrow> ecc_blk_data_t"
  module_init :: u32
  user_cb :: fptr
  ecc_initialized :: bool

definition upd_ecc :: "nat \<Rightarrow> (ecc_blk_data_t \<Rightarrow> ecc_blk_data_t) \<Rightarrow> 'x ecc_state_scheme \<Rightarrow> 'x ecc_state_scheme" where
  "upd_ecc i f s = s\<lparr>ecc_instances := (ecc_instances s)(i := f (ecc_instances s i))\<rparr>"

section \<open>Register access\<close>

definition ecc_smc_io_write32 :: "u32 \<Rightarrow> u32 \<Rightarrow> ('x console_state_scheme, unit) state" where
  "ecc_smc_io_write32 addr val = do {
     _ \<leftarrow> smc_call SMC_SECURE_REG_WR ([ucast addr, ucast val] @ replicate 6 0);
     ret ()
   }"

definition ecc_smc_io_read32 :: "u32 \<Rightarrow> ('x console_state_scheme, u32) state" where
  "ecc_smc_io_read32 addr = do {
     (_, smc_args) \<leftarrow> smc_call SMC_SECURE_REG_RD (ucast addr # replicate 7 0);
     ret (ucast (smc_args ! 0))
   }"

section \<open>Interrupts\<close>

definition ecc_process_sbe :: "nat \<Rightarrow> ('x ecc_state_scheme, unit) state" where
  "ecc_process_sbe module_id = do {
     b \<leftarrow> gets (\<lambda>s. base_addr (ecc_instances s module_id));
     sbe_status \<leftarrow> RD_REG32 (b + ECC_INT_STAT);
     WR_REG32 (b + ECC_INT_STAT) 1;
     whenM (sbe_status AND ECC_PENDING_SB_ERR_MASK \<noteq> 0 \<and> sbe_status AND ECC_SBERR_PORTA_MASK \<noteq> 0)
       (do { _ \<leftarrow> RD_REG32 (b + ECC_S_ERR_ADDR_A); ret () })
   }"

definition ecc_process_dbe :: "nat \<Rightarrow> ('x ecc_state_scheme, unit) state" where
  "ecc_process_dbe module_id = do {
     b \<leftarrow> gets (\<lambda>s. base_addr (ecc_instances s module_id));
     dbe_status \<leftarrow> RD_REG32 (b + ECC_INT_STAT);
     WR_REG32 (b + ECC_INT_STAT) 0x100;
     whenM (dbe_status AND ECC_PENDING_DB_ERR_MASK \<noteq> 0 \<and> dbe_status AND 0x100 \<noteq> 0)
       (do { _ \<leftarrow> RD_REG32 (b + ECC_D_ERR_ADDR_A); ret () })
   }"

definition ecc_user_callback :: "u32 \<Rightarrow> ('x ecc_state_scheme, unit) state" where
  "ecc_user_callback error_type = do {
     cb \<leftarrow> gets user_cb;
     whenM (cb \<noteq> F_NULL) (emit (Call cb V_NULL [ucast error_type]))
   }"

definition ecc_qspi_irq_handler :: "vptr \<Rightarrow> ('x ecc_state_scheme, unit) state" where
  "ecc_qspi_irq_handler param = do {
     b \<leftarrow> gets (\<lambda>s. base_addr (ecc_instances s ECC_QSPI));
     err_status \<leftarrow> ecc_smc_io_read32 (b + ECC_INT_STAT);
     if err_status AND 1 \<noteq> 0 then do {
       ecc_smc_io_write32 (b + ECC_INT_STAT) ECC_SBERR_PORTA_MASK;
       ecc_user_callback ECC_SINGLE_BIT_ERROR;
       modify (upd_ecc ECC_QSPI (\<lambda>c. c\<lparr>sbe_err_cnt := sbe_err_cnt c + 1\<rparr>))
     } else if err_status AND 0x100 \<noteq> 0 then do {
       ecc_smc_io_write32 (b + ECC_INT_STAT) ECC_DBERR_PORTA_MASK;
       ecc_user_callback ECC_DOUBLE_BIT_ERROR;
       modify (upd_ecc ECC_QSPI (\<lambda>c. c\<lparr>dbe_err_cnt := dbe_err_cnt c + 1\<rparr>))
     } else ret ()
   }"

text \<open>The loops over the modules, with those still to be looked at.\<close>

fun ecc_serve_dbe :: "u32 \<Rightarrow> nat list \<Rightarrow> ('x ecc_state_scheme, unit) state" where
  "ecc_serve_dbe status [] = ret ()"
| "ecc_serve_dbe status (i # is) = do {
     whenM (status AND push_bit i 1 \<noteq> 0) (do {
       ecc_process_dbe i;
       modify (upd_ecc i (\<lambda>c. c\<lparr>dbe_err_cnt := dbe_err_cnt c + 1\<rparr>))
     });
     ecc_serve_dbe status is
   }"

fun ecc_serve_sbe :: "u32 \<Rightarrow> nat list \<Rightarrow> ('x ecc_state_scheme, unit) state" where
  "ecc_serve_sbe status [] = ret ()"
| "ecc_serve_sbe status (i # is) = do {
     whenM (status AND push_bit i 1 \<noteq> 0) (do {
       ecc_process_sbe i;
       modify (upd_ecc i (\<lambda>c. c\<lparr>sbe_err_cnt := sbe_err_cnt c + 1\<rparr>))
     });
     ecc_serve_sbe status is
   }"

definition ecc_irq_handler :: "vptr \<Rightarrow> ('x ecc_state_scheme, unit) state" where
  "ecc_irq_handler param = do {
     derr_status \<leftarrow> ecc_smc_io_read32 (SYS_MNGR_BASE_ADDR + SYS_MNGR_ECC_INTSTATUS_DERR);
     let derr_status = derr_status AND ECC_MODULES_MASK;
     whenM (derr_status \<noteq> 0) (do {
       ecc_serve_dbe derr_status [0..<ECC_MAX_INSTANCES];
       ecc_user_callback ECC_DOUBLE_BIT_ERROR
     });
     serr_status \<leftarrow> RD_REG32 (SYS_MNGR_BASE_ADDR + SYS_MNGR_ECC_INTSTATUS_SERR);
     let serr_status = serr_status AND ECC_MODULES_MASK;
     whenM (serr_status \<noteq> 0) (do {
       ecc_serve_sbe serr_status [0..<ECC_MAX_INSTANCES];
       ecc_user_callback ECC_SINGLE_BIT_ERROR
     })
   }"

section \<open>Enabling modules\<close>

text \<open>
  The wait for the memory's initialisation, with the retries left; the counter is the caller's,
  so the wait returns how many are left, \<open>None\<close> when there are none.
\<close>

fun ecc_mem_wait :: "('s, u32) state \<Rightarrow> nat \<Rightarrow> ('s, nat option) state" where
  "ecc_mem_wait rd 0 = ret None"
| "ecc_mem_wait rd (Suc n) = do {
     v \<leftarrow> rd;
     if v AND 1 \<noteq> 0 then ret (Some (Suc n))
     else if n = 0 then ret None
     else ecc_mem_wait rd n
   }"

definition ecc_enable_qspi :: "('x ecc_state_scheme, int) state" where
  "ecc_enable_qspi = do {
     b \<leftarrow> gets (\<lambda>s. base_addr (ecc_instances s ECC_QSPI));
     ecc_smc_io_write32 (b + ECC_ERR_INT_RESET) 1;
     reg_val \<leftarrow> ecc_smc_io_read32 (b + ECC_CTRL);
     ecc_smc_io_write32 (b + ECC_CTRL) (reg_val AND NOT 1);
     reg_val \<leftarrow> ecc_smc_io_read32 (b + ECC_CTRL);
     ecc_smc_io_write32 (b + ECC_CTRL) (reg_val OR 0x10000);
     left \<leftarrow> ecc_mem_wait (ecc_smc_io_read32 (b + ECC_INIT_STAT)) ECC_MEM_WAIT_TIMEOUT;
     if left = None then ret (- EIO)
     else do {
       reg_val \<leftarrow> ecc_smc_io_read32 (b + ECC_CTRL);
       ecc_smc_io_write32 (b + ECC_CTRL) (reg_val OR 1);
       _ \<leftarrow> ecc_smc_io_read32 (b + ECC_CTRL);
       ecc_smc_io_write32 (b + ECC_ERR_INT_EN) 1;
       modify (\<lambda>s. s\<lparr>module_init := module_init s OR push_bit ECC_QSPI 1\<rparr>);
       ret 0
     }
   }"

text \<open>One module: the retries left for the next one, or \<open>None\<close> after a timeout.\<close>

definition ecc_enable_module :: "nat \<Rightarrow> nat \<Rightarrow> ('x ecc_state_scheme, nat option) state" where
  "ecc_enable_module i retries = do {
     b \<leftarrow> gets (\<lambda>s. base_addr (ecc_instances s i));
     WR_REG32 (b + ECC_ERR_INT_RESET) 1;
     reg_val \<leftarrow> RD_REG32 (b + ECC_CTRL);
     WR_REG32 (b + ECC_CTRL) (reg_val AND NOT 1);
     reg_val \<leftarrow> RD_REG32 (b + ECC_CTRL);
     WR_REG32 (b + ECC_CTRL) (reg_val OR 0x10000);
     left \<leftarrow> ecc_mem_wait (RD_REG32 (b + ECC_INIT_STAT)) retries;
     if left = None then ret None
     else do {
       WR_REG32 (b + ECC_INIT_STAT) ECC_PENDING_ERROR_A_MASK;
       WR_REG32 (b + ECC_S_ERR_CNT) 1;
       reg_val \<leftarrow> RD_REG32 (b + ECC_INT_MODE);
       WR_REG32 (b + ECC_INT_MODE) (reg_val OR 1);
       reg_val \<leftarrow> RD_REG32 (b + ECC_CTRL);
       WR_REG32 (b + ECC_CTRL) (reg_val OR 1);
       WR_REG32 (b + ECC_ERR_INT_SET) 1;
       ecc_smc_io_write32 (SYS_MNGR_BASE_ADDR + SYS_MNGR_ECC_INTMASK_CLR) (push_bit i 1);
       modify (\<lambda>s. s\<lparr>module_init := module_init s OR push_bit i 1\<rparr>);
       ret left
     }
   }"

fun ecc_enable_list :: "u32 \<Rightarrow> nat list \<Rightarrow> nat \<Rightarrow> ('x ecc_state_scheme, int) state" where
  "ecc_enable_list modules [] retries = ret 0"
| "ecc_enable_list modules (i # is) retries =
     (if modules AND push_bit i 1 = 0 then ecc_enable_list modules is retries
      else do {
        initialised \<leftarrow> gets module_init;
        b \<leftarrow> gets (\<lambda>s. base_addr (ecc_instances s i));
        if initialised AND push_bit i 1 \<noteq> 0 then ret (- EINVAL)
        else if b = 0 then ret (- EINVAL)
        else if i = ECC_QSPI then ecc_enable_qspi
        else do {
          left \<leftarrow> ecc_enable_module i retries;
          case left of None \<Rightarrow> ret (- EIO) | Some n \<Rightarrow> ecc_enable_list modules is n
        }
      })"

definition ecc_enable_modules :: "u32 \<Rightarrow> ('x ecc_state_scheme, int) state" where
  "ecc_enable_modules modules =
     (if modules AND ECC_MODULES_MASK = 0 then ret (- EINVAL)
      else do {
        ready \<leftarrow> gets ecc_initialized;
        if \<not> ready then ret (- EINVAL)
        else ecc_enable_list modules [0..<ECC_MAX_INSTANCES] ECC_MEM_WAIT_TIMEOUT
      })"

section \<open>Start-up, callback, injection and counters\<close>

definition ecc_connect :: "u32 \<Rightarrow> fptr \<Rightarrow> ('x ecc_state_scheme, bool) state" where
  "ecc_connect ident handler = do {
     err \<leftarrow> interrupt_register_isr ident handler V_NULL;
     if err \<noteq> 0 then ret False
     else do {
       err \<leftarrow> interrupt_enable ident GIC_INTERRUPT_PRIORITY_EDAC;
       ret (err = 0)
     }
   }"

definition ecc_bases :: "(nat \<times> u32) list" where
  "ecc_bases =
     [(ECC_OCRAM, ECC_OCRAM_BASE_ADDR), (ECC_EMAC0_RX, ECC_EMAC0_RX_BASE_ADDR),
      (ECC_EMAC0_TX, ECC_EMAC0_TX_BASE_ADDR), (ECC_EMAC1_RX, ECC_EMAC1_RX_BASE_ADDR),
      (ECC_EMAC1_TX, ECC_EMAC1_TX_BASE_ADDR), (ECC_EMAC2_RX, ECC_EMAC2_RX_BASE_ADDR),
      (ECC_EMAC2_TX, ECC_EMAC2_TX_BASE_ADDR), (ECC_QSPI, ECC_QSPI_BASE_ADDR),
      (ECC_USB0_RAM0, ECC_USB0_RAM0_BASE_ADDR), (ECC_USB1_RAM0, ECC_USB1_RAM0_BASE_ADDR),
      (ECC_USB1_RAM1, ECC_USB1_RAM1_BASE_ADDR), (ECC_USB1_RAM2, ECC_USB1_RAM2_BASE_ADDR)]"

definition ecc_init :: "('x ecc_state_scheme, int) state" where
  "ecc_init = do {
     ecc_smc_io_write32 (SYS_MNGR_BASE_ADDR + SYS_MNGR_ECC_INTMASK_SET) 0x7FFFE;
     ok \<leftarrow> ecc_connect SERR_GLOBAL F_ecc_irq_handler;
     if \<not> ok then ret (- EIO)
     else do {
       ok \<leftarrow> ecc_connect SDM_HPS_SPARE_INTR1 F_ecc_qspi_irq_handler;
       if \<not> ok then ret (- EIO)
       else do {
         ok \<leftarrow> ecc_connect ECC_DERR_INTR_N F_ecc_irq_handler;
         if \<not> ok then ret (- EIO)
         else do {
           ok \<leftarrow> ecc_connect SDM_HPS_SPARE_INTR2 F_ecc_qspi_irq_handler;
           if \<not> ok then ret (- EIO)
           else do {
             modify (\<lambda>s. foldl (\<lambda>s (i, b). upd_ecc i (\<lambda>c. c\<lparr>base_addr := b\<rparr>) s) s ecc_bases);
             modify (\<lambda>s. s\<lparr>ecc_initialized := True\<rparr>);
             ret 0
           }
         }
       }
     }
   }"

definition ecc_set_callback :: "fptr \<Rightarrow> ('x ecc_state_scheme, int) state" where
  "ecc_set_callback user_callback =
     (if user_callback = F_NULL then ret (- EINVAL)
      else do {
        ready \<leftarrow> gets ecc_initialized;
        if \<not> ready then ret (- EINVAL)
        else do { modify (\<lambda>s. s\<lparr>user_cb := user_callback\<rparr>); ret 0 }
      })"

definition ecc_inject_error :: "u32 \<Rightarrow> u32 \<Rightarrow> ('x ecc_state_scheme, int) state" where
  "ecc_inject_error ecc_module error_type =
     (if unat ecc_module \<ge> ECC_MAX_INSTANCES then ret (- EINVAL)
      else do {
        ready \<leftarrow> gets ecc_initialized;
        b \<leftarrow> gets (\<lambda>s. base_addr (ecc_instances s (unat ecc_module)));
        if \<not> ready then ret (- EINVAL)
        else if b = 0 then ret (- EINVAL)
        else if unat ecc_module = ECC_QSPI then
          (if error_type = ECC_SINGLE_BIT_ERROR then do { ecc_smc_io_write32 (b + ECC_INT_TEST) 1; ret 0 }
           else if error_type = ECC_DOUBLE_BIT_ERROR then do { ecc_smc_io_write32 (b + ECC_INT_TEST) 0x100; ret 0 }
           else ret (- EINVAL))
        else if error_type = ECC_SINGLE_BIT_ERROR then do { WR_REG16 (b + ECC_INT_TEST) 1; ret 0 }
        else if error_type = ECC_DOUBLE_BIT_ERROR then do { WR_REG16 (b + ECC_INT_TEST) 0x100; ret 0 }
        else ret (- EINVAL)
      })"

text \<open>The counters are returned as a signed \<^verbatim>\<open>int\<close>.\<close>

definition ecc_get_count :: "(ecc_blk_data_t \<Rightarrow> u32) \<Rightarrow> u32 \<Rightarrow> ('x ecc_state_scheme, int) state" where
  "ecc_get_count count ecc_module = do {
     initialised \<leftarrow> gets module_init;
     ready \<leftarrow> gets ecc_initialized;
     n \<leftarrow> gets (\<lambda>s. count (ecc_instances s (unat ecc_module)));
     if unat ecc_module \<ge> ECC_MAX_INSTANCES \<or> initialised AND push_bit (unat ecc_module) 1 = 0 then ret (- EINVAL)
     else if \<not> ready then ret (- EINVAL)
     else ret (sint n)
   }"

definition ecc_get_sbe_error_count :: "u32 \<Rightarrow> ('x ecc_state_scheme, int) state" where
  "ecc_get_sbe_error_count ecc_module = ecc_get_count sbe_err_cnt ecc_module"

definition ecc_get_dbe_error_count :: "u32 \<Rightarrow> ('x ecc_state_scheme, int) state" where
  "ecc_get_dbe_error_count ecc_module = ecc_get_count dbe_err_cnt ecc_module"


section \<open>What the register accesses leave alone\<close>

lemma ecc_trace_fields:
  "ecc_instances (s\<lparr>trace := t\<rparr>) = ecc_instances s" "module_init (s\<lparr>trace := t\<rparr>) = module_init s"
  "ecc_initialized (s\<lparr>trace := t\<rparr>) = ecc_initialized s" "user_cb (s\<lparr>trace := t\<rparr>) = user_cb s"
  by simp_all

lemmas ecc_lower_frames [simp] =
  lower_frame [of ecc_instances, OF ecc_trace_fields(1)] lower_frame [of module_init, OF ecc_trace_fields(2)]
  lower_frame [of ecc_initialized, OF ecc_trace_fields(3)] lower_frame [of user_cb, OF ecc_trace_fields(4)]

lemma ecc_smc_fields [simp]:
  fixes s :: "'x ecc_state_scheme"
  shows "ecc_instances (final (ecc_smc_io_write32 a v) s) = ecc_instances s"
    "module_init (final (ecc_smc_io_write32 a v) s) = module_init s"
    "ecc_initialized (final (ecc_smc_io_write32 a v) s) = ecc_initialized s"
    "user_cb (final (ecc_smc_io_write32 a v) s) = user_cb s" "env (final (ecc_smc_io_write32 a v) s) = env s"
    "ecc_instances (final (ecc_smc_io_read32 a) s) = ecc_instances s"
    "module_init (final (ecc_smc_io_read32 a) s) = module_init s"
    "ecc_initialized (final (ecc_smc_io_read32 a) s) = ecc_initialized s"
    "user_cb (final (ecc_smc_io_read32 a) s) = user_cb s" "env (final (ecc_smc_io_read32 a) s) = env s"
  by (simp_all add: ecc_smc_io_write32_def ecc_smc_io_read32_def split_beta)

lemma upd_ecc_fields [simp]:
  "module_init (upd_ecc i f s) = module_init s" "ecc_initialized (upd_ecc i f s) = ecc_initialized s"
  "user_cb (upd_ecc i f s) = user_cb s" "env (upd_ecc i f s) = env s" "trace (upd_ecc i f s) = trace s"
  "ecc_instances (upd_ecc i f s) = (ecc_instances s)(i := f (ecc_instances s i))"
  by (simp_all add: upd_ecc_def)

interpretation ecc_table: slots ecc_instances upd_ecc "\<lambda>_ _. True"
  by unfold_locales simp_all

lemma ecc_mem_wait_frame:
  assumes "\<And>s. f (final rd s) = f s"
  shows "f (final (ecc_mem_wait rd n) s) = f s"
  using assms by (induction n arbitrary: s) (simp_all add: split_beta)

lemma ecc_mem_wait_fields [simp]:
  fixes s :: "'x ecc_state_scheme"
  shows "ecc_instances (final (ecc_mem_wait (ecc_smc_io_read32 a) n) s) = ecc_instances s"
    "module_init (final (ecc_mem_wait (ecc_smc_io_read32 a) n) s) = module_init s"
    "ecc_initialized (final (ecc_mem_wait (ecc_smc_io_read32 a) n) s) = ecc_initialized s"
    "ecc_instances (final (ecc_mem_wait (RD_REG32 a) n) s) = ecc_instances s"
    "module_init (final (ecc_mem_wait (RD_REG32 a) n) s) = module_init s"
    "ecc_initialized (final (ecc_mem_wait (RD_REG32 a) n) s) = ecc_initialized s"
  by (rule ecc_mem_wait_frame; simp)+

section \<open>Enabling: which modules end up enabled\<close>

lemma ecc_enable_module_effect:
  fixes s :: "'x ecc_state_scheme"
  shows "ecc_instances (final (ecc_enable_module i n) s) = ecc_instances s"
    "ecc_initialized (final (ecc_enable_module i n) s) = ecc_initialized s"
    "module_init (final (ecc_enable_module i n) s) =
       (if result (ecc_enable_module i n) s = None then module_init s else module_init s OR push_bit i 1)"
  by (simp_all add: ecc_enable_module_def split_beta del: push_bit_of_1 not_None_eq)

lemma ecc_enable_qspi_effect:
  fixes s :: "'x ecc_state_scheme"
  shows "ecc_instances (final ecc_enable_qspi s) = ecc_instances s"
    "ecc_initialized (final ecc_enable_qspi s) = ecc_initialized s"
    "result ecc_enable_qspi s = 0 \<or> result ecc_enable_qspi s = - EIO"
    "module_init (final ecc_enable_qspi s) =
       (if result ecc_enable_qspi s = 0 then module_init s OR push_bit ECC_QSPI 1 else module_init s)"
  by (simp_all add: ecc_enable_qspi_def split_beta del: push_bit_of_1 not_None_eq)

text \<open>The modules the loop works on: the requested ones, up to the QSPI if it is one of them.\<close>

fun ecc_picked :: "u32 \<Rightarrow> nat list \<Rightarrow> nat list" where
  "ecc_picked m [] = []"
| "ecc_picked m (i # is) =
     (if \<not> bit m i then ecc_picked m is else if i = ECC_QSPI then [i] else i # ecc_picked m is)"

lemma and_bit_eq_0: "(w :: u32) AND push_bit i 1 = 0 \<longleftrightarrow> \<not> bit w i"
  by (simp add: bit_iff_and_push_bit_not_eq_0 del: push_bit_of_1)

definition ecc_marked :: "'x ecc_state_scheme \<Rightarrow> nat list \<Rightarrow> 'x ecc_state_scheme \<Rightarrow> bool" where
  "ecc_marked s is s' \<longleftrightarrow> ecc_instances s' = ecc_instances s \<and> ecc_initialized s' = ecc_initialized s
     \<and> module_init s' = foldl (\<lambda>w i. w OR push_bit i 1) (module_init s) is
     \<and> list_all (\<lambda>i. \<not> bit (module_init s) i \<and> base_addr (ecc_instances s i) \<noteq> 0) is"

lemma ecc_marked_step:
  assumes "ecc_marked s' is t" and "i \<notin> set is" and "\<not> bit (module_init s) i" "base_addr (ecc_instances s i) \<noteq> 0"
    and "ecc_instances s' = ecc_instances s" "ecc_initialized s' = ecc_initialized s"
    and "module_init s' = module_init s OR push_bit i 1"
  shows "ecc_marked s (i # is) t"
  using assms unfolding ecc_marked_def
  by (auto simp: list_all_iff bit_or_iff simp del: push_bit_of_1)

lemma ecc_picked_subset: "set (ecc_picked m is) \<subseteq> set is"
  by (induction "is") auto

lemma ecc_enable_list_marks:
  fixes s :: "'x ecc_state_scheme"
  assumes "distinct is"
  shows "\<exists>k\<le>length (ecc_picked m is). ecc_marked s (take k (ecc_picked m is)) (final (ecc_enable_list m is n) s)
     \<and> (result (ecc_enable_list m is n) s = 0 \<longleftrightarrow> k = length (ecc_picked m is))
     \<and> result (ecc_enable_list m is n) s \<in> {0, - EINVAL, - EIO}"
  using assms
proof (induction "is" arbitrary: n s)
  case (Cons i "is")
  consider "\<not> bit m i" | "bit m i" "bit (module_init s) i \<or> base_addr (ecc_instances s i) = 0"
    | "bit m i" "\<not> bit (module_init s) i" "base_addr (ecc_instances s i) \<noteq> 0" "i = ECC_QSPI"
    | "bit m i" "\<not> bit (module_init s) i" "base_addr (ecc_instances s i) \<noteq> 0" "i \<noteq> ECC_QSPI"
    by blast
  then show ?case
  proof cases
    case 1
    then show ?thesis using Cons.IH [of s n] Cons.prems by (simp add: and_bit_eq_0 del: push_bit_of_1)
  next
    case 2
    then show ?thesis
      by (intro exI [of _ 0]) (auto simp: ecc_marked_def and_bit_eq_0 simp del: push_bit_of_1)
  next
    case 3
    let ?e = "ecc_enable_qspi"
    have run: "run_state (ecc_enable_list m (i # is) n) s = run_state ?e s"
      using 3 by (simp add: and_bit_eq_0 del: push_bit_of_1)
    show ?thesis
      unfolding run using 3 ecc_enable_qspi_effect [of s]
      by (intro exI [of _ "if result ?e s = 0 then 1 else 0"]) (auto simp: ecc_marked_def simp del: push_bit_of_1)
  next
    case 4
    let ?e = "ecc_enable_module i n"
    note eff = ecc_enable_module_effect [of i n s]
    show ?thesis
    proof (cases "result ?e s")
      case None
      then have run: "run_state (ecc_enable_list m (i # is) n) s = (- EIO, final ?e s)"
        using 4 by (simp add: and_bit_eq_0 split_beta del: push_bit_of_1)
      show ?thesis
        unfolding run using 4 eff None by (intro exI [of _ 0]) (simp add: ecc_marked_def)
    next
      case (Some l)
      then have run: "run_state (ecc_enable_list m (i # is) n) s = run_state (ecc_enable_list m is l) (final ?e s)"
        using 4 by (simp add: and_bit_eq_0 split_beta del: push_bit_of_1)
      obtain k where k: "k \<le> length (ecc_picked m is)"
          "ecc_marked (final ?e s) (take k (ecc_picked m is)) (final (ecc_enable_list m is l) (final ?e s))"
          "result (ecc_enable_list m is l) (final ?e s) = 0 \<longleftrightarrow> k = length (ecc_picked m is)"
          "result (ecc_enable_list m is l) (final ?e s) \<in> {0, - EINVAL, - EIO}"
        using Cons.IH [of "final ?e s" l] Cons.prems by auto
      have "i \<notin> set (take k (ecc_picked m is))"
        using Cons.prems ecc_picked_subset [of m "is"] by (auto dest: in_set_takeD)
      from ecc_marked_step [OF k(2) this 4(2,3) eff(1,2)] eff(3) Some
      have "ecc_marked s (i # take k (ecc_picked m is)) (final (ecc_enable_list m is l) (final ?e s))"
        by simp
      then show ?thesis
        unfolding run using 4 k by (intro exI [of _ "Suc k"]) simp
    qed
  qed
qed (simp add: ecc_marked_def)

lemma bit_single: "bit (push_bit i 1 :: u32) j \<longleftrightarrow> j = i \<and> j < 32"
  by (auto simp: bit_push_bit_iff bit_1_word simp del: push_bit_of_1)

lemma bit_foldl_marks:
  "bit (foldl (\<lambda>w i. w OR push_bit i 1) (w :: u32) is) j \<longleftrightarrow> bit w j \<or> (j < 32 \<and> j \<in> set is)"
  by (induction "is" arbitrary: w) (auto simp: bit_or_iff bit_single simp del: push_bit_of_1)

lemma ecc_picked_upto_qspi:
  "ecc_picked m is = (let asked = filter (bit m) is
     in takeWhile (\<lambda>i. i \<noteq> ECC_QSPI) asked @ (if ECC_QSPI \<in> set asked then [ECC_QSPI] else []))"
  by (induction "is") (auto simp: Let_def)

text \<open>
  C29. Enabling modules marks exactly a prefix of the modules it is to enable, none of them enabled
  before and each with a register block, and reports success exactly when it enabled all of
  them; the modules to enable are the requested ones in ascending order, up to and including
  the QSPI when that is requested (what is requested behind it is left out, and the call still
  succeeds). The error counters and addresses do not change.
\<close>

theorem ecc_enable_exact:
  fixes s :: "'x ecc_state_scheme" and modules :: u32
  defines "s' \<equiv> final (ecc_enable_modules modules) s" and "r \<equiv> result (ecc_enable_modules modules) s"
    and "asked \<equiv> filter (bit modules) [0..<13]"
  shows "\<exists>todo k. todo = takeWhile (\<lambda>i. i \<noteq> 10) asked @ (if 10 \<in> set asked then [10] else [])
     \<and> (\<forall>j. bit (module_init s') j \<longleftrightarrow> bit (module_init s) j \<or> j \<in> set (take k todo))
     \<and> list_all (\<lambda>i. \<not> bit (module_init s) i \<and> base_addr (ecc_instances s i) \<noteq> 0) (take k todo)
     \<and> (r = 0 \<longleftrightarrow> ecc_initialized s \<and> modules AND 0x1FFE \<noteq> 0 \<and> k = length todo)
     \<and> (r = 0 \<or> r = - EINVAL \<or> r = - EIO)
     \<and> ecc_instances s' = ecc_instances s \<and> ecc_initialized s' = ecc_initialized s"
proof -
  let ?todo = "ecc_picked modules [0..<13]"
  have todo: "?todo = takeWhile (\<lambda>i. i \<noteq> 10) asked @ (if 10 \<in> set asked then [10] else [])"
    by (simp add: ecc_picked_upto_qspi asked_def Let_def ECC_QSPI_def)
  show ?thesis
  proof (cases "modules AND 0x1FFE \<noteq> 0 \<and> ecc_initialized s")
    case False
    then have "run_state (ecc_enable_modules modules) s = (- EINVAL, s)"
      by (auto simp: ecc_enable_modules_def ECC_MODULES_MASK_def)
    then show ?thesis
      using False by (intro exI [of _ ?todo] exI [of _ 0]) (auto simp: s'_def r_def todo)
  next
    case True
    then have run: "run_state (ecc_enable_modules modules) s = run_state (ecc_enable_list modules [0..<13] 10000) s"
      by (simp add: ecc_enable_modules_def ECC_MODULES_MASK_def ECC_MAX_INSTANCES_def ECC_MEM_WAIT_TIMEOUT_def)
    obtain k where k: "ecc_marked s (take k ?todo) s'" "r = 0 \<longleftrightarrow> k = length ?todo" "r \<in> {0, - EINVAL, - EIO}"
      using ecc_enable_list_marks [of "[0..<13]" modules s 10000] by (auto simp: s'_def r_def run)
    have "j < 32" if "j \<in> set (take k ?todo)" for j
      using that ecc_picked_subset [of modules "[0..<13]"] by (auto dest!: in_set_takeD)
    then have bits: "bit (module_init s') j \<longleftrightarrow> bit (module_init s) j \<or> j \<in> set (take k ?todo)" for j
      using k(1) by (auto simp: ecc_marked_def bit_foldl_marks simp del: push_bit_of_1)
    show ?thesis
      by (rule exI [of _ ?todo], rule exI [of _ k]) (use True k bits in \<open>auto simp: ecc_marked_def todo\<close>)
  qed
qed


section \<open>Serving errors\<close>

text \<open>The 32-bit register writes of a run, oldest first.\<close>

fun wr32s :: "ev list \<Rightarrow> (u64 \<times> u32) list" where
  "wr32s [] = []"
| "wr32s (Wr32 a v # t) = wr32s t @ [(a, v)]"
| "wr32s (_ # t) = wr32s t"

lemma emits_no_wr32:
  assumes "emits is_kern m"
  shows "wr32s (trace (final m s)) = wr32s (trace s)"
proof -
  obtain es where es: "trace (final m s) = es @ trace s" "list_all is_kern es"
    using assms by (rule emitsD)
  from es(2) have "wr32s (es @ t) = wr32s t" for t
  proof (induction es)
    case (Cons e es)
    then show ?case by (cases e) simp_all
  qed simp
  with es(1) show ?thesis by simp
qed

lemma console_wr32s [simp]:
  "wr32s (trace (final console_lock s)) = wr32s (trace s)" "wr32s (trace (final console_unlock s)) = wr32s (trace s)"
  unfolding console_lock_def console_unlock_def by (intro emits_no_wr32 emits_intros osal_emits_kern)+

lemma smc_wr32s [simp]: "wr32s (trace (final (smc_call f xs) s)) = wr32s (trace s)"
  by (simp add: smc_call_def split_beta)

lemma ecc_read32_calls [simp]:
  "calls (trace (final (ecc_smc_io_read32 a) s)) = calls (trace s)"
  "wr32s (trace (final (ecc_smc_io_read32 a) s)) = wr32s (trace s)"
  by (simp_all add: ecc_smc_io_read32_def split_beta)

text \<open>One module's error, served: the counter, the acknowledgement, nothing else.\<close>

lemma ecc_process_effect:
  fixes s :: "'x ecc_state_scheme"
  assumes "m = ecc_process_dbe i \<and> v = 0x100 \<or> m = ecc_process_sbe i \<and> v = 1"
  shows "ecc_instances (final m s) = ecc_instances s" "user_cb (final m s) = user_cb s" "env (final m s) = env s"
    "calls (trace (final m s)) = calls (trace s)"
    "wr32s (trace (final m s)) = wr32s (trace s) @ [(ucast (base_addr (ecc_instances s i) + ECC_INT_STAT), v)]"
  using assms by (auto simp: ecc_process_dbe_def ecc_process_sbe_def)

lemmas ecc_process_effects =
  ecc_process_effect [OF disjI1 [OF conjI [OF refl refl]]] ecc_process_effect [OF disjI2 [OF conjI [OF refl refl]]]

lemma ecc_serve_dbe_effect:
  fixes s :: "'x ecc_state_scheme"
  assumes "distinct is"
  shows "ecc_instances (final (ecc_serve_dbe w is) s) = (\<lambda>j. if j \<in> set is \<and> bit w j
        then (ecc_instances s j)\<lparr>dbe_err_cnt := dbe_err_cnt (ecc_instances s j) + 1\<rparr> else ecc_instances s j)
    \<and> user_cb (final (ecc_serve_dbe w is) s) = user_cb s \<and> env (final (ecc_serve_dbe w is) s) = env s
    \<and> calls (trace (final (ecc_serve_dbe w is) s)) = calls (trace s)
    \<and> wr32s (trace (final (ecc_serve_dbe w is) s)) = wr32s (trace s)
        @ map (\<lambda>i. (ucast (base_addr (ecc_instances s i) + ECC_INT_STAT), 0x100)) (filter (bit w) is)"
  using assms
proof (induction "is" arbitrary: s)
  case (Cons i "is")
  show ?case
  proof (cases "bit w i")
    case True
    let ?s = "upd_ecc i (\<lambda>c. c\<lparr>dbe_err_cnt := dbe_err_cnt c + 1\<rparr>) (final (ecc_process_dbe i) s)"
    have run: "run_state (ecc_serve_dbe w (i # is)) s = run_state (ecc_serve_dbe w is) ?s"
      using True by (simp add: and_bit_eq_0 split_beta del: push_bit_of_1)
    have "base_addr (ecc_instances ?s j) = base_addr (ecc_instances s j)" for j
      by (simp add: ecc_process_effects)
    then show ?thesis
      unfolding run using Cons.IH [of ?s] Cons.prems True by (auto simp: ecc_process_effects fun_eq_iff)
  next
    case False
    then show ?thesis
      using Cons.IH [of s] Cons.prems False by (auto simp: and_bit_eq_0 fun_eq_iff simp del: push_bit_of_1)
  qed
qed simp

lemma ecc_serve_sbe_effect:
  fixes s :: "'x ecc_state_scheme"
  assumes "distinct is"
  shows "ecc_instances (final (ecc_serve_sbe w is) s) = (\<lambda>j. if j \<in> set is \<and> bit w j
        then (ecc_instances s j)\<lparr>sbe_err_cnt := sbe_err_cnt (ecc_instances s j) + 1\<rparr> else ecc_instances s j)
    \<and> user_cb (final (ecc_serve_sbe w is) s) = user_cb s \<and> env (final (ecc_serve_sbe w is) s) = env s
    \<and> calls (trace (final (ecc_serve_sbe w is) s)) = calls (trace s)
    \<and> wr32s (trace (final (ecc_serve_sbe w is) s)) = wr32s (trace s)
        @ map (\<lambda>i. (ucast (base_addr (ecc_instances s i) + ECC_INT_STAT), 1)) (filter (bit w) is)"
  using assms
proof (induction "is" arbitrary: s)
  case (Cons i "is")
  show ?case
  proof (cases "bit w i")
    case True
    let ?s = "upd_ecc i (\<lambda>c. c\<lparr>sbe_err_cnt := sbe_err_cnt c + 1\<rparr>) (final (ecc_process_sbe i) s)"
    have run: "run_state (ecc_serve_sbe w (i # is)) s = run_state (ecc_serve_sbe w is) ?s"
      using True by (simp add: and_bit_eq_0 split_beta del: push_bit_of_1)
    have "base_addr (ecc_instances ?s j) = base_addr (ecc_instances s j)" for j
      by (simp add: ecc_process_effects)
    then show ?thesis
      unfolding run using Cons.IH [of ?s] Cons.prems True by (auto simp: ecc_process_effects fun_eq_iff)
  next
    case False
    then show ?thesis
      using Cons.IH [of s] Cons.prems False by (auto simp: and_bit_eq_0 fun_eq_iff simp del: push_bit_of_1)
  qed
qed simp


lemma ecc_user_callback_effect [simp]:
  fixes s :: "'x ecc_state_scheme"
  shows "ecc_instances (final (ecc_user_callback e) s) = ecc_instances s"
    "user_cb (final (ecc_user_callback e) s) = user_cb s" "env (final (ecc_user_callback e) s) = env s"
    "wr32s (trace (final (ecc_user_callback e) s)) = wr32s (trace s)"
    "calls (trace (final (ecc_user_callback e) s)) = calls (trace s)
       @ (if user_cb s \<noteq> F_NULL then [(user_cb s, V_NULL, [ucast e])] else [])"
  by (simp_all add: ecc_user_callback_def)

lemma ecc_read32_stable:
  fixes s :: "'x ecc_state_scheme"
  assumes "\<And>t. snd (monitor (env s) t SMC_SECURE_REG_RD (ucast a # replicate 7 0)) 0 = ucast v"
  shows "result (ecc_smc_io_read32 a) s = v"
  using assms by (simp add: ecc_smc_io_read32_def smc_call_def split_beta console_lock_def)

lemma ECC_MODULES_MASK_bits: "bit ECC_MODULES_MASK i \<longleftrightarrow> 1 \<le> i \<and> i \<le> 12"
proof -
  have eq: "ECC_MODULES_MASK = push_bit 1 (mask 12)"
    by (simp add: ECC_MODULES_MASK_def mask_eq_exp_minus_1)
  show ?thesis
    unfolding eq bit_push_bit_iff bit_mask_iff by auto
qed

text \<open>
  C27. The interrupt handler accounts for every error exactly once: for each of the modules 1 to
  12, its double-bit counter grows by one (modulo 2^32) exactly when its bit is set in the
  status of double-bit errors, its single-bit counter exactly when its bit is set in the status
  of single-bit errors, and each counted error is acknowledged in that module's own status
  register, double-bit errors first; the user's callback is called once per kind that occurred.
\<close>

theorem ecc_irq_counts:
  fixes s :: "'x ecc_state_scheme" and p :: vptr and serr derr :: u32
  assumes "\<And>t. hw_rd32 (env s) t 0x10D1209C = serr"
    and "\<And>t. snd (monitor (env s) t SMC_SECURE_REG_RD (0x10D120A0 # replicate 7 0)) 0 = ucast derr"
  defines "s' \<equiv> final (ecc_irq_handler p) s" and "has \<equiv> \<lambda>(w :: u32) i. 1 \<le> i \<and> i \<le> 12 \<and> bit w i"
    and "ack \<equiv> \<lambda>v i. (ucast (base_addr (ecc_instances s i) + 0x20) :: u64, v :: u32)"
    and "told \<equiv> \<lambda>e. if user_cb s \<noteq> F_NULL then [(user_cb s, V_NULL, [e])] else []"
  shows "(\<forall>i. ecc_instances s' i = (ecc_instances s i)
       \<lparr>dbe_err_cnt := dbe_err_cnt (ecc_instances s i) + of_bool (has derr i),
        sbe_err_cnt := sbe_err_cnt (ecc_instances s i) + of_bool (has serr i)\<rparr>)
    \<and> wr32s (trace s') = wr32s (trace s) @ map (ack 0x100) (filter (has derr) [0..<13])
         @ map (ack 1) (filter (has serr) [0..<13])
    \<and> calls (trace s') = calls (trace s) @ (if filter (has derr) [0..<13] \<noteq> [] then told 2 else [])
         @ (if filter (has serr) [0..<13] \<noteq> [] then told 1 else [])"
proof -
  let ?rd = "ecc_smc_io_read32 0x10D120A0"
  define d e where "d = derr AND ECC_MODULES_MASK" and "e = serr AND ECC_MODULES_MASK"
  have mask: "bit (w AND ECC_MODULES_MASK) i \<longleftrightarrow> has w i" for w i
    by (auto simp: has_def bit_and_iff ECC_MODULES_MASK_bits)
  have zero: "(w AND ECC_MODULES_MASK = 0) = (filter (has w) [0..<13] = [])" for w
  proof -
    have "(w AND ECC_MODULES_MASK = 0) = (\<forall>i. \<not> has w i)"
      unfolding mask [symmetric] by (metis bit_0_eq bit_word_eqI bot_apply bot_bool_def)
    also have "\<dots> = (filter (has w) [0..<13] = [])"
      by (auto simp: filter_empty_conv has_def)
    finally show ?thesis .
  qed
  have mask_fun: "bit (w AND ECC_MODULES_MASK) = has w" for w
    by (rule ext) (rule mask)
  have in13: "i \<in> set [0..<13] \<and> has w i \<longleftrightarrow> has w i" for w i
    by (auto simp: has_def)
  define s1 where "s1 = (if d = 0 then final ?rd s
     else final (ecc_user_callback ECC_DOUBLE_BIT_ERROR) (final (ecc_serve_dbe d [0..<13]) (final ?rd s)))"
  have s1: "ecc_instances s1 = (\<lambda>j. if has derr j
        then (ecc_instances s j)\<lparr>dbe_err_cnt := dbe_err_cnt (ecc_instances s j) + 1\<rparr> else ecc_instances s j)"
    "user_cb s1 = user_cb s" "env s1 = env s"
    "calls (trace s1) = calls (trace s) @ (if filter (has derr) [0..<13] \<noteq> [] then told 2 else [])"
    "wr32s (trace s1) = wr32s (trace s) @ map (ack 0x100) (filter (has derr) [0..<13])"
    using ecc_serve_dbe_effect [of "[0..<13]" d "final ?rd s"] zero [of derr]
    unfolding d_def mask_fun in13
    by (auto simp: s1_def d_def filter_empty_conv told_def ack_def ECC_DOUBLE_BIT_ERROR_def ECC_INT_STAT_def has_def)
  have d: "result ?rd s = derr"
    using ecc_read32_stable [of s "0x10D120A0"] assms(2) by simp
  define s2 where "s2 = s1\<lparr>trace := Rd32 0x10D1209C serr # trace s1\<rparr>"
  have run: "s' = (if e = 0 then s2
     else final (ecc_user_callback ECC_SINGLE_BIT_ERROR) (final (ecc_serve_sbe e [0..<13]) s2))"
    using assms(1) ecc_serve_dbe_effect [of "[0..<13]" d "final ?rd s"] d
    by (simp add: s'_def ecc_irq_handler_def split_beta s2_def s1_def d_def e_def Let_def SYS_MNGR_BASE_ADDR_def
        SYS_MNGR_ECC_INTSTATUS_DERR_def SYS_MNGR_ECC_INTSTATUS_SERR_def ECC_MAX_INSTANCES_def)
  have "ecc_instances s' = (\<lambda>j. if has serr j
        then (ecc_instances s1 j)\<lparr>sbe_err_cnt := sbe_err_cnt (ecc_instances s1 j) + 1\<rparr> else ecc_instances s1 j)
    \<and> calls (trace s') = calls (trace s1) @ (if filter (has serr) [0..<13] \<noteq> [] then told 1 else [])
    \<and> wr32s (trace s') = wr32s (trace s1) @ map (ack 1) (filter (has serr) [0..<13])"
    using ecc_serve_sbe_effect [of "[0..<13]" e s2] zero [of serr] s1(1,2)
    unfolding e_def mask_fun in13
    by (auto simp: run e_def s2_def filter_empty_conv told_def ack_def ECC_SINGLE_BIT_ERROR_def ECC_INT_STAT_def has_def)
  then show ?thesis
    using s1 by simp
qed


text \<open>
  Two errors at once: a double-bit error in the first EMAC's receive memory and a single-bit
  error in the on-chip RAM, with a callback registered.
\<close>

definition ecc_machine :: ecc_state where
  "ecc_machine = reboot_state.extend (mbox_state.extend
       (mbox_machine\<lparr>env := ram_env\<lparr>hw_rd32 := \<lambda>_ a. if a = 0x10D1209C then 2 else 0,
          monitor := \<lambda>_ _ _. (0, \<lambda>_. 16)\<rparr>\<rparr>) \<lparr>cold_boot_callback = F_NULL, warm_boot_callback = F_NULL\<rparr>)
     \<lparr>ecc_instances = (\<lambda>i. \<lparr>base_addr = word_of_nat i * 0x1000, sbe_err_cnt = 0, dbe_err_cnt = 0xFFFFFFFF\<rparr>),
      module_init = 0x1FFE, user_cb = F_user 1, ecc_initialized = True\<rparr>"

lemma ecc_machine_simps:
  "env ecc_machine = ram_env\<lparr>hw_rd32 := \<lambda>_ a. if a = 0x10D1209C then 2 else 0, monitor := \<lambda>_ _ _. (0, \<lambda>_. 16)\<rparr>"
  "ecc_instances ecc_machine i = \<lparr>base_addr = word_of_nat i * 0x1000, sbe_err_cnt = 0, dbe_err_cnt = 0xFFFFFFFF\<rparr>"
  "user_cb ecc_machine = F_user 1" "trace ecc_machine = []"
  by (simp_all add: ecc_machine_def reboot_state.defs mbox_state.defs)

theorem ecc_irq_counts_witness:
  "let s = final (ecc_irq_handler V_NULL) ecc_machine
   in map (\<lambda>i. (sbe_err_cnt (ecc_instances s i), dbe_err_cnt (ecc_instances s i))) [1, 4, 5]
        = [(1, 0xFFFFFFFF), (0, 0), (0, 0xFFFFFFFF)]
    \<and> wr32s (trace s) = [(0x4020, 0x100), (0x1020, 1)]
    \<and> calls (trace s) = [(F_user 1, V_NULL, [2]), (F_user 1, V_NULL, [1])]"
proof -
  have bits: "bit (16 :: u32) i \<longleftrightarrow> i = 4" "bit (2 :: u32) i \<longleftrightarrow> i = 1" for i
    using bit_single [of 4 i] bit_single [of 1 i] by auto
  show ?thesis
    using ecc_irq_counts [of ecc_machine 2 16 V_NULL]
    by (simp add: ecc_machine_simps bits upt_rec Let_def)
qed

end
