(* ===== verification/Seu.thy ===== *)
theory Seu
  imports Ecc
begin

unbundle bit_operations_syntax

text \<open>
  Detection of single event upsets, \<^verbatim>\<open>drivers/seu\<close>: four commands to the secure device manager,
  sent through a mailbox client, each of which waits for a semaphore that the client's callback
  posts. What happens while an operation waits (the response task, the device manager writing
  the response) is an argument of the operation; so are the addresses of its local arrays.
\<close>

section \<open>Data and state\<close>

definition SEU_READ_ERR_CMD :: u32 where "SEU_READ_ERR_CMD = 0x3C"
definition SEU_READ_ERR_RESP :: u32 where "SEU_READ_ERR_RESP = 12"
definition SEU_INSERT_ECC_ERR_CMD :: u32 where "SEU_INSERT_ECC_ERR_CMD = 0x42"
definition SEU_INSERT_ECC_ERR_LEN :: u32 where "SEU_INSERT_ECC_ERR_LEN = 4"
definition SEU_INSERT_SAFE_ERR_CMD :: u32 where "SEU_INSERT_SAFE_ERR_CMD = 0x41"
definition SEU_INSERT_SAFE_ERR_LEN :: u32 where "SEU_INSERT_SAFE_ERR_LEN = 8"
definition SEU_READ_STATS :: u32 where "SEU_READ_STATS = 0x40"
definition SEU_READ_STATS_LEN :: u32 where "SEU_READ_STATS_LEN = 4"
definition SEU_READ_STAT_RESP :: u32 where "SEU_READ_STAT_RESP = 24"
definition COMMAND_TIMEOUT :: u64 where "COMMAND_TIMEOUT = 2000"
definition SEU_BUFFER_SIZE :: nat where "SEU_BUFFER_SIZE = 16"
definition GIC_INTERRUPT_PRIORITY_SEU :: u8 where "GIC_INTERRUPT_PRIORITY_SEU = 14"

lemmas seu_consts = SEU_READ_ERR_CMD_def SEU_READ_ERR_RESP_def SEU_INSERT_ECC_ERR_CMD_def SEU_INSERT_ECC_ERR_LEN_def
  SEU_INSERT_SAFE_ERR_CMD_def SEU_INSERT_SAFE_ERR_LEN_def SEU_READ_STATS_def SEU_READ_STATS_LEN_def
  SEU_READ_STAT_RESP_def

record read_err_data_t =
  op_state :: u8
  err_sector_addr :: u8
  err_type :: u8
  node_specific_status :: u16
  err_cnt :: u32
  correction_status :: bool

record seu_err_params_t =
  sector_addr :: u8
  cram_sel0 :: u8
  cram_sel1 :: u8
  injection_cycle :: u8
  no_of_injection :: u8

record seu_stat_t =
  stat_op_state :: u8
  t_seu_cycle :: u32
  t_seu_detect :: u32
  t_seu_correct :: u32
  t_seu_inject_detect :: u32
  t_sdm_seu_poll_interval :: u32

record seu_context = ecc_state +
  seu_semphr :: u64
  pseu_handle :: sdm_client_handle_t
  seu_call_back :: fptr

text \<open>The addresses of an operation's local arrays: arguments, response, registers of the answer.\<close>

record seu_frame =
  args_at :: u64
  resp_at :: u64
  smc_resp_at :: u64

section \<open>Words in memory\<close>

definition le32 :: "u32 \<Rightarrow> u8 list" where
  "le32 w = map (\<lambda>i. ucast (drop_bit (8 * i) w)) [0..<4]"

definition words_at :: "(u64 \<Rightarrow> u8) \<Rightarrow> u64 \<Rightarrow> nat \<Rightarrow> u32" where
  "words_at m p i = ucast (le_word (bytes_at m (p + 4 * word_of_nat i) 4))"

definition put_words :: "u64 \<Rightarrow> u32 list \<Rightarrow> ('x machine_scheme, unit) state" where
  "put_words p ws = modify (\<lambda>s. s\<lparr>mem := store_bytes (mem s) p (concat (map le32 ws))\<rparr>)"

section \<open>Operations\<close>

definition seu_set_call_back :: "fptr \<Rightarrow> ('x seu_context_scheme, unit) state" where
  "seu_set_call_back cb = modify (\<lambda>s. s\<lparr>seu_call_back := cb\<rparr>)"

definition seu_init :: "('x seu_context_scheme, int) state" where
  "seu_init = do {
     e \<leftarrow> mbox_init;
     if e \<noteq> 0 then ret (- EIO)
     else do {
       w \<leftarrow> osal_semaphore_create;
       modify (\<lambda>s. s\<lparr>seu_semphr := w\<rparr>);
       if w = 0 then ret (- ENOMEM)
       else do {
         h \<leftarrow> mbox_open_client;
         modify (\<lambda>s. s\<lparr>pseu_handle := h\<rparr>);
         if h = None then ret (- EIO)
         else do {
           e \<leftarrow> interrupt_register_isr SDM_HPS_SPARE_INTR0 F_seu_irq_handler V_NULL;
           ret (if e \<noteq> 0 then - EIO else 0)
         }
       }
     }
   }"

text \<open>
  A command from sending to the status of its answer: \<open>None\<close> when sending does not return. The
  array \<^verbatim>\<open>smc_resp\<close> is zero before.
\<close>

datatype seu_outcome = Send_failed | Timed_out | Rejected | Answered

definition seu_transact ::
  "('x seu_context_scheme, unit) state \<Rightarrow> seu_frame \<Rightarrow> u32 \<Rightarrow> u64 \<Rightarrow> u32 \<Rightarrow> u64 \<Rightarrow> u32
     \<Rightarrow> ('x seu_context_scheme, seu_outcome option) state" where
  "seu_transact others f cmd args arg_len resp resp_len = do {
     h \<leftarrow> gets pseu_handle;
     e \<leftarrow> mbox_send_command h cmd args arg_len resp resp_len (smc_resp_at f) 16;
     case e of
       None \<Rightarrow> ret None
     | Some e \<Rightarrow>
         if e \<noteq> 0 then ret (Some Send_failed)
         else do {
           others;
           w \<leftarrow> gets seu_semphr;
           answered \<leftarrow> osal_semaphore_wait w COMMAND_TIMEOUT;
           if \<not> answered then ret (Some Timed_out)
           else do {
             status \<leftarrow> gets (\<lambda>s. le_word (bytes_at (mem s) (smc_resp_at f) 8));
             ret (Some (if status \<noteq> 0 then Rejected else Answered))
           }
         }
   }"

definition seu_zero_resp :: "seu_frame \<Rightarrow> ('x machine_scheme, unit) state" where
  "seu_zero_resp f = modify (\<lambda>s. s\<lparr>mem := store_bytes (mem s) (smc_resp_at f) (replicate 16 0)\<rparr>)"

definition seu_safe_err_args :: "seu_err_params_t \<Rightarrow> u32 list" where
  "seu_safe_err_args p =
     [push_bit 16 (ucast (sector_addr p)) OR push_bit 4 (ucast (injection_cycle p)) OR ucast (no_of_injection p),
      ucast (cram_sel0 p) OR push_bit 4 (ucast (cram_sel1 p))]"

definition seu_insert_safe_err ::
  "('x seu_context_scheme, unit) state \<Rightarrow> seu_frame \<Rightarrow> seu_err_params_t \<Rightarrow> ('x seu_context_scheme, int option) state" where
  "seu_insert_safe_err others f p = do {
     seu_zero_resp f;
     h \<leftarrow> gets pseu_handle;
     if h = None then ret (Some (- EIO))
     else if injection_cycle p \<ge> 4 \<or> cram_sel0 p > 0xF \<or> cram_sel1 p > 0xF \<or> no_of_injection p > 0xF
     then ret (Some (- EINVAL))
     else if cram_sel0 p = cram_sel1 p \<and> no_of_injection p \<noteq> 0 then ret (Some (- EINVAL))
     else do {
       e \<leftarrow> interrupt_enable SDM_HPS_SPARE_INTR0 GIC_INTERRUPT_PRIORITY_SEU;
       if e \<noteq> 0 then ret (Some (- EIO))
       else do {
         put_words (args_at f) (seu_safe_err_args p);
         e \<leftarrow> mbox_set_callback h F_seu_mailbox_complete;
         if e \<noteq> 0 then ret (Some (- EIO))
         else do {
           emit (Cache_clean (args_at f) (ucast SEU_INSERT_SAFE_ERR_LEN));
           r \<leftarrow> seu_transact others f SEU_INSERT_SAFE_ERR_CMD (args_at f) SEU_INSERT_SAFE_ERR_LEN 0 0;
           ret (map_option (\<lambda>r. if r = Answered then 0 else - EIO) r)
         }
       }
     }
   }"

definition seu_err_zero :: read_err_data_t where
  "seu_err_zero = \<lparr>op_state = 0, err_sector_addr = 0, err_type = 0, node_specific_status = 0,
     err_cnt = 0, correction_status = False\<rparr>"

text \<open>\<^verbatim>\<open>-EIO\<close> in an unsigned byte.\<close>

definition minus_EIO_u8 :: u8 where "minus_EIO_u8 = word_of_int (- EIO)"

definition seu_err_of :: "(nat \<Rightarrow> u32) \<Rightarrow> read_err_data_t" where
  "seu_err_of r =
     \<lparr>op_state = 0,
      err_sector_addr = ucast (drop_bit 16 (r 1) AND 0xFF),
      err_type = ucast (drop_bit 29 (r 2) AND 0x7),
      node_specific_status = ucast (r 2 AND 0x7FF),
      err_cnt = r 0,
      correction_status = (r 2 AND push_bit 28 1 \<noteq> 0)\<rparr>"

definition seu_read_err ::
  "('x seu_context_scheme, unit) state \<Rightarrow> seu_frame \<Rightarrow> ('x seu_context_scheme, read_err_data_t option) state" where
  "seu_read_err others f = do {
     seu_zero_resp f;
     h \<leftarrow> gets pseu_handle;
     e \<leftarrow> mbox_set_callback h F_seu_mailbox_complete;
     if e \<noteq> 0 then ret (Some (seu_err_zero\<lparr>op_state := minus_EIO_u8\<rparr>))
     else do {
       emit (Cache_invalidate (resp_at f) (ucast SEU_READ_ERR_RESP));
       r \<leftarrow> seu_transact others f SEU_READ_ERR_CMD 0 0 (resp_at f) SEU_READ_ERR_RESP;
       case r of
         None \<Rightarrow> ret None
       | Some Answered \<Rightarrow> do {
           n \<leftarrow> gets (\<lambda>s. le_word (bytes_at (mem s) (smc_resp_at f + 8) 8));
           emit (Cache_invalidate (resp_at f) n);
           m \<leftarrow> gets mem;
           ret (Some (seu_err_of (words_at m (resp_at f))))
         }
       | Some Rejected \<Rightarrow> ret (Some seu_err_zero)
       | Some _ \<Rightarrow> ret (Some (seu_err_zero\<lparr>op_state := minus_EIO_u8\<rparr>))
     }
   }"

definition seu_stat_zero :: seu_stat_t where
  "seu_stat_zero = \<lparr>stat_op_state = 0, t_seu_cycle = 0, t_seu_detect = 0, t_seu_correct = 0,
     t_seu_inject_detect = 0, t_sdm_seu_poll_interval = 0\<rparr>"

definition seu_read_stat ::
  "('x seu_context_scheme, unit) state \<Rightarrow> seu_frame \<Rightarrow> u8 \<Rightarrow> ('x seu_context_scheme, seu_stat_t option) state" where
  "seu_read_stat others f sec_addr = do {
     seu_zero_resp f;
     put_words (args_at f) [push_bit 16 (ucast sec_addr)];
     h \<leftarrow> gets pseu_handle;
     e \<leftarrow> mbox_set_callback h F_seu_mailbox_complete;
     if e \<noteq> 0 then ret (Some (seu_stat_zero\<lparr>stat_op_state := minus_EIO_u8\<rparr>))
     else do {
       emit (Cache_clean (args_at f) 64);
       emit (Cache_invalidate (resp_at f) (ucast SEU_READ_STAT_RESP));
       r \<leftarrow> seu_transact others f SEU_READ_STATS (args_at f) SEU_READ_STATS_LEN (resp_at f) SEU_READ_STAT_RESP;
       case r of
         None \<Rightarrow> ret None
       | Some Answered \<Rightarrow> do {
           emit (Cache_invalidate (resp_at f) (ucast SEU_READ_STAT_RESP));
           m \<leftarrow> gets mem;
           let w = words_at m (resp_at f);
           ret (Some \<lparr>stat_op_state = 0, t_seu_cycle = w 0, t_seu_detect = w 1, t_seu_correct = w 2,
             t_seu_inject_detect = w 3, t_sdm_seu_poll_interval = w 4\<rparr>)
         }
       | Some _ \<Rightarrow> ret (Some (seu_stat_zero\<lparr>stat_op_state := minus_EIO_u8\<rparr>))
     }
   }"

definition seu_insert_ecc_err ::
  "('x seu_context_scheme, unit) state \<Rightarrow> seu_frame \<Rightarrow> u8 \<Rightarrow> u8 \<Rightarrow> u8 \<Rightarrow> ('x seu_context_scheme, int option) state" where
  "seu_insert_ecc_err others f error_type ram_id sector = do {
     seu_zero_resp f;
     h \<leftarrow> gets pseu_handle;
     if h = None then ret (Some (- EIO))
     else if error_type > 2 \<or> ram_id > 0x1F then ret (Some (- EINVAL))
     else do {
       put_words (args_at f) [push_bit 16 (ucast sector) OR push_bit 2 (ucast ram_id) OR ucast error_type];
       e \<leftarrow> mbox_set_callback h F_seu_mailbox_complete;
       if e \<noteq> 0 then ret (Some (- EIO))
       else do {
         emit (Cache_clean (args_at f) 64);
         r \<leftarrow> seu_transact others f SEU_INSERT_ECC_ERR_CMD (args_at f) SEU_INSERT_ECC_ERR_LEN 0 0;
         ret (map_option (\<lambda>r. if r = Answered then 0 else - EIO) r)
       }
     }
   }"

definition seu_deinit :: "('x seu_context_scheme, int) state" where
  "seu_deinit = do {
     h \<leftarrow> gets pseu_handle;
     e \<leftarrow> mbox_close_client h;
     if e \<noteq> 0 then ret (- EIO)
     else do {
       e \<leftarrow> mbox_deinit;
       ret (if e \<noteq> 0 then - EIO else 0)
     }
   }"

definition seu_irq_handler :: "vptr \<Rightarrow> ('x seu_context_scheme, unit) state" where
  "seu_irq_handler param = do {
     cb \<leftarrow> gets seu_call_back;
     whenM (cb \<noteq> F_NULL) (emit (Call cb V_NULL []));
     _ \<leftarrow> interrupt_disable SDM_HPS_SPARE_INTR0;
     ret ()
   }"

definition seu_mailbox_complete :: "u64 list \<Rightarrow> ('x seu_context_scheme, unit) state" where
  "seu_mailbox_complete resp_data = do {
     w \<leftarrow> gets seu_semphr;
     _ \<leftarrow> osal_semaphore_post w;
     ret ()
   }"


section \<open>Words in memory, read back\<close>

lemma bytes_at_cong: "(\<And>k. k < n \<Longrightarrow> m (a + word_of_nat k) = m' (a + word_of_nat k)) \<Longrightarrow> bytes_at m a n = bytes_at m' a n"
proof (induction n arbitrary: a)
  case (Suc n)
  have "m (a + 1 + word_of_nat k) = m' (a + 1 + word_of_nat k)" if "k < n" for k
    using Suc.prems [of "Suc k"] that by (simp add: add.assoc)
  from Suc.IH [OF this] Suc.prems [of 0] show ?case by simp
qed simp

lemma bit_le_word: "n < 64 \<Longrightarrow> bit (le_word bs) n \<longleftrightarrow> n div 8 < length bs \<and> bit (bs ! (n div 8)) (n mod 8)"
proof (induction bs arbitrary: n)
  case (Cons b bs)
  show ?case
  proof (cases "n < 8")
    case False
    then have n: "n div 8 = Suc ((n - 8) div 8)" "n mod 8 = (n - 8) mod 8"
      by (simp_all add: div_if mod_if)
    have "\<not> bit b n"
      using False bit_imp_le_length [of b n] by auto
    with False Cons show ?thesis
      by (simp add: bit_simps n)
  qed (use Cons.prems in \<open>simp add: bit_simps\<close>)
qed simp

lemma le_bytes_word: "le_word (le_bytes w) = w"
  by (rule bit_word_eqI) (simp add: bit_le_word le_bytes_def bit_simps less_mult_imp_div_less)

lemma le32_word: "le_word (le32 w) = ucast w"
proof (rule bit_word_eqI)
  fix n assume n: "n < LENGTH(64)"
  show "bit (le_word (le32 w)) n = bit (ucast w :: u64) n"
  proof (cases "n < 32")
    case False
    then have "\<not> n div 8 < 4" by (simp add: div_less_iff_less_mult not_less)
    moreover have "\<not> bit w n"
      using False bit_imp_le_length [of w n] by auto
    ultimately show ?thesis using n by (simp add: bit_le_word le32_def bit_simps)
  qed (use n in \<open>simp add: bit_le_word le32_def bit_simps less_mult_imp_div_less\<close>)
qed

lemma length_le32 [simp]: "length (le32 w) = 4"
  by (simp add: le32_def)

lemma length_le_bytes [simp]: "length (le_bytes w) = 8"
  by (simp add: le_bytes_def)


text \<open>A word of an array that was stored and not overwritten since.\<close>

lemma words_at_stored:
  assumes "i < length ws" and "length ws \<le> 1024"
  shows "words_at (store_bytes m p (concat (map le32 ws))) p i = ws ! i"
proof -
  let ?b = "concat (map le32 ws)" and ?m = "store_bytes m p (concat (map le32 ws))"
  have len: "length (concat (map le32 us)) = 4 * length us" for us
    by (induction us) simp_all
  have "bytes_at ?m p (4 * length ws) = ?b"
    using bytes_at_store [of ?b m p] assms(2) by (simp only: len)
  then have "bytes_at ?m p (4 * i) @ bytes_at ?m (p + word_of_nat (4 * i)) 4
      @ bytes_at ?m (p + word_of_nat (4 * i) + 4) (4 * (length ws - i - 1)) = ?b"
    using bytes_at_add [of ?m p "4 * i" "4 + 4 * (length ws - i - 1)"]
      bytes_at_add [of ?m "p + word_of_nat (4 * i)" 4 "4 * (length ws - i - 1)"] assms(1)
    by (simp add: algebra_simps)
  also have "?b = concat (map le32 (take i ws)) @ le32 (ws ! i) @ concat (map le32 (drop (Suc i) ws))"
    using id_take_nth_drop [OF assms(1)] by (metis concat.simps(2) concat_append list.simps(9) map_append)
  finally have "bytes_at ?m (p + word_of_nat (4 * i)) 4 = le32 (ws ! i)"
    using assms(1) by (simp add: append_eq_append_conv len)
  then show ?thesis
    by (simp add: words_at_def le32_word)
qed


section \<open>Reading errors, from end to end\<close>

text \<open>Two arrays do not overlap: \<open>n\<close> bytes at \<open>p\<close> and \<open>k\<close> bytes at \<open>q\<close>.\<close>

definition apart :: "u64 \<Rightarrow> nat \<Rightarrow> u64 \<Rightarrow> nat \<Rightarrow> bool" where
  "apart p n q k \<longleftrightarrow> list_all (\<lambda>i. list_all (\<lambda>j. p + word_of_nat i \<noteq> q + word_of_nat j) [0..<k]) [0..<n]"

lemma words_at_apart:
  assumes "apart p (4 * n) q (length bs)" and "i < n"
  shows "words_at (store_bytes m q bs) p i = words_at m p i"
proof -
  have "bytes_at (store_bytes m q bs) (p + word_of_nat (4 * i)) 4 = bytes_at m (p + word_of_nat (4 * i)) 4"
  proof (rule bytes_at_cong)
    fix k :: nat assume k: "k < 4"
    have "p + word_of_nat (4 * i + k) \<noteq> q + word_of_nat j" if "j < length bs" for j
    proof -
      have "4 * i + k \<in> set [0..<4 * n]" "j \<in> set [0..<length bs]"
        using assms(2) k that by simp_all
      with assms(1) show ?thesis
        unfolding apart_def list_all_iff by blast
    qed
    then show "store_bytes m q bs (p + word_of_nat (4 * i) + word_of_nat k) = m (p + word_of_nat (4 * i) + word_of_nat k)"
      by (intro store_bytes_other) (simp add: add.assoc)
  qed
  then show ?thesis by (simp add: words_at_def)
qed

text \<open>Sending, in the state in which \<^verbatim>\<open>seu_read_err\<close> does it.\<close>

definition seu_before_send :: "seu_frame \<Rightarrow> nat \<Rightarrow> 'x seu_context_scheme \<Rightarrow> 'x seu_context_scheme" where
  "seu_before_send f h s =
     (let s1 = final (mbox_set_callback (Some h) F_seu_mailbox_complete) (final (seu_zero_resp f) s)
      in s1\<lparr>trace := Cache_invalidate (resp_at f) 12 # Cache_invalidate (resp_at f) 12 # trace s1\<rparr>)"

lemma seu_ctx_trace_fields:
  "seu_semphr (s\<lparr>trace := t\<rparr>) = seu_semphr s" "pseu_handle (s\<lparr>trace := t\<rparr>) = pseu_handle s"
  by simp_all

lemmas seu_lower_frames [simp] =
  lower_frame [of seu_semphr, OF seu_ctx_trace_fields(1)] lower_frame [of pseu_handle, OF seu_ctx_trace_fields(2)]

lemma seu_upd_client [simp]:
  "pseu_handle (upd_client h g s) = pseu_handle s" "seu_semphr (upd_client h g s) = seu_semphr s"
  by (simp_all add: upd_client_def)

lemma seu_read_err_run:
  fixes s :: "'x seu_context_scheme" and f :: seu_frame and h :: nat
  assumes "granting (env s)" and "pseu_handle s = Some h"
  defines "t \<equiv> seu_before_send f h s"
    and "snd_op \<equiv> sip_svc_send (Some h) SIP_GENERIC_MAILBOX_CMD (Some [0x3C, 0, 0, resp_at f, 12]) 40 (smc_resp_at f) 16"
  shows "result (seu_read_err others f) s =
    (case result snd_op t of None \<Rightarrow> None
     | Some e \<Rightarrow> Some (if e \<noteq> 0 then seu_err_zero\<lparr>op_state := minus_EIO_u8\<rparr>
         else let u = final others (final snd_op t); w = osal_semaphore_wait (seu_semphr u) COMMAND_TIMEOUT
              in if \<not> result w u then seu_err_zero\<lparr>op_state := minus_EIO_u8\<rparr>
                 else if le_word (bytes_at (mem u) (smc_resp_at f) 8) \<noteq> 0 then seu_err_zero
                 else seu_err_of (words_at (mem u) (resp_at f))))"
  using assms(1,2) by (simp add: t_def snd_op_def seu_read_err_def seu_transact_def seu_before_send_def mbox_send_command_def mbox_set_callback_def seu_zero_resp_def split_beta Let_def granted seu_consts split: option.split)


text \<open>
  The format of the device manager's answer: the number of errors, the sector, and a word with the
  type, whether the error was corrected and the node's status.
\<close>

definition seu_err_words :: "read_err_data_t \<Rightarrow> u32 list" where
  "seu_err_words d =
     [err_cnt d, push_bit 16 (ucast (err_sector_addr d)),
      push_bit 29 (ucast (err_type d)) OR (if correction_status d then push_bit 28 1 else 0)
        OR ucast (node_specific_status d)]"

lemma length_seu_err_words [simp]: "length (seu_err_words d) = 3"
  by (simp add: seu_err_words_def)

lemma seu_err_decodes:
  assumes "op_state d = 0" and "err_type d < 8" and "node_specific_status d < 0x800"
  shows "seu_err_of (\<lambda>i. seu_err_words d ! i) = d"
proof -
  have ty: "\<not> bit (err_type d) n" if "3 \<le> n" for n
    using assms(2) that by (intro small_word_bit [of _ 3]) (simp_all add: word_less_nat_alt)
  have st: "\<not> bit (node_specific_status d) n" if "11 \<le> n" for n
    using assms(3) that by (intro small_word_bit [of _ 11]) (simp_all add: word_less_nat_alt)
  have below: "bit (err_type d) n \<Longrightarrow> n < 3" "bit (node_specific_status d) n \<Longrightarrow> n < 11" for n
    using ty st by (auto simp: not_le [symmetric])
  let ?w = "push_bit 29 (ucast (err_type d)) OR (if correction_status d then push_bit 28 1 else 0)
        OR ucast (node_specific_status d) :: u32"
  have m7: "(7 :: u32) = mask 3" "(0x7FF :: u32) = mask 11" "(0xFF :: u32) = mask 8"
    by (simp_all add: mask_eq_exp_minus_1)
  have single: "bit (push_bit 28 1 :: u32) n \<longleftrightarrow> n = 28" for n
    unfolding bit_single by auto
  have t: "ucast (drop_bit 29 ?w AND 7) = err_type d"
    unfolding m7 by (rule bit_word_eqI) (use ty st below in \<open>auto simp: bit_simps single simp del: push_bit_of_1\<close>)
  have n: "ucast (?w AND 0x7FF) = node_specific_status d"
    unfolding m7 by (rule bit_word_eqI) (use st below in \<open>auto simp: bit_simps single simp del: push_bit_of_1\<close>)
  have sec: "ucast (drop_bit 16 (push_bit 16 (ucast (err_sector_addr d)) :: u32) AND 0xFF) = err_sector_addr d"
    unfolding m7 by (rule bit_word_eqI) (auto simp: bit_simps)
  have c: "?w AND push_bit 28 1 \<noteq> 0 \<longleftrightarrow> correction_status d"
    using st [of 28] by (simp add: and_bit_eq_0 bit_simps single del: push_bit_of_1)
  show ?thesis
    using assms(1) t n sec c by (simp add: seu_err_of_def seu_err_words_def del: push_bit_of_1)
qed


lemma poll_response_env: "env (final (poll_response i args) s) = env s"
proof -
  have blind: "irq_blind (env_is e)" for e
    by (rule irq_blindI) (simp_all add: set_callback_def)
  note t = irq_blind_trace [OF blind]
  note base = keeps_intros keeps_prims_blind [OF t] osal_keeps_blind [OF t] keeps_emit_blind [OF t] smc_keeps [OF t]
  have upd: "keeps (env_is e) (modify (upd_client h f))" for e h f
    by (simp add: keeps_def)
  have free: "keeps (env_is e) (free_job_id c j)" for e c j
    unfolding free_job_id_def Let_def mbox_deref_def by (intro base upd; simp)
  have "keeps (env_is e) (poll_response i args)" for e
    unfolding poll_response_def Let_def by (intro base free upd; simp)
  then show ?thesis by (rule frame_of_keeps)
qed

lemma store_bytes_len: "length (take (unat (16 :: u32)) (bytes_of_words (response x args))) = 16" if "length args = 12"
  using that by (simp add: bytes_of_words_length response_def)



text \<open>One client, opened for this driver, with buffers at fixed addresses.\<close>

definition seu_machine :: seu_context where
  "seu_machine = ecc_state.extend (reboot_state.extend (mbox_state.extend
       (mbox_machine\<lparr>env := boot_env\<lparr>monitor := \<lambda>_ _ _. (0, \<lambda>i. if i = 0 then 0 else 12)\<rparr>\<rparr>)
       \<lparr>cold_boot_callback = F_NULL, warm_boot_callback = F_NULL\<rparr>)
       \<lparr>ecc_instances = \<lambda>_. \<lparr>base_addr = 0, sbe_err_cnt = 0, dbe_err_cnt = 0\<rparr>, module_init = 0,
        user_cb = F_NULL, ecc_initialized = False\<rparr>)
     \<lparr>seu_semphr = 1, pseu_handle = Some 2, seu_call_back = F_NULL\<rparr>"

definition seu_buffers :: seu_frame where
  "seu_buffers = \<lparr>args_at = 0x7000, resp_at = 0x5000, smc_resp_at = 0x6000\<rparr>"

lemma seu_machine_simps [simp]:
  "env seu_machine = boot_env\<lparr>monitor := \<lambda>_ _ _. (0, \<lambda>i. if i = 0 then 0 else 12)\<rparr>"
  "mbox_descriptor seu_machine = 0x9000" "console_write_sem seu_machine = 1" "pseu_handle seu_machine = Some 2"
  "mbox_data seu_machine = \<lparr>client_list_mutex = 1, call_complete_sem = 1, task_state = 1\<rparr>"
  "gic_redis seu_machine = 0x1D060000" "gic_dist seu_machine = 0x1D000000" "gic_max_redis seu_machine = 0"
  "client_descriptors seu_machine = (\<lambda>_. client_zero)(2 := client_zero\<lparr>client_status := 1, client_mutex := 1,
      client_free := 1, call_back := F_user 1\<rparr>)" "seu_semphr seu_machine = 1"
proof -
  note ext = seu_machine_def ecc_state.defs reboot_state.defs mbox_state.defs
  show "env seu_machine = boot_env\<lparr>monitor := \<lambda>_ _ _. (0, \<lambda>i. if i = 0 then 0 else 12)\<rparr>"
    "mbox_descriptor seu_machine = 0x9000" "console_write_sem seu_machine = 1" "pseu_handle seu_machine = Some 2"
    "mbox_data seu_machine = \<lparr>client_list_mutex = 1, call_complete_sem = 1, task_state = 1\<rparr>"
    "gic_redis seu_machine = 0x1D060000" "gic_dist seu_machine = 0x1D000000" "gic_max_redis seu_machine = 0"
    "client_descriptors seu_machine = (\<lambda>_. client_zero)(2 := client_zero\<lparr>client_status := 1, client_mutex := 1,
      client_free := 1, call_back := F_user 1\<rparr>)" "seu_semphr seu_machine = 1"
    using mbox_machine_simps by (simp_all add: ext)
qed

lemma seu_machine_sends: "\<exists>d. result (seu_read_err (ret ()) seu_buffers) seu_machine = Some d \<and> op_state d = 0"
proof -
  let ?t = "seu_before_send seu_buffers 2 seu_machine"
  have grant: "granting (env seu_machine)"
    by (simp add: granting_def boot_env_def ram_env_def)
  have t: "env ?t = env seu_machine" "mbox_descriptor ?t = 0x9000" "mbox_data ?t = mbox_data seu_machine"
    "client_descriptors ?t = (client_descriptors seu_machine)
       (2 := (client_descriptors seu_machine 2)\<lparr>call_back := F_seu_mailbox_complete\<rparr>)"
    "gic_redis ?t = 0x1D060000" "gic_dist ?t = 0x1D000000" "gic_max_redis ?t = 0" "console_write_sem ?t = 1"
    by (simp_all add: seu_before_send_def mbox_set_callback_def seu_zero_resp_def split_beta Let_def osal_defs
        boot_env_def ram_env_def upd_client_def)
  have own: "own_contents ?t 2"
    by (auto simp: own_contents_def t client_zero_def)
  let ?op = "sip_svc_send (Some 2) SIP_GENERIC_MAILBOX_CMD (Some [0x3C, 0, 0, resp_at seu_buffers, 12]) 40
    (smc_resp_at seu_buffers) 16"
  have op: "result ?op ?t = Some 0"
    using find_own_client [OF own]
    by (simp add: sip_svc_send_def client_zero_def t sip_svc_transact_def smc_call_def console_lock_def
        console_unlock_def assign_job_id_def mbox_deref_def osal_defs boot_eval mbox_consts upd_client_def
        job_scan_first FORMAT_TRANS_ID_def free_job_id_def)
  have p: "smc_resp_at seu_buffers \<noteq> 0" by (simp add: seu_buffers_def)
  have "env (final ?op ?t) = env seu_machine"
    by (rule sip_svc_send_queues [OF _ own _ _ p _ op]) (use grant in \<open>simp_all add: t client_zero_def JOB_POOL_FULL_def\<close>)
  then have "granting (env (final ?op ?t))"
    by (simp only: grant)
  then show ?thesis
    using seu_read_err_run [OF grant, of 2 "ret ()" seu_buffers] op
    by (simp add: Let_def granted seu_err_of_def seu_err_zero_def del: seu_machine_simps(1))
qed



section \<open>Injecting errors\<close>

text \<open>The fields of the command's two words, as the device manager takes them apart.\<close>

definition seu_safe_err_fields :: "u32 list \<Rightarrow> seu_err_params_t" where
  "seu_safe_err_fields ws =
     \<lparr>sector_addr = ucast (drop_bit 16 (ws ! 0) AND mask 8),
      cram_sel0 = ucast (ws ! 1 AND mask 4),
      cram_sel1 = ucast (drop_bit 4 (ws ! 1) AND mask 4),
      injection_cycle = ucast (drop_bit 4 (ws ! 0) AND mask 2),
      no_of_injection = ucast (ws ! 0 AND mask 4)\<rparr>"

text \<open>
  A request for an injection is checked before anything is sent: parameters out of range, or two
  equal selectors with a number of injections, are refused and leave no trace; parameters that
  pass are the fields of the words that are sent.
\<close>

lemma seu_safe_err_checked:
  fixes s :: "'x seu_context_scheme" and p :: seu_err_params_t
  assumes "pseu_handle s = Some h"
  defines "bad \<equiv> injection_cycle p \<ge> 4 \<or> cram_sel0 p > 0xF \<or> cram_sel1 p > 0xF \<or> no_of_injection p > 0xF
     \<or> (cram_sel0 p = cram_sel1 p \<and> no_of_injection p \<noteq> 0)"
  shows "bad \<Longrightarrow> result (seu_insert_safe_err others f p) s = Some (- EINVAL)
      \<and> trace (final (seu_insert_safe_err others f p) s) = trace s"
    and "\<not> bad \<Longrightarrow> seu_safe_err_fields (seu_safe_err_args p) = p"
proof -
  assume bad
  then show "result (seu_insert_safe_err others f p) s = Some (- EINVAL)
      \<and> trace (final (seu_insert_safe_err others f p) s) = trace s"
    using assms(1) by (auto simp: seu_insert_safe_err_def bad_def seu_zero_resp_def)
next
  assume ok: "\<not> bad"
  have small: "unat (injection_cycle p) < 2 ^ 2" "unat (cram_sel0 p) < 2 ^ 4" "unat (cram_sel1 p) < 2 ^ 4"
      "unat (no_of_injection p) < 2 ^ 4"
    using ok by (auto simp: bad_def word_less_nat_alt word_le_nat_alt)
  have fits: "\<not> bit (injection_cycle p) n" if "2 \<le> n" for n
    by (rule small_word_bit [OF small(1) that])
  have fits4: "\<not> bit (cram_sel0 p) n" "\<not> bit (cram_sel1 p) n" "\<not> bit (no_of_injection p) n" if "4 \<le> n" for n
    by (rule small_word_bit [OF small(2) that] small_word_bit [OF small(3) that] small_word_bit [OF small(4) that])+
  have below: "bit (injection_cycle p) n \<Longrightarrow> n < 2" "bit (cram_sel0 p) n \<Longrightarrow> n < 4" "bit (cram_sel1 p) n \<Longrightarrow> n < 4"
      "bit (no_of_injection p) n \<Longrightarrow> n < 4" for n
    using fits fits4 by (auto simp: not_le [symmetric])
  have "ucast (drop_bit 16 (seu_safe_err_args p ! 0) AND mask 8) = sector_addr p"
    "ucast (seu_safe_err_args p ! 1 AND mask 4) = cram_sel0 p"
    "ucast (drop_bit 4 (seu_safe_err_args p ! 1) AND mask 4) = cram_sel1 p"
    "ucast (drop_bit 4 (seu_safe_err_args p ! 0) AND mask 2) = injection_cycle p"
    "ucast (seu_safe_err_args p ! 0 AND mask 4) = no_of_injection p"
    by (rule bit_word_eqI; use fits fits4 below in \<open>auto simp: seu_safe_err_args_def bit_simps\<close>)+
  then show "seu_safe_err_fields (seu_safe_err_args p) = p"
    by (simp add: seu_safe_err_fields_def)
qed

text \<open>
  An answer with an error status is reported like a success, as an error-free description.
\<close>

lemma seu_rejected_read_succeeds:
  fixes s :: "'x seu_context_scheme"
  assumes "granting (env s)" and "pseu_handle s = Some h"
    and "result (sip_svc_send (Some h) SIP_GENERIC_MAILBOX_CMD (Some [0x3C, 0, 0, resp_at f, 12]) 40 (smc_resp_at f) 16)
       (seu_before_send f h s) = Some 0"
    and "\<And>t. granting (env (final others t))" and "\<And>t. le_word (bytes_at (mem (final others t)) (smc_resp_at f) 8) \<noteq> 0"
  shows "result (seu_read_err others f) s = Some seu_err_zero" and "op_state seu_err_zero = 0"
  using seu_read_err_run [OF assms(1,2), of others f] assms(3-5) by (simp_all add: Let_def granted seu_err_zero_def)

end
