(* ===== verification/Dma.thy ===== *)
theory Dma
  imports Seu
begin

unbundle bit_operations_syntax

text \<open>
  The DMA driver, \<^verbatim>\<open>drivers/dma\<close>: two controllers with four channels each, whose transfers are
  chains of descriptors in memory that the hardware follows by itself. A channel has a slice of
  128 descriptors in its controller's array; the address of that array is a static of the model.
\<close>

section \<open>Constants and state\<close>

definition DMA_NUM_INSTANCE :: u32 where "DMA_NUM_INSTANCE = 2"
definition DMA_NUM_CHANNELS :: u32 where "DMA_NUM_CHANNELS = 4"
definition MAX_LLI_PER_CHANNEL :: nat where "MAX_LLI_PER_CHANNEL = 128"
definition CH_SUSPEND_TIMEOUT_COUNT :: nat where "CH_SUSPEND_TIMEOUT_COUNT = 100"
definition MAX_BLOCK_SIZE :: u64 where "MAX_BLOCK_SIZE = 0x7FFF"
definition DMA_CH_CFG2_TT_FC_POS :: nat where "DMA_CH_CFG2_TT_FC_POS = 32"
definition DMA_CH_CFG2_DST_PER_POS :: nat where "DMA_CH_CFG2_DST_PER_POS = 11"
definition DMA_CH_CFG2_SRC_PER_POS :: nat where "DMA_CH_CFG2_SRC_PER_POS = 4"
definition DMA_CH_CFG2_DST_OSR_LMT_MASK :: u64 where "DMA_CH_CFG2_DST_OSR_LMT_MASK = 0x7800000000000000"
definition DMA_CH_CFG2_DST_OSR_LMT_POS :: nat where "DMA_CH_CFG2_DST_OSR_LMT_POS = 59"
definition DMA_CH_CFG2_SRC_OSR_LMT_MASK :: u64 where "DMA_CH_CFG2_SRC_OSR_LMT_MASK = 0x780000000000000"
definition DMA_CH_CFG2_SRC_OSR_LMT_POS :: nat where "DMA_CH_CFG2_SRC_OSR_LMT_POS = 55"
definition DMA_CH_CFG2_DST_MULTBLK_TYPE_MASK :: u64 where "DMA_CH_CFG2_DST_MULTBLK_TYPE_MASK = 0xC"
definition DMA_CH_CFG2_SRC_MULTBLK_TYPE_MASK :: u64 where "DMA_CH_CFG2_SRC_MULTBLK_TYPE_MASK = 0x3"
definition DMA_CH_CFG2_DST_MULTBLK_TYPE_POS :: nat where "DMA_CH_CFG2_DST_MULTBLK_TYPE_POS = 2"
definition DMA_CH_CFG2_SRC_MULTBLK_TYPE_POS :: nat where "DMA_CH_CFG2_SRC_MULTBLK_TYPE_POS = 0"
definition DMA_MULTI_BLK_LL :: u64 where "DMA_MULTI_BLK_LL = 3"
definition DMA_CH_CTL_SRC_TR_WIDTH_POS :: nat where "DMA_CH_CTL_SRC_TR_WIDTH_POS = 8"
definition DMA_CH_CTL_DST_TR_WIDTH_POS :: nat where "DMA_CH_CTL_DST_TR_WIDTH_POS = 11"
definition DMA_CH_CTL_SRC_MSIZE_POS :: nat where "DMA_CH_CTL_SRC_MSIZE_POS = 14"
definition DMA_CH_CTL_DST_MSIZE_POS :: nat where "DMA_CH_CTL_DST_MSIZE_POS = 18"
definition DMA_CH_CTL_DST_STAT_EN_MASK :: u64 where "DMA_CH_CTL_DST_STAT_EN_MASK = 0x200000000000000"
definition DMA_CH_CTL_SRC_STAT_EN_MASK :: u64 where "DMA_CH_CTL_SRC_STAT_EN_MASK = 0x100000000000000"
definition DMA_CH_CTL_IOC_BLKTFR_MASK :: u64 where "DMA_CH_CTL_IOC_BLKTFR_MASK = 0x400000000000000"
definition DMA_CH_CTL_SHADOWREG_OR_LLI_VALID_POS :: nat where "DMA_CH_CTL_SHADOWREG_OR_LLI_VALID_POS = 63"
definition DMA_CH_CTL_SHADOWREG_OR_LLI_LAST_POS :: nat where "DMA_CH_CTL_SHADOWREG_OR_LLI_LAST_POS = 62"
definition DMA_CH_CTL_DINC_POS :: nat where "DMA_CH_CTL_DINC_POS = 6"
definition DMA_CH_CTL_SINC_POS :: nat where "DMA_CH_CTL_SINC_POS = 4"
definition TFR_DONE_MASK :: u64 where "TFR_DONE_MASK = 2"
definition DMA_DMAC_CFGREG :: u32 where "DMA_DMAC_CFGREG = 0x10"
definition DMA_DMAC_CHENREG :: u32 where "DMA_DMAC_CHENREG = 0x18"
definition DMA_DMAC_CFGREG_INT_EN_MASK :: u64 where "DMA_DMAC_CFGREG_INT_EN_MASK = 2"
definition DMA_DMAC_CFGREG_DMAC_EN_MASK :: u64 where "DMA_DMAC_CFGREG_DMAC_EN_MASK = 1"
definition DMA_CH_DAR :: u32 where "DMA_CH_DAR = 0x8"
definition DMA_CH_CFG2 :: u32 where "DMA_CH_CFG2 = 0x20"
definition DMA_CH_LLP :: u32 where "DMA_CH_LLP = 0x28"
definition DMA_CH_INTSTATUS_ENABLEREG :: u32 where "DMA_CH_INTSTATUS_ENABLEREG = 0x80"
definition DMA_CH_INTSTATUS :: u32 where "DMA_CH_INTSTATUS = 0x88"
definition DMA_CH_INTSIGNAL_ENABLEREG :: u32 where "DMA_CH_INTSIGNAL_ENABLEREG = 0x90"
definition DMA_CH_INTCLEARREG :: u32 where "DMA_CH_INTCLEARREG = 0x98"
definition CHENREG_CH_EN_POS :: nat where "CHENREG_CH_EN_POS = 0"
definition CHENREG_CH_EN_WE_POS :: nat where "CHENREG_CH_EN_WE_POS = 8"
definition CHENREG_CH_SUSP_POS :: nat where "CHENREG_CH_SUSP_POS = 16"
definition CHENREG_CH_SUSP_WE_POS :: nat where "CHENREG_CH_SUSP_WE_POS = 24"
definition GIC_INTERRUPT_PRIORITY_DMA :: u8 where "GIC_INTERRUPT_PRIORITY_DMA = 14"
definition RST_DMA :: u32 where "RST_DMA = 16"
definition DMA_BURST_LEN_1 :: u32 where "DMA_BURST_LEN_1 = 0"
definition DMA_BURST_LEN_4 :: u32 where "DMA_BURST_LEN_4 = 1"
definition DMA_BURST_LEN_8 :: u32 where "DMA_BURST_LEN_8 = 2"
definition DMA_BURST_LEN_16 :: u32 where "DMA_BURST_LEN_16 = 3"
definition DMA_XFER_WIDTH1 :: u32 where "DMA_XFER_WIDTH1 = 0"
definition DMA_XFER_WIDTH4 :: u32 where "DMA_XFER_WIDTH4 = 2"

datatype dma_xfer_type_t =
  DMA_MEM_TO_MEM_DMAC | DMA_MEM_TO_PERI_DMAC | DMA_PERI_TO_MEM_DMAC | DMA_PERI_TO_PERI_DMAC
| DMA_PERI_TO_MEM_SRC | DMA_PERI_TO_PERI_SRC | DMA_MEM_TO_PERI_DST | DMA_PERI_TO_PERI_DST

text \<open>The numbers of the enumeration.\<close>

fun xfer_type_code :: "dma_xfer_type_t \<Rightarrow> u64" where
  "xfer_type_code DMA_MEM_TO_MEM_DMAC = 0"
| "xfer_type_code DMA_MEM_TO_PERI_DMAC = 1"
| "xfer_type_code DMA_PERI_TO_MEM_DMAC = 2"
| "xfer_type_code DMA_PERI_TO_PERI_DMAC = 3"
| "xfer_type_code DMA_PERI_TO_MEM_SRC = 4"
| "xfer_type_code DMA_PERI_TO_PERI_SRC = 5"
| "xfer_type_code DMA_MEM_TO_PERI_DST = 6"
| "xfer_type_code DMA_PERI_TO_PERI_DST = 7"

datatype dma_ch_state_t = DMA_CH_IDLE | DMA_CH_SUSPENDED | DMA_CH_ABORT | DMA_CH_ACTIVE

record dma_config_t =
  cfg_instance :: u8
  ch_dir :: dma_xfer_type_t
  ch_prio :: u8
  peri_id :: u32
  cfg_callback :: fptr
  cfg_usr_cntxt :: vptr

text \<open>One element of the caller's list of transfers; its \<^verbatim>\<open>next_xfer_cfg\<close> is the list's tail.\<close>

record dma_xfer_cfg_t =
  src :: u64
  dst :: u64
  blk_size :: u32
  src_burst_len :: u32
  dst_burst_len :: u32

record dma_channel_reg_list =
  sar :: u64
  dar :: u64
  block_ts :: u64
  llp :: u64
  ctl :: u64
  chn_src_stat :: u32
  chn_dst_stat :: u32
  chn_llp_status :: u64
  reserved :: u64

definition lli_zero :: dma_channel_reg_list where
  "lli_zero = \<lparr>sar = 0, dar = 0, block_ts = 0, llp = 0, ctl = 0, chn_src_stat = 0, chn_dst_stat = 0,
     chn_llp_status = 0, reserved = 0\<rparr>"

record dma_ch_cntxt =
  is_open :: bool
  base_address :: u32
  ch_offset :: u32
  ch :: u32
  channel_state :: dma_ch_state_t
  int_id :: u32
  linked_list_base :: "(nat \<times> nat) option"
  direction :: dma_xfer_type_t
  ch_config :: u64
  interrupt_en :: u64
  callback_fn :: fptr
  dma_usr_cntxt :: vptr

definition dma_zero :: dma_ch_cntxt where
  "dma_zero = \<lparr>is_open = False, base_address = 0, ch_offset = 0, ch = 0, channel_state = DMA_CH_IDLE,
     int_id = 0, linked_list_base = None, direction = DMA_MEM_TO_MEM_DMAC, ch_config = 0, interrupt_en = 0,
     callback_fn = F_NULL, dma_usr_cntxt = V_NULL\<rparr>"

record dma_state = seu_context +
  hdma_default :: "nat \<times> nat \<Rightarrow> dma_ch_cntxt"
  plinked_list_chain :: "nat \<Rightarrow> nat \<Rightarrow> dma_channel_reg_list"
  plinked_list_at :: "nat \<Rightarrow> u64"

type_synonym dma_handle_t = "(nat \<times> nat) option"

definition upd_dma :: "nat \<times> nat \<Rightarrow> (dma_ch_cntxt \<Rightarrow> dma_ch_cntxt) \<Rightarrow> 'x dma_state_scheme \<Rightarrow> 'x dma_state_scheme" where
  "upd_dma h f s = s\<lparr>hdma_default := (hdma_default s)(h := f (hdma_default s h))\<rparr>"

abbreviation get_dma :: "nat \<times> nat \<Rightarrow> ('x dma_state_scheme, dma_ch_cntxt) state" where
  "get_dma h \<equiv> gets (\<lambda>s. hdma_default s h)"

definition upd_lli :: "nat \<Rightarrow> nat \<Rightarrow> (dma_channel_reg_list \<Rightarrow> dma_channel_reg_list) \<Rightarrow> 'x dma_state_scheme \<Rightarrow> 'x dma_state_scheme" where
  "upd_lli i k f s = s\<lparr>plinked_list_chain := (plinked_list_chain s)(i := (plinked_list_chain s i)(k := f (plinked_list_chain s i k)))\<rparr>"

text \<open>The address of a descriptor; each takes 64 bytes.\<close>

definition lli_addr :: "'x dma_state_scheme \<Rightarrow> nat \<Rightarrow> nat \<Rightarrow> u64" where
  "lli_addr s i k = plinked_list_at s i + 64 * word_of_nat k"

definition inst_base_addr :: "nat \<Rightarrow> u32" where
  "inst_base_addr i = [0x10DB0000, 0x10DC0000] ! i"

definition ch_offset_addr :: "nat \<Rightarrow> u32" where
  "ch_offset_addr k = [0x100, 0x200, 0x300, 0x400] ! k"

definition DMA_IRQ0 :: u32 where "DMA_IRQ0 = 113"
definition DMA1IRQ0 :: u32 where "DMA1IRQ0 = 198"

definition int_id_map :: "nat \<Rightarrow> nat \<Rightarrow> u32" where
  "int_id_map i k = ([DMA_IRQ0, DMA1IRQ0] ! i) + word_of_nat k"


lemmas dma_consts =
  DMA_NUM_INSTANCE_def DMA_NUM_CHANNELS_def MAX_LLI_PER_CHANNEL_def CH_SUSPEND_TIMEOUT_COUNT_def MAX_BLOCK_SIZE_def
  DMA_CH_CTL_SRC_TR_WIDTH_POS_def DMA_CH_CTL_DST_TR_WIDTH_POS_def DMA_CH_CTL_SRC_MSIZE_POS_def
  DMA_CH_CTL_DST_MSIZE_POS_def DMA_CH_CTL_DST_STAT_EN_MASK_def DMA_CH_CTL_SRC_STAT_EN_MASK_def
  DMA_CH_CTL_IOC_BLKTFR_MASK_def DMA_CH_CTL_SHADOWREG_OR_LLI_VALID_POS_def
  DMA_CH_CTL_SHADOWREG_OR_LLI_LAST_POS_def DMA_CH_CTL_DINC_POS_def DMA_CH_CTL_SINC_POS_def

section \<open>Opening and configuring\<close>

definition dma_open :: "u32 \<Rightarrow> u32 \<Rightarrow> ('x dma_state_scheme, dma_handle_t) state" where
  "dma_open instance0 channel =
     (if instance0 \<ge> DMA_NUM_INSTANCE \<or> channel \<ge> DMA_NUM_CHANNELS then ret None
      else do {
        let i = unat instance0; let k = unat channel; let h = (i, k);
        c \<leftarrow> get_dma h;
        if is_open c then ret None
        else if channel_state c \<noteq> DMA_CH_IDLE then ret None
        else do {
          (status, res) \<leftarrow> rstmgr_get_reset_status RST_DMA;
          if status \<noteq> 0 then ret None
          else do {
            status \<leftarrow> (if res = Some 1 then rstmgr_toggle_reset RST_DMA else ret 0);
            if status \<noteq> 0 then ret None
            else do {
              modify (upd_dma h (\<lambda>c. c\<lparr>base_address := inst_base_addr i,
                 ch_offset := inst_base_addr i + ch_offset_addr k, int_id := int_id_map i k, ch := channel,
                 linked_list_base := Some (i, k * MAX_LLI_PER_CHANNEL)\<rparr>));
              err \<leftarrow> interrupt_register_isr (int_id_map i k) F_pdma_irq_handler (V_dma i k);
              if err \<noteq> 0 then ret None
              else do {
                err \<leftarrow> interrupt_enable (int_id_map i k) GIC_INTERRUPT_PRIORITY_DMA;
                if err \<noteq> 0 then ret None
                else do {
                  modify (upd_dma h (\<lambda>c. c\<lparr>is_open := True\<rparr>));
                  ret (Some h)
                }
              }
            }
          }
        }
      })"

definition dma_config_word :: "dma_config_t \<Rightarrow> u64" where
  "dma_config_word pcfg =
     (let w = push_bit DMA_CH_CFG2_TT_FC_POS (xfer_type_code (ch_dir pcfg));
          w = (if ch_dir pcfg \<in> {DMA_MEM_TO_PERI_DMAC, DMA_MEM_TO_PERI_DST}
               then w OR push_bit DMA_CH_CFG2_DST_PER_POS (ucast (peri_id pcfg)) else w);
          w = (if ch_dir pcfg \<in> {DMA_PERI_TO_MEM_DMAC, DMA_PERI_TO_MEM_SRC}
               then w OR push_bit DMA_CH_CFG2_SRC_PER_POS (ucast (peri_id pcfg)) else w);
          w = (if ch_dir pcfg = DMA_MEM_TO_MEM_DMAC
               then w OR (DMA_CH_CFG2_DST_OSR_LMT_MASK AND push_bit DMA_CH_CFG2_DST_OSR_LMT_POS 15)
                      OR (DMA_CH_CFG2_SRC_OSR_LMT_MASK AND push_bit DMA_CH_CFG2_SRC_OSR_LMT_POS 15) else w);
          w = w AND NOT (DMA_CH_CFG2_DST_MULTBLK_TYPE_MASK OR DMA_CH_CFG2_SRC_MULTBLK_TYPE_MASK)
      in w OR (push_bit DMA_CH_CFG2_DST_MULTBLK_TYPE_POS DMA_MULTI_BLK_LL
            OR push_bit DMA_CH_CFG2_SRC_MULTBLK_TYPE_POS DMA_MULTI_BLK_LL))"

definition dma_config :: "dma_handle_t \<Rightarrow> dma_config_t option \<Rightarrow> ('x dma_state_scheme, int) state" where
  "dma_config hdma pcfg =
     (case hdma of None \<Rightarrow> ret (- EINVAL)
      | Some h \<Rightarrow> do {
          c \<leftarrow> get_dma h;
          if \<not> is_open c then ret (- EFAULT)
          else if channel_state c \<noteq> DMA_CH_IDLE then ret (- EBUSY)
          else case pcfg of None \<Rightarrow> ret (- EINVAL)
          | Some cfg \<Rightarrow> do {
              modify (upd_dma h (\<lambda>c. c\<lparr>ch_config := dma_config_word cfg, interrupt_en := 0,
                 direction := ch_dir cfg, callback_fn := cfg_callback cfg, dma_usr_cntxt := cfg_usr_cntxt cfg\<rparr>));
              ret 0
            }
        })"

section \<open>Setting up a transfer\<close>

text \<open>The control word of a descriptor before the bits that depend on its place in the chain.\<close>

definition dma_xfer_size :: "dma_xfer_type_t \<Rightarrow> u32 \<Rightarrow> u32 \<Rightarrow> dma_xfer_cfg_t \<Rightarrow> u64" where
  "dma_xfer_size dir src_width dst_width cfg =
     (let mem = (dir = DMA_MEM_TO_MEM_DMAC);
          sb = (if mem then DMA_BURST_LEN_16 else src_burst_len cfg);
          db = (if mem then DMA_BURST_LEN_16 else dst_burst_len cfg)
      in push_bit DMA_CH_CTL_SRC_TR_WIDTH_POS (ucast src_width) OR push_bit DMA_CH_CTL_DST_TR_WIDTH_POS (ucast dst_width)
         OR (push_bit DMA_CH_CTL_SRC_MSIZE_POS (ucast sb) OR push_bit DMA_CH_CTL_DST_MSIZE_POS (ucast db))
         OR ((DMA_CH_CTL_DST_STAT_EN_MASK OR DMA_CH_CTL_SRC_STAT_EN_MASK) OR DMA_CH_CTL_IOC_BLKTFR_MASK))"

definition dma_inc_bits :: "dma_xfer_type_t \<Rightarrow> u64" where
  "dma_inc_bits dir =
     (if dir \<in> {DMA_MEM_TO_PERI_DMAC, DMA_MEM_TO_PERI_DST} then push_bit DMA_CH_CTL_DINC_POS 1
      else if dir \<in> {DMA_PERI_TO_MEM_DMAC, DMA_PERI_TO_MEM_SRC} then push_bit DMA_CH_CTL_SINC_POS 1
      else 0)"

text \<open>The loop over the transfers: \<open>k\<close> is the next descriptor, \<open>n\<close> the number still to do.\<close>

fun dma_fill ::
  "nat \<Rightarrow> dma_xfer_type_t \<Rightarrow> u32 \<Rightarrow> u32 \<Rightarrow> nat \<Rightarrow> nat \<Rightarrow> dma_xfer_cfg_t list \<Rightarrow> ('x dma_state_scheme, int) state" where
  "dma_fill i dir sw dw k 0 cfgs = ret 0"
| "dma_fill i dir sw dw k (Suc n) [] = ret (- EFAULT)"
| "dma_fill i dir sw dw k (Suc n) (cfg # cfgs) = do {
     whenM (unat sw \<ge> 64 \<or> unat dw \<ge> 64) (ub ''shift'');
     if push_bit (unat sw) 1 = (0 :: u64) \<or> push_bit (unat dw) 1 = (0 :: u64) then ret (- EFAULT)
     else do {
       let blocks = ucast (blk_size cfg) div push_bit (unat sw) 1 - 1;
       modify (upd_lli i k (\<lambda>l. l\<lparr>sar := src cfg, dar := dst cfg, ctl := dma_xfer_size dir sw dw cfg,
         block_ts := blocks\<rparr>));
       if blocks > MAX_BLOCK_SIZE then ret (- EINVAL)
       else do {
         next \<leftarrow> gets (\<lambda>s. lli_addr s i (k + 1));
         let valid = push_bit DMA_CH_CTL_SHADOWREG_OR_LLI_VALID_POS 1;
         let last = (if n = 0 then push_bit DMA_CH_CTL_SHADOWREG_OR_LLI_LAST_POS 1 else 0);
         modify (upd_lli i k (\<lambda>l. l\<lparr>llp := (if n = 0 then 0 else next),
           ctl := ctl l OR valid OR last OR dma_inc_bits dir\<rparr>));
         dma_fill i dir sw dw (k + 1) n cfgs
       }
     }
   }"

definition dma_clear_chain :: "nat \<Rightarrow> nat \<Rightarrow> 'x dma_state_scheme \<Rightarrow> 'x dma_state_scheme" where
  "dma_clear_chain i b s = s\<lparr>plinked_list_chain := (plinked_list_chain s)
     (i := (\<lambda>k. if b \<le> k \<and> k < b + MAX_LLI_PER_CHANNEL then lli_zero else plinked_list_chain s i k))\<rparr>"

definition dma_program :: "nat \<times> nat \<Rightarrow> nat \<Rightarrow> nat \<Rightarrow> ('x dma_state_scheme, int) state" where
  "dma_program h i b = do {
     at \<leftarrow> gets (\<lambda>s. lli_addr s i b);
     emit (Cache_clean at (64 * word_of_nat MAX_LLI_PER_CHANNEL));
     modify (upd_dma h (\<lambda>c. c\<lparr>interrupt_en := TFR_DONE_MASK\<rparr>));
     c \<leftarrow> get_dma h;
     val \<leftarrow> RD_REG64 (base_address c + DMA_DMAC_CFGREG);
     WR_REG64 (base_address c + DMA_DMAC_CFGREG) (val OR (DMA_DMAC_CFGREG_INT_EN_MASK OR DMA_DMAC_CFGREG_DMAC_EN_MASK));
     _ \<leftarrow> RD_REG64 (ch_offset c + DMA_CH_CFG2);
     WR_REG64 (ch_offset c + DMA_CH_CFG2) (ch_config c);
     WR_REG64 (ch_offset c + DMA_CH_INTSTATUS_ENABLEREG) (interrupt_en c);
     WR_REG64 (ch_offset c + DMA_CH_INTSIGNAL_ENABLEREG) (interrupt_en c);
     _ \<leftarrow> RD_REG64 (ch_offset c + DMA_CH_LLP);
     WR_REG64 (ch_offset c + DMA_CH_LLP) at;
     _ \<leftarrow> RD_REG64 (ch_offset c + DMA_CH_LLP);
     ret 0
   }"

definition dma_setup_transfer ::
  "dma_handle_t \<Rightarrow> dma_xfer_cfg_t list \<Rightarrow> u32 \<Rightarrow> u32 \<Rightarrow> u32 \<Rightarrow> ('x dma_state_scheme, int) state" where
  "dma_setup_transfer hdma xfer_list num_xfers src_width dst_width =
     (case hdma of None \<Rightarrow> ret (- EINVAL)
      | Some h \<Rightarrow>
          if unat num_xfers > MAX_LLI_PER_CHANNEL then ret (- EINVAL)
          else if xfer_list = [] then ret (- EFAULT)
          else do {
            c \<leftarrow> get_dma h;
            if \<not> is_open c then ret (- EIO)
            else if channel_state c \<noteq> DMA_CH_IDLE then ret (- EBUSY)
            else case linked_list_base c of
              None \<Rightarrow> do { ub ''memset of NULL''; ret (- EFAULT) }
            | Some (i, b) \<Rightarrow> do {
                modify (dma_clear_chain i b);
                e \<leftarrow> dma_fill i (direction c) src_width dst_width b (unat num_xfers) xfer_list;
                if e \<noteq> 0 then ret e else dma_program h i b
              }
          })"

section \<open>Starting, stopping, closing\<close>

definition dma_start_transfer :: "dma_handle_t \<Rightarrow> ('x dma_state_scheme, int) state" where
  "dma_start_transfer hdma =
     (case hdma of None \<Rightarrow> ret (- EINVAL)
      | Some h \<Rightarrow> do {
          c \<leftarrow> get_dma h;
          if \<not> is_open c then ret (- EIO)
          else if channel_state c \<noteq> DMA_CH_IDLE then ret (- EBUSY)
          else do {
            val \<leftarrow> RD_REG64 (base_address c + DMA_DMAC_CHENREG);
            let val = val OR push_bit (unat (ch c) + CHENREG_CH_EN_POS) 1;
            let val = val OR push_bit (unat (ch c) + CHENREG_CH_EN_WE_POS) 1;
            modify (upd_dma h (\<lambda>c. c\<lparr>channel_state := DMA_CH_ACTIVE\<rparr>));
            WR_REG64 (base_address c + DMA_DMAC_CHENREG) val;
            ret 0
          }
        })"

text \<open>
  The wait for the channel to go off, with the polls left; \<open>False\<close> when they are used up, whatever
  the last one saw.
\<close>

fun dma_stop_wait :: "u32 \<Rightarrow> nat \<Rightarrow> nat \<Rightarrow> u64 \<Rightarrow> ('x machine_scheme, bool) state" where
  "dma_stop_wait a k 0 val = ret False"
| "dma_stop_wait a k (Suc n) val =
     (if val AND push_bit k 1 = push_bit k 1
      then do { val \<leftarrow> RD_REG64 a; dma_stop_wait a k n val }
      else ret True)"

definition dma_stop_transfer :: "dma_handle_t \<Rightarrow> ('x dma_state_scheme, int) state" where
  "dma_stop_transfer hdma =
     (case hdma of None \<Rightarrow> ret (- EINVAL)
      | Some h \<Rightarrow> do {
          c \<leftarrow> get_dma h;
          if channel_state c = DMA_CH_IDLE then ret (- EIO)
          else do {
            let a = base_address c + DMA_DMAC_CHENREG; let k = unat (ch c);
            val \<leftarrow> RD_REG64 a;
            WR_REG64 a (val OR (push_bit (k + CHENREG_CH_SUSP_WE_POS) 1 OR push_bit (k + CHENREG_CH_SUSP_POS) 1));
            val \<leftarrow> RD_REG64 a;
            WR_REG64 a (val AND NOT (push_bit k 1) OR push_bit (k + CHENREG_CH_EN_WE_POS) 1);
            val \<leftarrow> RD_REG64 a;
            stopped \<leftarrow> dma_stop_wait a k CH_SUSPEND_TIMEOUT_COUNT val;
            if \<not> stopped then ret (- ETIMEDOUT)
            else do {
              modify (upd_dma h (\<lambda>c. c\<lparr>channel_state := DMA_CH_IDLE\<rparr>));
              ret 0
            }
          }
        })"

definition dma_get_dst_ptr :: "dma_handle_t \<Rightarrow> ('x dma_state_scheme, int \<times> u64 option) state" where
  "dma_get_dst_ptr hdma =
     (case hdma of None \<Rightarrow> ret (- EINVAL, None)
      | Some h \<Rightarrow> do {
          c \<leftarrow> get_dma h;
          v \<leftarrow> RD_REG64 (ch_offset c + DMA_CH_DAR);
          ret (0, Some v)
        })"

definition dma_close :: "dma_handle_t \<Rightarrow> ('x dma_state_scheme, int) state" where
  "dma_close hdma =
     (case hdma of None \<Rightarrow> ret (- EINVAL)
      | Some h \<Rightarrow> do { modify (upd_dma h (\<lambda>_. dma_zero)); ret 0 })"

text \<open>
  The handler calls the channel's function, which is a user's, an event, or another driver's: how a
  function pointer is called is the argument \<open>call\<close>.
\<close>

definition pdma_irq_handler ::
  "(fptr \<Rightarrow> vptr \<Rightarrow> ('x dma_state_scheme, unit) state) \<Rightarrow> vptr \<Rightarrow> ('x dma_state_scheme, unit) state" where
  "pdma_irq_handler call dat =
     (case dat of
        V_dma i k \<Rightarrow> do {
          c \<leftarrow> get_dma (i, k);
          val \<leftarrow> RD_REG64 (ch_offset c + DMA_CH_INTSTATUS);
          whenM (val AND TFR_DONE_MASK = TFR_DONE_MASK) (do {
            WR_REG64 (ch_offset c + DMA_CH_INTCLEARREG) TFR_DONE_MASK;
            modify (upd_dma (i, k) (\<lambda>c. c\<lparr>channel_state := DMA_CH_IDLE\<rparr>));
            whenM (callback_fn c \<noteq> F_NULL) (call (callback_fn c) (dma_usr_cntxt c))
          })
        }
      | _ \<Rightarrow> ub ''dma handle'')"


definition user_call :: "fptr \<Rightarrow> vptr \<Rightarrow> ('x machine_scheme, unit) state" where
  "user_call f d = emit (Call f d [])"

section \<open>Frames\<close>

lemma dma_trace_fields:
  "hdma_default (s\<lparr>trace := t\<rparr>) = hdma_default s" "plinked_list_chain (s\<lparr>trace := t\<rparr>) = plinked_list_chain s"
  "plinked_list_at (s\<lparr>trace := t\<rparr>) = plinked_list_at s"
  by simp_all

lemmas dma_lower_frames [simp] =
  lower_frame [of hdma_default, OF dma_trace_fields(1)] lower_frame [of plinked_list_chain, OF dma_trace_fields(2)]
  lower_frame [of plinked_list_at, OF dma_trace_fields(3)]

lemma upd_dma_fields [simp]:
  "plinked_list_chain (upd_dma h f s) = plinked_list_chain s" "plinked_list_at (upd_dma h f s) = plinked_list_at s"
  "hdma_default (upd_dma h f s) = (hdma_default s)(h := f (hdma_default s h))"
  "trace (upd_dma h f s) = trace s" "env (upd_dma h f s) = env s"
  "interrupt_callbacks (upd_dma h f s) = interrupt_callbacks s"
  by (simp_all add: upd_dma_def)

lemma upd_lli_fields [simp]:
  "hdma_default (upd_lli i k g s) = hdma_default s" "plinked_list_at (upd_lli i k g s) = plinked_list_at s"
  "plinked_list_chain (upd_lli i k g s) = (plinked_list_chain s)(i := (plinked_list_chain s i)(k := g (plinked_list_chain s i k)))"
  "trace (upd_lli i k g s) = trace s" "env (upd_lli i k g s) = env s"
  by (simp_all add: upd_lli_def)

lemma dma_clear_fields [simp]:
  "hdma_default (dma_clear_chain i b s) = hdma_default s" "plinked_list_at (dma_clear_chain i b s) = plinked_list_at s"
  by (simp_all add: dma_clear_chain_def)

interpretation channels: slots hdma_default upd_dma "\<lambda>_ _. True"
  by unfold_locales simp_all

section \<open>The chain, as the hardware follows it\<close>

text \<open>The descriptor at an address, and the walk from a descriptor to the last one.\<close>

definition lli_at :: "'x dma_state_scheme \<Rightarrow> nat \<Rightarrow> u64 \<Rightarrow> dma_channel_reg_list option" where
  "lli_at s i a = (let d = unat (a - plinked_list_at s i)
     in if d mod 64 = 0 \<and> d div 64 < 512 then Some (plinked_list_chain s i (d div 64)) else None)"

fun chain_walk :: "(u64 \<Rightarrow> dma_channel_reg_list option) \<Rightarrow> nat \<Rightarrow> u64 \<Rightarrow> dma_channel_reg_list list option" where
  "chain_walk look 0 a = None"
| "chain_walk look (Suc n) a =
     (case look a of None \<Rightarrow> None
      | Some l \<Rightarrow> if \<not> bit (ctl l) 63 then None
                  else if bit (ctl l) 62 then Some [l]
                  else map_option ((#) l) (chain_walk look n (llp l)))"

lemma lli_at_addr: "k < 512 \<Longrightarrow> lli_at s i (lli_addr s i k) = Some (plinked_list_chain s i k)"
proof -
  assume k: "k < 512"
  have "unat (64 * word_of_nat k :: u64) = 64 * k"
    using k by (simp add: unat_mult_no_wrap unsigned_of_nat take_bit_nat_eq_self)
  with k show ?thesis
    by (simp add: lli_at_def lli_addr_def Let_def)
qed

lemma xfer_size_high: "60 \<le> n \<Longrightarrow> \<not> bit (dma_xfer_size dir sw dw cfg) n"
proof -
  assume n: "60 \<le> n"
  have w: "\<not> bit (ucast (w :: u32) :: u64) (n - k)" if "k \<le> 18" for w k
    using n that bit_imp_le_length [of w "n - k"] by (auto simp: bit_simps)
  have m: "\<not> bit (DMA_CH_CTL_DST_STAT_EN_MASK OR DMA_CH_CTL_SRC_STAT_EN_MASK OR DMA_CH_CTL_IOC_BLKTFR_MASK) n"
    by (rule small_word_bit [of _ 60]) (use n in \<open>simp_all add: dma_consts\<close>)
  show ?thesis
    using w m by (auto simp: dma_xfer_size_def Let_def bit_or_iff bit_push_bit_iff dma_consts)
qed

lemma inc_bits_high: "60 \<le> n \<Longrightarrow> \<not> bit (dma_inc_bits dir) n"
  by (rule small_word_bit [of _ 60]) (simp_all add: dma_inc_bits_def dma_consts)

lemma dma_blocks:
  fixes size sw :: u32
  assumes "push_bit (unat sw) 1 \<noteq> (0 :: u64)" and "\<not> (ucast size div push_bit (unat sw) 1 - 1 :: u64) > MAX_BLOCK_SIZE"
  shows "(unat (ucast size div push_bit (unat sw) 1 - 1 :: u64) + 1) * 2 ^ unat sw = unat size - unat size mod 2 ^ unat sw"
proof -
  have sw: "unat sw < 64"
  proof (rule ccontr)
    assume "\<not> unat sw < 64"
    then have "push_bit (unat sw) 1 = (0 :: u64)"
      by (intro bit_word_eqI) (simp add: bit_simps)
    with assms(1) show False by simp
  qed
  let ?q = "ucast size div push_bit (unat sw) 1 :: u64"
  have one: "unat (push_bit (unat sw) 1 :: u64) = 2 ^ unat sw"
  proof -
    have "unat (push_bit (unat sw) 1 :: u64) = take_bit 64 (push_bit (unat sw) 1)"
      by (simp only: unsigned_push_bit_eq unsigned_1) simp
    also have "\<dots> = 2 ^ unat sw"
      using sw by (simp add: take_bit_nat_eq_self)
    finally show ?thesis .
  qed
  have q: "unat ?q = unat size div 2 ^ unat sw"
    unfolding unat_div one by simp
  have "?q \<noteq> 0"
    using assms(2) by (auto simp: MAX_BLOCK_SIZE_def)
  then have "unat (?q - 1) + 1 = unat ?q"
    using unat_minus_one [of ?q] unat_gt_0 [of ?q] by simp
  then show ?thesis
    using q [simplified] by (simp add: minus_mod_eq_div_mult)
qed


text \<open>The descriptor of a transfer at place \<open>m\<close> of a chain that ends before \<open>e\<close>.\<close>

definition lli_for ::
  "'x dma_state_scheme \<Rightarrow> nat \<Rightarrow> dma_xfer_type_t \<Rightarrow> u32 \<Rightarrow> u32 \<Rightarrow> nat \<Rightarrow> nat \<Rightarrow> dma_xfer_cfg_t \<Rightarrow> dma_channel_reg_list \<Rightarrow> dma_channel_reg_list" where
  "lli_for s i dir sw dw e m cfg l = l\<lparr>sar := src cfg, dar := dst cfg,
     block_ts := ucast (blk_size cfg) div push_bit (unat sw) 1 - 1,
     llp := (if Suc m = e then 0 else lli_addr s i (m + 1)),
     ctl := dma_xfer_size dir sw dw cfg OR push_bit DMA_CH_CTL_SHADOWREG_OR_LLI_VALID_POS 1
       OR (if Suc m = e then push_bit DMA_CH_CTL_SHADOWREG_OR_LLI_LAST_POS 1 else 0) OR dma_inc_bits dir\<rparr>"

definition fits_block :: "u32 \<Rightarrow> dma_xfer_cfg_t \<Rightarrow> bool" where
  "fits_block sw cfg \<longleftrightarrow> push_bit (unat sw) 1 \<noteq> (0 :: u64)
     \<and> \<not> ucast (blk_size cfg) div push_bit (unat sw) 1 - 1 > MAX_BLOCK_SIZE"

lemma push_bit_1_zero: "64 \<le> n \<Longrightarrow> push_bit n 1 = (0 :: u64)"
  by (intro bit_word_eqI) (simp add: bit_simps)

lemma lli_for_upd_lli [simp]: "lli_for (upd_lli j k f s) = lli_for s"
  by (simp add: lli_for_def lli_addr_def fun_eq_iff)

lemma upd_lli_twice: "upd_lli i k f (upd_lli i k g s) = upd_lli i k (\<lambda>l. f (g l)) s"
  by (simp add: upd_lli_def)

lemma dma_fill_step:
  fixes s :: "'x dma_state_scheme"
  assumes "result (dma_fill i dir sw dw k (Suc n) (cfg # cfgs)) s = 0"
  defines "t \<equiv> upd_lli i k (lli_for s i dir sw dw (k + Suc n) k cfg) s"
  shows "fits_block sw cfg" and "result (dma_fill i dir sw dw (k + 1) n cfgs) t = 0"
    and "final (dma_fill i dir sw dw k (Suc n) (cfg # cfgs)) s = final (dma_fill i dir sw dw (k + 1) n cfgs) t"
proof -
  have w: "unat sw < 64" "unat dw < 64"
    using assms(1) by (auto simp: push_bit_1_zero Let_def simp del: push_bit_of_1 split: if_splits intro: ccontr)
  have nz: "push_bit (unat dw) 1 \<noteq> (0 :: u64)" and fits: "fits_block sw cfg"
    using assms(1) w by (simp_all add: fits_block_def Let_def del: push_bit_of_1 split: if_splits)
  have run: "run_state (dma_fill i dir sw dw k (Suc n) (cfg # cfgs)) s = run_state (dma_fill i dir sw dw (k + 1) n cfgs) t"
    using w nz fits by (simp add: fits_block_def t_def Let_def upd_lli_twice lli_for_def [abs_def] lli_addr_def
      del: push_bit_of_1)
  show "fits_block sw cfg" "result (dma_fill i dir sw dw (k + 1) n cfgs) t = 0"
    "final (dma_fill i dir sw dw k (Suc n) (cfg # cfgs)) s = final (dma_fill i dir sw dw (k + 1) n cfgs) t"
    using fits assms(1) by (simp_all only: run)
qed

lemma dma_fill_effect:
  fixes s :: "'x dma_state_scheme"
  assumes "result (dma_fill i dir sw dw k n cfgs) s = 0"
  shows "n \<le> length cfgs \<and> (\<forall>cfg \<in> set (take n cfgs). fits_block sw cfg)
    \<and> final (dma_fill i dir sw dw k n cfgs) s = s\<lparr>plinked_list_chain := (plinked_list_chain s)
      (i := (\<lambda>m. if k \<le> m \<and> m < k + n
         then lli_for s i dir sw dw (k + n) m (cfgs ! (m - k)) (plinked_list_chain s i m) else plinked_list_chain s i m))\<rparr>"
  using assms
proof (induction n arbitrary: k cfgs s)
  case 0
  have "\<not> (k \<le> m \<and> m < k + 0)" for m by linarith
  then show ?case by (simp only: if_False fun_upd_triv) simp
next
  case (Suc n)
  then obtain cfg rest where cfgs: "cfgs = cfg # rest"
    by (cases cfgs) auto
  note step = dma_fill_step [OF Suc.prems [unfolded cfgs]]
  let ?t = "upd_lli i k (lli_for s i dir sw dw (k + Suc n) k cfg) s"
  have ih: "n \<le> length rest \<and> (\<forall>cfg \<in> set (take n rest). fits_block sw cfg)
    \<and> final (dma_fill i dir sw dw (k + 1) n rest) ?t = ?t\<lparr>plinked_list_chain := (plinked_list_chain ?t)
      (i := (\<lambda>m. if k + 1 \<le> m \<and> m < k + 1 + n
         then lli_for ?t i dir sw dw (k + 1 + n) m (rest ! (m - (k + 1))) (plinked_list_chain ?t i m)
         else plinked_list_chain ?t i m))\<rparr>"
    by (rule Suc.IH [OF step(2)])
  have chain: "(\<lambda>m. if k + 1 \<le> m \<and> m < k + 1 + n
         then lli_for ?t i dir sw dw (k + 1 + n) m (rest ! (m - (k + 1))) (plinked_list_chain ?t i m)
         else plinked_list_chain ?t i m)
     = (\<lambda>m. if k \<le> m \<and> m < k + Suc n
         then lli_for s i dir sw dw (k + Suc n) m (cfgs ! (m - k)) (plinked_list_chain s i m) else plinked_list_chain s i m)"
    by (rule ext) (auto simp: cfgs nth_Cons' not_less_eq_eq)
  have over: "?t\<lparr>plinked_list_chain := (plinked_list_chain ?t)(i := c)\<rparr>
      = s\<lparr>plinked_list_chain := (plinked_list_chain s)(i := c)\<rparr>" for c
    unfolding upd_lli_def by simp
  have "final (dma_fill i dir sw dw k (Suc n) cfgs) s = s\<lparr>plinked_list_chain := (plinked_list_chain s)
      (i := (\<lambda>m. if k \<le> m \<and> m < k + Suc n
         then lli_for s i dir sw dw (k + Suc n) m (cfgs ! (m - k)) (plinked_list_chain s i m) else plinked_list_chain s i m))\<rparr>"
    using ih unfolding chain over by (simp only: cfgs step(3))
  moreover have "Suc n \<le> length cfgs \<and> (\<forall>cfg \<in> set (take (Suc n) cfgs). fits_block sw cfg)"
    using step(1) ih by (simp add: cfgs)
  ultimately show ?case
    by blast
qed


section \<open>The descriptors of a set-up transfer\<close>

lemma chain_walk_line:
  assumes "\<And>m. b \<le> m \<Longrightarrow> m < b + n \<Longrightarrow> look (at m) = Some (d m)" and "0 < n"
    and "\<And>m. b \<le> m \<Longrightarrow> m < b + n \<Longrightarrow> bit (ctl (d m)) 63 \<and> (bit (ctl (d m)) 62 \<longleftrightarrow> Suc m = b + n)"
    and "\<And>m. b \<le> m \<Longrightarrow> Suc m < b + n \<Longrightarrow> llp (d m) = at (Suc m)"
  shows "chain_walk look n (at b) = Some (map d [b..<b + n])"
  using assms
proof (induction n arbitrary: b)
  case (Suc n)
  show ?case
  proof (cases n)
    case 0
    then show ?thesis
      using Suc.prems(1,3) [of b] by simp
  next
    case (Suc k)
    have "chain_walk look n (at (Suc b)) = Some (map d [Suc b..<Suc b + n])"
      by (rule Suc.IH) (use Suc.prems Suc in auto)
    then show ?thesis
      using Suc.prems(1,3,4) [of b] Suc by (simp add: upt_conv_Cons del: chain_walk.simps(2) upt_Suc)
        (simp add: Suc.prems(1) del: upt_Suc)
  qed
qed simp

lemma lli_for_bits:
  "bit (ctl (lli_for s i dir sw dw e m cfg l)) 63" "bit (ctl (lli_for s i dir sw dw e m cfg l)) 62 \<longleftrightarrow> Suc m = e"
  using xfer_size_high [of 63 dir sw dw cfg] xfer_size_high [of 62 dir sw dw cfg]
    inc_bits_high [of 63 dir] inc_bits_high [of 62 dir]
  by (auto simp: lli_for_def bit_or_iff bit_push_bit_iff bit_1_iff dma_consts simp del: push_bit_of_1)

lemma lli_for_fields [simp]:
  "sar (lli_for s i dir sw dw e m cfg l) = src cfg" "dar (lli_for s i dir sw dw e m cfg l) = dst cfg"
  "block_ts (lli_for s i dir sw dw e m cfg l) = ucast (blk_size cfg) div push_bit (unat sw) 1 - 1"
  "llp (lli_for s i dir sw dw e m cfg l) = (if Suc m = e then 0 else lli_addr s i (Suc m))"
  by (simp_all add: lli_for_def)

text \<open>What a descriptor makes the hardware copy: from where, to where and how many bytes.\<close>

definition lli_copies :: "u32 \<Rightarrow> dma_channel_reg_list \<Rightarrow> u64 \<times> u64 \<times> nat" where
  "lli_copies sw l = (sar l, dar l, (unat (block_ts l) + 1) * 2 ^ unat sw)"

definition cfg_copies :: "u32 \<Rightarrow> dma_xfer_cfg_t \<Rightarrow> u64 \<times> u64 \<times> nat" where
  "cfg_copies sw cfg = (src cfg, dst cfg, unat (blk_size cfg) - unat (blk_size cfg) mod 2 ^ unat sw)"

lemma lli_for_copies: "fits_block sw cfg \<Longrightarrow> lli_copies sw (lli_for s i dir sw dw e m cfg l) = cfg_copies sw cfg"
  using dma_blocks [of sw "blk_size cfg"] unfolding lli_copies_def cfg_copies_def fits_block_def lli_for_fields by blast

lemma dma_program_run:
  "hdma_default (final (dma_program h i b) s) = (hdma_default s)(h := (hdma_default s h)\<lparr>interrupt_en := TFR_DONE_MASK\<rparr>)"
  "plinked_list_chain (final (dma_program h i b) s) = plinked_list_chain s"
  "plinked_list_at (final (dma_program h i b) s) = plinked_list_at s"
  "result (dma_program h i b) s = 0"
  "\<exists>v es. trace (final (dma_program h i b) s) = Rd64 (ucast (ch_offset (hdma_default s h) + DMA_CH_LLP)) v
     # Wr64 (ucast (ch_offset (hdma_default s h) + DMA_CH_LLP)) (lli_addr s i b) # es @ trace s"
  by (simp_all add: dma_program_def upd_dma_def Let_def lli_addr_def)


section \<open>The state of the channels\<close>

text \<open>
  An open channel knows its registers and its own slice of the descriptors, and only an open
  channel is active.
\<close>

definition channel_ok :: "nat \<times> nat \<Rightarrow> dma_ch_cntxt \<Rightarrow> bool" where
  "channel_ok h c \<longleftrightarrow> (case h of (i, k) \<Rightarrow>
     (is_open c \<longrightarrow> i < 2 \<and> k < 4 \<and> ch c = word_of_nat k \<and> base_address c = inst_base_addr i
        \<and> ch_offset c = inst_base_addr i + ch_offset_addr k \<and> linked_list_base c = Some (i, k * MAX_LLI_PER_CHANNEL))
     \<and> (channel_state c \<noteq> DMA_CH_IDLE \<longrightarrow> is_open c))"

definition dma_wf :: "'x dma_state_scheme \<Rightarrow> bool" where
  "dma_wf s \<longleftrightarrow> (\<forall>h. channel_ok h (hdma_default s h))"

lemma dma_wfD: "dma_wf s \<Longrightarrow> channel_ok h (hdma_default s h)"
  unfolding dma_wf_def by blast

lemma keeps_wf_upd: "(\<And>c. channel_ok h c \<Longrightarrow> channel_ok h (f c)) \<Longrightarrow> keeps dma_wf (modify (upd_dma h f))"
  by (simp add: keeps_def dma_wf_def del: split_paired_All)

lemma dma_blind:
  "irq_blind (\<lambda>s :: 'x dma_state_scheme. hdma_default s = v)" "irq_blind (\<lambda>s :: 'x dma_state_scheme. plinked_list_chain s = w)"
  by (intro irq_blindI; simp add: set_callback_def)+

lemma dma_open_frames [simp]:
  fixes s :: "'x dma_state_scheme"
  shows "hdma_default (final (rstmgr_get_reset_status r) s) = hdma_default s"
    "hdma_default (final (rstmgr_toggle_reset r) s) = hdma_default s"
    "hdma_default (final (interrupt_register_isr n f p) s) = hdma_default s"
    "plinked_list_chain (final (rstmgr_get_reset_status r) s) = plinked_list_chain s"
    "plinked_list_chain (final (rstmgr_toggle_reset r) s) = plinked_list_chain s"
    "plinked_list_chain (final (interrupt_register_isr n f p) s) = plinked_list_chain s"
  by (intro frame_of_keeps irq_keeps_blind rstmgr_keeps_blind irq_blind_trace [OF dma_blind(1)]
      irq_blind_trace [OF dma_blind(2)] dma_blind)+


definition channel_opened :: "nat \<times> nat \<Rightarrow> bool \<Rightarrow> dma_ch_cntxt \<Rightarrow> dma_ch_cntxt" where
  "channel_opened h b c = (case h of (i, k) \<Rightarrow> c\<lparr>is_open := b, base_address := inst_base_addr i,
     ch_offset := inst_base_addr i + ch_offset_addr k, int_id := int_id_map i k, ch := word_of_nat k,
     linked_list_base := Some (i, k * MAX_LLI_PER_CHANNEL)\<rparr>)"

lemma dma_open_effect:
  fixes s :: "'x dma_state_scheme" and a b :: u32
  defines "h \<equiv> (unat a, unat b)"
  shows "hdma_default (final (dma_open a b) s) = hdma_default s
    \<or> fst h < 2 \<and> snd h < 4 \<and> \<not> is_open (hdma_default s h) \<and> channel_state (hdma_default s h) = DMA_CH_IDLE
      \<and> (\<exists>u. hdma_default (final (dma_open a b) s) = (hdma_default s)(h := channel_opened h u (hdma_default s h)))"
    and "plinked_list_chain (final (dma_open a b) s) = plinked_list_chain s"
proof -
  let ?c = "hdma_default s h"
  have closed: "channel_opened h False ?c = ?c\<lparr>base_address := inst_base_addr (unat a),
     ch_offset := inst_base_addr (unat a) + ch_offset_addr (unat b), int_id := int_id_map (unat a) (unat b), ch := b,
     linked_list_base := Some (unat a, unat b * MAX_LLI_PER_CHANNEL)\<rparr>" if "\<not> is_open ?c"
    using that by (simp add: channel_opened_def h_def)
  have opened: "channel_opened h True ?c = ?c\<lparr>base_address := inst_base_addr (unat a),
     ch_offset := inst_base_addr (unat a) + ch_offset_addr (unat b), int_id := int_id_map (unat a) (unat b), ch := b,
     linked_list_base := Some (unat a, unat b * MAX_LLI_PER_CHANNEL), is_open := True\<rparr>"
    by (simp add: channel_opened_def h_def)
  note run = dma_open_def Let_def split_beta h_def [symmetric]
  show "plinked_list_chain (final (dma_open a b) s) = plinked_list_chain s"
    by (simp add: dma_open_def Let_def split_beta)
  show "hdma_default (final (dma_open a b) s) = hdma_default s
    \<or> fst h < 2 \<and> snd h < 4 \<and> \<not> is_open ?c \<and> channel_state ?c = DMA_CH_IDLE
      \<and> (\<exists>u. hdma_default (final (dma_open a b) s) = (hdma_default s)(h := channel_opened h u ?c))"
  proof (cases "a \<ge> DMA_NUM_INSTANCE \<or> b \<ge> DMA_NUM_CHANNELS \<or> is_open ?c \<or> channel_state ?c \<noteq> DMA_CH_IDLE")
    case True
    then show ?thesis
      by (auto simp: run)
  next
    case False
    then have "fst h < 2" "snd h < 4"
      by (simp_all add: h_def dma_consts word_less_nat_alt not_le)
    moreover have "hdma_default (final (dma_open a b) s) \<in>
        {hdma_default s, (hdma_default s)(h := channel_opened h False ?c), (hdma_default s)(h := channel_opened h True ?c)}"
      using False by (simp add: run opened closed)
    ultimately show ?thesis
      using False by blast
  qed
qed


lemma dma_fill_keeps:
  assumes "\<And>f j s. k \<le> j \<Longrightarrow> j < k + n \<Longrightarrow> I (upd_lli i j f s) = I s" and "trace_blind I"
  shows "keeps I (dma_fill i dir sw dw k n cfgs)"
  using assms(1)
proof (induction i dir sw dw k n cfgs rule: dma_fill.induct)
  case (3 i dir sw dw k n cfg cfgs)
  have upd: "keeps I (modify (upd_lli i k f))" for f
    using 3(2) by (simp add: keeps_def)
  have "keeps I (dma_fill i dir sw dw (k + 1) n cfgs)"
    if "\<not> (push_bit (unat sw) 1 = (0 :: u64) \<or> push_bit (unat dw) 1 = (0 :: u64))"
      "\<not> ucast (blk_size cfg) div push_bit (unat sw) 1 - 1 > MAX_BLOCK_SIZE"
    by (rule 3(1) [OF that(1) refl that(2) refl refl]) (rule 3(2); simp)
  then show ?case
    unfolding dma_fill.simps Let_def by (intro keeps_intros upd keeps_prims_blind [OF assms(2)]) simp_all
qed (simp_all add: keeps_ret)

lemma dma_fill_outside:
  fixes s :: "'x dma_state_scheme"
  shows "hdma_default (final (dma_fill i dir sw dw k n cfgs) s) = hdma_default s
    \<and> plinked_list_at (final (dma_fill i dir sw dw k n cfgs) s) = plinked_list_at s
    \<and> (\<forall>j m. j \<noteq> i \<or> m < k \<or> k + n \<le> m \<longrightarrow>
        plinked_list_chain (final (dma_fill i dir sw dw k n cfgs) s) j m = plinked_list_chain s j m)"
proof -
  let ?I = "\<lambda>t. hdma_default t = hdma_default s \<and> plinked_list_at t = plinked_list_at s
    \<and> (\<forall>j m. j \<noteq> i \<or> m < k \<or> k + n \<le> m \<longrightarrow> plinked_list_chain t j m = plinked_list_chain s j m)"
  have "keeps ?I (dma_fill i dir sw dw k n cfgs)"
    by (rule dma_fill_keeps) (auto simp: trace_blind_def)
  then show ?thesis
    using keepsD [of ?I _ s] by simp
qed

lemma dma_clear_outside:
  "j \<noteq> i \<or> m < b \<or> b + MAX_LLI_PER_CHANNEL \<le> m \<Longrightarrow> plinked_list_chain (dma_clear_chain i b s) j m = plinked_list_chain s j m"
  by (auto simp: dma_clear_chain_def)

text \<open>A request that is refused leaves everything but possibly its own slice of the descriptors as it was.\<close>

lemma dma_setup_effect:
  fixes s :: "'x dma_state_scheme" and num sw dw :: u32 and cfgs :: "dma_xfer_cfg_t list" and h :: "nat \<times> nat"
  assumes "dma_wf s"
  defines "t \<equiv> final (dma_setup_transfer (Some h) cfgs num sw dw) s"
  shows "\<exists>u. hdma_default t = (hdma_default s)(h := (hdma_default s h)\<lparr>interrupt_en := u\<rparr>)"
    and "plinked_list_at t = plinked_list_at s"
    and "channel_state (hdma_default s h) = DMA_CH_ACTIVE \<or> j \<noteq> fst h \<or> m < snd h * MAX_LLI_PER_CHANNEL
      \<or> snd h * MAX_LLI_PER_CHANNEL + MAX_LLI_PER_CHANNEL \<le> m \<Longrightarrow> plinked_list_chain t j m = plinked_list_chain s j m"
proof -
  let ?c = "hdma_default s h"
  define i b where "i = fst h" and "b = snd h * MAX_LLI_PER_CHANNEL"
  let ?f = "dma_fill i (direction ?c) sw dw b (unat num) cfgs" and ?s = "dma_clear_chain i b s"
  have base: "linked_list_base ?c = Some (i, b)" if "is_open ?c"
    using dma_wfD [OF assms(1), of h] that by (cases h) (simp add: channel_ok_def i_def b_def)
  note out = dma_fill_outside [of i "direction ?c" sw dw b "unat num" cfgs ?s]
  have t: "t = (if unat num > MAX_LLI_PER_CHANNEL \<or> cfgs = [] \<or> \<not> is_open ?c \<or> channel_state ?c \<noteq> DMA_CH_IDLE then s
      else if result ?f ?s \<noteq> 0 then final ?f ?s else final (dma_program h i b) (final ?f ?s))"
    unfolding t_def dma_setup_transfer_def
    by (simp add: Let_def split_beta base split: option.split del: dma_fill.simps)
  have same: "?c = ?c\<lparr>interrupt_en := interrupt_en ?c\<rparr>" by simp
  show "\<exists>u. hdma_default t = (hdma_default s)(h := ?c\<lparr>interrupt_en := u\<rparr>)"
    using out by (simp add: t dma_program_run del: dma_fill.simps) (metis same fun_upd_triv)
  show "plinked_list_at t = plinked_list_at s"
    using out by (simp add: t dma_program_run del: dma_fill.simps)
  show "channel_state ?c = DMA_CH_ACTIVE \<or> j \<noteq> fst h \<or> m < snd h * MAX_LLI_PER_CHANNEL
      \<or> snd h * MAX_LLI_PER_CHANNEL + MAX_LLI_PER_CHANNEL \<le> m \<Longrightarrow> plinked_list_chain t j m = plinked_list_chain s j m"
    using out dma_clear_outside [of j i m b s]
    by (auto simp: t dma_program_run i_def [symmetric] b_def [symmetric] simp del: dma_fill.simps)
qed


lemma dma_stop_wait_keeps: "trace_blind I \<Longrightarrow> keeps I (dma_stop_wait a k n v)"
  by (induction n arbitrary: v) (auto intro!: keeps_intros keeps_prims_blind)

lemma dma_open_wf:
  assumes wf: "dma_wf s"
  shows "dma_wf (final (dma_open a b) s)"
proof -
  let ?h = "(unat a, unat b)"
  have "channel_ok ?h (channel_opened ?h u (hdma_default s ?h))"
    if "unat a < 2" "unat b < 4" "channel_state (hdma_default s ?h) = DMA_CH_IDLE" for u
    using that by (simp add: channel_ok_def channel_opened_def)
  with dma_open_effect(1) [of a b s] show ?thesis
    using wf by (auto simp: dma_wf_def simp del: split_paired_All)
qed

lemma dma_setup_wf:
  assumes wf: "dma_wf s"
  shows "dma_wf (final (dma_setup_transfer h cfgs num sw dw) s)"
proof (cases h)
  case (Some g)
  obtain u where "hdma_default (final (dma_setup_transfer h cfgs num sw dw) s)
      = (hdma_default s)(g := (hdma_default s g)\<lparr>interrupt_en := u\<rparr>)"
    using dma_setup_effect(1) [OF wf] Some by blast
  moreover have "channel_ok g ((hdma_default s g)\<lparr>interrupt_en := u\<rparr>)"
    using dma_wfD [OF wf, of g] by (simp add: channel_ok_def)
  ultimately show ?thesis
    using wf by (simp add: dma_wf_def del: split_paired_All)
qed (simp add: dma_setup_transfer_def wf)

lemma dma_start_wf:
  assumes wf: "dma_wf s"
  shows "dma_wf (final (dma_start_transfer h) s)"
  using wf by (auto simp: dma_start_transfer_def dma_wf_def channel_ok_def Let_def split: option.splits)

text \<open>
  C26. Every operation of the driver keeps the state of the channels consistent: an open channel
  has the registers and the slice of descriptors of its number, whatever the kernel, the
  interrupt controller and the hardware answer, and only an open channel can be active.
\<close>

theorem dma_channels_stay_consistent:
  "keeps dma_wf (dma_open a b) \<and> keeps dma_wf (dma_config h cfg)
   \<and> keeps dma_wf (dma_setup_transfer h cfgs num sw dw) \<and> keeps dma_wf (dma_start_transfer h)
   \<and> keeps dma_wf (dma_stop_transfer h) \<and> keeps dma_wf (dma_get_dst_ptr h) \<and> keeps dma_wf (dma_close h)
   \<and> keeps dma_wf (pdma_irq_handler user_call p)"
proof -
  have blind: "trace_blind dma_wf"
    by (simp add: trace_blind_def dma_wf_def)
  note rules = keeps_intros keeps_prims_blind [OF blind] dma_stop_wait_keeps [OF blind] keeps_wf_upd
  have ops: "keeps dma_wf (dma_config h cfg)" "keeps dma_wf (dma_stop_transfer h)" "keeps dma_wf (dma_get_dst_ptr h)"
    "keeps dma_wf (dma_close h)"
    unfolding dma_config_def dma_stop_transfer_def dma_get_dst_ptr_def dma_close_def Let_def
    by (intro rules; auto simp: channel_ok_def dma_zero_def split: prod.splits)+
  have isr: "keeps dma_wf (pdma_irq_handler user_call p)"
    unfolding pdma_irq_handler_def user_call_def
    by (cases p; simp; intro rules keeps_emit_blind [OF blind]; auto simp: channel_ok_def)
  show ?thesis
    by (intro conjI ops isr keepsI dma_open_wf dma_setup_wf dma_start_wf)
qed


text \<open>The descriptors in the slice of a channel.\<close>

definition slice :: "nat \<times> nat \<Rightarrow> 'x dma_state_scheme \<Rightarrow> dma_channel_reg_list list" where
  "slice h s = (case h of (i, k) \<Rightarrow> map (plinked_list_chain s i) [k * MAX_LLI_PER_CHANNEL..<k * MAX_LLI_PER_CHANNEL + MAX_LLI_PER_CHANNEL])"

definition running :: "nat \<times> nat \<Rightarrow> dma_channel_reg_list list \<Rightarrow> 'x dma_state_scheme \<Rightarrow> bool" where
  "running h ds s \<longleftrightarrow> dma_wf s \<and> channel_state (hdma_default s h) = DMA_CH_ACTIVE \<and> slice h s = ds"

lemma dma_open_running: "running h ds s \<Longrightarrow> running h ds (final (dma_open a b) s)"
  using dma_open_effect [of a b s] dma_open_wf [of s a b]
  by (auto simp: running_def slice_def channel_opened_def split: prod.splits)

lemma dma_setup_slice:
  assumes "dma_wf s" and "channel_state (hdma_default s h) = DMA_CH_ACTIVE"
  shows "slice h (final (dma_setup_transfer g cfgs num sw dw) s) = slice h s"
proof (cases g)
  case (Some g')
  obtain i k j l where hg: "h = (i, k)" "g' = (j, l)" by (cases h, cases g')
  have "plinked_list_chain (final (dma_setup_transfer g cfgs num sw dw) s) i m = plinked_list_chain s i m"
    if "k * MAX_LLI_PER_CHANNEL \<le> m" "m < k * MAX_LLI_PER_CHANNEL + MAX_LLI_PER_CHANNEL" for m
  proof -
    have "channel_state (hdma_default s g') = DMA_CH_ACTIVE \<or> i \<noteq> j \<or> m < l * MAX_LLI_PER_CHANNEL
        \<or> l * MAX_LLI_PER_CHANNEL + MAX_LLI_PER_CHANNEL \<le> m"
    proof (cases "g' = h")
      case False
      moreover have "k < l \<or> l < k \<Longrightarrow> m < l * MAX_LLI_PER_CHANNEL \<or> l * MAX_LLI_PER_CHANNEL + MAX_LLI_PER_CHANNEL \<le> m"
        using that by (auto simp: dma_consts)
      ultimately show ?thesis
        using hg by (auto simp: neq_iff)
    qed (simp add: assms(2))
    then show ?thesis
      using dma_setup_effect(3) [OF assms(1), of g' i m cfgs num sw dw] Some hg by simp
  qed
  then show ?thesis
    by (simp add: slice_def hg)
qed (simp add: dma_setup_transfer_def)

lemma dma_setup_running: "running h ds s \<Longrightarrow> running h ds (final (dma_setup_transfer g cfgs num sw dw) s)"
proof (cases g)
  case (Some g')
  assume r: "running h ds s"
  then have wf: "dma_wf s" and act: "channel_state (hdma_default s h) = DMA_CH_ACTIVE"
    by (simp_all add: running_def)
  obtain u where "hdma_default (final (dma_setup_transfer (Some g') cfgs num sw dw) s)
      = (hdma_default s)(g' := (hdma_default s g')\<lparr>interrupt_en := u\<rparr>)"
    using dma_setup_effect(1) [OF wf] by blast
  with r Some show ?thesis
    by (auto simp: running_def dma_setup_slice [OF wf act] dma_setup_wf)
qed (simp add: dma_setup_transfer_def)

text \<open>
  C24. The chain of a channel that is active cannot be changed by any request: neither opening,
  configuring, setting up nor starting a channel, this one or another, changes a descriptor in
  its slice or makes it inactive; and the operations that end a transfer leave all descriptors
  alone.
\<close>

theorem dma_active_chain_frozen:
  "keeps (running h ds) (dma_open a b) \<and> keeps (running h ds) (dma_config g cfg)
   \<and> keeps (running h ds) (dma_setup_transfer g cfgs num sw dw) \<and> keeps (running h ds) (dma_start_transfer g)
   \<and> slice h (final (dma_stop_transfer g) s) = slice h s \<and> slice h (final (pdma_irq_handler user_call p) s) = slice h s
   \<and> slice h (final (dma_close g) s) = slice h s"
proof -
  have slices: "plinked_list_chain t = plinked_list_chain s' \<Longrightarrow> slice h t = slice h s'" for t s' :: "'y dma_state_scheme"
    by (simp add: slice_def)
  have blind: "trace_blind (\<lambda>s :: 'y dma_state_scheme. plinked_list_chain s = v)" for v
    by (simp add: trace_blind_def)
  note rules = keeps_intros keeps_prims_blind [OF blind] dma_stop_wait_keeps [OF blind] keeps_emit_blind [OF blind]
  have upd: "keeps (\<lambda>s. plinked_list_chain s = v) (modify (upd_dma g' f))" for v g' f
    by (simp add: keeps_def)
  have stop: "slice h (final (dma_stop_transfer g) s) = slice h s" for s
    unfolding dma_stop_transfer_def Let_def by (intro slices frame_of_keeps rules upd)
  have close: "slice h (final (dma_close g) s) = slice h s" for s
    unfolding dma_close_def by (intro slices frame_of_keeps rules upd)
  have isr: "slice h (final (pdma_irq_handler user_call p) s) = slice h s" for s
    unfolding pdma_irq_handler_def user_call_def by (intro slices frame_of_keeps; cases p; simp; intro rules upd)
  have conf: "running h ds s \<Longrightarrow> running h ds (final (dma_config g cfg) s)" for s
    by (auto simp: running_def dma_config_def slice_def dma_wf_def channel_ok_def split: option.splits)
  have start: "running h ds s \<Longrightarrow> running h ds (final (dma_start_transfer g) s)" for s
    by (auto simp: running_def dma_start_wf) (auto simp: dma_start_transfer_def slice_def Let_def split: option.splits)
  show ?thesis
    by (intro conjI stop close isr keepsI dma_open_running conf dma_setup_running start)
qed


text \<open>
  C23. A transfer that has been set up is what the hardware will do: walking the chain from the
  address written into the channel's list register finds exactly one valid descriptor per
  requested transfer, in order, the last one marked as the last, each with the addresses asked
  for and a size of the bytes asked for, rounded down to the width of the transfer.
\<close>

theorem dma_chain_describes_transfers:
  fixes s :: "'x dma_state_scheme"
  assumes "dma_wf s" and "0 < unat num"
    and "result (dma_setup_transfer (Some h) cfgs num sw dw) s = 0"
  defines "t \<equiv> final (dma_setup_transfer (Some h) cfgs num sw dw) s"
  shows "\<exists>ds v es. unat num \<le> length cfgs
    \<and> trace t = Rd64 (ucast (ch_offset (hdma_default s h) + DMA_CH_LLP)) v
        # Wr64 (ucast (ch_offset (hdma_default s h) + DMA_CH_LLP)) (lli_addr t (fst h) (snd h * 128)) # es
    \<and> chain_walk (lli_at t (fst h)) (unat num) (lli_addr t (fst h) (snd h * 128)) = Some ds
    \<and> map (lli_copies sw) ds = map (cfg_copies sw) (take (unat num) cfgs)"
proof -
  let ?c = "hdma_default s h" and ?n = "unat num"
  obtain i k where h: "h = (i, k)" by (cases h)
  let ?b = "k * 128"
  let ?f = "dma_fill i (direction ?c) sw dw ?b ?n cfgs" and ?s = "dma_clear_chain i ?b s"
  have guards: "?n \<le> 128" "cfgs \<noteq> []" "is_open ?c" "channel_state ?c = DMA_CH_IDLE"
    using assms(3) by (auto simp: dma_setup_transfer_def dma_consts not_le split: if_splits)
  then have wf: "i < 2" "k < 4" "linked_list_base ?c = Some (i, ?b)"
    using dma_wfD [OF assms(1), of h] by (simp_all add: channel_ok_def h dma_consts)
  note run = dma_setup_transfer_def Let_def split_beta
  have ok: "result ?f ?s = 0"
    using assms(3) guards wf(3) by (simp add: run dma_consts h del: dma_fill.simps split: if_splits)
  have t: "t = final (dma_program h i ?b) (final ?f ?s)"
    using guards wf(3) ok by (simp add: t_def run dma_consts h del: dma_fill.simps)
  note fill = dma_fill_effect [OF ok]
  let ?d = "\<lambda>m. lli_for ?s i (direction ?c) sw dw (?b + ?n) m (cfgs ! (m - ?b)) (plinked_list_chain ?s i m)"
  have at: "lli_addr t = lli_addr s"
    using dma_fill_outside [of i "direction ?c" sw dw ?b ?n cfgs ?s]
    by (simp add: fun_eq_iff lli_addr_def t dma_program_run del: dma_fill.simps)
  have chain: "plinked_list_chain t i m = ?d m" if "?b \<le> m" "m < ?b + ?n" for m
    using fill that by (simp add: t dma_program_run del: dma_fill.simps)
  have "chain_walk (lli_at t i) ?n (lli_addr t i ?b) = Some (map ?d [?b..<?b + ?n])"
  proof (rule chain_walk_line)
    fix m assume m: "?b \<le> m" "m < ?b + ?n"
    then have "m < 512"
      using guards(1) wf(2) by linarith
    then show "lli_at t i (lli_addr t i m) = Some (?d m)"
      using chain [OF m] by (simp add: lli_at_addr)
    show "bit (ctl (?d m)) 63 \<and> (bit (ctl (?d m)) 62 \<longleftrightarrow> Suc m = ?b + ?n)"
      by (simp add: lli_for_bits)
  qed (simp_all add: assms(2) at lli_addr_def)
  moreover have "map (lli_copies sw) (map ?d [?b..<?b + ?n]) = map (cfg_copies sw) (take ?n cfgs)"
  proof -
    have "fits_block sw (cfgs ! m)" if "m < ?n" for m
      using fill that nth_mem [of m "take ?n cfgs"] by simp
    then show ?thesis
      using fill by (intro nth_equalityI) (simp_all add: lli_for_copies)
  qed
  moreover obtain v es where "trace t = Rd64 (ucast (ch_offset ?c + DMA_CH_LLP)) v
      # Wr64 (ucast (ch_offset ?c + DMA_CH_LLP)) (lli_addr t i ?b) # es @ trace (final ?f ?s)"
    using dma_program_run(5) [of h i ?b "final ?f ?s"] dma_fill_outside [of i "direction ?c" sw dw ?b ?n cfgs ?s]
    by (auto simp: t at lli_addr_def dma_program_run simp del: dma_fill.simps)
  ultimately show ?thesis
    using fill by (fastforce simp: h)
qed


text \<open>Channel 2 of the second controller, open, and two transfers of 32-bit units.\<close>

definition dma_machine :: dma_state where
  "dma_machine = seu_context.extend seu_machine
     \<lparr>hdma_default = (\<lambda>_. dma_zero)((1, 2) := channel_opened (1, 2) True dma_zero),
      plinked_list_chain = \<lambda>_ _. lli_zero, plinked_list_at = \<lambda>i. [0x80000, 0x90000] ! i\<rparr>"

definition dma_two :: "dma_xfer_cfg_t list" where
  "dma_two = [\<lparr>src = 0x1000, dst = 0x2000, blk_size = 100, src_burst_len = 0, dst_burst_len = 0\<rparr>,
     \<lparr>src = 0x3000, dst = 0x4000, blk_size = 70, src_burst_len = 0, dst_burst_len = 0\<rparr>]"

lemma dma_machine_simps [simp]:
  "hdma_default dma_machine = (\<lambda>_. dma_zero)((1, 2) := channel_opened (1, 2) True dma_zero)"
  "plinked_list_at dma_machine = (\<lambda>i. [0x80000, 0x90000] ! i)"
  by (simp_all add: dma_machine_def seu_context.defs)

lemma dma_machine_wf: "dma_wf dma_machine"
  by (simp add: dma_wf_def channel_ok_def channel_opened_def dma_zero_def del: split_paired_All split: prod.splits)

theorem dma_chain_describes_transfers_witness:
  "\<exists>ds. chain_walk (lli_at (final (dma_setup_transfer (Some (1, 2)) dma_two 2 2 2) dma_machine) 1) 2
       (lli_addr (final (dma_setup_transfer (Some (1, 2)) dma_two 2 2 2) dma_machine) 1 256) = Some ds
     \<and> map (lli_copies 2) ds = [(0x1000, 0x2000, 100), (0x3000, 0x4000, 68)]"
proof -
  have two: "dma_fill i d sw dw k 2 cfgs = dma_fill i d sw dw k (Suc (Suc 0)) cfgs" for i d sw dw k cfgs
    by (simp only: numeral_2_eq_2)
  have ok: "result (dma_setup_transfer (Some (1, 2)) dma_two 2 2 2) dma_machine = 0"
    by (simp add: dma_setup_transfer_def dma_two_def dma_consts channel_opened_def dma_zero_def two
        dma_program_run Let_def split_beta)
  show ?thesis
    using dma_chain_describes_transfers [OF dma_machine_wf _ ok] by (auto simp: dma_two_def cfg_copies_def)
qed

end
