(* ===== verification/I2c_LL.thy ===== *)
theory I2c_LL
  imports Dma
begin

unbundle bit_operations_syntax

text \<open>
  The register layer of the I2C driver, \<^verbatim>\<open>drivers/i2c/socfpga_i2c_ll.c\<close>. Data and read commands
  go through one register; the last of a transfer carries the stop bit.
\<close>

section \<open>Registers\<close>

definition I2C_CON :: u32 where "I2C_CON = 0x0"
definition I2C_TAR :: u32 where "I2C_TAR = 0x4"
definition I2C_SAR :: u32 where "I2C_SAR = 0x8"
definition I2C_DATA_CMD :: u32 where "I2C_DATA_CMD = 0x10"
definition I2C_SS_SCL_HCNT :: u32 where "I2C_SS_SCL_HCNT = 0x14"
definition I2C_SS_SCL_LCNT :: u32 where "I2C_SS_SCL_LCNT = 0x18"
definition I2C_FS_SCL_HCNT :: u32 where "I2C_FS_SCL_HCNT = 0x1C"
definition I2C_FS_SCL_LCNT :: u32 where "I2C_FS_SCL_LCNT = 0x20"
definition I2C_INTR_STAT :: u32 where "I2C_INTR_STAT = 0x2C"
definition I2C_INTR_MASK :: u32 where "I2C_INTR_MASK = 0x30"
definition I2C_RAW_INTR_STAT :: u32 where "I2C_RAW_INTR_STAT = 0x34"
definition I2C_RX_TL :: u32 where "I2C_RX_TL = 0x38"
definition I2C_TX_TL :: u32 where "I2C_TX_TL = 0x3C"
definition I2C_CLR_INTR :: u32 where "I2C_CLR_INTR = 0x40"
definition I2C_CLR_RX_OVER :: u32 where "I2C_CLR_RX_OVER = 0x48"
definition I2C_CLR_RD_REQ :: u32 where "I2C_CLR_RD_REQ = 0x50"
definition I2C_CLR_TX_ABRT :: u32 where "I2C_CLR_TX_ABRT = 0x54"
definition I2C_CLR_STOP_DET :: u32 where "I2C_CLR_STOP_DET = 0x60"
definition I2C_ENABLE :: u32 where "I2C_ENABLE = 0x6C"
definition I2C_STATUS :: u32 where "I2C_STATUS = 0x70"
definition I2C_TX_ABRT_SOURCE :: u32 where "I2C_TX_ABRT_SOURCE = 0x80"
definition I2C_DMA_CR :: u32 where "I2C_DMA_CR = 0x88"
definition I2C_DMA_TDLR :: u32 where "I2C_DMA_TDLR = 0x8C"
definition I2C_DMA_RDLR :: u32 where "I2C_DMA_RDLR = 0x90"
definition I2C_ACK_GENERAL_CALL :: u32 where "I2C_ACK_GENERAL_CALL = 0x98"
definition I2C_CON_STOP_DET_IFADDRESSED_MASK :: u32 where "I2C_CON_STOP_DET_IFADDRESSED_MASK = 0x80"
definition I2C_CON_IC_SLAVE_DISABLE_MASK :: u32 where "I2C_CON_IC_SLAVE_DISABLE_MASK = 0x40"
definition I2C_CON_IC_RESTART_EN_MASK :: u32 where "I2C_CON_IC_RESTART_EN_MASK = 0x20"
definition I2C_CON_IC_10BITADDR_SLAVE_MASK :: u32 where "I2C_CON_IC_10BITADDR_SLAVE_MASK = 0x8"
definition I2C_CON_SPEED_MASK :: u32 where "I2C_CON_SPEED_MASK = 0x6"
definition I2C_CON_MASTER_MODE_MASK :: u32 where "I2C_CON_MASTER_MODE_MASK = 0x1"
definition I2C_TAR_IC_TAR_MASK :: u32 where "I2C_TAR_IC_TAR_MASK = 0x3FF"
definition I2C_SAR_IC_SAR_MASK :: u32 where "I2C_SAR_IC_SAR_MASK = 0x3FF"
definition I2C_DATA_CMD_DAT_MASK :: u32 where "I2C_DATA_CMD_DAT_MASK = 0xFF"
definition I2C_INTR_STAT_R_STOP_DET_MASK :: u32 where "I2C_INTR_STAT_R_STOP_DET_MASK = 0x200"
definition I2C_INTR_STAT_R_TX_ABRT_MASK :: u32 where "I2C_INTR_STAT_R_TX_ABRT_MASK = 0x40"
definition I2C_INTR_STAT_R_RD_REQ_MASK :: u32 where "I2C_INTR_STAT_R_RD_REQ_MASK = 0x20"
definition I2C_INTR_STAT_R_TX_EMPTY_MASK :: u32 where "I2C_INTR_STAT_R_TX_EMPTY_MASK = 0x10"
definition I2C_INTR_STAT_R_RX_FULL_MASK :: u32 where "I2C_INTR_STAT_R_RX_FULL_MASK = 0x4"
definition I2C_INTR_STAT_R_RX_OVER_MASK :: u32 where "I2C_INTR_STAT_R_RX_OVER_MASK = 0x2"
definition I2C_INTR_MASK_M_STOP_DET_MASK :: u32 where "I2C_INTR_MASK_M_STOP_DET_MASK = 0x200"
definition I2C_INTR_MASK_M_TX_ABRT_MASK :: u32 where "I2C_INTR_MASK_M_TX_ABRT_MASK = 0x40"
definition I2C_INTR_MASK_M_RD_REQ_MASK :: u32 where "I2C_INTR_MASK_M_RD_REQ_MASK = 0x20"
definition I2C_INTR_MASK_M_TX_EMPTY_MASK :: u32 where "I2C_INTR_MASK_M_TX_EMPTY_MASK = 0x10"
definition I2C_INTR_MASK_M_RX_FULL_MASK :: u32 where "I2C_INTR_MASK_M_RX_FULL_MASK = 0x4"
definition I2C_INTR_MASK_M_RX_OVER_MASK :: u32 where "I2C_INTR_MASK_M_RX_OVER_MASK = 0x2"
definition I2C_RAW_INTR_STAT_STOP_DET_MASK :: u32 where "I2C_RAW_INTR_STAT_STOP_DET_MASK = 0x200"
definition I2C_RAW_INTR_STAT_TX_ABRT_MASK :: u32 where "I2C_RAW_INTR_STAT_TX_ABRT_MASK = 0x40"
definition I2C_RAW_INTR_STAT_RD_REQ_MASK :: u32 where "I2C_RAW_INTR_STAT_RD_REQ_MASK = 0x20"
definition I2C_RAW_INTR_STAT_RX_FULL_MASK :: u32 where "I2C_RAW_INTR_STAT_RX_FULL_MASK = 0x4"
definition I2C_RAW_INTR_STAT_RX_OVER_MASK :: u32 where "I2C_RAW_INTR_STAT_RX_OVER_MASK = 0x2"
definition I2C_ENABLE_ABORT_MASK :: u32 where "I2C_ENABLE_ABORT_MASK = 0x2"
definition I2C_ENABLE_ENABLE_MASK :: u32 where "I2C_ENABLE_ENABLE_MASK = 0x1"
definition I2C_STATUS_RFNE_MASK :: u32 where "I2C_STATUS_RFNE_MASK = 0x8"
definition I2C_STATUS_TFNF_MASK :: u32 where "I2C_STATUS_TFNF_MASK = 0x2"
definition I2C_STATUS_IC_STATUS_ACTIVITY_MASK :: u32 where "I2C_STATUS_IC_STATUS_ACTIVITY_MASK = 0x1"
definition I2C_ACK_GENERAL_CALL_ACK_GEN_CALL_MASK :: u32 where "I2C_ACK_GENERAL_CALL_ACK_GEN_CALL_MASK = 0x1"
definition I2C_CON_IC_SLAVE_DISABLE_POS :: nat where "I2C_CON_IC_SLAVE_DISABLE_POS = 6"
definition I2C_CON_IC_RESTART_EN_POS :: nat where "I2C_CON_IC_RESTART_EN_POS = 5"
definition I2C_CON_SPEED_POS :: nat where "I2C_CON_SPEED_POS = 1"
definition I2C_CON_MASTER_MODE_POS :: nat where "I2C_CON_MASTER_MODE_POS = 0"
definition I2C_TAR_IC_TAR_POS :: nat where "I2C_TAR_IC_TAR_POS = 0"
definition I2C_DATA_CMD_STOP_POS :: nat where "I2C_DATA_CMD_STOP_POS = 9"
definition I2C_DATA_CMD_CMD_POS :: nat where "I2C_DATA_CMD_CMD_POS = 8"
definition I2C_ENABLE_ENABLE_POS :: nat where "I2C_ENABLE_ENABLE_POS = 0"
definition I2C_DMA_CR_TDMAE_POS :: nat where "I2C_DMA_CR_TDMAE_POS = 1"
definition I2C_DMA_CR_RDMAE_POS :: nat where "I2C_DMA_CR_RDMAE_POS = 0"
lemmas i2c_regs =
  I2C_CON_def I2C_TAR_def I2C_SAR_def I2C_DATA_CMD_def I2C_SS_SCL_HCNT_def I2C_SS_SCL_LCNT_def I2C_FS_SCL_HCNT_def
  I2C_FS_SCL_LCNT_def I2C_INTR_STAT_def I2C_INTR_MASK_def I2C_RAW_INTR_STAT_def I2C_RX_TL_def I2C_TX_TL_def
  I2C_CLR_INTR_def I2C_CLR_RX_OVER_def I2C_CLR_RD_REQ_def I2C_CLR_TX_ABRT_def I2C_CLR_STOP_DET_def I2C_ENABLE_def
  I2C_STATUS_def I2C_TX_ABRT_SOURCE_def I2C_DMA_CR_def I2C_DMA_TDLR_def I2C_DMA_RDLR_def I2C_ACK_GENERAL_CALL_def
lemmas i2c_masks =
  I2C_CON_STOP_DET_IFADDRESSED_MASK_def I2C_CON_IC_SLAVE_DISABLE_MASK_def I2C_CON_IC_RESTART_EN_MASK_def
  I2C_CON_IC_10BITADDR_SLAVE_MASK_def I2C_CON_SPEED_MASK_def I2C_CON_MASTER_MODE_MASK_def I2C_TAR_IC_TAR_MASK_def
  I2C_SAR_IC_SAR_MASK_def I2C_DATA_CMD_DAT_MASK_def I2C_INTR_STAT_R_STOP_DET_MASK_def
  I2C_INTR_STAT_R_TX_ABRT_MASK_def I2C_INTR_STAT_R_RD_REQ_MASK_def I2C_INTR_STAT_R_TX_EMPTY_MASK_def
  I2C_INTR_STAT_R_RX_FULL_MASK_def I2C_INTR_STAT_R_RX_OVER_MASK_def I2C_INTR_MASK_M_STOP_DET_MASK_def
  I2C_INTR_MASK_M_TX_ABRT_MASK_def I2C_INTR_MASK_M_RD_REQ_MASK_def I2C_INTR_MASK_M_TX_EMPTY_MASK_def
  I2C_INTR_MASK_M_RX_FULL_MASK_def I2C_INTR_MASK_M_RX_OVER_MASK_def I2C_RAW_INTR_STAT_STOP_DET_MASK_def
  I2C_RAW_INTR_STAT_TX_ABRT_MASK_def I2C_RAW_INTR_STAT_RD_REQ_MASK_def I2C_RAW_INTR_STAT_RX_FULL_MASK_def
  I2C_RAW_INTR_STAT_RX_OVER_MASK_def I2C_ENABLE_ABORT_MASK_def I2C_ENABLE_ENABLE_MASK_def I2C_STATUS_RFNE_MASK_def
  I2C_STATUS_TFNF_MASK_def I2C_STATUS_IC_STATUS_ACTIVITY_MASK_def I2C_ACK_GENERAL_CALL_ACK_GEN_CALL_MASK_def
  I2C_CON_IC_SLAVE_DISABLE_POS_def I2C_CON_IC_RESTART_EN_POS_def I2C_CON_SPEED_POS_def I2C_CON_MASTER_MODE_POS_def
  I2C_TAR_IC_TAR_POS_def I2C_DATA_CMD_STOP_POS_def I2C_DATA_CMD_CMD_POS_def I2C_ENABLE_ENABLE_POS_def
  I2C_DMA_CR_TDMAE_POS_def I2C_DMA_CR_RDMAE_POS_def

definition I2C_NO_INT :: u32 where "I2C_NO_INT = 0"
definition I2C_TX_EMPTY_INT :: u32 where "I2C_TX_EMPTY_INT = 1"
definition I2C_RX_FULL_INT :: u32 where "I2C_RX_FULL_INT = 2"
definition I2C_TX_ABORT_INT :: u32 where "I2C_TX_ABORT_INT = 4"
definition I2C_STOP_DET_INT :: u32 where "I2C_STOP_DET_INT = 8"
definition I2C_RD_REQ_INT :: u32 where "I2C_RD_REQ_INT = 16"
definition I2C_RX_OVER_INT :: u32 where "I2C_RX_OVER_INT = 32"
definition I2C_FIFO_DEPTH :: u32 where "I2C_FIFO_DEPTH = 64"
definition I2C_CONTRL_STD_SPEED :: u32 where "I2C_CONTRL_STD_SPEED = 1"
definition I2C_CONTRL_FAST_SPEED :: u32 where "I2C_CONTRL_FAST_SPEED = 2"
definition SS_SCL_HCNT_VAL :: u32 where "SS_SCL_HCNT_VAL = 400"
definition FS_SCL_HCNT_VAL :: u32 where "FS_SCL_HCNT_VAL = 60"
definition I2C_STANDARD_MODE_BPS :: u32 where "I2C_STANDARD_MODE_BPS = 100000"
definition I2C_FAST_MODE_BPS :: u32 where "I2C_FAST_MODE_BPS = 400000"
definition I2C_FAST_MODE_PLUS_BPS :: u32 where "I2C_FAST_MODE_PLUS_BPS = 1000000"
definition I2C_HIGH_SPEED_BPS :: u32 where "I2C_HIGH_SPEED_BPS = 3400000"
definition I2C_MODE_FAST :: u32 where "I2C_MODE_FAST = 2"
definition I2C_MODE_HS :: u32 where "I2C_MODE_HS = 3"

lemmas i2c_ints =
  I2C_NO_INT_def I2C_TX_EMPTY_INT_def I2C_RX_FULL_INT_def I2C_TX_ABORT_INT_def I2C_STOP_DET_INT_def
  I2C_RD_REQ_INT_def I2C_RX_OVER_INT_def

section \<open>Interrupts\<close>

definition i2c_enable_interrupt :: "u32 \<Rightarrow> u32 \<Rightarrow> ('x machine_scheme, unit) state" where
  "i2c_enable_interrupt base req = do {
     val \<leftarrow> RD_REG32 (base + I2C_INTR_MASK);
     let val = (if req AND I2C_TX_EMPTY_INT = I2C_TX_EMPTY_INT then val OR I2C_INTR_MASK_M_TX_EMPTY_MASK else val);
     let val = (if req AND I2C_RX_FULL_INT = I2C_RX_FULL_INT then val OR I2C_INTR_MASK_M_RX_FULL_MASK else val);
     let val = (if req AND I2C_TX_ABORT_INT = I2C_TX_ABORT_INT then val OR I2C_INTR_MASK_M_TX_ABRT_MASK else val);
     let val = (if req AND I2C_STOP_DET_INT = I2C_STOP_DET_INT then val OR I2C_INTR_MASK_M_STOP_DET_MASK else val);
     let val = (if req AND I2C_RD_REQ_INT = I2C_RD_REQ_INT then val OR I2C_INTR_MASK_M_RD_REQ_MASK else val);
     let val = (if req AND I2C_RX_OVER_INT = I2C_RX_OVER_INT then val OR I2C_INTR_MASK_M_RX_OVER_MASK else val);
     WR_REG32 (base + I2C_INTR_MASK) val
   }"

definition i2c_disable_interrupt :: "u32 \<Rightarrow> u32 \<Rightarrow> ('x machine_scheme, unit) state" where
  "i2c_disable_interrupt base req = do {
     val \<leftarrow> RD_REG32 (base + I2C_INTR_MASK);
     let val = (if req AND I2C_TX_EMPTY_INT = I2C_TX_EMPTY_INT then val AND NOT I2C_INTR_MASK_M_TX_EMPTY_MASK else val);
     let val = (if req AND I2C_RX_FULL_INT = I2C_RX_FULL_INT then val AND NOT I2C_INTR_MASK_M_RX_FULL_MASK else val);
     let val = (if req AND I2C_TX_ABORT_INT = I2C_TX_ABORT_INT then val AND NOT I2C_INTR_MASK_M_TX_ABRT_MASK else val);
     let val = (if req AND I2C_STOP_DET_INT = I2C_STOP_DET_INT then val AND NOT I2C_INTR_MASK_M_STOP_DET_MASK else val);
     let val = (if req AND I2C_RD_REQ_INT = I2C_RD_REQ_INT then val AND NOT I2C_INTR_MASK_M_RD_REQ_MASK else val);
     let val = (if req AND I2C_RX_OVER_INT = I2C_RX_OVER_INT then val AND NOT I2C_INTR_MASK_M_RX_OVER_MASK else val);
     WR_REG32 (base + I2C_INTR_MASK) val
   }"

definition i2c_status_of :: "u32 \<Rightarrow> u32" where
  "i2c_status_of val =
     (let res = I2C_NO_INT;
          res = (if val AND I2C_INTR_STAT_R_TX_EMPTY_MASK \<noteq> 0 then res OR I2C_TX_EMPTY_INT else res);
          res = (if val AND I2C_INTR_STAT_R_RX_FULL_MASK \<noteq> 0 then res OR I2C_RX_FULL_INT else res);
          res = (if val AND I2C_INTR_STAT_R_TX_ABRT_MASK \<noteq> 0 then res OR I2C_TX_ABORT_INT else res);
          res = (if val AND I2C_INTR_STAT_R_STOP_DET_MASK \<noteq> 0 then res OR I2C_STOP_DET_INT else res);
          res = (if val AND I2C_INTR_STAT_R_RD_REQ_MASK \<noteq> 0 then res OR I2C_RD_REQ_INT else res)
      in (if val AND I2C_INTR_STAT_R_RX_OVER_MASK \<noteq> 0 then res OR I2C_RX_OVER_INT else res))"

definition i2c_get_interrupt_status :: "u32 \<Rightarrow> ('x machine_scheme, u32) state" where
  "i2c_get_interrupt_status base = do {
     val \<leftarrow> RD_REG32 (base + I2C_INTR_STAT);
     ret (i2c_status_of val)
   }"

definition i2c_ll_get_raw_interrupt_status :: "u32 \<Rightarrow> ('x machine_scheme, u32) state" where
  "i2c_ll_get_raw_interrupt_status base = RD_REG32 (base + I2C_RAW_INTR_STAT)"

definition i2c_ll_get_tx_abrt_source :: "u32 \<Rightarrow> ('x machine_scheme, u32) state" where
  "i2c_ll_get_tx_abrt_source base = RD_REG32 (base + I2C_TX_ABRT_SOURCE)"

definition i2c_ll_clear_tx_abrt :: "u32 \<Rightarrow> ('x machine_scheme, unit) state" where
  "i2c_ll_clear_tx_abrt base = do { _ \<leftarrow> RD_REG32 (base + I2C_CLR_TX_ABRT); ret () }"

definition i2c_ll_clear_rd_req :: "u32 \<Rightarrow> ('x machine_scheme, unit) state" where
  "i2c_ll_clear_rd_req base = do { _ \<leftarrow> RD_REG32 (base + I2C_CLR_RD_REQ); ret () }"

definition i2c_ll_clear_stop_det :: "u32 \<Rightarrow> ('x machine_scheme, unit) state" where
  "i2c_ll_clear_stop_det base = do { _ \<leftarrow> RD_REG32 (base + I2C_CLR_STOP_DET); ret () }"

definition i2c_ll_clear_rx_over :: "u32 \<Rightarrow> ('x machine_scheme, unit) state" where
  "i2c_ll_clear_rx_over base = do { _ \<leftarrow> RD_REG32 (base + I2C_CLR_RX_OVER); ret () }"

definition i2c_ll_config_slave ::
  "u32 \<Rightarrow> u16 \<Rightarrow> bool \<Rightarrow> bool \<Rightarrow> bool \<Rightarrow> u8 \<Rightarrow> u8 \<Rightarrow> ('x machine_scheme, unit) state" where
  "i2c_ll_config_slave base slave_addr is_10bit_addr stop_det_ifaddressed ack_general_call rx_tl tx_tl = do {
     WR_REG32 (base + I2C_ENABLE) 0;
     WR_REG32 (base + I2C_SAR) (ucast slave_addr AND I2C_SAR_IC_SAR_MASK);
     val \<leftarrow> RD_REG32 (base + I2C_CON);
     let val = val AND NOT (I2C_CON_MASTER_MODE_MASK OR I2C_CON_IC_SLAVE_DISABLE_MASK
       OR I2C_CON_IC_10BITADDR_SLAVE_MASK OR I2C_CON_STOP_DET_IFADDRESSED_MASK);
     let val = (if is_10bit_addr then val OR I2C_CON_IC_10BITADDR_SLAVE_MASK else val);
     let val = (if stop_det_ifaddressed then val OR I2C_CON_STOP_DET_IFADDRESSED_MASK else val);
     let val = val OR I2C_CON_IC_RESTART_EN_MASK;
     WR_REG32 (base + I2C_CON) val;
     WR_REG32 (base + I2C_RX_TL) (ucast rx_tl);
     WR_REG32 (base + I2C_TX_TL) (ucast tx_tl);
     WR_REG32 (base + I2C_ACK_GENERAL_CALL)
       (if ack_general_call then I2C_ACK_GENERAL_CALL_ACK_GEN_CALL_MASK else 0);
     _ \<leftarrow> RD_REG32 (base + I2C_CLR_INTR);
     WR_REG32 (base + I2C_ENABLE) I2C_ENABLE_ENABLE_MASK
   }"

definition i2c_read_status :: "u32 \<Rightarrow> ('x machine_scheme, u32) state" where
  "i2c_read_status base = RD_REG32 (base + I2C_STATUS)"

definition i2c_clear_interrupt :: "u32 \<Rightarrow> ('x machine_scheme, unit) state" where
  "i2c_clear_interrupt base = do { _ \<leftarrow> RD_REG32 (base + I2C_CLR_INTR); ret () }"

section \<open>Transfers\<close>

definition i2c_set_target_addr :: "u32 \<Rightarrow> u16 \<Rightarrow> ('x machine_scheme, unit) state" where
  "i2c_set_target_addr base slave_addr = do {
     val \<leftarrow> RD_REG32 (base + I2C_ENABLE);
     WR_REG32 (base + I2C_ENABLE) (val AND NOT (push_bit I2C_ENABLE_ENABLE_POS 1));
     WR_REG32 (base + I2C_TAR) (push_bit I2C_TAR_IC_TAR_POS (ucast slave_addr AND I2C_TAR_IC_TAR_MASK));
     val \<leftarrow> RD_REG32 (base + I2C_ENABLE);
     WR_REG32 (base + I2C_ENABLE) (val OR push_bit I2C_ENABLE_ENABLE_POS 1)
   }"

text \<open>
  The loops over the FIFO: the first argument is the number of rounds that remain, the last the
  counter, which is also the index into the buffer. The counter is cut to 16 bits when it is
  returned.
\<close>

fun i2c_write_loop :: "nat \<Rightarrow> u32 \<Rightarrow> u64 \<Rightarrow> u32 \<Rightarrow> bool \<Rightarrow> u32 \<Rightarrow> ('x machine_scheme, u32) state" where
  "i2c_write_loop 0 base buf nbytes no_stop_flag nwr = ret nwr"
| "i2c_write_loop (Suc n) base buf nbytes no_stop_flag nwr = do {
     st \<leftarrow> RD_REG32 (base + I2C_STATUS);
     if st AND I2C_STATUS_TFNF_MASK = 0 then ret nwr
     else do {
       b \<leftarrow> peek (buf + ucast nwr);
       let val = (if nwr = nbytes - 1 \<and> \<not> no_stop_flag then ucast b OR push_bit I2C_DATA_CMD_STOP_POS 1 else ucast b);
       WR_REG32 (base + I2C_DATA_CMD) val;
       i2c_write_loop n base buf nbytes no_stop_flag (nwr + 1)
     }
   }"

definition i2c_write_fifo :: "u32 \<Rightarrow> u64 \<Rightarrow> u32 \<Rightarrow> bool \<Rightarrow> ('x machine_scheme, u16) state" where
  "i2c_write_fifo base buf nbytes no_stop_flag = do {
     nwr \<leftarrow> i2c_write_loop (unat nbytes) base buf nbytes no_stop_flag 0;
     ret (ucast nwr)
   }"

fun i2c_enq_loop :: "nat \<Rightarrow> u32 \<Rightarrow> u32 \<Rightarrow> bool \<Rightarrow> u32 \<Rightarrow> ('x machine_scheme, u32) state" where
  "i2c_enq_loop 0 base nbytes no_stop_flag ncmd = ret ncmd"
| "i2c_enq_loop (Suc n) base nbytes no_stop_flag ncmd = do {
     st \<leftarrow> RD_REG32 (base + I2C_STATUS);
     if st AND I2C_STATUS_TFNF_MASK = 0 then ret ncmd
     else do {
       let val = (if ncmd = nbytes - 1 \<and> \<not> no_stop_flag
         then push_bit I2C_DATA_CMD_STOP_POS 1 OR push_bit I2C_DATA_CMD_CMD_POS 1 else push_bit I2C_DATA_CMD_CMD_POS 1);
       WR_REG32 (base + I2C_DATA_CMD) val;
       i2c_enq_loop n base nbytes no_stop_flag (ncmd + 1)
     }
   }"

definition i2c_enq_read_cmd :: "u32 \<Rightarrow> u32 \<Rightarrow> bool \<Rightarrow> ('x machine_scheme, u16) state" where
  "i2c_enq_read_cmd base nbytes no_stop_flag = do {
     ncmd \<leftarrow> i2c_enq_loop (unat nbytes) base nbytes no_stop_flag 0;
     ret (ucast ncmd)
   }"

fun i2c_read_loop :: "nat \<Rightarrow> u32 \<Rightarrow> u64 \<Rightarrow> u32 \<Rightarrow> ('x machine_scheme, u32) state" where
  "i2c_read_loop 0 base buf nrd = ret nrd"
| "i2c_read_loop (Suc n) base buf nrd = do {
     st \<leftarrow> RD_REG32 (base + I2C_STATUS);
     if st AND I2C_STATUS_RFNE_MASK = 0 then ret nrd
     else do {
       val \<leftarrow> RD_REG32 (base + I2C_DATA_CMD);
       poke (buf + ucast nrd) (ucast (ucast (ucast val :: u8) AND I2C_DATA_CMD_DAT_MASK));
       i2c_read_loop n base buf (nrd + 1)
     }
   }"

definition i2c_read_fifo :: "u32 \<Rightarrow> u64 \<Rightarrow> u32 \<Rightarrow> ('x machine_scheme, u16) state" where
  "i2c_read_fifo base buf nbytes = do {
     nrd \<leftarrow> i2c_read_loop (unat nbytes) base buf 0;
     ret (ucast nrd)
   }"

section \<open>Configuration\<close>

definition i2c_config_master :: "u32 \<Rightarrow> u32 \<Rightarrow> ('x machine_scheme, u32) state" where
  "i2c_config_master base speed = do {
     val \<leftarrow> RD_REG32 (base + I2C_ENABLE);
     WR_REG32 (base + I2C_ENABLE) (val AND NOT (push_bit I2C_ENABLE_ENABLE_POS 1));
     known \<leftarrow> (if speed \<le> I2C_STANDARD_MODE_BPS then do {
         con \<leftarrow> RD_REG32 (base + I2C_CON);
         WR_REG32 (base + I2C_CON) (con AND NOT I2C_CON_SPEED_MASK OR push_bit I2C_CON_SPEED_POS I2C_CONTRL_STD_SPEED);
         WR_REG32 (base + I2C_SS_SCL_HCNT) SS_SCL_HCNT_VAL;
         WR_REG32 (base + I2C_SS_SCL_LCNT) SS_SCL_HCNT_VAL;
         ret True
       } else if speed \<le> I2C_FAST_MODE_PLUS_BPS then do {
         con \<leftarrow> RD_REG32 (base + I2C_CON);
         WR_REG32 (base + I2C_CON) (con AND NOT I2C_CON_SPEED_MASK OR push_bit I2C_CON_SPEED_POS I2C_CONTRL_FAST_SPEED);
         WR_REG32 (base + I2C_FS_SCL_HCNT) FS_SCL_HCNT_VAL;
         WR_REG32 (base + I2C_FS_SCL_LCNT) FS_SCL_HCNT_VAL;
         ret True
       } else ret False);
     if \<not> known then ret 0
     else do {
       val \<leftarrow> RD_REG32 (base + I2C_ENABLE);
       WR_REG32 (base + I2C_ENABLE) (val OR push_bit I2C_ENABLE_ENABLE_POS 1);
       ret 1
     }
   }"

definition i2c_get_config :: "u32 \<Rightarrow> ('x machine_scheme, u32) state" where
  "i2c_get_config base = do {
     con \<leftarrow> RD_REG32 (base + I2C_CON);
     let val = drop_bit I2C_CON_SPEED_POS (con AND I2C_CON_SPEED_MASK);
     ret (if val = I2C_MODE_FAST then I2C_FAST_MODE_BPS
          else if val = I2C_MODE_HS then I2C_HIGH_SPEED_BPS
          else I2C_STANDARD_MODE_BPS)
   }"

definition i2c_ll_disable_controller :: "u32 \<Rightarrow> ('x machine_scheme, unit) state" where
  "i2c_ll_disable_controller base = WR_REG32 (base + I2C_ENABLE) 0"

definition i2c_ll_enable_controller :: "u32 \<Rightarrow> ('x machine_scheme, unit) state" where
  "i2c_ll_enable_controller base = WR_REG32 (base + I2C_ENABLE) (push_bit I2C_ENABLE_ENABLE_POS 1)"

definition i2c_ll_set_interrupt_mask :: "u32 \<Rightarrow> u32 \<Rightarrow> ('x machine_scheme, unit) state" where
  "i2c_ll_set_interrupt_mask base m = WR_REG32 (base + I2C_INTR_MASK) m"

definition i2c_ll_init_controller :: "u32 \<Rightarrow> ('x machine_scheme, unit) state" where
  "i2c_ll_init_controller base = do {
     i2c_ll_disable_controller base;
     WR_REG32 (base + I2C_CON) (push_bit I2C_CON_MASTER_MODE_POS 1 OR push_bit I2C_CON_IC_SLAVE_DISABLE_POS 1
       OR push_bit I2C_CON_IC_RESTART_EN_POS 1 OR push_bit I2C_CON_SPEED_POS I2C_CONTRL_STD_SPEED);
     i2c_ll_set_interrupt_mask base 0;
     i2c_ll_enable_controller base
   }"

definition i2c_ll_deinit_controller :: "u32 \<Rightarrow> ('x machine_scheme, unit) state" where
  "i2c_ll_deinit_controller base = do {
     i2c_ll_set_interrupt_mask base 0;
     i2c_ll_disable_controller base;
     _ \<leftarrow> RD_REG32 (base + I2C_CLR_TX_ABRT);
     ret ()
   }"

definition i2c_init :: "u32 \<Rightarrow> ('x machine_scheme, unit) state" where
  "i2c_init base = i2c_ll_init_controller base"

definition i2c_deinit :: "u32 \<Rightarrow> ('x machine_scheme, unit) state" where
  "i2c_deinit base = i2c_ll_deinit_controller base"

definition i2c_ll_cancel :: "u32 \<Rightarrow> ('x machine_scheme, unit) state" where
  "i2c_ll_cancel base = do {
     val \<leftarrow> RD_REG32 (base + I2C_ENABLE);
     WR_REG32 (base + I2C_ENABLE) (val OR I2C_ENABLE_ABORT_MASK);
     _ \<leftarrow> RD_REG32 (base + I2C_CLR_TX_ABRT);
     ret ()
   }"

section \<open>DMA\<close>

definition i2c_ll_tdma_enable :: "u32 \<Rightarrow> ('x machine_scheme, unit) state" where
  "i2c_ll_tdma_enable base = do {
     val \<leftarrow> RD_REG32 (base + I2C_DMA_CR);
     WR_REG32 (base + I2C_DMA_CR) (val OR push_bit I2C_DMA_CR_TDMAE_POS 1)
   }"

definition i2c_ll_rdma_enable :: "u32 \<Rightarrow> ('x machine_scheme, unit) state" where
  "i2c_ll_rdma_enable base = do {
     val \<leftarrow> RD_REG32 (base + I2C_DMA_CR);
     WR_REG32 (base + I2C_DMA_CR) (val OR push_bit I2C_DMA_CR_RDMAE_POS 1)
   }"

definition i2c_ll_tdma_disable :: "u32 \<Rightarrow> ('x machine_scheme, unit) state" where
  "i2c_ll_tdma_disable base = do {
     val \<leftarrow> RD_REG32 (base + I2C_DMA_CR);
     WR_REG32 (base + I2C_DMA_TDLR) 0;
     WR_REG32 (base + I2C_DMA_CR) (val AND NOT (push_bit I2C_DMA_CR_TDMAE_POS 1))
   }"

definition i2c_ll_rdma_disable :: "u32 \<Rightarrow> ('x machine_scheme, unit) state" where
  "i2c_ll_rdma_disable base = do {
     val \<leftarrow> RD_REG32 (base + I2C_DMA_CR);
     WR_REG32 (base + I2C_DMA_RDLR) 0;
     WR_REG32 (base + I2C_DMA_CR) (val AND NOT (push_bit I2C_DMA_CR_RDMAE_POS 1))
   }"

definition i2c_ll_set_tdlr :: "u32 \<Rightarrow> u32 \<Rightarrow> ('x machine_scheme, unit) state" where
  "i2c_ll_set_tdlr base burst_size = WR_REG32 (base + I2C_DMA_TDLR) (I2C_FIFO_DEPTH - burst_size)"

definition i2c_ll_set_rdlr :: "u32 \<Rightarrow> u32 \<Rightarrow> ('x machine_scheme, unit) state" where
  "i2c_ll_set_rdlr base burst_size = WR_REG32 (base + I2C_DMA_RDLR) (burst_size - 1)"

lemmas i2c_ll_defs =
  i2c_enable_interrupt_def i2c_disable_interrupt_def i2c_get_interrupt_status_def
  i2c_ll_get_raw_interrupt_status_def i2c_ll_clear_tx_abrt_def i2c_ll_clear_rd_req_def i2c_ll_clear_stop_det_def
  i2c_ll_clear_rx_over_def i2c_ll_config_slave_def i2c_read_status_def i2c_clear_interrupt_def
  i2c_set_target_addr_def i2c_config_master_def i2c_get_config_def i2c_ll_disable_controller_def
  i2c_ll_enable_controller_def i2c_ll_set_interrupt_mask_def i2c_ll_init_controller_def
  i2c_ll_deinit_controller_def i2c_init_def i2c_deinit_def i2c_ll_cancel_def i2c_ll_tdma_enable_def
  i2c_ll_rdma_enable_def i2c_ll_tdma_disable_def i2c_ll_rdma_disable_def i2c_ll_set_tdlr_def i2c_ll_set_rdlr_def


section \<open>The interrupt numbering\<close>

text \<open>Bit of the driver's numbering, bit of the registers.\<close>

definition i2c_int_bits :: "(nat \<times> nat) list" where
  "i2c_int_bits = [(0, 4), (1, 2), (2, 6), (3, 9), (4, 5), (5, 1)]"

definition i2c_mask_of :: "u32 \<Rightarrow> u32" where
  "i2c_mask_of req = foldr (\<lambda>(i, b) v. (if bit req i then push_bit b 1 else 0) OR v) i2c_int_bits 0"

lemma and_pow_bit:
  "(w :: u32) AND 1 = 1 \<longleftrightarrow> bit w 0" "w AND 2 = 2 \<longleftrightarrow> bit w 1" "w AND 4 = 4 \<longleftrightarrow> bit w 2"
  "w AND 8 = 8 \<longleftrightarrow> bit w 3" "w AND 16 = 16 \<longleftrightarrow> bit w 4" "w AND 32 = 32 \<longleftrightarrow> bit w 5"
proof -
  have "w AND push_bit k 1 = push_bit k 1 \<longleftrightarrow> bit w k" if "k < 32" for k
  proof
    assume "w AND push_bit k 1 = push_bit k 1"
    then have "bit (w AND push_bit k 1) k = bit (push_bit k 1 :: u32) k" by simp
    then show "bit w k" using that by (simp add: bit_and_iff bit_push_bit_iff del: push_bit_of_1)
  next
    assume "bit w k"
    then show "w AND push_bit k 1 = push_bit k 1"
      by (intro bit_word_eqI) (auto simp: bit_simps)
  qed
  from this [of 0] this [of 1] this [of 2] this [of 3] this [of 4] this [of 5]
  show "w AND 1 = 1 \<longleftrightarrow> bit w 0" "w AND 2 = 2 \<longleftrightarrow> bit w 1" "w AND 4 = 4 \<longleftrightarrow> bit w 2"
    "w AND 8 = 8 \<longleftrightarrow> bit w 3" "w AND 16 = 16 \<longleftrightarrow> bit w 4" "w AND 32 = 32 \<longleftrightarrow> bit w 5"
    by simp_all
qed

lemma i2c_mask_unfold:
  "i2c_mask_of req = (if bit req 0 then 16 else 0) OR ((if bit req 1 then 4 else 0) OR ((if bit req 2 then 64 else 0)
     OR ((if bit req 3 then 512 else 0) OR ((if bit req 4 then 32 else 0) OR (if bit req 5 then 2 else 0)))))"
  by (simp add: i2c_mask_of_def i2c_int_bits_def)

lemma run_i2c_interrupts:
  "run_state (i2c_enable_interrupt base req) s =
     (let a = ucast (base + I2C_INTR_MASK); v = hw_rd32 (env s) (trace s) a
      in ((), s\<lparr>trace := Wr32 a (v OR i2c_mask_of req) # Rd32 a v # trace s\<rparr>))"
  "run_state (i2c_disable_interrupt base req) s =
     (let a = ucast (base + I2C_INTR_MASK); v = hw_rd32 (env s) (trace s) a
      in ((), s\<lparr>trace := Wr32 a (v AND NOT (i2c_mask_of req)) # Rd32 a v # trace s\<rparr>))"
  by (simp_all add: i2c_enable_interrupt_def i2c_disable_interrupt_def Let_def i2c_ints i2c_masks and_pow_bit
      i2c_mask_unfold or.assoc and.assoc)

text \<open>The status of exactly the interrupts in a mask is reported by their numbers.\<close>

lemma i2c_status_of_mask: "i2c_status_of (i2c_mask_of req) = req AND mask 6"
proof -
  have "req AND mask 6 = horner_sum of_bool 2 (map (bit req) [0..<6])"
    by (simp only: take_bit_eq_mask [symmetric] horner_sum_bit_eq_take_bit)
  also have "[0..<6] = [0, 1, 2, 3, 4, 5 :: nat]"
    by (simp add: upt_rec)
  finally show ?thesis
    unfolding i2c_mask_unfold
    by (cases "bit req 0"; cases "bit req 1"; cases "bit req 2"; cases "bit req 3"; cases "bit req 4"; cases "bit req 5";
        simp add: i2c_status_of_def i2c_ints i2c_masks)
qed

section \<open>What the loops send\<close>

definition cmd_reg :: "u32 \<Rightarrow> u64" where
  "cmd_reg base = ucast (base + I2C_DATA_CMD)"

text \<open>The values read from a register, oldest first.\<close>

fun received :: "u64 \<Rightarrow> ev list \<Rightarrow> u32 list" where
  "received a [] = []"
| "received a (Rd32 b v # t) = (if b = a then received a t @ [v] else received a t)"
| "received a (_ # t) = received a t"

definition avoids :: "u64 \<Rightarrow> ev \<Rightarrow> bool" where
  "avoids a e \<longleftrightarrow> (\<forall>v. e \<noteq> Rd32 a v)"

lemma avoids_simps [simp]:
  "avoids a (Rd32 b v) \<longleftrightarrow> b \<noteq> a" "avoids a (Wr32 b v)" "avoids a (Kern q d)" "avoids a (Call f p xs)" "avoids a (UB w)"
  by (auto simp: avoids_def)

lemma received_avoids: "list_all (avoids a) es \<Longrightarrow> received a (es @ t) = received a t"
proof (induction es)
  case (Cons e es)
  then show ?case by (cases e) auto
qed simp

text \<open>
  The command words of a transfer: a byte or a read command each, with a stop after the last
  unless the transfer is to keep the bus.
\<close>

definition write_cmds :: "(u64 \<Rightarrow> u8) \<Rightarrow> u64 \<Rightarrow> nat \<Rightarrow> bool \<Rightarrow> u32 list" where
  "write_cmds m buf n no_stop = map (\<lambda>i. ucast (m (buf + word_of_nat i)) OR (if Suc i = n \<and> \<not> no_stop then 0x200 else 0)) [0..<n]"

definition read_cmds :: "nat \<Rightarrow> bool \<Rightarrow> u32 list" where
  "read_cmds n no_stop = map (\<lambda>i. if Suc i = n \<and> \<not> no_stop then 0x300 else 0x100) [0..<n]"

interpretation i2c_writer: fifo_filler "\<lambda>r. i2c_write_loop r base buf nbytes nsf" "base + I2C_STATUS" "base + I2C_DATA_CMD"
    "\<lambda>st. st AND I2C_STATUS_TFNF_MASK \<noteq> 0"
    "\<lambda>m c. if c = nbytes - 1 \<and> \<not> nsf then ucast (m (buf + ucast c)) OR push_bit I2C_DATA_CMD_STOP_POS 1
       else ucast (m (buf + ucast c))" for base buf nbytes nsf
  by unfold_locales (simp_all add: Let_def)

interpretation i2c_reader: fifo_filler "\<lambda>r. i2c_enq_loop r base nbytes nsf" "base + I2C_STATUS" "base + I2C_DATA_CMD"
    "\<lambda>st. st AND I2C_STATUS_TFNF_MASK \<noteq> 0"
    "\<lambda>m c. if c = nbytes - 1 \<and> \<not> nsf then push_bit I2C_DATA_CMD_STOP_POS 1 OR push_bit I2C_DATA_CMD_CMD_POS 1
       else push_bit I2C_DATA_CMD_CMD_POS 1" for base nbytes nsf
  by unfold_locales (simp_all add: Let_def)

lemma last_index: "n < 2 ^ 32 \<Longrightarrow> j < n \<Longrightarrow> word_of_nat j = (word_of_nat n - 1 :: u32) \<longleftrightarrow> Suc j = n"
proof -
  assume n: "n < 2 ^ 32" "j < n"
  then have "(word_of_nat n - 1 :: u32) = word_of_nat (n - 1)"
    by (simp add: of_nat_diff)
  moreover have "word_of_nat j = (word_of_nat (n - 1) :: u32) \<longleftrightarrow> j = n - 1"
    using n by (simp add: word_unat_eq_iff unsigned_of_nat take_bit_nat_eq_self del: of_nat_diff)
  ultimately show ?thesis using n(2) by (metis Suc_pred' less_nat_zero_code not_gr_zero old.nat.inject)
qed

lemma ucast_u32_of_nat: "i < 2 ^ 32 \<Longrightarrow> (ucast (word_of_nat i :: u32) :: u64) = word_of_nat i"
  by (simp add: word_unat_eq_iff unsigned_ucast_eq unsigned_of_nat take_bit_nat_eq_self)

lemma ucast_u16_u64_of_nat: "k < 65536 \<Longrightarrow> (ucast (ucast (word_of_nat k :: u32) :: u16) :: u64) = word_of_nat k"
  by (simp add: word_unat_eq_iff unsigned_ucast_eq unsigned_of_nat take_bit_nat_eq_self)

lemma map_upt_prefix:
  "k \<le> n \<Longrightarrow> (\<And>j. j < n \<Longrightarrow> f j = g j) \<Longrightarrow> map f [0..<k] = take k (map g [0..<n])"
  by (simp add: take_map)

lemma ucast_u16_u32_of_nat: "k < 65536 \<Longrightarrow> ucast (word_of_nat k :: u32) = (word_of_nat k :: u16)"
  by (simp add: word_unat_eq_iff unsigned_ucast_eq unsigned_of_nat take_bit_nat_eq_self)

lemma loop_received:
  assumes "t = es @ trace s"
    and "list_all (\<lambda>e. \<exists>v. e = Rd32 (ucast (base + I2C_STATUS)) v \<or> e = Wr32 (ucast (base + I2C_DATA_CMD)) v) es"
  shows "received (cmd_reg base) t = received (cmd_reg base) (trace s)"
proof -
  have "list_all (avoids (cmd_reg base)) es"
    using assms(2) by (rule list.pred_mono_strong) (auto simp: cmd_reg_def i2c_regs)
  then show ?thesis
    unfolding assms(1) by (rule received_avoids)
qed

lemma i2c_fifo_sends:
  assumes "unat n < 65536"
  obtains k t where "k \<le> unat n"
    "run_state (i2c_write_fifo base buf n nsf) s = (word_of_nat k, s\<lparr>trace := t\<rparr>)"
    "sent (cmd_reg base) t = sent (cmd_reg base) (trace s) @ take k (write_cmds (mem s) buf (unat n) nsf)"
    "received (cmd_reg base) t = received (cmd_reg base) (trace s)"
proof -
  let ?item = "\<lambda>j. if word_of_nat j = n - 1 \<and> \<not> nsf
        then ucast (mem s (buf + ucast (word_of_nat j :: u32))) OR push_bit I2C_DATA_CMD_STOP_POS 1
        else ucast (mem s (buf + ucast (word_of_nat j :: u32))) :: u32"
  obtain k t es where k: "k \<le> unat n"
    and run: "run_state (i2c_write_loop (unat n) base buf n nsf 0) s = (word_of_nat k, s\<lparr>trace := t\<rparr>)"
    and snt: "sent (cmd_reg base) t = sent (cmd_reg base) (trace s) @ map ?item [0..<k]"
    and es: "t = es @ trace s"
      "list_all (\<lambda>e. \<exists>v. e = Rd32 (ucast (base + I2C_STATUS)) v \<or> e = Wr32 (ucast (base + I2C_DATA_CMD)) v) es"
    using i2c_writer.fills [of "unat n" base buf n nsf 0 s] unfolding cmd_reg_def by auto
  have "map ?item [0..<k] = take k (write_cmds (mem s) buf (unat n) nsf)"
    unfolding write_cmds_def using k
    by (rule map_upt_prefix) (use last_index [of "unat n"] assms in \<open>simp add: ucast_u32_of_nat I2C_DATA_CMD_STOP_POS_def\<close>)
  with that [OF k _ snt [unfolded this] loop_received [OF es]] run show ?thesis
    using k assms by (simp add: i2c_write_fifo_def ucast_u16_u32_of_nat)
qed

lemma enq_read_sends:
  assumes "unat n < 65536"
  obtains k t where "k \<le> unat n"
    "run_state (i2c_enq_read_cmd base n nsf) s = (word_of_nat k, s\<lparr>trace := t\<rparr>)"
    "sent (cmd_reg base) t = sent (cmd_reg base) (trace s) @ take k (read_cmds (unat n) nsf)"
    "received (cmd_reg base) t = received (cmd_reg base) (trace s)"
proof -
  let ?item = "\<lambda>j. if word_of_nat j = n - 1 \<and> \<not> nsf
        then push_bit I2C_DATA_CMD_STOP_POS 1 OR push_bit I2C_DATA_CMD_CMD_POS 1
        else push_bit I2C_DATA_CMD_CMD_POS 1 :: u32"
  obtain k t es where k: "k \<le> unat n"
    and run: "run_state (i2c_enq_loop (unat n) base n nsf 0) s = (word_of_nat k, s\<lparr>trace := t\<rparr>)"
    and snt: "sent (cmd_reg base) t = sent (cmd_reg base) (trace s) @ map ?item [0..<k]"
    and es: "t = es @ trace s"
      "list_all (\<lambda>e. \<exists>v. e = Rd32 (ucast (base + I2C_STATUS)) v \<or> e = Wr32 (ucast (base + I2C_DATA_CMD)) v) es"
    using i2c_reader.fills [of "unat n" base n nsf 0 s] unfolding cmd_reg_def by auto
  have "map ?item [0..<k] = take k (read_cmds (unat n) nsf)"
    unfolding read_cmds_def using k
    by (rule map_upt_prefix)
      (use last_index [of "unat n"] assms in \<open>simp add: I2C_DATA_CMD_STOP_POS_def I2C_DATA_CMD_CMD_POS_def\<close>)
  with that [OF k _ snt [unfolded this] loop_received [OF es]] run show ?thesis
    using k assms by (simp add: i2c_enq_read_cmd_def ucast_u16_u32_of_nat)
qed

text \<open>What remains to be sent after a prefix is the transfer of the rest of the buffer.\<close>

lemma cmds_rest:
  "k \<le> n \<Longrightarrow> write_cmds m (buf + word_of_nat k) (n - k) nsf = drop k (write_cmds m buf n nsf)"
  "k \<le> n \<Longrightarrow> read_cmds (n - k) nsf = drop k (read_cmds n nsf)"
  by (auto simp: write_cmds_def read_cmds_def list_eq_iff_nth_eq add.assoc)

lemma length_cmds [simp]: "length (write_cmds m buf n nsf) = n" "length (read_cmds n nsf) = n"
  by (simp_all add: write_cmds_def read_cmds_def)


section \<open>What the loop receives\<close>

lemma ucast_dat: "ucast (ucast (ucast (v :: u32) :: u8) AND I2C_DATA_CMD_DAT_MASK) = (ucast v :: u8)"
proof -
  have m: "I2C_DATA_CMD_DAT_MASK = mask 8"
    by (simp add: I2C_DATA_CMD_DAT_MASK_def mask_eq_exp_minus_1)
  show ?thesis
    unfolding m by (rule bit_word_eqI) (auto simp: bit_simps)
qed

text \<open>The effect on the memory of the values that were taken, the first with the counter \<open>i\<close>.\<close>

fun taken :: "((u64 \<Rightarrow> u8) \<Rightarrow> u32 \<Rightarrow> u32 \<Rightarrow> (u64 \<Rightarrow> u8)) \<Rightarrow> (u64 \<Rightarrow> u8) \<Rightarrow> nat \<Rightarrow> u32 list \<Rightarrow> (u64 \<Rightarrow> u8)" where
  "taken keep m i [] = m"
| "taken keep m i (v # vs) = taken keep (keep m (word_of_nat i) v) (Suc i) vs"

text \<open>
  What a loop promises that empties a FIFO: a round asks the status, takes an item from the data
  register and keeps it, unless there is none.
\<close>

locale fifo_drainer =
  fixes loop :: "nat \<Rightarrow> u32 \<Rightarrow> ('x machine_scheme, u32) state"
    and status data :: u32
    and avail :: "u32 \<Rightarrow> bool"
    and keep :: "(u64 \<Rightarrow> u8) \<Rightarrow> u32 \<Rightarrow> u32 \<Rightarrow> (u64 \<Rightarrow> u8)"
  assumes loop_none: "loop 0 c = ret c"
    and loop_more: "run_state (loop (Suc r) c) s =
      (let st = hw_rd32 (env s) (trace s) (ucast status); t1 = Rd32 (ucast status) st # trace s;
           v = hw_rd32 (env s) t1 (ucast data)
       in if avail st then run_state (loop r (c + 1)) (s\<lparr>trace := Rd32 (ucast data) v # t1, mem := keep (mem s) c v\<rparr>)
          else (c, s\<lparr>trace := t1\<rparr>))"
    and apart: "(ucast status :: u64) \<noteq> ucast data"
begin

lemma drains:
  "\<exists>vs t. length vs \<le> r
    \<and> run_state (loop r (word_of_nat i)) s =
        (word_of_nat (i + length vs), s\<lparr>trace := t, mem := taken keep (mem s) i vs\<rparr>)
    \<and> received (ucast data) t = received (ucast data) (trace s) @ vs
    \<and> sent (ucast data) t = sent (ucast data) (trace s)"
proof (induction r arbitrary: i s)
  case 0
  then show ?case
    by (intro exI [of _ "[]"] exI [of _ "trace s"]) (simp add: loop_none)
next
  case (Suc r)
  let ?st = "hw_rd32 (env s) (trace s) (ucast status)"
  let ?t1 = "Rd32 (ucast status) ?st # trace s"
  show ?case
  proof (cases "avail ?st")
    case False
    then show ?thesis
      using apart by (intro exI [of _ "[]"] exI [of _ ?t1]) (simp add: loop_more Let_def)
  next
    case True
    let ?v = "hw_rd32 (env s) ?t1 (ucast data)"
    let ?s = "s\<lparr>trace := Rd32 (ucast data) ?v # ?t1, mem := keep (mem s) (word_of_nat i) ?v\<rparr>"
    obtain vs t where vs: "length vs \<le> r"
      and run: "run_state (loop r (word_of_nat (Suc i))) ?s =
        (word_of_nat (Suc i + length vs), ?s\<lparr>trace := t, mem := taken keep (mem ?s) (Suc i) vs\<rparr>)"
      and rcv: "received (ucast data) t = received (ucast data) (trace ?s) @ vs"
      and snt: "sent (ucast data) t = sent (ucast data) (trace ?s)"
      using Suc.IH [of "Suc i" ?s] by blast
    have "run_state (loop (Suc r) (word_of_nat i)) s = run_state (loop r (word_of_nat (Suc i))) ?s"
      using True by (simp add: loop_more Let_def add.commute)
    then show ?thesis
      using vs run rcv snt apart
      by (intro exI [of _ "?v # vs"] exI [of _ t]) (simp add: add.commute add.left_commute)
  qed
qed

end

interpretation i2c_drainer: fifo_drainer "\<lambda>r. i2c_read_loop r base buf" "base + I2C_STATUS" "base + I2C_DATA_CMD"
    "\<lambda>st. st AND I2C_STATUS_RFNE_MASK \<noteq> 0" "\<lambda>m c v. m(buf + ucast c := ucast v)" for base buf
  by unfold_locales (simp_all add: Let_def ucast_dat i2c_regs)

text \<open>Keeping each byte at its place in a buffer, and keeping nothing.\<close>

lemma taken_bytes:
  "i + length vs < 2 ^ 32 \<Longrightarrow>
   taken (\<lambda>m c v. m(buf + ucast c := ucast v)) m i vs = store_bytes m (buf + word_of_nat i) (map ucast vs)"
  by (induction vs arbitrary: m i) (simp_all add: ucast_u32_of_nat add.commute add.left_commute)

lemma taken_nothing: "taken (\<lambda>m c v. m) m i vs = m"
  by (induction vs arbitrary: i) simp_all

lemma read_fifo_stores:
  assumes "unat n < 65536"
  obtains vs t where "length vs \<le> unat n"
    "run_state (i2c_read_fifo base buf n) s =
       (word_of_nat (length vs), s\<lparr>trace := t, mem := store_bytes (mem s) buf (map ucast vs)\<rparr>)"
    "received (cmd_reg base) t = received (cmd_reg base) (trace s) @ vs"
    "sent (cmd_reg base) t = sent (cmd_reg base) (trace s)"
proof -
  obtain vs t where "length vs \<le> unat n"
    and "run_state (i2c_read_loop (unat n) base buf 0) s =
       (word_of_nat (length vs), s\<lparr>trace := t, mem := taken (\<lambda>m c v. m(buf + ucast c := ucast v)) (mem s) 0 vs\<rparr>)"
    and "received (cmd_reg base) t = received (cmd_reg base) (trace s) @ vs" "sent (cmd_reg base) t = sent (cmd_reg base) (trace s)"
    using i2c_drainer.drains [of "unat n" base buf 0 s] unfolding cmd_reg_def by auto
  then show ?thesis
    using that assms by (simp add: i2c_read_fifo_def ucast_u16_u32_of_nat taken_bytes)
qed

section \<open>Speed\<close>

lemma i2c_speed_roundtrip:
  assumes "reg_holds (env s) (ucast (base + I2C_CON))" and "speed \<le> I2C_FAST_MODE_PLUS_BPS"
  shows "result (i2c_config_master base speed) s = 1"
    and "result (i2c_get_config base) (final (i2c_config_master base speed) s) =
      (if speed \<le> I2C_STANDARD_MODE_BPS then I2C_STANDARD_MODE_BPS else I2C_FAST_MODE_BPS)"
proof -
  let ?a = "ucast (base + I2C_CON) :: u64"
  show "result (i2c_config_master base speed) s = 1"
    using assms(2) by (simp add: i2c_config_master_def split_beta)
  have six: "(6 :: u32) = push_bit 1 (mask 2)"
    by (simp add: mask_eq_exp_minus_1)
  have field: "drop_bit 1 ((w AND NOT 6 OR push_bit 1 c) AND 6) = c" if "unat c < 2 ^ 2" for w c :: u32
  proof (rule bit_word_eqI)
    show "bit (drop_bit 1 ((w AND NOT 6 OR push_bit 1 c) AND 6)) n = bit c n" if "n < LENGTH(32)" for n
      unfolding six using that small_word_bit [OF \<open>unat c < 2 ^ 2\<close>, of n]
      by (cases "n < 2") (auto simp: bit_simps simp del: push_bit_Suc)
  qed
  have run: "\<exists>t. final (i2c_config_master base speed) s = s\<lparr>trace := t\<rparr> \<and> last_wr32 t ?a = Some
      (hw_rd32 (env s) (Wr32 (ucast (base + I2C_ENABLE)) (hw_rd32 (env s) (trace s) (ucast (base + I2C_ENABLE)) AND NOT 1)
         # Rd32 (ucast (base + I2C_ENABLE)) (hw_rd32 (env s) (trace s) (ucast (base + I2C_ENABLE))) # trace s) ?a
       AND NOT 6 OR push_bit 1 (if speed \<le> I2C_STANDARD_MODE_BPS then 1 else 2))"
    using assms(2) by (auto simp: i2c_config_master_def split_beta i2c_masks i2c_regs I2C_CONTRL_STD_SPEED_def
        I2C_CONTRL_FAST_SPEED_def)
  then obtain t w where "final (i2c_config_master base speed) s = s\<lparr>trace := t\<rparr>"
      "last_wr32 t ?a = Some (w AND NOT 6 OR push_bit 1 (if speed \<le> I2C_STANDARD_MODE_BPS then 1 else 2))"
    by blast
  moreover from this(2) have "hw_rd32 (env s) t ?a = w AND NOT 6 OR push_bit 1 (if speed \<le> I2C_STANDARD_MODE_BPS then 1 else 2)"
    by (rule reg_holdsD [OF assms(1)])
  ultimately show "result (i2c_get_config base) (final (i2c_config_master base speed) s) =
      (if speed \<le> I2C_STANDARD_MODE_BPS then I2C_STANDARD_MODE_BPS else I2C_FAST_MODE_BPS)"
    using field [of 1 w] field [of 2 w]
    by (simp add: i2c_get_config_def i2c_masks I2C_MODE_FAST_def I2C_MODE_HS_def)
qed

text \<open>
  A speed that is not supported leaves the controller disabled, and the low count of the clock is
  given the value of the high count.
\<close>

lemma i2c_unsupported_speed:
  assumes "speed > I2C_FAST_MODE_PLUS_BPS"
  shows "result (i2c_config_master base speed) s = 0"
    and "\<exists>v. last_wr32 (trace (final (i2c_config_master base speed) s)) (ucast (base + I2C_ENABLE)) = Some v \<and> \<not> bit v 0"
proof -
  have "\<not> speed \<le> I2C_STANDARD_MODE_BPS"
    using assms by (simp add: I2C_STANDARD_MODE_BPS_def I2C_FAST_MODE_PLUS_BPS_def word_less_nat_alt word_le_nat_alt)
  with assms show "result (i2c_config_master base speed) s = 0"
    and "\<exists>v. last_wr32 (trace (final (i2c_config_master base speed) s)) (ucast (base + I2C_ENABLE)) = Some v \<and> \<not> bit v 0"
    by (auto simp: i2c_config_master_def split_beta bit_simps i2c_masks)
qed

lemma i2c_low_count:
  "speed \<le> I2C_STANDARD_MODE_BPS \<Longrightarrow>
   last_wr32 (trace (final (i2c_config_master base speed) s)) (ucast (base + I2C_SS_SCL_LCNT)) = Some SS_SCL_HCNT_VAL"
  by (simp add: i2c_config_master_def split_beta i2c_regs)

end
