(* ===== verification/I2c.thy ===== *)
theory I2c
  imports I2c_LL
begin

unbundle bit_operations_syntax

text \<open>
  The I2C driver, \<^verbatim>\<open>drivers/i2c/socfpga_i2c.c\<close>: five controllers, as bus master or slave, with
  transfers by interrupt or by DMA. The words a DMA read needs are built in a static array whose
  address is a field of the state; the lists of blocks are built before each transfer.
\<close>

section \<open>State\<close>

abbreviation ENXIO :: int where "ENXIO \<equiv> 6"

definition MAX_I2C_INSTANCES :: u32 where "MAX_I2C_INSTANCES = 5"
definition MAX_I2C_BLK_XFERS :: u64 where "MAX_I2C_BLK_XFERS = 8"
definition I2C_DMA_XFER_BLK_SIZE :: u64 where "I2C_DMA_XFER_BLK_SIZE = 512"
definition GIC_INTERRUPT_PRIORITY_I2C :: u8 where "GIC_INTERRUPT_PRIORITY_I2C = 14"
definition RST_PERIPHERAL_END :: u32 where "RST_PERIPHERAL_END = 67"
definition I2C_SUCCESS :: u64 where "I2C_SUCCESS = 0"
definition I2C_OP_FAIL :: u64 where "I2C_OP_FAIL = 1"
definition I2C_NACK :: u64 where "I2C_NACK = 2"

definition GET_I2C_BASE_ADDR :: "u32 \<Rightarrow> u32" where
  "GET_I2C_BASE_ADDR i = 0x10C02800 + i * 0x100"

datatype i2c_role_t = I2C_ROLE_MASTER | I2C_ROLE_SLAVE

text \<open>The enumeration starts with 1; \<open>I2C_OP_UNSET\<close> is the zero of a cleared descriptor.\<close>

datatype i2c_operation_t = I2C_OP_UNSET | I2C_READ | I2C_WRITE

datatype i2c_bus_status_t = I2C_BUS_IDLE | I2C_BUS_BUSY

record i2c_dma_config_t =
  tx_instance :: u32
  tx_channel :: u32
  tx_prio :: u8
  rx_instance :: u32
  rx_channel :: u32
  rx_prio :: u8

record i2c_slave_config_t =
  cfg_slave_addr :: u16
  cfg_is_10bit_addr :: bool
  cfg_stop_det_ifaddressed :: bool
  cfg_ack_general_call :: bool
  cfg_tx_default_byte :: u8
  cfg_rx_tl :: u8
  cfg_tx_tl :: u8
  cfg_wr_requsted_cb :: fptr
  cfg_wr_received_cb :: fptr
  cfg_rd_requested_cb :: fptr
  cfg_rd_processed_cb :: fptr
  cfg_stop_cb :: fptr
  cfg_cb_usr_ctxt :: vptr

record i2c_descriptor =
  i2c_base :: u32
  inst :: u32
  role :: i2c_role_t
  slave_is_10bit_addr :: bool
  slave_stop_det_ifaddressed :: bool
  slave_ack_general_call :: bool
  slave_rx_tl :: u8
  slave_tx_tl :: u8
  slave_tx_default_byte :: u8
  slave_own_addr :: u16
  slave_wr_requested_cb :: fptr
  slave_wr_received_cb :: fptr
  slave_rd_requested_cb :: fptr
  slave_rd_processed_cb :: fptr
  slave_stop_cb :: fptr
  slave_cb_usr_ctxt :: vptr
  slave_write_started :: bool
  slave_read_in_progress :: bool
  slave_addr :: u16
  bytes_left :: u64
  rd_cmds_left :: u64
  xfer_size :: u64
  buffer :: u64
  operation :: i2c_operation_t
  wdma_handle :: dma_handle_t
  rdma_handle :: dma_handle_t
  wdma_config :: dma_config_t
  rdma_config :: dma_config_t
  is_dma_open :: bool
  is_wdma_en :: bool
  is_rdma_en :: bool
  is_async :: bool
  i2c_is_open :: bool
  is_busy :: bool
  no_stop_flag :: bool
  is_xfer_abort :: bool
  i2c_callback_fn :: fptr
  cb_usr_ctxt :: vptr
  i2c_mutex :: u64
  i2c_sem :: u64

definition dma_config_zero :: dma_config_t where
  "dma_config_zero = \<lparr>cfg_instance = 0, ch_dir = DMA_MEM_TO_MEM_DMAC, ch_prio = 0, peri_id = 0,
     cfg_callback = F_NULL, cfg_usr_cntxt = V_NULL\<rparr>"

definition i2c_zero :: i2c_descriptor where
  "i2c_zero = \<lparr>i2c_base = 0, inst = 0, role = I2C_ROLE_MASTER, slave_is_10bit_addr = False,
     slave_stop_det_ifaddressed = False, slave_ack_general_call = False, slave_rx_tl = 0, slave_tx_tl = 0,
     slave_tx_default_byte = 0, slave_own_addr = 0, slave_wr_requested_cb = F_NULL, slave_wr_received_cb = F_NULL,
     slave_rd_requested_cb = F_NULL, slave_rd_processed_cb = F_NULL, slave_stop_cb = F_NULL, slave_cb_usr_ctxt = V_NULL,
     slave_write_started = False, slave_read_in_progress = False, slave_addr = 0, bytes_left = 0, rd_cmds_left = 0,
     xfer_size = 0, buffer = 0, operation = I2C_OP_UNSET, wdma_handle = None, rdma_handle = None,
     wdma_config = dma_config_zero, rdma_config = dma_config_zero, is_dma_open = False, is_wdma_en = False,
     is_rdma_en = False, is_async = False, i2c_is_open = False, is_busy = False, no_stop_flag = False,
     is_xfer_abort = False, i2c_callback_fn = F_NULL, cb_usr_ctxt = V_NULL, i2c_mutex = 0, i2c_sem = 0\<rparr>"

record i2c_state = dma_state +
  i2c_desc :: "nat \<Rightarrow> i2c_descriptor"
  i2c_transfer_buf_at :: "nat \<Rightarrow> u64"

type_synonym i2c_handle_t = "nat option"

definition upd_i2c :: "nat \<Rightarrow> (i2c_descriptor \<Rightarrow> i2c_descriptor) \<Rightarrow> 'x i2c_state_scheme \<Rightarrow> 'x i2c_state_scheme" where
  "upd_i2c h f s = s\<lparr>i2c_desc := (i2c_desc s)(h := f (i2c_desc s h))\<rparr>"

abbreviation get_i2c :: "nat \<Rightarrow> ('x i2c_state_scheme, i2c_descriptor) state" where
  "get_i2c h \<equiv> gets (\<lambda>s. i2c_desc s h)"

text \<open>The address of a local variable whose address is taken.\<close>

definition local_slot :: "('x machine_scheme, u64) state" where
  "local_slot = gets (\<lambda>s. stack_slot (env s) (trace s))"

section \<open>Helpers\<close>

definition i2c_delete_osal_primitives :: "nat \<Rightarrow> ('x i2c_state_scheme, unit) state" where
  "i2c_delete_osal_primitives h = do {
     c \<leftarrow> get_i2c h;
     whenM (i2c_mutex c \<noteq> 0) (do {
       _ \<leftarrow> osal_mutex_delete (i2c_mutex c);
       modify (upd_i2c h (\<lambda>c. c\<lparr>i2c_mutex := 0\<rparr>))
     });
     whenM (i2c_sem c \<noteq> 0) (do {
       _ \<leftarrow> osal_semaphore_delete (i2c_sem c);
       modify (upd_i2c h (\<lambda>c. c\<lparr>i2c_sem := 0\<rparr>))
     })
   }"

text \<open>
  Reading until the FIFO is empty. The device decides when, so the loop may not end: \<open>None\<close>.
\<close>

partial_function (option) drain_from :: "u32 \<Rightarrow> u64 \<Rightarrow> 'x machine_scheme \<Rightarrow> 'x machine_scheme option" where
  "drain_from base slot s = (case run_state (i2c_read_fifo base slot 1) s of
     (n, s') \<Rightarrow> if n = 1 then drain_from base slot s' else Some s')"

definition i2c_drain_rx_fifo :: "u32 \<Rightarrow> ('x machine_scheme, unit option) state" where
  "i2c_drain_rx_fifo base = do {
     slot \<leftarrow> local_slot;
     State (\<lambda>s. case drain_from base slot s of None \<Rightarrow> (None, s) | Some s' \<Rightarrow> (Some (), s'))
   }"

definition i2c_get_rst_instance :: "u32 \<Rightarrow> u32" where
  "i2c_get_rst_instance i = (if i < 5 then [40, 41, 42, 43, 44] ! unat i else RST_PERIPHERAL_END)"

definition i2c_get_interrupt_instance :: "u32 \<Rightarrow> u32" where
  "i2c_get_interrupt_instance i = (if i < 5 then [135, 136, 137, 138, 139] ! unat i else MAX_HPU_SPI_INTERRUPT)"

text \<open>The transmit and the receive peripheral; \<open>None\<close>: the targets are left as they are.\<close>

definition i2c_get_dma_interface_id :: "u32 \<Rightarrow> (u32 \<times> u32) option" where
  "i2c_get_dma_interface_id i = (if i < 5 then Some ([(8, 9), (10, 11), (12, 13), (14, 15), (32, 33)] ! unat i) else None)"

definition i2c_dma_config :: "nat \<Rightarrow> i2c_dma_config_t option \<Rightarrow> ('x i2c_state_scheme, int) state" where
  "i2c_dma_config h pconfig =
     (case pconfig of None \<Rightarrow> ret (- EINVAL)
      | Some p \<Rightarrow> do {
          w \<leftarrow> dma_open (tx_instance p) (tx_channel p);
          modify (upd_i2c h (\<lambda>c. c\<lparr>wdma_handle := w\<rparr>));
          r \<leftarrow> (if w \<noteq> None then do {
                  r \<leftarrow> dma_open (rx_instance p) (rx_channel p);
                  modify (upd_i2c h (\<lambda>c. c\<lparr>rdma_handle := r\<rparr>));
                  ret r
                } else ret None);
          let opened = (w \<noteq> None \<and> r \<noteq> None);
          modify (upd_i2c h (\<lambda>c. c\<lparr>
            wdma_config := (wdma_config c)\<lparr>cfg_instance := ucast (tx_instance p), ch_dir := DMA_MEM_TO_PERI_DMAC,
              ch_prio := tx_prio p, cfg_callback := F_i2c_wdma_callback, cfg_usr_cntxt := V_i2c h\<rparr>,
            rdma_config := (rdma_config c)\<lparr>cfg_instance := ucast (rx_instance p), ch_dir := DMA_PERI_TO_MEM_DMAC,
              ch_prio := rx_prio p, cfg_callback := F_i2c_rdma_callback, cfg_usr_cntxt := V_i2c h\<rparr>\<rparr>));
          c \<leftarrow> get_i2c h;
          (case i2c_get_dma_interface_id (inst c) of None \<Rightarrow> ret ()
           | Some (tx, rx) \<Rightarrow> modify (upd_i2c h (\<lambda>c. c\<lparr>wdma_config := (wdma_config c)\<lparr>peri_id := tx\<rparr>,
               rdma_config := (rdma_config c)\<lparr>peri_id := rx\<rparr>\<rparr>)));
          c \<leftarrow> get_i2c h;
          e \<leftarrow> (if opened then dma_config (wdma_handle c) (Some (wdma_config c)) else ret (- EIO));
          e \<leftarrow> (if e = 0 then dma_config (rdma_handle c) (Some (rdma_config c)) else ret (- EIO));
          if e \<noteq> 0 then do {
            whenM (r \<noteq> None) (do { _ \<leftarrow> dma_close (rdma_handle c); ret () });
            whenM (w \<noteq> None) (do { _ \<leftarrow> dma_close (wdma_handle c); ret () });
            ret (- EIO)
          } else do {
            modify (upd_i2c h (\<lambda>c. c\<lparr>is_dma_open := True\<rparr>));
            ret 0
          }
        })"

definition i2c_dma_close :: "nat \<Rightarrow> ('x i2c_state_scheme, int) state" where
  "i2c_dma_close h = do {
     c \<leftarrow> get_i2c h;
     if \<not> i2c_is_open c then ret (- EINVAL)
     else if \<not> is_dma_open c then ret (- EINVAL)
     else do {
       _ \<leftarrow> dma_close (wdma_handle c);
       _ \<leftarrow> dma_close (rdma_handle c);
       modify (upd_i2c h (\<lambda>c. c\<lparr>is_wdma_en := False, is_rdma_en := False, is_dma_open := False\<rparr>));
       ret 0
     }
   }"

text \<open>The burst length and its code: the largest of 8, 4 and 1 that is not above the number of items.\<close>

definition i2c_find_burst_params :: "u32 \<Rightarrow> u32 \<times> u32" where
  "i2c_find_burst_params nbytes =
     (case find (\<lambda>(n, e). n \<le> nbytes) [(8, DMA_BURST_LEN_8), (4, DMA_BURST_LEN_4), (1, DMA_BURST_LEN_1)] of
        None \<Rightarrow> (DMA_BURST_LEN_1, 1)
      | Some (n, e) \<Rightarrow> (e, n))"

section \<open>The slave's events\<close>

definition i2c_slave_handle_tx_abort :: "nat \<Rightarrow> ('x i2c_state_scheme, unit) state" where
  "i2c_slave_handle_tx_abort h = do {
     c \<leftarrow> get_i2c h;
     let base = i2c_base c;
     modify (upd_i2c h (\<lambda>c. c\<lparr>slave_read_in_progress := False\<rparr>));
     if is_busy c \<and> operation c = I2C_WRITE then do {
       whenM (is_wdma_en c) (i2c_ll_tdma_disable base);
       modify (upd_i2c h (\<lambda>c. c\<lparr>is_busy := False\<rparr>));
       i2c_ll_clear_tx_abrt base;
       whenM (i2c_callback_fn c \<noteq> F_NULL) (emit (Call (i2c_callback_fn c) (cb_usr_ctxt c) [I2C_OP_FAIL]))
     } else i2c_ll_clear_tx_abrt base
   }"

definition i2c_slave_handle_stop_detect :: "nat \<Rightarrow> ('x i2c_state_scheme, unit) state" where
  "i2c_slave_handle_stop_detect h = do {
     c \<leftarrow> get_i2c h;
     modify (upd_i2c h (\<lambda>c. c\<lparr>slave_write_started := False, slave_read_in_progress := False\<rparr>));
     whenM (slave_stop_cb c \<noteq> F_NULL) (emit (Call (slave_stop_cb c) (slave_cb_usr_ctxt c) [word_of_nat h]));
     i2c_ll_clear_stop_det (i2c_base c)
   }"

text \<open>A callback is given the address of the byte to send, and may change it.\<close>

definition i2c_ask_byte :: "nat \<Rightarrow> fptr \<Rightarrow> vptr \<Rightarrow> u64 \<Rightarrow> ('x machine_scheme, unit) state" where
  "i2c_ask_byte h cb ctxt slot = do {
     b \<leftarrow> peek slot;
     v \<leftarrow> gets (\<lambda>s. user_byte (env s) (trace s) b);
     emit (Call cb ctxt [word_of_nat h, slot]);
     poke slot v
   }"

definition i2c_slave_handle_read_request :: "nat \<Rightarrow> ('x i2c_state_scheme, unit) state" where
  "i2c_slave_handle_read_request h = do {
     c \<leftarrow> get_i2c h;
     let base = i2c_base c;
     slot \<leftarrow> local_slot;
     if is_busy c \<and> is_wdma_en c \<and> operation c = I2C_WRITE then do {
       i2c_disable_interrupt base I2C_RD_REQ_INT;
       e \<leftarrow> dma_start_transfer (wdma_handle c);
       if e \<noteq> 0 then do {
         modify (upd_i2c h (\<lambda>c. c\<lparr>is_busy := False\<rparr>));
         i2c_enable_interrupt base I2C_RD_REQ_INT;
         i2c_ll_clear_rd_req base;
         whenM (i2c_callback_fn c \<noteq> F_NULL) (emit (Call (i2c_callback_fn c) (cb_usr_ctxt c) [I2C_OP_FAIL]))
       } else do {
         i2c_ll_tdma_enable base;
         i2c_ll_clear_rd_req base
       }
     } else do {
       poke slot (slave_tx_default_byte c);
       (if \<not> slave_read_in_progress c then do {
          whenM (slave_rd_requested_cb c \<noteq> F_NULL) (i2c_ask_byte h (slave_rd_requested_cb c) (slave_cb_usr_ctxt c) slot);
          modify (upd_i2c h (\<lambda>c. c\<lparr>slave_read_in_progress := True\<rparr>))
        } else whenM (slave_rd_processed_cb c \<noteq> F_NULL)
                 (i2c_ask_byte h (slave_rd_processed_cb c) (slave_cb_usr_ctxt c) slot));
       _ \<leftarrow> i2c_write_fifo base slot 1 True;
       i2c_ll_clear_rd_req base
     }
   }"


section \<open>Opening and closing\<close>

definition i2c_open :: "u32 \<Rightarrow> ('x i2c_state_scheme, i2c_handle_t) state" where
  "i2c_open i =
     (if i \<ge> MAX_I2C_INSTANCES then ret None
      else do {
        let h = unat i;
        c \<leftarrow> get_i2c h;
        if i2c_is_open c then ret None
        else do {
          modify (upd_i2c h (\<lambda>_. i2c_zero\<lparr>i2c_base := GET_I2C_BASE_ADDR i, inst := i\<rparr>));
          let rst = i2c_get_rst_instance i;
          if rst = RST_PERIPHERAL_END then ret None
          else do {
            (status, res) \<leftarrow> rstmgr_get_reset_status rst;
            if status \<noteq> 0 then ret None
            else do {
              status \<leftarrow> (if res \<noteq> Some 0 then rstmgr_toggle_reset rst else ret 0);
              if status \<noteq> 0 then ret None
              else do {
                i2c_init (GET_I2C_BASE_ADDR i);
                modify (upd_i2c h (\<lambda>c. c\<lparr>is_dma_open := False, is_wdma_en := False, is_rdma_en := False\<rparr>));
                m \<leftarrow> osal_mutex_create;
                modify (upd_i2c h (\<lambda>c. c\<lparr>i2c_mutex := m\<rparr>));
                if m = 0 then ret None
                else do {
                  w \<leftarrow> osal_semaphore_create;
                  modify (upd_i2c h (\<lambda>c. c\<lparr>i2c_sem := w\<rparr>));
                  if w = 0 then do { i2c_delete_osal_primitives h; ret None }
                  else do {
                    let int_id = i2c_get_interrupt_instance i;
                    if int_id = MAX_HPU_SPI_INTERRUPT then do { i2c_delete_osal_primitives h; ret None }
                    else do {
                      err \<leftarrow> interrupt_register_isr int_id F_i2c_isr (V_i2c h);
                      if err \<noteq> 0 then do { i2c_delete_osal_primitives h; ret None }
                      else do {
                        err \<leftarrow> interrupt_enable int_id GIC_INTERRUPT_PRIORITY_I2C;
                        if err \<noteq> 0 then do { i2c_delete_osal_primitives h; ret None }
                        else do {
                          modify (upd_i2c h (\<lambda>c. c\<lparr>i2c_is_open := True\<rparr>));
                          ret (Some h)
                        }
                      }
                    }
                  }
                }
              }
            }
          }
        }
      })"

definition i2c_close :: "i2c_handle_t \<Rightarrow> ('x i2c_state_scheme, int) state" where
  "i2c_close hi2c =
     (case hi2c of None \<Rightarrow> ret (- EINVAL)
      | Some h \<Rightarrow> do {
          c \<leftarrow> get_i2c h;
          if \<not> i2c_is_open c then ret (- EINVAL)
          else do {
            e \<leftarrow> (if is_dma_open c then i2c_dma_close h else ret 0);
            if e \<noteq> 0 then ret (- EIO)
            else do {
              let base = i2c_base c;
              i2c_disable_interrupt base I2C_TX_EMPTY_INT;
              i2c_disable_interrupt base I2C_RX_FULL_INT;
              i2c_disable_interrupt base I2C_RD_REQ_INT;
              i2c_disable_interrupt base I2C_RX_OVER_INT;
              i2c_disable_interrupt base I2C_STOP_DET_INT;
              modify (upd_i2c h (\<lambda>c. c\<lparr>i2c_callback_fn := F_NULL, cb_usr_ctxt := V_NULL, slave_wr_requested_cb := F_NULL,
                slave_wr_received_cb := F_NULL, slave_rd_requested_cb := F_NULL, slave_rd_processed_cb := F_NULL,
                slave_stop_cb := F_NULL, slave_cb_usr_ctxt := V_NULL\<rparr>));
              i2c_delete_osal_primitives h;
              modify (upd_i2c h (\<lambda>c. c\<lparr>i2c_is_open := False\<rparr>));
              i2c_deinit base;
              ret 0
            }
          }
        })"

definition i2c_set_callback :: "i2c_handle_t \<Rightarrow> fptr \<Rightarrow> vptr \<Rightarrow> ('x i2c_state_scheme, unit) state" where
  "i2c_set_callback hi2c cb param =
     (case hi2c of None \<Rightarrow> ret ()
      | Some h \<Rightarrow> modify (upd_i2c h (\<lambda>c. c\<lparr>i2c_callback_fn := cb, cb_usr_ctxt := param\<rparr>)))"

section \<open>Control\<close>

definition i2c_slave_init :: "nat \<Rightarrow> i2c_slave_config_t \<Rightarrow> ('x i2c_state_scheme, int) state" where
  "i2c_slave_init h cfg = do {
     c \<leftarrow> get_i2c h;
     if \<not> i2c_is_open c then ret (- EINVAL)
     else do {
       st \<leftarrow> i2c_read_status (i2c_base c);
       if st AND I2C_STATUS_IC_STATUS_ACTIVITY_MASK \<noteq> 0 then ret (- EBUSY)
       else do {
         locked \<leftarrow> osal_mutex_lock (i2c_mutex c) OSAL_TIMEOUT_WAIT_FOREVER;
         whenM locked (do { _ \<leftarrow> osal_mutex_unlock (i2c_mutex c); ret () });
         if locked \<and> is_busy c then ret (- EBUSY)
         else do {
           modify (upd_i2c h (\<lambda>c. c\<lparr>role := I2C_ROLE_SLAVE, slave_own_addr := cfg_slave_addr cfg,
             slave_is_10bit_addr := cfg_is_10bit_addr cfg, slave_stop_det_ifaddressed := cfg_stop_det_ifaddressed cfg,
             slave_ack_general_call := cfg_ack_general_call cfg, slave_rx_tl := cfg_rx_tl cfg, slave_tx_tl := cfg_tx_tl cfg,
             slave_tx_default_byte := cfg_tx_default_byte cfg, slave_wr_requested_cb := cfg_wr_requsted_cb cfg,
             slave_wr_received_cb := cfg_wr_received_cb cfg, slave_rd_requested_cb := cfg_rd_requested_cb cfg,
             slave_rd_processed_cb := cfg_rd_processed_cb cfg, slave_stop_cb := cfg_stop_cb cfg,
             slave_cb_usr_ctxt := cfg_cb_usr_ctxt cfg, slave_write_started := False, slave_read_in_progress := False\<rparr>));
           i2c_ll_tdma_disable (i2c_base c);
           i2c_ll_rdma_disable (i2c_base c);
           modify (upd_i2c h (\<lambda>c. c\<lparr>is_wdma_en := False, is_rdma_en := False, is_busy := False\<rparr>));
           i2c_ll_set_interrupt_mask (i2c_base c) 0;
           i2c_ll_config_slave (i2c_base c) (cfg_slave_addr cfg) (cfg_is_10bit_addr cfg) (cfg_stop_det_ifaddressed cfg)
             (cfg_ack_general_call cfg) (cfg_rx_tl cfg) (cfg_tx_tl cfg);
           i2c_ll_set_interrupt_mask (i2c_base c) (I2C_INTR_MASK_M_RX_FULL_MASK OR I2C_INTR_MASK_M_RD_REQ_MASK
             OR I2C_INTR_MASK_M_TX_ABRT_MASK OR I2C_INTR_MASK_M_STOP_DET_MASK OR I2C_INTR_MASK_M_RX_OVER_MASK);
           ret 0
         }
       }
     }
   }"

definition i2c_slave_deinit :: "nat \<Rightarrow> ('x i2c_state_scheme, int) state" where
  "i2c_slave_deinit h = do {
     c \<leftarrow> get_i2c h;
     if \<not> i2c_is_open c then ret (- EINVAL)
     else if role c \<noteq> I2C_ROLE_SLAVE then ret 0
     else do {
       i2c_ll_set_interrupt_mask (i2c_base c) 0;
       i2c_ll_disable_controller (i2c_base c);
       i2c_ll_clear_tx_abrt (i2c_base c);
       i2c_init (i2c_base c);
       modify (upd_i2c h (\<lambda>c. c\<lparr>role := I2C_ROLE_MASTER\<rparr>));
       ret 0
     }
   }"

text \<open>
  A request with what its parameter points to; for the requests that return something, whether
  the parameter is not null.
\<close>

datatype i2c_ioctl_t =
  I2C_SEND_NO_STOP | I2C_SET_SLAVE_ADDR "u16 option" | I2C_SET_MASTER_CFG "u32 option" | I2C_GET_MASTER_CFG bool
| I2C_GET_BUS_STATE bool | I2C_GET_TX_NBYTES bool | I2C_GET_RX_NBYTES bool | I2C_OPEN_DMA "i2c_dma_config_t option"
| I2C_ENABLE_WDMA | I2C_ENABLE_RDMA | I2C_DISABLE_WDMA | I2C_DISABLE_RDMA | I2C_CLOSE_DMA
| I2C_SLAVE_INIT "i2c_slave_config_t option" | I2C_SLAVE_DEINIT | I2C_IOCTL_INVALID

datatype i2c_out = IO_none | IO_clk u32 | IO_bus i2c_bus_status_t | IO_nbytes u16

definition i2c_nbytes :: "i2c_descriptor \<Rightarrow> u16" where
  "i2c_nbytes c = ucast ((xfer_size c - bytes_left c) AND 0xFFFF)"

definition i2c_ioctl :: "i2c_handle_t \<Rightarrow> i2c_ioctl_t \<Rightarrow> ('x i2c_state_scheme, int \<times> i2c_out) state" where
  "i2c_ioctl hi2c cmd =
     (case hi2c of None \<Rightarrow> ret (- EINVAL, IO_none)
      | Some h \<Rightarrow> do {
          c \<leftarrow> get_i2c h;
          let base = i2c_base c;
          if \<not> i2c_is_open c then ret (- EINVAL, IO_none)
          else case cmd of
            I2C_SEND_NO_STOP \<Rightarrow>
              if role c \<noteq> I2C_ROLE_MASTER then ret (- EPERM, IO_none)
              else do { modify (upd_i2c h (\<lambda>c. c\<lparr>no_stop_flag := True\<rparr>)); ret (0, IO_none) }
          | I2C_SET_SLAVE_ADDR p \<Rightarrow>
              if role c \<noteq> I2C_ROLE_MASTER then ret (- EPERM, IO_none)
              else (case p of None \<Rightarrow> ret (- EINVAL, IO_none)
                    | Some addr \<Rightarrow>
                        if ucast addr AND NOT I2C_TAR_IC_TAR_MASK \<noteq> 0 then ret (- EINVAL, IO_none)
                        else do {
                          modify (upd_i2c h (\<lambda>c. c\<lparr>slave_addr := addr\<rparr>));
                          i2c_set_target_addr base addr;
                          ret (0, IO_none)
                        })
          | I2C_SET_MASTER_CFG p \<Rightarrow>
              if role c \<noteq> I2C_ROLE_MASTER then ret (- EPERM, IO_none)
              else (case p of None \<Rightarrow> ret (- EINVAL, IO_none)
                    | Some clk \<Rightarrow> do { e \<leftarrow> i2c_config_master base clk; ret (if e = 0 then - EIO else 0, IO_none) })
          | I2C_GET_MASTER_CFG p \<Rightarrow>
              if role c \<noteq> I2C_ROLE_MASTER then ret (- EPERM, IO_none)
              else if \<not> p then ret (- EINVAL, IO_none)
              else do { clk \<leftarrow> i2c_get_config base; ret (0, IO_clk clk) }
          | I2C_GET_BUS_STATE p \<Rightarrow>
              if \<not> p then ret (- EINVAL, IO_none)
              else do {
                st \<leftarrow> i2c_read_status base;
                ret (sint st, IO_bus (if st AND I2C_STATUS_IC_STATUS_ACTIVITY_MASK \<noteq> 0 then I2C_BUS_BUSY else I2C_BUS_IDLE))
              }
          | I2C_GET_TX_NBYTES p \<Rightarrow> if \<not> p then ret (- EINVAL, IO_none) else ret (0, IO_nbytes (i2c_nbytes c))
          | I2C_GET_RX_NBYTES p \<Rightarrow> if \<not> p then ret (- EINVAL, IO_none) else ret (0, IO_nbytes (i2c_nbytes c))
          | I2C_OPEN_DMA p \<Rightarrow>
              if p = None then ret (- EINVAL, IO_none)
              else if is_dma_open c then ret (- EIO, IO_none)
              else do { e \<leftarrow> i2c_dma_config h p; ret (if e \<noteq> 0 then - EIO else 0, IO_none) }
          | I2C_ENABLE_WDMA \<Rightarrow>
              if \<not> is_dma_open c then ret (- EINVAL, IO_none)
              else do { modify (upd_i2c h (\<lambda>c. c\<lparr>is_wdma_en := True\<rparr>)); ret (0, IO_none) }
          | I2C_ENABLE_RDMA \<Rightarrow>
              if \<not> is_dma_open c then ret (- EINVAL, IO_none)
              else do { modify (upd_i2c h (\<lambda>c. c\<lparr>is_rdma_en := True\<rparr>)); ret (0, IO_none) }
          | I2C_DISABLE_WDMA \<Rightarrow> do { modify (upd_i2c h (\<lambda>c. c\<lparr>is_wdma_en := False\<rparr>)); ret (0, IO_none) }
          | I2C_DISABLE_RDMA \<Rightarrow> do { modify (upd_i2c h (\<lambda>c. c\<lparr>is_rdma_en := False\<rparr>)); ret (0, IO_none) }
          | I2C_CLOSE_DMA \<Rightarrow> do { e \<leftarrow> i2c_dma_close h; ret (if e \<noteq> 0 then - EINVAL else 0, IO_none) }
          | I2C_SLAVE_INIT p \<Rightarrow>
              (case p of None \<Rightarrow> ret (- EINVAL, IO_none)
               | Some cfg \<Rightarrow> do { e \<leftarrow> i2c_slave_init h cfg; ret (e, IO_none) })
          | I2C_SLAVE_DEINIT \<Rightarrow> do { e \<leftarrow> i2c_slave_deinit h; ret (e, IO_none) }
          | I2C_IOCTL_INVALID \<Rightarrow> ret (- EINVAL, IO_none)
        })"


section \<open>Starting a transfer\<close>

definition i2c_start_xfer_int_mode :: "nat \<Rightarrow> i2c_operation_t \<Rightarrow> u64 \<Rightarrow> u64 \<Rightarrow> ('x i2c_state_scheme, int) state" where
  "i2c_start_xfer_int_mode h op buf nbytes =
     (if op = I2C_WRITE then do {
        modify (upd_i2c h (\<lambda>c. c\<lparr>buffer := buf, bytes_left := nbytes\<rparr>));
        c \<leftarrow> get_i2c h;
        nwr \<leftarrow> i2c_write_fifo (i2c_base c) buf (ucast nbytes) (no_stop_flag c);
        modify (upd_i2c h (\<lambda>c. c\<lparr>bytes_left := bytes_left c - ucast nwr, buffer := buffer c + ucast nwr\<rparr>));
        i2c_enable_interrupt (i2c_base c) (I2C_TX_ABORT_INT OR I2C_TX_EMPTY_INT);
        ret 0
      } else do {
        modify (upd_i2c h (\<lambda>c. c\<lparr>buffer := buf, bytes_left := nbytes, rd_cmds_left := nbytes\<rparr>));
        c \<leftarrow> get_i2c h;
        ncmd \<leftarrow> i2c_enq_read_cmd (i2c_base c) (ucast nbytes) (no_stop_flag c);
        modify (upd_i2c h (\<lambda>c. c\<lparr>rd_cmds_left := rd_cmds_left c - ucast ncmd\<rparr>));
        i2c_enable_interrupt (i2c_base c) (I2C_TX_ABORT_INT OR I2C_RX_FULL_INT OR I2C_TX_EMPTY_INT);
        ret 0
      })"

text \<open>The lists of DMA blocks: \<open>i\<close> is the next block, \<open>n\<close> the number still to build.\<close>

fun i2c_wdma_blocks :: "u64 \<Rightarrow> u32 \<Rightarrow> u32 \<Rightarrow> nat \<Rightarrow> nat \<Rightarrow> u64 \<Rightarrow> dma_xfer_cfg_t list" where
  "i2c_wdma_blocks psrc base burst i 0 rem_words = []"
| "i2c_wdma_blocks psrc base burst i (Suc n) rem_words =
     (let chunk = (if rem_words > I2C_DMA_XFER_BLK_SIZE then I2C_DMA_XFER_BLK_SIZE else rem_words)
      in \<lparr>src = psrc + 4 * (word_of_nat i * I2C_DMA_XFER_BLK_SIZE), dst = ucast (base + I2C_DATA_CMD),
          blk_size = ucast (chunk * 4), src_burst_len = burst, dst_burst_len = burst\<rparr>
         # i2c_wdma_blocks psrc base burst (i + 1) n (rem_words - chunk))"

fun i2c_rdma_blocks :: "u64 \<Rightarrow> u32 \<Rightarrow> u32 \<Rightarrow> nat \<Rightarrow> nat \<Rightarrow> u64 \<Rightarrow> dma_xfer_cfg_t list" where
  "i2c_rdma_blocks pdst base burst i 0 rem_bytes = []"
| "i2c_rdma_blocks pdst base burst i (Suc n) rem_bytes =
     (let chunk = (if rem_bytes > I2C_DMA_XFER_BLK_SIZE then I2C_DMA_XFER_BLK_SIZE else rem_bytes)
      in \<lparr>src = ucast (base + I2C_DATA_CMD), dst = pdst + word_of_nat i * I2C_DMA_XFER_BLK_SIZE,
          blk_size = ucast chunk, src_burst_len = burst, dst_burst_len = burst\<rparr>
         # i2c_rdma_blocks pdst base burst (i + 1) n (rem_bytes - chunk))"

definition i2c_dma_setup_wdma :: "nat \<Rightarrow> u64 \<Rightarrow> u64 \<Rightarrow> u32 \<Rightarrow> u32 \<Rightarrow> ('x i2c_state_scheme, int) state" where
  "i2c_dma_setup_wdma h psrc nwords blk_cnt burst = do {
     c \<leftarrow> get_i2c h;
     e \<leftarrow> dma_setup_transfer (wdma_handle c) (i2c_wdma_blocks psrc (i2c_base c) burst 0 (unat blk_cnt) nwords) blk_cnt
       DMA_XFER_WIDTH4 DMA_XFER_WIDTH4;
     ret (if e \<noteq> 0 then - EIO else 0)
   }"

definition i2c_dma_setup_rdma :: "nat \<Rightarrow> u64 \<Rightarrow> u64 \<Rightarrow> u32 \<Rightarrow> u32 \<Rightarrow> ('x i2c_state_scheme, int) state" where
  "i2c_dma_setup_rdma h pdst nbytes blk_cnt burst = do {
     c \<leftarrow> get_i2c h;
     e \<leftarrow> dma_setup_transfer (rdma_handle c) (i2c_rdma_blocks pdst (i2c_base c) burst 0 (unat blk_cnt) nbytes) blk_cnt
       DMA_XFER_WIDTH1 DMA_XFER_WIDTH1;
     ret (if e \<noteq> 0 then - EIO else 0)
   }"

text \<open>The number of blocks for a number of items, and the items the burst length is chosen for.\<close>

definition i2c_blk_cnt :: "u64 \<Rightarrow> u64" where
  "i2c_blk_cnt n = (n + I2C_DMA_XFER_BLK_SIZE - 1) div I2C_DMA_XFER_BLK_SIZE"

definition i2c_burst_items :: "u64 \<Rightarrow> u32" where
  "i2c_burst_items n =
     (let b = ucast (n mod I2C_DMA_XFER_BLK_SIZE)
      in if b = 0 then (if n \<ge> I2C_DMA_XFER_BLK_SIZE then ucast I2C_DMA_XFER_BLK_SIZE else ucast n) else b)"

text \<open>The command words of a DMA read, in the static buffer.\<close>

definition i2c_fill_read_words :: "u64 \<Rightarrow> u64 \<Rightarrow> bool \<Rightarrow> ('x machine_scheme, unit) state" where
  "i2c_fill_read_words wbuf nitems no_stop = do {
     put_words wbuf (replicate (unat nitems) (push_bit I2C_DATA_CMD_CMD_POS 1));
     whenM (nitems > 0 \<and> \<not> no_stop)
       (put_words (wbuf + 4 * (nitems - 1)) [push_bit I2C_DATA_CMD_STOP_POS 1 OR push_bit I2C_DATA_CMD_CMD_POS 1])
   }"

definition i2c_start_xfer_dma_mode :: "nat \<Rightarrow> i2c_operation_t \<Rightarrow> u64 \<Rightarrow> u64 \<Rightarrow> ('x i2c_state_scheme, int) state" where
  "i2c_start_xfer_dma_mode h op buf nitems =
     (if nitems = 0 then ret (- EINVAL)
      else if i2c_blk_cnt nitems = 0 \<or> i2c_blk_cnt nitems > MAX_I2C_BLK_XFERS then ret (- EINVAL)
      else do {
        let blk_cnt = ucast (i2c_blk_cnt nitems);
        let (burst_len, burst) = i2c_find_burst_params (i2c_burst_items nitems);
        c \<leftarrow> get_i2c h;
        let base = i2c_base c;
        if op = I2C_WRITE then do {
          i2c_ll_set_tdlr base burst;
          e \<leftarrow> i2c_dma_setup_wdma h buf nitems blk_cnt burst_len;
          if e \<noteq> 0 then ret (- EIO)
          else do {
            emit (Cache_clean buf (nitems * 4));
            _ \<leftarrow> dma_start_transfer (wdma_handle c);
            i2c_ll_tdma_enable base;
            i2c_enable_interrupt base I2C_TX_ABORT_INT;
            ret 0
          }
        } else do {
          wbuf \<leftarrow> gets (\<lambda>s. i2c_transfer_buf_at s (unat (inst c)));
          i2c_fill_read_words wbuf nitems (no_stop_flag c);
          i2c_ll_set_tdlr base burst;
          i2c_ll_set_rdlr base burst;
          e \<leftarrow> i2c_dma_setup_wdma h wbuf nitems blk_cnt burst_len;
          if e \<noteq> 0 then ret (- EIO)
          else do {
            e \<leftarrow> i2c_dma_setup_rdma h buf nitems blk_cnt burst_len;
            if e \<noteq> 0 then ret (- EIO)
            else do {
              emit (Cache_clean wbuf (nitems * 4));
              emit (Cache_invalidate buf nitems);
              _ \<leftarrow> dma_start_transfer (rdma_handle c);
              _ \<leftarrow> dma_start_transfer (wdma_handle c);
              i2c_ll_rdma_enable base;
              i2c_ll_tdma_enable base;
              i2c_enable_interrupt base I2C_TX_ABORT_INT;
              ret 0
            }
          }
        }
      })"

section \<open>Transfers\<close>

text \<open>
  The guard under the mutex that opens each transfer. \<open>None\<close>: the caller goes on, which it also
  does when the lock was not obtained; \<open>Some e\<close>: it returns \<open>e\<close>.
\<close>

definition i2c_claim :: "nat \<Rightarrow> bool \<Rightarrow> ('x i2c_state_scheme, int option) state" where
  "i2c_claim h needs_callback = do {
     c \<leftarrow> get_i2c h;
     locked \<leftarrow> osal_mutex_lock (i2c_mutex c) OSAL_TIMEOUT_WAIT_FOREVER;
     if \<not> locked then ret None
     else if \<not> i2c_is_open c then do {
       unlocked \<leftarrow> osal_mutex_unlock (i2c_mutex c);
       ret (Some (if \<not> unlocked then - EIO else - EINVAL))
     } else if is_busy c then do {
       unlocked \<leftarrow> osal_mutex_unlock (i2c_mutex c);
       ret (Some (if \<not> unlocked then - EIO else - EBUSY))
     } else if needs_callback \<and> i2c_callback_fn c = F_NULL then do {
       unlocked \<leftarrow> osal_mutex_unlock (i2c_mutex c);
       ret (Some (if \<not> unlocked then - EIO else - EINVAL))
     } else do {
       modify (upd_i2c h (\<lambda>c. c\<lparr>is_busy := True\<rparr>));
       unlocked \<leftarrow> osal_mutex_unlock (i2c_mutex c);
       ret (if \<not> unlocked then Some (- EIO) else None)
     }
   }"

text \<open>The checks before it.\<close>

definition i2c_check :: "i2c_handle_t \<Rightarrow> u64 \<Rightarrow> u64 \<Rightarrow> ('x i2c_state_scheme, int) state" where
  "i2c_check hi2c buf nbytes =
     (case hi2c of None \<Rightarrow> ret (- EINVAL)
      | Some h \<Rightarrow> do { c \<leftarrow> get_i2c h; ret (if buf = 0 \<or> nbytes = 0 \<or> \<not> i2c_is_open c then - EINVAL else 0) })"

text \<open>
  In the blocking calls, \<open>during\<close> is what happens between the start of the transfer and the end
  of the wait.
\<close>

definition i2c_write_sync ::
  "('x i2c_state_scheme, unit) state \<Rightarrow> i2c_handle_t \<Rightarrow> u64 \<Rightarrow> u64 \<Rightarrow> ('x i2c_state_scheme, int) state" where
  "i2c_write_sync during hi2c buf nbytes = do {
     e \<leftarrow> i2c_check hi2c buf nbytes;
     if e \<noteq> 0 then ret e
     else do {
       let h = the hi2c;
       c \<leftarrow> get_i2c h;
       if role c \<noteq> I2C_ROLE_MASTER then ret (- EPERM)
       else if slave_addr c = 0 then ret (- ENXIO)
       else do {
         claimed \<leftarrow> i2c_claim h False;
         case claimed of Some e \<Rightarrow> ret e
         | None \<Rightarrow> do {
             modify (upd_i2c h (\<lambda>c. c\<lparr>operation := I2C_WRITE, is_xfer_abort := False, is_async := False,
               xfer_size := nbytes\<rparr>));
             e \<leftarrow> (if \<not> is_wdma_en c then i2c_start_xfer_int_mode h I2C_WRITE buf nbytes
                   else do {
                     modify (upd_i2c h (\<lambda>c. c\<lparr>bytes_left := 0\<rparr>));
                     i2c_start_xfer_dma_mode h I2C_WRITE buf nbytes
                   });
             if e \<noteq> 0 then ret e
             else do {
               during;
               c \<leftarrow> get_i2c h;
               ok \<leftarrow> osal_semaphore_wait (i2c_sem c) OSAL_TIMEOUT_WAIT_FOREVER;
               if \<not> ok then ret (- EIO)
               else do {
                 modify (upd_i2c h (\<lambda>c. c\<lparr>is_busy := False, no_stop_flag := False\<rparr>));
                 c \<leftarrow> get_i2c h;
                 ret (if is_xfer_abort c then - EIO else 0)
               }
             }
           }
       }
     }
   }"

definition i2c_read_sync ::
  "('x i2c_state_scheme, unit) state \<Rightarrow> i2c_handle_t \<Rightarrow> u64 \<Rightarrow> u64 \<Rightarrow> ('x i2c_state_scheme, int) state" where
  "i2c_read_sync during hi2c buf nbytes = do {
     e \<leftarrow> i2c_check hi2c buf nbytes;
     if e \<noteq> 0 then ret e
     else do {
       let h = the hi2c;
       c \<leftarrow> get_i2c h;
       if role c \<noteq> I2C_ROLE_MASTER then ret (- EPERM)
       else if slave_addr c = 0 then ret (- ENXIO)
       else do {
         claimed \<leftarrow> i2c_claim h False;
         case claimed of Some e \<Rightarrow> ret e
         | None \<Rightarrow> do {
             modify (upd_i2c h (\<lambda>c. c\<lparr>operation := I2C_READ, is_async := False, is_xfer_abort := False,
               xfer_size := nbytes, buffer := buf\<rparr>));
             e \<leftarrow> (if \<not> is_rdma_en c then i2c_start_xfer_int_mode h I2C_READ buf nbytes
                   else do {
                     modify (upd_i2c h (\<lambda>c. c\<lparr>bytes_left := 0\<rparr>));
                     i2c_start_xfer_dma_mode h I2C_READ buf nbytes
                   });
             if e \<noteq> 0 then ret e
             else do {
               during;
               c \<leftarrow> get_i2c h;
               ok \<leftarrow> osal_semaphore_wait (i2c_sem c) OSAL_TIMEOUT_WAIT_FOREVER;
               if \<not> ok then ret (- EIO)
               else do {
                 modify (upd_i2c h (\<lambda>c. c\<lparr>is_busy := False, no_stop_flag := False\<rparr>));
                 c \<leftarrow> get_i2c h;
                 ret (if is_xfer_abort c then - EIO else 0)
               }
             }
           }
       }
     }
   }"

definition i2c_arm_slave_write :: "nat \<Rightarrow> u64 \<Rightarrow> u64 \<Rightarrow> ('x i2c_state_scheme, int) state" where
  "i2c_arm_slave_write h buf nbytes =
     (if i2c_blk_cnt nbytes = 0 \<or> i2c_blk_cnt nbytes > MAX_I2C_BLK_XFERS then do {
        modify (upd_i2c h (\<lambda>c. c\<lparr>is_busy := False\<rparr>));
        ret (- EINVAL)
      } else do {
        modify (upd_i2c h (\<lambda>c. c\<lparr>bytes_left := 0\<rparr>));
        let (burst_len, burst) = i2c_find_burst_params (i2c_burst_items nbytes);
        e \<leftarrow> i2c_dma_setup_wdma h buf nbytes (ucast (i2c_blk_cnt nbytes)) burst_len;
        if e \<noteq> 0 then do {
          modify (upd_i2c h (\<lambda>c. c\<lparr>is_busy := False\<rparr>));
          ret (- EIO)
        } else do {
          emit (Cache_clean buf (nbytes * 4));
          c \<leftarrow> get_i2c h;
          i2c_ll_set_tdlr (i2c_base c) burst;
          i2c_enable_interrupt (i2c_base c) I2C_RD_REQ_INT;
          i2c_enable_interrupt (i2c_base c) I2C_TX_ABORT_INT;
          ret 0
        }
      })"

definition i2c_write_async :: "i2c_handle_t \<Rightarrow> u64 \<Rightarrow> u64 \<Rightarrow> ('x i2c_state_scheme, int) state" where
  "i2c_write_async hi2c buf nbytes = do {
     e \<leftarrow> i2c_check hi2c buf nbytes;
     if e \<noteq> 0 then ret e
     else do {
       let h = the hi2c;
       c \<leftarrow> get_i2c h;
       if role c = I2C_ROLE_SLAVE \<and> \<not> (is_dma_open c \<and> is_wdma_en c) then ret (- ENOTSUP)
       else if role c = I2C_ROLE_MASTER \<and> slave_addr c = 0 then ret (- ENXIO)
       else do {
         claimed \<leftarrow> i2c_claim h True;
         case claimed of Some e \<Rightarrow> ret e
         | None \<Rightarrow> do {
             modify (upd_i2c h (\<lambda>c. c\<lparr>operation := I2C_WRITE, is_xfer_abort := False, is_async := True,
               xfer_size := nbytes\<rparr>));
             if role c = I2C_ROLE_SLAVE then i2c_arm_slave_write h buf nbytes
             else if \<not> is_wdma_en c then i2c_start_xfer_int_mode h I2C_WRITE buf nbytes
             else do {
               modify (upd_i2c h (\<lambda>c. c\<lparr>bytes_left := 0\<rparr>));
               i2c_start_xfer_dma_mode h I2C_WRITE buf nbytes
             }
           }
       }
     }
   }"

fun i2c_wait_idle :: "u32 \<Rightarrow> nat \<Rightarrow> ('x machine_scheme, unit) state" where
  "i2c_wait_idle base n = do {
     st \<leftarrow> i2c_read_status base;
     (if st AND I2C_STATUS_IC_STATUS_ACTIVITY_MASK \<noteq> 0
      then (case n of 0 \<Rightarrow> ret () | Suc m \<Rightarrow> i2c_wait_idle base m)
      else ret ())
   }"

declare i2c_wait_idle.simps [simp del]

text \<open>\<open>None\<close>: emptying the FIFO does not end.\<close>

definition i2c_arm_slave_read :: "nat \<Rightarrow> u64 \<Rightarrow> u64 \<Rightarrow> ('x i2c_state_scheme, int option) state" where
  "i2c_arm_slave_read h buf nbytes = do {
     c \<leftarrow> get_i2c h;
     let base = i2c_base c;
     i2c_wait_idle base 10000;
     st \<leftarrow> i2c_read_status base;
     if st AND I2C_STATUS_IC_STATUS_ACTIVITY_MASK \<noteq> 0 then do {
       modify (upd_i2c h (\<lambda>c. c\<lparr>is_busy := False\<rparr>));
       ret (Some (- EBUSY))
     } else do {
       drained \<leftarrow> i2c_drain_rx_fifo base;
       case drained of None \<Rightarrow> ret None
       | Some _ \<Rightarrow> do {
           i2c_ll_clear_rx_over base;
           if i2c_blk_cnt nbytes = 0 \<or> i2c_blk_cnt nbytes > MAX_I2C_BLK_XFERS then do {
             modify (upd_i2c h (\<lambda>c. c\<lparr>is_busy := False\<rparr>));
             ret (Some (- EINVAL))
           } else do {
             modify (upd_i2c h (\<lambda>c. c\<lparr>bytes_left := 0\<rparr>));
             let (burst_len, burst) = i2c_find_burst_params (i2c_burst_items nbytes);
             e \<leftarrow> i2c_dma_setup_rdma h buf nbytes (ucast (i2c_blk_cnt nbytes)) burst_len;
             if e \<noteq> 0 then do {
               modify (upd_i2c h (\<lambda>c. c\<lparr>is_busy := False\<rparr>));
               ret (Some (- EIO))
             } else do {
               emit (Cache_invalidate buf nbytes);
               i2c_ll_set_rdlr base burst;
               i2c_disable_interrupt base I2C_RX_FULL_INT;
               e \<leftarrow> dma_start_transfer (rdma_handle c);
               if e \<noteq> 0 then do {
                 modify (upd_i2c h (\<lambda>c. c\<lparr>is_busy := False\<rparr>));
                 i2c_enable_interrupt base I2C_RX_FULL_INT;
                 ret (Some (- EIO))
               } else do {
                 i2c_ll_rdma_enable base;
                 i2c_enable_interrupt base I2C_TX_ABORT_INT;
                 ret (Some 0)
               }
             }
           }
         }
     }
   }"

definition i2c_read_async :: "i2c_handle_t \<Rightarrow> u64 \<Rightarrow> u64 \<Rightarrow> ('x i2c_state_scheme, int option) state" where
  "i2c_read_async hi2c buf nbytes = do {
     e \<leftarrow> i2c_check hi2c buf nbytes;
     if e \<noteq> 0 then ret (Some e)
     else do {
       let h = the hi2c;
       c \<leftarrow> get_i2c h;
       if role c = I2C_ROLE_SLAVE \<and> \<not> (is_dma_open c \<and> is_rdma_en c) then ret (Some (- ENOTSUP))
       else if role c = I2C_ROLE_MASTER \<and> slave_addr c = 0 then ret (Some (- ENXIO))
       else do {
         claimed \<leftarrow> i2c_claim h True;
         case claimed of Some e \<Rightarrow> ret (Some e)
         | None \<Rightarrow> do {
             modify (upd_i2c h (\<lambda>c. c\<lparr>operation := I2C_READ, is_xfer_abort := False, is_async := True,
               xfer_size := nbytes, buffer := buf\<rparr>));
             if role c = I2C_ROLE_SLAVE then i2c_arm_slave_read h buf nbytes
             else do {
               e \<leftarrow> (if \<not> is_rdma_en c then i2c_start_xfer_int_mode h I2C_READ buf nbytes
                     else do {
                       modify (upd_i2c h (\<lambda>c. c\<lparr>bytes_left := 0\<rparr>));
                       i2c_start_xfer_dma_mode h I2C_READ buf nbytes
                     });
               ret (Some e)
             }
           }
       }
     }
   }"

definition i2c_cancel :: "i2c_handle_t \<Rightarrow> ('x i2c_state_scheme, int) state" where
  "i2c_cancel hi2c =
     (case hi2c of None \<Rightarrow> ret (- EINVAL)
      | Some h \<Rightarrow> do {
          c \<leftarrow> get_i2c h;
          if \<not> i2c_is_open c then ret (- EINVAL)
          else if role c \<noteq> I2C_ROLE_MASTER then ret (- EPERM)
          else if \<not> is_busy c then ret (- EPERM)
          else do {
            whenM (is_dma_open c)
              (if operation c = I2C_WRITE then do { _ \<leftarrow> dma_stop_transfer (wdma_handle c); ret () }
               else if operation c = I2C_READ then do {
                 _ \<leftarrow> dma_stop_transfer (wdma_handle c);
                 _ \<leftarrow> dma_stop_transfer (rdma_handle c);
                 ret ()
               } else ret ());
            i2c_ll_cancel (i2c_base c);
            modify (upd_i2c h (\<lambda>c. c\<lparr>is_xfer_abort := False, is_busy := False, no_stop_flag := False\<rparr>));
            ret 0
          }
        })"


section \<open>The interrupt handler\<close>

text \<open>
  The slave's receive event: one byte, which goes to the callbacks unless DMA reception is enabled;
  while a DMA reception is under way the FIFO is left alone.
\<close>

definition i2c_slave_handle_rx :: "nat \<Rightarrow> bool \<Rightarrow> bool \<Rightarrow> ('x i2c_state_scheme, unit) state" where
  "i2c_slave_handle_rx h rdma_enabled dma_rx_active = do {
     c \<leftarrow> get_i2c h;
     slot \<leftarrow> local_slot;
     if rdma_enabled \<and> \<not> dma_rx_active then do { _ \<leftarrow> i2c_read_fifo (i2c_base c) slot 1; ret () }
     else if \<not> dma_rx_active then do {
       n \<leftarrow> i2c_read_fifo (i2c_base c) slot 1;
       whenM (n = 1) (do {
         byte \<leftarrow> peek slot;
         whenM (\<not> slave_write_started c) (do {
           modify (upd_i2c h (\<lambda>c. c\<lparr>slave_write_started := True\<rparr>));
           whenM (slave_wr_requested_cb c \<noteq> F_NULL)
             (emit (Call (slave_wr_requested_cb c) (slave_cb_usr_ctxt c) [word_of_nat h]))
         });
         whenM (slave_wr_received_cb c \<noteq> F_NULL)
           (emit (Call (slave_wr_received_cb c) (slave_cb_usr_ctxt c) [word_of_nat h, ucast byte]))
       })
     } else ret ()
   }"

definition i2c_isr_slave :: "nat \<Rightarrow> ('x i2c_state_scheme, unit option) state" where
  "i2c_isr_slave h = do {
     c \<leftarrow> get_i2c h;
     let base = i2c_base c;
     raw \<leftarrow> i2c_ll_get_raw_interrupt_status base;
     let dma_rx_active = (is_busy c \<and> operation c = I2C_READ \<and> is_rdma_en c);
     let rdma_enabled = is_rdma_en c;
     whenM (raw AND I2C_RAW_INTR_STAT_TX_ABRT_MASK \<noteq> 0) (i2c_slave_handle_tx_abort h);
     over \<leftarrow> (if raw AND I2C_RAW_INTR_STAT_RX_OVER_MASK \<noteq> 0 then do {
                drained \<leftarrow> i2c_drain_rx_fifo base;
                whenM (drained \<noteq> None) (i2c_ll_clear_rx_over base);
                ret drained
              } else ret (Some ()));
     if over = None then ret None
     else do {
       whenM (raw AND I2C_RAW_INTR_STAT_RD_REQ_MASK \<noteq> 0) (i2c_slave_handle_read_request h);
       whenM (raw AND I2C_RAW_INTR_STAT_RX_FULL_MASK \<noteq> 0) (i2c_slave_handle_rx h rdma_enabled dma_rx_active);
       whenM (raw AND I2C_RAW_INTR_STAT_STOP_DET_MASK \<noteq> 0) (i2c_slave_handle_stop_detect h);
       ret (Some ())
     }
   }"

text \<open>A callback pointer is called as it is, also when it is null.\<close>

definition i2c_notify :: "nat \<Rightarrow> u64 \<Rightarrow> ('x i2c_state_scheme, unit) state" where
  "i2c_notify h status = do {
     c \<leftarrow> get_i2c h;
     if i2c_callback_fn c = F_NULL then ub ''null call''
     else emit (Call (i2c_callback_fn c) (cb_usr_ctxt c) [status])
   }"

text \<open>The end of a transfer: the callback, or the semaphore the blocked caller waits for.\<close>

definition i2c_complete :: "nat \<Rightarrow> ('x i2c_state_scheme, unit) state" where
  "i2c_complete h = do {
     c \<leftarrow> get_i2c h;
     if is_async c then do {
       modify (upd_i2c h (\<lambda>c. c\<lparr>is_busy := False, no_stop_flag := False\<rparr>));
       i2c_notify h I2C_SUCCESS
     } else do { _ \<leftarrow> osal_semaphore_post (i2c_sem c); ret () }
   }"

definition i2c_master_abort :: "nat \<Rightarrow> ('x i2c_state_scheme, unit) state" where
  "i2c_master_abort h = do {
     c \<leftarrow> get_i2c h;
     i2c_disable_interrupt (i2c_base c) (I2C_TX_ABORT_INT OR I2C_TX_EMPTY_INT OR I2C_RX_FULL_INT);
     modify (upd_i2c h (\<lambda>c. c\<lparr>is_xfer_abort := True\<rparr>));
     if is_async c then i2c_notify h I2C_NACK
     else do { _ \<leftarrow> osal_semaphore_post (i2c_sem c); ret () }
   }"

definition i2c_master_tx_empty :: "nat \<Rightarrow> bool \<Rightarrow> ('x i2c_state_scheme, unit) state" where
  "i2c_master_tx_empty h no_stop = do {
     c \<leftarrow> get_i2c h;
     let base = i2c_base c;
     if operation c = I2C_READ then
       (if rd_cmds_left c > 0 then do {
          n \<leftarrow> i2c_enq_read_cmd base (ucast (rd_cmds_left c)) no_stop;
          modify (upd_i2c h (\<lambda>c. c\<lparr>rd_cmds_left := rd_cmds_left c - ucast n\<rparr>))
        } else i2c_disable_interrupt base I2C_TX_EMPTY_INT)
     else
       (if bytes_left c > 0 then do {
          n \<leftarrow> i2c_write_fifo base (buffer c) (ucast (bytes_left c)) no_stop;
          modify (upd_i2c h (\<lambda>c. c\<lparr>bytes_left := bytes_left c - ucast n, buffer := buffer c + ucast n\<rparr>))
        } else do {
          i2c_disable_interrupt base I2C_TX_EMPTY_INT;
          i2c_complete h
        })
   }"

definition i2c_master_rx_full :: "nat \<Rightarrow> bool \<Rightarrow> ('x i2c_state_scheme, unit) state" where
  "i2c_master_rx_full h no_stop = do {
     c \<leftarrow> get_i2c h;
     let base = i2c_base c;
     whenM (rd_cmds_left c > 0) (do {
       n \<leftarrow> i2c_enq_read_cmd base (ucast (rd_cmds_left c)) no_stop;
       modify (upd_i2c h (\<lambda>c. c\<lparr>rd_cmds_left := rd_cmds_left c - ucast n\<rparr>))
     });
     whenM (bytes_left c > 0) (do {
       n \<leftarrow> i2c_read_fifo base (buffer c) (ucast (bytes_left c));
       modify (upd_i2c h (\<lambda>c. c\<lparr>bytes_left := bytes_left c - ucast n, buffer := buffer c + ucast n\<rparr>))
     });
     c \<leftarrow> get_i2c h;
     whenM (bytes_left c = 0) (do {
       i2c_disable_interrupt base I2C_RX_FULL_INT;
       i2c_complete h
     })
   }"

definition i2c_isr_master :: "nat \<Rightarrow> ('x i2c_state_scheme, unit) state" where
  "i2c_isr_master h = do {
     c \<leftarrow> get_i2c h;
     let base = i2c_base c;
     status \<leftarrow> i2c_get_interrupt_status base;
     i2c_clear_interrupt base;
     let no_stop = no_stop_flag c;
     if status AND I2C_TX_ABORT_INT = I2C_TX_ABORT_INT then i2c_master_abort h
     else do {
       whenM (status AND I2C_TX_EMPTY_INT = 1) (i2c_master_tx_empty h no_stop);
       whenM (status AND I2C_RX_FULL_INT = I2C_RX_FULL_INT) (i2c_master_rx_full h no_stop)
     }
   }"

definition i2c_isr :: "vptr \<Rightarrow> ('x i2c_state_scheme, unit option) state" where
  "i2c_isr dat =
     (case dat of
        V_i2c h \<Rightarrow> do {
          c \<leftarrow> get_i2c h;
          if role c = I2C_ROLE_SLAVE then i2c_isr_slave h
          else do { i2c_isr_master h; ret (Some ()) }
        }
      | V_NULL \<Rightarrow> ret (Some ())
      | _ \<Rightarrow> do { ub ''i2c handle''; ret (Some ()) })"

section \<open>The DMA callbacks\<close>

definition i2c_dma_complete :: "nat \<Rightarrow> ('x i2c_state_scheme, unit) state" where
  "i2c_dma_complete h = do {
     c \<leftarrow> get_i2c h;
     if is_async c then do {
       modify (upd_i2c h (\<lambda>c. c\<lparr>is_busy := False, no_stop_flag := False\<rparr>));
       i2c_notify h (if is_xfer_abort c then I2C_NACK else I2C_SUCCESS)
     } else do { _ \<leftarrow> osal_semaphore_post (i2c_sem c); ret () }
   }"

definition i2c_wdma_callback :: "vptr \<Rightarrow> ('x i2c_state_scheme, unit) state" where
  "i2c_wdma_callback dat =
     (case dat of
        V_i2c h \<Rightarrow> do {
          c \<leftarrow> get_i2c h;
          i2c_ll_tdma_disable (i2c_base c);
          whenM (role c = I2C_ROLE_SLAVE) (i2c_enable_interrupt (i2c_base c) I2C_RD_REQ_INT);
          whenM (operation c = I2C_WRITE) (i2c_dma_complete h)
        }
      | _ \<Rightarrow> ub ''i2c handle'')"

definition i2c_rdma_callback :: "vptr \<Rightarrow> ('x i2c_state_scheme, unit) state" where
  "i2c_rdma_callback dat =
     (case dat of
        V_i2c h \<Rightarrow> do {
          c \<leftarrow> get_i2c h;
          i2c_ll_rdma_disable (i2c_base c);
          whenM (role c = I2C_ROLE_SLAVE) (i2c_enable_interrupt (i2c_base c) I2C_RX_FULL_INT);
          whenM (operation c = I2C_READ) (i2c_dma_complete h)
        }
      | _ \<Rightarrow> ub ''i2c handle'')"

section \<open>The descriptor table\<close>

lemma upd_i2c_fields [simp]:
  "i2c_desc (upd_i2c h f s) = (i2c_desc s)(h := f (i2c_desc s h))"
  "trace (upd_i2c h f s) = trace s" "env (upd_i2c h f s) = env s" "mem (upd_i2c h f s) = mem s"
  "hdma_default (upd_i2c h f s) = hdma_default s" "plinked_list_chain (upd_i2c h f s) = plinked_list_chain s"
  "plinked_list_at (upd_i2c h f s) = plinked_list_at s" "i2c_transfer_buf_at (upd_i2c h f s) = i2c_transfer_buf_at s"
  "interrupt_callbacks (upd_i2c h f s) = interrupt_callbacks s"
  by (simp_all add: upd_i2c_def)

interpretation buses: slots i2c_desc upd_i2c "\<lambda>_ _. True"
  by unfold_locales simp_all

section \<open>The blocks of a DMA transfer\<close>

text \<open>The addresses a block reads words from, and those it writes bytes to.\<close>

definition block_words :: "dma_xfer_cfg_t \<Rightarrow> u64 list" where
  "block_words b = map (\<lambda>j. src b + 4 * word_of_nat j) [0..<unat (blk_size b) div 4]"

definition block_bytes :: "dma_xfer_cfg_t \<Rightarrow> u64 list" where
  "block_bytes b = map (\<lambda>j. dst b + word_of_nat j) [0..<unat (blk_size b)]"

lemma i2c_chunk:
  fixes r :: u64
  assumes "chunk = (if r > I2C_DMA_XFER_BLK_SIZE then I2C_DMA_XFER_BLK_SIZE else r)"
  shows "unat chunk = min (unat r) 512" "unat (r - chunk) = unat r - min (unat r) 512"
    "unat (ucast (chunk * 4) :: u32) = 4 * min (unat r) 512" "unat (ucast chunk :: u32) = min (unat r) 512"
proof -
  show c: "unat chunk = min (unat r) 512"
    using assms by (simp add: I2C_DMA_XFER_BLK_SIZE_def word_less_nat_alt min_def)
  have "chunk \<le> r"
    using assms by (auto simp add: I2C_DMA_XFER_BLK_SIZE_def)
  then show "unat (r - chunk) = unat r - min (unat r) 512"
    by (simp add: unat_sub c)
  have "unat chunk * unat (4 :: u64) < 2 ^ 64"
    by (simp add: c min_def)
  then have "unat (chunk * 4) = unat chunk * 4"
    by (simp add: unat_mult_no_wrap)
  then show "unat (ucast (chunk * 4) :: u32) = 4 * min (unat r) 512"
    by (simp add: unsigned_ucast_eq take_bit_nat_eq_self c)
  show "unat (ucast chunk :: u32) = min (unat r) 512"
    by (simp add: unsigned_ucast_eq take_bit_nat_eq_self c)
qed

lemma min_chunks: "min r 512 + min (r - min r 512) (512 * k) = min r (512 * Suc k)" for r k :: nat
  by (auto simp: min_def)

lemma chunk_shift:
  fixes r k :: nat
  assumes "\<And>j. g j = f (512 + j)"
  shows "map g [0..<min (r - min r 512) k] = map f [min r 512..<min r 512 + min (r - min r 512) k]"
proof (cases "r \<le> 512")
  case False
  let ?m = "min (r - 512) k"
  have "[512..<512 + ?m] = map (\<lambda>i. i + 512) [0..<?m]"
    by (simp add: map_add_upt add.commute)
  with False show ?thesis
    by (simp add: assms min_def add.commute)
qed simp

lemma wdma_blocks_words:
  "concat (map block_words (i2c_wdma_blocks p base b i k r)) =
     map (\<lambda>j. p + 4 * word_of_nat (512 * i + j)) [0..<min (unat r) (512 * k)]"
proof (induction k arbitrary: i r)
  case (Suc k)
  define chunk where "chunk = (if r > I2C_DMA_XFER_BLK_SIZE then I2C_DMA_XFER_BLK_SIZE else r)"
  note c = i2c_chunk [OF chunk_def]
  let ?c = "min (unat r) 512"
  have head: "i2c_wdma_blocks p base b i (Suc k) r =
     \<lparr>src = p + 4 * (word_of_nat i * I2C_DMA_XFER_BLK_SIZE), dst = ucast (base + I2C_DATA_CMD),
      blk_size = ucast (chunk * 4), src_burst_len = b, dst_burst_len = b\<rparr> # i2c_wdma_blocks p base b (i + 1) k (r - chunk)"
    by (simp add: Let_def chunk_def)
  have one: "block_words \<lparr>src = p + 4 * (word_of_nat i * I2C_DMA_XFER_BLK_SIZE), dst = ucast (base + I2C_DATA_CMD),
      blk_size = ucast (chunk * 4), src_burst_len = b, dst_burst_len = b\<rparr> = map (\<lambda>j. p + 4 * word_of_nat (512 * i + j)) [0..<?c]"
    by (simp add: block_words_def c I2C_DMA_XFER_BLK_SIZE_def algebra_simps)
  have "concat (map block_words (i2c_wdma_blocks p base b (i + 1) k (r - chunk))) =
     map (\<lambda>j. p + 4 * word_of_nat (512 * (i + 1) + j)) [0..<min (unat r - ?c) (512 * k)]"
    by (simp only: Suc.IH c)
  also have "\<dots> = map (\<lambda>j. p + 4 * word_of_nat (512 * i + j)) [?c..<?c + min (unat r - ?c) (512 * k)]"
    by (rule chunk_shift) (simp add: add.assoc)
  finally show ?case
    by (simp only: head list.map concat.simps one map_append [symmetric] min_chunks [of "unat r" k, symmetric] upt_add_eq_append [OF le0, symmetric])
qed simp

lemma rdma_blocks_bytes:
  "concat (map block_bytes (i2c_rdma_blocks p base b i k r)) =
     map (\<lambda>j. p + word_of_nat (512 * i + j)) [0..<min (unat r) (512 * k)]"
proof (induction k arbitrary: i r)
  case (Suc k)
  define chunk where "chunk = (if r > I2C_DMA_XFER_BLK_SIZE then I2C_DMA_XFER_BLK_SIZE else r)"
  note c = i2c_chunk [OF chunk_def]
  let ?c = "min (unat r) 512"
  have head: "i2c_rdma_blocks p base b i (Suc k) r =
     \<lparr>src = ucast (base + I2C_DATA_CMD), dst = p + word_of_nat i * I2C_DMA_XFER_BLK_SIZE,
      blk_size = ucast chunk, src_burst_len = b, dst_burst_len = b\<rparr> # i2c_rdma_blocks p base b (i + 1) k (r - chunk)"
    by (simp add: Let_def chunk_def)
  have one: "block_bytes \<lparr>src = ucast (base + I2C_DATA_CMD), dst = p + word_of_nat i * I2C_DMA_XFER_BLK_SIZE,
      blk_size = ucast chunk, src_burst_len = b, dst_burst_len = b\<rparr> = map (\<lambda>j. p + word_of_nat (512 * i + j)) [0..<?c]"
    by (simp add: block_bytes_def c I2C_DMA_XFER_BLK_SIZE_def algebra_simps)
  have "concat (map block_bytes (i2c_rdma_blocks p base b (i + 1) k (r - chunk))) =
     map (\<lambda>j. p + word_of_nat (512 * (i + 1) + j)) [0..<min (unat r - ?c) (512 * k)]"
    by (simp only: Suc.IH c)
  also have "\<dots> = map (\<lambda>j. p + word_of_nat (512 * i + j)) [?c..<?c + min (unat r - ?c) (512 * k)]"
    by (rule chunk_shift) (simp add: add.assoc)
  finally show ?case
    by (simp only: head list.map concat.simps one map_append [symmetric] min_chunks [of "unat r" k, symmetric] upt_add_eq_append [OF le0, symmetric])
qed simp

lemma blk_cnt_covers:
  assumes "i2c_blk_cnt n \<le> MAX_I2C_BLK_XFERS" and "n < - 512"
  shows "unat n \<le> 512 * unat (ucast (i2c_blk_cnt n) :: u32)"
proof -
  have lt: "unat n + 511 < 2 ^ 64"
    using assms(2) by (simp add: word_less_nat_alt)
  have "n + I2C_DMA_XFER_BLK_SIZE - 1 = 511 + n"
    by (simp add: I2C_DMA_XFER_BLK_SIZE_def)
  moreover have "unat (511 + n) = unat n + 511"
    using lt by (simp add: unat_add_lem [THEN iffD1])
  ultimately have b: "unat (i2c_blk_cnt n) = (unat n + 511) div 512"
    by (simp add: i2c_blk_cnt_def I2C_DMA_XFER_BLK_SIZE_def unat_div)
  moreover have "unat (i2c_blk_cnt n) \<le> 8"
    using assms(1) by (simp add: MAX_I2C_BLK_XFERS_def word_le_nat_alt)
  then have "unat (ucast (i2c_blk_cnt n) :: u32) = unat (i2c_blk_cnt n)"
    by (simp add: unsigned_ucast_eq take_bit_nat_eq_self)
  ultimately show ?thesis by simp
qed

text \<open>
  The blocks of a DMA transfer are the buffer: whenever the number of blocks the driver
  computes is one it accepts (at most eight of 512 items), the blocks built for a write read,
  in order and without gap or overlap, exactly the words of the buffer, and the blocks built for a
  read fill exactly its bytes. The lengths are below the last 512 of the address range, where the
  rounding of the number of blocks does not wrap.
\<close>

theorem i2c_dma_blocks_cover:
  assumes "i2c_blk_cnt n \<le> MAX_I2C_BLK_XFERS" and "n < - 512"
  shows "concat (map block_words (i2c_wdma_blocks p base b 0 (unat (ucast (i2c_blk_cnt n) :: u32)) n)) =
      map (\<lambda>j. p + 4 * word_of_nat j) [0..<unat n]
    \<and> concat (map block_bytes (i2c_rdma_blocks p base b 0 (unat (ucast (i2c_blk_cnt n) :: u32)) n)) =
      map (\<lambda>j. p + word_of_nat j) [0..<unat n]"
  using blk_cnt_covers [OF assms]
  by (simp_all add: wdma_blocks_words rdma_blocks_bytes min_absorb1)

theorem i2c_dma_blocks_cover_witness:
  "concat (map block_bytes (i2c_rdma_blocks 0x1000 0 0 0 2 700)) = map (\<lambda>j. 0x1000 + word_of_nat j) [0..<700]"
  using i2c_dma_blocks_cover [of 700 "0x1000" 0 0]
  by (simp add: i2c_blk_cnt_def I2C_DMA_XFER_BLK_SIZE_def MAX_I2C_BLK_XFERS_def del: upt_conv_Cons)

section \<open>Where an ending is not an end\<close>

text \<open>
  A transfer that was not acknowledged is reported to the callback with the controller still
  busy; cancelling frees the controller but keeps what was left of the transfer and leaves the
  interrupts as they are; the request for the state of the bus returns the whole status register.
\<close>

lemma i2c_abort_stays_busy:
  "is_async (i2c_desc s h) \<Longrightarrow> is_busy (i2c_desc (final (i2c_master_abort h) s) h) = is_busy (i2c_desc s h)"
  by (simp add: i2c_master_abort_def i2c_notify_def run_i2c_interrupts Let_def split_beta)

lemma i2c_cancel_leaves:
  assumes "i2c_is_open (i2c_desc s h)" and "role (i2c_desc s h) = I2C_ROLE_MASTER" and "is_busy (i2c_desc s h)"
    and "\<not> is_dma_open (i2c_desc s h)" and "i2c_base (i2c_desc s h) = base"
  defines "t \<equiv> final (i2c_cancel (Some h)) s"
  shows "bytes_left (i2c_desc t h) = bytes_left (i2c_desc s h) \<and> operation (i2c_desc t h) = operation (i2c_desc s h)
    \<and> \<not> is_busy (i2c_desc t h) \<and> last_wr32 (trace t) (ucast (base + I2C_INTR_MASK)) = last_wr32 (trace s) (ucast (base + I2C_INTR_MASK))"
  using assms by (simp add: t_def i2c_cancel_def i2c_ll_cancel_def split_beta i2c_regs)

lemma i2c_bus_state_result:
  assumes "i2c_is_open (i2c_desc s h)"
  shows "fst (result (i2c_ioctl (Some h) (I2C_GET_BUS_STATE True)) s) =
    sint (hw_rd32 (env s) (trace s) (ucast (i2c_base (i2c_desc s h) + I2C_STATUS)))"
  using assms by (simp add: i2c_ioctl_def i2c_read_status_def split_beta Let_def)

end
