(* ===== verification/I2c_Transfers.thy ===== *)
theory I2c_Transfers
  imports I2c
begin

unbundle bit_operations_syntax

text \<open>
  The master transfers of the I2C driver that run by interrupt, from the call that starts them
  through every interrupt to their end: what has been put on the bus, what has been received
  and what the descriptor says of it.
\<close>

section \<open>What a program leaves alone\<close>

text \<open>
  \<open>still v m\<close>: a run of \<open>m\<close> changes nothing but the trace, and not what \<open>v\<close> sees of it.
\<close>

named_theorems still_intros

definition still :: "(ev list \<Rightarrow> 'v) \<Rightarrow> ('x machine_scheme, 'a) state \<Rightarrow> bool" where
  "still v m \<longleftrightarrow> (\<forall>s. \<exists>t. final m s = s\<lparr>trace := t\<rparr> \<and> v t = v (trace s))"

lemma stillI: "(\<And>s. \<exists>t. final m s = s\<lparr>trace := t\<rparr> \<and> v t = v (trace s)) \<Longrightarrow> still v m"
  by (simp add: still_def)

lemma stillD: "still v m \<Longrightarrow> \<exists>t. final m s = s\<lparr>trace := t\<rparr> \<and> v t = v (trace s)"
  by (simp add: still_def)

lemma stillE:
  assumes "still v m"
  obtains t where "final m s = s\<lparr>trace := t\<rparr>" and "v t = v (trace s)"
  using assms by (auto simp: still_def)

lemma still_same: "(\<And>s. final m s = s) \<Longrightarrow> still v m"
  by (intro stillI) (metis machine.surjective machine.update_convs(2))

lemma still_ret [still_intros]: "still v (ret x)" and still_gets [still_intros]: "still v (gets f)"
  and still_peek [still_intros]: "still v (peek p)"
  by (rule still_same, simp)+

lemma still_bind [still_intros]:
  assumes m: "still v m" and f: "\<And>x. still v (f x)"
  shows "still v (m \<bind> f)"
proof (rule stillI)
  fix s
  obtain t where t: "final m s = s\<lparr>trace := t\<rparr>" "v t = v (trace s)"
    using m by (rule stillE)
  obtain u where "final (f (result m s)) (s\<lparr>trace := t\<rparr>) = s\<lparr>trace := t\<rparr>\<lparr>trace := u\<rparr>" "v u = v (trace (s\<lparr>trace := t\<rparr>))"
    using f by (rule stillE)
  with t show "\<exists>u. final (m \<bind> f) s = s\<lparr>trace := u\<rparr> \<and> v u = v (trace s)"
    by (auto simp: split_beta)
qed

lemma still_if [still_intros]: "(b \<Longrightarrow> still v m) \<Longrightarrow> (\<not> b \<Longrightarrow> still v n) \<Longrightarrow> still v (if b then m else n)"
  by simp

lemma still_whenM [still_intros]: "(b \<Longrightarrow> still v m) \<Longrightarrow> still v (whenM b m)"
  unfolding whenM_def by (intro still_intros)

lemma still_prod [still_intros]: "(\<And>x y. still v (f x y)) \<Longrightarrow> still v (case p of (x, y) \<Rightarrow> f x y)"
  by (cases p) simp

lemma still_let [still_intros]: "(\<And>x. still v (f x)) \<Longrightarrow> still v (let x = w in f x)"
  by simp

lemma still_prims [still_intros]:
  "(\<And>t. v (e # t) = v t) \<Longrightarrow> still v (emit e)"
  "(\<And>t. v (UB w # t) = v t) \<Longrightarrow> still v (ub w)"
  "(\<And>t x. v (Rd32 (ucast r) x # t) = v t) \<Longrightarrow> still v (RD_REG32 r)"
  "(\<And>t. v (Wr32 (ucast r) d # t) = v t) \<Longrightarrow> still v (WR_REG32 r d)"
  "(\<And>t x. v (Kern c x # t) = v t) \<Longrightarrow> still v (kern c)"
  by (auto simp: still_def intro!: exI)

text \<open>The commands sent, the words received, and what was written to the interrupt mask.\<close>

definition mask_reg :: "u32 \<Rightarrow> u64" where
  "mask_reg base = ucast (base + I2C_INTR_MASK)"

definition view :: "u32 \<Rightarrow> ev list \<Rightarrow> u32 list \<times> u32 list \<times> u32 list" where
  "view base t = (sent (cmd_reg base) t, received (cmd_reg base) t, sent (mask_reg base) t)"

lemma view_simps [simp]:
  "view base (Kern c z # t) = view base t" "view base (Call f p xs # t) = view base t" "view base (UB w # t) = view base t"
  "view base (Rd32 a x # t) = (if a = cmd_reg base then (sent (cmd_reg base) t, received (cmd_reg base) t @ [x], sent (mask_reg base) t) else view base t)"
  "view base (Wr32 a x # t) = (if a = cmd_reg base then (sent (cmd_reg base) t @ [x], received (cmd_reg base) t, sent (mask_reg base) t)
     else if a = mask_reg base then (sent (cmd_reg base) t, received (cmd_reg base) t, sent (mask_reg base) t @ [x]) else view base t)"
  by (simp_all add: view_def cmd_reg_def mask_reg_def i2c_regs)

lemma still_osal [still_intros]:
  "still (view base) (osal_semaphore_post w)" "still (view base) (osal_semaphore_wait w n)"
  "still (view base) (osal_mutex_lock w n)" "still (view base) (osal_mutex_unlock w)"
  unfolding osal_defs by (intro still_intros; simp)+

lemma still_i2c_ll [still_intros]:
  "still (view base) (i2c_get_interrupt_status base)" "still (view base) (i2c_clear_interrupt base)"
  "still (view base) (i2c_read_status base)" "still (view base) (i2c_get_config base)"
  unfolding i2c_ll_defs by (intro still_intros; simp add: cmd_reg_def mask_reg_def i2c_regs)+


text \<open>The FIFO loops do not write the interrupt mask.\<close>

definition spares :: "u64 \<Rightarrow> ev \<Rightarrow> bool" where
  "spares a e \<longleftrightarrow> (\<forall>v. e \<noteq> Wr32 a v)"

lemma spares_simps [simp]: "spares a (Rd32 b v)" "spares a (Wr32 b v) \<longleftrightarrow> b \<noteq> a"
  by (auto simp: spares_def)

lemma sent_spares: "list_all (spares a) es \<Longrightarrow> sent a (es @ t) = sent a t"
proof (induction es)
  case (Cons e es)
  then show ?case by (cases e) auto
qed simp

lemma emits_fifo:
  "emits (spares (mask_reg base)) (i2c_write_loop r base buf n nsf c)"
  "emits (spares (mask_reg base)) (i2c_enq_loop r base n nsf c)"
  "emits (spares (mask_reg base)) (i2c_read_loop r base buf c)"
proof -
  have ne: "ucast (base + I2C_DATA_CMD) \<noteq> mask_reg base"
    by (simp add: mask_reg_def i2c_regs)
  show "emits (spares (mask_reg base)) (i2c_write_loop r base buf n nsf c)"
    by (induction r arbitrary: c) (auto intro!: emits_intros simp: ne)
  show "emits (spares (mask_reg base)) (i2c_enq_loop r base n nsf c)"
    by (induction r arbitrary: c) (auto intro!: emits_intros simp: ne)
  show "emits (spares (mask_reg base)) (i2c_read_loop r base buf c)"
    by (induction r arbitrary: c) (auto intro!: emits_intros)
qed

lemma emits_spares_sent:
  assumes "emits (spares a) m"
  shows "sent a (trace (final m s)) = sent a (trace s)"
proof -
  obtain es where "trace (final m s) = es @ trace s" "list_all (spares a) es"
    using assms by (rule emitsD)
  then show ?thesis by (simp add: sent_spares)
qed

lemma fifo_spares:
  "sent (mask_reg base) (trace (final (i2c_write_fifo base buf n nsf) s)) = sent (mask_reg base) (trace s)"
  "sent (mask_reg base) (trace (final (i2c_enq_read_cmd base n nsf) s)) = sent (mask_reg base) (trace s)"
  "sent (mask_reg base) (trace (final (i2c_read_fifo base buf n) s)) = sent (mask_reg base) (trace s)"
  unfolding i2c_write_fifo_def i2c_enq_read_cmd_def i2c_read_fifo_def
  by (rule emits_spares_sent; intro emits_intros emits_fifo)+

lemma write_fifo_view:
  assumes "unat n < 65536"
  obtains k t where "k \<le> unat n"
    "run_state (i2c_write_fifo base buf n nsf) s = (word_of_nat k, s\<lparr>trace := t\<rparr>)"
    "view base t = (sent (cmd_reg base) (trace s) @ take k (write_cmds (mem s) buf (unat n) nsf),
       received (cmd_reg base) (trace s), sent (mask_reg base) (trace s))"
proof -
  obtain k t where "k \<le> unat n"
      and run: "run_state (i2c_write_fifo base buf n nsf) s = (word_of_nat k, s\<lparr>trace := t\<rparr>)"
      and "sent (cmd_reg base) t = sent (cmd_reg base) (trace s) @ take k (write_cmds (mem s) buf (unat n) nsf)"
      "received (cmd_reg base) t = received (cmd_reg base) (trace s)"
    by (rule i2c_fifo_sends [OF assms])
  moreover have "sent (mask_reg base) t = sent (mask_reg base) (trace s)"
    using fifo_spares(1) [of base buf n nsf s] by (simp add: run)
  ultimately show ?thesis
    using that by (simp add: view_def)
qed

lemma enq_read_view:
  assumes "unat n < 65536"
  obtains k t where "k \<le> unat n"
    "run_state (i2c_enq_read_cmd base n nsf) s = (word_of_nat k, s\<lparr>trace := t\<rparr>)"
    "view base t = (sent (cmd_reg base) (trace s) @ take k (read_cmds (unat n) nsf),
       received (cmd_reg base) (trace s), sent (mask_reg base) (trace s))"
proof -
  obtain k t where "k \<le> unat n"
      and run: "run_state (i2c_enq_read_cmd base n nsf) s = (word_of_nat k, s\<lparr>trace := t\<rparr>)"
      and "sent (cmd_reg base) t = sent (cmd_reg base) (trace s) @ take k (read_cmds (unat n) nsf)"
      "received (cmd_reg base) t = received (cmd_reg base) (trace s)"
    by (rule enq_read_sends [OF assms])
  moreover have "sent (mask_reg base) t = sent (mask_reg base) (trace s)"
    using fifo_spares(2) [of base n nsf s] by (simp add: run)
  ultimately show ?thesis
    using that by (simp add: view_def)
qed

lemma read_fifo_view:
  assumes "unat n < 65536"
  obtains vs t where "length vs \<le> unat n"
    "run_state (i2c_read_fifo base buf n) s =
       (word_of_nat (length vs), s\<lparr>trace := t, mem := store_bytes (mem s) buf (map ucast vs)\<rparr>)"
    "view base t = (sent (cmd_reg base) (trace s), received (cmd_reg base) (trace s) @ vs, sent (mask_reg base) (trace s))"
proof -
  obtain vs t where "length vs \<le> unat n"
      and run: "run_state (i2c_read_fifo base buf n) s =
       (word_of_nat (length vs), s\<lparr>trace := t, mem := store_bytes (mem s) buf (map ucast vs)\<rparr>)"
      and "received (cmd_reg base) t = received (cmd_reg base) (trace s) @ vs"
      "sent (cmd_reg base) t = sent (cmd_reg base) (trace s)"
    by (rule read_fifo_stores [OF assms])
  moreover have "sent (mask_reg base) t = sent (mask_reg base) (trace s)"
    using fifo_spares(3) [of base buf n s] by (simp add: run)
  ultimately show ?thesis
    using that by (simp add: view_def)
qed

section \<open>The receive interrupt stays masked\<close>

text \<open>
  The documented behaviour of the interrupt registers: the mask reads back, and the status shows
  nothing that is masked.
\<close>

definition intr_regs_ok :: "env \<Rightarrow> u32 \<Rightarrow> bool" where
  "intr_regs_ok e base \<longleftrightarrow> reg_holds e (mask_reg base) \<and>
     (\<forall>t. hw_rd32 e t (ucast (base + I2C_INTR_STAT)) AND NOT (hw_rd32 e t (mask_reg base)) = 0)"

definition rx_masked :: "u32 \<Rightarrow> ev list \<Rightarrow> bool" where
  "rx_masked base t \<longleftrightarrow> (case rev (sent (mask_reg base) t) of [] \<Rightarrow> False | m # _ \<Rightarrow> \<not> bit m 2)"

lemma last_wr32_sent: "last_wr32 t a = (case rev (sent a t) of [] \<Rightarrow> None | v # _ \<Rightarrow> Some v)"
  by (induction t a rule: last_wr32.induct) auto

lemma rx_masked_read:
  assumes "intr_regs_ok e base" and "rx_masked base t"
  shows "\<not> bit (hw_rd32 e t (mask_reg base)) 2"
  using assms reg_holdsD [of e "mask_reg base" t]
  by (auto simp: intr_regs_ok_def rx_masked_def last_wr32_sent split: list.splits)

lemma no_rx_full:
  assumes "intr_regs_ok e base" and "rx_masked base t"
  shows "i2c_status_of (hw_rd32 e t (ucast (base + I2C_INTR_STAT))) AND I2C_RX_FULL_INT \<noteq> I2C_RX_FULL_INT"
proof -
  let ?st = "hw_rd32 e t (ucast (base + I2C_INTR_STAT))" and ?m = "hw_rd32 e t (mask_reg base)"
  have "?st AND NOT ?m = 0"
    using assms(1) by (simp add: intr_regs_ok_def)
  then have "bit (?st AND NOT ?m) 2 = bit (0 :: u32) 2" by simp
  with rx_masked_read [OF assms] have b: "\<not> bit ?st 2"
    by (simp add: bit_simps)
  have "?st AND 4 = 0"
    using b and_exp_eq_0_iff_not_bit [of ?st 2] by simp
  then show ?thesis
    by (simp add: i2c_status_of_def Let_def i2c_ints i2c_masks)
qed

section \<open>The stream of a write\<close>

text \<open>
  Controller \<open>h\<close> while it writes the \<open>n\<close> bytes at \<open>buf\<close>: the commands sent since the start are
  those of the bytes the descriptor does not count as left, the descriptor points to the rest,
  and while something is left the controller is busy and keeps its choice of a stop.
\<close>

definition i2c_tx_stream ::
  "nat \<Rightarrow> u32 \<Rightarrow> (u64 \<Rightarrow> u8) \<Rightarrow> u64 \<Rightarrow> nat \<Rightarrow> bool \<Rightarrow> u32 list \<Rightarrow> 'x i2c_state_scheme \<Rightarrow> bool" where
  "i2c_tx_stream h base m buf n nsf before s \<longleftrightarrow>
     (let c = i2c_desc s h; left = unat (bytes_left c)
      in i2c_base c = base \<and> role c = I2C_ROLE_MASTER \<and> operation c = I2C_WRITE \<and> i2c_is_open c
       \<and> mem s = m \<and> granting (env s) \<and> intr_regs_ok (env s) base
       \<and> left \<le> n \<and> buffer c = buf + word_of_nat (n - left) \<and> xfer_size c = word_of_nat n
       \<and> (left \<noteq> 0 \<longrightarrow> is_busy c \<and> no_stop_flag c = nsf)
       \<and> sent (cmd_reg base) (trace s) = before @ take (n - left) (write_cmds m buf n nsf)
       \<and> rx_masked base (trace s))"

lemma rx_masked_view: "view base t = view base u \<Longrightarrow> rx_masked base t = rx_masked base u"
  by (simp add: view_def rx_masked_def)

lemma i2c_tx_stream_trace:
  assumes "i2c_tx_stream h base m buf n nsf before s" and "view base t = view base (trace s)"
  shows "i2c_tx_stream h base m buf n nsf before (s\<lparr>trace := t\<rparr>)"
  using assms rx_masked_view [OF assms(2)] by (simp add: i2c_tx_stream_def Let_def view_def)

lemma i2c_tx_stream_still [keeps_intros]:
  fixes m :: "('x i2c_state_scheme, 'a) state"
  assumes "still (view base) m"
  shows "keeps (i2c_tx_stream h base mm buf n nsf before) m"
proof (rule keepsI)
  fix s :: "'x i2c_state_scheme" assume "i2c_tx_stream h base mm buf n nsf before s"
  moreover obtain t where "final m s = s\<lparr>trace := t\<rparr>" "view base t = view base (trace s)"
    using assms by (rule stillE)
  ultimately show "i2c_tx_stream h base mm buf n nsf before (final m s)"
    by (simp add: i2c_tx_stream_trace)
qed

lemma bit_i2c_mask_of: "bit (i2c_mask_of req) 2 = bit req 1"
  by (simp add: i2c_mask_unfold bit_simps)

lemma rx_masked_interrupts:
  assumes "intr_regs_ok (env s) base" and "rx_masked base (trace s)"
  shows "rx_masked base (trace (final (i2c_disable_interrupt base req) s))"
    and "\<not> bit req 1 \<Longrightarrow> rx_masked base (trace (final (i2c_enable_interrupt base req) s))"
  using rx_masked_read [OF assms]
  by (simp_all add: run_i2c_interrupts Let_def rx_masked_def mask_reg_def bit_simps bit_i2c_mask_of)

lemma sent_interrupts:
  "sent (cmd_reg base) (trace (final (i2c_disable_interrupt base req) s)) = sent (cmd_reg base) (trace s)"
  "sent (cmd_reg base) (trace (final (i2c_enable_interrupt base req) s)) = sent (cmd_reg base) (trace s)"
  by (simp_all add: run_i2c_interrupts Let_def cmd_reg_def i2c_regs)

lemma interrupts_trace:
  "\<exists>t. final (i2c_disable_interrupt base req) s = s\<lparr>trace := t\<rparr>" "\<exists>t. final (i2c_enable_interrupt base req) s = s\<lparr>trace := t\<rparr>"
  by (auto simp: run_i2c_interrupts Let_def)

lemma i2c_tx_stream_interrupts [keeps_intros]:
  shows "keeps (i2c_tx_stream h base m buf n nsf before) (i2c_disable_interrupt base req)"
    and "\<not> bit req 1 \<Longrightarrow> keeps (i2c_tx_stream h base m buf n nsf before) (i2c_enable_interrupt base req)"
proof -
  have step: "i2c_tx_stream h base m buf n nsf before (s\<lparr>trace := t\<rparr>)"
    if "i2c_tx_stream h base m buf n nsf before s" "sent (cmd_reg base) t = sent (cmd_reg base) (trace s)" "rx_masked base t"
    for s :: "'x i2c_state_scheme" and t
    using that by (simp add: i2c_tx_stream_def Let_def)
  have hyps: "intr_regs_ok (env s) base" "rx_masked base (trace s)" if "i2c_tx_stream h base m buf n nsf before s"
    for s :: "'x i2c_state_scheme"
    using that by (simp_all add: i2c_tx_stream_def Let_def)
  show "keeps (i2c_tx_stream h base m buf n nsf before) (i2c_disable_interrupt base req)"
  proof (rule keepsI)
    fix s :: "'x i2c_state_scheme" assume inv: "i2c_tx_stream h base m buf n nsf before s"
    obtain t where t: "final (i2c_disable_interrupt base req) s = s\<lparr>trace := t\<rparr>"
      using interrupts_trace(1) by blast
    show "i2c_tx_stream h base m buf n nsf before (final (i2c_disable_interrupt base req) s)"
      using step [OF inv, of t] sent_interrupts(1) [of base req s] rx_masked_interrupts(1) [OF hyps [OF inv], of req]
      by (simp add: t)
  qed
  show "keeps (i2c_tx_stream h base m buf n nsf before) (i2c_enable_interrupt base req)" if "\<not> bit req 1"
  proof (rule keepsI)
    fix s :: "'x i2c_state_scheme" assume inv: "i2c_tx_stream h base m buf n nsf before s"
    obtain t where t: "final (i2c_enable_interrupt base req) s = s\<lparr>trace := t\<rparr>"
      using interrupts_trace(2) by blast
    show "i2c_tx_stream h base m buf n nsf before (final (i2c_enable_interrupt base req) s)"
      using step [OF inv, of t] sent_interrupts(2) [of base req s] rx_masked_interrupts(2) [OF hyps [OF inv] that]
      by (simp add: t)
  qed
qed

definition i2c_advance :: "nat \<Rightarrow> i2c_descriptor \<Rightarrow> i2c_descriptor" where
  "i2c_advance k c = c\<lparr>bytes_left := bytes_left c - word_of_nat k, buffer := buffer c + word_of_nat k\<rparr>"

lemma i2c_tx_stream_advance:
  assumes inv: "i2c_tx_stream h base m buf n nsf before s" and n: "n < 65536"
    and k: "k \<le> unat (bytes_left (i2c_desc s h))"
    and nsf: "bytes_left (i2c_desc s h) \<noteq> 0 \<Longrightarrow> nsf' = nsf"
    and t: "view base t = (sent (cmd_reg base) (trace s) @ take k (write_cmds m (buffer (i2c_desc s h)) (unat (bytes_left (i2c_desc s h))) nsf'),
              received (cmd_reg base) (trace s), sent (mask_reg base) (trace s))"
  shows "i2c_tx_stream h base m buf n nsf before (upd_i2c h (i2c_advance k) (s\<lparr>trace := t\<rparr>))"
proof -
  let ?c = "i2c_desc s h" and ?left = "unat (bytes_left (i2c_desc s h))"
  have left: "?left \<le> n" and buf: "buffer ?c = buf + word_of_nat (n - ?left)"
    and snt: "sent (cmd_reg base) (trace s) = before @ take (n - ?left) (write_cmds m buf n nsf)"
    and masked: "rx_masked base (trace s)"
    using inv by (simp_all add: i2c_tx_stream_def Let_def)
  have k16: "unat (word_of_nat k :: u64) = k"
    using k left n by (simp add: word_of_nat_small)
  have left': "unat (bytes_left ?c - word_of_nat k) = ?left - k"
    using k by (subst unat_sub) (simp_all add: word_le_nat_alt k16)
  have split: "n - (?left - k) = (n - ?left) + k"
    using k left by simp
  have buf': "buffer ?c + word_of_nat k = buf + word_of_nat (n - (?left - k))"
    by (simp only: buf split of_nat_add add.assoc)
  have "take k (write_cmds m (buffer ?c) ?left nsf') = take k (drop (n - ?left) (write_cmds m buf n nsf))"
  proof (cases "bytes_left ?c = 0")
    case False
    then show ?thesis
      using cmds_rest(1) [of "n - ?left" n m buf nsf] left by (simp add: buf nsf)
  qed (use k in simp)
  then have sent': "sent (cmd_reg base) t = before @ take (n - (?left - k)) (write_cmds m buf n nsf)"
    using t by (simp add: view_def snt split take_add)
  have "rx_masked base t"
    using masked t by (simp add: rx_masked_def view_def)
  moreover have "i2c_base ?c = base" "role ?c = I2C_ROLE_MASTER" "operation ?c = I2C_WRITE" "i2c_is_open ?c" "mem s = m"
    "granting (env s)" "intr_regs_ok (env s) base" "xfer_size ?c = word_of_nat n" "?left - k \<le> n"
    "?left - k \<noteq> 0 \<longrightarrow> is_busy ?c \<and> no_stop_flag ?c = nsf"
    using inv left by (auto simp add: i2c_tx_stream_def Let_def)
  ultimately show ?thesis
    by (simp add: i2c_tx_stream_def i2c_advance_def Let_def left' sent' buf')
qed

lemma i2c_write_fifo_advances:
  assumes inv: "i2c_tx_stream h base m buf n nsf before s" and n: "n < 65536"
    and nsf: "bytes_left (i2c_desc s h) \<noteq> 0 \<Longrightarrow> nsf' = nsf"
  obtains k t where
    "run_state (i2c_write_fifo base (buffer (i2c_desc s h)) (ucast (bytes_left (i2c_desc s h))) nsf') s
       = (word_of_nat k, s\<lparr>trace := t\<rparr>)"
    "(ucast (word_of_nat k :: u16) :: u64) = word_of_nat k"
    "i2c_tx_stream h base m buf n nsf before (upd_i2c h (i2c_advance k) (s\<lparr>trace := t\<rparr>))"
proof -
  let ?c = "i2c_desc s h"
  have left: "unat (bytes_left ?c) < 65536" and m: "mem s = m"
    using inv n by (simp_all add: i2c_tx_stream_def Let_def)
  then have u32: "unat (ucast (bytes_left ?c) :: u32) = unat (bytes_left ?c)"
    by (simp add: unat_ucast_u64_u32)
  obtain k t where k: "k \<le> unat (bytes_left ?c)"
      and run: "run_state (i2c_write_fifo base (buffer ?c) (ucast (bytes_left ?c)) nsf') s = (word_of_nat k, s\<lparr>trace := t\<rparr>)"
      and t: "view base t = (sent (cmd_reg base) (trace s) @ take k (write_cmds m (buffer ?c) (unat (bytes_left ?c)) nsf'),
        received (cmd_reg base) (trace s), sent (mask_reg base) (trace s))"
    using write_fifo_view [of "ucast (bytes_left ?c)" base "buffer ?c" nsf' s] left by (auto simp: u32 m)
  have "(ucast (word_of_nat k :: u16) :: u64) = word_of_nat k"
    using k left by (intro ucast_u16_of_nat) simp
  with that run i2c_tx_stream_advance [OF inv n k nsf t] show ?thesis
    by blast
qed

lemma i2c_complete_keeps:
  "keeps (\<lambda>s. i2c_tx_stream h base m buf n nsf before s \<and> bytes_left (i2c_desc s h) = 0)
     (i2c_complete h :: ('x i2c_state_scheme, unit) state)"
proof -
  let ?J = "\<lambda>s :: 'x i2c_state_scheme. i2c_tx_stream h base m buf n nsf before s \<and> bytes_left (i2c_desc s h) = 0"
  have still: "keeps ?J p" if p: "still (view base) p" for p :: "('x i2c_state_scheme, 'b) state"
  proof (rule keepsI)
    fix s :: "'x i2c_state_scheme" assume J: "?J s"
    obtain t where t: "final p s = s\<lparr>trace := t\<rparr>"
      using stillD [OF p, of s] by blast
    with J show "?J (final p s)"
      using keepsD [OF i2c_tx_stream_still [OF p]] by fastforce
  qed
  have upd: "keeps ?J (modify (upd_i2c h (\<lambda>c. c\<lparr>is_busy := False, no_stop_flag := False\<rparr>)))"
    by (intro keepsI) (simp add: i2c_tx_stream_def Let_def)
  have notify: "still (view base) (i2c_notify h v :: ('x i2c_state_scheme, unit) state)" for v
    unfolding i2c_notify_def by (intro still_intros; simp)
  have post: "keeps ?J (do { _ \<leftarrow> osal_semaphore_post w; ret () })" for w
    by (intro still still_intros)
  show ?thesis
    unfolding i2c_complete_def by (intro keeps_intros still [OF notify] upd post)
qed

lemma i2c_tx_empty_keeps:
  assumes inv: "i2c_tx_stream h base m buf n nsf before s" and n: "n < 65536"
    and nsf: "bytes_left (i2c_desc s h) \<noteq> 0 \<Longrightarrow> nsf' = nsf"
  shows "i2c_tx_stream h base m buf n nsf before (final (i2c_master_tx_empty h nsf') s)"
proof -
  let ?c = "i2c_desc s h"
  have c: "i2c_base ?c = base" "operation ?c = I2C_WRITE"
    using inv by (simp_all add: i2c_tx_stream_def Let_def)
  show ?thesis
  proof (cases "bytes_left ?c > 0")
    case True
    obtain k t where "run_state (i2c_write_fifo base (buffer ?c) (ucast (bytes_left ?c)) nsf') s = (word_of_nat k, s\<lparr>trace := t\<rparr>)"
        and "(ucast (word_of_nat k :: u16) :: u64) = word_of_nat k"
        and "i2c_tx_stream h base m buf n nsf before (upd_i2c h (i2c_advance k) (s\<lparr>trace := t\<rparr>))"
      using i2c_write_fifo_advances [OF inv n nsf] by blast
    with True show ?thesis
      by (simp add: i2c_master_tx_empty_def c i2c_advance_def upd_i2c_def split_beta)
  next
    case False
    then have idle: "bytes_left ?c = 0"
      by (simp add: word_gt_0)
    obtain t where t: "final (i2c_disable_interrupt base I2C_TX_EMPTY_INT) s = s\<lparr>trace := t\<rparr>"
      using interrupts_trace(1) by blast
    have "i2c_tx_stream h base m buf n nsf before (s\<lparr>trace := t\<rparr>)"
      using keepsD [OF i2c_tx_stream_interrupts(1) inv, of I2C_TX_EMPTY_INT] by (simp add: t)
    then have "i2c_tx_stream h base m buf n nsf before (final (i2c_complete h) (s\<lparr>trace := t\<rparr>))"
      using keepsD [OF i2c_complete_keeps, of h base m buf n nsf before "s\<lparr>trace := t\<rparr>"] idle by simp
    with False t show ?thesis
      by (simp add: i2c_master_tx_empty_def c split_beta)
  qed
qed

lemma i2c_abort_keeps:
  assumes inv: "i2c_tx_stream h base m buf n nsf before s"
  shows "i2c_tx_stream h base m buf n nsf before (final (i2c_master_abort h) s)"
proof -
  let ?c = "i2c_desc s h"
  have c: "i2c_base ?c = base"
    using inv by (simp add: i2c_tx_stream_def Let_def)
  have upd: "keeps (i2c_tx_stream h base m buf n nsf before) (modify (upd_i2c h (\<lambda>c. c\<lparr>is_xfer_abort := True\<rparr>)))"
    by (intro keepsI) (simp add: i2c_tx_stream_def Let_def)
  have notify: "still (view base) (i2c_notify h v :: ('x i2c_state_scheme, unit) state)" for v
    unfolding i2c_notify_def by (intro still_intros; simp)
  have "keeps (i2c_tx_stream h base m buf n nsf before) (do {
      i2c_disable_interrupt base (I2C_TX_ABORT_INT OR I2C_TX_EMPTY_INT OR I2C_RX_FULL_INT);
      modify (upd_i2c h (\<lambda>c. c\<lparr>is_xfer_abort := True\<rparr>));
      if is_async ?c then i2c_notify h I2C_NACK else do { _ \<leftarrow> osal_semaphore_post (i2c_sem ?c); ret () } })"
    by (intro keeps_intros upd notify still_intros)
  from keepsD [OF this inv] show ?thesis
    by (cases "is_async ?c") (simp_all add: i2c_master_abort_def c split_beta)
qed

lemma i2c_isr_keeps_stream:
  assumes n: "n < 65536"
  shows "keeps (i2c_tx_stream h base m buf n nsf before) (i2c_isr (V_i2c h))"
proof (rule keepsI)
  fix s :: "'x i2c_state_scheme" assume inv: "i2c_tx_stream h base m buf n nsf before s"
  let ?c = "i2c_desc s h" and ?st = "result (i2c_get_interrupt_status base) s"
  have c: "i2c_base ?c = base" "role ?c = I2C_ROLE_MASTER"
    and hw: "intr_regs_ok (env s) base" "rx_masked base (trace s)"
    using inv by (simp_all add: i2c_tx_stream_def Let_def)
  define s1 where "s1 = final (i2c_clear_interrupt base) (final (i2c_get_interrupt_status base) s)"
  have inv1: "i2c_tx_stream h base m buf n nsf before s1"
    unfolding s1_def by (intro keepsD [OF i2c_tx_stream_still] still_intros inv)
  have same: "i2c_desc s1 h = ?c"
    by (simp add: s1_def i2c_get_interrupt_status_def i2c_clear_interrupt_def split_beta)
  have rx: "\<not> ?st AND I2C_RX_FULL_INT = I2C_RX_FULL_INT"
    using no_rx_full [OF hw] by (simp add: i2c_get_interrupt_status_def split_beta)
  have "bytes_left ?c \<noteq> 0 \<Longrightarrow> no_stop_flag ?c = nsf"
    using inv by (simp add: i2c_tx_stream_def Let_def unat_gt_0)
  then have "i2c_tx_stream h base m buf n nsf before (final (i2c_master_tx_empty h (no_stop_flag ?c)) s1)"
    by (intro i2c_tx_empty_keeps [OF inv1 n]) (simp add: same)
  with rx i2c_abort_keeps [OF inv1] inv1
  show "i2c_tx_stream h base m buf n nsf before (final (i2c_isr (V_i2c h)) s)"
    by (cases "?st AND I2C_TX_EMPTY_INT = 1")
      (simp_all add: i2c_isr_def i2c_isr_master_def c split_beta Let_def s1_def [symmetric])
qed

text \<open>While the controller is busy, a further transfer is refused.\<close>

lemma granted_still:
  assumes "granting (env s)"
  shows "still v (osal_mutex_lock w n :: ('x machine_scheme, bool) state) \<Longrightarrow>
      \<exists>t. run_state (osal_mutex_lock w n) (s :: 'x machine_scheme) = (True, s\<lparr>trace := t\<rparr>) \<and> v t = v (trace s)"
    and "still v (osal_mutex_unlock w :: ('x machine_scheme, bool) state) \<Longrightarrow>
      \<exists>t. run_state (osal_mutex_unlock w) s = (True, s\<lparr>trace := t\<rparr>) \<and> v t = v (trace s)"
  using granted(1) [OF assms, of w n] granted(2) [OF assms, of w] by (metis prod.collapse stillD)+

lemma lock_unlock:
  assumes "granting (env s)" and lock: "still v (osal_mutex_lock w n :: ('x machine_scheme, bool) state)"
    and unlock: "still v (osal_mutex_unlock w :: ('x machine_scheme, bool) state)"
  obtains t u where "run_state (osal_mutex_lock w n) (s :: 'x machine_scheme) = (True, s\<lparr>trace := t\<rparr>)"
    "run_state (osal_mutex_unlock w) (s\<lparr>trace := t\<rparr>) = (True, s\<lparr>trace := u\<rparr>)" "v u = v (trace s)"
proof -
  obtain t where t: "run_state (osal_mutex_lock w n) s = (True, s\<lparr>trace := t\<rparr>)" "v t = v (trace s)"
    using granted_still(1) [OF assms(1) lock] by blast
  have "granting (env (s\<lparr>trace := t\<rparr>))" using assms by simp
  from granted_still(2) [OF this unlock] obtain u where
    "run_state (osal_mutex_unlock w) (s\<lparr>trace := t\<rparr>) = (True, s\<lparr>trace := t\<rparr>\<lparr>trace := u\<rparr>)" "v u = v (trace (s\<lparr>trace := t\<rparr>))"
    by blast
  with t that show ?thesis by simp
qed

lemma i2c_mutex_run:
  assumes "granting (env s)"
  shows "\<exists>t. run_state (osal_mutex_lock w n) s = (True, s\<lparr>trace := t\<rparr>) \<and> view base t = view base (trace s)"
    and "\<exists>t. run_state (osal_mutex_unlock w) s = (True, s\<lparr>trace := t\<rparr>) \<and> view base t = view base (trace s)"
  by (intro granted_still [OF assms] still_intros)+

lemma i2c_lock_unlock:
  assumes "granting (env s)"
  obtains t u where "run_state (osal_mutex_lock w n) s = (True, s\<lparr>trace := t\<rparr>)"
    "run_state (osal_mutex_unlock w) (s\<lparr>trace := t\<rparr>) = (True, s\<lparr>trace := u\<rparr>)"
    "view base u = view base (trace s)"
  using lock_unlock [OF assms still_osal(3,4)] .

lemma i2c_busy_claim:
  assumes "granting (env s)" and "is_busy (i2c_desc s h)"
  shows "\<exists>e t. run_state (i2c_claim h b) s = (Some e, s\<lparr>trace := t\<rparr>) \<and> view base t = view base (trace s)"
proof -
  obtain t u where "run_state (osal_mutex_lock (i2c_mutex (i2c_desc s h)) OSAL_TIMEOUT_WAIT_FOREVER) s = (True, s\<lparr>trace := t\<rparr>)"
    "run_state (osal_mutex_unlock (i2c_mutex (i2c_desc s h))) (s\<lparr>trace := t\<rparr>) = (True, s\<lparr>trace := u\<rparr>)"
    "view base u = view base (trace s)"
    by (rule i2c_lock_unlock [OF assms(1)])
  with assms(2) show ?thesis
    by (auto simp: i2c_claim_def intro!: exI)
qed

lemma i2c_busy_calls:
  assumes "granting (env s)" and "is_busy (i2c_desc s h)"
  shows "\<exists>t. final (i2c_write_async (Some h) b k) s = s\<lparr>trace := t\<rparr> \<and> view base t = view base (trace s)"
    and "\<exists>t. final (i2c_read_async (Some h) b k) s = s\<lparr>trace := t\<rparr> \<and> view base t = view base (trace s)"
    and "\<exists>t. final (i2c_write_sync during (Some h) b k) s = s\<lparr>trace := t\<rparr> \<and> view base t = view base (trace s)"
    and "\<exists>t. final (i2c_read_sync during (Some h) b k) s = s\<lparr>trace := t\<rparr> \<and> view base t = view base (trace s)"
proof -
  have same: "\<exists>t. s = s\<lparr>trace := t\<rparr> \<and> view base t = view base (trace s)"
    by (intro exI [of _ "trace s"]) simp
  obtain e t where c: "run_state (i2c_claim h True) s = (Some e, s\<lparr>trace := t\<rparr>)" "view base t = view base (trace s)"
    using i2c_busy_claim [OF assms] by blast
  obtain e' t' where c': "run_state (i2c_claim h False) s = (Some e', s\<lparr>trace := t'\<rparr>)" "view base t' = view base (trace s)"
    using i2c_busy_claim [OF assms] by blast
  show "\<exists>t. final (i2c_write_async (Some h) b k) s = s\<lparr>trace := t\<rparr> \<and> view base t = view base (trace s)"
    using c same by (auto simp: i2c_write_async_def i2c_check_def)
  show "\<exists>t. final (i2c_read_async (Some h) b k) s = s\<lparr>trace := t\<rparr> \<and> view base t = view base (trace s)"
    using c same by (auto simp: i2c_read_async_def i2c_check_def)
  show "\<exists>t. final (i2c_write_sync during (Some h) b k) s = s\<lparr>trace := t\<rparr> \<and> view base t = view base (trace s)"
    using c' same by (auto simp: i2c_write_sync_def i2c_check_def)
  show "\<exists>t. final (i2c_read_sync during (Some h) b k) s = s\<lparr>trace := t\<rparr> \<and> view base t = view base (trace s)"
    using c' same by (auto simp: i2c_read_sync_def i2c_check_def)
qed

section \<open>What can happen during a transfer\<close>

text \<open>
  The controller's interrupt; further transfers on the same controller while it is busy; a
  change of the callback, which is accepted at any time; the queries.
\<close>

fun i2c_query :: "i2c_ioctl_t \<Rightarrow> bool" where
  "i2c_query (I2C_GET_TX_NBYTES p) = True"
| "i2c_query (I2C_GET_RX_NBYTES p) = True"
| "i2c_query (I2C_GET_BUS_STATE p) = True"
| "i2c_query (I2C_GET_MASTER_CFG p) = True"
| "i2c_query _ = False"

inductive i2c_reaches :: "nat \<Rightarrow> 'x i2c_state_scheme \<Rightarrow> 'x i2c_state_scheme \<Rightarrow> bool" for h s0 where
  started: "i2c_reaches h s0 s0"
| interrupt: "i2c_reaches h s0 s \<Longrightarrow> i2c_reaches h s0 (final (i2c_isr (V_i2c h)) s)"
| write_async: "i2c_reaches h s0 s \<Longrightarrow> is_busy (i2c_desc s h) \<Longrightarrow> i2c_reaches h s0 (final (i2c_write_async (Some h) b k) s)"
| read_async: "i2c_reaches h s0 s \<Longrightarrow> is_busy (i2c_desc s h) \<Longrightarrow> i2c_reaches h s0 (final (i2c_read_async (Some h) b k) s)"
| write_sync: "i2c_reaches h s0 s \<Longrightarrow> is_busy (i2c_desc s h) \<Longrightarrow> i2c_reaches h s0 (final (i2c_write_sync during (Some h) b k) s)"
| read_sync: "i2c_reaches h s0 s \<Longrightarrow> is_busy (i2c_desc s h) \<Longrightarrow> i2c_reaches h s0 (final (i2c_read_sync during (Some h) b k) s)"
| set_callback: "i2c_reaches h s0 s \<Longrightarrow> i2c_reaches h s0 (final (i2c_set_callback (Some h) f p) s)"
| query: "i2c_reaches h s0 s \<Longrightarrow> i2c_query cmd \<Longrightarrow> i2c_reaches h s0 (final (i2c_ioctl (Some h) cmd) s)"

inductive_cases i2c_reachesE: "i2c_reaches h s0 s"

lemma i2c_query_final:
  "i2c_query cmd \<Longrightarrow> final (i2c_ioctl (Some h) cmd) s \<in>
     {s, final (i2c_read_status (i2c_base (i2c_desc s h))) s, final (i2c_get_config (i2c_base (i2c_desc s h))) s}"
  by (cases cmd) (simp_all add: i2c_ioctl_def split_beta Let_def)

lemma i2c_query_still:
  assumes "i2c_query cmd" and "i2c_base (i2c_desc s h) = base"
  shows "\<exists>t. final (i2c_ioctl (Some h) cmd) s = s\<lparr>trace := t\<rparr> \<and> view base t = view base (trace s)"
proof -
  let ?P = "\<lambda>x. \<exists>t. x = s\<lparr>trace := t\<rparr> \<and> view base t = view base (trace s)"
  have "?P s"
    by (intro exI [of _ "trace s"]) simp
  moreover have "?P (final (i2c_read_status base) s)" "?P (final (i2c_get_config base) s)"
    by (rule stillD [OF still_i2c_ll(3)], rule stillD [OF still_i2c_ll(4)])
  ultimately have "\<forall>x \<in> {s, final (i2c_read_status base) s, final (i2c_get_config base) s}. ?P x"
    by blast
  from bspec [OF this] i2c_query_final [OF assms(1), of h s] show ?thesis
    unfolding assms(2) by blast
qed

text \<open>
  What a transfer may rely on is what the interrupt handler keeps and what depends on the trace
  only through the commands, the words received and the interrupt mask.
\<close>

locale bus_invariant =
  fixes I :: "'x i2c_state_scheme \<Rightarrow> bool" and h :: nat and base :: u32
  assumes of_controller: "I s \<Longrightarrow> granting (env s) \<and> i2c_base (i2c_desc s h) = base"
    and of_view: "I s \<Longrightarrow> view base t = view base (trace s) \<Longrightarrow> I (s\<lparr>trace := t\<rparr>)"
    and of_callback: "I s \<Longrightarrow> I (upd_i2c h (\<lambda>c. c\<lparr>i2c_callback_fn := f, cb_usr_ctxt := p\<rparr>) s)"
    and of_interrupt: "I s \<Longrightarrow> I (final (i2c_isr (V_i2c h)) s)"
begin

lemma by_trace: "I s \<Longrightarrow> \<exists>t. s' = s\<lparr>trace := t\<rparr> \<and> view base t = view base (trace s) \<Longrightarrow> I s'"
  using of_view by blast

lemma reaches:
  assumes "i2c_reaches h s0 s" and "I s0"
  shows "I s"
  using assms
proof (induction rule: i2c_reaches.induct)
  case (interrupt s)
  then show ?case using of_interrupt by simp
next
  case (write_async s b k)
  then show ?case by (intro by_trace [OF _ i2c_busy_calls(1)]) (simp_all add: of_controller)
next
  case (read_async s b k)
  then show ?case by (intro by_trace [OF _ i2c_busy_calls(2)]) (simp_all add: of_controller)
next
  case (write_sync s during b k)
  then show ?case by (intro by_trace [OF _ i2c_busy_calls(3)]) (simp_all add: of_controller)
next
  case (read_sync s during b k)
  then show ?case by (intro by_trace [OF _ i2c_busy_calls(4)]) (simp_all add: of_controller)
next
  case (set_callback s f p)
  then show ?case by (simp add: i2c_set_callback_def of_callback)
next
  case (query s cmd)
  then show ?case by (intro by_trace [OF _ i2c_query_still]) (simp_all add: of_controller)
qed

end

interpretation i2c_tx: bus_invariant
  "\<lambda>s. n < 65536 \<and> i2c_tx_stream h base m buf n nsf before s" h base
  for h base m buf n nsf before
proof (unfold_locales, goal_cases)
  case (1 s)
  then show ?case by (simp add: i2c_tx_stream_def Let_def)
next
  case (2 s t)
  then show ?case by (simp add: i2c_tx_stream_trace)
next
  case (3 s f p)
  then show ?case by (simp add: i2c_tx_stream_def Let_def)
next
  case (4 s)
  then show ?case using keepsD [OF i2c_isr_keeps_stream] by blast
qed

section \<open>The start of a transfer\<close>

lemma i2c_claim_cases:
  assumes g: "granting (env s)" and none: "result (i2c_claim h b) s = None"
  shows "i2c_is_open (i2c_desc s h) \<and> \<not> is_busy (i2c_desc s h) \<and> (b \<longrightarrow> i2c_callback_fn (i2c_desc s h) \<noteq> F_NULL)"
    and "\<exists>t. final (i2c_claim h b) s = upd_i2c h (\<lambda>c. c\<lparr>is_busy := True\<rparr>) (s\<lparr>trace := t\<rparr>)
       \<and> view base t = view base (trace s)"
proof -
  let ?c = "i2c_desc s h"
  obtain t where t: "run_state (osal_mutex_lock (i2c_mutex ?c) OSAL_TIMEOUT_WAIT_FOREVER) s = (True, s\<lparr>trace := t\<rparr>)"
      "view base t = view base (trace s)"
    using i2c_mutex_run(1) [OF g] by blast
  show c: "i2c_is_open ?c \<and> \<not> is_busy ?c \<and> (b \<longrightarrow> i2c_callback_fn ?c \<noteq> F_NULL)"
    using none t by (auto simp: i2c_claim_def split_beta split: if_splits)
  let ?s = "upd_i2c h (\<lambda>c. c\<lparr>is_busy := True\<rparr>) (s\<lparr>trace := t\<rparr>)"
  have "granting (env ?s)" using g by simp
  from i2c_mutex_run(2) [OF this] obtain u where
      "run_state (osal_mutex_unlock (i2c_mutex ?c)) ?s = (True, ?s\<lparr>trace := u\<rparr>)" "view base u = view base (trace ?s)"
    by blast
  with t c show "\<exists>t. final (i2c_claim h b) s = upd_i2c h (\<lambda>c. c\<lparr>is_busy := True\<rparr>) (s\<lparr>trace := t\<rparr>)
       \<and> view base t = view base (trace s)"
    by (auto simp: i2c_claim_def upd_i2c_def split_beta intro!: exI [of _ u])
qed

lemma nbytes_low_bits: "k < 65536 \<Longrightarrow> ucast ((word_of_nat k :: u64) AND 0xFFFF) = (word_of_nat k :: u16)"
proof -
  have m: "(0xFFFF :: u64) = mask 16"
    by (simp add: mask_eq_exp_minus_1)
  show ?thesis
    unfolding m by (rule bit_word_eqI) (simp add: bit_simps)
qed

lemma i2c_write_async_starts:
  assumes ok: "result (i2c_write_async (Some h) buf nb) s = 0" and g: "granting (env s)"
    and nb: "unat nb < 65536" and c: "role (i2c_desc s h) = I2C_ROLE_MASTER" "\<not> is_wdma_en (i2c_desc s h)"
    and base: "i2c_base (i2c_desc s h) = base"
    and hw: "intr_regs_ok (env s) base" "rx_masked base (trace s)"
  shows "i2c_tx_stream h base (mem s) buf (unat nb) (no_stop_flag (i2c_desc s h)) (sent (cmd_reg base) (trace s))
    (final (i2c_write_async (Some h) buf nb) s)"
proof -
  let ?c = "i2c_desc s h" and ?before = "sent (cmd_reg base) (trace s)"
  have chk: "buf \<noteq> 0 \<and> nb \<noteq> 0 \<and> i2c_is_open ?c"
    using ok by (auto simp: i2c_write_async_def i2c_check_def split_beta split: if_splits)
  have tgt: "slave_addr ?c \<noteq> 0"
    using ok chk c by (auto simp: i2c_write_async_def i2c_check_def split_beta split: if_splits)
  have claimed: "result (i2c_claim h True) s = None"
  proof (cases "result (i2c_claim h True) s")
    case (Some e)
    then have "e = 0"
      using ok chk c tgt by (simp add: i2c_write_async_def i2c_check_def split_beta)
    with Some show ?thesis
      by (auto simp: i2c_claim_def split_beta split: if_splits)
  qed
  obtain t where t: "final (i2c_claim h True) s = upd_i2c h (\<lambda>c. c\<lparr>is_busy := True\<rparr>) (s\<lparr>trace := t\<rparr>)" "view base t = view base (trace s)"
    using i2c_claim_cases(2) [OF g claimed] by blast
  let ?s2 = "upd_i2c h (\<lambda>c. c\<lparr>buffer := buf, bytes_left := nb\<rparr>)
     (upd_i2c h (\<lambda>c. c\<lparr>operation := I2C_WRITE, is_xfer_abort := False, is_async := True, xfer_size := nb\<rparr>)
       (upd_i2c h (\<lambda>c. c\<lparr>is_busy := True\<rparr>) (s\<lparr>trace := t\<rparr>)))"
  have start: "i2c_tx_stream h base (mem s) buf (unat nb) (no_stop_flag ?c) ?before ?s2"
    using g c chk hw t rx_masked_view [OF t(2)] by (simp add: i2c_tx_stream_def Let_def base view_def)
  obtain k u where k: "run_state (i2c_write_fifo base (buffer (i2c_desc ?s2 h)) (ucast (bytes_left (i2c_desc ?s2 h))) (no_stop_flag ?c)) ?s2
       = (word_of_nat k, ?s2\<lparr>trace := u\<rparr>)"
      "(ucast (word_of_nat k :: u16) :: u64) = word_of_nat k"
      "i2c_tx_stream h base (mem s) buf (unat nb) (no_stop_flag ?c) ?before (upd_i2c h (i2c_advance k) (?s2\<lparr>trace := u\<rparr>))"
    by (rule i2c_write_fifo_advances [OF start nb refl])
  have run: "final (i2c_write_async (Some h) buf nb) s =
     final (i2c_enable_interrupt base (I2C_TX_ABORT_INT OR I2C_TX_EMPTY_INT)) (upd_i2c h (i2c_advance k) (?s2\<lparr>trace := u\<rparr>))"
    using k t chk c tgt claimed base
    by (simp add: i2c_write_async_def i2c_check_def i2c_start_xfer_int_mode_def i2c_advance_def [abs_def] split_beta)
  have "\<not> bit (I2C_TX_ABORT_INT OR I2C_TX_EMPTY_INT) 1"
    by (simp add: i2c_ints)
  from keepsD [OF i2c_tx_stream_interrupts(2) [OF this] k(3)] show ?thesis
    unfolding run .
qed


text \<open>A controller that always has room and data, and reports what is not masked.\<close>

definition i2c_env :: env where
  "i2c_env = ram_env\<lparr>hw_rd32 := \<lambda>t a.
     if a = 0x10C02870 then 0xA
     else if a = 0x10C0282C then (case last_wr32 t 0x10C02830 of None \<Rightarrow> 0 | Some m \<Rightarrow> m AND 0x14)
     else if a = 0x10C02810 then word_of_nat (length t)
     else (case last_wr32 t a of None \<Rightarrow> 0 | Some v \<Rightarrow> v)\<rparr>"

definition i2c_machine :: i2c_state where
  "i2c_machine = dma_state.extend (dma_machine\<lparr>env := i2c_env, trace := [Wr32 0x10C02830 0], mem := ucast\<rparr>)
     \<lparr>i2c_desc = (\<lambda>_. i2c_zero)(0 := i2c_zero\<lparr>i2c_base := 0x10C02800, slave_addr := 0x50, i2c_is_open := True,
        i2c_callback_fn := F_user 1, i2c_mutex := 1, i2c_sem := 2\<rparr>),
      i2c_transfer_buf_at = \<lambda>i. 0x200000 + 0x4000 * word_of_nat i\<rparr>"

lemma i2c_machine_simps [simp]:
  "env i2c_machine = i2c_env" "trace i2c_machine = [Wr32 0x10C02830 0]" "mem i2c_machine = ucast"
  "i2c_desc i2c_machine = (\<lambda>_. i2c_zero)(0 := i2c_zero\<lparr>i2c_base := 0x10C02800, slave_addr := 0x50, i2c_is_open := True,
     i2c_callback_fn := F_user 1, i2c_mutex := 1, i2c_sem := 2\<rparr>)"
  by (simp_all add: i2c_machine_def dma_state.defs)

lemma i2c_env_ok:
  "granting i2c_env" "intr_regs_ok i2c_env 0x10C02800" "rx_masked 0x10C02800 [Wr32 0x10C02830 0]"
proof -
  show "granting i2c_env"
    by (simp add: granting_def i2c_env_def ram_env_def)
  show "rx_masked 0x10C02800 [Wr32 0x10C02830 0]"
    by (simp add: rx_masked_def mask_reg_def i2c_regs)
  have "(m AND 0x14) AND NOT m = 0" for m :: u32
    by (rule bit_word_eqI) (simp add: bit_simps)
  then show "intr_regs_ok i2c_env 0x10C02800"
    by (simp add: intr_regs_ok_def reg_holds_def mask_reg_def i2c_regs i2c_env_def split: option.split)
qed

lemma i2c_machine_accepts: "result (i2c_write_async (Some 0) 0x100 2) i2c_machine = 0"
proof -
  have g: "granting (env i2c_machine)"
    by (simp add: i2c_env_ok)
  show ?thesis
    using i2c_mutex_run [OF g] g
    by (auto simp: i2c_write_async_def i2c_check_def i2c_claim_def i2c_start_xfer_int_mode_def granted split_beta i2c_zero_def)
qed


section \<open>The stream of a read\<close>

text \<open>
  Controller \<open>h\<close> while it reads \<open>n\<close> bytes to \<open>buf\<close> with a stop at the end: the read commands not
  counted as left have been sent, the words received since the start are in the buffer in order,
  and the descriptor counts them.
\<close>

definition i2c_rx_stream ::
  "nat \<Rightarrow> u32 \<Rightarrow> (u64 \<Rightarrow> u8) \<Rightarrow> u64 \<Rightarrow> nat \<Rightarrow> u32 list \<Rightarrow> u32 list \<Rightarrow> 'x i2c_state_scheme \<Rightarrow> bool" where
  "i2c_rx_stream h base m buf n before got s \<longleftrightarrow>
     (let c = i2c_desc s h; left = unat (bytes_left c); cmds = unat (rd_cmds_left c)
      in i2c_base c = base \<and> role c = I2C_ROLE_MASTER \<and> operation c = I2C_READ \<and> i2c_is_open c \<and> granting (env s)
       \<and> n < 65536 \<and> left \<le> n \<and> cmds \<le> n \<and> buffer c = buf + word_of_nat (n - left) \<and> xfer_size c = word_of_nat n
       \<and> \<not> no_stop_flag c \<and> (left \<noteq> 0 \<longrightarrow> is_busy c)
       \<and> sent (cmd_reg base) (trace s) = before @ take (n - cmds) (read_cmds n False)
       \<and> (\<exists>vs. received (cmd_reg base) (trace s) = got @ vs \<and> length vs = n - left
            \<and> mem s = store_bytes m buf (map ucast vs)))"

lemma i2c_rx_stream_trace:
  assumes "i2c_rx_stream h base m buf n before got s"
    and "sent (cmd_reg base) t = sent (cmd_reg base) (trace s)" "received (cmd_reg base) t = received (cmd_reg base) (trace s)"
  shows "i2c_rx_stream h base m buf n before got (s\<lparr>trace := t\<rparr>)"
  using assms by (simp add: i2c_rx_stream_def Let_def)

lemma i2c_rx_stream_still:
  fixes p :: "('x i2c_state_scheme, 'a) state"
  assumes "still (view base) p"
  shows "keeps (i2c_rx_stream h base m buf n before got) p"
proof (rule keepsI)
  fix s :: "'x i2c_state_scheme" assume inv: "i2c_rx_stream h base m buf n before got s"
  obtain t where "final p s = s\<lparr>trace := t\<rparr>" "view base t = view base (trace s)"
    using stillD [OF assms, of s] by blast
  then show "i2c_rx_stream h base m buf n before got (final p s)"
    using i2c_rx_stream_trace [OF inv, of t] by (simp add: view_def)
qed

lemma received_interrupts:
  "received (cmd_reg base) (trace (final (i2c_disable_interrupt base req) s)) = received (cmd_reg base) (trace s)"
  "received (cmd_reg base) (trace (final (i2c_enable_interrupt base req) s)) = received (cmd_reg base) (trace s)"
  by (simp_all add: run_i2c_interrupts Let_def cmd_reg_def i2c_regs)

lemma i2c_rx_stream_interrupts:
  "keeps (i2c_rx_stream h base m buf n before got) (i2c_disable_interrupt base req)"
  "keeps (i2c_rx_stream h base m buf n before got) (i2c_enable_interrupt base req)"
proof -
  show "keeps (i2c_rx_stream h base m buf n before got) (i2c_disable_interrupt base req)"
  proof (rule keepsI)
    fix s :: "'x i2c_state_scheme" assume inv: "i2c_rx_stream h base m buf n before got s"
    obtain t where "final (i2c_disable_interrupt base req) s = s\<lparr>trace := t\<rparr>"
      using interrupts_trace(1) by blast
    then show "i2c_rx_stream h base m buf n before got (final (i2c_disable_interrupt base req) s)"
      using i2c_rx_stream_trace [OF inv, of t] sent_interrupts(1) [of base req s] received_interrupts(1) [of base req s] by simp
  qed
  show "keeps (i2c_rx_stream h base m buf n before got) (i2c_enable_interrupt base req)"
  proof (rule keepsI)
    fix s :: "'x i2c_state_scheme" assume inv: "i2c_rx_stream h base m buf n before got s"
    obtain t where "final (i2c_enable_interrupt base req) s = s\<lparr>trace := t\<rparr>"
      using interrupts_trace(2) by blast
    then show "i2c_rx_stream h base m buf n before got (final (i2c_enable_interrupt base req) s)"
      using i2c_rx_stream_trace [OF inv, of t] sent_interrupts(2) [of base req s] received_interrupts(2) [of base req s] by simp
  qed
qed

lemma unat_minus_small: "k \<le> unat (x :: u64) \<Longrightarrow> unat x < 65536 \<Longrightarrow> unat (x - word_of_nat k) = unat x - k"
  by (subst unat_sub) (simp_all add: word_le_nat_alt word_of_nat_small)

lemma i2c_rx_cmds_advance:
  assumes inv: "i2c_rx_stream h base m buf n before got s"
  obtains k t where
    "run_state (i2c_enq_read_cmd base (ucast (rd_cmds_left (i2c_desc s h))) False) s = (word_of_nat k, s\<lparr>trace := t\<rparr>)"
    "(ucast (word_of_nat k :: u16) :: u64) = word_of_nat k"
    "i2c_rx_stream h base m buf n before got (upd_i2c h (\<lambda>c. c\<lparr>rd_cmds_left := rd_cmds_left c - word_of_nat k\<rparr>) (s\<lparr>trace := t\<rparr>))"
proof -
  let ?c = "i2c_desc s h" and ?cmds = "unat (rd_cmds_left (i2c_desc s h))"
  have n: "n < 65536" "?cmds \<le> n" and snt: "sent (cmd_reg base) (trace s) = before @ take (n - ?cmds) (read_cmds n False)"
    using inv by (simp_all add: i2c_rx_stream_def Let_def)
  then have small: "?cmds < 65536" by simp
  then have u32: "unat (ucast (rd_cmds_left ?c) :: u32) = ?cmds"
    by (simp add: unat_ucast_u64_u32)
  obtain k t where k: "k \<le> ?cmds"
      and run: "run_state (i2c_enq_read_cmd base (ucast (rd_cmds_left ?c)) False) s = (word_of_nat k, s\<lparr>trace := t\<rparr>)"
      and t: "view base t = (sent (cmd_reg base) (trace s) @ take k (read_cmds ?cmds False),
        received (cmd_reg base) (trace s), sent (mask_reg base) (trace s))"
    using enq_read_view [of "ucast (rd_cmds_left ?c)" base False s] small by (auto simp: u32)
  have k16: "(ucast (word_of_nat k :: u16) :: u64) = word_of_nat k"
    using k small by (intro ucast_u16_of_nat) simp
  have "n - (?cmds - k) = (n - ?cmds) + k" "?cmds - k \<le> n"
    using k n by simp_all
  moreover have "read_cmds ?cmds False = drop (n - ?cmds) (read_cmds n False)"
    using cmds_rest(2) [of "n - ?cmds" n False] n by simp
  moreover have "sent (cmd_reg base) t = (before @ take (n - ?cmds) (read_cmds n False)) @ take k (read_cmds ?cmds False)"
    using t by (simp add: view_def snt)
  ultimately have "sent (cmd_reg base) t = before @ take (n - (?cmds - k)) (read_cmds n False)"
    by (simp only: take_add append_assoc)
  with inv t k have "i2c_rx_stream h base m buf n before got (upd_i2c h (\<lambda>c. c\<lparr>rd_cmds_left := rd_cmds_left c - word_of_nat k\<rparr>) (s\<lparr>trace := t\<rparr>))"
    using unat_minus_small [OF k small] n by (simp add: i2c_rx_stream_def view_def Let_def)
  with that run k16 show ?thesis by blast
qed

lemma store_bytes_append: "store_bytes m a (xs @ ys) = store_bytes (store_bytes m a xs) (a + word_of_nat (length xs)) ys"
  by (induction xs arbitrary: m a) (simp_all add: add.assoc)

lemma i2c_rx_bytes_advance:
  assumes inv: "i2c_rx_stream h base m buf n before got s"
  obtains k s1 where
    "run_state (i2c_read_fifo base (buffer (i2c_desc s h)) (ucast (bytes_left (i2c_desc s h)))) s = (word_of_nat k, s1)"
    "(ucast (word_of_nat k :: u16) :: u64) = word_of_nat k" "i2c_desc s1 = i2c_desc s"
    "i2c_rx_stream h base m buf n before got (upd_i2c h (i2c_advance k) s1)"
proof -
  let ?c = "i2c_desc s h" and ?left = "unat (bytes_left (i2c_desc s h))"
  have n: "n < 65536" "?left \<le> n" and buf: "buffer ?c = buf + word_of_nat (n - ?left)"
    and busy: "?left \<noteq> 0 \<longrightarrow> is_busy ?c"
    using inv by (simp_all add: i2c_rx_stream_def Let_def)
  obtain us where us: "received (cmd_reg base) (trace s) = got @ us" "length us = n - ?left" "mem s = store_bytes m buf (map ucast us)"
    using inv by (auto simp add: i2c_rx_stream_def Let_def)
  have small: "?left < 65536" using n by simp
  then have u32: "unat (ucast (bytes_left ?c) :: u32) = ?left"
    by (simp add: unat_ucast_u64_u32)
  obtain vs t where vs: "length vs \<le> ?left"
      and run: "run_state (i2c_read_fifo base (buffer ?c) (ucast (bytes_left ?c))) s =
        (word_of_nat (length vs), s\<lparr>trace := t, mem := store_bytes (mem s) (buffer ?c) (map ucast vs)\<rparr>)"
      and t: "view base t = (sent (cmd_reg base) (trace s), received (cmd_reg base) (trace s) @ vs, sent (mask_reg base) (trace s))"
    using read_fifo_view [of "ucast (bytes_left ?c)" base "buffer ?c" s] small by (auto simp: u32)
  have k16: "(ucast (word_of_nat (length vs) :: u16) :: u64) = word_of_nat (length vs)"
    using vs small by (intro ucast_u16_of_nat) simp
  have count: "n - (?left - length vs) = (n - ?left) + length vs" "?left - length vs \<le> n"
    using vs n by simp_all
  have buf': "buffer ?c + word_of_nat (length vs) = buf + word_of_nat (n - (?left - length vs))"
    by (simp only: buf count of_nat_add add.assoc)
  have "store_bytes (mem s) (buffer ?c) (map ucast vs) = store_bytes m buf (map ucast (us @ vs))"
    by (simp add: us store_bytes_append buf)
  moreover have "received (cmd_reg base) t = got @ (us @ vs)" "length (us @ vs) = n - (?left - length vs)"
    using t us count by (simp_all add: view_def)
  ultimately have got: "\<exists>ws. received (cmd_reg base) t = got @ ws \<and> length ws = n - (?left - length vs)
      \<and> store_bytes (mem s) (buffer ?c) (map ucast vs) = store_bytes m buf (map ucast ws)"
    by blast
  let ?s = "s\<lparr>trace := t, mem := store_bytes (mem s) (buffer ?c) (map ucast vs)\<rparr>"
  have "i2c_rx_stream h base m buf n before got (upd_i2c h (i2c_advance (length vs)) ?s)"
    using inv got buf' count busy t unat_minus_small [OF vs small]
    by (simp add: i2c_rx_stream_def i2c_advance_def view_def Let_def)
  with that [OF run k16] show ?thesis by simp
qed

lemma i2c_rx_complete:
  "keeps (\<lambda>s. i2c_rx_stream h base m buf n before got s \<and> bytes_left (i2c_desc s h) = 0)
     (i2c_complete h :: ('x i2c_state_scheme, unit) state)"
proof -
  let ?J = "\<lambda>s :: 'x i2c_state_scheme. i2c_rx_stream h base m buf n before got s \<and> bytes_left (i2c_desc s h) = 0"
  have still: "keeps ?J p" if p: "still (view base) p" for p :: "('x i2c_state_scheme, 'b) state"
  proof (rule keepsI)
    fix s :: "'x i2c_state_scheme" assume J: "?J s"
    obtain t where t: "final p s = s\<lparr>trace := t\<rparr>"
      using stillD [OF p, of s] by blast
    with J show "?J (final p s)"
      using keepsD [OF i2c_rx_stream_still [OF p]] by fastforce
  qed
  have upd: "keeps ?J (modify (upd_i2c h (\<lambda>c. c\<lparr>is_busy := False, no_stop_flag := False\<rparr>)))"
    by (intro keepsI) (auto simp add: i2c_rx_stream_def Let_def)
  have notify: "still (view base) (i2c_notify h v :: ('x i2c_state_scheme, unit) state)" for v
    unfolding i2c_notify_def by (intro still_intros; simp)
  have post: "keeps ?J (do { _ \<leftarrow> osal_semaphore_post w; ret () })" for w
    by (intro still still_intros)
  show ?thesis
    unfolding i2c_complete_def by (intro keeps_intros still [OF notify] upd post)
qed

lemma i2c_rx_flag: "i2c_rx_stream h base m buf n before got s \<Longrightarrow> no_stop_flag (i2c_desc s h) = False"
  by (simp add: i2c_rx_stream_def Let_def)

lemma i2c_rx_tx_empty:
  assumes inv: "i2c_rx_stream h base m buf n before got s"
  shows "i2c_rx_stream h base m buf n before got (final (i2c_master_tx_empty h False) s)"
proof -
  let ?c = "i2c_desc s h"
  have c: "i2c_base ?c = base" "operation ?c = I2C_READ"
    using inv by (simp_all add: i2c_rx_stream_def Let_def)
  show ?thesis
  proof (cases "rd_cmds_left ?c > 0")
    case True
    obtain k t where "run_state (i2c_enq_read_cmd base (ucast (rd_cmds_left ?c)) False) s = (word_of_nat k, s\<lparr>trace := t\<rparr>)"
        "(ucast (word_of_nat k :: u16) :: u64) = word_of_nat k"
        "i2c_rx_stream h base m buf n before got (upd_i2c h (\<lambda>c. c\<lparr>rd_cmds_left := rd_cmds_left c - word_of_nat k\<rparr>) (s\<lparr>trace := t\<rparr>))"
      by (rule i2c_rx_cmds_advance [OF inv])
    with True show ?thesis
      by (simp add: i2c_master_tx_empty_def c upd_i2c_def)
  next
    case False
    then show ?thesis
      using keepsD [OF i2c_rx_stream_interrupts(1) inv] by (simp add: i2c_master_tx_empty_def c)
  qed
qed

lemma i2c_rx_rx_full:
  assumes inv: "i2c_rx_stream h base m buf n before got s"
  shows "i2c_rx_stream h base m buf n before got (final (i2c_master_rx_full h False) s)"
proof -
  let ?c = "i2c_desc s h" and ?I = "i2c_rx_stream h base m buf n before got"
  have c: "i2c_base ?c = base"
    using inv by (simp add: i2c_rx_stream_def Let_def)
  let ?enq = "whenM (rd_cmds_left ?c > 0) (do {
       n \<leftarrow> i2c_enq_read_cmd base (ucast (rd_cmds_left ?c)) False;
       modify (upd_i2c h (\<lambda>c. c\<lparr>rd_cmds_left := rd_cmds_left c - ucast n\<rparr>))
     })"
  define s1 where "s1 = final ?enq s"
  have s1: "?I s1 \<and> bytes_left (i2c_desc s1 h) = bytes_left ?c \<and> buffer (i2c_desc s1 h) = buffer ?c"
  proof (cases "rd_cmds_left ?c > 0")
    case True
    obtain k t where "run_state (i2c_enq_read_cmd base (ucast (rd_cmds_left ?c)) False) s = (word_of_nat k, s\<lparr>trace := t\<rparr>)"
        "(ucast (word_of_nat k :: u16) :: u64) = word_of_nat k"
        "?I (upd_i2c h (\<lambda>c. c\<lparr>rd_cmds_left := rd_cmds_left c - word_of_nat k\<rparr>) (s\<lparr>trace := t\<rparr>))"
      by (rule i2c_rx_cmds_advance [OF inv])
    with True show ?thesis
      by (simp add: s1_def upd_i2c_def)
  qed (use inv in \<open>simp add: s1_def\<close>)
  let ?rd = "whenM (bytes_left ?c > 0) (do {
       n \<leftarrow> i2c_read_fifo base (buffer ?c) (ucast (bytes_left ?c));
       modify (upd_i2c h (\<lambda>c. c\<lparr>bytes_left := bytes_left c - ucast n, buffer := buffer c + ucast n\<rparr>))
     })"
  define s2 where "s2 = final ?rd s1"
  have s2: "?I s2"
  proof (cases "bytes_left ?c > 0")
    case True
    obtain k u where "run_state (i2c_read_fifo base (buffer (i2c_desc s1 h)) (ucast (bytes_left (i2c_desc s1 h)))) s1 = (word_of_nat k, u)"
        "(ucast (word_of_nat k :: u16) :: u64) = word_of_nat k" "i2c_desc u = i2c_desc s1" "?I (upd_i2c h (i2c_advance k) u)"
      using s1 i2c_rx_bytes_advance by blast
    with True s1 show ?thesis
      by (simp add: s2_def i2c_advance_def [abs_def])
  qed (use s1 in \<open>simp add: s2_def\<close>)
  have run: "final (i2c_master_rx_full h False) s = final (do {
       c \<leftarrow> get_i2c h;
       whenM (bytes_left c = 0) (do { i2c_disable_interrupt base I2C_RX_FULL_INT; i2c_complete h }) }) s2"
    by (simp add: i2c_master_rx_full_def c s2_def s1_def split_beta)
  show ?thesis
  proof (cases "bytes_left (i2c_desc s2 h) = 0")
    case True
    obtain t where t: "final (i2c_disable_interrupt base I2C_RX_FULL_INT) s2 = s2\<lparr>trace := t\<rparr>"
      using interrupts_trace(1) by blast
    have "?I (s2\<lparr>trace := t\<rparr>)"
      using keepsD [OF i2c_rx_stream_interrupts(1) s2, of I2C_RX_FULL_INT] by (simp add: t)
    then have "?I (final (i2c_complete h) (s2\<lparr>trace := t\<rparr>))"
      using keepsD [OF i2c_rx_complete, of h base m buf n before got "s2\<lparr>trace := t\<rparr>"] True by simp
    with True t show ?thesis by (simp add: run split_beta)
  qed (simp add: run s2)
qed

lemma i2c_rx_abort:
  assumes inv: "i2c_rx_stream h base m buf n before got s"
  shows "i2c_rx_stream h base m buf n before got (final (i2c_master_abort h) s)"
proof -
  let ?c = "i2c_desc s h" and ?I = "i2c_rx_stream h base m buf n before got"
  have c: "i2c_base ?c = base"
    using inv by (simp add: i2c_rx_stream_def Let_def)
  have upd: "keeps ?I (modify (upd_i2c h (\<lambda>c. c\<lparr>is_xfer_abort := True\<rparr>)))"
    by (intro keepsI) (simp add: i2c_rx_stream_def Let_def)
  have notify: "still (view base) (i2c_notify h v :: ('x i2c_state_scheme, unit) state)" for v
    unfolding i2c_notify_def by (intro still_intros; simp)
  have "keeps ?I (do {
      i2c_disable_interrupt base (I2C_TX_ABORT_INT OR I2C_TX_EMPTY_INT OR I2C_RX_FULL_INT);
      modify (upd_i2c h (\<lambda>c. c\<lparr>is_xfer_abort := True\<rparr>));
      if is_async ?c then i2c_notify h I2C_NACK else do { _ \<leftarrow> osal_semaphore_post (i2c_sem ?c); ret () } })"
    by (intro keeps_intros upd i2c_rx_stream_interrupts i2c_rx_stream_still [OF notify] i2c_rx_stream_still still_intros)
  from keepsD [OF this inv] show ?thesis
    by (cases "is_async ?c") (simp_all add: i2c_master_abort_def c split_beta)
qed

lemma i2c_isr_keeps_rx: "keeps (i2c_rx_stream h base m buf n before got) (i2c_isr (V_i2c h))"
proof (rule keepsI)
  fix s :: "'x i2c_state_scheme" assume inv: "i2c_rx_stream h base m buf n before got s"
  let ?c = "i2c_desc s h" and ?st = "result (i2c_get_interrupt_status base) s"
  have c: "i2c_base ?c = base" "role ?c = I2C_ROLE_MASTER" "no_stop_flag ?c = False"
    using inv by (simp_all add: i2c_rx_stream_def Let_def)
  define s1 where "s1 = final (i2c_clear_interrupt base) (final (i2c_get_interrupt_status base) s)"
  have inv1: "i2c_rx_stream h base m buf n before got s1"
    unfolding s1_def by (intro keepsD [OF i2c_rx_stream_still] still_intros inv)
  have "i2c_rx_stream h base m buf n before got (final (i2c_master_rx_full h False) (final (i2c_master_tx_empty h False) s1))"
    by (intro i2c_rx_rx_full i2c_rx_tx_empty inv1)
  with i2c_rx_abort [OF inv1] i2c_rx_rx_full [OF inv1] i2c_rx_tx_empty [OF inv1] inv1
  show "i2c_rx_stream h base m buf n before got (final (i2c_isr (V_i2c h)) s)"
    by (cases "?st AND I2C_TX_EMPTY_INT = 1"; cases "?st AND I2C_RX_FULL_INT = I2C_RX_FULL_INT")
      (simp_all add: i2c_isr_def i2c_isr_master_def c split_beta Let_def s1_def [symmetric])
qed

interpretation i2c_rx: bus_invariant "i2c_rx_stream h base m buf n before got" h base
  for h base m buf n before got
proof (unfold_locales, goal_cases)
  case (1 s)
  then show ?case by (simp add: i2c_rx_stream_def Let_def)
next
  case (2 s t)
  then show ?case by (simp add: i2c_rx_stream_trace view_def)
next
  case (3 s f p)
  then show ?case by (simp add: i2c_rx_stream_def Let_def)
next
  case (4 s)
  then show ?case by (rule keepsD [OF i2c_isr_keeps_rx])
qed

lemma i2c_read_async_starts:
  assumes ok: "result (i2c_read_async (Some h) buf nb) s = Some 0" and g: "granting (env s)"
    and nb: "unat nb < 65536" and c: "role (i2c_desc s h) = I2C_ROLE_MASTER" "\<not> is_rdma_en (i2c_desc s h)"
    "\<not> no_stop_flag (i2c_desc s h)" and base: "i2c_base (i2c_desc s h) = base"
  shows "i2c_rx_stream h base (mem s) buf (unat nb) (sent (cmd_reg base) (trace s)) (received (cmd_reg base) (trace s))
    (final (i2c_read_async (Some h) buf nb) s)"
proof -
  let ?c = "i2c_desc s h" and ?I = "i2c_rx_stream h base (mem s) buf (unat nb) (sent (cmd_reg base) (trace s)) (received (cmd_reg base) (trace s))"
  have chk: "buf \<noteq> 0 \<and> nb \<noteq> 0 \<and> i2c_is_open ?c"
    using ok by (auto simp: i2c_read_async_def i2c_check_def split_beta split: if_splits)
  have tgt: "slave_addr ?c \<noteq> 0"
    using ok chk c by (auto simp: i2c_read_async_def i2c_check_def split_beta split: if_splits)
  have claimed: "result (i2c_claim h True) s = None"
  proof (cases "result (i2c_claim h True) s")
    case (Some e)
    then have "e = 0"
      using ok chk c tgt by (simp add: i2c_read_async_def i2c_check_def split_beta)
    with Some show ?thesis
      by (auto simp: i2c_claim_def split_beta split: if_splits)
  qed
  obtain t where t: "final (i2c_claim h True) s = upd_i2c h (\<lambda>c. c\<lparr>is_busy := True\<rparr>) (s\<lparr>trace := t\<rparr>)" "view base t = view base (trace s)"
    using i2c_claim_cases(2) [OF g claimed] by blast
  let ?s2 = "upd_i2c h (\<lambda>c. c\<lparr>buffer := buf, bytes_left := nb, rd_cmds_left := nb\<rparr>)
     (upd_i2c h (\<lambda>c. c\<lparr>operation := I2C_READ, is_xfer_abort := False, is_async := True, xfer_size := nb, buffer := buf\<rparr>)
       (upd_i2c h (\<lambda>c. c\<lparr>is_busy := True\<rparr>) (s\<lparr>trace := t\<rparr>)))"
  have start: "?I ?s2"
    using g c chk t nb by (simp add: i2c_rx_stream_def Let_def base view_def)
  obtain k u where k: "run_state (i2c_enq_read_cmd base (ucast (rd_cmds_left (i2c_desc ?s2 h))) False) ?s2 = (word_of_nat k, ?s2\<lparr>trace := u\<rparr>)"
      "(ucast (word_of_nat k :: u16) :: u64) = word_of_nat k"
      "?I (upd_i2c h (\<lambda>c. c\<lparr>rd_cmds_left := rd_cmds_left c - word_of_nat k\<rparr>) (?s2\<lparr>trace := u\<rparr>))"
    by (rule i2c_rx_cmds_advance [OF start])
  have run: "final (i2c_read_async (Some h) buf nb) s =
     final (i2c_enable_interrupt base (I2C_TX_ABORT_INT OR I2C_RX_FULL_INT OR I2C_TX_EMPTY_INT))
       (upd_i2c h (\<lambda>c. c\<lparr>rd_cmds_left := rd_cmds_left c - word_of_nat k\<rparr>) (?s2\<lparr>trace := u\<rparr>))"
    using k t chk c tgt claimed base
    by (simp add: i2c_read_async_def i2c_check_def i2c_start_xfer_int_mode_def split_beta)
  show ?thesis
    unfolding run by (rule keepsD [OF i2c_rx_stream_interrupts(2) k(3)])
qed


lemma i2c_machine_reads: "result (i2c_read_async (Some 0) 0x100 2) i2c_machine = Some 0"
proof -
  have g: "granting (env i2c_machine)"
    by (simp add: i2c_env_ok)
  show ?thesis
    using i2c_mutex_run [OF g] g
    by (auto simp: i2c_read_async_def i2c_check_def i2c_claim_def i2c_start_xfer_int_mode_def granted split_beta i2c_zero_def)
qed


end
