(* ===== verification/I2c_Wf.thy ===== *)
theory I2c_Wf
  imports I2c_Transfers
begin

unbundle bit_operations_syntax

text \<open>
  What holds of the descriptors of the I2C driver at any time: the invariant that types their
  fields, and its preservation by every operation, interrupt and callback of the driver.
\<close>

section \<open>Predicates on the descriptors\<close>

text \<open>A predicate that looks at the descriptors only is kept by every operation of the layers below.\<close>

definition desc_only :: "('x i2c_state_scheme \<Rightarrow> bool) \<Rightarrow> bool" where
  "desc_only I \<longleftrightarrow> (\<forall>s t. i2c_desc s = i2c_desc t \<longrightarrow> I s = I t)"

lemma desc_onlyD: "desc_only I \<Longrightarrow> i2c_desc s = i2c_desc t \<Longrightarrow> I s = I t"
  unfolding desc_only_def by blast

lemma desc_only_irq:
  assumes "desc_only I"
  shows "irq_blind I"
proof (rule irq_blindI)
  fix s t show "I (s\<lparr>trace := t\<rparr>) = I s"
    by (rule desc_onlyD [OF assms]) simp
next
  fix n f s show "I (set_callback n f s) = I s"
    by (rule desc_onlyD [OF assms]) (simp add: set_callback_def)
qed

text \<open>
  More generally, a predicate that does not look at what the DMA driver and the layers below it
  change is kept by the operations of the DMA driver.
\<close>

definition below_blind :: "('x dma_state_scheme \<Rightarrow> bool) \<Rightarrow> bool" where
  "below_blind I \<longleftrightarrow> irq_blind I \<and> (\<forall>h f s. I (upd_dma h f s) = I s) \<and> (\<forall>i b s. I (dma_clear_chain i b s) = I s)
     \<and> (\<forall>i k g s. I (upd_lli i k g s) = I s) \<and> (\<forall>s m. I (s\<lparr>mem := m\<rparr>) = I s)"

lemma desc_only_below: "desc_only I \<Longrightarrow> below_blind I"
  unfolding below_blind_def
  by (intro conjI desc_only_irq allI) (auto elim!: desc_onlyD simp: upd_dma_def dma_clear_chain_def upd_lli_def)

lemma below_irq: "below_blind I \<Longrightarrow> irq_blind I"
  by (simp add: below_blind_def)

lemma below_modify:
  assumes "below_blind I"
  shows "keeps I (modify (upd_dma h f))" "keeps I (modify (dma_clear_chain i b))" "I (upd_lli i k g s) = I s"
    "keeps I (poke a v)" "keeps I (put_words p ws)"
  using assms by (simp_all add: below_blind_def keeps_def poke_def put_words_def del: split_paired_All)

lemma below_keeps:
  assumes "below_blind I"
  shows "keeps I (dma_open i k)" "keeps I (dma_config d p)" "keeps I (dma_setup_transfer d xs n sw dw)"
    "keeps I (dma_start_transfer d)" "keeps I (dma_stop_transfer d)" "keeps I (dma_close d)" "keeps I (dma_get_dst_ptr d)"
proof -
  note irq = below_irq [OF assms] note t = irq_blind_trace [OF irq]
  have fill: "keeps I (dma_fill i dir sw dw k n cfgs)" for i dir sw dw k n cfgs
    by (rule dma_fill_keeps) (simp_all add: below_modify(3) [OF assms] t)
  note rules = keeps_intros keeps_prims_blind [OF t] keeps_emit_blind [OF t] irq_keeps_blind [OF irq]
    rstmgr_keeps_blind [OF t] below_modify(1,2) [OF assms] dma_stop_wait_keeps [OF t] fill
  show "keeps I (dma_open i k)"
    unfolding dma_open_def Let_def by (intro rules)
  show "keeps I (dma_config d p)"
    unfolding dma_config_def by (intro rules)
  show "keeps I (dma_setup_transfer d xs n sw dw)"
    unfolding dma_setup_transfer_def dma_program_def by (intro rules)
  show "keeps I (dma_start_transfer d)"
    unfolding dma_start_transfer_def Let_def by (intro rules)
  show "keeps I (dma_stop_transfer d)"
    unfolding dma_stop_transfer_def Let_def by (intro rules)
  show "keeps I (dma_close d)"
    unfolding dma_close_def by (intro rules)
  show "keeps I (dma_get_dst_ptr d)"
    unfolding dma_get_dst_ptr_def by (intro rules)
qed

lemmas dma_keeps = below_keeps [OF desc_only_below]
lemmas desc_only_mem = below_modify(4,5) [OF desc_only_below]

lemma i2c_loops_keep:
  assumes "desc_only I"
  shows "keeps I (i2c_write_loop r base buf n nsf c)" "keeps I (i2c_enq_loop r base n nsf c)" "keeps I (i2c_read_loop r base buf c)"
proof -
  note t = irq_blind_trace [OF desc_only_irq [OF assms]]
  note rules = keeps_intros keeps_prims_blind [OF t] desc_only_mem [OF assms]
  show "keeps I (i2c_write_loop r base buf n nsf c)"
    by (induction r arbitrary: c) (auto simp: Let_def intro!: rules)
  show "keeps I (i2c_enq_loop r base n nsf c)"
    by (induction r arbitrary: c) (auto simp: Let_def intro!: rules)
  show "keeps I (i2c_read_loop r base buf c)"
    by (induction r arbitrary: c) (auto simp: Let_def intro!: rules)
qed

lemma i2c_ll_keeps:
  assumes "desc_only I"
  shows "keeps I (i2c_enable_interrupt base q)" "keeps I (i2c_disable_interrupt base q)" "keeps I (i2c_get_interrupt_status base)"
    "keeps I (i2c_ll_get_raw_interrupt_status base)" "keeps I (i2c_ll_clear_tx_abrt base)" "keeps I (i2c_ll_clear_rd_req base)"
    "keeps I (i2c_ll_clear_stop_det base)" "keeps I (i2c_ll_clear_rx_over base)" "keeps I (i2c_read_status base)"
    "keeps I (i2c_clear_interrupt base)" "keeps I (i2c_set_target_addr base a)" "keeps I (i2c_config_master base sp)"
    "keeps I (i2c_get_config base)" "keeps I (i2c_ll_disable_controller base)" "keeps I (i2c_ll_set_interrupt_mask base m)"
    "keeps I (i2c_init base)" "keeps I (i2c_deinit base)" "keeps I (i2c_ll_cancel base)" "keeps I (i2c_ll_tdma_enable base)"
    "keeps I (i2c_ll_rdma_enable base)" "keeps I (i2c_ll_tdma_disable base)" "keeps I (i2c_ll_rdma_disable base)"
    "keeps I (i2c_ll_set_tdlr base b)" "keeps I (i2c_ll_set_rdlr base b)" "keeps I (i2c_ll_config_slave base sa b1 b2 b3 rt tt)"
    "keeps I (i2c_write_fifo base buf n nsf)" "keeps I (i2c_enq_read_cmd base n nsf)" "keeps I (i2c_read_fifo base buf n)"
proof -
  note t = irq_blind_trace [OF desc_only_irq [OF assms]]
  note rules = keeps_intros keeps_prims_blind [OF t] i2c_loops_keep [OF assms]
  show "keeps I (i2c_enable_interrupt base q)" "keeps I (i2c_disable_interrupt base q)" "keeps I (i2c_get_interrupt_status base)"
    "keeps I (i2c_ll_get_raw_interrupt_status base)" "keeps I (i2c_ll_clear_tx_abrt base)" "keeps I (i2c_ll_clear_rd_req base)"
    "keeps I (i2c_ll_clear_stop_det base)" "keeps I (i2c_ll_clear_rx_over base)" "keeps I (i2c_read_status base)"
    "keeps I (i2c_clear_interrupt base)" "keeps I (i2c_set_target_addr base a)" "keeps I (i2c_config_master base sp)"
    "keeps I (i2c_get_config base)" "keeps I (i2c_ll_disable_controller base)" "keeps I (i2c_ll_set_interrupt_mask base m)"
    "keeps I (i2c_init base)" "keeps I (i2c_deinit base)" "keeps I (i2c_ll_cancel base)" "keeps I (i2c_ll_tdma_enable base)"
    "keeps I (i2c_ll_rdma_enable base)" "keeps I (i2c_ll_tdma_disable base)" "keeps I (i2c_ll_rdma_disable base)"
    "keeps I (i2c_ll_set_tdlr base b)" "keeps I (i2c_ll_set_rdlr base b)" "keeps I (i2c_ll_config_slave base sa b1 b2 b3 rt tt)"
    "keeps I (i2c_write_fifo base buf n nsf)" "keeps I (i2c_enq_read_cmd base n nsf)" "keeps I (i2c_read_fifo base buf n)"
    unfolding i2c_ll_defs i2c_write_fifo_def i2c_enq_read_cmd_def i2c_read_fifo_def Let_def
    by (intro rules)+
qed

section \<open>Well-formed descriptors\<close>

text \<open>
  An open descriptor belongs to the controller of its index and has its lock and its semaphore;
  DMA is enabled for a direction only with both channels open, and then both are configured to
  call this driver back with this descriptor.
\<close>

definition i2c_ok :: "nat \<Rightarrow> i2c_descriptor \<Rightarrow> bool" where
  "i2c_ok h c \<longleftrightarrow>
     (i2c_is_open c \<longrightarrow> h < 5 \<and> i2c_base c = GET_I2C_BASE_ADDR (word_of_nat h) \<and> inst c = word_of_nat h
        \<and> i2c_mutex c \<noteq> 0 \<and> i2c_sem c \<noteq> 0)
   \<and> (is_wdma_en c \<or> is_rdma_en c \<longrightarrow> is_dma_open c)
   \<and> (is_dma_open c \<longrightarrow> wdma_handle c \<noteq> None \<and> rdma_handle c \<noteq> None
        \<and> (cfg_callback (wdma_config c), cfg_usr_cntxt (wdma_config c)) = (F_i2c_wdma_callback, V_i2c h)
        \<and> (cfg_callback (rdma_config c), cfg_usr_cntxt (rdma_config c)) = (F_i2c_rdma_callback, V_i2c h))"

definition i2c_wf :: "'x i2c_state_scheme \<Rightarrow> bool" where
  "i2c_wf s \<longleftrightarrow> (\<forall>h. i2c_ok h (i2c_desc s h))"

lemma desc_only_wf [simp]: "desc_only i2c_wf"
  unfolding desc_only_def i2c_wf_def by simp

lemma desc_only_frame: "desc_only (\<lambda>s. i2c_desc s = v)"
  unfolding desc_only_def by simp

lemma wf_upd [keeps_intros]: "(\<And>c. i2c_ok h c \<Longrightarrow> i2c_ok h (f c)) \<Longrightarrow> keeps i2c_wf (modify (upd_i2c h f))"
  by (rule keepsI) (simp add: i2c_wf_def)

lemmas wf_trace = irq_blind_trace [OF desc_only_irq [OF desc_only_wf]]

lemmas wf_rules = keeps_prims_blind [OF wf_trace] keeps_emit_blind [OF wf_trace] osal_keeps_blind [OF wf_trace]
  dma_keeps [OF desc_only_wf] i2c_ll_keeps [OF desc_only_wf] desc_only_mem [OF desc_only_wf]

lemma wf_helpers [keeps_intros]:
  "keeps i2c_wf (i2c_notify h v)" "keeps i2c_wf (i2c_ask_byte h cb p slot)" "keeps i2c_wf local_slot"
  "keeps i2c_wf (i2c_wait_idle base n)" "keeps i2c_wf (i2c_fill_read_words w k b)" "keeps i2c_wf (i2c_drain_rx_fifo base)"
  "keeps i2c_wf (i2c_complete h)" "keeps i2c_wf (i2c_dma_complete h)"
proof -
  show notify: "keeps i2c_wf (i2c_notify h v)" for v
    unfolding i2c_notify_def by (intro keeps_intros wf_rules)
  show "keeps i2c_wf (i2c_ask_byte h cb p slot)" "keeps i2c_wf local_slot" "keeps i2c_wf (i2c_fill_read_words w k b)"
    unfolding i2c_ask_byte_def local_slot_def i2c_fill_read_words_def by (intro keeps_intros wf_rules)+
  show "keeps i2c_wf (i2c_wait_idle base n)"
    by (induction n) (subst i2c_wait_idle.simps, auto intro!: keeps_intros wf_rules)+
  show "keeps i2c_wf (i2c_complete h)" "keeps i2c_wf (i2c_dma_complete h)"
    unfolding i2c_complete_def i2c_dma_complete_def by (intro keeps_intros wf_rules notify; simp add: i2c_ok_def)+
  have drain: "i2c_wf s \<longrightarrow> i2c_wf t" if "drain_from base slot s = Some t" for slot and s t :: "'x i2c_state_scheme"
    using that
  proof (rule drain_from.raw_induct [of "\<lambda>_ _ s t. i2c_wf s \<longrightarrow> i2c_wf t", rotated])
    fix dr base slot and s t :: "'x i2c_state_scheme"
    assume IH: "\<And>base slot s t. dr base slot s = Some t \<Longrightarrow> i2c_wf s \<longrightarrow> i2c_wf t"
      and step: "(case run_state (i2c_read_fifo base slot 1) s of (n, s') \<Rightarrow> if n = 1 then dr base slot s' else Some s') = Some t"
    obtain n s' where n: "run_state (i2c_read_fifo base slot 1) s = (n, s')" by fastforce
    have "i2c_wf s \<longrightarrow> i2c_wf s'"
      using keepsD [OF i2c_ll_keeps(28) [OF desc_only_wf], of s base slot 1] n by simp
    with step n IH show "i2c_wf s \<longrightarrow> i2c_wf t" by (auto split: if_splits)
  qed
  show "keeps i2c_wf (i2c_drain_rx_fifo base)"
  proof (rule keepsI)
    fix s :: "'x i2c_state_scheme" assume "i2c_wf s"
    then show "i2c_wf (final (i2c_drain_rx_fifo base) s)"
      using drain [of "stack_slot (env s) (trace s)" s]
      by (auto simp: i2c_drain_rx_fifo_def local_slot_def split_beta split: option.split)
  qed
qed

section \<open>Every operation keeps the descriptors well-formed\<close>

lemma wf_slave [keeps_intros]:
  "keeps i2c_wf (i2c_slave_handle_tx_abort h)" "keeps i2c_wf (i2c_slave_handle_stop_detect h)"
  "keeps i2c_wf (i2c_slave_handle_read_request h)" "keeps i2c_wf (i2c_slave_handle_rx h b d)"
  unfolding i2c_slave_handle_tx_abort_def i2c_slave_handle_stop_detect_def i2c_slave_handle_read_request_def
    i2c_slave_handle_rx_def Let_def
  by (intro keeps_intros wf_rules; simp add: i2c_ok_def)+

lemma wf_isr [keeps_intros]: "keeps i2c_wf (i2c_isr p)"
proof -
  have master: "keeps i2c_wf (i2c_master_abort h)" "keeps i2c_wf (i2c_master_tx_empty h b)" "keeps i2c_wf (i2c_master_rx_full h b)" for h b
    unfolding i2c_master_abort_def i2c_master_tx_empty_def i2c_master_rx_full_def Let_def
    by (intro keeps_intros wf_rules; simp add: i2c_ok_def)+
  have "keeps i2c_wf (i2c_isr_slave h)" "keeps i2c_wf (i2c_isr_master h)" for h
    unfolding i2c_isr_slave_def i2c_isr_master_def Let_def by (intro keeps_intros wf_rules master)+
  then show ?thesis
    by (cases p) (auto simp: i2c_isr_def intro!: keeps_intros wf_rules)
qed

lemma wf_dma_events [keeps_intros]: "keeps i2c_wf (i2c_wdma_callback p)" "keeps i2c_wf (i2c_rdma_callback p)"
  by (cases p; simp add: i2c_wdma_callback_def i2c_rdma_callback_def; intro keeps_intros wf_rules)+

lemma wf_start [keeps_intros]:
  "keeps i2c_wf (i2c_start_xfer_int_mode h op buf n)" "keeps i2c_wf (i2c_dma_setup_wdma h p n b l)"
  "keeps i2c_wf (i2c_dma_setup_rdma h p n b l)" "keeps i2c_wf (i2c_claim h needs)" "keeps i2c_wf (i2c_check hi buf n)"
  unfolding i2c_start_xfer_int_mode_def i2c_dma_setup_wdma_def i2c_dma_setup_rdma_def i2c_claim_def i2c_check_def Let_def
  by (intro keeps_intros wf_rules; simp add: i2c_ok_def)+

lemma wf_start_dma [keeps_intros]:
  "keeps i2c_wf (i2c_start_xfer_dma_mode h op buf n)" "keeps i2c_wf (i2c_arm_slave_write h buf n)" "keeps i2c_wf (i2c_arm_slave_read h buf n)"
  unfolding i2c_start_xfer_dma_mode_def i2c_arm_slave_write_def i2c_arm_slave_read_def Let_def
  by (intro keeps_intros wf_rules; simp add: i2c_ok_def)+

lemma wf_transfers:
  "keeps i2c_wf (i2c_write_async hi buf n)" "keeps i2c_wf (i2c_read_async hi buf n)"
  "keeps i2c_wf during \<Longrightarrow> keeps i2c_wf (i2c_write_sync during hi buf n)"
  "keeps i2c_wf during \<Longrightarrow> keeps i2c_wf (i2c_read_sync during hi buf n)"
  unfolding i2c_write_async_def i2c_read_async_def i2c_write_sync_def i2c_read_sync_def Let_def
  by (intro keeps_intros wf_rules; (simp add: i2c_ok_def)?)+

lemma wf_control:
  "keeps i2c_wf (i2c_set_callback hi f p)" "keeps i2c_wf (i2c_cancel hi)" "keeps i2c_wf (i2c_slave_init h cfg)"
  "keeps i2c_wf (i2c_slave_deinit h)" "keeps i2c_wf (i2c_dma_close h)"
  unfolding i2c_set_callback_def i2c_cancel_def i2c_slave_init_def i2c_slave_deinit_def i2c_dma_close_def Let_def
  by (intro keeps_intros wf_rules; simp add: i2c_ok_def)+

text \<open>
  In opening, closing and configuring DMA the fields of a descriptor change one after the other,
  so the invariant is established at the end only.
\<close>

lemmas desc_trace = irq_blind_trace [OF desc_only_irq [OF desc_only_frame]]

lemma desc_frames [simp]:
  fixes s :: "'x i2c_state_scheme"
  shows "i2c_desc (final (osal_mutex_delete w) s) = i2c_desc s" "i2c_desc (final (osal_semaphore_delete w) s) = i2c_desc s"
    "i2c_desc (final osal_mutex_create s) = i2c_desc s" "i2c_desc (final osal_semaphore_create s) = i2c_desc s"
    "i2c_desc (final (dma_open i k) s) = i2c_desc s" "i2c_desc (final (dma_config d p) s) = i2c_desc s"
    "i2c_desc (final (dma_close d) s) = i2c_desc s" "i2c_desc (final (i2c_init base) s) = i2c_desc s"
    "i2c_desc (final (i2c_deinit base) s) = i2c_desc s" "i2c_desc (final (i2c_disable_interrupt base q) s) = i2c_desc s"
    "i2c_desc (final (interrupt_register_isr n f p') s) = i2c_desc s" "i2c_desc (final (interrupt_enable n pr) s) = i2c_desc s"
    "i2c_desc (final (rstmgr_get_reset_status r) s) = i2c_desc s" "i2c_desc (final (rstmgr_toggle_reset r) s) = i2c_desc s"
  by (intro frame_of_keeps osal_keeps_blind [OF desc_trace] dma_keeps [OF desc_only_frame] i2c_ll_keeps [OF desc_only_frame]
      irq_keeps_blind [OF desc_only_irq [OF desc_only_frame]] rstmgr_keeps_blind [OF desc_trace])+

lemma delete_desc [simp]:
  "i2c_desc (final (i2c_delete_osal_primitives h) s) = (i2c_desc s)(h := (i2c_desc s h)\<lparr>i2c_mutex := 0, i2c_sem := 0\<rparr>)"
proof -
  have zero: "c\<lparr>i2c_mutex := 0\<rparr> = c" if "i2c_mutex c = 0" for c :: i2c_descriptor
    using that by (cases c) simp
  have zero': "c\<lparr>i2c_sem := 0\<rparr> = c" if "i2c_sem c = 0" for c :: i2c_descriptor
    using that by (cases c) simp
  have swap: "c\<lparr>i2c_mutex := 0, i2c_sem := 0\<rparr> = c\<lparr>i2c_sem := 0\<rparr>\<lparr>i2c_mutex := 0\<rparr>" for c :: i2c_descriptor
    by simp
  show ?thesis
    by (cases "i2c_mutex (i2c_desc s h) = 0"; cases "i2c_sem (i2c_desc s h) = 0")
      (auto simp: i2c_delete_osal_primitives_def split_beta zero zero' fun_eq_iff)
qed

lemma wf_close: "keeps i2c_wf (i2c_close hi)"
proof (rule keepsI)
  fix s :: "'x i2c_state_scheme" assume "i2c_wf s"
  then show "i2c_wf (final (i2c_close hi) s)"
    by (cases hi) (auto simp: i2c_close_def i2c_dma_close_def i2c_wf_def i2c_ok_def split_beta Let_def)
qed

lemma unat_instance: "\<not> MAX_I2C_INSTANCES \<le> i \<Longrightarrow> unat i < 5 \<and> word_of_nat (unat i) = i"
  by (simp add: MAX_I2C_INSTANCES_def word_le_nat_alt)

text \<open>What opening can leave of the descriptors: nothing changed, a closed one, an open one.\<close>

inductive opened_from :: "u32 \<Rightarrow> (nat \<Rightarrow> i2c_descriptor) \<Rightarrow> (nat \<Rightarrow> i2c_descriptor) \<Rightarrow> bool" for i d where
  refused: "opened_from i d d"
| failed: "opened_from i d (d(unat i := i2c_zero\<lparr>i2c_base := GET_I2C_BASE_ADDR i, inst := i, i2c_mutex := m, i2c_sem := w\<rparr>))"
| opened: "\<not> MAX_I2C_INSTANCES \<le> i \<Longrightarrow> m \<noteq> 0 \<Longrightarrow> w \<noteq> 0 \<Longrightarrow>
    opened_from i d (d(unat i := i2c_zero\<lparr>i2c_base := GET_I2C_BASE_ADDR i, inst := i, i2c_mutex := m, i2c_sem := w, i2c_is_open := True\<rparr>))"

lemma opened_from_new:
  "opened_from i d (d(unat i := i2c_zero\<lparr>i2c_base := GET_I2C_BASE_ADDR i, inst := i\<rparr>))"
  "opened_from i d (d(unat i := i2c_zero\<lparr>i2c_base := GET_I2C_BASE_ADDR i, inst := i, i2c_mutex := m\<rparr>))"
  using failed [where m = 0 and w = 0, of i d] failed [where m = m and w = 0, of i d] by (simp_all add: i2c_zero_def)

lemma open_desc: "opened_from i (i2c_desc s) (i2c_desc (final (i2c_open i) s))"
proof -
  have zero: "i2c_zero\<lparr>i2c_base := b, inst := j, is_dma_open := False, is_wdma_en := False, is_rdma_en := False\<rparr>
      = i2c_zero\<lparr>i2c_base := b, inst := j\<rparr>" for b j
    by (simp add: i2c_zero_def)
  show ?thesis
    by (simp add: i2c_open_def Let_def split_beta zero refused failed opened opened_from_new)
qed

lemma wf_open: "keeps i2c_wf (i2c_open i)"
proof (rule keepsI)
  fix s :: "'x i2c_state_scheme" assume wf: "i2c_wf s"
  from open_desc [of i s] show "i2c_wf (final (i2c_open i) s)"
  proof cases
    case refused
    with wf show ?thesis by (simp add: i2c_wf_def)
  next
    case (failed m w)
    with wf show ?thesis by (simp add: i2c_wf_def i2c_ok_def i2c_zero_def)
  next
    case (opened m w)
    with wf unat_instance [OF opened(2)] show ?thesis by (simp add: i2c_wf_def i2c_ok_def i2c_zero_def)
  qed
qed

text \<open>Configuring DMA is only done with no channel open.\<close>

definition i2c_dma_closed :: "nat \<Rightarrow> 'x i2c_state_scheme \<Rightarrow> bool" where
  "i2c_dma_closed h s \<longleftrightarrow> i2c_wf s \<and> \<not> is_dma_open (i2c_desc s h)"

lemma desc_only_closed: "desc_only (i2c_dma_closed h)"
  unfolding desc_only_def i2c_dma_closed_def i2c_wf_def by simp

lemma closed_upd:
  "(\<And>c. i2c_ok h c \<Longrightarrow> \<not> is_dma_open c \<Longrightarrow> i2c_ok h (f c) \<and> \<not> is_dma_open (f c)) \<Longrightarrow> keeps (i2c_dma_closed h) (modify (upd_i2c h f))"
  by (rule keepsI) (simp add: i2c_dma_closed_def i2c_wf_def)

lemma via:
  "keeps P m \<Longrightarrow> P s \<Longrightarrow> (\<And>x s. P s \<Longrightarrow> R (final (f x) s)) \<Longrightarrow> R (final (m \<bind> f) s)"
  by (simp add: keeps_def split_beta)

lemma via_step: "Q (final m s) \<Longrightarrow> (\<And>x s. Q s \<Longrightarrow> R (final (f x) s)) \<Longrightarrow> R (final (m \<bind> f) s)"
  by (simp add: split_beta)

definition i2c_dma_configured :: "nat \<Rightarrow> 'x i2c_state_scheme \<Rightarrow> bool" where
  "i2c_dma_configured h s \<longleftrightarrow> i2c_dma_closed h s \<and>
     (let c = i2c_desc s h in
        (cfg_callback (wdma_config c), cfg_usr_cntxt (wdma_config c)) = (F_i2c_wdma_callback, V_i2c h)
      \<and> (cfg_callback (rdma_config c), cfg_usr_cntxt (rdma_config c)) = (F_i2c_rdma_callback, V_i2c h))"

lemma dma_config_null: "result (dma_config None p) s \<noteq> 0"
  by (simp add: dma_config_def)

lemma configured_opens:
  assumes "i2c_dma_configured h s" and "wdma_handle (i2c_desc s h) \<noteq> None" and "rdma_handle (i2c_desc s h) \<noteq> None"
  shows "i2c_wf (upd_i2c h (\<lambda>c. c\<lparr>is_dma_open := True\<rparr>) s)"
  using assms by (simp add: i2c_dma_configured_def i2c_dma_closed_def i2c_wf_def i2c_ok_def Let_def)

lemma wf_dma_config:
  assumes "i2c_dma_closed h s"
  shows "i2c_wf (final (i2c_dma_config h p) s)"
proof (cases p)
  case None
  with assms show ?thesis by (simp add: i2c_dma_config_def i2c_dma_closed_def)
next
  case (Some cfg)
  have open_: "keeps (i2c_dma_closed h) (do { r \<leftarrow> dma_open i k; modify (upd_i2c h (\<lambda>c. c\<lparr>rdma_handle := r\<rparr>)); ret r })" for i k
    by (intro keeps_intros dma_keeps [OF desc_only_closed] closed_upd) (simp add: i2c_ok_def)
  have wf: "i2c_wf s" if "i2c_dma_configured h s" for s :: "'x i2c_state_scheme"
    using that by (simp add: i2c_dma_configured_def i2c_dma_closed_def)
  have same: "i2c_dma_configured h t" if "i2c_dma_configured h s" "i2c_desc t = i2c_desc s" for s t :: "'x i2c_state_scheme"
    using that by (simp add: i2c_dma_configured_def i2c_dma_closed_def i2c_wf_def)
  have final_part: "i2c_wf (final (do {
      c \<leftarrow> get_i2c h;
      e \<leftarrow> (if opened then dma_config (wdma_handle c) (Some (wdma_config c)) else ret (- EIO));
      e \<leftarrow> (if e = 0 then dma_config (rdma_handle c) (Some (rdma_config c)) else ret (- EIO));
      if e \<noteq> 0 then do {
        whenM (r \<noteq> None) (do { _ \<leftarrow> dma_close (rdma_handle c); ret () });
        whenM (w \<noteq> None) (do { _ \<leftarrow> dma_close (wdma_handle c); ret () });
        ret (- EIO)
      } else do {
        modify (upd_i2c h (\<lambda>c. c\<lparr>is_dma_open := True\<rparr>));
        ret 0
      } }) s)" if J: "i2c_dma_configured h s" for opened and w r :: dma_handle_t and s :: "'x i2c_state_scheme"
  proof -
    let ?c = "i2c_desc s h"
    let ?e1 = "if opened then dma_config (wdma_handle ?c) (Some (wdma_config ?c)) else ret (- EIO)"
    define s1 where "s1 = final ?e1 s"
    let ?e2 = "if result ?e1 s = 0 then dma_config (rdma_handle ?c) (Some (rdma_config ?c)) else ret (- EIO)"
    define s2 where "s2 = final ?e2 s1"
    have d: "i2c_desc s2 = i2c_desc s"
      by (simp add: s2_def s1_def)
    then have J2: "i2c_dma_configured h s2" using same [OF J] by simp
    show ?thesis
    proof (cases "result ?e2 s1 = 0")
      case True
      then have e1: "result ?e1 s = 0" by (auto split: if_splits)
      then have "wdma_handle ?c \<noteq> None" using dma_config_null [of _ s] by (cases opened; cases "wdma_handle ?c") simp_all
      moreover have "rdma_handle ?c \<noteq> None"
        using True e1 dma_config_null [of _ s1] by (cases "rdma_handle ?c") simp_all
      ultimately have "i2c_wf (upd_i2c h (\<lambda>c. c\<lparr>is_dma_open := True\<rparr>) s2)"
        by (intro configured_opens J2) (simp_all add: d)
      moreover have opened using e1 by (rule contrapos_pp) simp
      ultimately show ?thesis using True e1 by (simp add: split_beta s1_def s2_def)
    next
      case False
      have "keeps i2c_wf (do {
        whenM (r \<noteq> None) (do { _ \<leftarrow> dma_close (rdma_handle ?c); ret () });
        whenM (w \<noteq> None) (do { _ \<leftarrow> dma_close (wdma_handle ?c); ret () });
        ret (- EIO :: int) })"
        by (intro keeps_intros wf_rules)
      from keepsD [OF this wf [OF J2]] have closed: "i2c_wf (final (do {
        whenM (r \<noteq> None) (do { _ \<leftarrow> dma_close (rdma_handle ?c); ret () });
        whenM (w \<noteq> None) (do { _ \<leftarrow> dma_close (wdma_handle ?c); ret () });
        ret (- EIO :: int) }) s2)" .
      show ?thesis
        using False closed unfolding s1_def s2_def
        by (cases opened; cases "result ?e1 s = 0"; cases w; cases r) (simp_all add: split_beta)
    qed
  qed
  have handle: "keeps (i2c_dma_closed h) (modify (upd_i2c h (\<lambda>c. c\<lparr>wdma_handle := w\<rparr>)))" for w
    by (intro closed_upd) (simp add: i2c_ok_def)
  have rx: "keeps (i2c_dma_closed h) (if b then do { r \<leftarrow> dma_open i k; modify (upd_i2c h (\<lambda>c. c\<lparr>rdma_handle := r\<rparr>)); ret r } else ret None)" for b i k
    by (intro keeps_if open_ keeps_ret)
  have configs: "i2c_dma_configured h (final (modify (upd_i2c h (\<lambda>c. c\<lparr>
            wdma_config := (wdma_config c)\<lparr>cfg_instance := a, ch_dir := DMA_MEM_TO_PERI_DMAC,
              ch_prio := a', cfg_callback := F_i2c_wdma_callback, cfg_usr_cntxt := V_i2c h\<rparr>,
            rdma_config := (rdma_config c)\<lparr>cfg_instance := b, ch_dir := DMA_PERI_TO_MEM_DMAC,
              ch_prio := b', cfg_callback := F_i2c_rdma_callback, cfg_usr_cntxt := V_i2c h\<rparr>\<rparr>))) s)"
    if "i2c_dma_closed h s" for a a' b b' and s :: "'x i2c_state_scheme"
    using that by (auto simp add: i2c_dma_configured_def i2c_dma_closed_def i2c_wf_def i2c_ok_def)
  have ids: "keeps (i2c_dma_configured h) (case q of None \<Rightarrow> ret ()
      | Some (tx, rx) \<Rightarrow> modify (upd_i2c h (\<lambda>c. c\<lparr>wdma_config := (wdma_config c)\<lparr>peri_id := tx\<rparr>,
          rdma_config := (rdma_config c)\<lparr>peri_id := rx\<rparr>\<rparr>)))" for q
    by (cases q) (auto intro!: keepsI simp: Let_def i2c_dma_configured_def i2c_dma_closed_def i2c_wf_def i2c_ok_def split: prod.split)
  show ?thesis
    unfolding Some i2c_dma_config_def option.case Let_def
  proof (rule via [OF dma_keeps(1) [OF desc_only_closed] assms], rule via [OF handle], assumption, rule via [OF rx], assumption,
      rule via_step [where Q = "i2c_dma_configured h"], erule configs, rule via [where P = "i2c_dma_configured h"], goal_cases)
    case (3 w s x s1 r s2 y s3 c s4)
    show ?case
      by (rule via [OF ids 3(5)]) (erule final_part)
  qed (auto intro: keeps_gets)
qed

lemma wf_ioctl: "keeps i2c_wf (i2c_ioctl hi cmd)"
proof (cases hi)
  case None
  then show ?thesis by (simp add: i2c_ioctl_def keeps_ret)
next
  case (Some h)
  show ?thesis
  proof (rule keepsI)
    fix s :: "'x i2c_state_scheme" assume wf: "i2c_wf s"
    let ?c = "i2c_desc s h"
    have en: "i2c_wf (upd_i2c h (\<lambda>c. c\<lparr>is_wdma_en := True\<rparr>) s)" "i2c_wf (upd_i2c h (\<lambda>c. c\<lparr>is_rdma_en := True\<rparr>) s)" if "is_dma_open ?c"
      using wf that by (simp_all add: i2c_wf_def i2c_ok_def)
    have dis: "i2c_wf (upd_i2c h (\<lambda>c. c\<lparr>is_wdma_en := False\<rparr>) s)" "i2c_wf (upd_i2c h (\<lambda>c. c\<lparr>is_rdma_en := False\<rparr>) s)"
        "i2c_wf (upd_i2c h (\<lambda>c. c\<lparr>no_stop_flag := True\<rparr>) s)" "i2c_wf (upd_i2c h (\<lambda>c. c\<lparr>slave_addr := a\<rparr>) s)" for a
      using wf by (simp_all add: i2c_wf_def i2c_ok_def)
    have config: "i2c_wf (final (i2c_dma_config h p) s)" if "\<not> is_dma_open ?c" for p
      using wf that by (intro wf_dma_config) (simp add: i2c_dma_closed_def)
    note lower = keepsD [OF wf_control(3)] keepsD [OF wf_control(4)] keepsD [OF wf_control(5)] keepsD [OF i2c_ll_keeps(9) [OF desc_only_wf]]
      keepsD [OF i2c_ll_keeps(11) [OF desc_only_wf]] keepsD [OF i2c_ll_keeps(12) [OF desc_only_wf]] keepsD [OF i2c_ll_keeps(13) [OF desc_only_wf]]
    show "i2c_wf (final (i2c_ioctl hi cmd) s)"
      by (cases cmd) (simp_all add: Some i2c_ioctl_def split_beta Let_def wf en dis config lower split: option.split)
  qed
qed

text \<open>
  Everything the driver can be asked to do, in any order, with any arguments, and the interrupts
  and DMA completions in between; the interrupts a blocking call waits through are those of any
  list of controllers.
\<close>

fun i2c_interrupts :: "vptr list \<Rightarrow> ('x i2c_state_scheme, unit) state" where
  "i2c_interrupts [] = ret ()"
| "i2c_interrupts (p # ps) = do { _ \<leftarrow> i2c_isr p; i2c_interrupts ps }"

inductive i2c_runs :: "'x i2c_state_scheme \<Rightarrow> 'x i2c_state_scheme \<Rightarrow> bool" for s0 where
  boot: "i2c_runs s0 s0"
| opens: "i2c_runs s0 s \<Longrightarrow> i2c_runs s0 (final (i2c_open i) s)"
| closes: "i2c_runs s0 s \<Longrightarrow> i2c_runs s0 (final (i2c_close hi) s)"
| callbacks: "i2c_runs s0 s \<Longrightarrow> i2c_runs s0 (final (i2c_set_callback hi f p) s)"
| ioctls: "i2c_runs s0 s \<Longrightarrow> i2c_runs s0 (final (i2c_ioctl hi cmd) s)"
| writes: "i2c_runs s0 s \<Longrightarrow> i2c_runs s0 (final (i2c_write_sync (i2c_interrupts ps) hi buf n) s)"
| reads: "i2c_runs s0 s \<Longrightarrow> i2c_runs s0 (final (i2c_read_sync (i2c_interrupts ps) hi buf n) s)"
| async_writes: "i2c_runs s0 s \<Longrightarrow> i2c_runs s0 (final (i2c_write_async hi buf n) s)"
| async_reads: "i2c_runs s0 s \<Longrightarrow> i2c_runs s0 (final (i2c_read_async hi buf n) s)"
| cancels: "i2c_runs s0 s \<Longrightarrow> i2c_runs s0 (final (i2c_cancel hi) s)"
| interrupts: "i2c_runs s0 s \<Longrightarrow> i2c_runs s0 (final (i2c_isr p) s)"
| sent_by_dma: "i2c_runs s0 s \<Longrightarrow> i2c_runs s0 (final (i2c_wdma_callback p) s)"
| received_by_dma: "i2c_runs s0 s \<Longrightarrow> i2c_runs s0 (final (i2c_rdma_callback p) s)"

lemma wf_interrupts: "keeps i2c_wf (i2c_interrupts ps)"
  by (induction ps) (auto intro!: keeps_intros)

text \<open>
  C5. The descriptors are well-typed at any time: from descriptors that are (as after boot, all
  zero), whatever is called in whatever order and whatever the device, the kernel, the DMA and
  the interrupts do, an open descriptor is that of one of the five controllers, with its base
  address and number, and has its lock and its semaphore; DMA is enabled for a direction only with both
  channels open; and open channels call this driver back with this descriptor.
\<close>

theorem i2c_descriptors_well_formed:
  assumes "i2c_runs s0 s" and "i2c_wf s0"
  shows "i2c_wf s"
  using assms
proof (induction rule: i2c_runs.induct)
  case (opens s i)
  then show ?case using keepsD [OF wf_open] by blast
next
  case (closes s hi)
  then show ?case using keepsD [OF wf_close] by blast
next
  case (callbacks s hi f p)
  then show ?case using keepsD [OF wf_control(1)] by blast
next
  case (ioctls s hi cmd)
  then show ?case using keepsD [OF wf_ioctl] by blast
next
  case (writes s ps hi buf n)
  then show ?case using keepsD [OF wf_transfers(3) [OF wf_interrupts]] by blast
next
  case (reads s ps hi buf n)
  then show ?case using keepsD [OF wf_transfers(4) [OF wf_interrupts]] by blast
next
  case (async_writes s hi buf n)
  then show ?case using keepsD [OF wf_transfers(1)] by blast
next
  case (async_reads s hi buf n)
  then show ?case using keepsD [OF wf_transfers(2)] by blast
next
  case (cancels s hi)
  then show ?case using keepsD [OF wf_control(2)] by blast
next
  case (interrupts s p)
  then show ?case using keepsD [OF wf_isr] by blast
next
  case (sent_by_dma s p)
  then show ?case using keepsD [OF wf_dma_events(1)] by blast
next
  case (received_by_dma s p)
  then show ?case using keepsD [OF wf_dma_events(2)] by blast
qed simp

theorem i2c_descriptors_well_formed_witness:
  "i2c_wf (final (i2c_isr (V_i2c 3)) (final (i2c_close (Some 0)) (final (i2c_open 3)
     (i2c_machine\<lparr>i2c_desc := \<lambda>_. i2c_zero\<rparr>))))"
proof -
  have "i2c_wf (i2c_machine\<lparr>i2c_desc := \<lambda>_. i2c_zero\<rparr>)"
    by (simp add: i2c_wf_def i2c_ok_def i2c_zero_def)
  moreover have "i2c_runs (i2c_machine\<lparr>i2c_desc := \<lambda>_. i2c_zero\<rparr>) (final (i2c_isr (V_i2c 3)) (final (i2c_close (Some 0))
      (final (i2c_open 3) (i2c_machine\<lparr>i2c_desc := \<lambda>_. i2c_zero\<rparr>))))"
    by (intro i2c_runs.intros)
  ultimately show ?thesis
    using i2c_descriptors_well_formed by blast
qed

end
