(* ===== verification/Spi_LL.thy ===== *)
theory Spi_LL
  imports I2c_Wf
begin

unbundle bit_operations_syntax

text \<open>
  The register layer of the SPI driver, \<^verbatim>\<open>drivers/spi/socfpga_spi_ll.c\<close>: the same controller as bus
  master and as slave, with one data register in front of both FIFOs. A null buffer stands for
  dummy bytes.
\<close>

section \<open>Registers\<close>

definition SPI_CTRLR0 :: u32 where "SPI_CTRLR0 = 0x0"
definition SPI_SSIENR :: u32 where "SPI_SSIENR = 0x8"
definition SPI_SER :: u32 where "SPI_SER = 0x10"
definition SPI_BAUDR :: u32 where "SPI_BAUDR = 0x14"
definition SPI_TXFTLR :: u32 where "SPI_TXFTLR = 0x18"
definition SPI_RXFTLR :: u32 where "SPI_RXFTLR = 0x1C"
definition SPI_SR :: u32 where "SPI_SR = 0x28"
definition SPI_IMR :: u32 where "SPI_IMR = 0x2C"
definition SPI_ISR :: u32 where "SPI_ISR = 0x30"
definition SPI_RXOICR :: u32 where "SPI_RXOICR = 0x3C"
definition SPI_DMACR :: u32 where "SPI_DMACR = 0x4C"
definition SPI_DMATDLR :: u32 where "SPI_DMATDLR = 0x50"
definition SPI_DMARDLR :: u32 where "SPI_DMARDLR = 0x54"
definition SPI_DR0 :: u32 where "SPI_DR0 = 0x60"
definition SPI_RX_SAMPLE_DLY :: u32 where "SPI_RX_SAMPLE_DLY = 0xF0"
definition SPI_CTRLR0_DFS_32_MASK :: u32 where "SPI_CTRLR0_DFS_32_MASK = 0x1F0000"
definition SPI_CTRLR0_DFS_MASK :: u32 where "SPI_CTRLR0_DFS_MASK = 0xF"
definition SPI_SER_SER_MASK :: u32 where "SPI_SER_SER_MASK = 0xF"
definition SPI_BAUDR_SCKDV_MASK :: u32 where "SPI_BAUDR_SCKDV_MASK = 0xFFFF"
definition SPI_TXFTLR_TFT_MASK :: u32 where "SPI_TXFTLR_TFT_MASK = 0xFF"
definition SPI_RXFTLR_RFT_MASK :: u32 where "SPI_RXFTLR_RFT_MASK = 0xFF"
definition SPI_DMATDLR_DMATDL_MASK :: u32 where "SPI_DMATDLR_DMATDL_MASK = 0xFF"
definition SPI_DMARDLR_DMARDL_MASK :: u32 where "SPI_DMARDLR_DMARDL_MASK = 0xFF"
definition SPI_RX_SAMPLE_DLY_RSD_MASK :: u32 where "SPI_RX_SAMPLE_DLY_RSD_MASK = 0xFF"
definition SPI_CTRLR0_SPI_FRF_POS :: nat where "SPI_CTRLR0_SPI_FRF_POS = 21"
definition SPI_CTRLR0_SLV_OE_POS :: nat where "SPI_CTRLR0_SLV_OE_POS = 10"
definition SPI_CTRLR0_TMOD_POS :: nat where "SPI_CTRLR0_TMOD_POS = 8"
definition SPI_CTRLR0_SCPOL_POS :: nat where "SPI_CTRLR0_SCPOL_POS = 7"
definition SPI_CTRLR0_SCPH_POS :: nat where "SPI_CTRLR0_SCPH_POS = 6"
definition SPI_CTRLR0_DFS_POS :: nat where "SPI_CTRLR0_DFS_POS = 0"
definition SPI_SSIENR_SSI_EN_POS :: nat where "SPI_SSIENR_SSI_EN_POS = 0"
definition SPI_TXFTLR_TFT_POS :: nat where "SPI_TXFTLR_TFT_POS = 0"
definition SPI_RXFTLR_RFT_POS :: nat where "SPI_RXFTLR_RFT_POS = 0"
definition SPI_SR_RFNE_POS :: nat where "SPI_SR_RFNE_POS = 3"
definition SPI_SR_TFNF_POS :: nat where "SPI_SR_TFNF_POS = 1"
definition SPI_IMR_RXFIM_POS :: nat where "SPI_IMR_RXFIM_POS = 4"
definition SPI_IMR_RXOIM_POS :: nat where "SPI_IMR_RXOIM_POS = 3"
definition SPI_IMR_TXEIM_POS :: nat where "SPI_IMR_TXEIM_POS = 0"
definition SPI_DMACR_TDMAE_POS :: nat where "SPI_DMACR_TDMAE_POS = 1"
definition SPI_DMACR_RDMAE_POS :: nat where "SPI_DMACR_RDMAE_POS = 0"
definition SPI_DMATDLR_DMATDL_POS :: nat where "SPI_DMATDLR_DMATDL_POS = 0"
definition SPI_DMARDLR_DMARDL_POS :: nat where "SPI_DMARDLR_DMARDL_POS = 0"
definition SPI_RX_SAMPLE_DLY_RSD_POS :: nat where "SPI_RX_SAMPLE_DLY_RSD_POS = 0"

lemmas spi_regs =
  SPI_CTRLR0_def SPI_SSIENR_def SPI_SER_def SPI_BAUDR_def SPI_TXFTLR_def SPI_RXFTLR_def SPI_SR_def
  SPI_IMR_def SPI_ISR_def SPI_RXOICR_def SPI_DMACR_def SPI_DMATDLR_def SPI_DMARDLR_def SPI_DR0_def
  SPI_RX_SAMPLE_DLY_def
lemmas spi_fields =
  SPI_CTRLR0_DFS_32_MASK_def SPI_CTRLR0_DFS_MASK_def SPI_SER_SER_MASK_def SPI_BAUDR_SCKDV_MASK_def
  SPI_TXFTLR_TFT_MASK_def SPI_RXFTLR_RFT_MASK_def SPI_DMATDLR_DMATDL_MASK_def SPI_DMARDLR_DMARDL_MASK_def
  SPI_RX_SAMPLE_DLY_RSD_MASK_def SPI_CTRLR0_SPI_FRF_POS_def SPI_CTRLR0_SLV_OE_POS_def
  SPI_CTRLR0_TMOD_POS_def SPI_CTRLR0_SCPOL_POS_def SPI_CTRLR0_SCPH_POS_def SPI_CTRLR0_DFS_POS_def
  SPI_SSIENR_SSI_EN_POS_def SPI_TXFTLR_TFT_POS_def SPI_RXFTLR_RFT_POS_def SPI_SR_RFNE_POS_def
  SPI_SR_TFNF_POS_def SPI_IMR_RXFIM_POS_def SPI_IMR_RXOIM_POS_def SPI_IMR_TXEIM_POS_def
  SPI_DMACR_TDMAE_POS_def SPI_DMACR_RDMAE_POS_def SPI_DMATDLR_DMATDL_POS_def SPI_DMARDLR_DMARDL_POS_def
  SPI_RX_SAMPLE_DLY_RSD_POS_def

definition SPI_TX_RX_MOD :: u32 where "SPI_TX_RX_MOD = 0"
definition SPI_TX_MOD :: u32 where "SPI_TX_MOD = 1"
definition SPI_RX_MOD :: u32 where "SPI_RX_MOD = 2"
definition SPI_TX_FIFO_THRESHOLD :: u32 where "SPI_TX_FIFO_THRESHOLD = 127"
definition SPI_RX_FIFO_THRESHOLD :: u32 where "SPI_RX_FIFO_THRESHOLD = 0"
definition SPI_TX_EMPTY_INT :: u32 where "SPI_TX_EMPTY_INT = 1"
definition SPI_RX_OVERFLOW_INT :: u32 where "SPI_RX_OVERFLOW_INT = 8"
definition SPI_RX_FULL_INT :: u32 where "SPI_RX_FULL_INT = 0x10"
definition SPI_ALL_INTERRUPTS :: u32 where "SPI_ALL_INTERRUPTS = 0x3F"
definition SPI_RD_SAMPLE_DLY_MAX :: u32 where "SPI_RD_SAMPLE_DLY_MAX = 64"
definition CLK_PERPLL :: u32 where "CLK_PERPLL = 0x10D1007C"
definition CLK_PERPLL_EN :: u32 where "CLK_PERPLL_EN = 0 + CLK_PERPLL"
definition CLK_SPIM0_SHIFT :: nat where "CLK_SPIM0_SHIFT = 9"
definition CLK_SPIM1_SHIFT :: nat where "CLK_SPIM1_SHIFT = 11"
definition CLK_SPIS0_SHIFT :: nat where "CLK_SPIS0_SHIFT = 12"
definition CLK_SPIS1_SHIFT :: nat where "CLK_SPIS1_SHIFT = 13"
definition RST_SPIM0 :: u32 where "RST_SPIM0 = 17"
definition RST_SPIM1 :: u32 where "RST_SPIM1 = 18"
definition RST_SPIS0 :: u32 where "RST_SPIS0 = 19"
definition RST_SPIS1 :: u32 where "RST_SPIS1 = 20"
abbreviation ERANGE :: int where "ERANGE \<equiv> 34"

lemmas spi_ints =
  SPI_TX_EMPTY_INT_def SPI_RX_OVERFLOW_INT_def SPI_RX_FULL_INT_def SPI_ALL_INTERRUPTS_def

datatype spi_role_t = SPI_ROLE_MASTER | SPI_ROLE_SLAVE

datatype spi_mode_t = SPI_MODE0 | SPI_MODE1 | SPI_MODE2 | SPI_MODE3

definition GET_BASE_ADDR_MASTER :: "u32 \<Rightarrow> u32" where
  "GET_BASE_ADDR_MASTER i = 0x10DA4000 + i * 0x1000"

definition GET_BASE_ADDR_SLAVE :: "u32 \<Rightarrow> u32" where
  "GET_BASE_ADDR_SLAVE i = 0x10DA2000 + i * 0x1000"

definition GET_BASE_ADDR :: "u32 \<Rightarrow> u32" where
  "GET_BASE_ADDR i = GET_BASE_ADDR_MASTER i"

section \<open>Control\<close>

definition spi_ll_get_clk_shift :: "u32 \<Rightarrow> spi_role_t \<Rightarrow> nat" where
  "spi_ll_get_clk_shift i r =
     (if r = SPI_ROLE_SLAVE then (if i = 1 then CLK_SPIS1_SHIFT else CLK_SPIS0_SHIFT)
      else (if i = 1 then CLK_SPIM1_SHIFT else CLK_SPIM0_SHIFT))"

definition spi_ll_enable_clock :: "u32 \<Rightarrow> spi_role_t \<Rightarrow> ('x machine_scheme, unit) state" where
  "spi_ll_enable_clock i r = do {
     val \<leftarrow> RD_REG32 CLK_PERPLL;
     WR_REG32 CLK_PERPLL_EN (val OR push_bit (spi_ll_get_clk_shift i r) 1)
   }"

definition spi_ll_disable_clock :: "u32 \<Rightarrow> spi_role_t \<Rightarrow> ('x machine_scheme, unit) state" where
  "spi_ll_disable_clock i r = do {
     val \<leftarrow> RD_REG32 CLK_PERPLL;
     WR_REG32 CLK_PERPLL_EN (val AND NOT (push_bit (spi_ll_get_clk_shift i r) 1))
   }"

definition spi_ll_enable :: "u32 \<Rightarrow> ('x machine_scheme, unit) state" where
  "spi_ll_enable base = WR_REG32 (base + SPI_SSIENR) (push_bit SPI_SSIENR_SSI_EN_POS 1)"

definition spi_ll_disable :: "u32 \<Rightarrow> ('x machine_scheme, unit) state" where
  "spi_ll_disable base = WR_REG32 (base + SPI_SSIENR) 0"

definition spi_ll_enable_dma :: "u32 \<Rightarrow> bool \<Rightarrow> bool \<Rightarrow> ('x machine_scheme, unit) state" where
  "spi_ll_enable_dma base tx_enable rx_enable = do {
     val \<leftarrow> RD_REG32 (base + SPI_DMACR);
     let val = (if tx_enable then val OR push_bit SPI_DMACR_TDMAE_POS 1 else val AND NOT (push_bit SPI_DMACR_TDMAE_POS 1));
     let val = (if rx_enable then val OR push_bit SPI_DMACR_RDMAE_POS 1 else val AND NOT (push_bit SPI_DMACR_RDMAE_POS 1));
     WR_REG32 (base + SPI_DMACR) val
   }"

definition spi_ll_disable_dma :: "u32 \<Rightarrow> ('x machine_scheme, unit) state" where
  "spi_ll_disable_dma base = do {
     val \<leftarrow> RD_REG32 (base + SPI_DMACR);
     WR_REG32 (base + SPI_DMACR) (val AND NOT (push_bit SPI_DMACR_TDMAE_POS 1 OR push_bit SPI_DMACR_RDMAE_POS 1))
   }"

definition spi_ll_set_dma_thresholds :: "u32 \<Rightarrow> u8 \<Rightarrow> u8 \<Rightarrow> ('x machine_scheme, unit) state" where
  "spi_ll_set_dma_thresholds base tx_level rx_level = do {
     val \<leftarrow> RD_REG32 (base + SPI_DMATDLR);
     WR_REG32 (base + SPI_DMATDLR) (val AND NOT SPI_DMATDLR_DMATDL_MASK OR push_bit SPI_DMATDLR_DMATDL_POS (ucast tx_level));
     val \<leftarrow> RD_REG32 (base + SPI_DMARDLR);
     WR_REG32 (base + SPI_DMARDLR) (val AND NOT SPI_DMARDLR_DMARDL_MASK OR push_bit SPI_DMARDLR_DMARDL_POS (ucast rx_level))
   }"

definition spi_ll_get_base_addr :: "u32 \<Rightarrow> spi_role_t \<Rightarrow> u32" where
  "spi_ll_get_base_addr i r = (if r = SPI_ROLE_SLAVE then GET_BASE_ADDR_SLAVE i else GET_BASE_ADDR_MASTER i)"

definition spi_ll_set_slave_output :: "u32 \<Rightarrow> bool \<Rightarrow> ('x machine_scheme, unit) state" where
  "spi_ll_set_slave_output base enable = do {
     spi_ll_disable base;
     val \<leftarrow> RD_REG32 (base + SPI_CTRLR0);
     WR_REG32 (base + SPI_CTRLR0)
       (if enable then val AND NOT (push_bit SPI_CTRLR0_SLV_OE_POS 1) else val OR push_bit SPI_CTRLR0_SLV_OE_POS 1);
     spi_ll_enable base
   }"

definition spi_ll_set_fifo_threshold :: "u32 \<Rightarrow> ('x machine_scheme, unit) state" where
  "spi_ll_set_fifo_threshold base = do {
     val \<leftarrow> RD_REG32 (base + SPI_TXFTLR);
     WR_REG32 (base + SPI_TXFTLR) (val AND NOT SPI_TXFTLR_TFT_MASK
       OR push_bit SPI_TXFTLR_TFT_POS SPI_TX_FIFO_THRESHOLD AND SPI_TXFTLR_TFT_MASK);
     val \<leftarrow> RD_REG32 (base + SPI_RXFTLR);
     WR_REG32 (base + SPI_RXFTLR) (val AND NOT SPI_RXFTLR_RFT_MASK
       OR push_bit SPI_RXFTLR_RFT_POS SPI_RX_FIFO_THRESHOLD AND SPI_RXFTLR_RFT_MASK)
   }"

definition spi_ll_init :: "u32 \<Rightarrow> spi_role_t \<Rightarrow> ('x machine_scheme, unit) state" where
  "spi_ll_init i r = do {
     spi_ll_enable_clock i r;
     let reset_id = (if r = SPI_ROLE_SLAVE then (if i = 1 then RST_SPIS1 else RST_SPIS0)
       else (if i = 1 then RST_SPIM1 else RST_SPIM0));
     e \<leftarrow> rstmgr_assert_reset reset_id;
     if e \<noteq> 0 then ret ()
     else do {
       e \<leftarrow> rstmgr_deassert_reset reset_id;
       if e \<noteq> 0 then ret ()
       else spi_ll_set_fifo_threshold (spi_ll_get_base_addr i r)
     }
   }"

definition spi_ll_deinit :: "u32 \<Rightarrow> spi_role_t \<Rightarrow> ('x machine_scheme, unit) state" where
  "spi_ll_deinit i r = do {
     spi_ll_disable (spi_ll_get_base_addr i r);
     spi_ll_disable_clock i r
   }"

section \<open>Configuration\<close>

definition spi_mode_bits :: "spi_mode_t \<Rightarrow> u32 \<Rightarrow> u32" where
  "spi_mode_bits mode val =
     (case mode of
        SPI_MODE0 \<Rightarrow> val
      | SPI_MODE1 \<Rightarrow> val OR push_bit SPI_CTRLR0_SCPH_POS 1
      | SPI_MODE2 \<Rightarrow> val OR push_bit SPI_CTRLR0_SCPOL_POS 1
      | SPI_MODE3 \<Rightarrow> val OR push_bit SPI_CTRLR0_SCPH_POS 1 OR push_bit SPI_CTRLR0_SCPOL_POS 1)"

text \<open>Eight-bit Motorola frames, clock phase and polarity cleared.\<close>

definition spi_frame_bits :: "u32 \<Rightarrow> u32" where
  "spi_frame_bits val =
     (let val = val AND NOT (push_bit SPI_CTRLR0_SPI_FRF_POS 3);
          val = val AND NOT (push_bit SPI_CTRLR0_SCPH_POS 1);
          val = val AND NOT (push_bit SPI_CTRLR0_SCPOL_POS 1);
          val = val AND NOT SPI_CTRLR0_DFS_MASK;
          val = val AND NOT SPI_CTRLR0_DFS_32_MASK
      in val OR push_bit SPI_CTRLR0_DFS_POS 7)"

definition spi_divisor :: "u32 \<Rightarrow> u32 \<Rightarrow> u32" where
  "spi_divisor spi_clk freq =
     (let d = (spi_clk + freq) div freq;
          d = (if d > 65534 then 65534 else d);
          d = (if d < 2 then 2 else d)
      in d AND NOT 1)"

definition spi_ll_set_config :: "u32 \<Rightarrow> u32 \<Rightarrow> spi_mode_t \<Rightarrow> ('x machine_scheme, int) state" where
  "spi_ll_set_config base freq mode = do {
     val \<leftarrow> RD_REG32 (base + SPI_CTRLR0);
     WR_REG32 (base + SPI_CTRLR0) (spi_mode_bits mode (spi_frame_bits val));
     (e, spi_clk) \<leftarrow> clk_mngr_get_clk CLOCK_SSPI;
     if e \<noteq> 0 then ret (- EIO)
     else if spi_clk = 0 then ret (- EIO)
     else if freq = 0 then ret (- EINVAL)
     else do {
       WR_REG32 (base + SPI_BAUDR) (spi_divisor spi_clk freq AND SPI_BAUDR_SCKDV_MASK);
       ret 0
     }
   }"

definition spi_ll_set_rx_sampling_delay :: "u32 \<Rightarrow> u32 \<Rightarrow> ('x machine_scheme, int) state" where
  "spi_ll_set_rx_sampling_delay base sample_delay_steps =
     (if sample_delay_steps > SPI_RD_SAMPLE_DLY_MAX then ret (- ERANGE)
      else do {
        WR_REG32 (base + SPI_RX_SAMPLE_DLY)
          (push_bit SPI_RX_SAMPLE_DLY_RSD_POS sample_delay_steps AND SPI_RX_SAMPLE_DLY_RSD_MASK);
        ret 0
      })"

definition spi_ll_get_freq :: "u32 \<Rightarrow> ('x machine_scheme, u32) state" where
  "spi_ll_get_freq base = do {
     (e, spi_clk) \<leftarrow> clk_mngr_get_clk CLOCK_SSPI;
     if e \<noteq> 0 then ret 0
     else if spi_clk = 0 then ret 0
     else do {
       sclk_dvsr \<leftarrow> RD_REG32 (base + SPI_BAUDR);
       ret (if sclk_dvsr = 0 then 0 else spi_clk div sclk_dvsr)
     }
   }"

definition spi_mode_of :: "u32 \<Rightarrow> spi_mode_t" where
  "spi_mode_of val =
     (let bf_val = drop_bit SPI_CTRLR0_SCPH_POS val AND 3
      in if bf_val = 3 then SPI_MODE3 else if bf_val = 2 then SPI_MODE2
         else if bf_val = 1 then SPI_MODE1 else SPI_MODE0)"

definition spi_ll_get_config :: "u32 \<Rightarrow> ('x machine_scheme, u32 \<times> spi_mode_t) state" where
  "spi_ll_get_config base = do {
     freq \<leftarrow> spi_ll_get_freq base;
     val \<leftarrow> RD_REG32 (base + SPI_CTRLR0);
     ret (freq, spi_mode_of val)
   }"

definition spi_ll_set_transfermode :: "u32 \<Rightarrow> u32 \<Rightarrow> ('x machine_scheme, unit) state" where
  "spi_ll_set_transfermode base mode = do {
     spi_ll_disable base;
     val \<leftarrow> RD_REG32 (base + SPI_CTRLR0);
     WR_REG32 (base + SPI_CTRLR0) (val AND NOT (push_bit SPI_CTRLR0_TMOD_POS 3) OR push_bit SPI_CTRLR0_TMOD_POS (mode AND 3));
     spi_ll_enable base
   }"

definition spi_ll_select_chip :: "u32 \<Rightarrow> u32 \<Rightarrow> ('x machine_scheme, unit) state" where
  "spi_ll_select_chip i slave = do {
     let base = GET_BASE_ADDR i;
     val \<leftarrow> RD_REG32 (base + SPI_SER);
     WR_REG32 (base + SPI_SER) (val AND NOT (push_bit 0 SPI_SER_SER_MASK));
     WR_REG32 (base + SPI_SER)
       (if slave = 1 then 1 else if slave = 2 then 2 else if slave = 3 then 4 else if slave = 4 then 8 else 0)
   }"

section \<open>The FIFOs\<close>

text \<open>
  The first argument of a loop is the number of bytes that remain, the last the number moved,
  which is also the index into the buffer.
\<close>

fun spi_dummy_write_loop :: "nat \<Rightarrow> u32 \<Rightarrow> u32 \<Rightarrow> ('x machine_scheme, u32) state" where
  "spi_dummy_write_loop 0 base n = ret n"
| "spi_dummy_write_loop (Suc r) base n = do {
     st \<leftarrow> RD_REG32 (base + SPI_SR);
     if drop_bit SPI_SR_TFNF_POS st AND 1 = 1 then do {
       WR_REG32 (base + SPI_DR0) 0x55;
       spi_dummy_write_loop r base (n + 1)
     } else ret n
   }"

fun spi_write_loop :: "nat \<Rightarrow> u32 \<Rightarrow> u64 \<Rightarrow> u32 \<Rightarrow> ('x machine_scheme, u32) state" where
  "spi_write_loop 0 base buf n = ret n"
| "spi_write_loop (Suc r) base buf n = do {
     st \<leftarrow> RD_REG32 (base + SPI_SR);
     if drop_bit SPI_SR_TFNF_POS st AND 1 = 1 then do {
       b \<leftarrow> peek (buf + ucast n);
       WR_REG32 (base + SPI_DR0) (ucast b);
       spi_write_loop r base buf (n + 1)
     } else ret n
   }"

definition spi_ll_write_fifo :: "u32 \<Rightarrow> u64 \<Rightarrow> u32 \<Rightarrow> ('x machine_scheme, u32) state" where
  "spi_ll_write_fifo base buf bytes =
     (if buf = 0 then spi_dummy_write_loop (unat bytes) base 0 else spi_write_loop (unat bytes) base buf 0)"

fun spi_dummy_read_loop :: "nat \<Rightarrow> u32 \<Rightarrow> u32 \<Rightarrow> ('x machine_scheme, u32) state" where
  "spi_dummy_read_loop 0 base n = ret n"
| "spi_dummy_read_loop (Suc r) base n = do {
     st \<leftarrow> RD_REG32 (base + SPI_SR);
     if drop_bit SPI_SR_RFNE_POS st AND 1 = 1 then do {
       _ \<leftarrow> RD_REG32 (base + SPI_DR0);
       spi_dummy_read_loop r base (n + 1)
     } else ret n
   }"

fun spi_read_loop :: "nat \<Rightarrow> u32 \<Rightarrow> u64 \<Rightarrow> u32 \<Rightarrow> ('x machine_scheme, u32) state" where
  "spi_read_loop 0 base buf n = ret n"
| "spi_read_loop (Suc r) base buf n = do {
     st \<leftarrow> RD_REG32 (base + SPI_SR);
     if drop_bit SPI_SR_RFNE_POS st AND 1 = 1 then do {
       val \<leftarrow> RD_REG32 (base + SPI_DR0);
       poke (buf + ucast n) (ucast val);
       spi_read_loop r base buf (n + 1)
     } else ret n
   }"

definition spi_ll_read_fifo :: "u32 \<Rightarrow> u64 \<Rightarrow> u32 \<Rightarrow> ('x machine_scheme, u32) state" where
  "spi_ll_read_fifo base buf bytes =
     (if buf = 0 then spi_dummy_read_loop (unat bytes) base 0 else spi_read_loop (unat bytes) base buf 0)"

section \<open>Interrupts\<close>

definition spi_ll_get_interrupt_status :: "u32 \<Rightarrow> ('x machine_scheme, u32) state" where
  "spi_ll_get_interrupt_status base = do {
     val \<leftarrow> RD_REG32 (base + SPI_ISR);
     ret (val AND 0x3F)
   }"

text \<open>The bits of the mask register that belong to an identifier; none for an unknown one.\<close>

definition spi_imr_bits :: "u32 \<Rightarrow> u32" where
  "spi_imr_bits ir_id =
     (if ir_id = SPI_TX_EMPTY_INT then push_bit SPI_IMR_TXEIM_POS 1
      else if ir_id = SPI_RX_OVERFLOW_INT then push_bit SPI_IMR_RXOIM_POS 1
      else if ir_id = SPI_RX_FULL_INT then push_bit SPI_IMR_RXFIM_POS 1
      else if ir_id = SPI_ALL_INTERRUPTS then push_bit SPI_IMR_TXEIM_POS 0x3F
      else 0)"

definition spi_ll_enable_interrupt :: "u32 \<Rightarrow> u32 \<Rightarrow> ('x machine_scheme, unit) state" where
  "spi_ll_enable_interrupt base ir_id = do {
     val \<leftarrow> RD_REG32 (base + SPI_IMR);
     WR_REG32 (base + SPI_IMR) (val OR spi_imr_bits ir_id)
   }"

definition spi_ll_disable_interrupt :: "u32 \<Rightarrow> u32 \<Rightarrow> ('x machine_scheme, unit) state" where
  "spi_ll_disable_interrupt base ir_id = do {
     val \<leftarrow> RD_REG32 (base + SPI_IMR);
     WR_REG32 (base + SPI_IMR) (val AND NOT (spi_imr_bits ir_id))
   }"

definition spi_ll_clear_rx_overflow :: "u32 \<Rightarrow> ('x machine_scheme, unit) state" where
  "spi_ll_clear_rx_overflow base = do { _ \<leftarrow> RD_REG32 (base + SPI_RXOICR); ret () }"

definition spi_ll_set_rx_threshold :: "u32 \<Rightarrow> u8 \<Rightarrow> ('x machine_scheme, unit) state" where
  "spi_ll_set_rx_threshold base rx_thr = WR_REG32 (base + SPI_RXFTLR) (ucast rx_thr)"

lemmas spi_ll_defs =
  spi_ll_enable_clock_def spi_ll_disable_clock_def spi_ll_enable_def spi_ll_disable_def spi_ll_enable_dma_def
  spi_ll_disable_dma_def spi_ll_set_dma_thresholds_def spi_ll_set_slave_output_def spi_ll_set_fifo_threshold_def
  spi_ll_init_def spi_ll_deinit_def spi_ll_set_config_def spi_ll_set_rx_sampling_delay_def spi_ll_get_freq_def
  spi_ll_get_config_def spi_ll_set_transfermode_def spi_ll_select_chip_def spi_ll_get_interrupt_status_def
  spi_ll_enable_interrupt_def spi_ll_disable_interrupt_def spi_ll_clear_rx_overflow_def spi_ll_set_rx_threshold_def

section \<open>What the FIFO operations do\<close>

definition spi_dr :: "u32 \<Rightarrow> u64" where
  "spi_dr base = ucast (base + SPI_DR0)"

text \<open>The words of a transmission: the bytes of the buffer, or dummies where there is none.\<close>

definition spi_words :: "(u64 \<Rightarrow> u8) \<Rightarrow> u64 \<Rightarrow> nat \<Rightarrow> u32 list" where
  "spi_words m buf n = map (\<lambda>i. if buf = 0 then 0x55 else ucast (m (buf + word_of_nat i))) [0..<n]"

lemma length_spi_words [simp]: "length (spi_words m buf n) = n"
  by (simp add: spi_words_def)

interpretation spi_writer: fifo_filler "\<lambda>r. spi_write_loop r base buf" "base + SPI_SR" "base + SPI_DR0"
    "\<lambda>st. drop_bit SPI_SR_TFNF_POS st AND 1 = 1" "\<lambda>m c. ucast (m (buf + ucast c))" for base buf
  by unfold_locales (simp_all add: Let_def)

interpretation spi_dummy_writer: fifo_filler "\<lambda>r. spi_dummy_write_loop r base" "base + SPI_SR" "base + SPI_DR0"
    "\<lambda>st. drop_bit SPI_SR_TFNF_POS st AND 1 = 1" "\<lambda>m c. 0x55" for base
  by unfold_locales (simp_all add: Let_def)

interpretation spi_reader: fifo_drainer "\<lambda>r. spi_read_loop r base buf" "base + SPI_SR" "base + SPI_DR0"
    "\<lambda>st. drop_bit SPI_SR_RFNE_POS st AND 1 = 1" "\<lambda>m c v. m(buf + ucast c := ucast v)" for base buf
  by unfold_locales (simp_all add: Let_def spi_regs)

interpretation spi_dummy_reader: fifo_drainer "\<lambda>r. spi_dummy_read_loop r base" "base + SPI_SR" "base + SPI_DR0"
    "\<lambda>st. drop_bit SPI_SR_RFNE_POS st AND 1 = 1" "\<lambda>m c v. m" for base
  by unfold_locales (simp_all add: Let_def spi_regs)

lemma spi_write_fifo_sends:
  obtains k t where "k \<le> unat n"
    "run_state (spi_ll_write_fifo base buf n) s = (word_of_nat k, s\<lparr>trace := t\<rparr>)"
    "sent (spi_dr base) t = sent (spi_dr base) (trace s) @ take k (spi_words (mem s) buf (unat n))"
    "received (spi_dr base) t = received (spi_dr base) (trace s)"
proof -
  let ?item = "\<lambda>j. if buf = 0 then 0x55 else ucast (mem s (buf + ucast (word_of_nat j :: u32))) :: u32"
  have loops: "spi_ll_write_fifo base buf n =
      (if buf = 0 then spi_dummy_write_loop (unat n) base (word_of_nat 0) else spi_write_loop (unat n) base buf (word_of_nat 0))"
    by (simp add: spi_ll_write_fifo_def)
  obtain k t es where k: "k \<le> unat n"
    and run: "run_state (spi_ll_write_fifo base buf n) s = (word_of_nat k, s\<lparr>trace := t\<rparr>)"
    and snt: "sent (spi_dr base) t = sent (spi_dr base) (trace s) @ map ?item [0..<k]"
    and es: "t = es @ trace s"
      "list_all (\<lambda>e. \<exists>v. e = Rd32 (ucast (base + SPI_SR)) v \<or> e = Wr32 (spi_dr base) v) es"
  proof -
    note fills = spi_dummy_writer.fills [of "unat n" base 0 s] spi_writer.fills [of "unat n" base buf 0 s]
    have "\<exists>k t es. k \<le> unat n \<and> run_state (spi_ll_write_fifo base buf n) s = (word_of_nat k, s\<lparr>trace := t\<rparr>)
      \<and> sent (spi_dr base) t = sent (spi_dr base) (trace s) @ map ?item [0..<k]
      \<and> t = es @ trace s \<and> list_all (\<lambda>e. \<exists>v. e = Rd32 (ucast (base + SPI_SR)) v \<or> e = Wr32 (spi_dr base) v) es"
      using fills unfolding loops spi_dr_def by (cases "buf = 0") simp_all
    then show ?thesis using that by blast
  qed
  have "unat n < 2 ^ 32"
    using unsigned_less [of n] by simp
  then have "map ?item [0..<k] = take k (spi_words (mem s) buf (unat n))"
    unfolding spi_words_def using k by (intro map_upt_prefix) (simp_all add: ucast_u32_of_nat)
  moreover have "list_all (avoids (spi_dr base)) es"
    using es(2) by (rule list.pred_mono_strong) (auto simp: spi_dr_def spi_regs)
  then have "received (spi_dr base) t = received (spi_dr base) (trace s)"
    unfolding es(1) by (rule received_avoids)
  ultimately show ?thesis
    using that [OF k run] snt by simp
qed

lemma spi_read_fifo_stores:
  obtains vs t where "length vs \<le> unat n"
    "run_state (spi_ll_read_fifo base buf n) s = (word_of_nat (length vs),
       s\<lparr>trace := t, mem := (if buf = 0 then mem s else store_bytes (mem s) buf (map ucast vs))\<rparr>)"
    "received (spi_dr base) t = received (spi_dr base) (trace s) @ vs"
    "sent (spi_dr base) t = sent (spi_dr base) (trace s)"
proof (cases "buf = 0")
  case True
  then show ?thesis
    using spi_dummy_reader.drains [of "unat n" base 0 s] that
    unfolding spi_ll_read_fifo_def spi_dr_def taken_nothing by auto
next
  case False
  obtain vs t where vs: "length vs \<le> unat n"
    and "run_state (spi_read_loop (unat n) base buf 0) s =
       (word_of_nat (length vs), s\<lparr>trace := t, mem := taken (\<lambda>m c v. m(buf + ucast c := ucast v)) (mem s) 0 vs\<rparr>)"
    and "received (spi_dr base) t = received (spi_dr base) (trace s) @ vs"
      "sent (spi_dr base) t = sent (spi_dr base) (trace s)"
    using spi_reader.drains [of "unat n" base buf 0 s] unfolding spi_dr_def by auto
  moreover have "length vs < 2 ^ 32"
  proof -
    have "unat n < 2 ^ 32" using unsigned_less [of n] by simp
    with vs show ?thesis by simp
  qed
  ultimately show ?thesis
    using that False by (simp add: spi_ll_read_fifo_def taken_bytes)
qed

lemma spi_words_rest:
  "buf \<noteq> 0 \<Longrightarrow> buf + word_of_nat k \<noteq> 0 \<Longrightarrow> k \<le> n \<Longrightarrow>
   spi_words m (buf + word_of_nat k) (n - k) = drop k (spi_words m buf n)"
  by (auto simp: spi_words_def list_eq_iff_nth_eq add.assoc)


section \<open>Clock and mode\<close>

text \<open>
  The divisor is an even number the register takes. Where nothing wraps and nothing is cut off, it
  is the quotient of the frequencies, rounded up to an even number.
\<close>

lemma unat_clear_bit0: "unat (w AND NOT 1 :: u32) = 2 * (unat w div 2)"
proof -
  have "w AND NOT (mask k) = push_bit k (drop_bit k w)" for k
    by (rule bit_word_eqI) (auto simp: bit_simps)
  from this [of 1] have "w AND NOT 1 = push_bit 1 (drop_bit 1 w)"
    by (simp del: push_bit_Suc One_nat_def add: mask_eq_exp_minus_1)
  moreover have "unat (w div 2) = unat w div 2"
    by (simp add: unat_div)
  moreover have "unat w < 2 ^ 32"
    using unsigned_less [of w] by simp
  ultimately show ?thesis
    by (simp add: push_bit_eq_mult drop_bit_eq_div unat_mult_no_wrap mult.commute del: push_bit_Suc)
qed

lemma spi_divisor_range:
  "even (unat (spi_divisor clk f))" "2 \<le> unat (spi_divisor clk f)" "unat (spi_divisor clk f) \<le> 65534"
proof -
  show "even (unat (spi_divisor clk f))"
    unfolding spi_divisor_def Let_def unat_clear_bit0 by simp
  show "2 \<le> unat (spi_divisor clk f)" "unat (spi_divisor clk f) \<le> 65534"
    unfolding spi_divisor_def Let_def unat_clear_bit0 by (auto simp: word_less_nat_alt not_less)
qed

lemma spi_divisor_quotient:
  assumes "unat clk + unat f < 2 ^ 32" "0 < unat f"
    and "1 \<le> unat clk div unat f" "unat clk div unat f \<le> 65533"
  shows "unat (spi_divisor clk f) = (if even (unat clk div unat f) then unat clk div unat f else unat clk div unat f + 1)"
proof -
  have "unat ((clk + f) div f) = unat clk div unat f + 1"
    using assms(1,2) by (simp add: unat_div unat_add_lem [THEN iffD1] div_add_self2)
  then show ?thesis
    using assms(3,4) unfolding spi_divisor_def Let_def unat_clear_bit0
    by (auto simp: word_less_nat_alt elim: evenE oddE)
qed

text \<open>So the clock can be faster than asked for, unless the quotient is odd or exact.\<close>

theorem spi_clock_within_request:
  assumes "unat clk + unat f < 2 ^ 32" "0 < unat f"
    and "1 \<le> unat clk div unat f" "unat clk div unat f \<le> 65533"
  shows "unat clk \<le> unat (spi_divisor clk f) * unat f \<longleftrightarrow> odd (unat clk div unat f) \<or> unat f dvd unat clk"
proof (cases "even (unat clk div unat f)")
  case True
  have "unat clk \<le> unat clk div unat f * unat f \<longleftrightarrow> unat f dvd unat clk"
    using div_times_less_eq_dividend [of "unat clk" "unat f"] by (metis dvd_div_mult_self dvd_triv_right le_antisym le_refl)
  then show ?thesis
    using True spi_divisor_quotient [OF assms] by simp
next
  case False
  have "unat clk < (unat clk div unat f + 1) * unat f"
    using assms(2) by (simp add: dividend_less_div_times add.commute)
  then show ?thesis
    using False spi_divisor_quotient [OF assms] by simp
qed

theorem spi_clock_within_request_witness:
  "\<not> 200000000 \<le> unat (spi_divisor 200000000 45000000) * (45000000 :: nat)"
  using spi_clock_within_request [of 200000000 45000000] by simp


text \<open>The mode that was set is the mode that is reported.\<close>

lemma spi_frame_mode: "\<not> bit (spi_frame_bits v) 6" "\<not> bit (spi_frame_bits v) 7"
  unfolding spi_frame_bits_def Let_def bit_and_iff bit_or_iff bit_not_iff
  by (simp_all add: spi_fields bit_simps)

lemma and_3_bits: "(w :: u32) AND 3 = (if bit w 0 then 1 else 0) OR (if bit w 1 then 2 else 0)"
proof -
  have "w AND mask 2 = horner_sum of_bool 2 (map (bit w) [0..<2])"
    by (simp only: take_bit_eq_mask [symmetric] horner_sum_bit_eq_take_bit)
  moreover have "[0..<2] = [0, 1 :: nat]" by (simp add: upt_rec)
  ultimately show ?thesis
    by (auto simp: mask_eq_exp_minus_1)
qed

lemma spi_mode_decode: "\<not> bit v 6 \<Longrightarrow> \<not> bit v 7 \<Longrightarrow> spi_mode_of (spi_mode_bits mode v) = mode"
  by (cases mode) (simp_all add: spi_mode_of_def spi_mode_bits_def spi_fields and_3_bits bit_simps)

theorem spi_mode_roundtrip:
  assumes "reg_holds (env s) (ucast (base + SPI_CTRLR0))"
  shows "snd (result (spi_ll_get_config base) (final (spi_ll_set_config base freq mode) s)) = mode"
proof -
  let ?a = "ucast (base + SPI_CTRLR0) :: u64" and ?s = "final (spi_ll_set_config base freq mode) s"
  have "\<exists>w. last_wr32 (trace ?s) ?a = Some (spi_mode_bits mode (spi_frame_bits w))" and e: "env ?s = env s"
    by (simp_all add: spi_ll_set_config_def Let_def split_beta spi_regs) blast+
  then obtain w where "last_wr32 (trace ?s) ?a = Some (spi_mode_bits mode (spi_frame_bits w))" by blast
  moreover have "last_wr32 (trace (final (spi_ll_get_freq base) ?s)) ?a = last_wr32 (trace ?s) ?a"
      and e': "env (final (spi_ll_get_freq base) ?s) = env ?s"
    by (auto simp: spi_ll_get_freq_def split_beta)
  ultimately have "hw_rd32 (env s) (trace (final (spi_ll_get_freq base) ?s)) ?a = spi_mode_bits mode (spi_frame_bits w)"
    by (intro reg_holdsD [OF assms]) simp
  then show ?thesis
    using e by (simp add: spi_ll_get_config_def split_beta spi_mode_decode spi_frame_mode e')
qed

theorem spi_mode_roundtrip_witness:
  "snd (result (spi_ll_get_config 0x10DA4000) (final (spi_ll_set_config 0x10DA4000 1000000 SPI_MODE2)
     \<lparr>env = ram_env, trace = [], mem = (\<lambda>_. 0)\<rparr>)) = SPI_MODE2"
  by (rule spi_mode_roundtrip) (simp add: reg_holds_ram)

end
