(* ===== verification/Spi.thy ===== *)
theory Spi
  imports Spi_LL
begin

unbundle bit_operations_syntax

text \<open>
  The SPI driver, \<^verbatim>\<open>drivers/spi/socfpga_spi.c\<close>: two bus masters and two slaves, with transfers by
  interrupt or by DMA. A handle is a pointer into one of the two arrays of descriptors: an index
  and whether it is the slaves' array. The addresses of the static DMA buffers are fields of the
  state; the lists of blocks are built before each transfer.
\<close>

section \<open>State\<close>

definition SPI_MASTER_NUM_INSTANCES :: u32 where "SPI_MASTER_NUM_INSTANCES = 2"
definition SPI_SLAVE_NUM_INSTANCES :: u32 where "SPI_SLAVE_NUM_INSTANCES = 2"
definition SPI_MAX_TRANSFER_SIZE :: u32 where "SPI_MAX_TRANSFER_SIZE = 2048"
definition SPI_FIFO_DEPTH :: u32 where "SPI_FIFO_DEPTH = 256"
definition SPI_RXFTLR_DEFAULT :: u32 where "SPI_RXFTLR_DEFAULT = SPI_FIFO_DEPTH * 3 div 8"
definition SPI_DMA_XFER_BLK_SIZE :: u32 where "SPI_DMA_XFER_BLK_SIZE = 512"
definition GIC_INTERRUPT_PRIORITY_SPI :: u8 where "GIC_INTERRUPT_PRIORITY_SPI = 14"
definition SPI0IRQ :: u32 where "SPI0IRQ = 131"
definition SPI1IRQ :: u32 where "SPI1IRQ = 132"
definition SPI2IRQ :: u32 where "SPI2IRQ = 133"
definition SPI3IRQ :: u32 where "SPI3IRQ = 134"
definition SPI_SUCCESS :: u64 where "SPI_SUCCESS = 0"
definition SPI_RX_OVERFLOW :: u64 where "SPI_RX_OVERFLOW = 4"

definition SPI_GET_INT_ID_MASTER :: "u32 \<Rightarrow> u32" where
  "SPI_GET_INT_ID_MASTER i = (if i = 1 then SPI1IRQ else SPI0IRQ)"

definition SPI_GET_INT_ID_SLAVE :: "u32 \<Rightarrow> u32" where
  "SPI_GET_INT_ID_SLAVE i = (if i = 1 then SPI3IRQ else SPI2IRQ)"

definition SPI_DMA_GET_BURST_LEN :: "u32 \<Rightarrow> u32" where
  "SPI_DMA_GET_BURST_LEN nbytes =
     (if nbytes > 8 then DMA_BURST_LEN_8 else if nbytes > 4 then DMA_BURST_LEN_4 else DMA_BURST_LEN_1)"

definition SPI_DMA_GET_BURST_ITEMS :: "u32 \<Rightarrow> u32" where
  "SPI_DMA_GET_BURST_ITEMS nbytes = (if nbytes > 8 then 8 else if nbytes > 4 then 4 else 1)"

type_synonym spi_slot = "nat \<times> bool"

record spi_dma_cb_ctx_t =
  ctx_hspi :: "spi_slot option"
  ctx_is_tx :: bool

record spi_dma_config_t =
  spi_tx_instance :: u32
  spi_tx_channel :: u32
  spi_tx_prio :: u8
  spi_rx_instance :: u32
  spi_rx_channel :: u32
  spi_rx_prio :: u8

record spi_cfg_t =
  cfg_clk :: u32
  cfg_mode :: spi_mode_t
  cfg_role :: spi_role_t

record spi_handle =
  spi_is_open :: bool
  is_rx_busy :: bool
  is_tx_busy :: bool
  is_rx_async :: bool
  is_tx_async :: bool
  is_rx_on :: bool
  is_tx_on :: bool
  spi_inst :: u32
  spi_role :: spi_role_t
  spi_freq :: u32
  spi_base :: u32
  slave_id :: u32
  spi_tx_size :: u32
  spi_rx_size :: u32
  spi_tx_left :: u32
  spi_rx_left :: u32
  rx_threshold :: u8
  spi_tx_buf :: u64
  spi_rx_buf :: u64
  spi_callback_fn :: fptr
  spi_user_context :: vptr
  spi_mutex :: u64
  spi_sem :: u64
  dma_enabled :: bool
  h_dma_tx :: dma_handle_t
  h_dma_rx :: dma_handle_t
  dma_tx_done :: bool
  dma_rx_done :: bool
  dma_cb_tx_ctx :: spi_dma_cb_ctx_t
  dma_cb_rx_ctx :: spi_dma_cb_ctx_t

definition spi_zero :: spi_handle where
  "spi_zero = \<lparr>spi_is_open = False, is_rx_busy = False, is_tx_busy = False, is_rx_async = False, is_tx_async = False,
     is_rx_on = False, is_tx_on = False, spi_inst = 0, spi_role = SPI_ROLE_MASTER, spi_freq = 0, spi_base = 0,
     slave_id = 0, spi_tx_size = 0, spi_rx_size = 0, spi_tx_left = 0, spi_rx_left = 0, rx_threshold = 0,
     spi_tx_buf = 0, spi_rx_buf = 0, spi_callback_fn = F_NULL, spi_user_context = V_NULL, spi_mutex = 0, spi_sem = 0,
     dma_enabled = False, h_dma_tx = None, h_dma_rx = None, dma_tx_done = False, dma_rx_done = False,
     dma_cb_tx_ctx = \<lparr>ctx_hspi = None, ctx_is_tx = False\<rparr>, dma_cb_rx_ctx = \<lparr>ctx_hspi = None, ctx_is_tx = False\<rparr>\<rparr>"

record spi_state = i2c_state +
  spi_desc :: "spi_slot \<Rightarrow> spi_handle"
  spi_tx_dma_dummy_at :: "spi_slot \<Rightarrow> u64"
  spi_rx_dma_discard_at :: "spi_slot \<Rightarrow> u64"

type_synonym spi_handle_t = "spi_slot option"

definition upd_spi :: "spi_slot \<Rightarrow> (spi_handle \<Rightarrow> spi_handle) \<Rightarrow> 'x spi_state_scheme \<Rightarrow> 'x spi_state_scheme" where
  "upd_spi h f s = s\<lparr>spi_desc := (spi_desc s)(h := f (spi_desc s h))\<rparr>"

abbreviation get_spi :: "spi_slot \<Rightarrow> ('x spi_state_scheme, spi_handle) state" where
  "get_spi h \<equiv> gets (\<lambda>s. spi_desc s h)"

text \<open>The pointer as the interrupt handler and the DMA callback are given it.\<close>

definition spi_ptr :: "spi_slot \<Rightarrow> vptr" where
  "spi_ptr h = V_spi (fst h) (snd h)"

definition spi_ctx_ptr :: "spi_slot \<Rightarrow> bool \<Rightarrow> vptr" where
  "spi_ctx_ptr h is_tx = V_spi_dma (fst h) (snd h) is_tx"

definition spi_is_handle_valid :: "spi_handle_t \<Rightarrow> bool" where
  "spi_is_handle_valid handle =
     (case handle of None \<Rightarrow> False
      | Some (i, in_slave) \<Rightarrow> i < unat (if in_slave then SPI_SLAVE_NUM_INSTANCES else SPI_MASTER_NUM_INSTANCES))"

section \<open>DMA channels\<close>

definition spi_get_dma_tx_peri_id :: "u32 \<Rightarrow> spi_role_t \<Rightarrow> u32" where
  "spi_get_dma_tx_peri_id i r =
     (if r = SPI_ROLE_SLAVE then (if i = 1 then 22 else 18) else (if i = 1 then 20 else 16))"

definition spi_get_dma_rx_peri_id :: "u32 \<Rightarrow> spi_role_t \<Rightarrow> u32" where
  "spi_get_dma_rx_peri_id i r =
     (if r = SPI_ROLE_SLAVE then (if i = 1 then 23 else 19) else (if i = 1 then 21 else 17))"

text \<open>The lists of blocks: \<open>i\<close> is the next block, \<open>n\<close> the number still to build.\<close>

definition spi_blk_bytes :: "u32 \<Rightarrow> nat \<Rightarrow> u32" where
  "spi_blk_bytes nbytes i =
     (let b = nbytes - word_of_nat i * SPI_DMA_XFER_BLK_SIZE
      in if b > SPI_DMA_XFER_BLK_SIZE then SPI_DMA_XFER_BLK_SIZE else b)"

fun spi_rx_blocks :: "u32 \<Rightarrow> u64 \<Rightarrow> u32 \<Rightarrow> nat \<Rightarrow> nat \<Rightarrow> dma_xfer_cfg_t list" where
  "spi_rx_blocks base rx_dst nbytes i 0 = []"
| "spi_rx_blocks base rx_dst nbytes i (Suc n) =
     \<lparr>src = ucast (base + SPI_DR0), dst = rx_dst + ucast (word_of_nat i * SPI_DMA_XFER_BLK_SIZE),
      blk_size = spi_blk_bytes nbytes i, src_burst_len = SPI_DMA_GET_BURST_LEN nbytes,
      dst_burst_len = SPI_DMA_GET_BURST_LEN nbytes\<rparr>
     # spi_rx_blocks base rx_dst nbytes (i + 1) n"

fun spi_tx_blocks :: "u32 \<Rightarrow> u64 \<Rightarrow> u32 \<Rightarrow> nat \<Rightarrow> nat \<Rightarrow> dma_xfer_cfg_t list" where
  "spi_tx_blocks base tx_src nbytes i 0 = []"
| "spi_tx_blocks base tx_src nbytes i (Suc n) =
     \<lparr>src = tx_src + 4 * ucast (word_of_nat i * SPI_DMA_XFER_BLK_SIZE), dst = ucast (base + SPI_DR0),
      blk_size = 4 * spi_blk_bytes nbytes i, src_burst_len = SPI_DMA_GET_BURST_LEN nbytes,
      dst_burst_len = SPI_DMA_GET_BURST_LEN nbytes\<rparr>
     # spi_tx_blocks base tx_src nbytes (i + 1) n"

definition spi_blk_cnt :: "u32 \<Rightarrow> u32" where
  "spi_blk_cnt nbytes = (nbytes + SPI_DMA_XFER_BLK_SIZE - 1) div SPI_DMA_XFER_BLK_SIZE"

text \<open>The receive list, the transmit list and the number of blocks.\<close>

definition spi_setup_dma_xfer :: "spi_handle \<Rightarrow> u64 \<Rightarrow> u64 \<Rightarrow> u32 \<Rightarrow> dma_xfer_cfg_t list \<times> dma_xfer_cfg_t list \<times> u32" where
  "spi_setup_dma_xfer c tx_src rx_dst nbytes =
     (let n = spi_blk_cnt nbytes
      in (spi_rx_blocks (spi_base c) rx_dst nbytes 0 (unat n), spi_tx_blocks (spi_base c) tx_src nbytes 0 (unat n), n))"

text \<open>The argument is a pointer to a context inside a descriptor, or null.\<close>

definition spi_dma_callback :: "vptr \<Rightarrow> ('x spi_state_scheme, unit) state" where
  "spi_dma_callback p_usr_cntxt =
     (case p_usr_cntxt of
        V_NULL \<Rightarrow> ret ()
      | V_spi_dma i r tx \<Rightarrow> do {
          owner \<leftarrow> get_spi (i, r);
          let ctx = (if tx then dma_cb_tx_ctx owner else dma_cb_rx_ctx owner);
          case ctx_hspi ctx of None \<Rightarrow> ret ()
          | Some h \<Rightarrow> do {
              modify (upd_spi h (\<lambda>c. if ctx_is_tx ctx then c\<lparr>dma_tx_done := True\<rparr> else c\<lparr>dma_rx_done := True\<rparr>));
              c \<leftarrow> get_spi h;
              whenM (dma_rx_done c \<and> dma_tx_done c) (do {
                modify (upd_spi h (\<lambda>c. c\<lparr>spi_tx_left := 0, spi_rx_left := 0\<rparr>));
                (if is_rx_async c \<or> is_tx_async c then do {
                   whenM (spi_role c = SPI_ROLE_MASTER) (spi_ll_select_chip (spi_inst c) 0);
                   modify (upd_spi h (\<lambda>c. c\<lparr>is_tx_async := False, is_rx_async := False, is_tx_busy := False,
                     is_rx_busy := False\<rparr>));
                   whenM (spi_callback_fn c \<noteq> F_NULL) (emit (Call (spi_callback_fn c) (spi_user_context c) [SPI_SUCCESS]))
                 } else do { _ \<leftarrow> osal_semaphore_post (spi_sem c); ret () });
                modify (upd_spi h (\<lambda>c. c\<lparr>dma_tx_done := False, dma_rx_done := False\<rparr>))
              })
            }
        }
      | _ \<Rightarrow> ub ''spi dma context'')"

definition spi_dma_close_channels :: "spi_slot \<Rightarrow> ('x spi_state_scheme, unit) state" where
  "spi_dma_close_channels h = do {
     c \<leftarrow> get_spi h;
     whenM (h_dma_tx c \<noteq> None) (do {
       _ \<leftarrow> dma_close (h_dma_tx c);
       modify (upd_spi h (\<lambda>c. c\<lparr>h_dma_tx := None\<rparr>))
     });
     whenM (h_dma_rx c \<noteq> None) (do {
       _ \<leftarrow> dma_close (h_dma_rx c);
       modify (upd_spi h (\<lambda>c. c\<lparr>h_dma_rx := None\<rparr>))
     })
   }"

definition spi_dma_init :: "spi_slot \<Rightarrow> spi_dma_config_t \<Rightarrow> ('x spi_state_scheme, int) state" where
  "spi_dma_init h cfg = do {
     c \<leftarrow> get_spi h;
     let tx_peri_id = spi_get_dma_tx_peri_id (spi_inst c) (spi_role c);
     let rx_peri_id = spi_get_dma_rx_peri_id (spi_inst c) (spi_role c);
     tx \<leftarrow> dma_open (spi_tx_instance cfg) (spi_tx_channel cfg);
     modify (upd_spi h (\<lambda>c. c\<lparr>h_dma_tx := tx\<rparr>));
     rx \<leftarrow> dma_open (spi_rx_instance cfg) (spi_rx_channel cfg);
     modify (upd_spi h (\<lambda>c. c\<lparr>h_dma_rx := rx\<rparr>));
     if tx = None \<or> rx = None then do { spi_dma_close_channels h; ret (- EIO) }
     else do {
       modify (upd_spi h (\<lambda>c. c\<lparr>dma_cb_tx_ctx := \<lparr>ctx_hspi = Some h, ctx_is_tx = True\<rparr>,
         dma_cb_rx_ctx := \<lparr>ctx_hspi = Some h, ctx_is_tx = False\<rparr>\<rparr>));
       e \<leftarrow> dma_config tx (Some \<lparr>cfg_instance = ucast (spi_tx_instance cfg), ch_dir = DMA_MEM_TO_PERI_DMAC,
         ch_prio = spi_tx_prio cfg, peri_id = tx_peri_id, cfg_callback = F_spi_dma_callback,
         cfg_usr_cntxt = spi_ctx_ptr h True\<rparr>);
       if e \<noteq> 0 then do { spi_dma_close_channels h; ret (- EIO) }
       else do {
         e \<leftarrow> dma_config rx (Some \<lparr>cfg_instance = ucast (spi_rx_instance cfg), ch_dir = DMA_PERI_TO_MEM_DMAC,
           ch_prio = spi_rx_prio cfg, peri_id = rx_peri_id, cfg_callback = F_spi_dma_callback,
           cfg_usr_cntxt = spi_ctx_ptr h False\<rparr>);
         if e \<noteq> 0 then do { spi_dma_close_channels h; ret (- EIO) }
         else do {
           modify (upd_spi h (\<lambda>c. c\<lparr>dma_tx_done := False, dma_rx_done := False, dma_enabled := True\<rparr>));
           ret 0
         }
       }
     }
   }"

definition spi_dma_deinit :: "spi_slot \<Rightarrow> ('x spi_state_scheme, int) state" where
  "spi_dma_deinit h = do {
     c \<leftarrow> get_spi h;
     spi_ll_disable_dma (spi_base c);
     spi_ll_set_dma_thresholds (spi_base c) 0 0;
     spi_dma_close_channels h;
     modify (upd_spi h (\<lambda>c. c\<lparr>dma_enabled := False, dma_tx_done := False, dma_rx_done := False\<rparr>));
     ret 0
   }"

section \<open>Opening\<close>

definition spi_open :: "u32 \<Rightarrow> ('x spi_state_scheme, spi_handle_t) state" where
  "spi_open i =
     (if i \<ge> SPI_MASTER_NUM_INSTANCES then ret None
      else do {
        let h = (unat i, False);
        c \<leftarrow> get_spi h;
        if spi_is_open c then ret None
        else do {
          let base = spi_ll_get_base_addr i SPI_ROLE_MASTER;
          modify (upd_spi h (\<lambda>_. spi_zero\<lparr>spi_inst := i, spi_role := SPI_ROLE_MASTER, spi_base := base\<rparr>));
          m \<leftarrow> osal_mutex_create;
          modify (upd_spi h (\<lambda>c. c\<lparr>spi_mutex := m\<rparr>));
          w \<leftarrow> osal_semaphore_create;
          modify (upd_spi h (\<lambda>c. c\<lparr>spi_sem := w\<rparr>));
          if m = 0 \<or> w = 0 then ret None
          else do {
            let irq = SPI_GET_INT_ID_MASTER i;
            err \<leftarrow> interrupt_register_isr irq F_spi_isr (spi_ptr h);
            if err \<noteq> 0 then do {
              _ \<leftarrow> osal_mutex_delete m;
              _ \<leftarrow> osal_semaphore_delete w;
              ret None
            } else do {
              err \<leftarrow> interrupt_enable irq GIC_INTERRUPT_PRIORITY_SPI;
              if err \<noteq> 0 then do {
                _ \<leftarrow> osal_mutex_delete m;
                _ \<leftarrow> osal_semaphore_delete w;
                ret None
              } else do {
                spi_ll_init i SPI_ROLE_MASTER;
                spi_ll_disable_interrupt base SPI_ALL_INTERRUPTS;
                modify (upd_spi h (\<lambda>c. c\<lparr>spi_is_open := True\<rparr>));
                ret (Some h)
              }
            }
          }
        }
      })"

definition spi_slave_open :: "u32 \<Rightarrow> ('x spi_state_scheme, spi_handle_t) state" where
  "spi_slave_open i =
     (if i \<ge> SPI_SLAVE_NUM_INSTANCES then ret None
      else do {
        let h = (unat i, True);
        c \<leftarrow> get_spi h;
        if spi_is_open c then ret None
        else do {
          let base = spi_ll_get_base_addr i SPI_ROLE_SLAVE;
          modify (upd_spi h (\<lambda>_. spi_zero\<lparr>spi_inst := i, spi_role := SPI_ROLE_SLAVE, spi_base := base\<rparr>));
          m \<leftarrow> osal_mutex_create;
          modify (upd_spi h (\<lambda>c. c\<lparr>spi_mutex := m\<rparr>));
          w \<leftarrow> osal_semaphore_create;
          modify (upd_spi h (\<lambda>c. c\<lparr>spi_sem := w\<rparr>));
          if m = 0 \<or> w = 0 then ret None
          else do {
            let irq = SPI_GET_INT_ID_SLAVE i;
            err \<leftarrow> interrupt_register_isr irq F_spi_isr (spi_ptr h);
            if err \<noteq> 0 then do {
              _ \<leftarrow> osal_mutex_delete m;
              _ \<leftarrow> osal_semaphore_delete w;
              ret None
            } else do {
              err \<leftarrow> interrupt_enable irq GIC_INTERRUPT_PRIORITY_SPI;
              if err \<noteq> 0 then do {
                _ \<leftarrow> osal_mutex_delete m;
                _ \<leftarrow> osal_semaphore_delete w;
                ret None
              } else do {
                spi_ll_init i SPI_ROLE_SLAVE;
                spi_ll_disable_interrupt base SPI_ALL_INTERRUPTS;
                spi_ll_enable_interrupt base SPI_RX_OVERFLOW_INT;
                modify (upd_spi h (\<lambda>c. c\<lparr>spi_is_open := True\<rparr>));
                ret (Some h)
              }
            }
          }
        }
      })"

section \<open>Control\<close>

definition spi_set_callback :: "spi_handle_t \<Rightarrow> fptr \<Rightarrow> vptr \<Rightarrow> ('x spi_state_scheme, int) state" where
  "spi_set_callback hspi cb pcntxt =
     (if \<not> spi_is_handle_valid hspi then ret (- EINVAL)
      else do {
        let h = the hspi;
        c \<leftarrow> get_spi h;
        if \<not> spi_is_open c then ret (- EINVAL)
        else if is_rx_busy c \<or> is_tx_busy c then ret (- EBUSY)
        else do {
          modify (upd_spi h (\<lambda>c. c\<lparr>spi_callback_fn := cb, spi_user_context := pcntxt\<rparr>));
          ret 0
        }
      })"

text \<open>
  A request with what its parameter points to; for the requests that return something, whether
  the parameter is not null.
\<close>

datatype spi_ioctl_t =
  SPI_SET_CONFIG "spi_cfg_t option" | SPI_GET_CONFIG bool | SPI_GET_TX_NBYTES bool | SPI_GET_RX_NBYTES bool
| SPI_ENABLE_DMA "spi_dma_config_t option" | SPI_DISABLE_DMA | SPI_SET_RX_SAMPLING_DELAY "u32 option" | SPI_IOCTL_INVALID

datatype spi_out = SO_none | SO_config spi_cfg_t | SO_nbytes u32

definition spi_ioctl :: "spi_handle_t \<Rightarrow> spi_ioctl_t \<Rightarrow> ('x spi_state_scheme, int \<times> spi_out) state" where
  "spi_ioctl hspi cmd =
     (if \<not> spi_is_handle_valid hspi then ret (- EINVAL, SO_none)
      else do {
        let h = the hspi;
        c \<leftarrow> get_spi h;
        let base = spi_base c;
        if \<not> spi_is_open c then ret (- EINVAL, SO_none)
        else case cmd of
          SPI_SET_CONFIG p \<Rightarrow>
            if is_tx_busy c \<or> is_rx_busy c then ret (- EBUSY, SO_none)
            else (case p of None \<Rightarrow> ret (- EINVAL, SO_none)
                  | Some cfg \<Rightarrow> do {
                      spi_ll_disable base;
                      e \<leftarrow> spi_ll_set_config base (cfg_clk cfg) (cfg_mode cfg);
                      if e \<noteq> 0 then ret (e, SO_none)
                      else do {
                        spi_ll_set_transfermode base SPI_TX_RX_MOD;
                        spi_ll_enable base;
                        ret (e, SO_none)
                      }
                    })
        | SPI_GET_CONFIG p \<Rightarrow>
            if \<not> p then ret (- EINVAL, SO_none)
            else do {
              (clk, mode) \<leftarrow> spi_ll_get_config base;
              ret (0, SO_config \<lparr>cfg_clk = clk, cfg_mode = mode, cfg_role = spi_role c\<rparr>)
            }
        | SPI_GET_TX_NBYTES p \<Rightarrow>
            if \<not> p then ret (- EINVAL, SO_none) else ret (0, SO_nbytes (spi_tx_size c - spi_tx_left c))
        | SPI_GET_RX_NBYTES p \<Rightarrow>
            if \<not> p then ret (- EINVAL, SO_none) else ret (0, SO_nbytes (spi_rx_size c - spi_rx_left c))
        | SPI_ENABLE_DMA p \<Rightarrow>
            if is_tx_busy c \<or> is_rx_busy c then ret (- EBUSY, SO_none)
            else if dma_enabled c then ret (- EBUSY, SO_none)
            else (case p of None \<Rightarrow> ret (- EINVAL, SO_none)
                  | Some cfg \<Rightarrow> do {
                      e \<leftarrow> spi_dma_init h cfg;
                      if e \<noteq> 0 then ret (- EIO, SO_none)
                      else do { spi_ll_enable_dma base True True; ret (0, SO_none) }
                    })
        | SPI_DISABLE_DMA \<Rightarrow>
            if is_tx_busy c \<or> is_rx_busy c then ret (- EBUSY, SO_none)
            else if \<not> dma_enabled c then ret (- EINVAL, SO_none)
            else do {
              e \<leftarrow> spi_dma_deinit h;
              ret (if e \<noteq> 0 then - EIO else 0, SO_none)
            }
        | SPI_SET_RX_SAMPLING_DELAY p \<Rightarrow>
            if is_tx_busy c \<or> is_rx_busy c then ret (- EBUSY, SO_none)
            else if spi_role c \<noteq> SPI_ROLE_MASTER then ret (- ENOTSUP, SO_none)
            else (case p of None \<Rightarrow> ret (- EINVAL, SO_none)
                  | Some delay \<Rightarrow> do {
                      spi_ll_disable base;
                      e \<leftarrow> spi_ll_set_rx_sampling_delay base delay;
                      spi_ll_enable base;
                      ret (e, SO_none)
                    })
        | SPI_IOCTL_INVALID \<Rightarrow> ret (- EINVAL, SO_none)
      })"

definition spi_select_slave :: "spi_handle_t \<Rightarrow> u32 \<Rightarrow> ('x spi_state_scheme, int) state" where
  "spi_select_slave hspi ss =
     (if \<not> spi_is_handle_valid hspi then ret (- EINVAL)
      else do {
        let h = the hspi;
        c \<leftarrow> get_spi h;
        if \<not> spi_is_open c then ret (- EINVAL)
        else if spi_role c = SPI_ROLE_SLAVE then ret (- ENOTSUP)
        else if ss < 1 \<or> ss > 4 then ret (- EINVAL)
        else do { modify (upd_spi h (\<lambda>c. c\<lparr>slave_id := ss\<rparr>)); ret 0 }
      })"

section \<open>Starting a transfer\<close>

definition spi_prefill :: "spi_slot \<Rightarrow> ('x spi_state_scheme, unit) state" where
  "spi_prefill h = do {
     c \<leftarrow> get_spi h;
     let prefill_size = (if spi_tx_left c \<le> SPI_FIFO_DEPTH then spi_tx_left c else SPI_FIFO_DEPTH);
     prefill_written \<leftarrow> spi_ll_write_fifo (spi_base c) (spi_tx_buf c) prefill_size;
     modify (upd_spi h (\<lambda>c. c\<lparr>spi_tx_left := spi_tx_left c - prefill_written,
       spi_tx_buf := spi_tx_buf c + ucast prefill_written\<rparr>))
   }"

text \<open>With neither direction on, the mode is an uninitialised variable.\<close>

definition spi_xfer :: "spi_slot \<Rightarrow> u32 \<Rightarrow> ('x spi_state_scheme, unit) state" where
  "spi_xfer h nbytes = do {
     modify (upd_spi h (\<lambda>c. c\<lparr>spi_tx_left := (if is_tx_on c then nbytes else 0),
       spi_rx_left := (if is_rx_on c then nbytes else 0)\<rparr>));
     c \<leftarrow> get_spi h;
     let base = spi_base c;
     mode \<leftarrow> (if is_tx_on c \<and> is_rx_on c then ret SPI_TX_RX_MOD
              else if is_tx_on c \<and> \<not> is_rx_on c then ret SPI_TX_MOD
              else if \<not> is_tx_on c \<and> is_rx_on c then ret SPI_RX_MOD
              else do { ub ''uninitialised mode''; ret 0 });
     spi_ll_set_transfermode base mode;
     whenM (spi_rx_left c > 0) (do {
       let rx_thr = (if nbytes \<le> SPI_RXFTLR_DEFAULT then nbytes - 1 else SPI_RXFTLR_DEFAULT);
       let rx_thr = (if rx_thr > SPI_FIFO_DEPTH - 1 then SPI_FIFO_DEPTH - 1 else rx_thr);
       modify (upd_spi h (\<lambda>c. c\<lparr>rx_threshold := ucast rx_thr\<rparr>));
       spi_ll_set_rx_threshold base (ucast rx_thr);
       spi_ll_enable_interrupt base SPI_RX_FULL_INT
     });
     whenM (spi_role c = SPI_ROLE_MASTER) (spi_ll_select_chip (spi_inst c) (slave_id c));
     whenM (spi_role c = SPI_ROLE_SLAVE) (spi_ll_set_slave_output base (is_tx_on c));
     c \<leftarrow> get_spi h;
     whenM (spi_tx_left c > 0) (do {
       whenM (spi_role c = SPI_ROLE_SLAVE) (spi_prefill h);
       spi_ll_enable_interrupt base SPI_TX_EMPTY_INT
     })
   }"

text \<open>Stopping after a channel could not be set up, and after one could not be started.\<close>

definition spi_dma_off :: "u32 \<Rightarrow> ('x machine_scheme, int) state" where
  "spi_dma_off base = do {
     spi_ll_disable_dma base;
     spi_ll_set_dma_thresholds base 0 0;
     ret (- EIO)
   }"

definition spi_dma_start_failed :: "spi_slot \<Rightarrow> ('x spi_state_scheme, int) state" where
  "spi_dma_start_failed h = do {
     c \<leftarrow> get_spi h;
     whenM (spi_role c = SPI_ROLE_MASTER) (spi_ll_select_chip (spi_inst c) 0);
     spi_dma_close_channels h;
     spi_dma_off (spi_base c)
   }"

definition spi_dma_transfer :: "spi_slot \<Rightarrow> u64 \<Rightarrow> u64 \<Rightarrow> u32 \<Rightarrow> ('x spi_state_scheme, int) state" where
  "spi_dma_transfer h txbuf rxbuf nbytes = do {
     c \<leftarrow> get_spi h;
     dummy \<leftarrow> gets (\<lambda>s. spi_tx_dma_dummy_at s h);
     discard \<leftarrow> gets (\<lambda>s. spi_rx_dma_discard_at s h);
     let base = spi_base c;
     let slave = (spi_role c = SPI_ROLE_SLAVE);
     let tx_src = (if txbuf = 0 then dummy else txbuf);
     let rx_dst = (if rxbuf \<noteq> 0 then rxbuf else discard);
     spi_ll_disable_interrupt base SPI_ALL_INTERRUPTS;
     whenM slave (spi_ll_enable_interrupt base SPI_RX_OVERFLOW_INT);
     (if slave then do {
        spi_ll_set_transfermode base
          (if txbuf \<noteq> 0 \<and> rxbuf \<noteq> 0 then SPI_TX_RX_MOD else if txbuf \<noteq> 0 then SPI_TX_MOD else SPI_RX_MOD);
        spi_ll_set_slave_output base (txbuf \<noteq> 0)
      } else spi_ll_set_transfermode base SPI_TX_RX_MOD);
     whenM (txbuf \<noteq> 0) (emit (Cache_clean tx_src (4 * ucast nbytes)));
     modify (upd_spi h (\<lambda>c. c\<lparr>spi_tx_left := (if txbuf \<noteq> 0 then nbytes else 0),
       spi_rx_left := (if rxbuf \<noteq> 0 then nbytes else 0)\<rparr>));
     spi_ll_set_dma_thresholds base (ucast (SPI_FIFO_DEPTH - SPI_DMA_GET_BURST_ITEMS nbytes))
       (ucast (SPI_DMA_GET_BURST_ITEMS nbytes - 1));
     modify (upd_spi h (\<lambda>c. c\<lparr>dma_tx_done := False, dma_rx_done := False\<rparr>));
     (if slave \<and> txbuf = 0 then do {
        WR_REG32 (base + SPI_DR0) 0;
        modify (upd_spi h (\<lambda>c. c\<lparr>dma_tx_done := True\<rparr>))
      } else whenM (slave \<and> rxbuf = 0) (modify (upd_spi h (\<lambda>c. c\<lparr>dma_rx_done := True\<rparr>))));
     let start_tx_dma = (\<not> (slave \<and> txbuf = 0));
     let start_rx_dma = (\<not> (slave \<and> txbuf \<noteq> 0 \<and> rxbuf = 0));
     let (rx_list, tx_list, blk_cnt) = spi_setup_dma_xfer c tx_src rx_dst nbytes;
     whenM (rxbuf \<noteq> 0) (emit (Cache_invalidate rx_dst (ucast nbytes)));
     e \<leftarrow> (if start_rx_dma then dma_setup_transfer (h_dma_rx c) rx_list blk_cnt DMA_XFER_WIDTH1 DMA_XFER_WIDTH1
           else ret 0);
     if e \<noteq> 0 then spi_dma_off base
     else do {
       e \<leftarrow> (if start_tx_dma then dma_setup_transfer (h_dma_tx c) tx_list blk_cnt DMA_XFER_WIDTH4 DMA_XFER_WIDTH4
             else ret 0);
       if e \<noteq> 0 then spi_dma_off base
       else do {
         whenM (\<not> slave) (spi_ll_select_chip (spi_inst c) (slave_id c));
         e \<leftarrow> (if start_rx_dma then dma_start_transfer (h_dma_rx c) else ret 0);
         if e \<noteq> 0 then spi_dma_start_failed h
         else do {
           e \<leftarrow> (if start_tx_dma then dma_start_transfer (h_dma_tx c) else ret 0);
           if e \<noteq> 0 then spi_dma_start_failed h
           else ret 0
         }
       }
     }
   }"

section \<open>Transfers\<close>

text \<open>The checks before a transfer.\<close>

definition spi_check :: "spi_handle_t \<Rightarrow> u64 \<Rightarrow> u64 \<Rightarrow> u32 \<Rightarrow> ('x spi_state_scheme, int) state" where
  "spi_check hspi txbuf rxbuf nbytes =
     (if \<not> spi_is_handle_valid hspi then ret (- EINVAL)
      else do {
        c \<leftarrow> get_spi (the hspi);
        ret (if nbytes = 0 \<or> (spi_role c = SPI_ROLE_MASTER \<and> txbuf = 0) \<or> (txbuf = 0 \<and> rxbuf = 0) then - EINVAL else 0)
      })"

text \<open>
  The guard under the mutex. \<open>None\<close>: the caller goes on, which it also does when the lock was not
  obtained; \<open>Some e\<close>: it returns \<open>e\<close>.
\<close>

definition spi_claim :: "spi_slot \<Rightarrow> ('x spi_state_scheme, int option) state" where
  "spi_claim h = do {
     c \<leftarrow> get_spi h;
     locked \<leftarrow> osal_mutex_lock (spi_mutex c) OSAL_TIMEOUT_WAIT_FOREVER;
     if \<not> locked then ret None
     else if \<not> spi_is_open c then do {
       unlocked \<leftarrow> osal_mutex_unlock (spi_mutex c);
       ret (Some (if \<not> unlocked then - EIO else - EINVAL))
     } else if is_tx_busy c \<or> is_rx_busy c then do {
       unlocked \<leftarrow> osal_mutex_unlock (spi_mutex c);
       ret (Some (if \<not> unlocked then - EIO else - EBUSY))
     } else do {
       modify (upd_spi h (\<lambda>c. c\<lparr>is_tx_busy := True, is_rx_busy := True\<rparr>));
       unlocked \<leftarrow> osal_mutex_unlock (spi_mutex c);
       ret (if \<not> unlocked then Some (- EIO) else None)
     }
   }"

text \<open>The descriptor of a transfer that begins: a master always moves data both ways.\<close>

definition spi_begun :: "bool \<Rightarrow> u64 \<Rightarrow> u64 \<Rightarrow> u32 \<Rightarrow> spi_handle \<Rightarrow> spi_handle" where
  "spi_begun async txbuf rxbuf nbytes c =
     (let tx = (spi_role c = SPI_ROLE_MASTER \<or> txbuf \<noteq> 0); rx = (spi_role c = SPI_ROLE_MASTER \<or> rxbuf \<noteq> 0)
      in c\<lparr>spi_tx_buf := txbuf, spi_rx_buf := rxbuf, is_tx_async := async, is_rx_async := async,
           spi_tx_size := (if txbuf = 0 then 0 else nbytes), spi_rx_size := (if rxbuf = 0 then 0 else nbytes),
           is_tx_busy := tx, is_tx_on := tx, is_rx_busy := rx, is_rx_on := rx\<rparr>)"

text \<open>After a failure the receive side is released only if there is a receive buffer.\<close>

definition spi_unbusy :: "u64 \<Rightarrow> spi_handle \<Rightarrow> spi_handle" where
  "spi_unbusy rxbuf c = (let c = c\<lparr>is_tx_busy := False\<rparr> in if rxbuf \<noteq> 0 then c\<lparr>is_rx_busy := False\<rparr> else c)"

definition spi_start_dma :: "spi_slot \<Rightarrow> u64 \<Rightarrow> u64 \<Rightarrow> u32 \<Rightarrow> ('x spi_state_scheme, int) state" where
  "spi_start_dma h txbuf rxbuf nbytes = do {
     c \<leftarrow> get_spi h;
     if h_dma_tx c = None \<or> h_dma_rx c = None then do {
       modify (upd_spi h (spi_unbusy rxbuf));
       ret (- EIO)
     } else if nbytes > SPI_MAX_TRANSFER_SIZE then do {
       modify (upd_spi h (spi_unbusy rxbuf));
       ret (- EIO)
     } else do {
       e \<leftarrow> spi_dma_transfer h txbuf rxbuf nbytes;
       if e \<noteq> 0 then do {
         modify (upd_spi h (spi_unbusy rxbuf));
         ret (- EIO)
       } else ret 0
     }
   }"

text \<open>
  In the blocking call, \<open>during\<close> is what happens between the start of the transfer and the end of
  the wait.
\<close>

definition spi_xfer_sync ::
  "('x spi_state_scheme, unit) state \<Rightarrow> spi_handle_t \<Rightarrow> u64 \<Rightarrow> u64 \<Rightarrow> u32 \<Rightarrow> ('x spi_state_scheme, int) state" where
  "spi_xfer_sync during hspi txbuf rxbuf nbytes = do {
     e \<leftarrow> spi_check hspi txbuf rxbuf nbytes;
     if e \<noteq> 0 then ret e
     else do {
       let h = the hspi;
       claimed \<leftarrow> spi_claim h;
       case claimed of Some e \<Rightarrow> ret e
       | None \<Rightarrow> do {
           modify (upd_spi h (spi_begun False txbuf rxbuf nbytes));
           c \<leftarrow> get_spi h;
           if dma_enabled c then do {
             e \<leftarrow> spi_start_dma h txbuf rxbuf nbytes;
             if e \<noteq> 0 then ret e
             else do {
               during;
               ok \<leftarrow> osal_semaphore_wait (spi_sem c) OSAL_TIMEOUT_WAIT_FOREVER;
               if \<not> ok then do {
                 modify (upd_spi h (spi_unbusy rxbuf));
                 ret (- EIO)
               } else do {
                 whenM (rxbuf \<noteq> 0) (emit (Cache_invalidate rxbuf (ucast nbytes)));
                 whenM (spi_role c = SPI_ROLE_MASTER) (spi_ll_select_chip (spi_inst c) 0);
                 modify (upd_spi h (\<lambda>c. c\<lparr>spi_tx_left := 0, spi_rx_left := 0, is_tx_busy := False, is_rx_busy := False\<rparr>));
                 ret 0
               }
             }
           } else do {
             spi_xfer h nbytes;
             during;
             ok \<leftarrow> osal_semaphore_wait (spi_sem c) OSAL_TIMEOUT_WAIT_FOREVER;
             whenM ok (modify (upd_spi h (\<lambda>c. c\<lparr>is_tx_busy := False, is_rx_busy := False\<rparr>)));
             ret 0
           }
         }
     }
   }"

definition spi_xfer_async :: "spi_handle_t \<Rightarrow> u64 \<Rightarrow> u64 \<Rightarrow> u32 \<Rightarrow> ('x spi_state_scheme, int) state" where
  "spi_xfer_async hspi txbuf rxbuf nbytes = do {
     e \<leftarrow> spi_check hspi txbuf rxbuf nbytes;
     if e \<noteq> 0 then ret e
     else do {
       let h = the hspi;
       claimed \<leftarrow> spi_claim h;
       case claimed of Some e \<Rightarrow> ret e
       | None \<Rightarrow> do {
           modify (upd_spi h (spi_begun True txbuf rxbuf nbytes));
           c \<leftarrow> get_spi h;
           if dma_enabled c then spi_start_dma h txbuf rxbuf nbytes
           else do { spi_xfer h nbytes; ret 0 }
         }
     }
   }"

section \<open>Cancelling and closing\<close>

text \<open>What the DMA has written of the receive buffer, from the address it will write next.\<close>

definition spi_dma_received :: "spi_handle \<Rightarrow> u64 \<Rightarrow> u32" where
  "spi_dma_received c dst_addr =
     (if dst_addr \<le> spi_rx_buf c then 0
      else if dst_addr \<ge> spi_rx_buf c + ucast (spi_rx_size c) then spi_rx_size c
      else ucast (dst_addr - spi_rx_buf c))"

definition spi_drain_fifo :: "spi_slot \<Rightarrow> ('x spi_state_scheme, unit) state" where
  "spi_drain_fifo h = do {
     c \<leftarrow> get_spi h;
     let base = spi_base c;
     if dma_enabled c \<and> h_dma_rx c \<noteq> None then do {
       spi_ll_disable_dma base;
       (e, dst_addr) \<leftarrow> dma_get_dst_ptr (h_dma_rx c);
       let n = (if e = 0 then spi_dma_received c (the dst_addr) else spi_rx_size c - spi_rx_left c);
       let n = (if n > spi_rx_size c then spi_rx_size c else n);
       let remaining = spi_rx_size c - n;
       fifo \<leftarrow> (if remaining > 0 then spi_ll_read_fifo base (spi_rx_buf c + ucast n) remaining else ret 0);
       modify (upd_spi h (\<lambda>c. c\<lparr>spi_rx_left :=
         (if n + fifo > spi_rx_size c then 0 else spi_rx_size c - (n + fifo))\<rparr>));
       spi_ll_enable_dma base True True
     } else do {
       fifo \<leftarrow> spi_ll_read_fifo base (spi_rx_buf c) (spi_rx_left c);
       modify (upd_spi h (\<lambda>c. if fifo \<ge> spi_rx_left c
         then c\<lparr>spi_rx_buf := spi_rx_buf c + ucast (spi_rx_left c), spi_rx_left := 0\<rparr>
         else c\<lparr>spi_rx_buf := spi_rx_buf c + ucast fifo, spi_rx_left := spi_rx_left c - fifo\<rparr>))
     }
   }"

text \<open>A stop that returns \<^verbatim>\<open>-EIO\<close> counts as done.\<close>

definition spi_stop_channel :: "bool \<Rightarrow> dma_handle_t \<Rightarrow> ('x spi_state_scheme, int) state" where
  "spi_stop_channel finished hdma =
     (if finished then ret 0
      else do {
        e \<leftarrow> dma_stop_transfer hdma;
        ret (if e = - EIO then 0 else e)
      })"

definition spi_cancel :: "spi_handle_t \<Rightarrow> ('x spi_state_scheme, int) state" where
  "spi_cancel hspi =
     (if \<not> spi_is_handle_valid hspi then ret (- EINVAL)
      else do {
        let h = the hspi;
        c \<leftarrow> get_spi h;
        if \<not> spi_is_open c then ret (- EINVAL)
        else if \<not> is_rx_busy c \<and> \<not> is_tx_busy c then ret (- EINVAL)
        else do {
          let do_fifo_drain = (spi_role c = SPI_ROLE_SLAVE \<and> is_rx_on c \<and> spi_rx_buf c \<noteq> 0
            \<and> spi_rx_size c > 0 \<and> spi_rx_left c > 0);
          whenM do_fifo_drain (spi_drain_fifo h);
          spi_ll_disable (spi_base c);
          stopped \<leftarrow> (if dma_enabled c then do {
              tx \<leftarrow> spi_stop_channel (dma_tx_done c) (h_dma_tx c);
              rx \<leftarrow> spi_stop_channel (dma_rx_done c) (h_dma_rx c);
              ret (tx = 0 \<and> rx = 0)
            } else ret True);
          if \<not> stopped then ret (- EIO)
          else do {
            modify (upd_spi h (\<lambda>c. c\<lparr>is_rx_busy := False, is_tx_busy := False, is_rx_async := False,
              is_tx_async := False, spi_tx_left := 0\<rparr>));
            whenM (\<not> do_fifo_drain) (modify (upd_spi h (\<lambda>c. c\<lparr>spi_rx_left := 0\<rparr>)));
            spi_ll_enable (spi_base c);
            ret 0
          }
        }
      })"

definition spi_close :: "spi_handle_t \<Rightarrow> ('x spi_state_scheme, int) state" where
  "spi_close hspi =
     (if \<not> spi_is_handle_valid hspi then ret (- EINVAL)
      else do {
        let h = the hspi;
        c \<leftarrow> get_spi h;
        if \<not> spi_is_open c then ret (- EINVAL)
        else do {
          e \<leftarrow> (if dma_enabled c then spi_dma_deinit h else ret 0);
          if e \<noteq> 0 then ret (- EIO)
          else do {
            _ \<leftarrow> osal_mutex_delete (spi_mutex c);
            _ \<leftarrow> osal_semaphore_delete (spi_sem c);
            modify (upd_spi h (\<lambda>c. c\<lparr>spi_is_open := False\<rparr>));
            spi_ll_deinit (spi_inst c) (spi_role c);
            ret 0
          }
        }
      })"

section \<open>The interrupt handler\<close>

text \<open>Once a batch has been moved: the threshold for the rest, or the end of a direction.\<close>

definition spi_isr_rx_rest :: "spi_slot \<Rightarrow> ('x spi_state_scheme, unit) state" where
  "spi_isr_rx_rest h = do {
     c \<leftarrow> get_spi h;
     whenM (spi_rx_left c > 0) (do {
       let new_thr = (if spi_rx_left c - 1 > SPI_RXFTLR_DEFAULT then SPI_RXFTLR_DEFAULT else spi_rx_left c - 1);
       whenM (new_thr < ucast (rx_threshold c)) (do {
         modify (upd_spi h (\<lambda>c. c\<lparr>rx_threshold := ucast new_thr\<rparr>));
         spi_ll_set_rx_threshold (spi_base c) (ucast new_thr)
       })
     });
     whenM (spi_rx_left c = 0) (do {
       modify (upd_spi h (\<lambda>c. c\<lparr>is_rx_on := False\<rparr>));
       spi_ll_disable_interrupt (spi_base c) SPI_RX_FULL_INT
     })
   }"

definition spi_isr_rx :: "spi_slot \<Rightarrow> ('x spi_state_scheme, unit) state" where
  "spi_isr_rx h = do {
     c \<leftarrow> get_spi h;
     whenM (is_rx_on c) (do {
       n \<leftarrow> spi_ll_read_fifo (spi_base c) (spi_rx_buf c) (spi_rx_left c);
       modify (upd_spi h (\<lambda>c. c\<lparr>spi_rx_left := spi_rx_left c - n, spi_rx_buf := spi_rx_buf c + ucast n\<rparr>))
     });
     spi_isr_rx_rest h
   }"

definition spi_isr_tx_rest :: "spi_slot \<Rightarrow> ('x spi_state_scheme, unit) state" where
  "spi_isr_tx_rest h = do {
     c \<leftarrow> get_spi h;
     whenM (spi_tx_left c = 0) (do {
       modify (upd_spi h (\<lambda>c. c\<lparr>is_tx_on := False\<rparr>));
       spi_ll_disable_interrupt (spi_base c) SPI_TX_EMPTY_INT
     })
   }"

definition spi_isr_tx :: "spi_slot \<Rightarrow> ('x spi_state_scheme, unit) state" where
  "spi_isr_tx h = do {
     c \<leftarrow> get_spi h;
     whenM (is_tx_on c) (do {
       n \<leftarrow> spi_ll_write_fifo (spi_base c) (spi_tx_buf c) (spi_tx_left c);
       modify (upd_spi h (\<lambda>c. c\<lparr>spi_tx_left := spi_tx_left c - n, spi_tx_buf := spi_tx_buf c + ucast n\<rparr>))
     });
     spi_isr_tx_rest h
   }"

definition spi_isr_done :: "spi_slot \<Rightarrow> bool \<Rightarrow> ('x spi_state_scheme, unit) state" where
  "spi_isr_done h is_error = do {
     c \<leftarrow> get_spi h;
     whenM (spi_role c = SPI_ROLE_MASTER) (spi_ll_select_chip (spi_inst c) 0);
     modify (upd_spi h (\<lambda>c. c\<lparr>is_tx_async := False, is_rx_async := False, is_tx_busy := False, is_rx_busy := False\<rparr>));
     if is_rx_async c \<or> is_tx_async c
     then whenM (spi_callback_fn c \<noteq> F_NULL)
            (emit (Call (spi_callback_fn c) (spi_user_context c) [if is_error then SPI_RX_OVERFLOW else SPI_SUCCESS]))
     else do { _ \<leftarrow> osal_semaphore_post (spi_sem c); ret () }
   }"

definition spi_isr :: "vptr \<Rightarrow> ('x spi_state_scheme, unit) state" where
  "spi_isr param =
     (case param of
        V_NULL \<Rightarrow> ret ()
      | V_spi i r \<Rightarrow> do {
          let h = (i, r);
          c \<leftarrow> get_spi h;
          let base = spi_base c;
          irqs \<leftarrow> spi_ll_get_interrupt_status base;
          let is_error = (irqs AND SPI_RX_OVERFLOW_INT \<noteq> 0);
          whenM is_error (do {
            spi_ll_clear_rx_overflow base;
            _ \<leftarrow> spi_ll_read_fifo base 0 SPI_FIFO_DEPTH;
            ret ()
          });
          whenM (\<not> is_error \<and> irqs AND SPI_RX_FULL_INT \<noteq> 0) (spi_isr_rx h);
          whenM (\<not> is_error \<and> irqs AND SPI_TX_EMPTY_INT \<noteq> 0) (spi_isr_tx h);
          c \<leftarrow> get_spi h;
          whenM (is_error \<or> (spi_tx_left c = 0 \<and> spi_rx_left c = 0)) (spi_isr_done h is_error)
        }
      | _ \<Rightarrow> ub ''spi handle'')"

section \<open>The descriptor table\<close>

lemma upd_spi_fields [simp]:
  "spi_desc (upd_spi h f s) = (spi_desc s)(h := f (spi_desc s h))"
  "trace (upd_spi h f s) = trace s" "env (upd_spi h f s) = env s" "mem (upd_spi h f s) = mem s"
  "hdma_default (upd_spi h f s) = hdma_default s" "plinked_list_chain (upd_spi h f s) = plinked_list_chain s"
  "plinked_list_at (upd_spi h f s) = plinked_list_at s" "i2c_desc (upd_spi h f s) = i2c_desc s"
  "i2c_transfer_buf_at (upd_spi h f s) = i2c_transfer_buf_at s" "interrupt_callbacks (upd_spi h f s) = interrupt_callbacks s"
  "spi_tx_dma_dummy_at (upd_spi h f s) = spi_tx_dma_dummy_at s" "spi_rx_dma_discard_at (upd_spi h f s) = spi_rx_dma_discard_at s"
  by (simp_all add: upd_spi_def)

interpretation spi_ports: slots spi_desc upd_spi "\<lambda>_ _. True"
  by unfold_locales simp_all

section \<open>The blocks of a DMA transfer\<close>

lemma spi_block:
  assumes "512 * i < unat n"
  shows "unat (spi_blk_bytes n i) = min (unat n - 512 * i) 512"
    and "unat (4 * spi_blk_bytes n i) div 4 = min (unat n - 512 * i) 512"
    and "(ucast (word_of_nat i * SPI_DMA_XFER_BLK_SIZE) :: u64) = word_of_nat (512 * i)"
proof -
  have n: "unat n < 2 ^ 32"
    using unsigned_less [of n] by simp
  have off: "word_of_nat i * SPI_DMA_XFER_BLK_SIZE = (word_of_nat (512 * i) :: u32)"
    by (simp add: SPI_DMA_XFER_BLK_SIZE_def mult.commute)
  have "unat (word_of_nat (512 * i) :: u32) = 512 * i"
    using assms n by (simp add: unsigned_of_nat take_bit_nat_eq_self del: of_nat_mult)
  then have "unat (n - word_of_nat (512 * i)) = unat n - 512 * i"
    using assms by (subst unat_sub) (simp_all add: word_le_nat_alt del: of_nat_mult)
  then show b: "unat (spi_blk_bytes n i) = min (unat n - 512 * i) 512"
    unfolding spi_blk_bytes_def off Let_def by (simp add: SPI_DMA_XFER_BLK_SIZE_def word_less_nat_alt min_def del: of_nat_mult)
  have "unat (4 :: u32) * unat (spi_blk_bytes n i) < 2 ^ 32"
    by (simp add: b min_def)
  then show "unat (4 * spi_blk_bytes n i) div 4 = min (unat n - 512 * i) 512"
    by (simp add: unat_mult_no_wrap b)
  show "(ucast (word_of_nat i * SPI_DMA_XFER_BLK_SIZE) :: u64) = word_of_nat (512 * i)"
    unfolding off using assms n by (intro ucast_u32_of_nat) simp
qed

lemma spi_blocks_cover_from:
  assumes "512 * (i + k) < unat n + 512"
  shows "concat (map block_words (spi_tx_blocks base p n i k)) =
      map (\<lambda>j. p + 4 * word_of_nat (512 * i + j)) [0..<min (unat n - 512 * i) (512 * k)]
    \<and> concat (map block_bytes (spi_rx_blocks base q n i k)) =
      map (\<lambda>j. q + word_of_nat (512 * i + j)) [0..<min (unat n - 512 * i) (512 * k)]"
  using assms
proof (induction k arbitrary: i)
  case (Suc k)
  let ?r = "unat n - 512 * i"
  let ?c = "min ?r 512"
  have i: "512 * i < unat n"
    using Suc.prems by simp
  note b = spi_block [OF i]
  have rest: "unat n - 512 * (i + 1) = ?r - ?c"
    by simp
  have one: "block_words (hd (spi_tx_blocks base p n i (Suc k))) = map (\<lambda>j. p + 4 * word_of_nat (512 * i + j)) [0..<?c]"
    "block_bytes (hd (spi_rx_blocks base q n i (Suc k))) = map (\<lambda>j. q + word_of_nat (512 * i + j)) [0..<?c]"
    by (simp_all add: block_words_def block_bytes_def b distrib_left add.assoc)
  have tl: "map (\<lambda>j. p + 4 * word_of_nat (512 * (i + 1) + j)) [0..<min (?r - ?c) (512 * k)]
      = map (\<lambda>j. p + 4 * word_of_nat (512 * i + j)) [?c..<?c + min (?r - ?c) (512 * k)]"
    "map (\<lambda>j. q + word_of_nat (512 * (i + 1) + j)) [0..<min (?r - ?c) (512 * k)]
      = map (\<lambda>j. q + word_of_nat (512 * i + j)) [?c..<?c + min (?r - ?c) (512 * k)]"
    by (rule chunk_shift; simp add: add.assoc)+
  have IH: "concat (map block_words (spi_tx_blocks base p n (i + 1) k)) =
      map (\<lambda>j. p + 4 * word_of_nat (512 * i + j)) [?c..<?c + min (?r - ?c) (512 * k)]"
    "concat (map block_bytes (spi_rx_blocks base q n (i + 1) k)) =
      map (\<lambda>j. q + word_of_nat (512 * i + j)) [?c..<?c + min (?r - ?c) (512 * k)]"
    using Suc.IH [of "i + 1"] Suc.prems unfolding rest tl by simp_all
  have unfold: "spi_tx_blocks base p n i (Suc k) = hd (spi_tx_blocks base p n i (Suc k)) # spi_tx_blocks base p n (i + 1) k"
    "spi_rx_blocks base q n i (Suc k) = hd (spi_rx_blocks base q n i (Suc k)) # spi_rx_blocks base q n (i + 1) k"
    by simp_all
  show ?case
    by (subst unfold(1), subst unfold(2))
      (simp only: list.map concat.simps one IH map_append [symmetric] min_chunks [of ?r k, symmetric] upt_add_eq_append [OF le0, symmetric])
qed simp

lemma spi_blk_cnt_value: "unat n \<le> 2048 \<Longrightarrow> unat (spi_blk_cnt n) = (unat n + 511) div 512"
proof -
  assume n: "unat n \<le> 2048"
  have "n + SPI_DMA_XFER_BLK_SIZE - 1 = 511 + n"
    by (simp add: SPI_DMA_XFER_BLK_SIZE_def)
  moreover have "unat (511 + n) = unat n + 511"
    using n by (simp add: unat_add_lem [THEN iffD1])
  ultimately show ?thesis
    by (simp add: spi_blk_cnt_def SPI_DMA_XFER_BLK_SIZE_def unat_div)
qed

text \<open>
  The blocks of an SPI transfer by DMA are its buffers: for every length the driver accepts (at
  most 2048), the blocks built for transmission read, in order and without gap or overlap, exactly
  the words of the source, those built for reception fill exactly the bytes of the destination,
  and there are as many as the count given to the DMA driver, at most four.
\<close>

theorem spi_dma_blocks_cover:
  assumes "n \<le> SPI_MAX_TRANSFER_SIZE"
  shows "case spi_setup_dma_xfer c tx_src rx_dst n of (rx_list, tx_list, cnt) \<Rightarrow>
      concat (map block_words tx_list) = map (\<lambda>j. tx_src + 4 * word_of_nat j) [0..<unat n]
    \<and> concat (map block_bytes rx_list) = map (\<lambda>j. rx_dst + word_of_nat j) [0..<unat n]
    \<and> length tx_list = unat cnt \<and> length rx_list = unat cnt \<and> cnt \<le> 4"
proof -
  have n: "unat n \<le> 2048"
    using assms by (simp add: SPI_MAX_TRANSFER_SIZE_def word_le_nat_alt)
  let ?k = "unat (spi_blk_cnt n)"
  have k: "?k = (unat n + 511) div 512"
    by (rule spi_blk_cnt_value [OF n])
  then have cover: "512 * (0 + ?k) < unat n + 512" "min (unat n - 512 * 0) (512 * ?k) = unat n"
    by simp_all
  have len: "length (spi_tx_blocks b p m i j) = j" "length (spi_rx_blocks b p m i j) = j" for b p m i j
    by (induction j arbitrary: i) simp_all
  have "spi_blk_cnt n \<le> 4"
    using k n by (simp add: word_le_nat_alt)
  then show ?thesis
    using spi_blocks_cover_from [OF cover(1), of "spi_base c" tx_src rx_dst, unfolded cover(2)]
    by (simp add: spi_setup_dma_xfer_def Let_def len)
qed

theorem spi_dma_blocks_cover_witness:
  "concat (map block_bytes (fst (spi_setup_dma_xfer spi_zero 0x1000 0x2000 700))) = map (\<lambda>j. 0x2000 + word_of_nat j) [0..<700]"
  using spi_dma_blocks_cover [of 700 "0x1000" "0x2000" spi_zero]
  by (simp add: SPI_MAX_TRANSFER_SIZE_def split_beta del: upt_conv_Cons)

end
