(* ===== verification/Spi_Transfers.thy ===== *)
theory Spi_Transfers
  imports Spi
begin

unbundle bit_operations_syntax

text \<open>
  The transfers of the SPI driver that run by interrupt, in both directions at once: what has been
  sent, what has been received and stored, and what the descriptor says of it.
\<close>

section \<open>What a program leaves alone\<close>

definition spi_view :: "u32 \<Rightarrow> ev list \<Rightarrow> u32 list \<times> u32 list" where
  "spi_view base t = (sent (spi_dr base) t, received (spi_dr base) t)"

lemma spi_view_simps [simp]:
  "spi_view base (Kern c z # t) = spi_view base t" "spi_view base (Call f p xs # t) = spi_view base t"
  "spi_view base (UB w # t) = spi_view base t"
  "spi_view base (Rd32 a x # t) =
     (if a = spi_dr base then (sent (spi_dr base) t, received (spi_dr base) t @ [x]) else spi_view base t)"
  "spi_view base (Wr32 a x # t) =
     (if a = spi_dr base then (sent (spi_dr base) t @ [x], received (spi_dr base) t) else spi_view base t)"
  by (simp_all add: spi_view_def)

lemma spi_still_osal [still_intros]:
  "still (spi_view base) (osal_semaphore_post w)" "still (spi_view base) (osal_semaphore_wait w n)"
  "still (spi_view base) (osal_mutex_lock w n)" "still (spi_view base) (osal_mutex_unlock w)"
  unfolding osal_defs by (intro still_intros; simp)+

lemma spi_still_ll [still_intros]:
  "still (spi_view base) (spi_ll_get_interrupt_status base)" "still (spi_view base) (spi_ll_enable_interrupt base q)"
  "still (spi_view base) (spi_ll_disable_interrupt base q)" "still (spi_view base) (spi_ll_set_rx_threshold base lvl)"
  "still (spi_view base) (spi_ll_set_transfermode base m)" "still (spi_view base) (spi_ll_set_slave_output base b)"
  unfolding spi_ll_defs Let_def by (intro still_intros; simp add: spi_dr_def spi_regs)+

lemma spi_still_select [still_intros]: "base = GET_BASE_ADDR i \<Longrightarrow> still (spi_view base) (spi_ll_select_chip i n)"
  unfolding spi_ll_defs Let_def by (intro still_intros; simp add: spi_dr_def spi_regs)

lemma spi_write_view:
  obtains k t where "k \<le> unat n"
    "run_state (spi_ll_write_fifo base buf n) s = (word_of_nat k, s\<lparr>trace := t\<rparr>)"
    "spi_view base t = (sent (spi_dr base) (trace s) @ take k (spi_words (mem s) buf (unat n)), received (spi_dr base) (trace s))"
  using spi_write_fifo_sends [of n base buf s] unfolding spi_view_def by metis

lemma spi_read_view:
  obtains vs t where "length vs \<le> unat n"
    "run_state (spi_ll_read_fifo base buf n) s = (word_of_nat (length vs),
       s\<lparr>trace := t, mem := (if buf = 0 then mem s else store_bytes (mem s) buf (map ucast vs))\<rparr>)"
    "spi_view base t = (sent (spi_dr base) (trace s), received (spi_dr base) (trace s) @ vs)"
  using spi_read_fifo_stores [of n base buf s] unfolding spi_view_def by metis

section \<open>The streams of a transfer\<close>

text \<open>The receive FIFO never overflows.\<close>

definition no_overflow :: "env \<Rightarrow> u32 \<Rightarrow> bool" where
  "no_overflow e base \<longleftrightarrow> (\<forall>t. \<not> bit (hw_rd32 e t (ucast (base + SPI_ISR))) 3)"

text \<open>
  The buffers of a transfer of \<open>nt\<close> bytes at \<open>tb\<close> and into \<open>nr\<close> bytes at \<open>rb\<close>: they do not reach
  around the address space and do not overlap.
\<close>

definition spi_buffers_ok :: "u64 \<Rightarrow> u64 \<Rightarrow> nat \<Rightarrow> nat \<Rightarrow> bool" where
  "spi_buffers_ok tb rb nt nr \<longleftrightarrow>
     nt < 2 ^ 32 \<and> nr < 2 ^ 32 \<and> (\<forall>i < nt. tb + word_of_nat i \<noteq> 0) \<and> (\<forall>j < nr. rb + word_of_nat j \<noteq> 0)
   \<and> (\<forall>i < nt. \<forall>j < nr. tb + word_of_nat i \<noteq> rb + word_of_nat j)"

text \<open>
  Controller \<open>h\<close> during a transfer: the words sent since the start are those of the bytes the
  descriptor does not count as left; the bytes received are stored in order; the descriptor points
  behind both; and while something is left the controller is busy.
\<close>

definition spi_stream ::
  "spi_slot \<Rightarrow> u32 \<Rightarrow> (u64 \<Rightarrow> u8) \<Rightarrow> u64 \<Rightarrow> u64 \<Rightarrow> nat \<Rightarrow> nat \<Rightarrow> u32 list \<Rightarrow> u32 list \<Rightarrow> 'x spi_state_scheme \<Rightarrow> bool" where
  "spi_stream h base m tb rb nt nr before got s \<longleftrightarrow>
     (let c = spi_desc s h; tl = unat (spi_tx_left c); rl = unat (spi_rx_left c)
      in spi_base c = base \<and> spi_is_open c \<and> spi_is_handle_valid (Some h)
       \<and> (spi_role c = SPI_ROLE_MASTER \<longrightarrow> base = GET_BASE_ADDR (spi_inst c))
       \<and> granting (env s) \<and> no_overflow (env s) base
       \<and> spi_tx_size c = word_of_nat nt \<and> spi_rx_size c = word_of_nat nr
       \<and> tl \<le> nt \<and> spi_tx_buf c = tb + word_of_nat (nt - tl)
       \<and> sent (spi_dr base) (trace s) = before @ take (nt - tl) (spi_words m tb nt)
       \<and> rl \<le> nr \<and> spi_rx_buf c = rb + word_of_nat (nr - rl)
       \<and> (\<exists>vs. length vs = nr - rl \<and> received (spi_dr base) (trace s) = got @ vs
            \<and> mem s = store_bytes m rb (map ucast vs))
       \<and> (tl \<noteq> 0 \<or> rl \<noteq> 0 \<longrightarrow> is_tx_busy c \<or> is_rx_busy c))"

lemma spi_stream_received:
  "spi_stream h base m tb rb nt nr before got s \<Longrightarrow>
   \<exists>vs. length vs = nr - unat (spi_rx_left (spi_desc s h)) \<and> received (spi_dr base) (trace s) = got @ vs
      \<and> mem s = store_bytes m rb (map ucast vs)"
  by (simp add: spi_stream_def Let_def)

lemma spi_stream_trace:
  assumes "spi_stream h base m tb rb nt nr before got s" and "spi_view base t = spi_view base (trace s)"
  shows "spi_stream h base m tb rb nt nr before got (s\<lparr>trace := t\<rparr>)"
  using assms by (simp add: spi_stream_def Let_def spi_view_def)

lemma spi_stream_still [keeps_intros]:
  fixes m :: "('x spi_state_scheme, 'a) state"
  assumes "still (spi_view base) m"
  shows "keeps (spi_stream h base mm tb rb nt nr before got) m"
proof (rule keepsI)
  fix s :: "'x spi_state_scheme" assume "spi_stream h base mm tb rb nt nr before got s"
  moreover obtain t where "final m s = s\<lparr>trace := t\<rparr>" "spi_view base t = spi_view base (trace s)"
    using assms by (rule stillE)
  ultimately show "spi_stream h base mm tb rb nt nr before got (final m s)"
    by (simp add: spi_stream_trace)
qed

lemma spi_words_take: "k \<le> n \<Longrightarrow> take k (spi_words m buf n) = spi_words m buf k"
  by (simp add: spi_words_def take_map)

text \<open>Storing received bytes does not touch the bytes still to be sent.\<close>

lemma spi_words_stored:
  assumes "spi_buffers_ok tb rb nt nr" and "length vs \<le> nr"
  shows "spi_words (store_bytes m rb (map ucast vs)) tb nt = spi_words m tb nt"
proof -
  have "store_bytes m rb (map ucast vs) (tb + word_of_nat i) = m (tb + word_of_nat i)" if "i < nt" for i
    using assms that by (intro store_bytes_other) (auto simp: spi_buffers_ok_def)
  then show ?thesis
    by (simp add: spi_words_def)
qed

definition spi_tx_advance :: "nat \<Rightarrow> spi_handle \<Rightarrow> spi_handle" where
  "spi_tx_advance k c = c\<lparr>spi_tx_left := spi_tx_left c - word_of_nat k, spi_tx_buf := spi_tx_buf c + word_of_nat k\<rparr>"

definition spi_rx_advance :: "nat \<Rightarrow> spi_handle \<Rightarrow> spi_handle" where
  "spi_rx_advance k c = c\<lparr>spi_rx_left := spi_rx_left c - word_of_nat k, spi_rx_buf := spi_rx_buf c + word_of_nat k\<rparr>"

lemma unat_minus_of_nat: "k \<le> unat (w :: u32) \<Longrightarrow> unat (w - word_of_nat k) = unat w - k"
proof -
  assume k: "k \<le> unat w"
  moreover have "k < 2 ^ LENGTH(32)"
    using k unsigned_less [of w, where ?'a = nat] by simp
  ultimately show ?thesis
    by (subst unat_sub) (simp_all add: word_le_nat_alt unsigned_of_nat take_bit_nat_eq_self)
qed

lemma ucast_of_nat_u64: "k \<le> unat (w :: u32) \<Longrightarrow> (ucast (word_of_nat k :: u32) :: u64) = word_of_nat k"
  using unsigned_less [of w, where ?'a = nat] by (intro ucast_u32_of_nat) simp

lemma spi_tx_advances:
  assumes inv: "spi_stream h base m tb rb nt nr before got s" and ok: "spi_buffers_ok tb rb nt nr"
    and k: "k \<le> unat b" and b: "unat b \<le> unat (spi_tx_left (spi_desc s h))"
    and t: "spi_view base t = (sent (spi_dr base) (trace s) @ take k (spi_words (mem s) (spi_tx_buf (spi_desc s h)) (unat b)),
              received (spi_dr base) (trace s))"
  shows "spi_stream h base m tb rb nt nr before got (upd_spi h (spi_tx_advance k) (s\<lparr>trace := t\<rparr>))"
proof (cases "k = 0")
  case True
  with inv t show ?thesis
    by (simp add: spi_stream_def spi_tx_advance_def spi_view_def Let_def)
next
  case False
  let ?c = "spi_desc s h" and ?left = "unat (spi_tx_left (spi_desc s h))"
  have left: "?left \<le> nt" and buf: "spi_tx_buf ?c = tb + word_of_nat (nt - ?left)"
    and snt: "sent (spi_dr base) (trace s) = before @ take (nt - ?left) (spi_words m tb nt)"
    using inv by (simp_all add: spi_stream_def Let_def)
  obtain vs :: "u32 list" where vs: "length vs \<le> nr" "mem s = store_bytes m rb (map ucast vs)"
  proof -
    from spi_stream_received [OF inv] obtain us where "length us = nr - unat (spi_rx_left ?c)"
      "received (spi_dr base) (trace s) = got @ us" "mem s = store_bytes m rb (map ucast us)" by blast
    then show ?thesis using that [of us] by simp
  qed
  have left': "unat (spi_tx_left ?c - word_of_nat k) = ?left - k"
    using k b by (intro unat_minus_of_nat) simp
  have split: "nt - (?left - k) = (nt - ?left) + k"
    using k b left by simp
  have lt: "nt - ?left < nt" "0 < nt"
    using False k b left by simp_all
  have "\<forall>i < nt. tb + word_of_nat i \<noteq> 0"
    using ok by (simp add: spi_buffers_ok_def)
  from this [rule_format, of "nt - ?left"] this [rule_format, of 0] lt
  have nz: "tb + word_of_nat (nt - ?left) \<noteq> 0" "tb \<noteq> 0"
    by simp_all
  have "take k (spi_words (mem s) (spi_tx_buf ?c) (unat b)) = take k (spi_words (mem s) (spi_tx_buf ?c) ?left)"
    using k b by (simp add: spi_words_take)
  also have "spi_words (mem s) (spi_tx_buf ?c) ?left = drop (nt - ?left) (spi_words (mem s) tb nt)"
    using spi_words_rest [OF nz(2,1), of nt "mem s"] left by (simp add: buf)
  also have "spi_words (mem s) tb nt = spi_words m tb nt"
    unfolding vs(2) by (rule spi_words_stored [OF ok vs(1)])
  finally have "sent (spi_dr base) t = before @ take (nt - (?left - k)) (spi_words m tb nt)"
    using t by (simp add: spi_view_def snt split take_add)
  moreover have "spi_tx_buf ?c + word_of_nat k = tb + word_of_nat (nt - (?left - k))"
    by (simp only: buf split of_nat_add add.assoc)
  ultimately show ?thesis
    using inv t left' by (auto simp add: spi_stream_def spi_tx_advance_def spi_view_def Let_def)
qed

lemma spi_rx_advances:
  assumes inv: "spi_stream h base m tb rb nt nr before got s" and ok: "spi_buffers_ok tb rb nt nr"
    and k: "length vs \<le> unat (spi_rx_left (spi_desc s h))"
    and t: "spi_view base t = (sent (spi_dr base) (trace s), received (spi_dr base) (trace s) @ vs)"
  shows "spi_stream h base m tb rb nt nr before got (upd_spi h (spi_rx_advance (length vs))
    (s\<lparr>trace := t, mem := (if spi_rx_buf (spi_desc s h) = 0 then mem s
       else store_bytes (mem s) (spi_rx_buf (spi_desc s h)) (map ucast vs))\<rparr>))"
proof (cases "vs = []")
  case True
  with inv t show ?thesis
    by (simp add: spi_stream_def spi_rx_advance_def spi_view_def Let_def)
next
  case False
  let ?c = "spi_desc s h" and ?left = "unat (spi_rx_left (spi_desc s h))"
  have left: "?left \<le> nr" and buf: "spi_rx_buf ?c = rb + word_of_nat (nr - ?left)"
    using inv by (simp_all add: spi_stream_def Let_def)
  obtain us where us: "length us = nr - ?left" "received (spi_dr base) (trace s) = got @ us"
      "mem s = store_bytes m rb (map ucast us)"
    using spi_stream_received [OF inv] by blast
  have left': "unat (spi_rx_left ?c - word_of_nat (length vs)) = ?left - length vs"
    using k by (rule unat_minus_of_nat)
  have split: "nr - (?left - length vs) = (nr - ?left) + length vs"
    using k left by simp
  have "nr - ?left < nr"
    using False k left by (cases vs) simp_all
  then have nz: "spi_rx_buf ?c \<noteq> 0"
    using ok unfolding spi_buffers_ok_def buf by blast
  have "store_bytes (mem s) (spi_rx_buf ?c) (map ucast vs) = store_bytes m rb (map ucast (us @ vs))"
    by (simp add: us store_bytes_append buf)
  moreover have "received (spi_dr base) t = got @ (us @ vs)" "length (us @ vs) = nr - (?left - length vs)"
    using t us split by (simp_all add: spi_view_def)
  ultimately have got: "\<exists>ws. length ws = nr - (?left - length vs) \<and> received (spi_dr base) t = got @ ws
      \<and> store_bytes (mem s) (spi_rx_buf ?c) (map ucast vs) = store_bytes m rb (map ucast ws)"
    by blast
  have "spi_rx_buf ?c + word_of_nat (length vs) = rb + word_of_nat (nr - (?left - length vs))"
    by (simp only: buf split of_nat_add add.assoc)
  with inv got nz t left' show ?thesis
    by (auto simp add: spi_stream_def spi_rx_advance_def spi_view_def Let_def)
qed

section \<open>The interrupt handler\<close>

lemma spi_stream_fields [keeps_intros]:
  "keeps (spi_stream h base m tb rb nt nr before got) (modify (upd_spi h (\<lambda>c. c\<lparr>rx_threshold := lvl\<rparr>)))"
  "keeps (spi_stream h base m tb rb nt nr before got) (modify (upd_spi h (\<lambda>c. c\<lparr>is_rx_on := False\<rparr>)))"
  "keeps (spi_stream h base m tb rb nt nr before got) (modify (upd_spi h (\<lambda>c. c\<lparr>is_tx_on := False\<rparr>)))"
  by (intro keepsI; simp add: spi_stream_def Let_def)+

lemma spi_isr_rest_keeps:
  fixes s :: "'x spi_state_scheme"
  assumes inv: "spi_stream h base m tb rb nt nr before got s"
  shows "spi_stream h base m tb rb nt nr before got (final (spi_isr_rx_rest h) s)"
    and "spi_stream h base m tb rb nt nr before got (final (spi_isr_tx_rest h) s)"
proof -
  let ?c = "spi_desc s h"
  have c: "spi_base ?c = base"
    using inv by (simp add: spi_stream_def Let_def)
  let ?thr = "if spi_rx_left ?c - 1 > SPI_RXFTLR_DEFAULT then SPI_RXFTLR_DEFAULT else spi_rx_left ?c - 1"
  define rearm where "rearm = (do {
     modify (upd_spi h (\<lambda>c. c\<lparr>rx_threshold := ucast ?thr\<rparr>));
     spi_ll_set_rx_threshold base (ucast ?thr) } :: ('x spi_state_scheme, unit) state)"
  have "keeps (spi_stream h base m tb rb nt nr before got) (do {
     whenM (spi_rx_left ?c > 0) (whenM (?thr < ucast (rx_threshold ?c)) rearm);
     whenM (spi_rx_left ?c = 0) (do {
       modify (upd_spi h (\<lambda>c. c\<lparr>is_rx_on := False\<rparr>)); spi_ll_disable_interrupt base SPI_RX_FULL_INT }) })"
    unfolding rearm_def by (intro keeps_intros still_intros)
  from keepsD [OF this inv] show "spi_stream h base m tb rb nt nr before got (final (spi_isr_rx_rest h) s)"
    unfolding rearm_def by (simp only: spi_isr_rx_rest_def Let_def run_gets run_state_bind split_beta fst_conv snd_conv c)
  have "keeps (spi_stream h base m tb rb nt nr before got) (whenM (spi_tx_left ?c = 0) (do {
       modify (upd_spi h (\<lambda>c. c\<lparr>is_tx_on := False\<rparr>)); spi_ll_disable_interrupt base SPI_TX_EMPTY_INT }))"
    by (intro keeps_intros still_intros)
  from keepsD [OF this inv] show "spi_stream h base m tb rb nt nr before got (final (spi_isr_tx_rest h) s)"
    by (simp only: spi_isr_tx_rest_def run_gets run_state_bind split_beta fst_conv snd_conv c)
qed

lemma spi_isr_rx_keeps:
  assumes inv: "spi_stream h base m tb rb nt nr before got s" and ok: "spi_buffers_ok tb rb nt nr"
  shows "spi_stream h base m tb rb nt nr before got (final (spi_isr_rx h) s)"
proof (cases "is_rx_on (spi_desc s h)")
  case False
  then show ?thesis
    using spi_isr_rest_keeps(1) [OF inv] by (simp add: spi_isr_rx_def)
next
  case True
  let ?c = "spi_desc s h"
  have c: "spi_base ?c = base"
    using inv by (simp add: spi_stream_def Let_def)
  obtain vs t where vs: "length vs \<le> unat (spi_rx_left ?c)"
    and run: "run_state (spi_ll_read_fifo base (spi_rx_buf ?c) (spi_rx_left ?c)) s = (word_of_nat (length vs),
       s\<lparr>trace := t, mem := (if spi_rx_buf ?c = 0 then mem s else store_bytes (mem s) (spi_rx_buf ?c) (map ucast vs))\<rparr>)"
    and t: "spi_view base t = (sent (spi_dr base) (trace s), received (spi_dr base) (trace s) @ vs)"
    by (rule spi_read_view)
  have "final (spi_isr_rx h) s = final (spi_isr_rx_rest h) (upd_spi h (spi_rx_advance (length vs))
      (s\<lparr>trace := t, mem := (if spi_rx_buf ?c = 0 then mem s else store_bytes (mem s) (spi_rx_buf ?c) (map ucast vs))\<rparr>))"
    using True run vs by (simp add: spi_isr_rx_def c spi_rx_advance_def [abs_def] ucast_of_nat_u64)
  with spi_isr_rest_keeps(1) [OF spi_rx_advances [OF inv ok vs t]] show ?thesis by simp
qed

lemma spi_isr_tx_keeps:
  assumes inv: "spi_stream h base m tb rb nt nr before got s" and ok: "spi_buffers_ok tb rb nt nr"
  shows "spi_stream h base m tb rb nt nr before got (final (spi_isr_tx h) s)"
proof (cases "is_tx_on (spi_desc s h)")
  case False
  then show ?thesis
    using spi_isr_rest_keeps(2) [OF inv] by (simp add: spi_isr_tx_def)
next
  case True
  let ?c = "spi_desc s h"
  have c: "spi_base ?c = base"
    using inv by (simp add: spi_stream_def Let_def)
  obtain k t where k: "k \<le> unat (spi_tx_left ?c)"
    and run: "run_state (spi_ll_write_fifo base (spi_tx_buf ?c) (spi_tx_left ?c)) s = (word_of_nat k, s\<lparr>trace := t\<rparr>)"
    and t: "spi_view base t = (sent (spi_dr base) (trace s) @ take k (spi_words (mem s) (spi_tx_buf ?c) (unat (spi_tx_left ?c))),
       received (spi_dr base) (trace s))"
    by (rule spi_write_view)
  have "final (spi_isr_tx h) s = final (spi_isr_tx_rest h) (upd_spi h (spi_tx_advance k) (s\<lparr>trace := t\<rparr>))"
    using True run k by (simp add: spi_isr_tx_def c spi_tx_advance_def [abs_def] ucast_of_nat_u64)
  with spi_isr_rest_keeps(2) [OF spi_tx_advances [OF inv ok k le_refl t]] show ?thesis by simp
qed

lemma spi_isr_done_keeps:
  fixes s :: "'x spi_state_scheme"
  assumes inv: "spi_stream h base m tb rb nt nr before got s"
    and idle: "spi_tx_left (spi_desc s h) = 0" "spi_rx_left (spi_desc s h) = 0"
  shows "spi_stream h base m tb rb nt nr before got (final (spi_isr_done h b) s)"
proof -
  let ?c = "spi_desc s h"
  let ?J = "\<lambda>s :: 'x spi_state_scheme. spi_stream h base m tb rb nt nr before got s
      \<and> spi_tx_left (spi_desc s h) = 0 \<and> spi_rx_left (spi_desc s h) = 0"
  have still: "keeps ?J p" if p: "still (spi_view base) p" for p :: "('x spi_state_scheme, 'c) state"
  proof (rule keepsI)
    fix s :: "'x spi_state_scheme" assume J: "?J s"
    obtain t where t: "final p s = s\<lparr>trace := t\<rparr>"
      using stillD [OF p, of s] by blast
    with J show "?J (final p s)"
      using keepsD [OF spi_stream_still [OF p]] by fastforce
  qed
  have upd: "keeps ?J (modify (upd_spi h (\<lambda>c. c\<lparr>is_tx_async := False, is_rx_async := False, is_tx_busy := False, is_rx_busy := False\<rparr>)))"
    by (intro keepsI) (auto simp: spi_stream_def Let_def)
  have sel: "keeps ?J (whenM (spi_role ?c = SPI_ROLE_MASTER) (spi_ll_select_chip (spi_inst ?c) 0))"
    using inv by (intro still still_intros) (simp add: spi_stream_def Let_def)
  have post: "keeps ?J (do { _ \<leftarrow> osal_semaphore_post w; ret () })" for w
    by (intro still still_intros)
  have call: "keeps ?J (whenM q (emit (Call f p xs)))" for q f p xs
    by (intro still still_intros) simp
  define rest where "rest = (do {
     whenM (spi_role ?c = SPI_ROLE_MASTER) (spi_ll_select_chip (spi_inst ?c) 0);
     modify (upd_spi h (\<lambda>c. c\<lparr>is_tx_async := False, is_rx_async := False, is_tx_busy := False, is_rx_busy := False\<rparr>));
     if is_rx_async ?c \<or> is_tx_async ?c
     then whenM (spi_callback_fn ?c \<noteq> F_NULL)
            (emit (Call (spi_callback_fn ?c) (spi_user_context ?c) [if b then SPI_RX_OVERFLOW else SPI_SUCCESS]))
     else do { _ \<leftarrow> osal_semaphore_post (spi_sem ?c); ret () } } :: ('x spi_state_scheme, unit) state)"
  have "keeps ?J rest"
    unfolding rest_def by (intro keeps_bind sel upd keeps_if post call)
  moreover have "final (spi_isr_done h b) s = final rest s"
    by (simp add: spi_isr_done_def rest_def)
  ultimately show ?thesis
    using keepsD [of ?J rest s] inv idle by simp
qed

lemma whenM_False: "whenM False m = ret ()"
  by (simp add: whenM_def)

lemma spi_isr_keeps_stream:
  assumes ok: "spi_buffers_ok tb rb nt nr"
  shows "keeps (spi_stream h base m tb rb nt nr before got) (spi_isr (spi_ptr h))"
proof (rule keepsI)
  fix s :: "'x spi_state_scheme" assume inv: "spi_stream h base m tb rb nt nr before got s"
  let ?c = "spi_desc s h" and ?st = "result (spi_ll_get_interrupt_status base) s"
  have c: "spi_base ?c = base" and hw: "no_overflow (env s) base"
    using inv by (simp_all add: spi_stream_def Let_def)
  have no: "?st AND SPI_RX_OVERFLOW_INT = 0"
  proof -
    have "\<not> bit ?st 3"
      using hw by (simp add: spi_ll_get_interrupt_status_def split_beta no_overflow_def bit_simps)
    then show ?thesis
      using and_exp_eq_0_iff_not_bit [of ?st 3] by (simp add: spi_ints)
  qed
  define s1 where "s1 = final (spi_ll_get_interrupt_status base) s"
  have inv1: "spi_stream h base m tb rb nt nr before got s1"
    unfolding s1_def by (intro keepsD [OF spi_stream_still] still_intros inv)
  define s2 where "s2 = final (whenM (?st AND SPI_RX_FULL_INT \<noteq> 0) (spi_isr_rx h)) s1"
  have inv2: "spi_stream h base m tb rb nt nr before got s2"
    unfolding s2_def using spi_isr_rx_keeps [OF inv1 ok] inv1 by simp
  define s3 where "s3 = final (whenM (?st AND SPI_TX_EMPTY_INT \<noteq> 0) (spi_isr_tx h)) s2"
  have inv3: "spi_stream h base m tb rb nt nr before got s3"
    unfolding s3_def using spi_isr_tx_keeps [OF inv2 ok] inv2 by simp
  have "final (spi_isr (spi_ptr h)) s = final (whenM (spi_tx_left (spi_desc s3 h) = 0 \<and> spi_rx_left (spi_desc s3 h) = 0)
      (spi_isr_done h False)) s3"
    unfolding s1_def s2_def s3_def
    by (simp add: spi_isr_def spi_ptr_def c split_beta Let_def no whenM_False del: run_whenM)
  then show "spi_stream h base m tb rb nt nr before got (final (spi_isr (spi_ptr h)) s)"
    using inv3 spi_isr_done_keeps [OF inv3, of False] by simp
qed

section \<open>The start of a transfer\<close>

lemma final_modify: "final (modify u \<bind> f) s = final (f ()) (u s)"
  by simp

lemma final_gets: "final (gets g \<bind> f) s = final (f (g s)) s"
  by simp

lemma spi_prefill_keeps:
  assumes inv: "spi_stream h base m tb rb nt nr before got s" and ok: "spi_buffers_ok tb rb nt nr"
  shows "spi_stream h base m tb rb nt nr before got (final (spi_prefill h) s)"
proof -
  let ?c = "spi_desc s h"
  let ?n = "if spi_tx_left ?c \<le> SPI_FIFO_DEPTH then spi_tx_left ?c else SPI_FIFO_DEPTH"
  have c: "spi_base ?c = base"
    using inv by (simp add: spi_stream_def Let_def)
  have n: "unat ?n \<le> unat (spi_tx_left ?c)"
    by (simp add: word_le_nat_alt)
  obtain k t where k: "k \<le> unat ?n"
    and run: "run_state (spi_ll_write_fifo base (spi_tx_buf ?c) ?n) s = (word_of_nat k, s\<lparr>trace := t\<rparr>)"
    and t: "spi_view base t = (sent (spi_dr base) (trace s) @ take k (spi_words (mem s) (spi_tx_buf ?c) (unat ?n)),
       received (spi_dr base) (trace s))"
    by (rule spi_write_view)
  have "final (spi_prefill h) s = upd_spi h (spi_tx_advance k) (s\<lparr>trace := t\<rparr>)"
    unfolding spi_prefill_def Let_def
    using run ucast_of_nat_u64 [OF k] by (simp only: run_gets run_state_bind split_beta fst_conv snd_conv c run_modify spi_tx_advance_def [abs_def])
  with spi_tx_advances [OF inv ok k n t] show ?thesis by simp
qed

lemma spi_xfer_starts:
  fixes s :: "'x spi_state_scheme"
  assumes inv: "spi_stream h base m tb rb nt nr before got
      (upd_spi h (\<lambda>c. c\<lparr>spi_tx_left := (if is_tx_on c then n else 0), spi_rx_left := (if is_rx_on c then n else 0)\<rparr>) s)"
    and ok: "spi_buffers_ok tb rb nt nr"
  shows "spi_stream h base m tb rb nt nr before got (final (spi_xfer h n) s)"
proof -
  let ?I = "spi_stream h base m tb rb nt nr before got"
  let ?s = "upd_spi h (\<lambda>c. c\<lparr>spi_tx_left := (if is_tx_on c then n else 0), spi_rx_left := (if is_rx_on c then n else 0)\<rparr>) s"
  let ?c = "spi_desc ?s h"
  have c: "spi_base ?c = base" "spi_role ?c = SPI_ROLE_MASTER \<longrightarrow> base = GET_BASE_ADDR (spi_inst ?c)"
    using inv by (simp_all add: spi_stream_def Let_def)
  have prefill: "keeps ?I (spi_prefill h)"
    using spi_prefill_keeps [OF _ ok] by (intro keepsI)
  have select: "keeps ?I (whenM (spi_role ?c = SPI_ROLE_MASTER) (spi_ll_select_chip i j))" if "i = spi_inst ?c" for i j
    using c(2) that by (cases "spi_role ?c = SPI_ROLE_MASTER") (auto simp: whenM_def intro!: keeps_intros still_intros)
  have mode: "keeps ?I (if is_tx_on ?c \<and> is_rx_on ?c then ret SPI_TX_RX_MOD
              else if is_tx_on ?c \<and> \<not> is_rx_on ?c then ret SPI_TX_MOD
              else if \<not> is_tx_on ?c \<and> is_rx_on ?c then ret SPI_RX_MOD
              else do { ub ''uninitialised mode''; ret 0 })"
    by (intro keeps_intros still_intros) simp
  have rx: "keeps ?I (whenM (spi_rx_left ?c > 0) (do {
       modify (upd_spi h (\<lambda>c. c\<lparr>rx_threshold := l\<rparr>));
       spi_ll_set_rx_threshold base l;
       spi_ll_enable_interrupt base SPI_RX_FULL_INT
     }))" for l
    by (intro keeps_intros still_intros)
  have tx: "keeps ?I (do { c \<leftarrow> get_spi h;
     whenM (spi_tx_left c > 0) (do {
       whenM (spi_role c = SPI_ROLE_SLAVE) (spi_prefill h);
       spi_ll_enable_interrupt base SPI_TX_EMPTY_INT
     }) })"
    by (intro keeps_bind keeps_gets keeps_whenM prefill spi_stream_still spi_still_ll)
  have out: "keeps ?I (whenM (spi_role ?c = SPI_ROLE_SLAVE) (spi_ll_set_slave_output base b))"
    "keeps ?I (spi_ll_set_transfermode base md)" for b md
    by (intro keeps_intros still_intros)+
  show ?thesis
    unfolding spi_xfer_def Let_def final_modify final_gets c(1)
    by (rule keepsD [where I = ?I, OF _ inv]) (rule keeps_bind [OF mode] keeps_bind [OF out(2)] keeps_bind [OF rx]
        keeps_bind [OF select [OF refl]] keeps_bind [OF out(1)] tx)+
qed

lemma spi_claim_free:
  assumes g: "granting (env s)" and none: "result (spi_claim h) s = None"
  shows "spi_is_open (spi_desc s h) \<and> \<not> is_tx_busy (spi_desc s h) \<and> \<not> is_rx_busy (spi_desc s h)"
    and "\<exists>t. final (spi_claim h) s = upd_spi h (\<lambda>c. c\<lparr>is_tx_busy := True, is_rx_busy := True\<rparr>) (s\<lparr>trace := t\<rparr>)
       \<and> spi_view base t = spi_view base (trace s)"
proof -
  let ?c = "spi_desc s h"
  obtain t where t: "run_state (osal_mutex_lock (spi_mutex ?c) OSAL_TIMEOUT_WAIT_FOREVER) s = (True, s\<lparr>trace := t\<rparr>)"
      "spi_view base t = spi_view base (trace s)"
    using granted_still(1) [OF g spi_still_osal(3)] by blast
  show c: "spi_is_open ?c \<and> \<not> is_tx_busy ?c \<and> \<not> is_rx_busy ?c"
    using none t by (auto simp: spi_claim_def split_beta split: if_splits)
  let ?s = "upd_spi h (\<lambda>c. c\<lparr>is_tx_busy := True, is_rx_busy := True\<rparr>) (s\<lparr>trace := t\<rparr>)"
  have "granting (env ?s)" using g by simp
  from granted_still(2) [OF this spi_still_osal(4)] obtain u where
      "run_state (osal_mutex_unlock (spi_mutex ?c)) ?s = (True, ?s\<lparr>trace := u\<rparr>)" "spi_view base u = spi_view base (trace ?s)"
    by blast
  with t c show "\<exists>t. final (spi_claim h) s = upd_spi h (\<lambda>c. c\<lparr>is_tx_busy := True, is_rx_busy := True\<rparr>) (s\<lparr>trace := t\<rparr>)
       \<and> spi_view base t = spi_view base (trace s)"
    by (auto simp: spi_claim_def upd_spi_def split_beta intro!: exI [of _ u])
qed

lemma spi_claim_granted:
  assumes g: "granting (env s)"
    and c: "spi_is_open (spi_desc s h)" "\<not> is_tx_busy (spi_desc s h)" "\<not> is_rx_busy (spi_desc s h)"
  shows "result (spi_claim h) s = None"
proof -
  obtain t where t: "run_state (osal_mutex_lock (spi_mutex (spi_desc s h)) OSAL_TIMEOUT_WAIT_FOREVER) s = (True, s\<lparr>trace := t\<rparr>)"
    using granted_still(1) [OF g spi_still_osal(3)] by blast
  have "granting (env (upd_spi h (\<lambda>c. c\<lparr>is_tx_busy := True, is_rx_busy := True\<rparr>) (s\<lparr>trace := t\<rparr>)))"
    using g by simp
  from granted(2) [OF this] t c show ?thesis
    by (simp add: spi_claim_def split_beta)
qed

lemma spi_claim_error: "result (spi_claim h) s = Some e \<Longrightarrow> e \<noteq> 0"
  by (auto simp: spi_claim_def split_beta split: if_splits)

lemma spi_busy_claim:
  assumes "granting (env s)" and "is_tx_busy (spi_desc s h) \<or> is_rx_busy (spi_desc s h)"
  shows "\<exists>e t. run_state (spi_claim h) s = (Some e, s\<lparr>trace := t\<rparr>) \<and> spi_view base t = spi_view base (trace s)"
proof -
  obtain t u where "run_state (osal_mutex_lock (spi_mutex (spi_desc s h)) OSAL_TIMEOUT_WAIT_FOREVER) s = (True, s\<lparr>trace := t\<rparr>)"
    "run_state (osal_mutex_unlock (spi_mutex (spi_desc s h))) (s\<lparr>trace := t\<rparr>) = (True, s\<lparr>trace := u\<rparr>)"
    "spi_view base u = spi_view base (trace s)"
    by (rule lock_unlock [OF assms(1) spi_still_osal(3,4)])
  with assms(2) show ?thesis
    by (auto simp: spi_claim_def intro!: exI)
qed

text \<open>The number of bytes each way: none without a buffer.\<close>

definition spi_count :: "u64 \<Rightarrow> u32 \<Rightarrow> nat" where
  "spi_count buf n = (if buf = 0 then 0 else unat n)"

lemma spi_xfer_async_starts:
  assumes ret: "result (spi_xfer_async (Some h) tb rb n) s = 0" and g: "granting (env s)"
    and c: "\<not> dma_enabled (spi_desc s h)" "spi_base (spi_desc s h) = base" "no_overflow (env s) base"
    and base: "base = spi_ll_get_base_addr (spi_inst (spi_desc s h)) (spi_role (spi_desc s h))"
    and rb: "spi_role (spi_desc s h) = SPI_ROLE_MASTER \<Longrightarrow> rb \<noteq> 0"
    and bufs: "spi_buffers_ok tb rb (spi_count tb n) (spi_count rb n)"
  shows "spi_stream h base (mem s) tb rb (spi_count tb n) (spi_count rb n) (sent (spi_dr base) (trace s))
    (received (spi_dr base) (trace s)) (final (spi_xfer_async (Some h) tb rb n) s)"
proof -
  let ?c = "spi_desc s h"
  have chk: "spi_is_handle_valid (Some h)" "n \<noteq> 0" "spi_role ?c = SPI_ROLE_MASTER \<longrightarrow> tb \<noteq> 0"
    using ret by (auto simp: spi_xfer_async_def spi_check_def split: if_splits)
  have claimed: "result (spi_claim h) s = None"
  proof (cases "result (spi_claim h) s")
    case (Some e)
    with spi_claim_error [OF Some] ret show ?thesis
      by (auto simp: spi_xfer_async_def spi_check_def split_beta split: if_splits)
  qed
  note free = spi_claim_free(1) [OF g claimed]
  obtain t where t: "final (spi_claim h) s = upd_spi h (\<lambda>c. c\<lparr>is_tx_busy := True, is_rx_busy := True\<rparr>) (s\<lparr>trace := t\<rparr>)"
      "spi_view base t = spi_view base (trace s)"
    using spi_claim_free(2) [OF g claimed] by blast
  let ?s2 = "upd_spi h (spi_begun True tb rb n) (upd_spi h (\<lambda>c. c\<lparr>is_tx_busy := True, is_rx_busy := True\<rparr>) (s\<lparr>trace := t\<rparr>))"
  have run: "final (spi_xfer_async (Some h) tb rb n) s = final (spi_xfer h n) ?s2"
    using ret chk claimed t c by (auto simp: spi_xfer_async_def spi_check_def split_beta spi_begun_def Let_def split: if_splits)
  have "spi_stream h base (mem s) tb rb (spi_count tb n) (spi_count rb n) (sent (spi_dr base) (trace s))
      (received (spi_dr base) (trace s))
      (upd_spi h (\<lambda>c. c\<lparr>spi_tx_left := (if is_tx_on c then n else 0), spi_rx_left := (if is_rx_on c then n else 0)\<rparr>) ?s2)"
    using free t chk g c rb
    by (auto simp: spi_stream_def spi_begun_def spi_count_def Let_def spi_view_def base spi_ll_get_base_addr_def GET_BASE_ADDR_def)
  from spi_xfer_starts [OF this bufs] show ?thesis
    unfolding run .
qed

section \<open>What can happen during a transfer\<close>

text \<open>
  The controller's interrupt; further transfers and requests while it is busy; the choice of a
  slave and a new callback, at any time; the byte counts.
\<close>

definition spi_busy :: "spi_handle \<Rightarrow> bool" where
  "spi_busy c \<longleftrightarrow> is_tx_busy c \<or> is_rx_busy c"

fun spi_refused :: "spi_ioctl_t \<Rightarrow> bool" where
  "spi_refused (SPI_SET_CONFIG p) = True"
| "spi_refused (SPI_ENABLE_DMA p) = True"
| "spi_refused SPI_DISABLE_DMA = True"
| "spi_refused (SPI_SET_RX_SAMPLING_DELAY p) = True"
| "spi_refused _ = False"

inductive spi_reaches :: "spi_slot \<Rightarrow> 'x spi_state_scheme \<Rightarrow> 'x spi_state_scheme \<Rightarrow> bool" for h s0 where
  started: "spi_reaches h s0 s0"
| interrupt: "spi_reaches h s0 s \<Longrightarrow> spi_reaches h s0 (final (spi_isr (spi_ptr h)) s)"
| xfer_async: "spi_reaches h s0 s \<Longrightarrow> spi_busy (spi_desc s h) \<Longrightarrow> spi_reaches h s0 (final (spi_xfer_async (Some h) a b k) s)"
| xfer_sync: "spi_reaches h s0 s \<Longrightarrow> spi_busy (spi_desc s h) \<Longrightarrow> spi_reaches h s0 (final (spi_xfer_sync during (Some h) a b k) s)"
| ioctl: "spi_reaches h s0 s \<Longrightarrow> spi_busy (spi_desc s h) \<Longrightarrow> spi_refused cmd \<Longrightarrow> spi_reaches h s0 (final (spi_ioctl (Some h) cmd) s)"
| tx_count: "spi_reaches h s0 s \<Longrightarrow> spi_reaches h s0 (final (spi_ioctl (Some h) (SPI_GET_TX_NBYTES p)) s)"
| rx_count: "spi_reaches h s0 s \<Longrightarrow> spi_reaches h s0 (final (spi_ioctl (Some h) (SPI_GET_RX_NBYTES p)) s)"
| select: "spi_reaches h s0 s \<Longrightarrow> spi_reaches h s0 (final (spi_select_slave (Some h) ss) s)"
| set_callback: "spi_reaches h s0 s \<Longrightarrow> spi_reaches h s0 (final (spi_set_callback (Some h) f d) s)"

inductive_cases spi_reachesE: "spi_reaches h s0 s"

lemma spi_busy_calls:
  assumes "granting (env s)" and "spi_busy (spi_desc s h)"
  shows "\<exists>t. final (spi_xfer_async (Some h) a b k) s = s\<lparr>trace := t\<rparr> \<and> spi_view base t = spi_view base (trace s)"
    and "\<exists>t. final (spi_xfer_sync during (Some h) a b k) s = s\<lparr>trace := t\<rparr> \<and> spi_view base t = spi_view base (trace s)"
proof -
  have same: "\<exists>t. s = s\<lparr>trace := t\<rparr> \<and> spi_view base t = spi_view base (trace s)"
    by (intro exI [of _ "trace s"]) simp
  obtain e t where c: "run_state (spi_claim h) s = (Some e, s\<lparr>trace := t\<rparr>)" "spi_view base t = spi_view base (trace s)"
    using spi_busy_claim assms unfolding spi_busy_def by blast
  show "\<exists>t. final (spi_xfer_async (Some h) a b k) s = s\<lparr>trace := t\<rparr> \<and> spi_view base t = spi_view base (trace s)"
    using c same by (auto simp: spi_xfer_async_def spi_check_def)
  show "\<exists>t. final (spi_xfer_sync during (Some h) a b k) s = s\<lparr>trace := t\<rparr> \<and> spi_view base t = spi_view base (trace s)"
    using c same by (auto simp: spi_xfer_sync_def spi_check_def)
qed

lemma spi_async_accepted:
  assumes "granting (env s)" and "spi_is_handle_valid (Some h)" and "n \<noteq> 0" and "tb \<noteq> 0"
    and c: "spi_is_open (spi_desc s h)" "\<not> spi_busy (spi_desc s h)" "\<not> dma_enabled (spi_desc s h)"
  shows "result (spi_xfer_async (Some h) tb rb n) s = 0"
proof -
  have none: "result (spi_claim h) s = None"
    using assms by (intro spi_claim_granted) (simp_all add: spi_busy_def)
  from spi_claim_free(2) [OF assms(1) this] obtain t where
    "final (spi_claim h) s = upd_spi h (\<lambda>c. c\<lparr>is_tx_busy := True, is_rx_busy := True\<rparr>) (s\<lparr>trace := t\<rparr>)" by blast
  with none assms show ?thesis
    by (simp add: spi_xfer_async_def spi_check_def split_beta Let_def spi_begun_def)
qed

lemma spi_busy_ioctl:
  "spi_busy (spi_desc s h) \<Longrightarrow> spi_refused cmd \<Longrightarrow> final (spi_ioctl (Some h) cmd) s = s"
  by (cases cmd) (auto simp: spi_ioctl_def spi_busy_def Let_def)

lemma spi_reaches_stream:
  assumes "spi_reaches h s0 s" and "spi_stream h base m tb rb nt nr before got s0" and ok: "spi_buffers_ok tb rb nt nr"
  shows "spi_stream h base m tb rb nt nr before got s"
  using assms(1,2)
proof (induction rule: spi_reaches.induct)
  case (interrupt s)
  then show ?case using keepsD [OF spi_isr_keeps_stream [OF ok]] by blast
next
  case (xfer_async s a b k)
  then have "spi_stream h base m tb rb nt nr before got s" "granting (env s)"
    by (simp_all add: spi_stream_def Let_def)
  then show ?case
    using spi_busy_calls(1) [of s h a b k base] xfer_async.hyps spi_stream_trace by metis
next
  case (xfer_sync s during a b k)
  then have "spi_stream h base m tb rb nt nr before got s" "granting (env s)"
    by (simp_all add: spi_stream_def Let_def)
  then show ?case
    using spi_busy_calls(2) [of s h during a b k base] xfer_sync.hyps spi_stream_trace by metis
next
  case (ioctl s cmd)
  then show ?case by (simp add: spi_busy_ioctl)
next
  case (select s ss)
  then show ?case by (auto simp: spi_select_slave_def spi_stream_def Let_def)
next
  case (set_callback s f d)
  then show ?case by (auto simp: spi_set_callback_def spi_stream_def Let_def)
qed (simp_all add: spi_ioctl_def Let_def)

text \<open>
  C6. A transfer by interrupt sends the bytes of the one buffer and stores the received bytes in
  the other, in order and without loss, for a bus master with both buffers and for a slave with
  either: after an asynchronous transfer is accepted, whatever the device reports, after any
  number of interrupts, of transfers and requests that find the controller busy, of slave
  selections, of new callbacks and of queries, exactly the first k bytes have been put into the
  data register, the values read from it are in memory from the start of the receive buffer on
  and nothing else in memory has changed, the two counters that SPI_GET_TX_NBYTES and
  SPI_GET_RX_NBYTES return are those numbers, and the controller is free again only when both
  directions are complete. The kernel grants the driver's requests, the receive FIFO does not
  overflow, DMA is off and the buffers do not overlap.
\<close>

theorem spi_full_duplex_in_order:
  assumes "result (spi_xfer_async (Some h) tb rb n) s = 0" and "granting (env s)"
    and "\<not> dma_enabled (spi_desc s h)"
    and "spi_base (spi_desc s h) = spi_ll_get_base_addr (spi_inst (spi_desc s h)) (spi_role (spi_desc s h))"
    and "no_overflow (env s) (spi_base (spi_desc s h))"
    and "spi_role (spi_desc s h) = SPI_ROLE_MASTER \<Longrightarrow> rb \<noteq> 0"
    and "spi_buffers_ok tb rb (spi_count tb n) (spi_count rb n)"
    and "spi_reaches h (final (spi_xfer_async (Some h) tb rb n) s) s'"
  shows "\<exists>k \<le> spi_count tb n. \<exists>vs. length vs \<le> spi_count rb n
    \<and> sent (spi_dr (spi_base (spi_desc s h))) (trace s') =
        sent (spi_dr (spi_base (spi_desc s h))) (trace s) @ take k (spi_words (mem s) tb (spi_count tb n))
    \<and> received (spi_dr (spi_base (spi_desc s h))) (trace s') = received (spi_dr (spi_base (spi_desc s h))) (trace s) @ vs
    \<and> mem s' = store_bytes (mem s) rb (map ucast vs)
    \<and> result (spi_ioctl (Some h) (SPI_GET_TX_NBYTES True)) s' = (0, SO_nbytes (word_of_nat k))
    \<and> result (spi_ioctl (Some h) (SPI_GET_RX_NBYTES True)) s' = (0, SO_nbytes (word_of_nat (length vs)))
    \<and> (\<not> spi_busy (spi_desc s' h) \<longrightarrow> k = spi_count tb n \<and> length vs = spi_count rb n)"
proof -
  let ?base = "spi_base (spi_desc s h)" and ?nt = "spi_count tb n" and ?nr = "spi_count rb n"
  let ?before = "sent (spi_dr ?base) (trace s)" and ?got = "received (spi_dr ?base) (trace s)"
  have "spi_stream h ?base (mem s) tb rb ?nt ?nr ?before ?got (final (spi_xfer_async (Some h) tb rb n) s)"
    using assms by (intro spi_xfer_async_starts) simp_all
  from spi_reaches_stream [OF assms(8) this assms(7)]
  have inv: "spi_stream h ?base (mem s) tb rb ?nt ?nr ?before ?got s'" .
  let ?c = "spi_desc s' h"
  let ?k = "?nt - unat (spi_tx_left ?c)"
  obtain vs :: "u32 list" where vs: "length vs = ?nr - unat (spi_rx_left ?c)"
    "received (spi_dr ?base) (trace s') = ?got @ vs" "mem s' = store_bytes (mem s) rb (map ucast vs)"
    using spi_stream_received [OF inv] by blast
  have c: "spi_is_open ?c" "spi_is_handle_valid (Some h)" "unat (spi_tx_left ?c) \<le> ?nt" "unat (spi_rx_left ?c) \<le> ?nr"
      "spi_tx_size ?c = word_of_nat ?nt" "spi_rx_size ?c = word_of_nat ?nr"
      "sent (spi_dr ?base) (trace s') = ?before @ take ?k (spi_words (mem s) tb ?nt)"
      "spi_busy ?c \<or> unat (spi_tx_left ?c) = 0 \<and> unat (spi_rx_left ?c) = 0"
    using inv by (auto simp add: spi_stream_def spi_busy_def Let_def)
  then have "spi_tx_size ?c - spi_tx_left ?c = word_of_nat ?k" "spi_rx_size ?c - spi_rx_left ?c = word_of_nat (length vs)"
    unfolding vs(1) by (simp_all add: of_nat_diff)
  then have "result (spi_ioctl (Some h) (SPI_GET_TX_NBYTES True)) s' = (0, SO_nbytes (word_of_nat ?k))"
    "result (spi_ioctl (Some h) (SPI_GET_RX_NBYTES True)) s' = (0, SO_nbytes (word_of_nat (length vs)))"
    using c(1,2) by (simp_all add: spi_ioctl_def Let_def)
  with c vs show ?thesis
    by (intro exI [of _ ?k] exI [of _ vs]) auto
qed

text \<open>A controller with room and data that reports both events.\<close>

definition spi_env :: env where
  "spi_env = ram_env\<lparr>hw_rd32 := \<lambda>t a.
     if a = 0x10DA4028 then 0xA
     else if a = 0x10DA4030 then 0x11
     else if a = 0x10DA4060 then word_of_nat (length t)
     else (case last_wr32 t a of None \<Rightarrow> 0 | Some v \<Rightarrow> v)\<rparr>"

definition spi_machine :: spi_state where
  "spi_machine = i2c_state.extend (i2c_machine\<lparr>env := spi_env, trace := []\<rparr>)
     \<lparr>spi_desc = (\<lambda>_. spi_zero)((0, False) := spi_zero\<lparr>spi_base := 0x10DA4000, spi_is_open := True,
        spi_callback_fn := F_user 1, spi_mutex := 1, spi_sem := 2, slave_id := 1\<rparr>),
      spi_tx_dma_dummy_at = (\<lambda>_. 0x300000), spi_rx_dma_discard_at = (\<lambda>_. 0x310000)\<rparr>"

lemma spi_machine_simps [simp]:
  "env spi_machine = spi_env" "trace spi_machine = []" "mem spi_machine = ucast"
  "spi_desc spi_machine = (\<lambda>_. spi_zero)((0, False) := spi_zero\<lparr>spi_base := 0x10DA4000, spi_is_open := True,
     spi_callback_fn := F_user 1, spi_mutex := 1, spi_sem := 2, slave_id := 1\<rparr>)"
  by (simp_all add: spi_machine_def i2c_state.defs)

lemma spi_env_ok: "granting spi_env" "no_overflow spi_env 0x10DA4000"
  by (simp add: granting_def spi_env_def ram_env_def) (simp add: no_overflow_def spi_env_def spi_regs)

lemma spi_machine_accepts: "result (spi_xfer_async (Some (0, False)) 0x100 0x200 2) spi_machine = 0"
  by (rule spi_async_accepted)
    (simp_all add: spi_env_ok spi_is_handle_valid_def SPI_MASTER_NUM_INSTANCES_def spi_zero_def spi_busy_def)

theorem spi_full_duplex_in_order_witness:
  "\<exists>k \<le> 2. sent 0x10DA4060 (trace (final (spi_isr (V_spi 0 False)) (final (spi_xfer_async (Some (0, False)) 0x100 0x200 2) spi_machine)))
      = take k [0x00, 0x01]"
proof -
  have "spi_reaches (0, False) (final (spi_xfer_async (Some (0, False)) 0x100 0x200 2) spi_machine)
      (final (spi_isr (spi_ptr (0, False))) (final (spi_xfer_async (Some (0, False)) 0x100 0x200 2) spi_machine))"
    by (intro spi_reaches.intros)
  moreover have "spi_buffers_ok 0x100 0x200 2 2"
    by (simp add: spi_buffers_ok_def less_2_cases_iff)
  ultimately show ?thesis
    using spi_full_duplex_in_order [OF spi_machine_accepts, of "final (spi_isr (spi_ptr (0, False))) (final (spi_xfer_async (Some (0, False)) 0x100 0x200 2) spi_machine)"]
    by (auto simp: spi_env_ok spi_zero_def spi_dr_def spi_regs spi_words_def upt_rec spi_count_def spi_ll_get_base_addr_def
        GET_BASE_ADDR_MASTER_def spi_ptr_def)
qed

end
