(* ===== verification/Spi_Wf.thy ===== *)
theory Spi_Wf
  imports Spi_Transfers
begin

unbundle bit_operations_syntax

text \<open>
  What holds of the descriptors of the SPI driver at any time, how a transfer by DMA ends, and
  what becomes of the bytes a master has no buffer for.
\<close>

section \<open>Predicates on the descriptors\<close>

definition spi_only :: "('x spi_state_scheme \<Rightarrow> bool) \<Rightarrow> bool" where
  "spi_only I \<longleftrightarrow> (\<forall>s t. spi_desc s = spi_desc t \<longrightarrow> I s = I t)"

lemma spi_onlyD: "spi_only I \<Longrightarrow> spi_desc s = spi_desc t \<Longrightarrow> I s = I t"
  unfolding spi_only_def by blast

lemma spi_only_below:
  assumes "spi_only I"
  shows "below_blind I"
proof -
  have "irq_blind I"
    by (rule irq_blindI; rule spi_onlyD [OF assms]; simp add: set_callback_def)
  then show ?thesis
    unfolding below_blind_def
    by (intro conjI allI) (auto intro!: spi_onlyD [OF assms, THEN iffD1] spi_onlyD [OF assms] simp: upd_dma_def dma_clear_chain_def upd_lli_def)
qed

lemmas spi_only_trace = irq_blind_trace [OF below_irq [OF spi_only_below]]
lemmas spi_dma_keeps = below_keeps [OF spi_only_below]

lemma spi_loops_keep:
  assumes "spi_only I"
  shows "keeps I (spi_dummy_write_loop r base c)" "keeps I (spi_write_loop r base buf c)"
    "keeps I (spi_dummy_read_loop r base c)" "keeps I (spi_read_loop r base buf c)"
proof -
  note rules = keeps_intros keeps_prims_blind [OF spi_only_trace [OF assms]] below_modify(4) [OF spi_only_below [OF assms]]
  show "keeps I (spi_dummy_write_loop r base c)"
    by (induction r arbitrary: c) (auto intro!: rules)
  show "keeps I (spi_write_loop r base buf c)"
    by (induction r arbitrary: c) (auto intro!: rules)
  show "keeps I (spi_dummy_read_loop r base c)"
    by (induction r arbitrary: c) (auto intro!: rules)
  show "keeps I (spi_read_loop r base buf c)"
    by (induction r arbitrary: c) (auto intro!: rules)
qed

lemma spi_ll_keeps:
  assumes "spi_only I"
  shows "keeps I (spi_ll_enable base)" "keeps I (spi_ll_disable base)" "keeps I (spi_ll_enable_dma base b1 b2)"
    "keeps I (spi_ll_disable_dma base)" "keeps I (spi_ll_set_dma_thresholds base l1 l2)" "keeps I (spi_ll_set_slave_output base b1)"
    "keeps I (spi_ll_init i r)" "keeps I (spi_ll_deinit i r)" "keeps I (spi_ll_set_config base f md)"
    "keeps I (spi_ll_set_rx_sampling_delay base d)" "keeps I (spi_ll_get_config base)" "keeps I (spi_ll_set_transfermode base m)"
    "keeps I (spi_ll_select_chip i sl)" "keeps I (spi_ll_get_interrupt_status base)" "keeps I (spi_ll_enable_interrupt base q)"
    "keeps I (spi_ll_disable_interrupt base q)" "keeps I (spi_ll_clear_rx_overflow base)" "keeps I (spi_ll_set_rx_threshold base l1)"
    "keeps I (spi_ll_write_fifo base buf n)" "keeps I (spi_ll_read_fifo base buf n)"
proof -
  note t = spi_only_trace [OF assms]
  note rules = keeps_intros keeps_prims_blind [OF t] spi_loops_keep [OF assms] rstmgr_keeps_blind [OF t] clk_keeps_blind [OF t]
  show "keeps I (spi_ll_enable base)" "keeps I (spi_ll_disable base)" "keeps I (spi_ll_enable_dma base b1 b2)"
    "keeps I (spi_ll_disable_dma base)" "keeps I (spi_ll_set_dma_thresholds base l1 l2)" "keeps I (spi_ll_set_slave_output base b1)"
    "keeps I (spi_ll_init i r)" "keeps I (spi_ll_deinit i r)" "keeps I (spi_ll_set_config base f md)"
    "keeps I (spi_ll_set_rx_sampling_delay base d)" "keeps I (spi_ll_get_config base)" "keeps I (spi_ll_set_transfermode base m)"
    "keeps I (spi_ll_select_chip i sl)" "keeps I (spi_ll_get_interrupt_status base)" "keeps I (spi_ll_enable_interrupt base q)"
    "keeps I (spi_ll_disable_interrupt base q)" "keeps I (spi_ll_clear_rx_overflow base)" "keeps I (spi_ll_set_rx_threshold base l1)"
    "keeps I (spi_ll_write_fifo base buf n)" "keeps I (spi_ll_read_fifo base buf n)"
    unfolding spi_ll_defs spi_ll_write_fifo_def spi_ll_read_fifo_def Let_def
    by (intro rules)+
qed

section \<open>Well-formed descriptors\<close>

text \<open>
  An open descriptor belongs to the controller of its place, in the role of its array, and has its
  lock and its semaphore; with DMA enabled the two contexts the channels carry point back to it.
\<close>

definition spi_ok :: "spi_slot \<Rightarrow> spi_handle \<Rightarrow> bool" where
  "spi_ok h c \<longleftrightarrow>
     (spi_is_open c \<longrightarrow> spi_is_handle_valid (Some h) \<and> spi_inst c = word_of_nat (fst h)
        \<and> spi_role c = (if snd h then SPI_ROLE_SLAVE else SPI_ROLE_MASTER)
        \<and> spi_base c = spi_ll_get_base_addr (spi_inst c) (spi_role c) \<and> spi_mutex c \<noteq> 0 \<and> spi_sem c \<noteq> 0)
   \<and> (dma_enabled c \<longrightarrow> dma_cb_tx_ctx c = \<lparr>ctx_hspi = Some h, ctx_is_tx = True\<rparr>
        \<and> dma_cb_rx_ctx c = \<lparr>ctx_hspi = Some h, ctx_is_tx = False\<rparr>)"

definition spi_wf :: "'x spi_state_scheme \<Rightarrow> bool" where
  "spi_wf s \<longleftrightarrow> (\<forall>h. spi_ok h (spi_desc s h))"

lemma spi_only_wf [simp]: "spi_only spi_wf"
  unfolding spi_only_def spi_wf_def by simp

lemma spi_wf_upd [keeps_intros]: "(\<And>c. spi_ok h c \<Longrightarrow> spi_ok h (f c)) \<Longrightarrow> keeps spi_wf (modify (upd_spi h f))"
  by (rule keepsI) (simp add: spi_wf_def del: split_paired_All)

lemmas spi_wf_rules = keeps_prims_blind [OF spi_only_trace [OF spi_only_wf]] keeps_emit_blind [OF spi_only_trace [OF spi_only_wf]]
  osal_keeps_blind [OF spi_only_trace [OF spi_only_wf]] spi_dma_keeps [OF spi_only_wf] spi_ll_keeps [OF spi_only_wf]

section \<open>Every operation keeps the descriptors well-formed\<close>

lemma spi_wf_isr [keeps_intros]: "keeps spi_wf (spi_isr p)"
proof -
  have "keeps spi_wf (spi_isr_rx h)" "keeps spi_wf (spi_isr_tx h)" "keeps spi_wf (spi_isr_done h b)" for h b
    unfolding spi_isr_rx_def spi_isr_rx_rest_def spi_isr_tx_def spi_isr_tx_rest_def spi_isr_done_def Let_def
    by (intro keeps_intros spi_wf_rules; simp add: spi_ok_def)+
  then show ?thesis
    by (cases p) (auto simp: spi_isr_def Let_def intro!: keeps_intros spi_wf_rules)
qed

lemma spi_wf_dma_callback [keeps_intros]: "keeps spi_wf (spi_dma_callback p)"
proof (cases p)
  case (V_spi_dma i r tx)
  show ?thesis
    unfolding V_spi_dma spi_dma_callback_def vptr.case Let_def
    by (intro keeps_intros spi_wf_rules; simp add: spi_ok_def)
qed (simp_all add: spi_dma_callback_def keeps_ret spi_wf_rules)

lemma spi_wf_helpers [keeps_intros]:
  "keeps spi_wf (spi_dma_close_channels h)" "keeps spi_wf (spi_dma_deinit h)" "keeps spi_wf (spi_prefill h)"
  "keeps spi_wf (spi_dma_off base)" "keeps spi_wf (spi_check hi a b n)" "keeps spi_wf (spi_claim h)"
  "keeps spi_wf (spi_stop_channel fin d)" "keeps spi_wf (spi_drain_fifo h)"
proof -
  show close: "keeps spi_wf (spi_dma_close_channels h)"
    unfolding spi_dma_close_channels_def by (intro keeps_intros spi_wf_rules; simp add: spi_ok_def)
  show "keeps spi_wf (spi_dma_deinit h)"
    unfolding spi_dma_deinit_def by (intro keeps_intros spi_wf_rules close; simp add: spi_ok_def)
  show "keeps spi_wf (spi_prefill h)" "keeps spi_wf (spi_dma_off base)" "keeps spi_wf (spi_check hi a b n)" "keeps spi_wf (spi_claim h)"
    "keeps spi_wf (spi_stop_channel fin d)" "keeps spi_wf (spi_drain_fifo h)"
    unfolding spi_prefill_def spi_dma_off_def spi_check_def spi_claim_def spi_stop_channel_def spi_drain_fifo_def Let_def
    by (intro keeps_intros spi_wf_rules; simp add: spi_ok_def)+
qed

lemma spi_wf_start [keeps_intros]: "keeps spi_wf (spi_xfer h n)" "keeps spi_wf (spi_start_dma h a b n)"
proof -
  show "keeps spi_wf (spi_xfer h n)"
    unfolding spi_xfer_def Let_def by (intro keeps_intros spi_wf_rules; simp add: spi_ok_def)
  have "keeps spi_wf (spi_dma_start_failed h)"
    unfolding spi_dma_start_failed_def by (intro keeps_intros spi_wf_rules)
  then have "keeps spi_wf (spi_dma_transfer h a b n)"
    unfolding spi_dma_transfer_def spi_setup_dma_xfer_def Let_def by (intro keeps_intros spi_wf_rules; simp add: spi_ok_def)
  then show "keeps spi_wf (spi_start_dma h a b n)"
    unfolding spi_start_dma_def by (intro keeps_intros spi_wf_rules; simp add: spi_ok_def spi_unbusy_def Let_def)
qed

lemma spi_wf_transfers:
  "keeps spi_wf (spi_xfer_async hi a b n)" "keeps spi_wf during \<Longrightarrow> keeps spi_wf (spi_xfer_sync during hi a b n)"
  unfolding spi_xfer_async_def spi_xfer_sync_def
  by ((subst Let_def)+, intro keeps_intros spi_wf_rules; (simp add: spi_ok_def spi_begun_def spi_unbusy_def Let_def)?)+

lemma spi_wf_control:
  "keeps spi_wf (spi_set_callback hi f p)" "keeps spi_wf (spi_cancel hi)" "keeps spi_wf (spi_select_slave hi ss)"
  "keeps spi_wf (spi_close hi)"
  unfolding spi_set_callback_def spi_cancel_def spi_select_slave_def spi_close_def Let_def
  by (intro keeps_intros spi_wf_rules; simp add: spi_ok_def)+

text \<open>What opening can leave of the descriptors: nothing changed, a closed one, an open one.\<close>

inductive spi_opened :: "spi_slot \<Rightarrow> (spi_slot \<Rightarrow> spi_handle) \<Rightarrow> (spi_slot \<Rightarrow> spi_handle) \<Rightarrow> bool" for h d where
  refused: "spi_opened h d d"
| failed: "\<not> spi_is_open c \<Longrightarrow> \<not> dma_enabled c \<Longrightarrow> spi_opened h d (d(h := c))"
| opened: "m \<noteq> 0 \<Longrightarrow> w \<noteq> 0 \<Longrightarrow> spi_is_handle_valid (Some h) \<Longrightarrow> i = word_of_nat (fst h) \<Longrightarrow>
    r = (if snd h then SPI_ROLE_SLAVE else SPI_ROLE_MASTER) \<Longrightarrow> b = spi_ll_get_base_addr i r \<Longrightarrow>
    spi_opened h d (d(h := spi_zero\<lparr>spi_inst := i, spi_role := r, spi_base := b, spi_mutex := m, spi_sem := w, spi_is_open := True\<rparr>))"

lemma spi_only_frame: "spi_only (\<lambda>s. spi_desc s = v)"
  unfolding spi_only_def by simp

lemma spi_desc_frames [simp]:
  fixes s :: "'x spi_state_scheme"
  shows "spi_desc (final (osal_mutex_delete w) s) = spi_desc s" "spi_desc (final (osal_semaphore_delete w) s) = spi_desc s"
    "spi_desc (final osal_mutex_create s) = spi_desc s" "spi_desc (final osal_semaphore_create s) = spi_desc s"
    "spi_desc (final (interrupt_register_isr n f p') s) = spi_desc s" "spi_desc (final (interrupt_enable n pr) s) = spi_desc s"
    "spi_desc (final (spi_ll_init i r) s) = spi_desc s" "spi_desc (final (spi_ll_disable_interrupt base q) s) = spi_desc s"
    "spi_desc (final (spi_ll_enable_interrupt base q) s) = spi_desc s"
  by (intro frame_of_keeps osal_keeps_blind [OF spi_only_trace [OF spi_only_frame]] spi_ll_keeps [OF spi_only_frame]
      irq_keeps_blind [OF below_irq [OF spi_only_below [OF spi_only_frame]]])+

lemma spi_open_desc:
  "spi_opened (unat i, False) (spi_desc s) (spi_desc (final (spi_open i) s))"
  "spi_opened (unat i, True) (spi_desc s) (spi_desc (final (spi_slave_open i) s))"
proof -
  have valid: "spi_is_handle_valid (Some (unat i, b))" if "\<not> 2 \<le> i" for b
    using that by (simp add: spi_is_handle_valid_def SPI_MASTER_NUM_INSTANCES_def SPI_SLAVE_NUM_INSTANCES_def word_le_nat_alt)
  show "spi_opened (unat i, False) (spi_desc s) (spi_desc (final (spi_open i) s))"
    by (simp add: spi_open_def Let_def split_beta SPI_MASTER_NUM_INSTANCES_def refused failed opened valid spi_zero_def [THEN arg_cong, of spi_is_open]
        spi_zero_def [THEN arg_cong, of dma_enabled])
  show "spi_opened (unat i, True) (spi_desc s) (spi_desc (final (spi_slave_open i) s))"
    by (simp add: spi_slave_open_def Let_def split_beta SPI_SLAVE_NUM_INSTANCES_def refused failed opened valid spi_zero_def [THEN arg_cong, of spi_is_open]
        spi_zero_def [THEN arg_cong, of dma_enabled])
qed

lemma spi_opened_wf:
  assumes "spi_opened h (spi_desc s) (spi_desc t)" and wf: "spi_wf s"
  shows "spi_wf t"
  using assms(1)
proof cases
  case refused
  with wf show ?thesis by (simp add: spi_wf_def)
next
  case (failed c)
  with wf show ?thesis by (simp add: spi_wf_def spi_ok_def)
next
  case (opened m w i r b)
  with wf show ?thesis by (simp add: spi_wf_def spi_ok_def spi_zero_def del: split_paired_All)
qed

lemma spi_wf_open: "keeps spi_wf (spi_open i)" "keeps spi_wf (spi_slave_open i)"
  by (intro keepsI spi_opened_wf [OF spi_open_desc(1)] spi_opened_wf [OF spi_open_desc(2)]; assumption)+

text \<open>Enabling DMA sets the contexts before the flag.\<close>

definition spi_linked :: "spi_slot \<Rightarrow> 'x spi_state_scheme \<Rightarrow> bool" where
  "spi_linked h s \<longleftrightarrow> spi_wf s \<and> dma_cb_tx_ctx (spi_desc s h) = \<lparr>ctx_hspi = Some h, ctx_is_tx = True\<rparr>
     \<and> dma_cb_rx_ctx (spi_desc s h) = \<lparr>ctx_hspi = Some h, ctx_is_tx = False\<rparr>"

lemma spi_only_linked: "spi_only (spi_linked h)"
  unfolding spi_only_def spi_linked_def spi_wf_def by simp

lemma spi_linked_wf: "(\<And>s. spi_linked h s \<Longrightarrow> spi_wf s)"
  by (simp add: spi_linked_def)

lemma final_if: "(b \<Longrightarrow> R (final m s)) \<Longrightarrow> (\<not> b \<Longrightarrow> R (final n s)) \<Longrightarrow> R (final (if b then m else n) s)"
  by simp

lemma spi_wf_dma_init [keeps_intros]: "keeps spi_wf (spi_dma_init h cfg)"
proof (rule keepsI)
  fix s :: "'x spi_state_scheme" assume wf: "spi_wf s"
  have h: "keeps spi_wf (modify (upd_spi h (\<lambda>c. c\<lparr>h_dma_tx := d\<rparr>)))" "keeps spi_wf (modify (upd_spi h (\<lambda>c. c\<lparr>h_dma_rx := d\<rparr>)))" for d
    by (intro spi_wf_upd; simp add: spi_ok_def)+
  have close: "spi_wf (final (do { spi_dma_close_channels h; ret e }) s)" if "spi_wf s" for e :: int and s :: "'x spi_state_scheme"
    using keepsD [OF keeps_bind [OF spi_wf_helpers(1) keeps_ret] that] .
  have link: "spi_linked h (final (modify (upd_spi h (\<lambda>c. c\<lparr>dma_cb_tx_ctx := \<lparr>ctx_hspi = Some h, ctx_is_tx = True\<rparr>,
         dma_cb_rx_ctx := \<lparr>ctx_hspi = Some h, ctx_is_tx = False\<rparr>\<rparr>))) s)" if "spi_wf s" for s :: "'x spi_state_scheme"
    using that by (auto simp add: spi_linked_def spi_wf_def spi_ok_def simp del: split_paired_All)
  have enabled: "spi_wf (final (do { modify (upd_spi h (\<lambda>c. c\<lparr>dma_tx_done := False, dma_rx_done := False, dma_enabled := True\<rparr>)); ret e }) s)"
    if "spi_linked h s" for e :: int and s :: "'x spi_state_scheme"
    using that by (auto simp add: spi_linked_def spi_wf_def spi_ok_def simp del: split_paired_All)
  note cfg = spi_dma_keeps(2) [OF spi_only_linked] and open_ = spi_dma_keeps(1) [OF spi_only_wf]
  show "spi_wf (final (spi_dma_init h cfg) s)"
    unfolding spi_dma_init_def Let_def
    by (rule via [where P = spi_wf, OF keeps_gets wf], rule via [where P = spi_wf, OF open_], assumption,
        rule via [where P = spi_wf, OF h(1)], assumption, rule via [where P = spi_wf, OF open_], assumption,
        rule via [where P = spi_wf, OF h(2)], assumption, rule final_if, erule close,
        rule via_step [where Q = "spi_linked h"], erule link, rule via [OF cfg], assumption, rule final_if,
        rule close, erule spi_linked_wf, rule via [OF cfg], assumption, rule final_if,
        rule close, erule spi_linked_wf, erule enabled)
qed

lemma spi_wf_ioctl: "keeps spi_wf (spi_ioctl hi cmd)"
  by (cases cmd) (auto simp: spi_ioctl_def Let_def intro!: keeps_intros spi_wf_rules)

section \<open>Any history of the driver\<close>

text \<open>
  Everything the driver can be asked to do, in any order and with any arguments, and the
  interrupts and the DMA completions in between; what a blocking call waits through is any list of
  these.
\<close>

fun spi_events :: "(bool \<times> vptr) list \<Rightarrow> ('x spi_state_scheme, unit) state" where
  "spi_events [] = ret ()"
| "spi_events ((dma, p) # es) = do { _ \<leftarrow> (if dma then spi_dma_callback p else spi_isr p); spi_events es }"

inductive spi_runs :: "'x spi_state_scheme \<Rightarrow> 'x spi_state_scheme \<Rightarrow> bool" for s0 where
  boot: "spi_runs s0 s0"
| opens: "spi_runs s0 s \<Longrightarrow> spi_runs s0 (final (spi_open i) s)"
| opens_slave: "spi_runs s0 s \<Longrightarrow> spi_runs s0 (final (spi_slave_open i) s)"
| closes: "spi_runs s0 s \<Longrightarrow> spi_runs s0 (final (spi_close hi) s)"
| callbacks: "spi_runs s0 s \<Longrightarrow> spi_runs s0 (final (spi_set_callback hi f p) s)"
| ioctls: "spi_runs s0 s \<Longrightarrow> spi_runs s0 (final (spi_ioctl hi cmd) s)"
| selects: "spi_runs s0 s \<Longrightarrow> spi_runs s0 (final (spi_select_slave hi ss) s)"
| transfers: "spi_runs s0 s \<Longrightarrow> spi_runs s0 (final (spi_xfer_sync (spi_events es) hi a b n) s)"
| async_transfers: "spi_runs s0 s \<Longrightarrow> spi_runs s0 (final (spi_xfer_async hi a b n) s)"
| cancels: "spi_runs s0 s \<Longrightarrow> spi_runs s0 (final (spi_cancel hi) s)"
| events: "spi_runs s0 s \<Longrightarrow> spi_runs s0 (final (spi_events es) s)"

lemma spi_wf_events: "keeps spi_wf (spi_events es)"
  by (induction es rule: spi_events.induct) (auto intro!: keeps_intros)

text \<open>
  C7. The descriptors of the SPI driver are well-formed at any time: from descriptors that are (as after
  boot, all zero), whatever is called in whatever order and whatever the device, the kernel, the DMA
  and the interrupts do, an open descriptor is that of one of the two controllers of its role, with
  its number and base address, its lock and its semaphore; and with DMA enabled the contexts that
  the two channels hand to the callback name this descriptor and their direction.
\<close>

theorem spi_descriptors_well_formed:
  assumes "spi_runs s0 s" and "spi_wf s0"
  shows "spi_wf s"
  using assms
proof (induction rule: spi_runs.induct)
  case (opens s i)
  then show ?case using keepsD [OF spi_wf_open(1)] by blast
next
  case (opens_slave s i)
  then show ?case using keepsD [OF spi_wf_open(2)] by blast
next
  case (closes s hi)
  then show ?case using keepsD [OF spi_wf_control(4)] by blast
next
  case (callbacks s hi f p)
  then show ?case using keepsD [OF spi_wf_control(1)] by blast
next
  case (ioctls s hi cmd)
  then show ?case using keepsD [OF spi_wf_ioctl] by blast
next
  case (selects s hi ss)
  then show ?case using keepsD [OF spi_wf_control(3)] by blast
next
  case (transfers s es hi a b n)
  then show ?case using keepsD [OF spi_wf_transfers(2) [OF spi_wf_events]] by blast
next
  case (async_transfers s hi a b n)
  then show ?case using keepsD [OF spi_wf_transfers(1)] by blast
next
  case (cancels s hi)
  then show ?case using keepsD [OF spi_wf_control(2)] by blast
next
  case (events s es)
  then show ?case using keepsD [OF spi_wf_events] by blast
qed simp

theorem spi_descriptors_well_formed_witness:
  "spi_wf (final (spi_events [(False, V_spi 1 True), (True, V_spi_dma 1 True False)]) (final (spi_slave_open 1)
     (spi_machine\<lparr>spi_desc := \<lambda>_. spi_zero\<rparr>)))"
proof -
  have "spi_wf (spi_machine\<lparr>spi_desc := \<lambda>_. spi_zero\<rparr>)"
    by (simp add: spi_wf_def spi_ok_def spi_zero_def)
  moreover have "spi_runs (spi_machine\<lparr>spi_desc := \<lambda>_. spi_zero\<rparr>) (final (spi_events [(False, V_spi 1 True), (True, V_spi_dma 1 True False)])
      (final (spi_slave_open 1) (spi_machine\<lparr>spi_desc := \<lambda>_. spi_zero\<rparr>)))"
    by (intro spi_runs.intros)
  ultimately show ?thesis
    using spi_descriptors_well_formed by blast
qed

section \<open>How a transfer by DMA ends\<close>

text \<open>
  C8. A transfer by DMA ends with the second of its two channels: whichever channel completes first,
  its callback changes nothing but the note of it, and no register is written and nobody is told;
  when the other completes, both byte counts are settled and the notes are cleared, and an asynchronous
  transfer releases the chip select of a bus master, frees the controller and calls the
  application back once, with success, while a blocking one posts the semaphore its caller waits for.
\<close>

theorem spi_dma_completes_after_both:
  fixes s :: "'x spi_state_scheme" and tx_first :: bool
  assumes "dma_cb_tx_ctx (spi_desc s h) = \<lparr>ctx_hspi = Some h, ctx_is_tx = True\<rparr>"
    and "dma_cb_rx_ctx (spi_desc s h) = \<lparr>ctx_hspi = Some h, ctx_is_tx = False\<rparr>"
    and "\<not> dma_tx_done (spi_desc s h)" and "\<not> dma_rx_done (spi_desc s h)"
  defines "c \<equiv> spi_desc s h"
    and "s1 \<equiv> final (spi_dma_callback (spi_ctx_ptr h tx_first)) s"
    and "s2 \<equiv> final (spi_dma_callback (spi_ctx_ptr h (\<not> tx_first))) (final (spi_dma_callback (spi_ctx_ptr h tx_first)) s)"
  shows "trace s1 = trace s \<and> spi_desc s1 h = (if tx_first then c\<lparr>dma_tx_done := True\<rparr> else c\<lparr>dma_rx_done := True\<rparr>)
    \<and> spi_tx_left (spi_desc s2 h) = 0 \<and> spi_rx_left (spi_desc s2 h) = 0
    \<and> \<not> dma_tx_done (spi_desc s2 h) \<and> \<not> dma_rx_done (spi_desc s2 h)
    \<and> (if is_tx_async c \<or> is_rx_async c
       then \<not> spi_busy (spi_desc s2 h)
         \<and> trace s2 = (if spi_callback_fn c \<noteq> F_NULL then [Call (spi_callback_fn c) (spi_user_context c) [SPI_SUCCESS]] else [])
             @ trace (final (whenM (spi_role c = SPI_ROLE_MASTER) (spi_ll_select_chip (spi_inst c) 0)) s)
       else spi_busy (spi_desc s2 h) = spi_busy c \<and> trace s2 = trace (final (osal_semaphore_post (spi_sem c)) s))"
proof -
  have first: "final (spi_dma_callback (spi_ctx_ptr h tx_first)) s
      = upd_spi h (\<lambda>c. if tx_first then c\<lparr>dma_tx_done := True\<rparr> else c\<lparr>dma_rx_done := True\<rparr>) s"
    using assms(1-4) by (cases tx_first) (simp_all add: spi_dma_callback_def spi_ctx_ptr_def split_beta Let_def)
  show ?thesis
    using assms(1-4) unfolding s1_def s2_def c_def first
    by (cases tx_first) (simp_all add: spi_dma_callback_def spi_ctx_ptr_def split_beta Let_def spi_ll_select_chip_def
        osal_semaphore_post_def spi_busy_def)
qed

theorem spi_dma_completes_after_both_witness:
  "\<not> spi_busy (spi_desc (final (spi_dma_callback (V_spi_dma 0 False True)) (final (spi_dma_callback (V_spi_dma 0 False False))
     (upd_spi (0, False) (\<lambda>c. c\<lparr>is_tx_busy := True, is_tx_async := True,
        dma_cb_tx_ctx := \<lparr>ctx_hspi = Some (0, False), ctx_is_tx = True\<rparr>,
        dma_cb_rx_ctx := \<lparr>ctx_hspi = Some (0, False), ctx_is_tx = False\<rparr>\<rparr>) spi_machine))) (0, False))"
  using spi_dma_completes_after_both [of "upd_spi (0, False) (\<lambda>c. c\<lparr>is_tx_busy := True, is_tx_async := True,
        dma_cb_tx_ctx := \<lparr>ctx_hspi = Some (0, False), ctx_is_tx = True\<rparr>,
        dma_cb_rx_ctx := \<lparr>ctx_hspi = Some (0, False), ctx_is_tx = False\<rparr>\<rparr>) spi_machine" "(0, False)" False]
  by (simp add: spi_zero_def spi_ctx_ptr_def)

section \<open>The bytes a bus master has no buffer for\<close>

text \<open>
  A bus master always receives. Without a receive buffer the pointer of the descriptor is null,
  which the FIFO routine takes as a request to discard; but the interrupt handler moves the pointer
  on by what was discarded, and from then on it is not null.
\<close>

lemma spi_isr_rx_effect:
  assumes "is_rx_on (spi_desc s h)"
  obtains vs :: "u32 list" where "length vs \<le> unat (spi_rx_left (spi_desc s h))"
    "received (spi_dr (spi_base (spi_desc s h))) (trace (final (spi_isr_rx h) s))
       = received (spi_dr (spi_base (spi_desc s h))) (trace s) @ vs"
    "mem (final (spi_isr_rx h) s) = (if spi_rx_buf (spi_desc s h) = 0 then mem s
       else store_bytes (mem s) (spi_rx_buf (spi_desc s h)) (map ucast vs))"
    "spi_rx_buf (spi_desc (final (spi_isr_rx h) s) h) = spi_rx_buf (spi_desc s h) + word_of_nat (length vs)"
    "spi_base (spi_desc (final (spi_isr_rx h) s) h) = spi_base (spi_desc s h)"
    "is_rx_on (spi_desc (final (spi_isr_rx h) s) h) \<longleftrightarrow> length vs < unat (spi_rx_left (spi_desc s h))"
proof -
  let ?c = "spi_desc s h" and ?base = "spi_base (spi_desc s h)"
  obtain vs t where vs: "length vs \<le> unat (spi_rx_left ?c)"
    and run: "run_state (spi_ll_read_fifo ?base (spi_rx_buf ?c) (spi_rx_left ?c)) s = (word_of_nat (length vs),
       s\<lparr>trace := t, mem := (if spi_rx_buf ?c = 0 then mem s else store_bytes (mem s) (spi_rx_buf ?c) (map ucast vs))\<rparr>)"
    and t: "spi_view ?base t = (sent (spi_dr ?base) (trace s), received (spi_dr ?base) (trace s) @ vs)"
    by (rule spi_read_view)
  let ?s = "upd_spi h (spi_rx_advance (length vs)) (s\<lparr>trace := t, mem := (if spi_rx_buf ?c = 0 then mem s
       else store_bytes (mem s) (spi_rx_buf ?c) (map ucast vs))\<rparr>)"
  have isr: "final (spi_isr_rx h) s = final (spi_isr_rx_rest h) ?s"
    using assms run vs by (simp add: spi_isr_rx_def spi_rx_advance_def [abs_def] ucast_of_nat_u64)
  have left: "unat (spi_rx_left ?c - word_of_nat (length vs)) = unat (spi_rx_left ?c) - length vs"
    using vs by (rule unat_minus_of_nat)
  then have zero: "spi_rx_left ?c - word_of_nat (length vs) = 0 \<longleftrightarrow> \<not> length vs < unat (spi_rx_left ?c)"
    by (metis diff_is_0_eq not_le unat_eq_zero)
  have rest: "received (spi_dr ?base) (trace (final (spi_isr_rx_rest h) ?s)) = received (spi_dr ?base) t"
    "mem (final (spi_isr_rx_rest h) ?s) = mem ?s"
    "spi_rx_buf (spi_desc (final (spi_isr_rx_rest h) ?s) h) = spi_rx_buf (spi_desc ?s h)"
    "spi_base (spi_desc (final (spi_isr_rx_rest h) ?s) h) = spi_base (spi_desc ?s h)"
    "is_rx_on (spi_desc (final (spi_isr_rx_rest h) ?s) h) \<longleftrightarrow> length vs < unat (spi_rx_left ?c)"
    using assms zero by (auto simp: spi_isr_rx_rest_def spi_rx_advance_def spi_ll_defs split_beta Let_def spi_dr_def spi_regs word_gt_0)
  show ?thesis
    by (rule that [OF vs]) (use isr rest t in \<open>simp_all add: spi_view_def spi_rx_advance_def\<close>)
qed

text \<open>
  C9. A bus master that transmits without a receive buffer writes what it receives to the start of
  the address space: when the first batch of a reception into a null buffer is discarded and more is to
  come, the bytes of the second batch are stored from the address on that is the number of bytes of
  the first.
\<close>

theorem spi_discard_overwrites_memory:
  assumes "is_rx_on (spi_desc s h)" and "spi_rx_buf (spi_desc s h) = 0"
  defines "s1 \<equiv> final (spi_isr_rx h) s" and "s2 \<equiv> final (spi_isr_rx h) (final (spi_isr_rx h) s)"
    and "d \<equiv> spi_dr (spi_base (spi_desc s h))"
  shows "\<exists>us. received d (trace s1) = received d (trace s) @ us \<and> mem s1 = mem s
    \<and> (us \<noteq> [] \<and> length us < unat (spi_rx_left (spi_desc s h)) \<longrightarrow>
        (\<exists>vs. received d (trace s2) = received d (trace s1) @ vs
            \<and> mem s2 = store_bytes (mem s) (word_of_nat (length us)) (map ucast vs)))"
proof -
  obtain us :: "u32 list" where us: "received d (trace s1) = received d (trace s) @ us" "mem s1 = mem s"
      "spi_rx_buf (spi_desc s1 h) = word_of_nat (length us)" "spi_base (spi_desc s1 h) = spi_base (spi_desc s h)"
      "is_rx_on (spi_desc s1 h) \<longleftrightarrow> length us < unat (spi_rx_left (spi_desc s h))"
    using spi_isr_rx_effect [OF assms(1)] assms(2) unfolding s1_def d_def by (metis add_0)
  show ?thesis
  proof (cases "length us < unat (spi_rx_left (spi_desc s h))")
    case False
    with us show ?thesis by blast
  next
    case True
    with us(5) have on: "is_rx_on (spi_desc s1 h)" by simp
    obtain vs :: "u32 list" where vs: "received d (trace s2) = received d (trace s1) @ vs"
      "mem s2 = (if spi_rx_buf (spi_desc s1 h) = 0 then mem s1 else store_bytes (mem s1) (spi_rx_buf (spi_desc s1 h)) (map ucast vs))"
      using spi_isr_rx_effect [OF on] us(4) unfolding s2_def s1_def [symmetric] d_def by metis
    have "us \<noteq> [] \<Longrightarrow> word_of_nat (length us) \<noteq> (0 :: u64)"
      using True unsigned_less [of "spi_rx_left (spi_desc s h)", where ?'a = nat] by (auto simp: word_of_nat_eq_0_iff dest!: dvd_imp_le)
    with vs us(1-3) show ?thesis by (intro exI [of _ us] conjI impI exI [of _ vs]) simp_all
  qed
qed

definition discard_machine :: spi_state where
  "discard_machine = (upd_spi (0, False) (\<lambda>c. c\<lparr>is_rx_on := True, spi_rx_left := 3\<rparr>) spi_machine)
     \<lparr>env := spi_env\<lparr>hw_rd32 := \<lambda>t a. if a = 0x10DA4028 then (if length t = 4 then 2 else 0xA) else 0x55\<rparr>\<rparr>"

theorem spi_discard_overwrites_memory_witness:
  "\<exists>vs. mem (final (spi_isr_rx (0, False)) (final (spi_isr_rx (0, False)) discard_machine))
     = store_bytes (mem spi_machine) 2 (map ucast (vs :: u32 list))"
proof -
  have "run_state (spi_dummy_read_loop 3 0x10DA4000 0) discard_machine = (2, discard_machine\<lparr>trace :=
      [Rd32 0x10DA4028 2, Rd32 0x10DA4060 0x55, Rd32 0x10DA4028 0xA, Rd32 0x10DA4060 0x55, Rd32 0x10DA4028 0xA]\<rparr>)"
    by (simp add: numeral_3_eq_3 discard_machine_def spi_ll_defs spi_regs SPI_SR_RFNE_POS_def)
  then have "received 0x10DA4060 (trace (final (spi_isr_rx (0, False)) discard_machine)) = [0x55, 0x55]"
    by (simp add: spi_isr_rx_def spi_isr_rx_rest_def spi_ll_read_fifo_def split_beta Let_def spi_ll_defs discard_machine_def spi_zero_def)
  then show ?thesis
    using spi_discard_overwrites_memory [of discard_machine "(0, False)"]
    by (auto simp: discard_machine_def spi_zero_def spi_dr_def spi_regs)
qed

end
