(* ===== verification/Qspi_LL.thy ===== *)
theory Qspi_LL
  imports Spi_Wf
begin

unbundle bit_operations_syntax

text \<open>
  Register accesses of the quad SPI flash controller: \<^verbatim>\<open>drivers/qspi/socfpga_qspi_ll.c\<close>. There is one
  controller, so the registers have fixed addresses.
\<close>

section \<open>Registers\<close>

definition QSPI_CSR_BASE_ADDRESS :: u32 where "QSPI_CSR_BASE_ADDRESS = 0x108D2000"
definition QSPI_DATA_BASE :: u64 where "QSPI_DATA_BASE = 0x10900000"
definition QSPI_CFG :: u32 where "QSPI_CFG = QSPI_CSR_BASE_ADDRESS + 0x0"
definition QSPI_DEVRD :: u32 where "QSPI_DEVRD = QSPI_CSR_BASE_ADDRESS + 0x4"
definition QSPI_DEVWR :: u32 where "QSPI_DEVWR = QSPI_CSR_BASE_ADDRESS + 0x8"
definition QSPI_DELAY :: u32 where "QSPI_DELAY = QSPI_CSR_BASE_ADDRESS + 0xC"
definition QSPI_DEVSZ :: u32 where "QSPI_DEVSZ = QSPI_CSR_BASE_ADDRESS + 0x14"
definition QSPI_SRAMPART :: u32 where "QSPI_SRAMPART = QSPI_CSR_BASE_ADDRESS + 0x18"
definition QSPI_REMAPADDR :: u32 where "QSPI_REMAPADDR = QSPI_CSR_BASE_ADDRESS + 0x24"
definition QSPI_SRAMFILL :: u32 where "QSPI_SRAMFILL = QSPI_CSR_BASE_ADDRESS + 0x2C"
definition QSPI_IRQSTAT :: u32 where "QSPI_IRQSTAT = QSPI_CSR_BASE_ADDRESS + 0x40"
definition QSPI_IRQMASK :: u32 where "QSPI_IRQMASK = QSPI_CSR_BASE_ADDRESS + 0x44"
definition QSPI_INDRD :: u32 where "QSPI_INDRD = QSPI_CSR_BASE_ADDRESS + 0x60"
definition QSPI_INDRDWATER :: u32 where "QSPI_INDRDWATER = QSPI_CSR_BASE_ADDRESS + 0x64"
definition QSPI_INDRDSTADDR :: u32 where "QSPI_INDRDSTADDR = QSPI_CSR_BASE_ADDRESS + 0x68"
definition QSPI_INDRDCNT :: u32 where "QSPI_INDRDCNT = QSPI_CSR_BASE_ADDRESS + 0x6C"
definition QSPI_INDWR :: u32 where "QSPI_INDWR = QSPI_CSR_BASE_ADDRESS + 0x70"
definition QSPI_INDWRWATER :: u32 where "QSPI_INDWRWATER = QSPI_CSR_BASE_ADDRESS + 0x74"
definition QSPI_INDWRSTADDR :: u32 where "QSPI_INDWRSTADDR = QSPI_CSR_BASE_ADDRESS + 0x78"
definition QSPI_INDWRCNT :: u32 where "QSPI_INDWRCNT = QSPI_CSR_BASE_ADDRESS + 0x7C"
definition QSPI_FLASHCMD :: u32 where "QSPI_FLASHCMD = QSPI_CSR_BASE_ADDRESS + 0x90"
definition QSPI_FLASHCMDADDR :: u32 where "QSPI_FLASHCMDADDR = QSPI_CSR_BASE_ADDRESS + 0x94"
definition QSPI_FLASHCMDRDDATALO :: u32 where "QSPI_FLASHCMDRDDATALO = QSPI_CSR_BASE_ADDRESS + 0xA0"
definition QSPI_FLASHCMDRDDATAUP :: u32 where "QSPI_FLASHCMDRDDATAUP = QSPI_CSR_BASE_ADDRESS + 0xA4"
definition QSPI_FLASHCMDWRDATALO :: u32 where "QSPI_FLASHCMDWRDATALO = QSPI_CSR_BASE_ADDRESS + 0xA8"
definition QSPI_FLASHCMDWRDATAUP :: u32 where "QSPI_FLASHCMDWRDATAUP = QSPI_CSR_BASE_ADDRESS + 0xAC"
definition QSPI_CFG_IDLE_MASK :: u32 where "QSPI_CFG_IDLE_MASK = push_bit 31 1"
definition QSPI_CFG_PERCSLINES_MASK :: u32 where "QSPI_CFG_PERCSLINES_MASK = push_bit 10 0xF"
definition QSPI_CFG_EN_MASK :: u32 where "QSPI_CFG_EN_MASK = push_bit 0 1"
definition QSPI_FLASHCMD_EXECUTE_POS :: u32 where "QSPI_FLASHCMD_EXECUTE_POS = 1"
definition QSPI_FLASHCMD_EXECSTAT_POS :: u32 where "QSPI_FLASHCMD_EXECSTAT_POS = 2"
definition QSPI_FLASHCMD_ENCMDADDR_MASK :: u32 where "QSPI_FLASHCMD_ENCMDADDR_MASK = push_bit 19 1"
definition QSPI_CFG_PERCSLINES_POS :: nat where "QSPI_CFG_PERCSLINES_POS = 10"
definition QSPI_FLASHCMD_WR_DATA_BYTES_POS :: nat where "QSPI_FLASHCMD_WR_DATA_BYTES_POS = 12"
definition QSPI_FLASHCMD_ENWRDATA_POS :: nat where "QSPI_FLASHCMD_ENWRDATA_POS = 15"
definition QSPI_FLASHCMD_NUMADDRBYTES_POS :: nat where "QSPI_FLASHCMD_NUMADDRBYTES_POS = 16"
definition QSPI_FLASHCMD_RD_DATA_BYTES_POS :: nat where "QSPI_FLASHCMD_RD_DATA_BYTES_POS = 20"
definition QSPI_FLASHCMD_ENRDDATA_POS :: nat where "QSPI_FLASHCMD_ENRDDATA_POS = 23"

lemmas qspi_regs =
  QSPI_CSR_BASE_ADDRESS_def QSPI_DATA_BASE_def QSPI_CFG_def QSPI_DEVRD_def QSPI_DEVWR_def QSPI_DELAY_def QSPI_DEVSZ_def QSPI_SRAMPART_def QSPI_REMAPADDR_def QSPI_SRAMFILL_def QSPI_IRQSTAT_def QSPI_IRQMASK_def QSPI_INDRD_def QSPI_INDRDWATER_def QSPI_INDRDSTADDR_def QSPI_INDRDCNT_def QSPI_INDWR_def QSPI_INDWRWATER_def QSPI_INDWRSTADDR_def QSPI_INDWRCNT_def QSPI_FLASHCMD_def QSPI_FLASHCMDADDR_def QSPI_FLASHCMDRDDATALO_def QSPI_FLASHCMDRDDATAUP_def QSPI_FLASHCMDWRDATALO_def QSPI_FLASHCMDWRDATAUP_def

lemmas qspi_fields =
  QSPI_CFG_IDLE_MASK_def QSPI_CFG_PERCSLINES_MASK_def QSPI_CFG_EN_MASK_def QSPI_FLASHCMD_EXECUTE_POS_def QSPI_FLASHCMD_EXECSTAT_POS_def QSPI_FLASHCMD_ENCMDADDR_MASK_def QSPI_CFG_PERCSLINES_POS_def QSPI_FLASHCMD_WR_DATA_BYTES_POS_def QSPI_FLASHCMD_ENWRDATA_POS_def QSPI_FLASHCMD_NUMADDRBYTES_POS_def QSPI_FLASHCMD_RD_DATA_BYTES_POS_def QSPI_FLASHCMD_ENRDDATA_POS_def

text \<open>The idiom of nearly every operation: a register is read, changed and written back.\<close>

definition qspi_update :: "u32 \<Rightarrow> (u32 \<Rightarrow> u32) \<Rightarrow> ('x machine_scheme, unit) state" where
  "qspi_update r f = do { v \<leftarrow> RD_REG32 r; WR_REG32 r (f v) }"

lemma run_qspi_update [simp]:
  "run_state (qspi_update r f) s =
     (let v = hw_rd32 (env s) (trace s) (ucast r)
      in ((), s\<lparr>trace := Wr32 (ucast r) (f v) # Rd32 (ucast r) v # trace s\<rparr>))"
  by (simp add: qspi_update_def Let_def)

section \<open>The controller\<close>

text \<open>The idle bit is looked at up to 1000 times; 1 means that it was never set.\<close>

fun qspi_busy_poll :: "nat \<Rightarrow> ('x machine_scheme, u32) state" where
  "qspi_busy_poll 0 = ret 1"
| "qspi_busy_poll (Suc n) = do {
     cfg \<leftarrow> RD_REG32 QSPI_CFG;
     if cfg AND QSPI_CFG_IDLE_MASK \<noteq> 0 then ret 0 else qspi_busy_poll n
   }"

definition qspi_is_busy :: "('x machine_scheme, u32) state" where
  "qspi_is_busy = qspi_busy_poll 1000"

definition qspi_disable :: "('x machine_scheme, unit) state" where
  "qspi_disable = qspi_update QSPI_CFG (\<lambda>cfg. cfg AND NOT QSPI_CFG_EN_MASK)"

definition qspi_set_instruction_width :: "u32 \<Rightarrow> ('x machine_scheme, unit) state" where
  "qspi_set_instruction_width width = qspi_update QSPI_DEVRD (\<lambda>devrd. (devrd AND NOT (push_bit 8 0x3)) OR push_bit 8 (width AND 0x3))"

definition qspi_set_addr_width :: "u32 \<Rightarrow> ('x machine_scheme, unit) state" where
  "qspi_set_addr_width width = qspi_update QSPI_DEVRD (\<lambda>devrd. (devrd AND NOT (push_bit 12 0x3)) OR push_bit 12 (width AND 0x3))"

definition qspi_set_data_width :: "u32 \<Rightarrow> ('x machine_scheme, unit) state" where
  "qspi_set_data_width width = qspi_update QSPI_DEVRD (\<lambda>devrd. (devrd AND NOT (push_bit 16 0x3)) OR push_bit 16 (width AND 0x3))"

definition qspi_enable_mode_bit :: "u32 \<Rightarrow> ('x machine_scheme, unit) state" where
  "qspi_enable_mode_bit enable = qspi_update QSPI_DEVRD
     (\<lambda>devrd. if enable \<noteq> 0 then devrd OR push_bit 20 1 else devrd AND NOT (push_bit 20 1))"

definition qspi_enable_fast_read_mode :: "('x machine_scheme, unit) state" where
  "qspi_enable_fast_read_mode = qspi_update QSPI_DEVRD (\<lambda>devrd. (devrd AND NOT 0xF) OR 0xB)"

definition qspi_cfg_write_mode :: "('x machine_scheme, unit) state" where
  "qspi_cfg_write_mode = qspi_update QSPI_DEVWR (\<lambda>devwr. (devwr AND NOT 0xF) OR 0x2)"

definition qspi_set_dummy_delay :: "u8 \<Rightarrow> ('x machine_scheme, unit) state" where
  "qspi_set_dummy_delay dum_delay = qspi_update QSPI_DEVRD
     (\<lambda>delay. (delay AND NOT (push_bit 24 0x1F)) OR push_bit 24 (ucast dum_delay AND 0x1F))"

definition qspi_set_bytes_per_page :: "u32 \<Rightarrow> ('x machine_scheme, unit) state" where
  "qspi_set_bytes_per_page page_bytes = qspi_update QSPI_DEVSZ
     (\<lambda>devsz. (devsz AND NOT (push_bit 4 0xFFF)) OR push_bit 4 (page_bytes AND 0xFFF))"

definition qspi_set_nss_delay :: "u32 \<Rightarrow> ('x machine_scheme, unit) state" where
  "qspi_set_nss_delay nss_delay = qspi_update QSPI_DELAY (\<lambda>delay. (delay AND NOT (push_bit 24 0xFF)) OR push_bit 24 (nss_delay AND 0xFF))"

definition qspi_set_btwn_delay :: "u32 \<Rightarrow> ('x machine_scheme, unit) state" where
  "qspi_set_btwn_delay btwn_delay = qspi_update QSPI_DELAY (\<lambda>delay. (delay AND NOT (push_bit 16 0xFF)) OR push_bit 16 (btwn_delay AND 0xFF))"

definition qspi_set_after_delay :: "u32 \<Rightarrow> ('x machine_scheme, unit) state" where
  "qspi_set_after_delay after_delay = qspi_update QSPI_DELAY (\<lambda>delay. (delay AND NOT (push_bit 8 0xFF)) OR push_bit 8 (after_delay AND 0xFF))"

definition qspi_set_init_delay :: "u32 \<Rightarrow> ('x machine_scheme, unit) state" where
  "qspi_set_init_delay init_delay = qspi_update QSPI_DELAY (\<lambda>delay. (delay AND NOT 0xFF) OR (init_delay AND 0xFF))"

definition qspi_set_remap_address :: "u32 \<Rightarrow> ('x machine_scheme, unit) state" where
  "qspi_set_remap_address address = WR_REG32 QSPI_REMAPADDR address"

definition qspi_set_baud_divisor :: "u32 \<Rightarrow> ('x machine_scheme, unit) state" where
  "qspi_set_baud_divisor divisor = qspi_update QSPI_CFG (\<lambda>cfg. (cfg AND NOT (push_bit 19 0xF)) OR push_bit 19 divisor)"

definition qspi_enable :: "('x machine_scheme, unit) state" where
  "qspi_enable = qspi_update QSPI_CFG (\<lambda>cfg. cfg OR QSPI_CFG_EN_MASK)"

section \<open>Indirect transfers\<close>

definition qspi_set_indwrstaddr :: "u32 \<Rightarrow> ('x machine_scheme, unit) state" where
  "qspi_set_indwrstaddr address = WR_REG32 QSPI_INDWRSTADDR address"

definition qspi_set_indwrcnt :: "u32 \<Rightarrow> ('x machine_scheme, unit) state" where
  "qspi_set_indwrcnt n_bytes = WR_REG32 QSPI_INDWRCNT n_bytes"

definition qspi_start_indwr :: "('x machine_scheme, unit) state" where
  "qspi_start_indwr = qspi_update QSPI_INDWR (\<lambda>indwr. indwr OR push_bit 0 1)"

definition qspi_set_indwrwater :: "u32 \<Rightarrow> ('x machine_scheme, unit) state" where
  "qspi_set_indwrwater level = WR_REG32 QSPI_INDWRWATER level"

definition qspi_set_indrdwater :: "u32 \<Rightarrow> ('x machine_scheme, unit) state" where
  "qspi_set_indrdwater level = WR_REG32 QSPI_INDRDWATER level"

definition qspi_set_indrdstaddr :: "u32 \<Rightarrow> ('x machine_scheme, unit) state" where
  "qspi_set_indrdstaddr address = WR_REG32 QSPI_INDRDSTADDR address"

definition qspi_set_indrdcnt :: "u32 \<Rightarrow> ('x machine_scheme, unit) state" where
  "qspi_set_indrdcnt n_bytes = WR_REG32 QSPI_INDRDCNT n_bytes"

definition qspi_start_indrd :: "('x machine_scheme, unit) state" where
  "qspi_start_indrd = qspi_update QSPI_INDRD (\<lambda>indrd. indrd OR push_bit 0 1)"

definition qspi_get_sramfill :: "('x machine_scheme, u32) state" where
  "qspi_get_sramfill = RD_REG32 QSPI_SRAMFILL"

definition qspi_get_indwr_multiop_status :: "('x machine_scheme, u32) state" where
  "qspi_get_indwr_multiop_status = do { v \<leftarrow> RD_REG32 QSPI_INDWR; ret (drop_bit 5 (v AND 0x60)) }"

definition qspi_clear_indwr_op_status :: "('x machine_scheme, unit) state" where
  "qspi_clear_indwr_op_status = qspi_update QSPI_INDWR (\<lambda>cfg. cfg OR push_bit 5 1)"

definition qspi_clear_indrd_op_status :: "('x machine_scheme, unit) state" where
  "qspi_clear_indrd_op_status = qspi_update QSPI_INDRD (\<lambda>cfg. cfg OR push_bit 5 1)"

definition qspi_reg_get_data :: "u32 \<Rightarrow> ('x machine_scheme, u32) state" where
  "qspi_reg_get_data reg = RD_REG32 reg"

section \<open>Flash commands\<close>

definition qspi_flash_cmd_rddata0 :: "('x machine_scheme, u32) state" where
  "qspi_flash_cmd_rddata0 = RD_REG32 QSPI_FLASHCMDRDDATALO"

definition qspi_flash_cmd_rddata1 :: "('x machine_scheme, u32) state" where
  "qspi_flash_cmd_rddata1 = RD_REG32 QSPI_FLASHCMDRDDATAUP"

definition qspi_flash_cmd_wrdata0 :: "u32 \<Rightarrow> ('x machine_scheme, unit) state" where
  "qspi_flash_cmd_wrdata0 data = WR_REG32 QSPI_FLASHCMDWRDATALO data"

definition qspi_flash_cmd_wrdata1 :: "u32 \<Rightarrow> ('x machine_scheme, unit) state" where
  "qspi_flash_cmd_wrdata1 data = WR_REG32 QSPI_FLASHCMDWRDATAUP data"

definition qspi_set_enablecmdaddr :: "('x machine_scheme, unit) state" where
  "qspi_set_enablecmdaddr = qspi_update QSPI_FLASHCMD (\<lambda>flashcmd. flashcmd OR QSPI_FLASHCMD_ENCMDADDR_MASK)"

definition qspi_set_flashcmdaddrbytes :: "u32 \<Rightarrow> ('x machine_scheme, unit) state" where
  "qspi_set_flashcmdaddrbytes addr_bytes = qspi_update QSPI_FLASHCMD
     (\<lambda>flashcmd. flashcmd OR push_bit QSPI_FLASHCMD_NUMADDRBYTES_POS (addr_bytes - 1))"

definition qspi_set_flashcmdaddr :: "u32 \<Rightarrow> ('x machine_scheme, unit) state" where
  "qspi_set_flashcmdaddr address = WR_REG32 QSPI_FLASHCMDADDR address"

definition qspi_set_flashcmd :: "u32 \<Rightarrow> ('x machine_scheme, unit) state" where
  "qspi_set_flashcmd cmd_opcode = WR_REG32 QSPI_FLASHCMD (push_bit 24 cmd_opcode)"

definition qspi_flashcmd_exec :: "('x machine_scheme, unit) state" where
  "qspi_flashcmd_exec = qspi_update QSPI_FLASHCMD (\<lambda>flashcmd. flashcmd OR push_bit 0 QSPI_FLASHCMD_EXECUTE_POS)"

definition qspi_flashcmd_read_data :: "('x machine_scheme, unit) state" where
  "qspi_flashcmd_read_data = qspi_update QSPI_FLASHCMD (\<lambda>flashcmd. flashcmd OR push_bit QSPI_FLASHCMD_ENRDDATA_POS 1)"

definition qspi_flashcmd_write_data :: "('x machine_scheme, unit) state" where
  "qspi_flashcmd_write_data = qspi_update QSPI_FLASHCMD (\<lambda>flashcmd. flashcmd OR push_bit QSPI_FLASHCMD_ENWRDATA_POS 1)"

definition qspi_flashcmd_read_bytes :: "u32 \<Rightarrow> ('x machine_scheme, unit) state" where
  "qspi_flashcmd_read_bytes bytes = qspi_update QSPI_FLASHCMD
     (\<lambda>flashcmd. flashcmd OR push_bit QSPI_FLASHCMD_RD_DATA_BYTES_POS (bytes - 1))"

definition qspi_flashcmd_write_bytes :: "u32 \<Rightarrow> ('x machine_scheme, unit) state" where
  "qspi_flashcmd_write_bytes bytes = qspi_update QSPI_FLASHCMD
     (\<lambda>flashcmd. flashcmd OR push_bit QSPI_FLASHCMD_WR_DATA_BYTES_POS (bytes - 1))"

definition qspi_get_flashcmd_stat :: "('x machine_scheme, u32) state" where
  "qspi_get_flashcmd_stat = do { v \<leftarrow> RD_REG32 QSPI_FLASHCMD; ret (v AND QSPI_FLASHCMD_EXECSTAT_POS) }"

definition qspi_select_chip :: "u32 \<Rightarrow> ('x machine_scheme, unit) state" where
  "qspi_select_chip cs = qspi_update QSPI_CFG
     (\<lambda>cfg. (cfg AND NOT QSPI_CFG_PERCSLINES_MASK) OR push_bit QSPI_CFG_PERCSLINES_POS (push_bit (unat cs) 0))"

section \<open>Interrupts\<close>

definition qspi_get_int_status :: "('x machine_scheme, u32) state" where
  "qspi_get_int_status = RD_REG32 QSPI_IRQSTAT"

definition qspi_set_int_status :: "u32 \<Rightarrow> ('x machine_scheme, unit) state" where
  "qspi_set_int_status status = WR_REG32 QSPI_IRQSTAT status"

definition qspi_enable_interrupt :: "u32 \<Rightarrow> ('x machine_scheme, unit) state" where
  "qspi_enable_interrupt irqmask = qspi_update QSPI_IRQMASK (\<lambda>temp_mask. temp_mask OR irqmask)"

definition qspi_disable_interrupt :: "u32 \<Rightarrow> ('x machine_scheme, unit) state" where
  "qspi_disable_interrupt irqmask = qspi_update QSPI_IRQMASK (\<lambda>temp_mask. temp_mask AND NOT irqmask)"

lemmas qspi_ll_defs =
  qspi_disable_def qspi_set_instruction_width_def qspi_set_addr_width_def qspi_set_data_width_def qspi_enable_mode_bit_def qspi_enable_fast_read_mode_def qspi_cfg_write_mode_def qspi_set_dummy_delay_def qspi_set_bytes_per_page_def qspi_set_nss_delay_def qspi_set_btwn_delay_def qspi_set_after_delay_def qspi_set_init_delay_def qspi_set_remap_address_def qspi_set_baud_divisor_def qspi_enable_def qspi_set_indwrstaddr_def qspi_set_indwrcnt_def qspi_start_indwr_def qspi_set_indwrwater_def qspi_set_indrdwater_def qspi_set_indrdstaddr_def qspi_set_indrdcnt_def qspi_start_indrd_def qspi_get_sramfill_def qspi_get_indwr_multiop_status_def qspi_clear_indwr_op_status_def qspi_clear_indrd_op_status_def qspi_reg_get_data_def qspi_flash_cmd_rddata0_def qspi_flash_cmd_rddata1_def qspi_flash_cmd_wrdata0_def qspi_flash_cmd_wrdata1_def qspi_set_enablecmdaddr_def qspi_set_flashcmdaddrbytes_def qspi_set_flashcmdaddr_def qspi_set_flashcmd_def qspi_flashcmd_exec_def qspi_flashcmd_read_data_def qspi_flashcmd_write_data_def qspi_flashcmd_read_bytes_def qspi_flashcmd_write_bytes_def qspi_get_flashcmd_stat_def qspi_select_chip_def qspi_get_int_status_def qspi_set_int_status_def qspi_enable_interrupt_def qspi_disable_interrupt_def

end
