(* ===== verification/Qspi.thy ===== *)
theory Qspi
  imports Qspi_LL
begin

unbundle bit_operations_syntax

text \<open>
  The quad SPI layer of the flash driver: \<^verbatim>\<open>drivers/qspi/socfpga_qspi.c\<close>, in the configuration of the
  repository, which has \<^verbatim>\<open>QSPI_ENABLE_INT_MODE\<close> set. Commands for the flash chip go through the command
  registers; data goes through the controller's SRAM, in pieces that an interrupt handler continues.
\<close>

section \<open>Constants and state\<close>

definition QSPI_BUSY :: int where "QSPI_BUSY = 1"
definition QSPI_OK :: int where "QSPI_OK = 0"
definition QSPI_ERROR :: int where "QSPI_ERROR = - 1"
definition QSPI_TIMEOUT :: u32 where "QSPI_TIMEOUT = 0x10000000"
definition QSPI_INDDONE :: u32 where "QSPI_INDDONE = 1"
definition QSPI_INDDONE_AND_XFERBRCH :: u32 where "QSPI_INDDONE_AND_XFERBRCH = 2"
definition QSPI_WRITE_WATER_LVL :: u32 where "QSPI_WRITE_WATER_LVL = 100"
definition QSPI_ALL_INT_MASK :: u32 where "QSPI_ALL_INT_MASK = 0x1ffe"
definition QSPI_WRITE_ENABLE_CMD :: u32 where "QSPI_WRITE_ENABLE_CMD = 0x06"
definition QSPI_WRITE_DISABLE_CMD :: u32 where "QSPI_WRITE_DISABLE_CMD = 0x04"
definition QSPI_SECTOR_ERASE_CMD :: u32 where "QSPI_SECTOR_ERASE_CMD = 0x20"
definition QSPI_READ_SFDP_CMD :: u32 where "QSPI_READ_SFDP_CMD = 0x5a"
definition QSPI_READ_STATUS_CMD :: u8 where "QSPI_READ_STATUS_CMD = 0x5"
definition QSPI_READ_STATUS_POS :: u32 where "QSPI_READ_STATUS_POS = 0x1"
definition QSPI_READ_FLAG_STATUS_CMD :: u8 where "QSPI_READ_FLAG_STATUS_CMD = 0x70"
definition QSPI_READ_FLAG_STATUS_POS :: u32 where "QSPI_READ_FLAG_STATUS_POS = 0x80"
definition QSPI_CLEAR_FLAG_STATUS_CMD :: u32 where "QSPI_CLEAR_FLAG_STATUS_CMD = 0x9f"
definition QSPI_EXT_REG_CMD :: u8 where "QSPI_EXT_REG_CMD = 0xc5"
definition QSPI_PAGE_SIZE :: u32 where "QSPI_PAGE_SIZE = 0x00000100"
definition QSPI_BANK_SIZE :: u32 where "QSPI_BANK_SIZE = 0x01000000"
definition QSPI_BANK_ADDR_POS :: nat where "QSPI_BANK_ADDR_POS = 24"
definition QSPI_BANK_ADDR_OFFSET :: u32 where "QSPI_BANK_ADDR_OFFSET = 0xff000000"
definition QSPI_INDONE_OPSTATUS_MASK :: u32 where "QSPI_INDONE_OPSTATUS_MASK = 0x1"
definition QSPI_SRAMFILL_WR_STATUS_POS :: nat where "QSPI_SRAMFILL_WR_STATUS_POS = 16"
definition QSPI_SRAMFILL_RD_STATUS_POS :: nat where "QSPI_SRAMFILL_RD_STATUS_POS = 0"
definition QSPI_SRAMFILL_WR_STATUS_MASK :: u32 where "QSPI_SRAMFILL_WR_STATUS_MASK = 0x00FFFF"
definition QSPI_SRAMFILL_RD_STATUS_MASK :: u32 where "QSPI_SRAMFILL_RD_STATUS_MASK = 0x00FFFF"
definition QSPI_SRAM_RD_CAP_MASK :: u32 where "QSPI_SRAM_RD_CAP_MASK = 0x3FF"
definition QSPI_TOTAL_SRAM_SIZE :: u32 where "QSPI_TOTAL_SRAM_SIZE = 1024"
definition SFDP_NSS_DELAY :: u32 where "SFDP_NSS_DELAY = 0x14"
definition SFDP_BTWN_DELAY :: u32 where "SFDP_BTWN_DELAY = 0x14"
definition SFDP_AFTER_DELAY :: u32 where "SFDP_AFTER_DELAY = 0xff"
definition SFDP_INIT_DELAY :: u32 where "SFDP_INIT_DELAY = 0xc8"
definition SFDP_BAUDDIV :: u32 where "SFDP_BAUDDIV = 0xf"
definition SFDP_INST_WIDTH :: u32 where "SFDP_INST_WIDTH = 0"
definition SFDP_DATA_WIDTH :: u32 where "SFDP_DATA_WIDTH = 0"
definition SFDP_ADDR_WIDTH :: u32 where "SFDP_ADDR_WIDTH = 0"
definition SFDP_DUMMY_DELAY :: u8 where "SFDP_DUMMY_DELAY = 0"
definition QSPI_IND_OPDONE :: u32 where "QSPI_IND_OPDONE = 0x4"
definition QSPI_XFER_LVLBRCH :: u32 where "QSPI_XFER_LVLBRCH = 0x40"
definition DEFAULT_REMAP_ADDR :: u32 where "DEFAULT_REMAP_ADDR = 0"
definition SDM_QSPI_INTR :: u32 where "SDM_QSPI_INTR = 35"
definition GIC_INTERRUPT_PRIORITY_QSPI :: u8 where "GIC_INTERRUPT_PRIORITY_QSPI = 14"

lemmas qspi_results [simp] = QSPI_OK_def QSPI_ERROR_def QSPI_BUSY_def

text \<open>
  A callback is registered as a pointer to a variable that holds a function pointer. The one such
  variable of the program is the member \<^verbatim>\<open>xflash_callback\<close> of the flash handle.
\<close>

datatype qspi_callback_t = CB_NULL | CB_xflash_callback

record qspi_descriptor_t =
  inst_width :: u32
  addr_width :: u32
  data_width :: u32
  baud_div :: u32
  flash_size :: u64
  sector_size :: u32
  page_size :: u32
  clock_freq :: u32
  nss_delay :: u32
  init_delay :: u32
  after_delay :: u32
  btwn_delay :: u32
  num_addr_bytes :: u32
  dummy_cycles :: u8
  qspi_mode :: u8
  qspi_sem :: u64
  qspi_mutex :: u64
  qspi_usercontext :: vptr
  qspi_start_addr :: u32
  qspi_bytes_left :: u32
  qspi_xfer_size :: u32
  qspi_buffer :: u64
  qspi_is_wr_op :: bool
  qspi_is_async :: bool
  qspi_in_use :: bool
  xqspi_callback :: qspi_callback_t

definition qspi_zero :: qspi_descriptor_t where
  "qspi_zero = \<lparr>inst_width = 0, addr_width = 0, data_width = 0, baud_div = 0, flash_size = 0, sector_size = 0,
     page_size = 0, clock_freq = 0, nss_delay = 0, init_delay = 0, after_delay = 0, btwn_delay = 0,
     num_addr_bytes = 0, dummy_cycles = 0, qspi_mode = 0, qspi_sem = 0, qspi_mutex = 0, qspi_usercontext = V_NULL,
     qspi_start_addr = 0, qspi_bytes_left = 0, qspi_xfer_size = 0, qspi_buffer = 0, qspi_is_wr_op = False,
     qspi_is_async = False, qspi_in_use = False, xqspi_callback = CB_NULL\<rparr>"

text \<open>The descriptor is the member \<^verbatim>\<open>desc\<close> of the one flash handle.\<close>

record qspi_state = spi_state +
  prev_bank_addr :: u32
  qspi_desc :: qspi_descriptor_t
  xflash_callback :: fptr

definition upd_qspi :: "(qspi_descriptor_t \<Rightarrow> qspi_descriptor_t) \<Rightarrow> 'x qspi_state_scheme \<Rightarrow> 'x qspi_state_scheme" where
  "upd_qspi f s = s\<lparr>qspi_desc := f (qspi_desc s)\<rparr>"

abbreviation qspi_ptr :: vptr where "qspi_ptr \<equiv> V_qspi 0"

section \<open>Interrupt enables\<close>

definition qspi_enable_int :: "u32 \<Rightarrow> ('x machine_scheme, unit) state" where
  "qspi_enable_int type =
     (if type = QSPI_INDDONE then qspi_enable_interrupt QSPI_IND_OPDONE
      else qspi_enable_interrupt (QSPI_IND_OPDONE OR QSPI_XFER_LVLBRCH))"

definition qspi_disable_int :: "u32 \<Rightarrow> ('x machine_scheme, unit) state" where
  "qspi_disable_int msk = qspi_disable_interrupt msk"

definition qspi_set_callback :: "qspi_callback_t \<Rightarrow> vptr \<Rightarrow> ('x qspi_state_scheme, int) state" where
  "qspi_set_callback cb puser_context = do {
     modify (upd_qspi (\<lambda>c. c\<lparr>xqspi_callback := cb, qspi_usercontext := puser_context\<rparr>));
     ret QSPI_OK
   }"

section \<open>Flash commands\<close>

fun qspi_cmd_poll :: "nat \<Rightarrow> ('x machine_scheme, int) state" where
  "qspi_cmd_poll 0 = ret QSPI_ERROR"
| "qspi_cmd_poll (Suc n) = do {
     stat \<leftarrow> qspi_get_flashcmd_stat;
     if stat = 0 then ret QSPI_OK else qspi_cmd_poll n
   }"

definition qspi_flash_cmd_helper :: "('x machine_scheme, int) state" where
  "qspi_flash_cmd_helper = do {
     qspi_flashcmd_exec;
     qspi_cmd_poll (unat QSPI_TIMEOUT)
   }"

definition qspi_send_flashcmd :: "u32 \<Rightarrow> ('x machine_scheme, int) state" where
  "qspi_send_flashcmd cmd = do {
     qspi_select_chip 0;
     qspi_set_flashcmd cmd;
     qspi_flash_cmd_helper
   }"

text \<open>A response of one or two words; the empty list when the command failed.\<close>

definition qspi_response :: "u8 \<Rightarrow> ('x machine_scheme, int \<times> u32 list) state" where
  "qspi_response numbytes = do {
     e \<leftarrow> qspi_flash_cmd_helper;
     if e \<noteq> QSPI_OK then ret (QSPI_ERROR, [])
     else do {
       d0 \<leftarrow> qspi_flash_cmd_rddata0;
       if numbytes > 4 then do {
         d1 \<leftarrow> qspi_flash_cmd_rddata1;
         ret (e, [d0, d1])
       } else ret (e, [d0])
     }
   }"

definition qspi_read_sfdp :: "u32 \<Rightarrow> u8 \<Rightarrow> ('x machine_scheme, int \<times> u32 list) state" where
  "qspi_read_sfdp address sz = do {
     qspi_set_nss_delay SFDP_NSS_DELAY;
     qspi_set_btwn_delay SFDP_BTWN_DELAY;
     qspi_set_after_delay SFDP_AFTER_DELAY;
     qspi_set_init_delay SFDP_INIT_DELAY;
     qspi_set_remap_address DEFAULT_REMAP_ADDR;
     qspi_set_baud_divisor SFDP_BAUDDIV;
     qspi_enable;
     qspi_enable_fast_read_mode;
     qspi_set_instruction_width SFDP_INST_WIDTH;
     qspi_set_addr_width SFDP_ADDR_WIDTH;
     qspi_set_data_width SFDP_DATA_WIDTH;
     qspi_enable_mode_bit 1;
     qspi_set_dummy_delay SFDP_DUMMY_DELAY;
     qspi_cfg_write_mode;
     qspi_select_chip 0;
     qspi_set_flashcmd QSPI_READ_SFDP_CMD;
     qspi_set_flashcmdaddr address;
     qspi_set_enablecmdaddr;
     qspi_set_flashcmdaddrbytes 3;
     qspi_flashcmd_read_data;
     qspi_flashcmd_read_bytes (ucast sz);
     qspi_response sz
   }"

text \<open>The data to send: one word, and a second when there are more than four bytes.\<close>

definition qspi_send_flash_writecmd :: "u8 \<Rightarrow> u8 \<Rightarrow> u32 list \<Rightarrow> ('x machine_scheme, int) state" where
  "qspi_send_flash_writecmd cmd numbytes data = do {
     qspi_select_chip 0;
     qspi_set_flashcmd (ucast cmd);
     qspi_flashcmd_write_data;
     qspi_flashcmd_write_bytes (ucast numbytes);
     qspi_flash_cmd_wrdata0 (data ! 0);
     whenM (numbytes > 4) (qspi_flash_cmd_wrdata1 (data ! 1));
     qspi_flash_cmd_helper
   }"

definition qspi_send_flash_readcmd :: "u8 \<Rightarrow> u8 \<Rightarrow> ('x machine_scheme, int \<times> u32 list) state" where
  "qspi_send_flash_readcmd cmd numbytes = do {
     qspi_select_chip 0;
     qspi_set_flashcmd (ucast cmd);
     qspi_flashcmd_read_data;
     qspi_flashcmd_read_bytes (ucast numbytes);
     qspi_response numbytes
   }"

text \<open>A status register is read until \<open>ok\<close> holds of it.\<close>

fun qspi_status_poll :: "nat \<Rightarrow> u8 \<Rightarrow> (u32 \<Rightarrow> bool) \<Rightarrow> ('x machine_scheme, int) state" where
  "qspi_status_poll 0 cmd ok = ret QSPI_ERROR"
| "qspi_status_poll (Suc n) cmd ok = do {
     (e, d) \<leftarrow> qspi_send_flash_readcmd cmd 1;
     if e \<noteq> QSPI_OK then ret QSPI_ERROR
     else if ok (hd d) then ret QSPI_OK
     else qspi_status_poll n cmd ok
   }"

definition qspi_wait_for_eraseand_program :: "('x machine_scheme, int) state" where
  "qspi_wait_for_eraseand_program = do {
     e \<leftarrow> qspi_status_poll (unat QSPI_TIMEOUT) QSPI_READ_STATUS_CMD (\<lambda>status. status AND QSPI_READ_STATUS_POS = 0);
     if e \<noteq> QSPI_OK then ret QSPI_ERROR
     else do {
       e \<leftarrow> qspi_status_poll (unat QSPI_TIMEOUT) QSPI_READ_FLAG_STATUS_CMD (\<lambda>status. status AND QSPI_READ_FLAG_STATUS_POS \<noteq> 0);
       if e \<noteq> QSPI_OK then ret QSPI_ERROR
       else do {
         e \<leftarrow> qspi_send_flashcmd QSPI_CLEAR_FLAG_STATUS_CMD;
         ret (if e \<noteq> QSPI_OK then QSPI_ERROR else QSPI_OK)
       }
     }
   }"

definition qspi_select_bank :: "u32 \<Rightarrow> ('x machine_scheme, int) state" where
  "qspi_select_bank bank_addr = do {
     e \<leftarrow> qspi_send_flashcmd QSPI_WRITE_ENABLE_CMD;
     if e \<noteq> QSPI_OK then ret QSPI_ERROR
     else do {
       e \<leftarrow> qspi_send_flash_writecmd QSPI_EXT_REG_CMD 1 [bank_addr];
       if e \<noteq> QSPI_OK then ret QSPI_ERROR
       else do {
         e \<leftarrow> qspi_send_flashcmd QSPI_WRITE_DISABLE_CMD;
         ret (if e \<noteq> QSPI_OK then QSPI_ERROR else QSPI_OK)
       }
     }
   }"

text \<open>The second half of an erase, after the bank has been selected.\<close>

definition qspi_erase_sector :: "u32 \<Rightarrow> ('x machine_scheme, int) state" where
  "qspi_erase_sector address = do {
     e \<leftarrow> qspi_send_flashcmd QSPI_WRITE_ENABLE_CMD;
     if e \<noteq> QSPI_OK then ret QSPI_ERROR
     else do {
       qspi_select_chip 0;
       qspi_set_flashcmd QSPI_SECTOR_ERASE_CMD;
       qspi_set_enablecmdaddr;
       qspi_set_flashcmdaddrbytes 3;
       qspi_set_flashcmdaddr address;
       e \<leftarrow> qspi_flash_cmd_helper;
       if e \<noteq> QSPI_OK then ret QSPI_ERROR
       else do {
         e \<leftarrow> qspi_wait_for_eraseand_program;
         if e \<noteq> QSPI_OK then ret QSPI_ERROR
         else do {
           e \<leftarrow> qspi_send_flashcmd QSPI_WRITE_DISABLE_CMD;
           ret (if e \<noteq> QSPI_OK then QSPI_ERROR else QSPI_OK)
         }
       }
     }
   }"

definition qspi_erase :: "u32 \<Rightarrow> ('x machine_scheme, int) state" where
  "qspi_erase address = do {
     e \<leftarrow> qspi_select_bank (drop_bit QSPI_BANK_ADDR_POS address);
     if e \<noteq> QSPI_OK then ret QSPI_ERROR else qspi_erase_sector address
   }"

fun qspi_write_poll :: "nat \<Rightarrow> ('x machine_scheme, int) state" where
  "qspi_write_poll 0 = ret QSPI_ERROR"
| "qspi_write_poll (Suc n) = do {
     status \<leftarrow> qspi_get_indwr_multiop_status;
     if status AND QSPI_INDONE_OPSTATUS_MASK \<noteq> 0 then do { qspi_clear_indwr_op_status; ret QSPI_OK }
     else qspi_write_poll n
   }"

definition qspi_write_finish :: "('x machine_scheme, int) state" where
  "qspi_write_finish = do {
     e \<leftarrow> qspi_write_poll (unat QSPI_TIMEOUT);
     if e \<noteq> QSPI_OK then ret QSPI_ERROR
     else do {
       e \<leftarrow> qspi_wait_for_eraseand_program;
       ret (if e \<noteq> QSPI_OK then QSPI_ERROR else QSPI_OK)
     }
   }"

section \<open>Writing through the SRAM\<close>

text \<open>Words and bytes from a buffer are stored to one address, the window of the SRAM.\<close>

fun qspi_put_words :: "nat \<Rightarrow> u64 \<Rightarrow> ('x machine_scheme, unit) state" where
  "qspi_put_words 0 w_data = ret ()"
| "qspi_put_words (Suc n) w_data = do {
     m \<leftarrow> gets mem;
     store32 QSPI_DATA_BASE (words_at m w_data 0);
     qspi_put_words n (w_data + 4)
   }"

fun qspi_put_bytes :: "nat \<Rightarrow> u64 \<Rightarrow> ('x machine_scheme, unit) state" where
  "qspi_put_bytes 0 w_data_byte = ret ()"
| "qspi_put_bytes (Suc n) w_data_byte = do {
     x \<leftarrow> peek w_data_byte;
     store8 QSPI_DATA_BASE x;
     qspi_put_bytes n (w_data_byte + 1)
   }"

text \<open>How many words go into the SRAM in a round.\<close>

definition qspi_space :: "u32 \<Rightarrow> u32 \<Rightarrow> u32 \<Rightarrow> u32" where
  "qspi_space w_capacity w_fill_lvl rest =
     (if w_capacity - w_fill_lvl < rest div 4 then w_capacity - w_fill_lvl else rest div 4)"

lemma qspi_space_bounds: "unat (qspi_space cap lvl rest) \<le> unat rest div 4"
  by (auto simp: qspi_space_def word_less_nat_alt unat_div)

lemma qspi_space_progress: "\<not> cap - lvl < 4 \<Longrightarrow> \<not> rest < 4 \<Longrightarrow> 0 < unat (qspi_space cap lvl rest)"
  by (auto simp: qspi_space_def word_less_nat_alt unat_div)

lemma unat_times_4: "unat (v :: u32) \<le> unat (r :: u32) div 4 \<Longrightarrow> unat (v * 4) = 4 * unat v"
  using unsigned_less [of r, where ?'a = nat] by (subst unat_mult_no_wrap) simp_all

lemma qspi_written:
  fixes w_count sz cap lvl :: u32
  assumes "w_count < sz"
  defines "v \<equiv> qspi_space cap lvl (sz - w_count)"
  shows "unat (w_count + v * 4) = unat w_count + 4 * unat v"
    and "unat w_count + 4 * unat v \<le> unat sz"
    and "unat (sz - (w_count + v * 4)) = unat sz - (unat w_count + 4 * unat v)"
    and "unat (sz - w_count) = unat sz - unat w_count"
proof -
  show rest: "unat (sz - w_count) = unat sz - unat w_count"
    using assms(1) by (simp add: unat_sub word_less_nat_alt word_le_nat_alt)
  then have v: "unat v \<le> (unat sz - unat w_count) div 4" "unat (v * 4) = 4 * unat v"
    unfolding v_def using rest qspi_space_bounds [of cap lvl "sz - w_count"] unat_times_4 [of v "sz - w_count"]
    by (simp_all add: v_def)
  show le: "unat w_count + 4 * unat v \<le> unat sz"
    using v(1) assms(1) by (simp add: word_less_nat_alt)
  then show eq: "unat (w_count + v * 4) = unat w_count + 4 * unat v"
    using unsigned_less [of sz, where ?'a = nat] v(2) by (subst unat_add_lem [THEN iffD1]) simp_all
  show "unat (sz - (w_count + v * 4)) = unat sz - (unat w_count + 4 * unat v)"
    using le eq by (simp add: unat_sub word_le_nat_alt)
qed

text \<open>
  \<open>None\<close> stands for the return of an error, which the code gives for a null pointer. The loop ends
  because every round that goes on has stored a word.
\<close>

function qspi_page_loop :: "u32 \<Rightarrow> u64 \<Rightarrow> u32 \<Rightarrow> u32 \<Rightarrow> ('x machine_scheme, u32 option) state" where
  "qspi_page_loop w_capacity data sz w_count =
     (if \<not> w_count < sz then ret (Some w_count)
      else do {
        fill \<leftarrow> qspi_get_sramfill;
        let w_fill_lvl = drop_bit QSPI_SRAMFILL_WR_STATUS_POS fill AND QSPI_SRAMFILL_WR_STATUS_MASK;
        if w_capacity - w_fill_lvl < 4 then ret (Some w_count)
        else do {
          let space = qspi_space w_capacity w_fill_lvl (sz - w_count);
          let w_data = data + ucast w_count;
          if w_data = 0 then ret None
          else do {
            qspi_put_words (unat space) w_data;
            let w_data_byte = w_data + 4 * ucast space;
            let w_count' = w_count + space * 4;
            if sz - w_count' < 4 then
              if w_data_byte = 0 then ret None
              else do {
                qspi_put_bytes (unat (sz - w_count')) w_data_byte;
                ret (Some sz)
              }
            else qspi_page_loop w_capacity data sz w_count'
          }
        }
      })"
  by pat_completeness auto

termination
proof (relation "measure (\<lambda>(_, _, sz, w_count). unat sz - unat w_count)", simp_all)
  fix cap sz w :: u32 and lvl :: u32
  assume "w < sz" and "\<not> cap - lvl < 4" and "\<not> sz - (w + qspi_space cap lvl (sz - w) * 4) < 4"
  moreover from this have "\<not> sz - w < 4"
    by (auto simp: qspi_written word_less_nat_alt)
  ultimately show "unat sz - unat (w + qspi_space cap lvl (sz - w) * 4) < unat sz - unat w"
    using qspi_space_progress [of cap lvl "sz - w"] by (simp add: qspi_written word_less_nat_alt)
qed


declare qspi_page_loop.simps [simp del]

text \<open>The result and the value left in the count, which an error does not change: it is 0 at every call.\<close>

definition qspi_page_write_indirect :: "u32 \<Rightarrow> u64 \<Rightarrow> u32 \<Rightarrow> ('x machine_scheme, int \<times> u32) state" where
  "qspi_page_write_indirect offset data sz = do {
     part \<leftarrow> qspi_reg_get_data QSPI_SRAMPART;
     let sram_partition = part AND QSPI_SRAM_RD_CAP_MASK;
     let w_capacity = QSPI_TOTAL_SRAM_SIZE - sram_partition;
     qspi_set_indwrstaddr offset;
     qspi_set_indwrcnt sz;
     qspi_start_indwr;
     r \<leftarrow> qspi_page_loop w_capacity data sz 0;
     ret (case r of None \<Rightarrow> (QSPI_ERROR, 0) | Some w_count \<Rightarrow> (QSPI_OK, w_count))
   }"

definition qspi_page_part :: "u32 \<Rightarrow> u32 \<Rightarrow> u32" where
  "qspi_page_part bank_offset sz =
     (let page_offset = bank_offset AND (QSPI_PAGE_SIZE - 1)
      in if sz < QSPI_PAGE_SIZE - page_offset then sz else QSPI_PAGE_SIZE - page_offset)"

definition qspi_bank_write_indirect :: "u32 \<Rightarrow> u64 \<Rightarrow> u32 \<Rightarrow> ('x machine_scheme, int \<times> u32) state" where
  "qspi_bank_write_indirect bank_offset data sz = do {
     let w_size = qspi_page_part bank_offset sz;
     int_status \<leftarrow> qspi_get_int_status;
     qspi_set_int_status int_status;
     qspi_set_indwrwater (if sz > QSPI_WRITE_WATER_LVL then QSPI_WRITE_WATER_LVL else sz);
     (e, w_count) \<leftarrow> qspi_page_write_indirect bank_offset data w_size;
     ret (if e \<noteq> QSPI_OK then QSPI_ERROR else QSPI_OK, w_count)
   }"

definition qspi_bank_addr :: "u32 \<Rightarrow> u32" where
  "qspi_bank_addr address = drop_bit QSPI_BANK_ADDR_POS (address AND QSPI_BANK_ADDR_OFFSET)"

definition qspi_bank_part :: "u32 \<Rightarrow> u32 \<Rightarrow> u32" where
  "qspi_bank_part bank_offset sz =
     (if sz < QSPI_BANK_SIZE - bank_offset then sz else QSPI_BANK_SIZE - bank_offset)"

definition qspi_indirect_write :: "u32 \<Rightarrow> u64 \<Rightarrow> u32 \<Rightarrow> ('x machine_scheme, int \<times> u32) state" where
  "qspi_indirect_write address data sz = do {
     let bank_offset = address AND (QSPI_BANK_SIZE - 1);
     let bank_write_len = qspi_bank_part bank_offset sz;
     e \<leftarrow> qspi_select_bank (qspi_bank_addr address);
     if e \<noteq> QSPI_OK then ret (QSPI_ERROR, 0)
     else do {
       (e, w_count) \<leftarrow> qspi_bank_write_indirect bank_offset data bank_write_len;
       ret (if e \<noteq> QSPI_OK then QSPI_ERROR else QSPI_OK, w_count)
     }
   }"

section \<open>Reading through the SRAM\<close>

fun qspi_get_words :: "nat \<Rightarrow> u64 \<Rightarrow> ('x machine_scheme, unit) state" where
  "qspi_get_words 0 r_data = ret ()"
| "qspi_get_words (Suc n) r_data = do {
     w \<leftarrow> load32 QSPI_DATA_BASE;
     put_words r_data [w];
     qspi_get_words n (r_data + 4)
   }"

fun qspi_get_bytes :: "nat \<Rightarrow> u64 \<Rightarrow> ('x machine_scheme, unit) state" where
  "qspi_get_bytes 0 r_data_byte = ret ()"
| "qspi_get_bytes (Suc n) r_data_byte = do {
     x \<leftarrow> load8 QSPI_DATA_BASE;
     poke r_data_byte x;
     qspi_get_bytes n (r_data_byte + 1)
   }"

definition qspi_read_level :: "('x machine_scheme, u32) state" where
  "qspi_read_level = do {
     fill \<leftarrow> qspi_get_sramfill;
     let r_fill_lvl = drop_bit QSPI_SRAMFILL_RD_STATUS_POS fill AND QSPI_SRAMFILL_RD_STATUS_MASK;
     ret (if r_fill_lvl > 512 then 512 else r_fill_lvl)
   }"

text \<open>The last bytes, when fewer than four are to be read.\<close>

definition qspi_read_tail :: "u32 \<Rightarrow> u64 \<Rightarrow> ('x machine_scheme, u32) state" where
  "qspi_read_tail sz r_data_byte =
     (if sz < 4 then do {
        r_fill_lvl \<leftarrow> qspi_read_level;
        let r_bytes = (if r_fill_lvl * 4 < sz then r_fill_lvl * 4 else sz);
        qspi_get_bytes (unat r_bytes) r_data_byte;
        ret r_bytes
      } else ret 0)"

text \<open>The whole words, when there is at least one to be read.\<close>

definition qspi_read_head :: "u32 \<Rightarrow> u64 \<Rightarrow> ('x machine_scheme, u32) state" where
  "qspi_read_head sz r_data =
     (if sz \<ge> 4 then do {
        r_fill_lvl \<leftarrow> qspi_read_level;
        let r_bytes = (if r_fill_lvl < sz div 4 then r_fill_lvl else sz div 4);
        qspi_get_words (unat r_bytes) r_data;
        ret r_bytes
      } else ret 0)"

definition qspi_read_data :: "u32 \<Rightarrow> u64 \<Rightarrow> ('x machine_scheme, int \<times> u32) state" where
  "qspi_read_data sz data = do {
     r_words \<leftarrow> qspi_read_head sz data;
     let r_count = r_words * 4;
     let r_data_byte = data + 4 * ucast r_words;
     if sz \<ge> 4 \<and> r_data_byte = 0 then ret (QSPI_ERROR, 0)
     else do {
       n \<leftarrow> qspi_read_tail (sz - r_count) r_data_byte;
       ret (QSPI_OK, r_count + n)
     }
   }"

text \<open>The level of the SRAM at which the controller interrupts a read of \<open>sz\<close> bytes.\<close>

definition qspi_set_read_level :: "u32 \<Rightarrow> ('x machine_scheme, unit) state" where
  "qspi_set_read_level sz = do {
     int_status \<leftarrow> qspi_get_int_status;
     qspi_set_int_status int_status;
     part \<leftarrow> qspi_reg_get_data QSPI_SRAMPART;
     let sram_partition = part AND QSPI_SRAM_RD_CAP_MASK;
     if sz div 4 > sram_partition then qspi_set_indrdwater (sram_partition * 4)
     else qspi_set_indrdwater sz
   }"

definition qspi_read_indirect :: "u32 \<Rightarrow> u64 \<Rightarrow> u32 \<Rightarrow> ('x qspi_state_scheme, int \<times> u32) state" where
  "qspi_read_indirect address data sz = do {
     let bank_addr = qspi_bank_addr address;
     prev \<leftarrow> gets prev_bank_addr;
     if prev \<noteq> bank_addr then do {
       let sz = (if sz < QSPI_BANK_SIZE then sz else QSPI_BANK_SIZE);
       let bank_offset = address AND (QSPI_BANK_SIZE - 1);
       e \<leftarrow> qspi_select_bank bank_addr;
       if e \<noteq> QSPI_OK then ret (0, 0)
       else do {
         qspi_set_indrdstaddr bank_offset;
         qspi_set_indrdcnt sz;
         qspi_set_read_level sz;
         qspi_start_indrd;
         modify (\<lambda>s. s\<lparr>prev_bank_addr := bank_addr\<rparr>);
         (e, r_count) \<leftarrow> qspi_read_data sz data;
         ret (if e \<noteq> QSPI_OK then QSPI_ERROR else e, r_count)
       }
     } else do {
       (e, r_count) \<leftarrow> qspi_read_data sz data;
       ret (if e \<noteq> QSPI_OK then QSPI_ERROR else e, r_count)
     }
   }"

definition qspi_bank_read_indirect :: "u32 \<Rightarrow> u64 \<Rightarrow> u32 \<Rightarrow> ('x machine_scheme, int \<times> u32) state" where
  "qspi_bank_read_indirect bank_offset data sz = do {
     qspi_set_indrdstaddr bank_offset;
     qspi_set_indrdcnt sz;
     qspi_set_read_level sz;
     qspi_start_indrd;
     (e, rd_count) \<leftarrow> qspi_read_data sz data;
     ret (if e \<noteq> QSPI_OK then QSPI_ERROR else QSPI_OK, rd_count)
   }"

definition qspi_indirect_read :: "u32 \<Rightarrow> u64 \<Rightarrow> u32 \<Rightarrow> ('x qspi_state_scheme, int \<times> u32) state" where
  "qspi_indirect_read address buf sz = do {
     let bank_addr = qspi_bank_addr address;
     modify (\<lambda>s. s\<lparr>prev_bank_addr := bank_addr\<rparr>);
     let bank_offset = address AND (QSPI_BANK_SIZE - 1);
     let bank_read_len = qspi_bank_part bank_offset sz;
     e \<leftarrow> qspi_select_bank bank_addr;
     if e \<noteq> QSPI_OK then ret (QSPI_ERROR, 0)
     else do {
       (e, r_count) \<leftarrow> qspi_bank_read_indirect bank_offset buf bank_read_len;
       ret (if e \<noteq> QSPI_OK then QSPI_ERROR else QSPI_OK, r_count)
     }
   }"

section \<open>The interrupt handler\<close>

text \<open>The descriptor after \<open>n\<close> more bytes have gone through the SRAM.\<close>

definition qspi_advance :: "u32 \<Rightarrow> qspi_descriptor_t \<Rightarrow> qspi_descriptor_t" where
  "qspi_advance n c = c\<lparr>qspi_bytes_left := qspi_bytes_left c - n, qspi_buffer := qspi_buffer c + ucast n,
     qspi_start_addr := qspi_start_addr c + n\<rparr>"

text \<open>The application is told; a callback that was never set is a null pointer that is followed.\<close>

definition qspi_notify :: "('x qspi_state_scheme, unit) state" where
  "qspi_notify = do {
     c \<leftarrow> gets qspi_desc;
     case xqspi_callback c of
       CB_NULL \<Rightarrow> ub ''null callback pointer''
     | CB_xflash_callback \<Rightarrow> do {
         f \<leftarrow> gets xflash_callback;
         if f = F_NULL then ub ''null call'' else emit (Call f (qspi_usercontext c) [0])
       }
   }"

text \<open>An interrupt that finds no bytes left ends the transfer.\<close>

definition qspi_complete :: "('x qspi_state_scheme, unit) state \<Rightarrow> u32 \<Rightarrow> ('x qspi_state_scheme, unit) state" where
  "qspi_complete clear_status status = do {
     whenM (status AND QSPI_IND_OPDONE \<noteq> 0) clear_status;
     c \<leftarrow> gets qspi_desc;
     if qspi_is_async c then do {
       qspi_notify;
       qspi_disable_int (QSPI_XFER_LVLBRCH OR QSPI_IND_OPDONE);
       modify (upd_qspi (\<lambda>c. c\<lparr>qspi_in_use := False\<rparr>))
     } else do {
       _ \<leftarrow> osal_semaphore_post (qspi_sem c);
       ret ()
     }
   }"

text \<open>What an interrupt with \<open>status\<close> does: the next piece, or the end of the transfer.\<close>

definition qspi_isr_step :: "u32 \<Rightarrow> ('x qspi_state_scheme, unit) state" where
  "qspi_isr_step status = do {
     c \<leftarrow> gets qspi_desc;
     if qspi_is_wr_op c then
       if qspi_bytes_left c > 0 then do {
         (_, bytes_written) \<leftarrow> qspi_indirect_write (qspi_start_addr c) (qspi_buffer c) (qspi_bytes_left c);
         modify (upd_qspi (qspi_advance bytes_written))
       } else qspi_complete qspi_clear_indwr_op_status status
     else
       if qspi_bytes_left c > 0 then do {
         (_, bytes_read) \<leftarrow> qspi_read_indirect (qspi_start_addr c) (qspi_buffer c) (qspi_bytes_left c);
         modify (upd_qspi (qspi_advance bytes_read))
       } else qspi_complete qspi_clear_indrd_op_status status
   }"

definition qspi_isr :: "vptr \<Rightarrow> ('x qspi_state_scheme, unit) state" where
  "qspi_isr pparam =
     (case pparam of
        V_qspi _ \<Rightarrow> do {
          status \<leftarrow> qspi_get_int_status;
          qspi_set_int_status status;
          whenM (status AND QSPI_IND_OPDONE \<noteq> 0 \<or> status AND QSPI_XFER_LVLBRCH \<noteq> 0) (qspi_isr_step status)
        }
      | _ \<Rightarrow> ub ''qspi descriptor'')"

section \<open>Start and end\<close>

definition qspi_init :: "('x qspi_state_scheme, int) state" where
  "qspi_init = do {
     qspi_disable_int QSPI_ALL_INT_MASK;
     err \<leftarrow> interrupt_register_isr SDM_QSPI_INTR F_qspi_isr qspi_ptr;
     if err \<noteq> 0 then ret QSPI_ERROR
     else do {
       err \<leftarrow> interrupt_enable SDM_QSPI_INTR GIC_INTERRUPT_PRIORITY_QSPI;
       if err \<noteq> 0 then ret QSPI_ERROR
       else do {
         busy \<leftarrow> qspi_is_busy;
         if busy \<noteq> 0 then ret QSPI_BUSY
         else do {
           c \<leftarrow> gets qspi_desc;
           qspi_disable;
           qspi_set_nss_delay (nss_delay c);
           qspi_set_btwn_delay (btwn_delay c);
           qspi_set_after_delay (after_delay c);
           qspi_set_init_delay (init_delay c);
           qspi_set_remap_address DEFAULT_REMAP_ADDR;
           qspi_set_bytes_per_page (page_size c);
           qspi_enable_fast_read_mode;
           qspi_set_instruction_width (inst_width c);
           qspi_set_addr_width (addr_width c);
           qspi_set_data_width (data_width c);
           qspi_enable_mode_bit 1;
           qspi_set_dummy_delay (dummy_cycles c);
           qspi_cfg_write_mode;
           qspi_set_baud_divisor (baud_div c);
           qspi_enable;
           status \<leftarrow> qspi_get_int_status;
           qspi_set_int_status status;
           ret QSPI_OK
         }
       }
     }
   }"

definition qspi_deinit :: "('x machine_scheme, int) state" where
  "qspi_deinit = do {
     busy \<leftarrow> qspi_is_busy;
     if busy \<noteq> 0 then ret QSPI_BUSY
     else do {
       qspi_disable_interrupt QSPI_ALL_INT_MASK;
       qspi_disable;
       busy \<leftarrow> qspi_is_busy;
       ret (if busy \<noteq> 0 then QSPI_BUSY else QSPI_OK)
     }
   }"

end
