(* ===== verification/Flash.thy ===== *)
theory Flash
  imports Qspi
begin

unbundle bit_operations_syntax

text \<open>
  The flash driver, \<^verbatim>\<open>drivers/qspi/socfpga_flash.c\<close>, and the adapter that reads the parameters of the
  flash chip, \<^verbatim>\<open>drivers/qspi/socfpga_flash_adapter.c\<close>.
\<close>

section \<open>State\<close>

definition FLASH_MAX_WAIT_TIME :: u32 where "FLASH_MAX_WAIT_TIME = 0xFFFFFFFF"
definition MAX_FLASH_DEV :: u32 where "MAX_FLASH_DEV = 4"
definition MAX_PARAM_HEADERS :: nat where "MAX_PARAM_HEADERS = 4"
definition SFDP_START_ADDR :: u32 where "SFDP_START_ADDR = 0x0"
definition SFDP_PARAM_START_ADDR :: u32 where "SFDP_PARAM_START_ADDR = 0x8"
definition SFDP_HEADER_SIZE :: u8 where "SFDP_HEADER_SIZE = 8"
definition PARAM_HEADER_SIZE :: u8 where "PARAM_HEADER_SIZE = 8"
definition SFDP_PARAM_FLASHSIZE_ADDR :: u32 where "SFDP_PARAM_FLASHSIZE_ADDR = 0x34"
definition SFDP_PARAM_FLASHSIZE_SIZE :: u8 where "SFDP_PARAM_FLASHSIZE_SIZE = 5"
definition SFDP_PARAM_PAGESIZE_ADDR :: u32 where "SFDP_PARAM_PAGESIZE_ADDR = 0x58"
definition SFDP_PARAM_PAGESIZE_SIZE :: u8 where "SFDP_PARAM_PAGESIZE_SIZE = 5"
definition SFDP_SGN_START_POS :: nat where "SFDP_SGN_START_POS = 8"
definition SFDP_MINREV_POS :: nat where "SFDP_MINREV_POS = 40"
definition SFDP_MAJORREV_POS :: nat where "SFDP_MAJORREV_POS = 48"
definition SFDP_NUM_PARAM_TABLES_POS :: nat where "SFDP_NUM_PARAM_TABLES_POS = 56"
definition SFDP_PARAM_LEN_POS :: nat where "SFDP_PARAM_LEN_POS = 32"
definition SFDP_PARAM_TABLE_OFFSET_POS :: nat where "SFDP_PARAM_TABLE_OFFSET_POS = 40"
definition SFDP_PARAM_FLASHSIZE_POS :: nat where "SFDP_PARAM_FLASHSIZE_POS = 8"
definition SFDP_PARAM_PAGESIZE_POS :: nat where "SFDP_PARAM_PAGESIZE_POS = 12"
definition M25Q_BAUDDIV :: u32 where "M25Q_BAUDDIV = 0xf"
definition M25Q_SECTOR_SIZE :: u32 where "M25Q_SECTOR_SIZE = 4096"
definition M25Q_CLOCK_FREQ :: u32 where "M25Q_CLOCK_FREQ = 100000000"
definition M25Q_NSS_DEALY :: u32 where "M25Q_NSS_DEALY = 0x14"
definition M25Q_INIT_DELAY :: u32 where "M25Q_INIT_DELAY = 0xc8"
definition M25Q_BTWN_DELAY :: u32 where "M25Q_BTWN_DELAY = 0x14"
definition M25Q_AFTER_DELAY :: u32 where "M25Q_AFTER_DELAY = 0xff"
definition M25Q_NUM_ADDR_BYTES :: u32 where "M25Q_NUM_ADDR_BYTES = 2"
definition M25Q_QSPI_MODE :: u8 where "M25Q_QSPI_MODE = 4"

text \<open>The members of the parameter object the code writes.\<close>

record sfdp_header =
  signature :: u32
  min_rev :: u8
  major_rev :: u8
  num_parameter_tables :: u8

record sfdp_param_header =
  parameter_length :: u8
  parameter_table_offset :: u32

record sfdp_object =
  std_header :: sfdp_header
  param_header :: "nat \<Rightarrow> sfdp_param_header"
  table_flash_size :: "nat \<Rightarrow> u64"
  table_page_size :: "nat \<Rightarrow> u8"

record flash_state = qspi_state +
  slave_select :: u8
  flash_adapter :: "nat option"
  flash_is_open :: bool
  m25q_sfdp :: sfdp_object

definition upd_sfdp :: "(sfdp_object \<Rightarrow> sfdp_object) \<Rightarrow> 'x flash_state_scheme \<Rightarrow> 'x flash_state_scheme" where
  "upd_sfdp f s = s\<lparr>m25q_sfdp := f (m25q_sfdp s)\<rparr>"

text \<open>The one handle, or the null pointer.\<close>

datatype flash_handle_t = FH_NULL | FH_gflash_handle


section \<open>The parameters of the chip\<close>

definition raw64 :: "u32 list \<Rightarrow> u64" where
  "raw64 d = push_bit 32 (ucast (d ! 1)) OR ucast (d ! 0)"

text \<open>The array of parameter headers has four elements; the count comes from the chip.\<close>

fun flash_put_params :: "u64 \<Rightarrow> nat \<Rightarrow> nat \<Rightarrow> ('x flash_state_scheme, unit) state" where
  "flash_put_params raw i 0 = ret ()"
| "flash_put_params raw i (Suc n) = do {
     (if i < MAX_PARAM_HEADERS then
       modify (upd_sfdp (\<lambda>o'. o'\<lparr>param_header := (param_header o')(i :=
         \<lparr>parameter_length = ucast (drop_bit SFDP_PARAM_LEN_POS raw),
          parameter_table_offset = ucast (drop_bit SFDP_PARAM_TABLE_OFFSET_POS raw)\<rparr>)\<rparr>))
     else ub ''param_header'');
     flash_put_params raw (Suc i) n
   }"

definition flash_read_sfdp :: "('x flash_state_scheme, int) state" where
  "flash_read_sfdp = do {
     (e, h) \<leftarrow> qspi_read_sfdp SFDP_START_ADDR SFDP_HEADER_SIZE;
     if e \<noteq> QSPI_OK then ret (- EIO)
     else do {
       let raw = raw64 h;
       modify (upd_sfdp (\<lambda>o'. o'\<lparr>std_header :=
         \<lparr>signature = ucast (drop_bit SFDP_SGN_START_POS raw), min_rev = ucast (drop_bit SFDP_MINREV_POS raw),
          major_rev = ucast (drop_bit SFDP_MAJORREV_POS raw),
          num_parameter_tables = ucast (drop_bit SFDP_NUM_PARAM_TABLES_POS raw)\<rparr>\<rparr>));
       (e, p) \<leftarrow> qspi_read_sfdp SFDP_PARAM_START_ADDR PARAM_HEADER_SIZE;
       if e \<noteq> QSPI_OK then ret (- EIO)
       else do {
         n \<leftarrow> gets (\<lambda>s. num_parameter_tables (std_header (m25q_sfdp s)));
         flash_put_params (raw64 p) 0 (unat n);
         ret 0
       }
     }
   }"

definition m25q_constants :: "qspi_descriptor_t \<Rightarrow> qspi_descriptor_t" where
  "m25q_constants c = c\<lparr>inst_width := 0, data_width := 0, addr_width := 0, baud_div := M25Q_BAUDDIV,
     sector_size := M25Q_SECTOR_SIZE, clock_freq := M25Q_CLOCK_FREQ, nss_delay := M25Q_NSS_DEALY,
     init_delay := M25Q_INIT_DELAY, btwn_delay := M25Q_BTWN_DELAY, after_delay := M25Q_AFTER_DELAY,
     num_addr_bytes := M25Q_NUM_ADDR_BYTES, dummy_cycles := 0, qspi_mode := M25Q_QSPI_MODE\<rparr>"

text \<open>The size of the flash and of its pages, which come from the first table.\<close>

definition m25q_sizes :: "('x flash_state_scheme, int) state" where
  "m25q_sizes = do {
     (e, d) \<leftarrow> qspi_read_sfdp SFDP_PARAM_FLASHSIZE_ADDR SFDP_PARAM_FLASHSIZE_SIZE;
     if e \<noteq> QSPI_OK then ret (- EIO)
     else do {
       let flash_size_bits = (drop_bit SFDP_PARAM_FLASHSIZE_POS (raw64 d) AND 0xffffffff) + 1;
       modify (upd_qspi (\<lambda>c. c\<lparr>flash_size := drop_bit 30 flash_size_bits\<rparr>));
       modify (upd_sfdp (\<lambda>o'. o'\<lparr>table_flash_size := (table_flash_size o')(0 := drop_bit 30 flash_size_bits)\<rparr>));
       (e, d) \<leftarrow> qspi_read_sfdp SFDP_PARAM_PAGESIZE_ADDR SFDP_PARAM_PAGESIZE_SIZE;
       if e \<noteq> QSPI_OK then ret (- EIO)
       else do {
         let flash_page_size_bits = drop_bit SFDP_PARAM_PAGESIZE_POS (raw64 d) AND 0x0f;
         let flash_page_size_bytes = push_bit (unat flash_page_size_bits) 1;
         modify (upd_qspi (\<lambda>c. c\<lparr>page_size := flash_page_size_bytes\<rparr>));
         modify (upd_sfdp (\<lambda>o'. o'\<lparr>table_page_size := (table_page_size o')(0 := ucast flash_page_size_bytes)\<rparr>));
         ret 0
       }
     }
   }"

fun m25q_tables :: "nat \<Rightarrow> nat \<Rightarrow> ('x flash_state_scheme, int) state" where
  "m25q_tables i 0 = ret 0"
| "m25q_tables i (Suc n) = do {
     e \<leftarrow> (if i = 0 then m25q_sizes else ret 0);
     if e \<noteq> 0 then ret (- EIO) else m25q_tables (Suc i) n
   }"

definition parse_m25_q_parameters :: "('x flash_state_scheme, int) state" where
  "parse_m25_q_parameters = do {
     n \<leftarrow> gets (\<lambda>s. num_parameter_tables (std_header (m25q_sfdp s)));
     e \<leftarrow> m25q_tables 0 (unat n);
     if e \<noteq> 0 then ret (- EIO)
     else do {
       modify (upd_qspi m25q_constants);
       ret 0
     }
   }"

section \<open>Opening and closing\<close>

definition adapter_list :: "nat list" where "adapter_list = [0]"

text \<open>The kernel objects, which are made once.\<close>

definition flash_make_objects :: "('x flash_state_scheme, bool) state" where
  "flash_make_objects = do {
     c \<leftarrow> gets qspi_desc;
     locked \<leftarrow> (if qspi_mutex c = 0 then do {
         m \<leftarrow> osal_mutex_create;
         modify (upd_qspi (\<lambda>c. c\<lparr>qspi_mutex := m\<rparr>));
         ret (m \<noteq> 0)
       } else ret True);
     if \<not> locked then ret False
     else do {
       c \<leftarrow> gets qspi_desc;
       if qspi_sem c = 0 then do {
         w \<leftarrow> osal_semaphore_create;
         modify (upd_qspi (\<lambda>c. c\<lparr>qspi_sem := w\<rparr>));
         ret (w \<noteq> 0)
       } else ret True
     }
   }"

definition flash_open :: "u32 \<Rightarrow> ('x flash_state_scheme, flash_handle_t) state" where
  "flash_open flash_num = do {
     modify (\<lambda>s. s\<lparr>slave_select := ucast flash_num\<rparr>);
     opened \<leftarrow> gets flash_is_open;
     if flash_num > MAX_FLASH_DEV - 1 then ret FH_NULL
     else if opened then ret FH_NULL
     else if unat flash_num > length adapter_list - 1 then ret FH_NULL
     else do {
       modify (\<lambda>s. s\<lparr>flash_adapter := Some (adapter_list ! unat flash_num)\<rparr>);
       e \<leftarrow> flash_read_sfdp;
       if e \<noteq> QSPI_OK then ret FH_NULL
       else do {
         e \<leftarrow> parse_m25_q_parameters;
         if e \<noteq> 0 then ret FH_NULL
         else do {
           e \<leftarrow> qspi_init;
           if e \<noteq> QSPI_OK then ret FH_NULL
           else do {
             made \<leftarrow> flash_make_objects;
             if \<not> made then ret FH_NULL
             else do {
               modify (\<lambda>s. s\<lparr>flash_is_open := True\<rparr>);
               ret FH_gflash_handle
             }
           }
         }
       }
     }
   }"

definition flash_set_callback :: "flash_handle_t \<Rightarrow> fptr \<Rightarrow> vptr \<Rightarrow> ('x flash_state_scheme, int) state" where
  "flash_set_callback h cb puser_context =
     (if h = FH_NULL then ret (- EINVAL)
      else do {
        modify (\<lambda>s. s\<lparr>xflash_callback := cb\<rparr>);
        e \<leftarrow> qspi_set_callback CB_xflash_callback puser_context;
        ret (if e \<noteq> QSPI_OK then - EINVAL else 0)
      })"

definition flash_close :: "flash_handle_t \<Rightarrow> ('x flash_state_scheme, int) state" where
  "flash_close h =
     (if h = FH_NULL then ret (- EINVAL)
      else do {
        opened \<leftarrow> gets flash_is_open;
        if \<not> opened then ret (- EINVAL)
        else do {
          e \<leftarrow> qspi_deinit;
          if e \<noteq> QSPI_OK then ret (- EIO)
          else do {
            c \<leftarrow> gets qspi_desc;
            ok \<leftarrow> osal_mutex_delete (qspi_mutex c);
            if \<not> ok then ret (- EFAULT)
            else do {
              ok \<leftarrow> osal_semaphore_delete (qspi_sem c);
              if \<not> ok then ret (- EFAULT)
              else do {
                modify (\<lambda>s. s\<lparr>slave_select := 0, qspi_desc := qspi_zero, flash_adapter := None,
                  flash_is_open := False, xflash_callback := F_NULL\<rparr>);
                ret 0
              }
            }
          }
        }
      })"

section \<open>Erasing\<close>

definition SECTOR_SIZE :: u32 where "SECTOR_SIZE = 4096"

function flash_erase_loop :: "u32 \<Rightarrow> u32 \<Rightarrow> int \<Rightarrow> ('x machine_scheme, int) state" where
  "flash_erase_loop address sz erase_count =
     (if \<not> sz > 0 then ret erase_count
      else do {
        e \<leftarrow> qspi_erase address;
        if e \<noteq> 0 then ret (- EIO)
        else if sz \<le> SECTOR_SIZE then ret (erase_count + 1)
        else flash_erase_loop (address + SECTOR_SIZE) (if sz > SECTOR_SIZE then sz - SECTOR_SIZE else SECTOR_SIZE)
               (erase_count + 1)
      })"
  by pat_completeness auto
termination
  by (relation "measure (\<lambda>(_, sz, _). unat sz)")
    (auto simp: SECTOR_SIZE_def word_less_nat_alt word_le_nat_alt unat_sub)

declare flash_erase_loop.simps [simp del]

definition flash_erase_sectors :: "flash_handle_t \<Rightarrow> u32 \<Rightarrow> u32 \<Rightarrow> ('x qspi_state_scheme, int) state" where
  "flash_erase_sectors h address sz =
     (if h = FH_NULL then ret (- EINVAL)
      else do {
        let sector_offset = address AND (SECTOR_SIZE - 1);
        c \<leftarrow> gets qspi_desc;
        if sector_offset + page_size c \<ge> SECTOR_SIZE \<and> sz \<le> SECTOR_SIZE then do {
          let remain_len = SECTOR_SIZE - sector_offset;
          e \<leftarrow> qspi_erase address;
          if e \<noteq> 0 then ret (- EIO)
          else flash_erase_loop (address + remain_len) (sz + remain_len) 1
        } else flash_erase_loop address sz 0
      })"

section \<open>Transfers\<close>

text \<open>The guard under the mutex; when the lock is not obtained, the call goes on. \<open>Some e\<close>: \<open>e\<close> is returned.\<close>

definition flash_claim :: "('x flash_state_scheme, int option) state" where
  "flash_claim = do {
     c \<leftarrow> gets qspi_desc;
     locked \<leftarrow> osal_mutex_lock (qspi_mutex c) (ucast FLASH_MAX_WAIT_TIME);
     opened \<leftarrow> gets flash_is_open;
     if \<not> locked then ret None
     else if \<not> opened then do {
       unlocked \<leftarrow> osal_mutex_unlock (qspi_mutex c);
       ret (Some (if \<not> unlocked then - ETIMEDOUT else - EINVAL))
     } else if qspi_in_use c then do {
       unlocked \<leftarrow> osal_mutex_unlock (qspi_mutex c);
       ret (Some (if \<not> unlocked then - ETIMEDOUT else - EBUSY))
     } else do {
       modify (upd_qspi (\<lambda>c. c\<lparr>qspi_in_use := True\<rparr>));
       unlocked \<leftarrow> osal_mutex_unlock (qspi_mutex c);
       ret (if \<not> unlocked then Some (- ETIMEDOUT) else None)
     }
   }"

definition flash_begun :: "bool \<Rightarrow> bool \<Rightarrow> u32 \<Rightarrow> u64 \<Rightarrow> u32 \<Rightarrow> qspi_descriptor_t \<Rightarrow> qspi_descriptor_t" where
  "flash_begun wr async address data sz c = c\<lparr>qspi_is_wr_op := wr, qspi_is_async := async, qspi_buffer := data,
     qspi_xfer_size := sz, qspi_bytes_left := sz, qspi_start_addr := address\<rparr>"

definition flash_enable_write_int :: "u32 \<Rightarrow> ('x machine_scheme, unit) state" where
  "flash_enable_write_int sz =
     (if sz < QSPI_WRITE_WATER_LVL then qspi_enable_int QSPI_INDDONE else qspi_enable_int QSPI_INDDONE_AND_XFERBRCH)"

text \<open>In a blocking call, \<open>during\<close> is what happens until the wait ends.\<close>

definition flash_write_sync ::
  "('x flash_state_scheme, unit) state \<Rightarrow> flash_handle_t \<Rightarrow> u32 \<Rightarrow> u64 \<Rightarrow> u32 \<Rightarrow> ('x flash_state_scheme, int) state" where
  "flash_write_sync during h address data sz =
     (if h = FH_NULL \<or> data = 0 \<or> sz = 0 then ret (- EINVAL)
      else do {
        claimed \<leftarrow> flash_claim;
        case claimed of Some e \<Rightarrow> ret e
        | None \<Rightarrow> do {
            modify (upd_qspi (flash_begun True False address data sz));
            (e, w_count) \<leftarrow> qspi_indirect_write address data sz;
            if e \<noteq> QSPI_OK then ret (- EIO)
            else do {
              modify (upd_qspi (qspi_advance w_count));
              ok \<leftarrow> (if w_count < sz then do {
                  flash_enable_write_int sz;
                  during;
                  c \<leftarrow> gets qspi_desc;
                  ok \<leftarrow> osal_semaphore_wait (qspi_sem c) (ucast FLASH_MAX_WAIT_TIME);
                  whenM ok (qspi_disable_int (QSPI_XFER_LVLBRCH OR QSPI_IND_OPDONE));
                  ret ok
                } else ret True);
              if \<not> ok then ret (- ETIMEDOUT)
              else do {
                modify (upd_qspi (\<lambda>c. c\<lparr>qspi_in_use := False\<rparr>));
                ret e
              }
            }
          }
      })"

definition flash_write_async :: "flash_handle_t \<Rightarrow> u32 \<Rightarrow> u64 \<Rightarrow> u32 \<Rightarrow> ('x flash_state_scheme, int) state" where
  "flash_write_async h address data sz =
     (if h = FH_NULL \<or> data = 0 \<or> sz = 0 then ret (- EINVAL)
      else do {
        claimed \<leftarrow> flash_claim;
        case claimed of Some e \<Rightarrow> ret e
        | None \<Rightarrow> do {
            modify (upd_qspi (flash_begun True True address data sz));
            (e, w_count) \<leftarrow> qspi_indirect_write address data sz;
            if e \<noteq> QSPI_OK then ret (- EIO)
            else do {
              modify (upd_qspi (qspi_advance w_count));
              whenM (w_count \<le> sz) (flash_enable_write_int sz);
              ret 0
            }
          }
      })"

definition flash_read_sync ::
  "('x flash_state_scheme, unit) state \<Rightarrow> flash_handle_t \<Rightarrow> u32 \<Rightarrow> u64 \<Rightarrow> u32 \<Rightarrow> ('x flash_state_scheme, int) state" where
  "flash_read_sync during h address buf sz =
     (if h = FH_NULL \<or> sz = 0 \<or> buf = 0 then ret (- EINVAL)
      else do {
        claimed \<leftarrow> flash_claim;
        case claimed of Some e \<Rightarrow> ret e
        | None \<Rightarrow> do {
            modify (upd_qspi (flash_begun False False address buf sz));
            qspi_enable_int QSPI_INDDONE_AND_XFERBRCH;
            (e, r_count) \<leftarrow> qspi_indirect_read address buf sz;
            if e \<noteq> QSPI_OK then ret (- EIO)
            else do {
              modify (upd_qspi (qspi_advance r_count));
              ok \<leftarrow> (if r_count < sz then do {
                  during;
                  c \<leftarrow> gets qspi_desc;
                  osal_semaphore_wait (qspi_sem c) (ucast FLASH_MAX_WAIT_TIME)
                } else ret True);
              if \<not> ok then ret (- ETIMEDOUT)
              else do {
                qspi_disable_int (QSPI_XFER_LVLBRCH OR QSPI_IND_OPDONE);
                modify (upd_qspi (\<lambda>c. c\<lparr>qspi_in_use := False\<rparr>));
                ret e
              }
            }
          }
      })"

definition flash_read_async :: "flash_handle_t \<Rightarrow> u32 \<Rightarrow> u64 \<Rightarrow> u32 \<Rightarrow> ('x flash_state_scheme, int) state" where
  "flash_read_async h address buf sz =
     (if h = FH_NULL \<or> sz = 0 \<or> buf = 0 then ret (- EINVAL)
      else do {
        claimed \<leftarrow> flash_claim;
        case claimed of Some e \<Rightarrow> ret e
        | None \<Rightarrow> do {
            modify (upd_qspi (flash_begun False True address buf sz));
            qspi_enable_int QSPI_INDDONE_AND_XFERBRCH;
            (e, r_count) \<leftarrow> qspi_indirect_read address buf sz;
            if e \<noteq> QSPI_OK then ret (- EIO)
            else do {
              modify (upd_qspi (qspi_advance r_count));
              ret 0
            }
          }
      })"

end
