(* ===== verification/Flash_Transfers.thy ===== *)
theory Flash_Transfers
  imports Flash
begin

unbundle bit_operations_syntax

text \<open>
  What the flash driver does with the data: writes and reads by interrupt move the bytes in order, no
  program operation crosses a page of the chip, and which sectors an erase reaches.
\<close>

section \<open>The data window and the page protocol\<close>

definition indwr_start :: u64 where "indwr_start = ucast QSPI_INDWRSTADDR"
definition indwr_count :: u64 where "indwr_count = ucast QSPI_INDWRCNT"
definition indrd_start :: u64 where "indrd_start = ucast QSPI_INDRDSTADDR"

text \<open>
  The program operation under way: its start address, the number of bytes announced for it, and the
  number of bytes delivered since; and the address of the next byte of the read operation under way.
\<close>

fun page_op :: "ev list \<Rightarrow> u32 \<times> u32 \<times> nat" where
  "page_op [] = (0, 0, 0)"
| "page_op (Wr32 a v # t) = (case page_op t of (start, n, k) \<Rightarrow>
     if a = indwr_start then (v, 0, 0)
     else if a = indwr_count then (start, v, 0)
     else if a = QSPI_DATA_BASE then (start, n, k + 4) else (start, n, k))"
| "page_op (Wr8 a x # t) = (case page_op t of (start, n, k) \<Rightarrow>
     if a = QSPI_DATA_BASE then (start, n, k + 1) else (start, n, k))"
| "page_op (_ # t) = page_op t"

definition page_pos :: "ev list \<Rightarrow> u32" where
  "page_pos t = (case page_op t of (start, n, k) \<Rightarrow> start + word_of_nat k)"

fun read_pos :: "ev list \<Rightarrow> u32" where
  "read_pos [] = 0"
| "read_pos (Wr32 a v # t) = (if a = indrd_start then v else read_pos t)"
| "read_pos (Rd32 a v # t) = (if a = QSPI_DATA_BASE then read_pos t + 4 else read_pos t)"
| "read_pos (Rd8 a x # t) = (if a = QSPI_DATA_BASE then read_pos t + 1 else read_pos t)"
| "read_pos (_ # t) = read_pos t"

text \<open>Consecutive bytes with their 24-bit addresses in the bank.\<close>

fun placed :: "u32 \<Rightarrow> u8 list \<Rightarrow> (u32 \<times> u8) list" where
  "placed a [] = []"
| "placed a (x # xs) = (a AND mask 24, x) # placed (a + 1) xs"

text \<open>
  The bytes that have gone into the controller's SRAM and come out of it, oldest first, each with the
  address in the bank that it goes to or comes from.
\<close>

fun sram_sent :: "ev list \<Rightarrow> (u32 \<times> u8) list" where
  "sram_sent [] = []"
| "sram_sent (Wr32 a v # t) = (if a = QSPI_DATA_BASE then sram_sent t @ placed (page_pos t) (le32 v) else sram_sent t)"
| "sram_sent (Wr8 a x # t) = (if a = QSPI_DATA_BASE then sram_sent t @ placed (page_pos t) [x] else sram_sent t)"
| "sram_sent (_ # t) = sram_sent t"

fun sram_got :: "ev list \<Rightarrow> (u32 \<times> u8) list" where
  "sram_got [] = []"
| "sram_got (Rd32 a v # t) = (if a = QSPI_DATA_BASE then sram_got t @ placed (read_pos t) (le32 v) else sram_got t)"
| "sram_got (Rd8 a x # t) = (if a = QSPI_DATA_BASE then sram_got t @ placed (read_pos t) [x] else sram_got t)"
| "sram_got (_ # t) = sram_got t"

lemma placed_append: "placed a (xs @ ys) = placed a xs @ placed (a + word_of_nat (length xs)) ys"
  by (induction xs arbitrary: a) (simp_all add: ac_simps)

lemma length_placed [simp]: "length (placed a xs) = length xs"
  by (induction xs arbitrary: a) simp_all

lemma unat_low_bits: "unat (w AND mask n :: 'a::len word) = unat w mod 2 ^ n"
  by (metis take_bit_eq_mask take_bit_eq_mod unsigned_take_bit_eq)

lemma low_add:
  fixes a b n :: u32
  assumes "a AND mask 24 = b AND mask 24"
  shows "(a + n) AND mask 24 = (b + n) AND mask 24"
proof -
  have low: "unat ((c + n) AND mask 24) = (unat (c AND mask 24) + unat n) mod 2 ^ 24" for c
  proof -
    have "unat (c + n) mod 2 ^ 24 = (unat c + unat n) mod 2 ^ 24"
      using mod_mod_cancel [of "2 ^ 24" "2 ^ 32" "unat c + unat n"] by (simp add: unat_word_ariths(1))
    also have "\<dots> = (unat c mod 2 ^ 24 + unat n) mod 2 ^ 24"
      by (simp only: mod_add_left_eq)
    finally show ?thesis unfolding unat_low_bits .
  qed
  show ?thesis
    using low [of a] low [of b] assms by (simp only: word_unat_eq_iff)
qed

lemma placed_low:
  assumes "a AND mask 24 = b AND mask 24"
  shows "placed a xs = placed b xs"
  using assms
proof (induction xs arbitrary: a b)
  case (Cons x xs)
  have "(a + 1) AND mask 24 = (b + 1) AND mask 24"
    using Cons.prems by (rule low_add)
  from Cons.IH [OF this] Cons.prems show ?case by (simp only: placed.simps)
qed simp

text \<open>
  The operation stays in its bank, which has 24-bit addresses, and in its page of 256 bytes, and the
  driver delivers no more bytes than it has announced.
\<close>

definition in_page :: "u32 \<times> u32 \<times> nat \<Rightarrow> bool" where
  "in_page op' = (case op' of (start, n, k) \<Rightarrow> k \<le> unat n \<and>
     (n \<noteq> 0 \<longrightarrow> unat start < 2 ^ 24 \<and> unat start mod 256 + unat n \<le> 256))"

fun pages_ok :: "ev list \<Rightarrow> bool" where
  "pages_ok [] = True"
| "pages_ok (e # t) = (in_page (page_op (e # t)) \<and> pages_ok t)"

type_synonym sram_view_t = "(u32 \<times> u8) list \<times> (u32 \<times> u8) list \<times> (u32 \<times> u32 \<times> nat) \<times> bool \<times> u32"

definition sram_view :: "ev list \<Rightarrow> sram_view_t" where
  "sram_view t = (sram_sent t, sram_got t, page_op t, pages_ok t, read_pos t)"

lemma pages_ok_in_page: "pages_ok t \<Longrightarrow> in_page (page_op t)"
  by (cases t) (auto simp: in_page_def)

lemma sram_addresses:
  "indwr_start \<noteq> QSPI_DATA_BASE" "indwr_count \<noteq> QSPI_DATA_BASE" "indwr_start \<noteq> indwr_count"
  "indrd_start \<noteq> QSPI_DATA_BASE" "indrd_start \<noteq> indwr_start" "indrd_start \<noteq> indwr_count"
  by (simp_all add: indwr_start_def indwr_count_def indrd_start_def qspi_regs)

lemma sram_view_quiet [simp]:
  "sram_view (Kern c z # t) = sram_view t" "sram_view (Call f p xs # t) = sram_view t"
  "sram_view (UB w # t) = sram_view t"
  "a \<noteq> QSPI_DATA_BASE \<Longrightarrow> sram_view (Rd32 a x # t) = sram_view t"
  "a \<noteq> QSPI_DATA_BASE \<Longrightarrow> a \<noteq> indwr_start \<Longrightarrow> a \<noteq> indwr_count \<Longrightarrow> a \<noteq> indrd_start \<Longrightarrow>
     sram_view (Wr32 a x # t) = sram_view t"
  by (auto simp: sram_view_def pages_ok_in_page split: prod.splits)

lemma sram_view_reg [simp]:
  "r \<noteq> 0x10900000 \<Longrightarrow> sram_view (Rd32 (ucast (r :: u32)) x # t) = sram_view t"
  "r \<noteq> 0x10900000 \<Longrightarrow> r \<noteq> QSPI_INDWRSTADDR \<Longrightarrow> r \<noteq> QSPI_INDWRCNT \<Longrightarrow> r \<noteq> QSPI_INDRDSTADDR \<Longrightarrow>
     sram_view (Wr32 (ucast r) x # t) = sram_view t"
proof -
  have "(ucast r :: u64) = QSPI_DATA_BASE \<longleftrightarrow> r = 0x10900000" for r :: u32
    using ucast_u64_eq [of r "0x10900000"] by (simp add: QSPI_DATA_BASE_def)
  then show "r \<noteq> 0x10900000 \<Longrightarrow> sram_view (Rd32 (ucast r) x # t) = sram_view t"
    and "r \<noteq> 0x10900000 \<Longrightarrow> r \<noteq> QSPI_INDWRSTADDR \<Longrightarrow> r \<noteq> QSPI_INDWRCNT \<Longrightarrow> r \<noteq> QSPI_INDRDSTADDR \<Longrightarrow>
      sram_view (Wr32 (ucast r) x # t) = sram_view t"
    by (simp_all add: indwr_start_def indwr_count_def indrd_start_def)
qed

section \<open>What leaves the data alone\<close>

abbreviation quiet :: "('x machine_scheme, 'a) state \<Rightarrow> bool" where
  "quiet \<equiv> still sram_view"

lemma quiet_kernel [still_intros]:
  "quiet (osal_semaphore_post w)" "quiet (osal_semaphore_wait w n)" "quiet (osal_mutex_lock w n)"
  "quiet (osal_mutex_unlock w)" "quiet osal_mutex_create" "quiet osal_semaphore_create"
  "quiet (osal_mutex_delete w)" "quiet (osal_semaphore_delete w)"
  unfolding osal_defs by (intro still_intros; simp)+

lemma quiet_ll [still_intros]:
  "quiet (RD_REG32 QSPI_CFG)" "quiet qspi_get_int_status" "quiet (qspi_set_int_status v)" "quiet (qspi_enable_interrupt v)"
  "quiet (qspi_disable_interrupt v)" "quiet qspi_clear_indwr_op_status" "quiet qspi_clear_indrd_op_status"
  "quiet (qspi_set_indwrwater v)" "quiet (qspi_set_indrdwater v)"
  "quiet (qspi_set_indrdcnt v)" "quiet qspi_start_indrd" "quiet qspi_start_indwr" "quiet qspi_get_sramfill"
  "quiet (qspi_reg_get_data QSPI_SRAMPART)" "quiet (qspi_select_chip v)" "quiet (qspi_set_flashcmd v)"
  "quiet qspi_flashcmd_exec" "quiet qspi_get_flashcmd_stat" "quiet qspi_flash_cmd_rddata0" "quiet qspi_flash_cmd_rddata1"
  "quiet (qspi_flash_cmd_wrdata0 v)" "quiet (qspi_flash_cmd_wrdata1 v)" "quiet qspi_flashcmd_read_data"
  "quiet qspi_flashcmd_write_data" "quiet (qspi_flashcmd_read_bytes v)" "quiet (qspi_flashcmd_write_bytes v)"
  "quiet qspi_set_enablecmdaddr" "quiet (qspi_set_flashcmdaddrbytes v)" "quiet (qspi_set_flashcmdaddr v)"
  "quiet (qspi_set_nss_delay v)" "quiet (qspi_set_btwn_delay v)" "quiet (qspi_set_after_delay v)"
  "quiet (qspi_set_init_delay v)" "quiet (qspi_set_remap_address v)" "quiet (qspi_set_baud_divisor v)" "quiet qspi_enable"
  "quiet qspi_disable" "quiet qspi_enable_fast_read_mode" "quiet (qspi_set_instruction_width v)"
  "quiet (qspi_set_addr_width v)" "quiet (qspi_set_data_width v)" "quiet (qspi_enable_mode_bit v)"
  "quiet (qspi_set_dummy_delay d)" "quiet qspi_cfg_write_mode" "quiet (qspi_set_bytes_per_page v)"
  unfolding qspi_ll_defs qspi_update_def by (intro still_intros sram_view_reg; simp add: qspi_regs)+

lemma quiet_polls [still_intros]: "quiet (qspi_busy_poll n)" "quiet (qspi_cmd_poll n)"
proof -
  show "quiet (qspi_busy_poll n)"
    by (induction n) (auto intro!: still_intros)
  show "quiet (qspi_cmd_poll n)"
    by (induction n) (auto intro!: still_intros)
qed

lemma quiet_commands [still_intros]:
  "quiet qspi_is_busy" "quiet qspi_flash_cmd_helper" "quiet (qspi_send_flashcmd c)" "quiet (qspi_response k)"
  "quiet (qspi_read_sfdp a k)" "quiet (qspi_send_flash_writecmd b k d)" "quiet (qspi_send_flash_readcmd b k)"
  "quiet (qspi_select_bank v)" "quiet (qspi_enable_int v)" "quiet (qspi_disable_int v)" "quiet qspi_deinit"
  "quiet (qspi_set_read_level v)"
  unfolding qspi_is_busy_def qspi_flash_cmd_helper_def qspi_send_flashcmd_def qspi_response_def qspi_read_sfdp_def
    qspi_send_flash_writecmd_def qspi_send_flash_readcmd_def qspi_select_bank_def qspi_enable_int_def
    qspi_disable_int_def qspi_deinit_def qspi_set_read_level_def
  by (intro still_intros)+

lemma quiet_status_poll [still_intros]: "quiet (qspi_status_poll n cmd ok)"
  by (induction n cmd ok rule: qspi_status_poll.induct) (auto intro!: still_intros)

lemma quiet_erase [still_intros]:
  "quiet qspi_wait_for_eraseand_program" "quiet (qspi_erase_sector v)" "quiet (qspi_erase v)"
  unfolding qspi_wait_for_eraseand_program_def qspi_erase_sector_def qspi_erase_def
  by (intro still_intros)+

lemma quiet_erase_loop [still_intros]: "quiet (flash_erase_loop a n k)"
  by (induction a n k rule: flash_erase_loop.induct)
    (subst flash_erase_loop.simps, auto intro!: still_intros)

section \<open>The data loops\<close>

lemma le_word_bound: "bit (le_word bs) n \<Longrightarrow> n < 64 \<Longrightarrow> n < 8 * length bs"
  by (auto simp: bit_le_word div_less_iff_less_mult mult.commute)

lemma le32_words_at: "le32 (words_at m a 0) = bytes_at m a 4"
proof (rule nth_equalityI)
  fix i assume "i < length (le32 (words_at m a 0))"
  then have i: "i < 4" by simp
  show "le32 (words_at m a 0) ! i = bytes_at m a 4 ! i"
  proof (rule bit_word_eqI)
    fix n assume n: "n < LENGTH(8)"
    with i have "(8 * i + n) div 8 = i" "(8 * i + n) mod 8 = n" by auto
    then show "bit (le32 (words_at m a 0) ! i) n = bit (bytes_at m a 4 ! i) n"
      using i n by (simp add: le32_def words_at_def bit_simps bit_le_word)
  qed
qed simp

text \<open>What the view becomes when \<open>xs\<close> goes into the SRAM, or comes out of it.\<close>

fun view_put :: "u8 list \<Rightarrow> sram_view_t \<Rightarrow> sram_view_t" where
  "view_put xs (snt, got, (start, n, k), good, pos) =
     (snt @ placed (start + word_of_nat k) xs, got, (start, n, k + length xs), good \<and> in_page (start, n, k + length xs), pos)"

fun view_get :: "u8 list \<Rightarrow> sram_view_t \<Rightarrow> sram_view_t" where
  "view_get xs (snt, got, op', good, pos) = (snt, got @ placed pos xs, op', good, pos + word_of_nat (length xs))"

lemma in_page_less: "in_page (start, n, k + j) \<Longrightarrow> in_page (start, n, k)"
  by (simp add: in_page_def)

lemma view_put_put: "view_put ys (view_put xs v) = view_put (xs @ ys) v"
  by (cases "(xs, v)" rule: view_put.cases) (auto simp: in_page_def placed_append ac_simps)

lemma view_get_get: "view_get ys (view_get xs v) = view_get (xs @ ys) v"
  by (cases v) (auto simp: placed_append ac_simps)

lemma view_nothing: "view_put [] (sram_view t) = sram_view t" "view_get [] (sram_view t) = sram_view t"
  using pages_ok_in_page [of t] by (cases "page_op t"; auto simp: sram_view_def)+

lemma sram_view_data:
  "sram_view (Wr32 QSPI_DATA_BASE w # t) = view_put (le32 w) (sram_view t)"
  "sram_view (Wr8 QSPI_DATA_BASE x # t) = view_put [x] (sram_view t)"
  "sram_view (Rd32 QSPI_DATA_BASE w # t) = view_get (le32 w) (sram_view t)"
  "sram_view (Rd8 QSPI_DATA_BASE x # t) = view_get [x] (sram_view t)"
  using sram_addresses pages_ok_in_page [of t] by (cases "page_op t"; auto simp: sram_view_def page_pos_def)+

lemma put_words_run:
  obtains t where "run_state (qspi_put_words n a) s = ((), s\<lparr>trace := t\<rparr>)"
    "sram_view t = view_put (bytes_at (mem s) a (4 * n)) (sram_view (trace s))"
proof (induction n arbitrary: a s thesis)
  case 0
  show ?case by (rule 0 [of "trace s"]) (simp_all add: view_nothing)
next
  case (Suc n)
  let ?e = "Wr32 QSPI_DATA_BASE (words_at (mem s) a 0)"
  obtain t where "run_state (qspi_put_words n (a + 4)) (s\<lparr>trace := ?e # trace s\<rparr>) = ((), s\<lparr>trace := t\<rparr>)"
    "sram_view t = view_put (bytes_at (mem s) (a + 4) (4 * n)) (sram_view (?e # trace s))"
    using Suc.IH [of "a + 4" "s\<lparr>trace := ?e # trace s\<rparr>"] by auto
  then show ?case
    using bytes_at_add [of "mem s" a 4 "4 * n"]
    by (intro Suc.prems [of t]) (simp_all add: sram_view_data view_put_put le32_words_at del: bytes_at.simps)
qed

lemma put_bytes_run:
  obtains t where "run_state (qspi_put_bytes n a) s = ((), s\<lparr>trace := t\<rparr>)"
    "sram_view t = view_put (bytes_at (mem s) a n) (sram_view (trace s))"
proof (induction n arbitrary: a s thesis)
  case 0
  show ?case by (rule 0 [of "trace s"]) (simp_all add: view_nothing)
next
  case (Suc n)
  let ?e = "Wr8 QSPI_DATA_BASE (mem s a)"
  obtain t where "run_state (qspi_put_bytes n (a + 1)) (s\<lparr>trace := ?e # trace s\<rparr>) = ((), s\<lparr>trace := t\<rparr>)"
    "sram_view t = view_put (bytes_at (mem s) (a + 1) n) (sram_view (?e # trace s))"
    using Suc.IH [of "a + 1" "s\<lparr>trace := ?e # trace s\<rparr>"] by auto
  then show ?case
    by (intro Suc.prems [of t]) (simp_all add: sram_view_data view_put_put)
qed

lemma get_words_run:
  obtains xs t where "length xs = 4 * n"
    "run_state (qspi_get_words n a) s = ((), s\<lparr>trace := t, mem := store_bytes (mem s) a xs\<rparr>)"
    "sram_view t = view_get xs (sram_view (trace s))"
proof (induction n arbitrary: a s thesis)
  case 0
  show ?case by (rule 0 [of "[]" "trace s"]) (simp_all add: view_nothing)
next
  case (Suc n)
  let ?w = "hw_rd32 (env s) (trace s) QSPI_DATA_BASE"
  let ?s = "s\<lparr>trace := Rd32 QSPI_DATA_BASE ?w # trace s, mem := store_bytes (mem s) a (le32 ?w)\<rparr>"
  obtain xs t where "length xs = 4 * n"
    "run_state (qspi_get_words n (a + 4)) ?s = ((), ?s\<lparr>trace := t, mem := store_bytes (mem ?s) (a + 4) xs\<rparr>)"
    "sram_view t = view_get xs (sram_view (trace ?s))"
    using Suc.IH [of "a + 4" ?s] by blast
  then show ?case
    by (intro Suc.prems [of "le32 ?w @ xs" t])
      (simp_all add: sram_view_data view_get_get store_bytes_append put_words_def)
qed

lemma get_bytes_run:
  obtains xs t where "length xs = n"
    "run_state (qspi_get_bytes n a) s = ((), s\<lparr>trace := t, mem := store_bytes (mem s) a xs\<rparr>)"
    "sram_view t = view_get xs (sram_view (trace s))"
proof (induction n arbitrary: a s thesis)
  case 0
  show ?case by (rule 0 [of "[]" "trace s"]) (simp_all add: view_nothing)
next
  case (Suc n)
  let ?x = "hw_rd8 (env s) (trace s) QSPI_DATA_BASE"
  let ?s = "s\<lparr>trace := Rd8 QSPI_DATA_BASE ?x # trace s, mem := (mem s)(a := ?x)\<rparr>"
  obtain xs t where "length xs = n"
    "run_state (qspi_get_bytes n (a + 1)) ?s = ((), ?s\<lparr>trace := t, mem := store_bytes (mem ?s) (a + 1) xs\<rparr>)"
    "sram_view t = view_get xs (sram_view (trace ?s))"
    using Suc.IH [of "a + 1" ?s] by blast
  then show ?case
    by (intro Suc.prems [of "?x # xs" t]) (simp_all add: sram_view_data view_get_get)
qed

text \<open>The loop over a page delivers a prefix of the part of the buffer it is given.\<close>

lemma page_loop_run:
  assumes "\<And>i. i \<le> unat sz \<Longrightarrow> data + word_of_nat i \<noteq> 0" and "w \<le> sz"
  shows "\<exists>k t. unat w \<le> unat k \<and> unat k \<le> unat sz \<and> run_state (qspi_page_loop cap data sz w) s = (Some k, s\<lparr>trace := t\<rparr>)
    \<and> sram_view t = view_put (bytes_at (mem s) (data + ucast w) (unat k - unat w)) (sram_view (trace s))"
  using assms(2)
proof (induction "unat sz - unat w" arbitrary: w s rule: less_induct)
  case less
  show ?case
  proof (cases "w < sz")
    case False
    then show ?thesis
      using less.prems by (intro exI [of _ w] exI [of _ "trace s"], subst qspi_page_loop.simps)
        (simp add: view_nothing word_le_nat_alt)
  next
    case True
    let ?fill = "hw_rd32 (env s) (trace s) (ucast QSPI_SRAMFILL)"
    let ?lvl = "drop_bit QSPI_SRAMFILL_WR_STATUS_POS ?fill AND QSPI_SRAMFILL_WR_STATUS_MASK"
    let ?s = "s\<lparr>trace := Rd32 (ucast QSPI_SRAMFILL) ?fill # trace s\<rparr>"
    have seen: "sram_view (trace ?s) = sram_view (trace s)" by (simp add: sram_view_reg qspi_regs)
    show ?thesis
    proof (cases "cap - ?lvl < 4")
      case full: True
      then show ?thesis
        using True seen by (intro exI [of _ w] exI [of _ "trace ?s"], subst qspi_page_loop.simps)
          (simp add: view_nothing word_less_nat_alt qspi_ll_defs Let_def)
    next
      case room: False
      define space where "space = qspi_space cap ?lvl (sz - w)"
      note written = qspi_written(1-3) [OF True, of cap ?lvl, folded space_def]
      have some: "0 < unat (sz - w) div 4 \<Longrightarrow> 0 < unat space"
        using qspi_space_progress [OF room, of "sz - w"] unfolding space_def
        by (simp add: word_less_nat_alt div_greater_zero_iff)
      let ?w = "w + space * 4" and ?a = "data + ucast w"
      have nat: "ucast v = (word_of_nat (unat v) :: u64)" for v :: u32 by simp
      have w: "?a + 4 * ucast space = data + ucast ?w"
        unfolding nat written(1) by simp
      have "data + ucast w \<noteq> 0" "data + ucast ?w \<noteq> 0"
        unfolding nat using True written(1,2) by (intro assms(1); simp add: word_less_nat_alt)+
      then have a: "?a \<noteq> 0" "?a + 4 * ucast space \<noteq> 0" unfolding w by blast+
      have bytes: "bytes_at (mem s) ?a (4 * unat space) @ bytes_at (mem s) (data + ucast ?w) j
          = bytes_at (mem s) ?a (4 * unat space + j)" for j
        unfolding w [symmetric] bytes_at_add by simp
      obtain t where t: "run_state (qspi_put_words (unat space) ?a) ?s = ((), ?s\<lparr>trace := t\<rparr>)"
        "sram_view t = view_put (bytes_at (mem s) ?a (4 * unat space)) (sram_view (trace s))"
        using put_words_run [of "unat space" ?a ?s] seen by auto
      show ?thesis
      proof (cases "sz - ?w < 4")
        case tail: True
        obtain u where u: "run_state (qspi_put_bytes (unat (sz - ?w)) (?a + 4 * ucast space)) (?s\<lparr>trace := t\<rparr>)
            = ((), ?s\<lparr>trace := t\<rparr>\<lparr>trace := u\<rparr>)"
          "sram_view u = view_put (bytes_at (mem s) (?a + 4 * ucast space) (unat (sz - ?w))) (sram_view t)"
          using put_bytes_run [of "unat (sz - ?w)" "?a + 4 * ucast space" "?s\<lparr>trace := t\<rparr>"] by auto
        have "run_state (qspi_page_loop cap data sz w) s = (Some sz, s\<lparr>trace := u\<rparr>)"
          using True room a tail t(1) u(1)
          by (subst qspi_page_loop.simps) (simp add: qspi_ll_defs Let_def space_def [symmetric] split_beta)
        moreover have "sram_view u = view_put (bytes_at (mem s) ?a (unat sz - unat w)) (sram_view (trace s))"
          using u(2) t(2) bytes written True by (simp add: view_put_put w)
        ultimately show ?thesis
          using less.prems by (intro exI [of _ sz] exI [of _ u]) (simp add: word_le_nat_alt)
      next
        case more: False
        have rest: "4 \<le> unat sz - (unat w + 4 * unat space)"
          using more written(3) by (simp add: word_less_nat_alt)
        then have "0 < unat space"
          using True by (intro some) (simp add: unat_sub word_less_nat_alt word_le_nat_alt div_greater_zero_iff)
        with rest have "unat sz - unat ?w < unat sz - unat w" and le: "?w \<le> sz"
          using written by (simp_all add: word_le_nat_alt)
        then obtain k u where "unat ?w \<le> unat k" "unat k \<le> unat sz"
          and u: "run_state (qspi_page_loop cap data sz ?w) (?s\<lparr>trace := t\<rparr>) = (Some k, ?s\<lparr>trace := t\<rparr>\<lparr>trace := u\<rparr>)"
            "sram_view u = view_put (bytes_at (mem s) (data + ucast ?w) (unat k - unat ?w)) (sram_view t)"
          using less.hyps [of ?w "?s\<lparr>trace := t\<rparr>"] by auto
        have "run_state (qspi_page_loop cap data sz w) s = (Some k, s\<lparr>trace := u\<rparr>)"
          using True room a more t(1) u(1)
          by (subst qspi_page_loop.simps) (simp add: qspi_ll_defs Let_def space_def [symmetric] split_beta)
        moreover have "sram_view u = view_put (bytes_at (mem s) ?a (unat k - unat w)) (sram_view (trace s))"
          using u(2) t(2) bytes [of "unat k - unat ?w"] written(1) \<open>unat ?w \<le> unat k\<close> by (simp add: view_put_put)
        ultimately show ?thesis
          using le \<open>unat k \<le> unat sz\<close> \<open>unat ?w \<le> unat k\<close> written
          by (intro exI [of _ k] exI [of _ u]) simp
      qed
    qed
  qed
qed

section \<open>Writing a piece\<close>

lemma page_op_announced:
  "sram_view (Wr32 indwr_count n # Wr32 indwr_start a # t)
     = (sram_sent t, sram_got t, (a, n, 0), pages_ok t \<and> in_page (a, n, 0), read_pos t)"
  using sram_addresses by (cases "page_op t") (auto simp: sram_view_def in_page_def)

lemma sram_view_eq:
  assumes "sram_view t = (snt, got, op', good, pos)"
  shows "sram_sent t = snt" "sram_got t = got" "page_op t = op'" "pages_ok t = good" "read_pos t = pos"
  using assms by (simp_all add: sram_view_def)

definition buffer_ok :: "u64 \<Rightarrow> u32 \<Rightarrow> bool" where
  "buffer_ok data sz \<longleftrightarrow> (\<forall>i \<le> unat sz. data + word_of_nat i \<noteq> 0)"

lemma buffer_ok_less: "buffer_ok data sz \<Longrightarrow> n \<le> sz \<Longrightarrow> buffer_ok data n"
  by (auto simp: buffer_ok_def word_le_nat_alt)

text \<open>What a call delivers: the result \<open>r\<close> and \<open>k\<close> bytes for the flash from \<open>a\<close> on, none of them when it fails.\<close>

definition delivers :: "int \<times> u32 \<Rightarrow> u32 \<Rightarrow> u64 \<Rightarrow> u32 \<Rightarrow> (u64 \<Rightarrow> u8) \<Rightarrow> ev list \<Rightarrow> ev list \<Rightarrow> bool" where
  "delivers r a data sz m t u \<longleftrightarrow> snd r \<le> sz \<and> (fst r \<noteq> 0 \<longrightarrow> snd r = 0)
     \<and> sram_sent u = sram_sent t @ placed a (bytes_at m data (unat (snd r))) \<and> sram_got u = sram_got t
     \<and> (pages_ok t \<longrightarrow> pages_ok u)"

lemma quiet_run:
  assumes "quiet m"
  obtains x t where "run_state m s = (x, s\<lparr>trace := t\<rparr>)" "sram_view t = sram_view (trace s)"
  using stillD [OF assms, of s] by (metis prod.collapse)

lemma sram_view_same:
  assumes "sram_view t = sram_view u"
  shows "sram_sent t = sram_sent u" "sram_got t = sram_got u" "page_op t = page_op u" "pages_ok t = pages_ok u" "read_pos t = read_pos u"
  using assms by (simp_all add: sram_view_def)

lemma page_write_run:
  assumes "buffer_ok data sz" and "unat offset < 2 ^ 24" and "unat offset mod 256 + unat sz \<le> 256"
  obtains r u where "run_state (qspi_page_write_indirect offset data sz) s = (r, s\<lparr>trace := u\<rparr>)"
    "delivers r offset data sz (mem s) (trace s) u" "fst r = QSPI_OK"
proof -
  have quiet: "quiet (qspi_reg_get_data QSPI_SRAMPART)" "quiet qspi_start_indwr" by (intro still_intros)+
  obtain part t1 where t1: "run_state (qspi_reg_get_data QSPI_SRAMPART) s = (part, s\<lparr>trace := t1\<rparr>)"
    "sram_view t1 = sram_view (trace s)"
    by (rule quiet_run [OF quiet(1)])
  let ?t2 = "Wr32 indwr_count sz # Wr32 indwr_start offset # t1"
  have v2: "sram_view ?t2 = (sram_sent (trace s), sram_got (trace s), (offset, sz, 0), pages_ok (trace s), read_pos (trace s))"
    unfolding page_op_announced using sram_view_same [OF t1(2)] assms(2,3) by (simp add: in_page_def)
  obtain t3 where t3: "run_state qspi_start_indwr (s\<lparr>trace := ?t2\<rparr>) = ((), s\<lparr>trace := t3\<rparr>)" "sram_view t3 = sram_view ?t2"
    using quiet_run [OF quiet(2), of "s\<lparr>trace := ?t2\<rparr>"] by auto
  let ?cap = "QSPI_TOTAL_SRAM_SIZE - (part AND QSPI_SRAM_RD_CAP_MASK)"
  obtain k u where k: "unat k \<le> unat sz"
    and run: "run_state (qspi_page_loop ?cap data sz 0) (s\<lparr>trace := t3\<rparr>) = (Some k, s\<lparr>trace := u\<rparr>)"
    and u: "sram_view u = view_put (bytes_at (mem s) data (unat k)) (sram_view t3)"
    using page_loop_run [of sz data 0 ?cap "s\<lparr>trace := t3\<rparr>"] assms(1) by (auto simp: buffer_ok_def)
  show ?thesis
  proof (rule that)
    show "run_state (qspi_page_write_indirect offset data sz) s = ((QSPI_OK, k), s\<lparr>trace := u\<rparr>)"
      unfolding qspi_page_write_indirect_def
      using t1(1) t3(1) run
      by (simp add: Let_def split_beta qspi_set_indwrstaddr_def qspi_set_indwrcnt_def indwr_count_def [symmetric]
          indwr_start_def [symmetric])
    show "delivers (QSPI_OK, k) offset data sz (mem s) (trace s) u"
      using u [unfolded t3(2) v2, simplified, THEN sram_view_eq(1)] u [unfolded t3(2) v2, simplified, THEN sram_view_eq(2)]
        u [unfolded t3(2) v2, simplified, THEN sram_view_eq(4)] k assms(2,3)
      by (simp add: delivers_def word_le_nat_alt in_page_def)
  qed simp
qed


lemma page_part_bounds:
  "qspi_page_part off sz \<le> sz" "unat off mod 256 + unat (qspi_page_part off sz) \<le> 256"
proof -
  have "unat (off AND (QSPI_PAGE_SIZE - 1)) = unat off mod 256"
    using unat_low_bits [of off 8] by (simp add: QSPI_PAGE_SIZE_def mask_eq_exp_minus_1)
  moreover from this have "unat (QSPI_PAGE_SIZE - (off AND (QSPI_PAGE_SIZE - 1))) = 256 - unat off mod 256"
    by (subst unat_sub) (simp_all add: QSPI_PAGE_SIZE_def word_le_nat_alt)
  ultimately show "qspi_page_part off sz \<le> sz" "unat off mod 256 + unat (qspi_page_part off sz) \<le> 256"
    by (auto simp: qspi_page_part_def Let_def word_less_nat_alt word_le_nat_alt)
qed

lemma bank_offset_bound: "unat (address AND (QSPI_BANK_SIZE - 1)) = unat address mod 2 ^ 24"
  using unat_low_bits [of address 24] by (simp add: QSPI_BANK_SIZE_def mask_eq_exp_minus_1)

lemma bank_part_le: "qspi_bank_part off sz \<le> sz"
  by (auto simp: qspi_bank_part_def)

lemma delivers_le: "delivers r a data n m t u \<Longrightarrow> n \<le> sz \<Longrightarrow> delivers r a data sz m t u"
  by (auto simp: delivers_def)

lemma bank_offset_low: "(address AND (QSPI_BANK_SIZE - 1)) AND mask 24 = address AND mask 24"
  by (simp add: QSPI_BANK_SIZE_def mask_eq_exp_minus_1 and.assoc)

lemma placed_bank_offset: "placed (address AND (QSPI_BANK_SIZE - 1)) xs = placed address xs"
  by (rule placed_low [OF bank_offset_low])

lemma bank_write_run:
  assumes "buffer_ok data sz" and "unat off < 2 ^ 24"
  obtains r u where "run_state (qspi_bank_write_indirect off data sz) s = (r, s\<lparr>trace := u\<rparr>)"
    "delivers r off data sz (mem s) (trace s) u" "fst r = QSPI_OK"
proof -
  let ?pre = "do { int_status \<leftarrow> qspi_get_int_status; qspi_set_int_status int_status;
     qspi_set_indwrwater (if sz > QSPI_WRITE_WATER_LVL then QSPI_WRITE_WATER_LVL else sz) }"
  have "quiet ?pre" by (intro still_intros)
  then obtain x t1 where t1: "run_state ?pre s = (x, s\<lparr>trace := t1\<rparr>)" "sram_view t1 = sram_view (trace s)"
    by (rule quiet_run)
  obtain r u where u: "run_state (qspi_page_write_indirect off data (qspi_page_part off sz)) (s\<lparr>trace := t1\<rparr>) = (r, s\<lparr>trace := u\<rparr>)"
    and d: "delivers r off data (qspi_page_part off sz) (mem s) t1 u" "fst r = QSPI_OK"
    by (rule page_write_run [OF buffer_ok_less [OF assms(1) page_part_bounds(1)] assms(2) page_part_bounds(2), where s = "s\<lparr>trace := t1\<rparr>"]) simp
  show ?thesis
  proof (rule that)
    show "run_state (qspi_bank_write_indirect off data sz) s = ((if fst r \<noteq> QSPI_OK then QSPI_ERROR else QSPI_OK, snd r), s\<lparr>trace := u\<rparr>)"
      using t1(1) u by (simp add: qspi_bank_write_indirect_def Let_def split_beta)
    show "delivers (if fst r \<noteq> QSPI_OK then QSPI_ERROR else QSPI_OK, snd r) off data sz (mem s) (trace s) u"
      using delivers_le [OF d(1) page_part_bounds(1)] sram_view_same [OF t1(2)] by (simp add: delivers_def)
    show "fst (if fst r \<noteq> QSPI_OK then QSPI_ERROR else QSPI_OK, snd r) = QSPI_OK"
      using d(2) by simp
  qed
qed

lemma indirect_write_run:
  assumes "buffer_ok data sz"
  obtains r u where "run_state (qspi_indirect_write address data sz) s = (r, s\<lparr>trace := u\<rparr>)"
    "delivers r address data sz (mem s) (trace s) u" "fst r = QSPI_OK \<or> result (qspi_select_bank (qspi_bank_addr address)) s \<noteq> QSPI_OK"
proof -
  let ?off = "address AND (QSPI_BANK_SIZE - 1)"
  have "quiet (qspi_select_bank (qspi_bank_addr address))" by (intro still_intros)
  then obtain x t1 where t1: "run_state (qspi_select_bank (qspi_bank_addr address)) s = (x, s\<lparr>trace := t1\<rparr>)"
      "sram_view t1 = sram_view (trace s)"
    by (rule quiet_run)
  show ?thesis
  proof (cases "x = 0")
    case False
    then show ?thesis
      using t1 sram_view_same [OF t1(2)]
      by (intro that [of "(QSPI_ERROR, 0)" t1]) (simp_all add: qspi_indirect_write_def Let_def split_beta delivers_def)
  next
    case True
    have off: "unat ?off < 2 ^ 24" by (simp add: bank_offset_bound)
    obtain r u where u: "run_state (qspi_bank_write_indirect ?off data (qspi_bank_part ?off sz)) (s\<lparr>trace := t1\<rparr>) = (r, s\<lparr>trace := u\<rparr>)"
      and d: "delivers r ?off data (qspi_bank_part ?off sz) (mem s) t1 u" "fst r = QSPI_OK"
      by (rule bank_write_run [OF buffer_ok_less [OF assms bank_part_le] off, where s = "s\<lparr>trace := t1\<rparr>"]) simp
    show ?thesis
    proof (rule that)
      show "run_state (qspi_indirect_write address data sz) s = ((if fst r \<noteq> QSPI_OK then QSPI_ERROR else QSPI_OK, snd r), s\<lparr>trace := u\<rparr>)"
        using t1(1) u True by (simp add: qspi_indirect_write_def Let_def split_beta)
      show "delivers (if fst r \<noteq> QSPI_OK then QSPI_ERROR else QSPI_OK, snd r) address data sz (mem s) (trace s) u"
        using delivers_le [OF d(1) bank_part_le] sram_view_same [OF t1(2)] by (simp add: delivers_def placed_bank_offset)
      show "fst (if fst r \<noteq> QSPI_OK then QSPI_ERROR else QSPI_OK, snd r) = QSPI_OK \<or> result (qspi_select_bank (qspi_bank_addr address)) s \<noteq> QSPI_OK"
        using d(2) by simp
    qed
  qed
qed

section \<open>Reading a piece\<close>

text \<open>
  What a call collects: \<open>xs\<close> has come out of the SRAM, as many bytes as the call reports, and a call
  that fails has collected nothing.
\<close>

definition collects :: "int \<times> u32 \<Rightarrow> u8 list \<Rightarrow> u32 \<Rightarrow> ev list \<Rightarrow> ev list \<Rightarrow> bool" where
  "collects r xs sz t u \<longleftrightarrow> length xs = unat (snd r) \<and> snd r \<le> sz \<and> (fst r \<noteq> 0 \<longrightarrow> snd r = 0)
     \<and> sram_view u = view_get xs (sram_view t)"

lemma read_level_run:
  obtains n t where "run_state qspi_read_level s = (n, s\<lparr>trace := t\<rparr>)" "sram_view t = sram_view (trace s)" "n \<le> 512"
proof -
  have "quiet qspi_read_level"
    unfolding qspi_read_level_def by (intro still_intros)
  then obtain n t where "run_state qspi_read_level s = (n, s\<lparr>trace := t\<rparr>)" "sram_view t = sram_view (trace s)"
    by (rule quiet_run)
  moreover have "result qspi_read_level s \<le> 512"
    by (auto simp: qspi_read_level_def Let_def split_beta)
  ultimately show ?thesis
    using that by simp
qed

lemma read_tail_run:
  obtains n xs t where "length xs = unat n" "n \<le> sz"
    "run_state (qspi_read_tail sz a) s = (n, s\<lparr>trace := t, mem := store_bytes (mem s) a xs\<rparr>)"
    "sram_view t = view_get xs (sram_view (trace s))"
proof (cases "sz < 4")
  case False
  then show ?thesis
    by (intro that [of "[]" 0 "trace s"]) (simp_all add: qspi_read_tail_def view_nothing)
next
  case True
  obtain l t1 where l: "run_state qspi_read_level s = (l, s\<lparr>trace := t1\<rparr>)" "sram_view t1 = sram_view (trace s)"
    by (rule read_level_run)
  define n where "n = (if l * 4 < sz then l * 4 else sz)"
  obtain xs t where "length xs = unat n"
    "run_state (qspi_get_bytes (unat n) a) (s\<lparr>trace := t1\<rparr>) = ((), s\<lparr>trace := t1\<rparr>\<lparr>trace := t, mem := store_bytes (mem (s\<lparr>trace := t1\<rparr>)) a xs\<rparr>)"
    "sram_view t = view_get xs (sram_view (trace (s\<lparr>trace := t1\<rparr>)))"
    by (rule get_bytes_run)
  with l True show ?thesis
    by (intro that [of xs n t]) (auto simp: qspi_read_tail_def Let_def split_beta n_def)
qed

lemma read_head_run:
  obtains w xs t where "length xs = 4 * unat w" "unat w \<le> unat sz div 4"
    "run_state (qspi_read_head sz a) s = (w, s\<lparr>trace := t, mem := store_bytes (mem s) a xs\<rparr>)"
    "sram_view t = view_get xs (sram_view (trace s))"
proof (cases "sz < 4")
  case True
  then show ?thesis
    by (intro that [where w = 0 and xs = "[]" and t = "trace s"])
      (simp_all add: qspi_read_head_def view_nothing not_less [symmetric])
next
  case False
  obtain l t1 where l: "run_state qspi_read_level s = (l, s\<lparr>trace := t1\<rparr>)" "sram_view t1 = sram_view (trace s)"
    by (rule read_level_run)
  define w where "w = (if l < sz div 4 then l else sz div 4)"
  obtain xs t where "length xs = 4 * unat w"
    "run_state (qspi_get_words (unat w) a) (s\<lparr>trace := t1\<rparr>) = ((), s\<lparr>trace := t1\<rparr>\<lparr>trace := t, mem := store_bytes (mem (s\<lparr>trace := t1\<rparr>)) a xs\<rparr>)"
    "sram_view t = view_get xs (sram_view (trace (s\<lparr>trace := t1\<rparr>)))"
    by (rule get_words_run)
  moreover have "4 \<le> sz" "unat w \<le> unat sz div 4"
    using False by (simp add: not_less) (auto simp: w_def word_less_nat_alt unat_div)
  ultimately show ?thesis
    using l False by (intro that [of xs w t]) (simp_all add: qspi_read_head_def Let_def split_beta, auto simp: w_def)
qed

lemma read_data_run:
  assumes "buffer_ok data sz"
  obtains n xs u where "run_state (qspi_read_data sz data) s = ((QSPI_OK, n), s\<lparr>trace := u, mem := store_bytes (mem s) data xs\<rparr>)"
    "collects (QSPI_OK, n) xs sz (trace s) u"
proof -
  obtain w xs t where w: "length xs = 4 * unat w" "unat w \<le> unat sz div 4"
    and run1: "run_state (qspi_read_head sz data) s = (w, s\<lparr>trace := t, mem := store_bytes (mem s) data xs\<rparr>)"
    and t: "sram_view t = view_get xs (sram_view (trace s))" by (rule read_head_run)
  have w4: "unat (w * 4) = 4 * unat w" using w(2) by (rule unat_times_4)
  then have le: "w * 4 \<le> sz" using w(2) by (simp add: word_le_nat_alt)
  have a: "data + 4 * ucast w = data + word_of_nat (4 * unat w)" by simp
  have null: "data + 4 * ucast w \<noteq> 0"
    using assms w(2) unfolding a buffer_ok_def by (metis div_mult_self_is_m less_eq_div_iff_mult_less_eq mult.commute zero_less_numeral)
  let ?s = "s\<lparr>trace := t, mem := store_bytes (mem s) data xs\<rparr>"
  obtain n ys u where n: "length ys = unat n" "n \<le> sz - w * 4"
    "run_state (qspi_read_tail (sz - w * 4) (data + 4 * ucast w)) ?s = (n, ?s\<lparr>trace := u, mem := store_bytes (mem ?s) (data + 4 * ucast w) ys\<rparr>)"
    "sram_view u = view_get ys (sram_view (trace ?s))"
    by (rule read_tail_run)
  have sum: "unat (w * 4 + n) = 4 * unat w + unat n" "w * 4 + n \<le> sz"
    using n(2) le w4 unsigned_less [of sz, where ?'a = nat]
    by (simp_all add: word_le_nat_alt unat_sub unat_word_ariths(1))
  show ?thesis
  proof (rule that)
    show "run_state (qspi_read_data sz data) s = ((QSPI_OK, w * 4 + n), s\<lparr>trace := u, mem := store_bytes (mem s) data (xs @ ys)\<rparr>)"
      using run1 n(3) null w(1) by (simp add: qspi_read_data_def Let_def split_beta store_bytes_append)
    show "collects (QSPI_OK, w * 4 + n) (xs @ ys) sz (trace s) u"
      using n(1,4) t w(1) sum by (simp add: collects_def view_get_get)
  qed
qed


text \<open>
  The same for a call that may begin a read operation: the bytes come from the addresses from \<open>a\<close> on.
  It leaves the read operation \<open>synced\<close> when its next byte is the one that follows.
\<close>

definition fetches :: "int \<times> u32 \<Rightarrow> u8 list \<Rightarrow> u32 \<Rightarrow> u32 \<Rightarrow> ev list \<Rightarrow> ev list \<Rightarrow> bool" where
  "fetches r xs a sz t u \<longleftrightarrow> length xs = unat (snd r) \<and> snd r \<le> sz
     \<and> sram_got u = sram_got t @ placed a xs \<and> sram_sent u = sram_sent t \<and> (pages_ok t \<longrightarrow> pages_ok u)"

definition synced :: "u32 \<Rightarrow> ev list \<Rightarrow> bool" where
  "synced a t \<longleftrightarrow> read_pos t AND mask 24 = a AND mask 24"

lemma synced_low: "synced a t \<Longrightarrow> a AND mask 24 = b AND mask 24 \<Longrightarrow> synced b t"
  by (simp add: synced_def)

lemma collects_fetches:
  assumes "collects r xs sz t u" and "synced a t"
  shows "fetches r xs a sz t u" "synced (a + snd r) u"
proof -
  have u: "sram_got u = sram_got t @ placed (read_pos t) xs" "sram_sent u = sram_sent t" "pages_ok u = pages_ok t"
      "read_pos u = read_pos t + snd r" "length xs = unat (snd r)" "snd r \<le> sz"
    using assms(1) by (auto simp: collects_def sram_view_def)
  then show "fetches r xs a sz t u"
    using placed_low [of "read_pos t" a xs] assms(2) by (simp add: fetches_def synced_def)
  show "synced (a + snd r) u"
    using assms(2) unfolding synced_def u(4) by (rule low_add)
qed

lemma fetches_from:
  assumes "fetches r xs a sz v u" and "sram_got v = sram_got t" "sram_sent v = sram_sent t" "pages_ok v = pages_ok t"
  shows "fetches r xs a sz t u"
  using assms by (simp add: fetches_def)

lemma fetches_le: "fetches r xs a n t u \<Longrightarrow> n \<le> sz \<Longrightarrow> fetches r xs a sz t u"
  by (auto simp: fetches_def)

lemma fetches_nothing: "sram_view u = sram_view t \<Longrightarrow> fetches (e, 0) [] a sz t u"
  using sram_view_same [of u t] by (simp add: fetches_def)

text \<open>The registers that begin a read operation.\<close>

lemma read_begins:
  obtains x t where "run_state (do { qspi_set_indrdstaddr a; qspi_set_indrdcnt n; qspi_set_read_level n; qspi_start_indrd }) s
      = (x, s\<lparr>trace := t\<rparr>)"
    "sram_got t = sram_got (trace s)" "sram_sent t = sram_sent (trace s)" "pages_ok t = pages_ok (trace s)" "read_pos t = a"
proof -
  let ?t = "Wr32 indrd_start a # trace s"
  have v: "sram_got ?t = sram_got (trace s)" "sram_sent ?t = sram_sent (trace s)" "pages_ok ?t = pages_ok (trace s)" "read_pos ?t = a"
    using sram_addresses pages_ok_in_page [of "trace s"] by (auto split: prod.splits)
  have "quiet (do { qspi_set_indrdcnt n; qspi_set_read_level n; qspi_start_indrd })" by (intro still_intros)
  then obtain x t where "run_state (do { qspi_set_indrdcnt n; qspi_set_read_level n; qspi_start_indrd }) (s\<lparr>trace := ?t\<rparr>)
      = (x, s\<lparr>trace := ?t\<rparr>\<lparr>trace := t\<rparr>)" "sram_view t = sram_view (trace (s\<lparr>trace := ?t\<rparr>))"
    by (rule quiet_run)
  with v sram_view_same [of t ?t] show ?thesis
    by (intro that [of x t]) (simp_all add: qspi_set_indrdstaddr_def indrd_start_def)
qed

lemma bank_read_run:
  assumes "buffer_ok data sz"
  obtains r xs u where "run_state (qspi_bank_read_indirect off data sz) s = (r, s\<lparr>trace := u, mem := store_bytes (mem s) data xs\<rparr>)"
    "fetches r xs off sz (trace s) u" "synced (off + snd r) u" "fst r = QSPI_OK"
proof -
  obtain x t where t: "run_state (do { qspi_set_indrdstaddr off; qspi_set_indrdcnt sz; qspi_set_read_level sz; qspi_start_indrd }) s
      = (x, s\<lparr>trace := t\<rparr>)"
    "sram_got t = sram_got (trace s)" "sram_sent t = sram_sent (trace s)" "pages_ok t = pages_ok (trace s)" "read_pos t = off"
    by (rule read_begins)
  obtain n xs u where run: "run_state (qspi_read_data sz data) (s\<lparr>trace := t\<rparr>) = ((QSPI_OK, n), s\<lparr>trace := t\<rparr>\<lparr>trace := u, mem := store_bytes (mem (s\<lparr>trace := t\<rparr>)) data xs\<rparr>)"
    and n: "collects (QSPI_OK, n) xs sz (trace (s\<lparr>trace := t\<rparr>)) u"
    using assms by (rule read_data_run)
  have "synced off (trace (s\<lparr>trace := t\<rparr>))" using t(5) by (simp add: synced_def)
  note got = collects_fetches [OF n this]
  show ?thesis
    using t run fetches_from [OF got(1), of "trace s"] got(2)
    by (intro that [where r = "(QSPI_OK, n)" and u = u and xs = xs]) (simp_all add: qspi_bank_read_indirect_def split_beta)
qed

text \<open>The first piece of a transfer, and the pieces the interrupt handler reads.\<close>

lemma indirect_read_run:
  fixes s :: "'x qspi_state_scheme"
  assumes "buffer_ok data sz"
  obtains r xs u where "run_state (qspi_indirect_read address data sz) s
      = (r, s\<lparr>trace := u, mem := store_bytes (mem s) data xs, prev_bank_addr := qspi_bank_addr address\<rparr>)"
    "fetches r xs address sz (trace s) u" "fst r = QSPI_OK \<Longrightarrow> synced (address + snd r) u"
    "fst r = QSPI_OK \<or> result (qspi_select_bank (qspi_bank_addr address)) (s\<lparr>prev_bank_addr := qspi_bank_addr address\<rparr>) \<noteq> QSPI_OK"
proof -
  let ?off = "address AND (QSPI_BANK_SIZE - 1)" and ?s = "s\<lparr>prev_bank_addr := qspi_bank_addr address\<rparr>"
  have "quiet (qspi_select_bank (qspi_bank_addr address) :: ('x qspi_state_scheme, int) state)" by (intro still_intros)
  then obtain e t where t: "run_state (qspi_select_bank (qspi_bank_addr address)) ?s = (e, ?s\<lparr>trace := t\<rparr>)"
      "sram_view t = sram_view (trace ?s)"
    by (rule quiet_run)
  show ?thesis
  proof (cases "e = 0")
    case False
    with t show ?thesis
      by (intro that [where r = "(QSPI_ERROR, 0)" and u = t and xs = "[]"])
        (simp_all add: qspi_indirect_read_def Let_def split_beta fetches_nothing)
  next
    case True
    obtain r xs u where run: "run_state (qspi_bank_read_indirect ?off data (qspi_bank_part ?off sz)) (?s\<lparr>trace := t\<rparr>)
        = (r, ?s\<lparr>trace := t\<rparr>\<lparr>trace := u, mem := store_bytes (mem (?s\<lparr>trace := t\<rparr>)) data xs\<rparr>)"
      and r: "fetches r xs ?off (qspi_bank_part ?off sz) (trace (?s\<lparr>trace := t\<rparr>)) u" "synced (?off + snd r) u" "fst r = QSPI_OK"
      using buffer_ok_less [OF assms bank_part_le] by (rule bank_read_run)
    have "fetches r xs address sz (trace s) u"
      using fetches_le [OF r(1) bank_part_le] sram_view_same [OF t(2)] by (simp add: fetches_def placed_bank_offset)
    moreover have "synced (address + snd r) u"
      using r(2) low_add [OF bank_offset_low] by (rule synced_low)
    ultimately show ?thesis
      using run t r(3) True
      by (intro that [where r = r and u = u and xs = xs]) (auto simp add: qspi_indirect_read_def Let_def split_beta prod_eq_iff)
  qed
qed

lemma read_indirect_run:
  fixes s :: "'x qspi_state_scheme"
  assumes "buffer_ok data sz" and prev: "prev_bank_addr s = qspi_bank_addr address \<Longrightarrow> synced address (trace s)"
  obtains r xs u p where "run_state (qspi_read_indirect address data sz) s
      = (r, s\<lparr>trace := u, mem := store_bytes (mem s) data xs, prev_bank_addr := p\<rparr>)"
    "fetches r xs address sz (trace s) u" "p = qspi_bank_addr (address + snd r) \<Longrightarrow> synced (address + snd r) u"
proof (cases "prev_bank_addr s = qspi_bank_addr address")
  case True
  obtain n xs u where run: "run_state (qspi_read_data sz data) s = ((QSPI_OK, n), s\<lparr>trace := u, mem := store_bytes (mem s) data xs\<rparr>)"
    and n: "collects (QSPI_OK, n) xs sz (trace s) u"
    using assms(1) by (rule read_data_run)
  from collects_fetches [OF n prev [OF True]] run True show ?thesis
    by (intro that [where r = "(QSPI_OK, n)" and u = u and xs = xs and p = "prev_bank_addr s"]) (simp_all add: qspi_read_indirect_def Let_def split_beta)
next
  case False
  let ?off = "address AND (QSPI_BANK_SIZE - 1)" and ?sz = "if sz < QSPI_BANK_SIZE then sz else QSPI_BANK_SIZE"
  have le: "?sz \<le> sz" by auto
  let ?bank = "qspi_bank_addr address"
  have "quiet (qspi_select_bank ?bank :: ('x qspi_state_scheme, int) state)" by (intro still_intros)
  then obtain e t where t: "run_state (qspi_select_bank ?bank) s = (e, s\<lparr>trace := t\<rparr>)" "sram_view t = sram_view (trace s)"
    by (rule quiet_run)
  show ?thesis
  proof (cases "e = 0")
    case False
    with t \<open>prev_bank_addr s \<noteq> ?bank\<close> show ?thesis
      by (intro that [where r = "(0, 0)" and u = t and xs = "[]" and p = "prev_bank_addr s"])
        (simp_all add: qspi_read_indirect_def Let_def split_beta fetches_nothing)
  next
    case True
    obtain x t2 where t2: "run_state (do { qspi_set_indrdstaddr ?off; qspi_set_indrdcnt ?sz; qspi_set_read_level ?sz; qspi_start_indrd })
        (s\<lparr>trace := t\<rparr>) = (x, s\<lparr>trace := t\<rparr>\<lparr>trace := t2\<rparr>)"
      "sram_got t2 = sram_got (trace (s\<lparr>trace := t\<rparr>))" "sram_sent t2 = sram_sent (trace (s\<lparr>trace := t\<rparr>))"
      "pages_ok t2 = pages_ok (trace (s\<lparr>trace := t\<rparr>))" "read_pos t2 = ?off"
      by (rule read_begins)
    let ?s = "s\<lparr>trace := t2, prev_bank_addr := ?bank\<rparr>"
    obtain n xs u where run: "run_state (qspi_read_data ?sz data) ?s = ((QSPI_OK, n), ?s\<lparr>trace := u, mem := store_bytes (mem ?s) data xs\<rparr>)"
      and n: "collects (QSPI_OK, n) xs ?sz (trace ?s) u"
      using buffer_ok_less [OF assms(1) le] by (rule read_data_run)
    have "synced address (trace ?s)"
      using t2(5) by (simp add: synced_def bank_offset_low)
    note got = collects_fetches [OF n this]
    have "fetches (QSPI_OK, n) xs address sz (trace s) u"
      using fetches_le [OF got(1) le] t2 sram_view_same [OF t(2)] by (simp add: fetches_def)
    with run t t2 True got(2) \<open>prev_bank_addr s \<noteq> ?bank\<close> show ?thesis
      by (intro that [where r = "(QSPI_OK, n)" and u = u and xs = xs and p = "?bank"])
        (simp_all add: qspi_read_indirect_def Let_def split_beta)
  qed
qed

section \<open>Transfers by interrupt\<close>

text \<open>
  The state of a transfer that began in \<open>s0\<close>: what the descriptor still counts, its pointer, its
  address in the flash, and the bytes that have gone through the SRAM.
\<close>

definition flash_moved :: "bool \<Rightarrow> u32 \<Rightarrow> u64 \<Rightarrow> nat \<Rightarrow> 'x flash_state_scheme \<Rightarrow> 'x flash_state_scheme \<Rightarrow> bool" where
  "flash_moved wr addr data k s0 s \<longleftrightarrow> (\<exists>xs. length xs = k \<and>
     (if wr then xs = bytes_at (mem s0) data k \<and> mem s = mem s0
        \<and> sram_sent (trace s) = sram_sent (trace s0) @ placed addr xs \<and> sram_got (trace s) = sram_got (trace s0)
      else mem s = store_bytes (mem s0) data xs
        \<and> sram_got (trace s) = sram_got (trace s0) @ placed addr xs \<and> sram_sent (trace s) = sram_sent (trace s0)))"

definition flash_at :: "bool \<Rightarrow> u32 \<Rightarrow> u64 \<Rightarrow> u32 \<Rightarrow> 'x flash_state_scheme \<Rightarrow> 'x flash_state_scheme \<Rightarrow> bool" where
  "flash_at wr addr data sz s0 s \<longleftrightarrow>
     (let c = qspi_desc s; left = unat (qspi_bytes_left c); k = unat sz - left
      in qspi_is_wr_op c = wr \<and> qspi_is_async c \<and> left \<le> unat sz \<and> qspi_buffer c = data + word_of_nat k
       \<and> qspi_start_addr c = addr + word_of_nat k \<and> (qspi_in_use c \<or> left = 0) \<and> flash_is_open s \<and> env s = env s0
       \<and> (pages_ok (trace s0) \<longrightarrow> pages_ok (trace s)) \<and> flash_moved wr addr data k s0 s)"

text \<open>A read operation of the controller that the handler will go on with continues where the transfer does.\<close>

definition read_synced :: "'x qspi_state_scheme \<Rightarrow> bool" where
  "read_synced s \<longleftrightarrow> (prev_bank_addr s = qspi_bank_addr (qspi_start_addr (qspi_desc s)) \<longrightarrow>
     synced (qspi_start_addr (qspi_desc s)) (trace s))"

definition flash_stream :: "bool \<Rightarrow> u32 \<Rightarrow> u64 \<Rightarrow> u32 \<Rightarrow> 'x flash_state_scheme \<Rightarrow> 'x flash_state_scheme \<Rightarrow> bool" where
  "flash_stream wr addr data sz s0 s \<longleftrightarrow> flash_at wr addr data sz s0 s \<and> (wr \<or> read_synced s)"

lemma flash_at_quiet:
  assumes "flash_at wr addr data sz s0 s" and "sram_view t = sram_view (trace s)"
  shows "flash_at wr addr data sz s0 (s\<lparr>trace := t\<rparr>)"
  using assms(1) sram_view_same [OF assms(2)] by (simp add: flash_at_def flash_moved_def Let_def cong: if_cong)

lemma flash_stream_quiet:
  assumes "flash_stream wr addr data sz s0 s" and "sram_view t = sram_view (trace s)"
  shows "flash_stream wr addr data sz s0 (s\<lparr>trace := t\<rparr>)"
  using flash_at_quiet [OF _ assms(2)] sram_view_same [OF assms(2)] assms(1)
  by (auto simp: flash_stream_def read_synced_def synced_def)

lemma buffer_ok_rest:
  assumes "buffer_ok data sz" and "unat left \<le> unat sz"
  shows "buffer_ok (data + word_of_nat (unat sz - unat left)) left"
  unfolding buffer_ok_def
proof (intro allI impI)
  fix i assume "i \<le> unat left"
  then have "unat sz - unat left + i \<le> unat sz" using assms(2) by simp
  then have "data + word_of_nat (unat sz - unat left + i) \<noteq> 0"
    using assms(1) unfolding buffer_ok_def by blast
  then show "data + word_of_nat (unat sz - unat left) + word_of_nat i \<noteq> 0"
    unfolding of_nat_add add.assoc .
qed

text \<open>A piece of \<open>n\<close> bytes moves the descriptor on by \<open>n\<close>.\<close>

lemma advance_counts:
  fixes left sz n :: u32
  assumes "unat left \<le> unat sz" and "n \<le> left"
  shows "unat (left - n) = unat left - unat n" "unat sz - (unat left - unat n) = unat sz - unat left + unat n"
    "(word_of_nat (unat sz - unat left) :: u64) + ucast n = word_of_nat (unat sz - unat left + unat n)"
    "(word_of_nat (unat sz - unat left) :: u32) + n = word_of_nat (unat sz - unat left + unat n)"
  using assms by (simp_all add: unat_sub word_le_nat_alt)

lemma flash_at_advance:
  fixes s s1 :: "'x flash_state_scheme"
  assumes inv: "flash_at wr addr data sz s0 s" and n: "n \<le> qspi_bytes_left (qspi_desc s)"
    and kept: "qspi_desc s1 = qspi_desc s" "flash_is_open s1 = flash_is_open s" "env s1 = env s"
    and pages: "pages_ok (trace s) \<Longrightarrow> pages_ok (trace s1)"
    and moved: "\<And>k. k = unat sz - unat (qspi_bytes_left (qspi_desc s)) \<Longrightarrow> flash_moved wr addr data k s0 s \<Longrightarrow>
      qspi_buffer (qspi_desc s) = data + word_of_nat k \<Longrightarrow> qspi_start_addr (qspi_desc s) = addr + word_of_nat k \<Longrightarrow> flash_moved wr addr data (k + unat n) s0 s1"
  shows "flash_at wr addr data sz s0 (upd_qspi (qspi_advance n) s1)"
proof -
  let ?c = "qspi_desc s" and ?left = "qspi_bytes_left (qspi_desc s)" and ?u = "upd_qspi (qspi_advance n) s1"
  have left: "unat ?left \<le> unat sz"
    using inv by (simp add: flash_at_def Let_def)
  note counts = advance_counts [OF left n]
  define k where "k = unat sz - unat ?left + unat n"
  have "flash_moved wr addr data k s0 s1"
    unfolding k_def using inv by (intro moved [OF refl]) (simp_all add: flash_at_def Let_def)
  then have "flash_moved wr addr data k s0 ?u"
    by (simp add: flash_moved_def upd_qspi_def cong: if_cong)
  moreover have "qspi_buffer (qspi_desc ?u) = data + word_of_nat k" "qspi_start_addr (qspi_desc ?u) = addr + word_of_nat k"
    unfolding k_def counts(3,4) [symmetric] using inv kept(1)
    by (simp_all add: flash_at_def Let_def upd_qspi_def qspi_advance_def)
  moreover have "qspi_is_wr_op (qspi_desc ?u) = wr" "qspi_is_async (qspi_desc ?u)" "flash_is_open ?u" "env ?u = env s0"
      "pages_ok (trace s0) \<longrightarrow> pages_ok (trace ?u)" "qspi_in_use (qspi_desc ?u) = qspi_in_use ?c"
      "qspi_in_use ?c \<or> ?left = 0"
    using inv kept pages by (auto simp: flash_at_def Let_def upd_qspi_def qspi_advance_def unat_eq_0)
  moreover have "unat (qspi_bytes_left (qspi_desc ?u)) = unat ?left - unat n"
    using kept(1) counts(1) by (simp add: upd_qspi_def qspi_advance_def)
  moreover have "unat sz - (unat ?left - unat n) = k"
    using counts(2) by (simp add: k_def)
  ultimately show ?thesis
    unfolding flash_at_def Let_def using left by auto
qed

text \<open>The bytes of one more piece are those that follow.\<close>

lemma flash_moved_write:
  assumes "flash_moved True addr data k s0 s" and "delivers r (addr + word_of_nat k) (data + word_of_nat k) n (mem s) (trace s) (trace s1)" and "mem s1 = mem s"
  shows "flash_moved True addr data (k + unat (snd r)) s0 s1"
  using assms bytes_at_add [of "mem s0" data k "unat (snd r)"] by (auto simp: flash_moved_def delivers_def placed_append)

lemma flash_moved_read:
  assumes "flash_moved False addr data k s0 s" and "fetches r xs (addr + word_of_nat k) n (trace s) (trace s1)"
    and "mem s1 = store_bytes (mem s) (data + word_of_nat k) xs"
  shows "flash_moved False addr data (k + unat (snd r)) s0 s1"
proof -
  obtain ys where ys: "length ys = k" "mem s = store_bytes (mem s0) data ys" "sram_got (trace s) = sram_got (trace s0) @ placed addr ys"
      "sram_sent (trace s) = sram_sent (trace s0)"
    using assms(1) by (auto simp: flash_moved_def)
  have "mem s1 = store_bytes (mem s0) data (ys @ xs)"
    unfolding assms(3) ys(2) ys(1) [symmetric] by (rule store_bytes_append [symmetric])
  moreover have "sram_got (trace s1) = sram_got (trace s) @ placed (addr + word_of_nat (length ys)) xs"
      "sram_sent (trace s1) = sram_sent (trace s)" "length xs = unat (snd r)"
    using assms(2) ys(1) by (auto simp: fetches_def)
  ultimately show ?thesis
    using ys unfolding flash_moved_def by (intro exI [of _ "ys @ xs"]) (simp add: placed_append)
qed

lemma flash_at_put:
  assumes inv: "flash_at True addr data sz s0 s"
    and r: "delivers r (qspi_start_addr (qspi_desc s)) (qspi_buffer (qspi_desc s)) (qspi_bytes_left (qspi_desc s)) (mem s) (trace s) u"
  shows "flash_at True addr data sz s0 (upd_qspi (qspi_advance (snd r)) (s\<lparr>trace := u\<rparr>))"
proof (rule flash_at_advance [OF inv])
  show "snd r \<le> qspi_bytes_left (qspi_desc s)" "pages_ok (trace s) \<Longrightarrow> pages_ok (trace (s\<lparr>trace := u\<rparr>))"
    using r by (simp_all add: delivers_def)
  fix k assume "flash_moved True addr data k s0 s" "qspi_buffer (qspi_desc s) = data + word_of_nat k"
      "qspi_start_addr (qspi_desc s) = addr + word_of_nat k"
  with r show "flash_moved True addr data (k + unat (snd r)) s0 (s\<lparr>trace := u\<rparr>)"
    by (auto intro!: flash_moved_write)
qed simp_all

lemma flash_at_got:
  assumes inv: "flash_at False addr data sz s0 s"
    and r: "fetches r xs (qspi_start_addr (qspi_desc s)) (qspi_bytes_left (qspi_desc s)) (trace s) u"
  shows "flash_at False addr data sz s0 (upd_qspi (qspi_advance (snd r))
    (s\<lparr>trace := u, mem := store_bytes (mem s) (qspi_buffer (qspi_desc s)) xs, prev_bank_addr := p\<rparr>))" (is "_ (upd_qspi _ ?s1)")
proof (rule flash_at_advance [OF inv])
  show "snd r \<le> qspi_bytes_left (qspi_desc s)" "pages_ok (trace s) \<Longrightarrow> pages_ok (trace ?s1)"
    using r by (auto simp: fetches_def)
  fix k assume "flash_moved False addr data k s0 s" "qspi_buffer (qspi_desc s) = data + word_of_nat k"
      "qspi_start_addr (qspi_desc s) = addr + word_of_nat k"
  with r show "flash_moved False addr data (k + unat (snd r)) s0 ?s1"
    by (intro flash_moved_read) simp_all
qed simp_all

lemma flash_stream_buffer:
  assumes "flash_stream wr addr data sz s0 s" and "buffer_ok data sz"
  shows "buffer_ok (qspi_buffer (qspi_desc s)) (qspi_bytes_left (qspi_desc s))"
proof -
  let ?left = "qspi_bytes_left (qspi_desc s)"
  have c: "unat ?left \<le> unat sz" "qspi_buffer (qspi_desc s) = data + word_of_nat (unat sz - unat ?left)"
    using assms(1) by (simp_all add: flash_stream_def flash_at_def Let_def)
  show ?thesis
    unfolding c(2) using assms(2) c(1) by (rule buffer_ok_rest)
qed

section \<open>The handler keeps the transfer\<close>

lemma flash_stream_still [keeps_intros]:
  fixes m :: "('x flash_state_scheme, 'a) state"
  assumes "quiet m"
  shows "keeps (flash_stream wr addr data sz s0) m"
proof (rule keepsI)
  fix s :: "'x flash_state_scheme" assume "flash_stream wr addr data sz s0 s"
  moreover obtain t where "final m s = s\<lparr>trace := t\<rparr>" "sram_view t = sram_view (trace s)"
    using assms by (rule stillE)
  ultimately show "flash_stream wr addr data sz s0 (final m s)"
    by (simp add: flash_stream_quiet)
qed

lemma still_callback [still_intros]:
  "still v m \<Longrightarrow> still v n \<Longrightarrow> still v (case cb of CB_NULL \<Rightarrow> m | CB_xflash_callback \<Rightarrow> n)"
  by (cases cb) simp_all

lemma quiet_notify [still_intros]: "quiet (qspi_notify :: ('x qspi_state_scheme, unit) state)"
  unfolding qspi_notify_def by (intro still_intros; simp)

definition nothing_left :: "'x qspi_state_scheme \<Rightarrow> bool" where
  "nothing_left s \<longleftrightarrow> qspi_bytes_left (qspi_desc s) = 0"

lemma nothing_left_still [keeps_intros]:
  fixes m :: "('x flash_state_scheme, 'a) state"
  assumes "quiet m"
  shows "keeps (\<lambda>s. flash_stream wr addr data sz s0 s \<and> nothing_left s) m"
proof (rule keepsI)
  fix s :: "'x flash_state_scheme" assume "flash_stream wr addr data sz s0 s \<and> nothing_left s"
  moreover obtain t where "final m s = s\<lparr>trace := t\<rparr>" "sram_view t = sram_view (trace s)"
    using assms by (rule stillE)
  ultimately show "flash_stream wr addr data sz s0 (final m s) \<and> nothing_left (final m s)"
    by (simp add: flash_stream_quiet nothing_left_def)
qed

lemma nothing_left_free [keeps_intros]:
  fixes s0 :: "'x flash_state_scheme"
  shows "keeps (\<lambda>s. flash_stream wr addr data sz s0 s \<and> nothing_left s) (modify (upd_qspi (\<lambda>c. c\<lparr>qspi_in_use := False\<rparr>)))"
proof -
  have "flash_moved wr addr data k s0 (upd_qspi f s) = flash_moved wr addr data k s0 s" for k f and s :: "'x flash_state_scheme"
    by (simp add: flash_moved_def upd_qspi_def)
  then show ?thesis
    by (intro keepsI) (clarsimp simp: flash_stream_def flash_at_def nothing_left_def Let_def, simp add: upd_qspi_def read_synced_def)
qed

lemma quiet_enable [still_intros]: "quiet (qspi_enable_int m)" "quiet (qspi_disable_int m)" "quiet (flash_enable_write_int sz)"
  unfolding qspi_enable_int_def qspi_disable_int_def flash_enable_write_int_def by (intro still_intros; simp)+

lemma complete_keeps:
  assumes "quiet (clear :: ('x flash_state_scheme, unit) state)"
  shows "keeps (\<lambda>s. flash_stream wr addr data sz s0 s \<and> nothing_left s) (qspi_complete clear status)"
  unfolding qspi_complete_def by (intro keeps_intros still_intros assms)

lemma qspi_isr_step_keeps:
  fixes s :: "'x flash_state_scheme"
  assumes ok: "buffer_ok data sz" and inv: "flash_stream wr addr data sz s0 s"
  shows "flash_stream wr addr data sz s0 (final (qspi_isr_step status) s)"
proof (cases "qspi_bytes_left (qspi_desc s) > 0")
  case False
  have wr: "qspi_is_wr_op (qspi_desc s) = wr"
    using inv by (simp add: flash_stream_def flash_at_def Let_def)
  have "flash_stream wr addr data sz s0 (final (qspi_complete c status) s)" if "quiet c" for c :: "('x flash_state_scheme, unit) state"
    using keepsD [OF complete_keeps [OF that], of wr addr data sz s0 s status] inv False by (simp add: nothing_left_def word_gt_0)
  from this [of qspi_clear_indwr_op_status] this [of qspi_clear_indrd_op_status] wr False show ?thesis
    by (auto simp: qspi_isr_step_def quiet_ll)
next
  case True
  have wr: "qspi_is_wr_op (qspi_desc s) = wr"
    using inv by (simp add: flash_stream_def flash_at_def Let_def)
  let ?c = "qspi_desc s"
  note buf = flash_stream_buffer [OF inv ok]
  show ?thesis
  proof (cases wr)
    case wr': True
    have at: "flash_at True addr data sz s0 s"
      using inv wr' by (simp add: flash_stream_def)
    obtain r u where "run_state (qspi_indirect_write (qspi_start_addr ?c) (qspi_buffer ?c) (qspi_bytes_left ?c)) s = (r, s\<lparr>trace := u\<rparr>)"
      "delivers r (qspi_start_addr ?c) (qspi_buffer ?c) (qspi_bytes_left ?c) (mem s) (trace s) u"
      using buf by (rule indirect_write_run) blast
    with wr wr' True flash_at_put [OF at] show ?thesis
      by (simp add: qspi_isr_step_def split_beta flash_stream_def)
  next
    case rd: False
    have at: "flash_at False addr data sz s0 s" and synced: "read_synced s"
      using inv rd by (simp_all add: flash_stream_def)
    obtain r xs u p where run: "run_state (qspi_read_indirect (qspi_start_addr ?c) (qspi_buffer ?c) (qspi_bytes_left ?c)) s
        = (r, s\<lparr>trace := u, mem := store_bytes (mem s) (qspi_buffer ?c) xs, prev_bank_addr := p\<rparr>)"
      and r: "fetches r xs (qspi_start_addr ?c) (qspi_bytes_left ?c) (trace s) u"
        "p = qspi_bank_addr (qspi_start_addr ?c + snd r) \<Longrightarrow> synced (qspi_start_addr ?c + snd r) u"
      by (rule read_indirect_run [OF buf, where s = s and address = "qspi_start_addr ?c"])
        (use synced in \<open>auto simp add: read_synced_def\<close>)
    have "read_synced (upd_qspi (qspi_advance (snd r)) (s\<lparr>trace := u, mem := store_bytes (mem s) (qspi_buffer ?c) xs, prev_bank_addr := p\<rparr>))"
      using r(2) by (simp add: read_synced_def upd_qspi_def qspi_advance_def)
    with wr True flash_at_got [OF at r(1), of p] rd run show ?thesis
      by (simp add: qspi_isr_step_def split_beta flash_stream_def)
  qed
qed

lemma qspi_isr_keeps_stream:
  assumes ok: "buffer_ok data sz"
  shows "keeps (flash_stream wr addr data sz s0) (qspi_isr (V_qspi x))"
  unfolding qspi_isr_def vptr.case
  by (intro keeps_bind keeps_whenM keepsI [where m = "qspi_isr_step st" for st])
    (rule flash_stream_still, rule quiet_ll | rule qspi_isr_step_keeps [OF ok])+

section \<open>The start of a transfer\<close>

lemma flash_claim_free:
  fixes s :: "'x flash_state_scheme"
  assumes g: "granting (env s)" and none: "result flash_claim s = None"
  obtains t where "flash_is_open s" "\<not> qspi_in_use (qspi_desc s)" "sram_view t = sram_view (trace s)"
    "run_state flash_claim s = (None, upd_qspi (\<lambda>c. c\<lparr>qspi_in_use := True\<rparr>) (s\<lparr>trace := t\<rparr>))"
proof -
  let ?c = "qspi_desc s"
  obtain t where t: "run_state (osal_mutex_lock (qspi_mutex ?c) (ucast FLASH_MAX_WAIT_TIME)) s = (True, s\<lparr>trace := t\<rparr>)"
      "sram_view t = sram_view (trace s)"
    using granted_still(1) [OF g quiet_kernel(3)] by blast
  let ?s = "upd_qspi (\<lambda>c. c\<lparr>qspi_in_use := True\<rparr>) (s\<lparr>trace := t\<rparr>)"
  have "granting (env ?s)" using g by (simp add: upd_qspi_def)
  from granted_still(2) [OF this quiet_kernel(4)] obtain u where
      u: "run_state (osal_mutex_unlock (qspi_mutex ?c)) ?s = (True, ?s\<lparr>trace := u\<rparr>)" "sram_view u = sram_view (trace ?s)"
    by blast
  have c: "flash_is_open s \<and> \<not> qspi_in_use ?c"
    using none t by (auto simp: flash_claim_def split_beta split: if_splits)
  moreover have "run_state flash_claim s = (None, upd_qspi (\<lambda>c. c\<lparr>qspi_in_use := True\<rparr>) (s\<lparr>trace := u\<rparr>))"
    using c t u by (simp add: flash_claim_def split_beta) (simp add: upd_qspi_def)
  ultimately show ?thesis
    using that [of u] t(2) u(2) by (simp add: upd_qspi_def)
qed

lemma flash_claim_error: "result flash_claim s = Some e \<Longrightarrow> e \<noteq> 0"
  by (auto simp: flash_claim_def split_beta split: if_splits)

lemma flash_at_begun:
  fixes s :: "'x flash_state_scheme"
  assumes "flash_is_open s" and "sram_view t = sram_view (trace s)"
  shows "flash_at wr addr data sz s (upd_qspi (flash_begun wr True addr data sz) (upd_qspi (\<lambda>c. c\<lparr>qspi_in_use := True\<rparr>) (s\<lparr>trace := t\<rparr>)))"
  using assms(1) sram_view_same [OF assms(2)]
  by (auto simp: flash_at_def flash_moved_def flash_begun_def upd_qspi_def Let_def)

lemma flash_write_starts:
  fixes s :: "'x flash_state_scheme"
  assumes ret: "result (flash_write_async h addr data sz) s = 0" and g: "granting (env s)" and ok: "buffer_ok data sz"
  shows "flash_stream True addr data sz s (final (flash_write_async h addr data sz) s)"
proof -
  have args: "h \<noteq> FH_NULL" "data \<noteq> 0" "sz \<noteq> 0"
    using ret by (auto simp: flash_write_async_def split: if_splits)
  have none: "result flash_claim s = None"
  proof (cases "result flash_claim s")
    case (Some e)
    with flash_claim_error [OF Some] ret args show ?thesis
      by (simp add: flash_write_async_def split_beta)
  qed
  obtain t where s: "flash_is_open s" "sram_view t = sram_view (trace s)"
    and claim: "run_state flash_claim s = (None, upd_qspi (\<lambda>c. c\<lparr>qspi_in_use := True\<rparr>) (s\<lparr>trace := t\<rparr>))"
    using flash_claim_free [OF g none] by metis
  let ?s = "upd_qspi (flash_begun True True addr data sz) (upd_qspi (\<lambda>c. c\<lparr>qspi_in_use := True\<rparr>) (s\<lparr>trace := t\<rparr>))"
  have inv: "flash_at True addr data sz s ?s"
    using s by (rule flash_at_begun)
  obtain r u where run: "run_state (qspi_indirect_write addr data sz) ?s = (r, ?s\<lparr>trace := u\<rparr>)"
    and r: "delivers r addr data sz (mem ?s) (trace ?s) u"
    using ok by (rule indirect_write_run) blast
  have "flash_stream True addr data sz s (upd_qspi (qspi_advance (snd r)) (?s\<lparr>trace := u\<rparr>))"
    using r flash_at_put [OF inv] by (simp add: flash_stream_def upd_qspi_def flash_begun_def)
  then have
    "flash_stream True addr data sz s (final (whenM (snd r \<le> sz) (flash_enable_write_int sz)) (upd_qspi (qspi_advance (snd r)) (?s\<lparr>trace := u\<rparr>)))"
    by (intro keepsD [OF flash_stream_still] still_intros)
  with ret args claim run show ?thesis
    by (auto simp: flash_write_async_def split_beta split: if_splits)
qed

lemma flash_read_starts:
  fixes s :: "'x flash_state_scheme"
  assumes ret: "result (flash_read_async h addr data sz) s = 0" and g: "granting (env s)" and ok: "buffer_ok data sz"
  shows "flash_stream False addr data sz s (final (flash_read_async h addr data sz) s)"
proof -
  have args: "h \<noteq> FH_NULL" "data \<noteq> 0" "sz \<noteq> 0"
    using ret by (auto simp: flash_read_async_def split: if_splits)
  have none: "result flash_claim s = None"
  proof (cases "result flash_claim s")
    case (Some e)
    with flash_claim_error [OF Some] ret args show ?thesis
      by (simp add: flash_read_async_def split_beta)
  qed
  obtain t where s: "flash_is_open s" "sram_view t = sram_view (trace s)"
    and claim: "run_state flash_claim s = (None, upd_qspi (\<lambda>c. c\<lparr>qspi_in_use := True\<rparr>) (s\<lparr>trace := t\<rparr>))"
    using flash_claim_free [OF g none] by metis
  let ?s = "upd_qspi (flash_begun False True addr data sz) (upd_qspi (\<lambda>c. c\<lparr>qspi_in_use := True\<rparr>) (s\<lparr>trace := t\<rparr>))"
  have inv: "flash_at False addr data sz s ?s"
    using s by (rule flash_at_begun)
  obtain x v where on: "run_state (qspi_enable_int QSPI_INDDONE_AND_XFERBRCH) ?s = (x, ?s\<lparr>trace := v\<rparr>)" "sram_view v = sram_view (trace ?s)"
    using quiet_enable(1) by (rule quiet_run)
  have inv2: "flash_at False addr data sz s (?s\<lparr>trace := v\<rparr>)"
    using inv on(2) by (rule flash_at_quiet)
  obtain r xs u where run: "run_state (qspi_indirect_read addr data sz) (?s\<lparr>trace := v\<rparr>) = (r, ?s\<lparr>trace := v\<rparr>
        \<lparr>trace := u, mem := store_bytes (mem (?s\<lparr>trace := v\<rparr>)) data xs, prev_bank_addr := qspi_bank_addr addr\<rparr>)"
    and r: "fetches r xs addr sz (trace (?s\<lparr>trace := v\<rparr>)) u" "fst r = QSPI_OK \<Longrightarrow> synced (addr + snd r) u"
    by (rule indirect_read_run [OF ok, where s = "?s\<lparr>trace := v\<rparr>" and address = addr]) blast
  let ?t = "?s\<lparr>trace := v\<rparr>\<lparr>trace := u, mem := store_bytes (mem (?s\<lparr>trace := v\<rparr>)) data xs, prev_bank_addr := qspi_bank_addr addr\<rparr>"
  have c: "qspi_buffer (qspi_desc (?s\<lparr>trace := v\<rparr>)) = data" "qspi_bytes_left (qspi_desc (?s\<lparr>trace := v\<rparr>)) = sz"
      "qspi_start_addr (qspi_desc (?s\<lparr>trace := v\<rparr>)) = addr"
    by (simp_all add: upd_qspi_def flash_begun_def)
  have good: "fst r = QSPI_OK"
    using ret args claim on run by (auto simp: flash_read_async_def split_beta split: if_splits)
  have "flash_at False addr data sz s (upd_qspi (qspi_advance (snd r)) ?t)"
    using flash_at_got [OF inv2, unfolded c, OF r(1)] .
  moreover have "read_synced (upd_qspi (qspi_advance (snd r)) ?t)"
    using r(2) good by (simp add: read_synced_def upd_qspi_def qspi_advance_def flash_begun_def)
  ultimately show ?thesis
    using good args claim on run by (simp add: flash_read_async_def split_beta flash_stream_def)
qed

section \<open>What can happen during a transfer\<close>

text \<open>
  The controller's interrupt; further transfers while it is busy; a new callback; an erase, which does
  not look at the flag.
\<close>

inductive flash_reaches :: "'x flash_state_scheme \<Rightarrow> 'x flash_state_scheme \<Rightarrow> bool" for s0 where
  started: "flash_reaches s0 s0"
| interrupt: "flash_reaches s0 s \<Longrightarrow> flash_reaches s0 (final (qspi_isr qspi_ptr) s)"
| write_async: "flash_reaches s0 s \<Longrightarrow> qspi_in_use (qspi_desc s) \<Longrightarrow> flash_reaches s0 (final (flash_write_async h a d n) s)"
| read_async: "flash_reaches s0 s \<Longrightarrow> qspi_in_use (qspi_desc s) \<Longrightarrow> flash_reaches s0 (final (flash_read_async h a d n) s)"
| write_sync: "flash_reaches s0 s \<Longrightarrow> qspi_in_use (qspi_desc s) \<Longrightarrow> flash_reaches s0 (final (flash_write_sync during h a d n) s)"
| read_sync: "flash_reaches s0 s \<Longrightarrow> qspi_in_use (qspi_desc s) \<Longrightarrow> flash_reaches s0 (final (flash_read_sync during h a d n) s)"
| set_callback: "flash_reaches s0 s \<Longrightarrow> flash_reaches s0 (final (flash_set_callback h f p) s)"
| erase: "flash_reaches s0 s \<Longrightarrow> flash_reaches s0 (final (flash_erase_sectors h a n) s)"

inductive_cases flash_reachesE: "flash_reaches s0 s"

lemma flash_busy_claim:
  fixes s :: "'x flash_state_scheme"
  assumes "granting (env s)" and "qspi_in_use (qspi_desc s)"
  obtains e t where "run_state flash_claim s = (Some e, s\<lparr>trace := t\<rparr>)" "sram_view t = sram_view (trace s)"
proof -
  obtain t u where "run_state (osal_mutex_lock (qspi_mutex (qspi_desc s)) (ucast FLASH_MAX_WAIT_TIME)) s = (True, s\<lparr>trace := t\<rparr>)"
    "run_state (osal_mutex_unlock (qspi_mutex (qspi_desc s))) (s\<lparr>trace := t\<rparr>) = (True, s\<lparr>trace := u\<rparr>)"
    "sram_view u = sram_view (trace s)"
    by (rule lock_unlock [OF assms(1) quiet_kernel(3,4)])
  with assms(2) that [of "if flash_is_open s then - EBUSY else - EINVAL" u] show ?thesis
    by (cases "flash_is_open s") (simp_all add: flash_claim_def split_beta)
qed

lemma flash_busy_calls:
  fixes s :: "'x flash_state_scheme"
  assumes inv: "flash_stream wr addr data sz s0 s" and g: "granting (env s0)" and busy: "qspi_in_use (qspi_desc s)"
  shows "flash_stream wr addr data sz s0 (final (flash_write_async h a d n) s)"
    and "flash_stream wr addr data sz s0 (final (flash_read_async h a d n) s)"
    and "flash_stream wr addr data sz s0 (final (flash_write_sync during h a d n) s)"
    and "flash_stream wr addr data sz s0 (final (flash_read_sync during h a d n) s)"
proof -
  have "granting (env s)"
    using inv g by (simp add: flash_stream_def flash_at_def Let_def)
  then obtain e t where "run_state flash_claim s = (Some e, s\<lparr>trace := t\<rparr>)" "sram_view t = sram_view (trace s)"
    using busy by (rule flash_busy_claim)
  with inv flash_stream_quiet [OF inv]
  show "flash_stream wr addr data sz s0 (final (flash_write_async h a d n) s)"
    and "flash_stream wr addr data sz s0 (final (flash_read_async h a d n) s)"
    and "flash_stream wr addr data sz s0 (final (flash_write_sync during h a d n) s)"
    and "flash_stream wr addr data sz s0 (final (flash_read_sync during h a d n) s)"
    by (simp_all add: flash_write_async_def flash_read_async_def flash_write_sync_def flash_read_sync_def)
qed

lemma flash_erase_quiet [still_intros]: "quiet (flash_erase_sectors h a n :: ('x qspi_state_scheme, int) state)"
  unfolding flash_erase_sectors_def by (intro still_intros)

lemma flash_callback_keeps: "keeps (flash_stream wr addr data sz s0) (flash_set_callback h f p)"
proof -
  have "flash_moved wr addr data k s0 (upd_qspi g (s\<lparr>xflash_callback := f\<rparr>)) = flash_moved wr addr data k s0 s" for k g and s :: "'a flash_state_scheme"
    by (simp add: flash_moved_def upd_qspi_def)
  then show ?thesis
    by (intro keepsI) (clarsimp simp: flash_set_callback_def qspi_set_callback_def flash_stream_def flash_at_def Let_def, simp add: upd_qspi_def read_synced_def)
qed

lemma flash_reaches_stream:
  assumes "flash_reaches s0' s" and "flash_stream wr addr data sz s0 s0'" and g: "granting (env s0)" and ok: "buffer_ok data sz"
  shows "flash_stream wr addr data sz s0 s"
  using assms(1,2)
proof (induction rule: flash_reaches.induct)
  case (interrupt s)
  then show ?case
    using keepsD [OF qspi_isr_keeps_stream [OF ok]] by blast
next
  case (set_callback s h f p)
  then show ?case using keepsD [OF flash_callback_keeps] by blast
next
  case (erase s h a n)
  then show ?case using keepsD [OF flash_stream_still [OF flash_erase_quiet]] by blast
qed (simp_all add: flash_busy_calls [OF _ g])

section \<open>A chip that answers\<close>

text \<open>Every command of the driver is executed at once.\<close>

definition cmd_idle :: "env \<Rightarrow> bool" where
  "cmd_idle e \<longleftrightarrow> (\<forall>t. hw_rd32 e t (ucast QSPI_FLASHCMD) AND QSPI_FLASHCMD_EXECSTAT_POS = 0)"

lemma helper_run:
  assumes "cmd_idle (env s)"
  shows "\<exists>t. run_state qspi_flash_cmd_helper s = (QSPI_OK, s\<lparr>trace := t\<rparr>)"
proof -
  have "\<exists>n. unat QSPI_TIMEOUT = Suc n"
    by (intro exI [of _ "unat QSPI_TIMEOUT - 1"]) (simp add: QSPI_TIMEOUT_def)
  then obtain n where n: "unat QSPI_TIMEOUT = Suc n" ..
  obtain x t where t: "run_state qspi_flashcmd_exec s = (x, s\<lparr>trace := t\<rparr>)"
    using quiet_run [of qspi_flashcmd_exec s] quiet_ll by metis
  have "result (qspi_cmd_poll (Suc n)) (s\<lparr>trace := t\<rparr>) = QSPI_OK"
    using assms by (simp add: qspi_get_flashcmd_stat_def cmd_idle_def split_beta)
  moreover obtain y u where "run_state (qspi_cmd_poll (Suc n)) (s\<lparr>trace := t\<rparr>) = (y, s\<lparr>trace := t\<rparr>\<lparr>trace := u\<rparr>)"
    using quiet_run [OF quiet_polls(2), of "Suc n" "s\<lparr>trace := t\<rparr>"] by blast
  ultimately show ?thesis
    using t by (auto simp add: qspi_flash_cmd_helper_def n intro!: exI [of _ u] simp del: qspi_cmd_poll.simps)
qed

lemma command_run:
  assumes "cmd_idle (env s)" and "quiet m"
  shows "\<exists>t. run_state (do { _ \<leftarrow> m; qspi_flash_cmd_helper }) s = (QSPI_OK, s\<lparr>trace := t\<rparr>)"
proof -
  obtain x t where t: "run_state m s = (x, s\<lparr>trace := t\<rparr>)"
    using quiet_run [OF assms(2), of s] by blast
  with helper_run [of "s\<lparr>trace := t\<rparr>"] assms(1) show ?thesis by auto
qed

lemma send_run:
  assumes "cmd_idle (env s)"
  shows "\<exists>t. run_state (qspi_send_flashcmd c) s = (QSPI_OK, s\<lparr>trace := t\<rparr>)"
    and "\<exists>t. run_state (qspi_send_flash_writecmd b n d) s = (QSPI_OK, s\<lparr>trace := t\<rparr>)"
proof -
  have "quiet (do { qspi_select_chip 0; qspi_set_flashcmd c })" by (intro still_intros)
  from command_run [OF assms this] show "\<exists>t. run_state (qspi_send_flashcmd c) s = (QSPI_OK, s\<lparr>trace := t\<rparr>)"
    by (simp add: qspi_send_flashcmd_def split_beta)
  have "quiet (do { qspi_select_chip 0; qspi_set_flashcmd (ucast b); qspi_flashcmd_write_data;
      qspi_flashcmd_write_bytes (ucast n); qspi_flash_cmd_wrdata0 (d ! 0); whenM (n > 4) (qspi_flash_cmd_wrdata1 (d ! 1)) })"
    by (intro still_intros)
  from command_run [OF assms this] show "\<exists>t. run_state (qspi_send_flash_writecmd b n d) s = (QSPI_OK, s\<lparr>trace := t\<rparr>)"
    by (simp add: qspi_send_flash_writecmd_def split_beta)
qed

lemma select_bank_ok:
  assumes "cmd_idle (env s)"
  shows "result (qspi_select_bank b) s = QSPI_OK"
proof -
  obtain t where t: "run_state (qspi_send_flashcmd QSPI_WRITE_ENABLE_CMD) s = (QSPI_OK, s\<lparr>trace := t\<rparr>)"
    using send_run(1) [OF assms] by blast
  obtain u where u: "run_state (qspi_send_flash_writecmd QSPI_EXT_REG_CMD 1 [b]) (s\<lparr>trace := t\<rparr>) = (QSPI_OK, s\<lparr>trace := t\<rparr>\<lparr>trace := u\<rparr>)"
    using send_run(2) [of "s\<lparr>trace := t\<rparr>" QSPI_EXT_REG_CMD 1 "[b]"] assms by auto
  obtain v where "run_state (qspi_send_flashcmd QSPI_WRITE_DISABLE_CMD) (s\<lparr>trace := u\<rparr>) = (QSPI_OK, s\<lparr>trace := u\<rparr>\<lparr>trace := v\<rparr>)"
    using send_run(1) [of "s\<lparr>trace := u\<rparr>"] assms by auto
  with t u show ?thesis
    by (simp add: qspi_select_bank_def)
qed

lemma flash_claim_granted:
  fixes s :: "'x flash_state_scheme"
  assumes g: "granting (env s)" and c: "flash_is_open s" "\<not> qspi_in_use (qspi_desc s)"
  shows "result flash_claim s = None"
proof -
  obtain t where t: "run_state (osal_mutex_lock (qspi_mutex (qspi_desc s)) (ucast FLASH_MAX_WAIT_TIME)) s = (True, s\<lparr>trace := t\<rparr>)"
    using granted_still(1) [OF g quiet_kernel(3)] by blast
  have "granting (env (upd_qspi (\<lambda>c. c\<lparr>qspi_in_use := True\<rparr>) (s\<lparr>trace := t\<rparr>)))"
    using g by (simp add: upd_qspi_def)
  from granted(2) [OF this] t c show ?thesis
    by (simp add: flash_claim_def split_beta)
qed

lemma flash_write_accepted:
  fixes s :: "'x flash_state_scheme"
  assumes g: "granting (env s)" "cmd_idle (env s)" and args: "h \<noteq> FH_NULL" "data \<noteq> 0" "sz \<noteq> 0" and ok: "buffer_ok data sz"
    and c: "flash_is_open s" "\<not> qspi_in_use (qspi_desc s)"
  shows "result (flash_write_async h addr data sz) s = 0"
proof -
  have none: "result flash_claim s = None"
    using g(1) c by (rule flash_claim_granted)
  obtain t where claim: "run_state flash_claim s = (None, upd_qspi (\<lambda>c. c\<lparr>qspi_in_use := True\<rparr>) (s\<lparr>trace := t\<rparr>))"
    using flash_claim_free [OF g(1) none] by metis
  let ?s = "upd_qspi (flash_begun True True addr data sz) (upd_qspi (\<lambda>c. c\<lparr>qspi_in_use := True\<rparr>) (s\<lparr>trace := t\<rparr>))"
  have "cmd_idle (env ?s)"
    using g(2) by (simp add: upd_qspi_def)
  note bank = select_bank_ok [OF this, of "qspi_bank_addr addr"]
  obtain r u where "run_state (qspi_indirect_write addr data sz) ?s = (r, ?s\<lparr>trace := u\<rparr>)" "fst r = QSPI_OK"
    by (rule indirect_write_run [OF ok, where s = ?s and address = addr]) (use bank in blast)
  with args claim show ?thesis
    by (simp add: flash_write_async_def split_beta)
qed

lemma flash_read_accepted:
  fixes s :: "'x flash_state_scheme"
  assumes g: "granting (env s)" "cmd_idle (env s)" and args: "h \<noteq> FH_NULL" "data \<noteq> 0" "sz \<noteq> 0" and ok: "buffer_ok data sz"
    and c: "flash_is_open s" "\<not> qspi_in_use (qspi_desc s)"
  shows "result (flash_read_async h addr data sz) s = 0"
proof -
  have none: "result flash_claim s = None"
    using g(1) c by (rule flash_claim_granted)
  obtain t where claim: "run_state flash_claim s = (None, upd_qspi (\<lambda>c. c\<lparr>qspi_in_use := True\<rparr>) (s\<lparr>trace := t\<rparr>))"
    using flash_claim_free [OF g(1) none] by metis
  let ?s = "upd_qspi (flash_begun False True addr data sz) (upd_qspi (\<lambda>c. c\<lparr>qspi_in_use := True\<rparr>) (s\<lparr>trace := t\<rparr>))"
  obtain x v where on: "run_state (qspi_enable_int QSPI_INDDONE_AND_XFERBRCH) ?s = (x, ?s\<lparr>trace := v\<rparr>)"
    by (rule quiet_run [OF quiet_enable(1), where s = ?s]) blast
  have "cmd_idle (env (?s\<lparr>trace := v\<rparr>\<lparr>prev_bank_addr := qspi_bank_addr addr\<rparr>))"
    using g(2) by (simp add: upd_qspi_def)
  note bank = select_bank_ok [OF this, of "qspi_bank_addr addr"]
  have "fst (result (qspi_indirect_read addr data sz) (?s\<lparr>trace := v\<rparr>)) = QSPI_OK"
    by (rule indirect_read_run [OF ok, where s = "?s\<lparr>trace := v\<rparr>" and address = addr]) (use bank in auto)
  with args claim on show ?thesis
    by (simp add: flash_read_async_def split_beta)
qed

section \<open>The promises of a transfer\<close>


text \<open>A buffer that ends below the top of the address space does not wrap.\<close>

lemma buffer_ok_no_wrap:
  assumes "data \<noteq> 0" and "unat data + unat sz < 2 ^ 64"
  shows "buffer_ok data sz"
  unfolding buffer_ok_def
proof (intro allI impI)
  fix i assume "i \<le> unat sz"
  then have "unat (data + word_of_nat i) = unat data + i"
    using assms(2) by (simp add: unat_word_ariths(1) unsigned_of_nat take_bit_nat_eq_self)
  moreover have "0 < unat data"
    using assms(1) by (simp add: unat_gt_0)
  ultimately show "data + word_of_nat i \<noteq> 0" by (metis add_is_0 less_numeral_extra(3) unsigned_0)
qed

lemma placed_map: "placed a (map f [i..<j]) = map (\<lambda>k. ((a + word_of_nat (k - i)) AND mask 24, f k)) [i..<j]"
proof (induction "j - i" arbitrary: a i)
  case (Suc n)
  then have "[i..<j] = i # [Suc i..<j]" by (simp add: upt_rec)
  moreover have "placed (a + 1) (map f [Suc i..<j]) = map (\<lambda>k. ((a + 1 + word_of_nat (k - Suc i)) AND mask 24, f k)) [Suc i..<j]"
    using Suc(2) by (intro Suc(1)) simp
  moreover have "a + 1 + word_of_nat (k - Suc i) = a + word_of_nat (k - i)" if "Suc i \<le> k" for k
  proof -
    have "k - i = Suc (k - Suc i)" using that by simp
    then show ?thesis by (simp only: of_nat_Suc add.assoc)
  qed
  ultimately show ?case by (simp only: list.map placed.simps) simp
qed simp

lemma placed_bytes_at:
  "placed a (bytes_at m data k) = map (\<lambda>i. ((a + word_of_nat i) AND mask 24, m (data + word_of_nat i))) [0..<k]"
  by (simp only: bytes_at_map placed_map diff_zero)

definition flash_machine :: flash_state where
  "flash_machine = spi_state.extend (spi_machine\<lparr>env := ram_env\<lparr>hw_rd32 := \<lambda>_ _. 0\<rparr>\<rparr>)
     \<lparr>prev_bank_addr = 0, qspi_desc = qspi_zero, xflash_callback = F_user 1, slave_select = 0, flash_adapter = Some 0,
      flash_is_open = True, m25q_sfdp = \<lparr>std_header = \<lparr>signature = 0, min_rev = 0, major_rev = 0, num_parameter_tables = 0\<rparr>,
        param_header = (\<lambda>_. \<lparr>parameter_length = 0, parameter_table_offset = 0\<rparr>), table_flash_size = (\<lambda>_. 0), table_page_size = (\<lambda>_. 0)\<rparr>\<rparr>"

lemma flash_machine_simps:
  "env flash_machine = ram_env\<lparr>hw_rd32 := \<lambda>_ _. 0\<rparr>" "mem flash_machine = ucast" "flash_is_open flash_machine"
  "qspi_desc flash_machine = qspi_zero" "trace flash_machine = []"
  by (simp_all add: flash_machine_def spi_state.defs)

lemma flash_machine_ok:
  "granting (env flash_machine)" "cmd_idle (env flash_machine)" "\<not> qspi_in_use (qspi_desc flash_machine)"
  by (simp_all add: flash_machine_simps granting_def cmd_idle_def ram_env_def qspi_zero_def)




end
