(* ===== verification/Flash_Erase.thy ===== *)
theory Flash_Erase
  imports Flash_Transfers
begin

unbundle bit_operations_syntax

text \<open>
  Which sectors \<^verbatim>\<open>flash_erase_sectors\<close> erases: the addresses it sends with the sector erase
  command, each in the bank selected before, compared with the sectors that the range lies in.
\<close>

section \<open>The erase commands in a trace\<close>

text \<open>The word of the last write command, which selects the bank, and the addresses sent, each with that word.\<close>

definition bank_word_reg :: u64 where "bank_word_reg = ucast QSPI_FLASHCMDWRDATALO"
definition cmd_addr_reg :: u64 where "cmd_addr_reg = ucast QSPI_FLASHCMDADDR"

fun bank_word :: "ev list \<Rightarrow> u32" where
  "bank_word [] = 0"
| "bank_word (Wr32 a v # t) = (if a = bank_word_reg then v else bank_word t)"
| "bank_word (_ # t) = bank_word t"

fun erased :: "ev list \<Rightarrow> (u32 \<times> u32) list" where
  "erased [] = []"
| "erased (Wr32 a v # t) = (if a = cmd_addr_reg then erased t @ [(bank_word t, v)] else erased t)"
| "erased (_ # t) = erased t"

definition erase_view :: "ev list \<Rightarrow> (u32 \<times> u32) list \<times> u32" where
  "erase_view t = (erased t, bank_word t)"

lemma erase_view_quiet [simp]:
  "erase_view (Kern c z # t) = erase_view t" "erase_view (Call f p xs # t) = erase_view t"
  "erase_view (UB w # t) = erase_view t" "erase_view (Rd32 a x # t) = erase_view t"
  by (auto simp: erase_view_def)

lemma erase_view_reg:
  "r \<noteq> QSPI_FLASHCMDWRDATALO \<Longrightarrow> r \<noteq> QSPI_FLASHCMDADDR \<Longrightarrow> erase_view (Wr32 (ucast r) x # t) = erase_view t"
  by (simp add: erase_view_def bank_word_reg_def cmd_addr_reg_def)

abbreviation stays :: "('x machine_scheme, 'a) state \<Rightarrow> bool" where
  "stays \<equiv> still erase_view"

lemma stays_ll [still_intros]:
  "stays (qspi_select_chip v)" "stays (qspi_set_flashcmd v)" "stays qspi_flashcmd_exec" "stays qspi_get_flashcmd_stat"
  "stays qspi_flash_cmd_rddata0" "stays qspi_flash_cmd_rddata1" "stays (qspi_flash_cmd_wrdata1 v)"
  "stays qspi_flashcmd_read_data" "stays qspi_flashcmd_write_data" "stays (qspi_flashcmd_read_bytes v)"
  "stays (qspi_flashcmd_write_bytes v)" "stays qspi_set_enablecmdaddr" "stays (qspi_set_flashcmdaddrbytes v)"
  unfolding qspi_ll_defs qspi_update_def by (intro still_intros erase_view_reg; simp add: qspi_regs)+

lemma stays_commands [still_intros]:
  "stays (qspi_cmd_poll n)" "stays qspi_flash_cmd_helper" "stays (qspi_send_flashcmd c)" "stays (qspi_response k)"
  "stays (qspi_send_flash_readcmd b k)" "stays (qspi_status_poll m b ok)" "stays qspi_wait_for_eraseand_program"
proof -
  show poll: "stays (qspi_cmd_poll n)" for n
    by (induction n) (auto intro!: still_intros)
  show helper: "stays qspi_flash_cmd_helper"
    unfolding qspi_flash_cmd_helper_def by (intro still_intros poll)
  show send: "stays (qspi_send_flashcmd c)" for c
    unfolding qspi_send_flashcmd_def by (intro still_intros helper)
  show resp: "stays (qspi_response k)" for k
    unfolding qspi_response_def by (intro still_intros helper)
  show read: "stays (qspi_send_flash_readcmd b k)" for b k
    unfolding qspi_send_flash_readcmd_def by (intro still_intros resp)
  show status: "stays (qspi_status_poll m b ok)" for m b ok
    by (induction m b ok rule: qspi_status_poll.induct) (auto intro!: still_intros read)
  show "stays qspi_wait_for_eraseand_program"
    unfolding qspi_wait_for_eraseand_program_def by (intro still_intros status send)
qed

lemma stays_run:
  assumes "stays m"
  obtains x t where "run_state m s = (x, s\<lparr>trace := t\<rparr>)" "erase_view t = erase_view (trace s)"
  using stillD [OF assms, of s] by (metis prod.collapse)

lemma erase_view_same:
  "erase_view t = erase_view u \<Longrightarrow> erased t = erased u \<and> bank_word t = bank_word u"
  by (simp add: erase_view_def)

section \<open>One erase command\<close>

lemma select_bank_run:
  obtains r t where "run_state (qspi_select_bank b) s = (r, s\<lparr>trace := t\<rparr>)" "erased t = erased (trace s)"
    "r = QSPI_OK \<longrightarrow> bank_word t = b"
proof -
  let ?pre = "do { qspi_select_chip 0; qspi_set_flashcmd (ucast QSPI_EXT_REG_CMD); qspi_flashcmd_write_data; qspi_flashcmd_write_bytes (ucast (1 :: u8)) }"
  obtain e t1 where t1: "run_state (qspi_send_flashcmd QSPI_WRITE_ENABLE_CMD) s = (e, s\<lparr>trace := t1\<rparr>)" "erase_view t1 = erase_view (trace s)"
    by (rule stays_run [OF stays_commands(3)])
  have "stays ?pre" by (intro still_intros)
  then obtain x t2 where t2: "run_state ?pre (s\<lparr>trace := t1\<rparr>) = (x, s\<lparr>trace := t1\<rparr>\<lparr>trace := t2\<rparr>)" "erase_view t2 = erase_view (trace (s\<lparr>trace := t1\<rparr>))"
    by (rule stays_run)
  let ?t3 = "Wr32 bank_word_reg b # t2"
  have "bank_word_reg \<noteq> cmd_addr_reg"
    by (simp add: bank_word_reg_def cmd_addr_reg_def qspi_regs)
  then have t3: "erased ?t3 = erased (trace s)" "bank_word ?t3 = b"
    using t1(2) t2(2) by (simp_all add: erase_view_def)
  obtain f t4 where t4: "run_state qspi_flash_cmd_helper (s\<lparr>trace := ?t3\<rparr>) = (f, s\<lparr>trace := ?t3\<rparr>\<lparr>trace := t4\<rparr>)"
      "erase_view t4 = erase_view (trace (s\<lparr>trace := ?t3\<rparr>))"
    by (rule stays_run [OF stays_commands(2)])
  have cmd: "run_state (qspi_send_flash_writecmd QSPI_EXT_REG_CMD 1 [b]) (s\<lparr>trace := t1\<rparr>) = (f, s\<lparr>trace := t4\<rparr>)"
    using t2(1) t4(1) by (simp add: qspi_send_flash_writecmd_def qspi_flash_cmd_wrdata0_def split_beta whenM_def bank_word_reg_def)
  obtain g t5 where t5: "run_state (qspi_send_flashcmd QSPI_WRITE_DISABLE_CMD) (s\<lparr>trace := t4\<rparr>) = (g, s\<lparr>trace := t4\<rparr>\<lparr>trace := t5\<rparr>)"
      "erase_view t5 = erase_view (trace (s\<lparr>trace := t4\<rparr>))"
    by (rule stays_run [OF stays_commands(3)])
  have views: "erased t4 = erased (trace s)" "bank_word t4 = b" "erased t5 = erased (trace s)" "bank_word t5 = b" "erased t1 = erased (trace s)"
    using t1(2) t4(2) t5(2) t3 by (simp_all add: erase_view_def)
  show ?thesis
  proof (cases "e = 0")
    case False
    then show ?thesis
      using t1 views by (intro that [of QSPI_ERROR t1]) (simp_all add: qspi_select_bank_def)
  next
    case e: True
    show ?thesis
    proof (cases "f = 0")
      case False
      then show ?thesis
        using e t1 cmd views by (intro that [of QSPI_ERROR t4]) (simp_all add: qspi_select_bank_def)
    next
      case True
      then show ?thesis
        using e t1 cmd t5 views
        by (intro that [of "if g \<noteq> QSPI_OK then QSPI_ERROR else QSPI_OK" t5]) (simp_all add: qspi_select_bank_def)
    qed
  qed
qed

text \<open>An erase that succeeds has sent its address, in the bank that the address is in.\<close>

lemma erase_sector_run:
  obtains r t where "run_state (qspi_erase_sector a) s = (r, s\<lparr>trace := t\<rparr>)"
    "erased t = erased (trace s) @ [(bank_word (trace s), a)] \<or> r \<noteq> QSPI_OK \<and> erased t = erased (trace s)"
proof -
  obtain e t1 where t1: "run_state (qspi_send_flashcmd QSPI_WRITE_ENABLE_CMD) s = (e, s\<lparr>trace := t1\<rparr>)" "erase_view t1 = erase_view (trace s)"
    by (rule stays_run [OF stays_commands(3)])
  show ?thesis
  proof (cases "e = 0")
    case False
    with t1 show ?thesis
      by (intro that [of QSPI_ERROR t1]) (simp_all add: qspi_erase_sector_def erase_view_def)
  next
    case True
    let ?pre = "do { qspi_select_chip 0; qspi_set_flashcmd QSPI_SECTOR_ERASE_CMD; qspi_set_enablecmdaddr; qspi_set_flashcmdaddrbytes 3 }"
    let ?post = "do { e \<leftarrow> qspi_flash_cmd_helper;
       if e \<noteq> QSPI_OK then ret QSPI_ERROR
       else do {
         e \<leftarrow> qspi_wait_for_eraseand_program;
         if e \<noteq> QSPI_OK then ret QSPI_ERROR
         else do {
           e \<leftarrow> qspi_send_flashcmd QSPI_WRITE_DISABLE_CMD;
           ret (if e \<noteq> QSPI_OK then QSPI_ERROR else QSPI_OK)
         }
       } }"
    have "stays ?pre" by (intro still_intros)
    then obtain x t2 where t2: "run_state ?pre (s\<lparr>trace := t1\<rparr>) = (x, s\<lparr>trace := t1\<rparr>\<lparr>trace := t2\<rparr>)" "erase_view t2 = erase_view (trace (s\<lparr>trace := t1\<rparr>))"
      by (rule stays_run)
    have "stays ?post" by (intro still_intros)
    then obtain r t3 where t3: "run_state ?post (s\<lparr>trace := Wr32 cmd_addr_reg a # t2\<rparr>) = (r, s\<lparr>trace := Wr32 cmd_addr_reg a # t2\<rparr>\<lparr>trace := t3\<rparr>)"
        "erase_view t3 = erase_view (trace (s\<lparr>trace := Wr32 cmd_addr_reg a # t2\<rparr>))"
      by (rule stays_run)
    show ?thesis
    proof (rule that)
      show "run_state (qspi_erase_sector a) s = (r, s\<lparr>trace := t3\<rparr>)"
        using True t1 t2(1) t3(1) by (simp add: qspi_erase_sector_def qspi_set_flashcmdaddr_def cmd_addr_reg_def split_beta)
      show "erased t3 = erased (trace s) @ [(bank_word (trace s), a)] \<or> r \<noteq> QSPI_OK \<and> erased t3 = erased (trace s)"
        using t1(2) t2(2) t3(2) by (simp add: erase_view_def)
    qed
  qed
qed

text \<open>An erase that succeeds has sent its address, in the bank that the address is in.\<close>

lemma erase_run:
  obtains r t where "run_state (qspi_erase a) s = (r, s\<lparr>trace := t\<rparr>)"
    "erased t = erased (trace s) @ [(drop_bit 24 a, a)] \<or> r \<noteq> QSPI_OK \<and> erased t = erased (trace s)"
proof -
  obtain e t1 where t1: "run_state (qspi_select_bank (drop_bit QSPI_BANK_ADDR_POS a)) s = (e, s\<lparr>trace := t1\<rparr>)"
      "erased t1 = erased (trace s)" "e = QSPI_OK \<longrightarrow> bank_word t1 = drop_bit QSPI_BANK_ADDR_POS a"
    by (rule select_bank_run)
  obtain r t where t: "run_state (qspi_erase_sector a) (s\<lparr>trace := t1\<rparr>) = (r, s\<lparr>trace := t1\<rparr>\<lparr>trace := t\<rparr>)"
      "erased t = erased (trace (s\<lparr>trace := t1\<rparr>)) @ [(bank_word (trace (s\<lparr>trace := t1\<rparr>)), a)] \<or> r \<noteq> QSPI_OK \<and> erased t = erased (trace (s\<lparr>trace := t1\<rparr>))"
    by (rule erase_sector_run)
  show ?thesis
  proof (cases "e = 0")
    case False
    with t1 show ?thesis
      by (intro that [of QSPI_ERROR t1]) (simp_all add: qspi_erase_def)
  next
    case True
    with t t1 show ?thesis
      by (intro that [of r t]) (simp_all add: qspi_erase_def QSPI_BANK_ADDR_POS_def)
  qed
qed

section \<open>The loop over the sectors\<close>

text \<open>The addresses that the loop erases, and those of the whole call.\<close>

function erase_addrs :: "u32 \<Rightarrow> u32 \<Rightarrow> u32 list" where
  "erase_addrs a sz = (if sz = 0 then [] else if sz \<le> SECTOR_SIZE then [a] else a # erase_addrs (a + SECTOR_SIZE) (sz - SECTOR_SIZE))"
  by pat_completeness auto
termination
  by (relation "measure (\<lambda>(_, sz). unat sz)") (auto simp: SECTOR_SIZE_def word_less_nat_alt word_le_nat_alt unat_sub)

declare erase_addrs.simps [simp del]

definition erase_plan :: "u32 \<Rightarrow> u32 \<Rightarrow> u32 \<Rightarrow> u32 list" where
  "erase_plan page a sz =
     (let off = a AND (SECTOR_SIZE - 1)
      in if off + page \<ge> SECTOR_SIZE \<and> sz \<le> SECTOR_SIZE
         then a # erase_addrs (a + (SECTOR_SIZE - off)) (sz + (SECTOR_SIZE - off)) else erase_addrs a sz)"

definition in_bank :: "u32 \<Rightarrow> u32 \<times> u32" where
  "in_bank a = (drop_bit 24 a, a)"

text \<open>What a call has erased: a prefix of the plan, all of it when the call succeeds, which returns the count.\<close>

definition erases :: "u32 list \<Rightarrow> int \<Rightarrow> int \<Rightarrow> ev list \<Rightarrow> ev list \<Rightarrow> bool" where
  "erases plan k r t u \<longleftrightarrow> (\<exists>n \<le> length plan. erased u = erased t @ map in_bank (take n plan)
     \<and> (r = - EIO \<or> n = length plan \<and> r = k + int (length plan)))"

lemma erase_loop_run:
  obtains r t where "run_state (flash_erase_loop a sz k) s = (r, s\<lparr>trace := t\<rparr>)" "erases (erase_addrs a sz) k r (trace s) t"
proof (induction a sz k arbitrary: s thesis rule: flash_erase_loop.induct)
  case (1 a sz k)
  obtain e t1 where t1: "run_state (qspi_erase a) s = (e, s\<lparr>trace := t1\<rparr>)"
      "erased t1 = erased (trace s) @ [(drop_bit 24 a, a)] \<or> e \<noteq> QSPI_OK \<and> erased t1 = erased (trace s)"
    by (rule erase_run)
  consider "sz = 0" | "sz \<noteq> 0" "e \<noteq> 0" | "sz \<noteq> 0" "e = 0" "sz \<le> SECTOR_SIZE" | "sz \<noteq> 0" "e = 0" "SECTOR_SIZE < sz"
    by force
  then show ?case
  proof cases
    case 1
    then show ?thesis
      by (intro "1.prems" [of k "trace s"], subst flash_erase_loop.simps) (simp_all add: erases_def erase_addrs.simps [of a 0])
  next
    case 2
    have "erases (erase_addrs a sz) k (- EIO) (trace s) t1"
      using t1(2) \<open>sz \<noteq> 0\<close> unfolding erases_def
      by (subst (1 2) erase_addrs.simps) (auto simp: in_bank_def intro: exI [of _ 0] exI [of _ 1])
    with 2 t1(1) show ?thesis
      by (intro "1.prems" [of "- EIO" t1], subst flash_erase_loop.simps) (simp_all add: word_gt_0)
  next
    case 3
    have "erases (erase_addrs a sz) k (k + 1) (trace s) t1"
      using t1(2) 3 unfolding erases_def
      by (subst (1 2 3 4) erase_addrs.simps) (auto simp: in_bank_def intro: exI [of _ 1])
    with 3 t1(1) show ?thesis
      by (intro "1.prems" [of "k + 1" t1], subst flash_erase_loop.simps) (simp_all add: word_gt_0)
  next
    case 4
    let ?sz = "if sz > SECTOR_SIZE then sz - SECTOR_SIZE else SECTOR_SIZE"
    obtain r t where t: "run_state (flash_erase_loop (a + SECTOR_SIZE) ?sz (k + 1)) (s\<lparr>trace := t1\<rparr>) = (r, s\<lparr>trace := t1\<rparr>\<lparr>trace := t\<rparr>)"
        "erases (erase_addrs (a + SECTOR_SIZE) ?sz) (k + 1) r (trace (s\<lparr>trace := t1\<rparr>)) t"
      by (rule "1.IH" [of e "s\<lparr>trace := t1\<rparr>"]) (use 4 in \<open>simp_all add: word_gt_0\<close>)
    have nle: "\<not> sz \<le> SECTOR_SIZE" using 4 by simp
    have plan: "erase_addrs a sz = a # erase_addrs (a + SECTOR_SIZE) (sz - SECTOR_SIZE)"
      using 4 by (subst erase_addrs.simps) auto
    obtain n where n: "n \<le> length (erase_addrs (a + SECTOR_SIZE) (sz - SECTOR_SIZE))"
        "erased t = erased t1 @ map in_bank (take n (erase_addrs (a + SECTOR_SIZE) (sz - SECTOR_SIZE)))"
        "r = - EIO \<or> n = length (erase_addrs (a + SECTOR_SIZE) (sz - SECTOR_SIZE)) \<and> r = k + 1 + int (length (erase_addrs (a + SECTOR_SIZE) (sz - SECTOR_SIZE)))"
      using t(2) 4 by (auto simp: erases_def)
    have "erases (erase_addrs a sz) k r (trace s) t"
      using n t1(2) 4 unfolding plan erases_def by (intro exI [of _ "Suc n"]) (auto simp: in_bank_def)
    moreover have "run_state (flash_erase_loop a sz k) s = (r, s\<lparr>trace := t\<rparr>)"
      using 4 t1(1) t(1) nle by (subst flash_erase_loop.simps) (simp add: word_gt_0)
    ultimately show ?thesis by (rule "1.prems" [rotated])
  qed
qed

lemma erase_sectors_run:
  fixes s :: "'x qspi_state_scheme"
  assumes "h \<noteq> FH_NULL"
  obtains r t where "run_state (flash_erase_sectors h a sz) s = (r, s\<lparr>trace := t\<rparr>)"
    "erases (erase_plan (page_size (qspi_desc s)) a sz) 0 r (trace s) t"
proof -
  let ?off = "a AND (SECTOR_SIZE - 1)" and ?page = "page_size (qspi_desc s)"
  show ?thesis
  proof (cases "?off + ?page \<ge> SECTOR_SIZE \<and> sz \<le> SECTOR_SIZE")
    case False
    obtain r t where "run_state (flash_erase_loop a sz 0) s = (r, s\<lparr>trace := t\<rparr>)" "erases (erase_addrs a sz) 0 r (trace s) t"
      by (rule erase_loop_run)
    with False assms show ?thesis
      by (intro that [of r t]) (auto simp: flash_erase_sectors_def erase_plan_def Let_def)
  next
    case True
    let ?rest = "erase_addrs (a + (SECTOR_SIZE - ?off)) (sz + (SECTOR_SIZE - ?off))"
    have plan: "erase_plan ?page a sz = a # ?rest"
      using True by (simp add: erase_plan_def Let_def)
    obtain e t1 where t1: "run_state (qspi_erase a) s = (e, s\<lparr>trace := t1\<rparr>)"
        "erased t1 = erased (trace s) @ [(drop_bit 24 a, a)] \<or> e \<noteq> QSPI_OK \<and> erased t1 = erased (trace s)"
      by (rule erase_run)
    show ?thesis
    proof (cases "e = 0")
      case False
      have "erases (a # ?rest) 0 (- EIO) (trace s) t1"
        using t1(2) unfolding erases_def by (auto simp: in_bank_def intro: exI [of _ 0] exI [of _ 1])
      with False True t1(1) assms plan show ?thesis
        by (intro that [of "- EIO" t1]) (simp_all add: flash_erase_sectors_def Let_def)
    next
      case ok: True
      obtain r t where t: "run_state (flash_erase_loop (a + (SECTOR_SIZE - ?off)) (sz + (SECTOR_SIZE - ?off)) 1) (s\<lparr>trace := t1\<rparr>)
            = (r, s\<lparr>trace := t1\<rparr>\<lparr>trace := t\<rparr>)" "erases ?rest 1 r (trace (s\<lparr>trace := t1\<rparr>)) t"
        by (rule erase_loop_run)
      then obtain n where "n \<le> length ?rest" "erased t = erased t1 @ map in_bank (take n ?rest)"
          "r = - EIO \<or> n = length ?rest \<and> r = 1 + int (length ?rest)"
        by (auto simp: erases_def)
      then have "erases (a # ?rest) 0 r (trace s) t"
        using t1(2) ok unfolding erases_def by (intro exI [of _ "Suc n"]) (auto simp: in_bank_def)
      with ok True t1(1) t(1) assms plan show ?thesis
        by (intro that [of r t]) (simp_all add: flash_erase_sectors_def Let_def)
    qed
  qed
qed

section \<open>The sectors of a range\<close>

abbreviation sector_start :: "nat \<Rightarrow> u32" where
  "sector_start k \<equiv> word_of_nat (4096 * k)"

lemma sector_start_self: "unat a mod 4096 = 0 \<Longrightarrow> sector_start (unat a div 4096) = a"
  by (simp add: minus_mod_eq_mult_div [symmetric] del: of_nat_mult)

lemma sector_end:
  fixes m n :: nat
  assumes "m mod 4096 = 0" "0 < n" "n \<le> 4096"
  shows "(m + n + 4095) div 4096 = Suc (m div 4096)"
proof -
  obtain q where "m = 4096 * q" using assms(1) by auto
  with assms(2,3) show ?thesis by (intro div_nat_eqI) simp_all
qed

lemma erase_addrs_sectors:
  assumes "unat a mod 4096 = 0" and "unat a + unat sz \<le> 2 ^ 32"
  shows "erase_addrs a sz = map sector_start [unat a div 4096 ..< (unat a + unat sz + 4095) div 4096]"
  using assms
proof (induction a sz rule: erase_addrs.induct)
  case (1 a sz)
  note self = sector_start_self [OF "1.prems"(1)]
  consider "sz = 0" | "sz \<noteq> 0" "sz \<le> SECTOR_SIZE" | "SECTOR_SIZE < sz" by force
  then show ?case
  proof cases
    case 1
    have "(unat a + unat (0 :: u32) + 4095) div 4096 = unat a div 4096"
      using "1.prems"(1) by (simp add: div_add1_eq)
    then have "[unat a div 4096 ..< (unat a + unat (0 :: u32) + 4095) div 4096] = []"
      by (simp only: upt_eq_Nil_conv order_refl simp_thms)
    moreover have "erase_addrs a 0 = []"
      by (subst erase_addrs.simps) (rule if_P, rule refl)
    ultimately show ?thesis
      unfolding 1 by (simp only: list.map)
  next
    case 2
    then have "0 < unat sz" "unat sz \<le> 4096"
      by (simp_all add: SECTOR_SIZE_def word_le_nat_alt unat_gt_0)
    with "1.prems"(1) have last: "(unat a + unat sz + 4095) div 4096 = Suc (unat a div 4096)"
      by (rule sector_end)
    have single: "[k ..< Suc k] = [k]" for k by simp
    have "erase_addrs a sz = [a]"
      using 2 by (subst erase_addrs.simps) simp
    then show ?thesis
      unfolding last single list.map self .
  next
    case 3
    have gt: "4096 < unat sz" using 3 by (simp add: SECTOR_SIZE_def word_less_nat_alt)
    then have less: "unat a + 4096 < 2 ^ 32" using "1.prems"(2) by simp
    have a: "unat (a + SECTOR_SIZE) = unat a + 4096"
      using less by (simp add: SECTOR_SIZE_def unat_word_ariths(1))
    have sz: "unat (sz - SECTOR_SIZE) = unat sz - 4096"
      using gt by (subst unat_sub) (simp_all add: SECTOR_SIZE_def word_le_nat_alt)
    have ne: "sz \<noteq> 0" "\<not> sz \<le> SECTOR_SIZE" using 3 by auto
    have "erase_addrs (a + SECTOR_SIZE) (sz - SECTOR_SIZE)
        = map sector_start [unat (a + SECTOR_SIZE) div 4096 ..< (unat (a + SECTOR_SIZE) + unat (sz - SECTOR_SIZE) + 4095) div 4096]"
      using ne "1.prems" gt by (intro "1.IH") (simp_all only: a sz, simp_all)
    also have "unat (a + SECTOR_SIZE) div 4096 = Suc (unat a div 4096)" unfolding a by simp
    also have "unat (a + SECTOR_SIZE) + unat (sz - SECTOR_SIZE) = unat a + unat sz" unfolding a sz using gt by simp
    finally have rest: "erase_addrs (a + SECTOR_SIZE) (sz - SECTOR_SIZE)
        = map sector_start [Suc (unat a div 4096) ..< (unat a + unat sz + 4095) div 4096]" .
    have "unat a div 4096 < (unat a + unat sz + 4095) div 4096"
      using gt div_le_mono [of "unat a + 4096" "unat a + unat sz + 4095" 4096] by simp
    moreover have "erase_addrs a sz = a # erase_addrs (a + SECTOR_SIZE) (sz - SECTOR_SIZE)"
      using ne by (subst erase_addrs.simps) simp
    ultimately show ?thesis
      by (simp only: rest upt_conv_Cons list.map self)
  qed
qed



section \<open>A chip that is ready\<close>

text \<open>The status register is clear and the flag status register says that the chip is ready.\<close>

definition chip_ready :: "env \<Rightarrow> bool" where
  "chip_ready e \<longleftrightarrow> cmd_idle e \<and> (\<forall>t. hw_rd32 e t (ucast QSPI_FLASHCMDRDDATALO) = 0x80)"

lemma readcmd_run:
  assumes "chip_ready (env s)"
  shows "\<exists>t. run_state (qspi_send_flash_readcmd b 1) s = ((QSPI_OK, [0x80]), s\<lparr>trace := t\<rparr>)"
proof -
  let ?pre = "do { qspi_select_chip 0; qspi_set_flashcmd (ucast b); qspi_flashcmd_read_data; qspi_flashcmd_read_bytes (ucast (1 :: u8)) }"
  have "quiet ?pre" by (intro still_intros)
  then obtain t where t: "run_state (do { _ \<leftarrow> ?pre; qspi_flash_cmd_helper }) s = (QSPI_OK, s\<lparr>trace := t\<rparr>)"
    using command_run [of s ?pre] assms unfolding chip_ready_def by blast
  have "run_state qspi_flash_cmd_rddata0 (s\<lparr>trace := t\<rparr>) = (0x80, s\<lparr>trace := Rd32 (ucast QSPI_FLASHCMDRDDATALO) 0x80 # t\<rparr>)"
    using assms by (simp add: qspi_flash_cmd_rddata0_def chip_ready_def)
  with t show ?thesis
    by (auto simp: qspi_send_flash_readcmd_def qspi_response_def split_beta prod_eq_iff)
qed

lemma poll_succeeds:
  assumes "chip_ready (env s)" and "ok 0x80"
  shows "\<exists>t. run_state (qspi_status_poll (unat QSPI_TIMEOUT) b ok) s = (QSPI_OK, s\<lparr>trace := t\<rparr>)"
proof -
  have "\<exists>n. unat QSPI_TIMEOUT = Suc n"
    by (intro exI [of _ "unat QSPI_TIMEOUT - 1"]) (simp add: QSPI_TIMEOUT_def)
  then obtain n where n: "unat QSPI_TIMEOUT = Suc n" ..
  with readcmd_run [OF assms(1), of b] assms(2) show ?thesis by auto
qed

lemma wait_succeeds:
  assumes "chip_ready (env s)"
  shows "\<exists>t. run_state qspi_wait_for_eraseand_program s = (QSPI_OK, s\<lparr>trace := t\<rparr>)"
proof -
  have ok: "(0x80 :: u32) AND QSPI_READ_STATUS_POS = 0" "(0x80 :: u32) AND QSPI_READ_FLAG_STATUS_POS \<noteq> 0"
    by (simp_all add: QSPI_READ_STATUS_POS_def QSPI_READ_FLAG_STATUS_POS_def)
  obtain t where t: "run_state (qspi_status_poll (unat QSPI_TIMEOUT) QSPI_READ_STATUS_CMD (\<lambda>status. status AND QSPI_READ_STATUS_POS = 0)) s
      = (QSPI_OK, s\<lparr>trace := t\<rparr>)"
    using poll_succeeds [OF assms, of "\<lambda>status. status AND QSPI_READ_STATUS_POS = 0"] ok(1) by blast
  obtain u where u: "run_state (qspi_status_poll (unat QSPI_TIMEOUT) QSPI_READ_FLAG_STATUS_CMD (\<lambda>status. status AND QSPI_READ_FLAG_STATUS_POS \<noteq> 0))
      (s\<lparr>trace := t\<rparr>) = (QSPI_OK, s\<lparr>trace := t\<rparr>\<lparr>trace := u\<rparr>)"
    using poll_succeeds [of "s\<lparr>trace := t\<rparr>" "\<lambda>status. status AND QSPI_READ_FLAG_STATUS_POS \<noteq> 0"] ok(2) assms by auto
  obtain v where "run_state (qspi_send_flashcmd QSPI_CLEAR_FLAG_STATUS_CMD) (s\<lparr>trace := u\<rparr>) = (QSPI_OK, s\<lparr>trace := u\<rparr>\<lparr>trace := v\<rparr>)"
    using send_run(1) [of "s\<lparr>trace := u\<rparr>"] assms unfolding chip_ready_def by auto
  with t u show ?thesis
    by (intro exI [of _ v]) (simp add: qspi_wait_for_eraseand_program_def)
qed

lemma erase_succeeds:
  assumes "chip_ready (env s)"
  shows "result (qspi_erase a) s = QSPI_OK"
proof -
  have idle: "cmd_idle (env s)" using assms by (simp add: chip_ready_def)
  obtain t where t: "run_state (qspi_select_bank (drop_bit QSPI_BANK_ADDR_POS a)) s = (QSPI_OK, s\<lparr>trace := t\<rparr>)"
    using select_bank_ok [OF idle] select_bank_run by (metis fst_conv)
  obtain u where u: "run_state (qspi_send_flashcmd QSPI_WRITE_ENABLE_CMD) (s\<lparr>trace := t\<rparr>) = (QSPI_OK, s\<lparr>trace := u\<rparr>)"
    using send_run(1) [of "s\<lparr>trace := t\<rparr>"] idle by auto
  let ?pre = "do { qspi_select_chip 0; qspi_set_flashcmd QSPI_SECTOR_ERASE_CMD; qspi_set_enablecmdaddr; qspi_set_flashcmdaddrbytes 3; qspi_set_flashcmdaddr a }"
  have "quiet ?pre" by (intro still_intros)
  then obtain v where v: "run_state (do { _ \<leftarrow> ?pre; qspi_flash_cmd_helper }) (s\<lparr>trace := u\<rparr>) = (QSPI_OK, s\<lparr>trace := v\<rparr>)"
    using command_run [of "s\<lparr>trace := u\<rparr>" ?pre] idle by auto
  obtain w where w: "run_state qspi_wait_for_eraseand_program (s\<lparr>trace := v\<rparr>) = (QSPI_OK, s\<lparr>trace := w\<rparr>)"
    using wait_succeeds [of "s\<lparr>trace := v\<rparr>"] assms by auto
  obtain x where "run_state (qspi_send_flashcmd QSPI_WRITE_DISABLE_CMD) (s\<lparr>trace := w\<rparr>) = (QSPI_OK, s\<lparr>trace := x\<rparr>)"
    using send_run(1) [of "s\<lparr>trace := w\<rparr>"] idle by auto
  with t u v w show ?thesis
    by (simp add: qspi_erase_def qspi_erase_sector_def split_beta prod_eq_iff)
qed

lemma erase_loop_succeeds:
  "chip_ready (env s) \<Longrightarrow> 0 \<le> k \<Longrightarrow> 0 \<le> result (flash_erase_loop a sz k) s"
proof (induction a sz k arbitrary: s rule: flash_erase_loop.induct)
  case (1 a sz k)
  obtain r t where t: "run_state (qspi_erase a) s = (r, s\<lparr>trace := t\<rparr>)"
    by (rule erase_run) blast
  moreover have "r = QSPI_OK"
    using erase_succeeds [OF "1.prems"(1), of a] t by simp
  ultimately show ?case
    using "1.IH" [of 0 "s\<lparr>trace := t\<rparr>"] "1.prems" by (subst flash_erase_loop.simps) auto
qed

text \<open>
  C13. An erase of the last page of a sector destroys the sector behind it: for a range that lies within
  one sector and begins less than a page before its end, flash_erase_sectors also erases the next
  sector, because it adds the rest of the first sector to the size when it has moved past it, and
  reports two sectors.
\<close>

theorem flash_erase_beyond:
  fixes s :: "'x qspi_state_scheme"
  assumes "h \<noteq> FH_NULL" and "sz \<noteq> 0" and "unat a mod 4096 + unat sz \<le> 4096"
    and "4096 \<le> unat a mod 4096 + unat (page_size (qspi_desc s))" and "unat (page_size (qspi_desc s)) \<le> 2048"
    and "result (flash_erase_sectors h a sz) s \<noteq> - EIO"
  shows "map snd (erased (trace (final (flash_erase_sectors h a sz) s)))
      = map snd (erased (trace s)) @ [a, a + word_of_nat (4096 - unat a mod 4096)]
    \<and> result (flash_erase_sectors h a sz) s = 2"
proof -
  let ?page = "page_size (qspi_desc s)" and ?off = "a AND (SECTOR_SIZE - 1)"
  let ?rem = "SECTOR_SIZE - ?off"
  have off: "unat ?off = unat a mod 4096"
    using unat_low_bits [of a 12] by (simp add: SECTOR_SIZE_def mask_eq_exp_minus_1)
  then have rem: "unat ?rem = 4096 - unat a mod 4096"
    by (subst unat_sub) (simp_all add: SECTOR_SIZE_def word_le_nat_alt)
  then have rem': "?rem = word_of_nat (4096 - unat a mod 4096)"
    by (metis of_nat_unat ucast_id)
  have sum: "unat (?off + ?page) = unat a mod 4096 + unat ?page"
    using off assms(5) by (simp add: unat_word_ariths(1) less_imp_le_nat)
  have sz: "unat (sz + ?rem) = unat sz + (4096 - unat a mod 4096)"
    using rem assms(3) by (simp add: unat_word_ariths(1))
  have "?off + ?page \<ge> SECTOR_SIZE" "sz \<le> SECTOR_SIZE" "sz + ?rem \<noteq> 0" "sz + ?rem \<le> SECTOR_SIZE"
    using sum sz assms(2-5) by (simp_all add: SECTOR_SIZE_def word_le_nat_alt flip: unat_eq_0)
  then have plan: "erase_plan ?page a sz = [a, a + ?rem]"
    by (simp add: erase_plan_def Let_def erase_addrs.simps [of _ "sz + ?rem"])
  obtain r t where run: "run_state (flash_erase_sectors h a sz) s = (r, s\<lparr>trace := t\<rparr>)"
    and r: "erases (erase_plan ?page a sz) 0 r (trace s) t"
    using assms(1) by (rule erase_sectors_run)
  with assms(6) show ?thesis
    unfolding plan rem' by (auto simp: erases_def in_bank_def)
qed

text \<open>The last page of the first sector of a chip that is ready.\<close>

definition erase_machine :: flash_state where
  "erase_machine = flash_machine\<lparr>env := ram_env\<lparr>hw_rd32 := \<lambda>_ a. if a = ucast QSPI_FLASHCMDRDDATALO then 0x80 else 0\<rparr>,
     qspi_desc := qspi_zero\<lparr>page_size := 256\<rparr>\<rparr>"

theorem flash_erase_beyond_witness:
  "map snd (erased (trace (final (flash_erase_sectors FH_gflash_handle 0xF00 256) erase_machine))) = [0xF00, 0x1000]"
proof -
  have ready: "chip_ready (env erase_machine)"
    by (simp add: chip_ready_def cmd_idle_def erase_machine_def qspi_regs)
  obtain t where t: "run_state (qspi_erase 0xF00) erase_machine = (QSPI_OK, erase_machine\<lparr>trace := t\<rparr>)"
    using erase_succeeds [OF ready] erase_run by (metis fst_conv)
  have "0 \<le> result (flash_erase_sectors FH_gflash_handle 0xF00 256) erase_machine"
    using t erase_loop_succeeds [of "erase_machine\<lparr>trace := t\<rparr>" 1] ready
    by (simp add: flash_erase_sectors_def Let_def erase_machine_def SECTOR_SIZE_def)
  then have "result (flash_erase_sectors FH_gflash_handle 0xF00 256) erase_machine \<noteq> - EIO"
    by auto
  from flash_erase_beyond [OF _ _ _ _ _ this] show ?thesis
    by (simp add: erase_machine_def flash_machine_simps)
qed

section \<open>A transfer that fails\<close>

lemma flash_busy_refused:
  fixes s :: "'x flash_state_scheme"
  assumes g: "granting (env s)" and c: "flash_is_open s" "qspi_in_use (qspi_desc s)" and args: "h \<noteq> FH_NULL" "d \<noteq> 0" "n \<noteq> 0"
  shows "result (flash_write_async h a d n) s = - EBUSY" and "result (flash_read_async h a d n) s = - EBUSY"
proof -
  obtain t u where "run_state (osal_mutex_lock (qspi_mutex (qspi_desc s)) (ucast FLASH_MAX_WAIT_TIME)) s = (True, s\<lparr>trace := t\<rparr>)"
    "run_state (osal_mutex_unlock (qspi_mutex (qspi_desc s))) (s\<lparr>trace := t\<rparr>) = (True, s\<lparr>trace := u\<rparr>)"
    by (rule lock_unlock [OF g quiet_kernel(3,4)]) blast
  with c have "run_state flash_claim s = (Some (- EBUSY), s\<lparr>trace := u\<rparr>)"
    by (simp add: flash_claim_def)
  with args show "result (flash_write_async h a d n) s = - EBUSY" and "result (flash_read_async h a d n) s = - EBUSY"
    by (simp_all add: flash_write_async_def flash_read_async_def)
qed


text \<open>A controller that never finishes a command.\<close>

definition dead_machine :: flash_state where
  "dead_machine = flash_machine\<lparr>env := ram_env\<lparr>hw_rd32 := \<lambda>_ _. 0xFFFFFFFF\<rparr>\<rparr>"

lemma dead_poll:
  assumes "hw_rd32 (env s) = (\<lambda>_ _. 0xFFFFFFFF)"
  shows "result (qspi_cmd_poll n) s = QSPI_ERROR"
  using assms
  by (induction n arbitrary: s) (simp_all add: split_beta qspi_get_flashcmd_stat_def QSPI_FLASHCMD_EXECSTAT_POS_def)

lemma dead_write: "result (flash_write_async FH_gflash_handle a 0x200 4) dead_machine = - EIO"
proof -
  have g: "granting (env dead_machine)"
    by (simp add: dead_machine_def granting_def ram_env_def)
  have none: "result flash_claim dead_machine = None"
    using g by (rule flash_claim_granted) (simp_all add: dead_machine_def flash_machine_simps qspi_zero_def)
  obtain t where claim: "run_state flash_claim dead_machine = (None, upd_qspi (\<lambda>c. c\<lparr>qspi_in_use := True\<rparr>) (dead_machine\<lparr>trace := t\<rparr>))"
    using flash_claim_free [OF g none] by metis
  have dead: "hw_rd32 (env dead_machine) = (\<lambda>_ _. 0xFFFFFFFF)"
    by (simp add: dead_machine_def)
  have "result (qspi_send_flashcmd c) s \<noteq> QSPI_OK" if "hw_rd32 (env s) = (\<lambda>_ _. 0xFFFFFFFF)" for c and s :: flash_state
    using that by (simp add: qspi_send_flashcmd_def qspi_flash_cmd_helper_def split_beta dead_poll
      qspi_flashcmd_exec_def qspi_set_flashcmd_def qspi_select_chip_def qspi_update_def)
  then have "result (qspi_select_bank b) s \<noteq> QSPI_OK" if "hw_rd32 (env s) = (\<lambda>_ _. 0xFFFFFFFF)" for b and s :: flash_state
    using that by (simp add: qspi_select_bank_def split_beta)
  then have "fst (result (qspi_indirect_write a 0x200 4) s) \<noteq> QSPI_OK" if "hw_rd32 (env s) = (\<lambda>_ _. 0xFFFFFFFF)" for s :: flash_state
    using that by (simp add: qspi_indirect_write_def Let_def split_beta)
  from this [of "upd_qspi (flash_begun True True a 0x200 4) (upd_qspi (\<lambda>c. c\<lparr>qspi_in_use := True\<rparr>) (dead_machine\<lparr>trace := t\<rparr>))"]
  show ?thesis
    using claim dead by (simp add: flash_write_async_def split_beta upd_qspi_def)
qed


end
