(* ===== verification/System.thy ===== *)
theory System
  imports Flash_Erase
begin

unbundle bit_operations_syntax

text \<open>
  The drivers composed: the call through the handler table, with every handler of the modelled
  drivers behind it, and what the drivers guarantee to each other through that table.
\<close>

text \<open>The state of all modelled drivers.\<close>

type_synonym 'x system_scheme = "'x flash_state_scheme"
type_synonym system = flash_state

section \<open>Calls through a function pointer\<close>

text \<open>
  The functions of this program are run; a user's function, whose body is not in the
  repository's drivers, is an event. \<open>None\<close>: the function does not return.
\<close>

definition invoke_from_dma :: "fptr \<Rightarrow> vptr \<Rightarrow> ('x system_scheme, unit) state" where
  "invoke_from_dma f d =
     (case f of
        F_i2c_wdma_callback \<Rightarrow> i2c_wdma_callback d
      | F_i2c_rdma_callback \<Rightarrow> i2c_rdma_callback d
      | F_spi_dma_callback \<Rightarrow> spi_dma_callback d
      | _ \<Rightarrow> emit (Call f d []))"

definition invoke :: "fptr \<Rightarrow> vptr \<Rightarrow> ('x system_scheme, unit option) state" where
  "invoke f d =
     (case f of
        F_gic_default_interrupt_handler \<Rightarrow> gic_default_interrupt_handler d
      | F_timer_irq_handler \<Rightarrow> do { timer_irq_handler d; ret (Some ()) }
      | F_wdt_isr \<Rightarrow> do { wdt_isr d; ret (Some ()) }
      | F_gpio_irq_handler \<Rightarrow> do { gpio_irq_handler d; ret (Some ()) }
      | F_uart_isr \<Rightarrow> do { uart_isr d; ret (Some ()) }
      | F_mbox_irq_handler \<Rightarrow> do { mbox_irq_handler d; ret (Some ()) }
      | F_ecc_irq_handler \<Rightarrow> do { ecc_irq_handler d; ret (Some ()) }
      | F_ecc_qspi_irq_handler \<Rightarrow> do { ecc_qspi_irq_handler d; ret (Some ()) }
      | F_seu_irq_handler \<Rightarrow> do { seu_irq_handler d; ret (Some ()) }
      | F_pdma_irq_handler \<Rightarrow> do { pdma_irq_handler invoke_from_dma d; ret (Some ()) }
      | F_i2c_isr \<Rightarrow> i2c_isr d
      | F_spi_isr \<Rightarrow> do { spi_isr d; ret (Some ()) }
      | F_qspi_isr \<Rightarrow> do { qspi_isr d; ret (Some ()) }
      | F_NULL \<Rightarrow> do { ub ''null call''; ret None }
      | _ \<Rightarrow> do { emit (Call f d []); ret (Some ()) })"

abbreviation system_irq :: "u32 \<Rightarrow> ('x system_scheme, unit option) state" where
  "system_irq \<equiv> interrupt_irq_handler invoke"

lemma irq_through_table:
  assumes "n < MAX_SPI_HPU_INTERRUPT" and "interrupt_callbacks s ! unat n = (f, d)"
  shows "run_state (system_irq n) s =
     (case run_state (invoke f d) s of (r, s') \<Rightarrow>
        (r, if r = None then s' else s'\<lparr>trace := SysWr DAIFClr 0xF # trace s'\<rparr>))"
  using assms
  by (auto simp: interrupt_irq_handler_def gic_enable_interrupts_def split_beta split: option.split)

section \<open>From opening a timer to the user's callback\<close>

lemma callbacks_upd_timer [simp]: "interrupt_callbacks (upd_timer h f s) = interrupt_callbacks s"
  by simp

text \<open>
  C1. A timer works end to end: when a timer has been opened and given a callback, its
  interrupt, dispatched through the table, clears the interrupt in that timer, calls the
  callback once with its context, and returns with interrupts unmasked.
\<close>

theorem timer_interrupt_end_to_end:
  assumes "length (interrupt_callbacks s) = unat MAX_SPI_HPU_INTERRUPT"
    and "result (timer_open i) s = Some h" and "f \<noteq> F_NULL"
    and "s1 = final (timer_set_callback (Some h) f p) (final (timer_open i) s)"
    and "c = timer_descriptor s1 h"
  shows "run_state (system_irq (interrupt_id c)) s1 =
     (let eoi = ucast (timer_context.base_address c + TIMER_TIMER1EOI)
      in (Some (), s1\<lparr>trace := SysWr DAIFClr 0xF # Call f p []
           # Rd32 eoi (hw_rd32 (env s1) (trace s1) eoi) # trace s1\<rparr>))"
proof -
  let ?s0 = "final (timer_open i) s"
  have s1: "s1 = upd_timer h (\<lambda>c. c\<lparr>callback_func := f, usr_cntxt := p\<rparr>) ?s0"
    by (simp add: assms(4) timer_set_callback_def)
  have c: "c = (timer_descriptor ?s0 h)\<lparr>callback_func := f, usr_cntxt := p\<rparr>"
    by (simp add: assms(5) s1 timer_descriptor_upd)
  have bound: "interrupt_callbacks ?s0 ! unat (interrupt_id (timer_descriptor ?s0 h)) = (F_timer_irq_handler, V_timer h)"
    and irq: "\<exists>b. timer_resources i = Some (timer_context.base_address (timer_descriptor ?s0 h), interrupt_id (timer_descriptor ?s0 h), b)"
    using timer_open_result [OF assms(1), of i] by (auto simp: Let_def assms(2))
  have "interrupt_id (timer_descriptor ?s0 h) < MAX_SPI_HPU_INTERRUPT"
    using irq by (auto simp: timer_resources_def split: if_splits)
  then have "interrupt_id c < MAX_SPI_HPU_INTERRUPT" "interrupt_callbacks s1 ! unat (interrupt_id c) = (F_timer_irq_handler, V_timer h)"
    using bound by (simp_all add: c s1)
  from irq_through_table [OF this] show ?thesis
    using assms(3) by (simp add: invoke_def timer_irq_handler_def split_beta Let_def assms(5) [symmetric]) (simp add: c)
qed

text \<open>The machine after boot, with no driver opened.\<close>

definition system_machine :: system where
  "system_machine = spi_state.extend (i2c_state.extend (dma_state.extend (seu_context.extend (ecc_state.extend (reboot_state.extend (mbox_state.extend (console_state.extend (uart_state.extend uart_machine
     \<lparr>ringbuf = replicate 4096 0, ring_head = 0, ring_tail = 0, int_buf = 0x8000, drop_msg = 0xA000,
      dropped_bytes = 0, console_write_sem = 0, hconsole_uart = None,
      console_config = \<lparr>baud = 0, parity = UART_PARITY_NONE, stop_bits = UART_STOP_BITS_1, wlen = 8\<rparr>,
      signal_bytes_available = 0\<rparr>)
     \<lparr>mbox_descriptor = 0, mbox_data = \<lparr>client_list_mutex = 0, call_complete_sem = 0, task_state = 0\<rparr>,
      client_descriptors = \<lambda>_. client_zero\<rparr>) \<lparr>cold_boot_callback = F_NULL, warm_boot_callback = F_NULL\<rparr>)
     \<lparr>ecc_instances = \<lambda>_. \<lparr>base_addr = 0, sbe_err_cnt = 0, dbe_err_cnt = 0\<rparr>,
      module_init = 0, user_cb = F_NULL, ecc_initialized = False\<rparr>)
     \<lparr>seu_semphr = 0, pseu_handle = None, seu_call_back = F_NULL\<rparr>)
     \<lparr>hdma_default = \<lambda>_. dma_zero, plinked_list_chain = \<lambda>_ _. lli_zero,
      plinked_list_at = \<lambda>i. 0x80000 + 0x10000 * word_of_nat i\<rparr>)
     \<lparr>i2c_desc = \<lambda>_. i2c_zero, i2c_transfer_buf_at = \<lambda>i. 0x200000 + 0x4000 * word_of_nat i\<rparr>)
     \<lparr>spi_desc = \<lambda>_. spi_zero, spi_tx_dma_dummy_at = \<lambda>_. 0x300000, spi_rx_dma_discard_at = \<lambda>_. 0x310000\<rparr>)
     \<lparr>prev_bank_addr = 0, qspi_desc = qspi_zero, xflash_callback = F_NULL, slave_select = 0, flash_adapter = None,
      flash_is_open = False, m25q_sfdp = m25q_sfdp flash_machine\<rparr>"

lemma system_machine_simps [simp]:
  "env system_machine = boot_env" "trace system_machine = []"
  "timer_descriptor system_machine = (\<lambda>_. timer_zero)" "uart_descriptors system_machine = (\<lambda>_. uart_zero)"
  "interrupt_callbacks system_machine = initial_callbacks" "gic_redis system_machine = 0x1D060000"
  "gic_dist system_machine = 0x1D000000" "gic_max_redis system_machine = 0"
  by (simp_all add: system_machine_def spi_state.defs i2c_state.defs dma_state.defs seu_context.defs ecc_state.defs reboot_state.defs mbox_state.defs console_state.defs uart_state.defs uart_machine_def gpio_state.defs gpio_machine_def
      wdt_state.defs wdt_machine_def timer_state.defs boot_machine_def timer_machine_def irq_state.defs
      irq_machine_def gic_state.defs gic_machine_def REGISTER_SOCFPGA_DIST_BASE_ADDR_def
      REGISTER_SOCFPGA_REDIS_BASE_ADDR_def)

theorem timer_interrupt_end_to_end_witness:
  "\<exists>(s1 :: system) v. run_state (system_irq TIMER_L4SP0IRQ) s1 =
     (Some (), s1\<lparr>trace := SysWr DAIFClr 0xF # Call (F_user 7) V_NULL [] # Rd32 0x10C0300C v # trace s1\<rparr>)"
proof -
  let ?s0 = "final (timer_open TIMER_SP0) system_machine"
  define s1 where "s1 = final (timer_set_callback (Some 2) (F_user 7) V_NULL) ?s0"
  have open0: "result (timer_open TIMER_SP0) system_machine = Some 2"
    by (simp add: timer_open_def timer_bring_up_def timer_resources_def timer_get_rst_instance_def boot_eval)
  have len: "length (interrupt_callbacks system_machine) = unat MAX_SPI_HPU_INTERRUPT"
    by (simp add: initial_callbacks_def)
  have "timer_descriptor s1 2 = (timer_descriptor ?s0 2)\<lparr>callback_func := F_user 7, usr_cntxt := V_NULL\<rparr>"
    by (simp add: s1_def timer_set_callback_def timer_descriptor_upd)
  moreover have "timer_resources TIMER_SP0 = Some (SPTIMER0_BASE_ADDR, TIMER_L4SP0IRQ, CLOCK_SP_TIMER)"
    by (simp add: timer_resources_def timer_consts)
  then have "timer_context.base_address (timer_descriptor ?s0 2) = SPTIMER0_BASE_ADDR"
    "interrupt_id (timer_descriptor ?s0 2) = TIMER_L4SP0IRQ"
    using timer_open_result [OF len, of TIMER_SP0] by (auto simp: Let_def open0)
  ultimately have "run_state (system_irq TIMER_L4SP0IRQ) s1 =
     (Some (), s1\<lparr>trace := SysWr DAIFClr 0xF # Call (F_user 7) V_NULL []
        # Rd32 0x10C0300C (hw_rd32 (env s1) (trace s1) 0x10C0300C) # trace s1\<rparr>)"
    using timer_interrupt_end_to_end [OF len open0 _ s1_def refl]
    by (simp add: Let_def SPTIMER0_BASE_ADDR_def TIMER_TIMER1EOI_def)
  then show ?thesis by blast
qed

section \<open>Bindings in the handler table\<close>

lemma register_other:
  "n \<noteq> unat k \<Longrightarrow> interrupt_callbacks (final (interrupt_register_isr k f d) s) ! n = interrupt_callbacks s ! n"
  by (simp add: interrupt_register_isr_def set_callback_def)



section \<open>Unregistered interrupts\<close>

text \<open>
  An interrupt that nobody has registered stops the system: the default handler never
  returns, so dispatching it does not end and interrupts stay masked. This is what happens when
  a watchdog is switched to interrupt mode and barks between the enabling of its interrupt and
  the registration of its handler, which come in this order.
\<close>

theorem unregistered_interrupt_spins:
  assumes "n < MAX_SPI_HPU_INTERRUPT"
    and "interrupt_callbacks s ! unat n = (F_gic_default_interrupt_handler, V_NULL)"
  shows "run_state (system_irq n) s = (None, s)"
  using irq_through_table [OF assms] by (simp add: invoke_def gic_default_interrupt_handler_def)

theorem unregistered_interrupt_spins_witness:
  "result (system_irq WDOG0IRQ) system_machine = None"
  using unregistered_interrupt_spins [of WDOG0IRQ system_machine]
  by (simp add: initial_callbacks_def)

end
