(* ===== verification/Spec2Isabelle.thy ===== *)
theory Spec2Isabelle
  imports System
begin

text \<open>
  A verification library for the hardware abstraction layer of the FreeRTOS port to the SoC FPGA
  devices (\<^verbatim>\<open>src/drivers\<close> and \<^verbatim>\<open>src/osal\<close>).

  The program and its parts. The drivers are C modules, each with a static table of descriptors,
  one per hardware instance, and operations that check their arguments, update the descriptor
  and access the device through 32-bit memory-mapped registers. They call each other in layers:

  \<^item> \<^verbatim>\<open>osal/freertos/osal.h\<close> (theory \<open>Osal\<close>) wraps the kernel's tasks, semaphores and mutexes;
  \<^item> \<^verbatim>\<open>drivers/reset_mngr\<close> (\<open>Rst_Mngr\<close>) and \<^verbatim>\<open>drivers/clk_mngr\<close> (\<open>Clk_Mngr\<close>) hold a peripheral in
    reset and compute its clock rate;
  \<^item> \<^verbatim>\<open>drivers/gic\<close> is the interrupt controller: \<^verbatim>\<open>arm_gic.c\<close> (\<open>Arm_Gic\<close>) accesses the registers,
    \<^verbatim>\<open>socfpga_interrupt.c\<close> (\<open>Interrupt\<close>) keeps the table of handlers and dispatches;
  \<^item> \<^verbatim>\<open>drivers/timer\<close> (\<open>Timer\<close>), \<^verbatim>\<open>drivers/wdt\<close> (\<open>Watchdog\<close>), \<^verbatim>\<open>drivers/gpio\<close> (\<open>Gpio\<close>) and
    \<^verbatim>\<open>drivers/uart\<close> (\<open>Uart_LL\<close> for the registers, \<open>Uart\<close> for the transfers) are device drivers on
    these layers, each with an interrupt handler;
  \<^item> \<^verbatim>\<open>drivers/console\<close> (\<open>Console\<close>) buffers output in a ring and drives a UART port with a task;
  \<^item> \<^verbatim>\<open>drivers/sdm_mailbox\<close> (\<open>Mailbox\<close>) runs asynchronous jobs of the secure device manager for up
    to 14 clients, with a task that collects the responses, over calls into the secure monitor
    that are serialised by the console's lock;
  \<^item> \<^verbatim>\<open>drivers/bridge\<close>, \<^verbatim>\<open>drivers/reboot_mngr\<close> and \<^verbatim>\<open>drivers/fpga_manager\<close> (\<open>Secure_Services\<close>) and
    \<^verbatim>\<open>drivers/ecc\<close> (\<open>Ecc\<close>) are services on the secure monitor, the last with two interrupt handlers;
  \<^item> \<^verbatim>\<open>drivers/seu\<close> (\<open>Seu\<close>) injects and reads upset errors by commands to the device manager, as a
    client of the mailbox;
  \<^item> \<^verbatim>\<open>drivers/dma\<close> (\<open>Dma\<close>) builds chains of descriptors in memory, which the hardware follows;
  \<^item> \<^verbatim>\<open>drivers/i2c\<close> (\<open>I2c_LL\<close> for the registers, \<open>I2c\<close> for the driver, with \<open>I2c_Transfers\<close> and
    \<open>I2c_Wf\<close> for what holds of it) runs transfers as master and slave, by interrupt or by DMA;
  \<^item> \<^verbatim>\<open>drivers/spi\<close> (\<open>Spi_LL\<close>, \<open>Spi\<close>, \<open>Spi_Transfers\<close> and \<open>Spi_Wf\<close> in the same way) moves bytes in
    both directions at once, as bus master or as slave, by interrupt or with a pair of DMA channels;
  \<^item> \<^verbatim>\<open>drivers/qspi\<close> is the flash: the registers and the command generator of the controller
    (\<open>Qspi_LL\<close>), transfers through its SRAM, banks, pages and the interrupt handler (\<open>Qspi\<close>), the
    flash interface with the parameters that the chip reports (\<open>Flash\<close>); \<open>Flash_Transfers\<close> and
    \<open>Flash_Erase\<close> hold what is proved of it.

  The theory \<open>System\<close> composes them: it interprets the function pointers of the handler table.

  The model. \<open>Machine\<close> defines the machine. What is not under \<^verbatim>\<open>src/\<close>, the registers' answers,
  the CPU's system registers, the kernel, the secure monitor and the stack, is the record \<open>env\<close> of functions of the
  history, so a register may answer differently each time; what the program does is the
  \<open>trace\<close>, the list of its register accesses, kernel calls and callbacks, newest first; \<open>mem\<close> is
  the memory of the buffers. Each driver's theory extends the record \<open>machine\<close> by the driver's
  static variables, in the order in which the drivers depend on each other, and an operation of a
  driver is a value of the state monad over any extension of its record, so that operations of
  different drivers compose by \<open>\<bind>\<close>. The names are those of the C functions, C's unsigned
  types are words of the same width, signed return values are integers, a handle is an index into
  the driver's table and \<open>None\<close> is the null pointer. Undefined behaviour is an event \<open>UB\<close> of the
  trace. Loops over a buffer recurse over the bytes that remain; loops that wait for the hardware
  carry fuel, and the theorems say which fuel is enough: for the scan of the redistributors any
  number above the index of the last one (\<open>enable_gic_terminates\<close>), for the console's flush loop
  two rounds (\<open>console_drain_terminates\<close>), for the search of a job id sixteen steps
  (\<open>mbox_send_returns\<close>), for a word of the response mask 64 rounds (\<open>mbox_scan_complete\<close>). The one loop of the program that never ends, the
  default interrupt handler, is the value \<open>None\<close> (\<open>unregistered_interrupt_spins\<close>).

  The library. \<open>Prelude\<close> holds the word types, the error numbers, the state monad's run rules,
  the predicate \<open>keeps\<close> (an operation preserves a predicate) with one rule per construct, lemmas on
  bit fields, and the locale \<open>slots\<close>, the contract of a descriptor table, which every driver
  interprets on its own table. \<open>Machine\<close> adds \<open>emits\<close>, what a program may add to the trace, and
  \<open>reg_holds\<close>, the documented behaviour of a register that reads back what was written, the
  hypothesis of the round trips. \<open>Console\<close> has the locale \<open>lossy_queue\<close>, a bounded queue
  that drops what does not fit, interpreted on the ring buffer. \<open>Uart_LL\<close> has \<open>fifo_filler\<close>, a loop that
  puts items into a device's FIFO while there is room, interpreted on the transmit loops of the UART and
  of the I2C and SPI controllers; \<open>I2c_LL\<close> has its counterpart \<open>fifo_drainer\<close>, a loop that empties
  a FIFO into a buffer, interpreted on their receive loops; \<open>I2c_Transfers\<close> has \<open>bus_invariant\<close>, what a transfer may rely on while it
  runs, interpreted on the invariants of writes and of reads.

  What the lemmas show. For the register layers: each operation touches exactly the registers and
  bits the hardware manual assigns to it (the offsets are computed from the C structs), read after
  write gives the value back, and other instances' fields are unchanged. For the drivers: results
  and effects of opening on every branch, invariants of the descriptors under any sequence of
  operations (timers and watchdogs run only when configured), what the interrupt handlers
  acknowledge and call. For the UART: whatever the device does, the bytes sent are at every moment
  the prefix of the buffer that the driver reports. For the console: the ring is a queue that
  accepts a prefix and counts the rest. For the whole: an opened timer's interrupt reaches the
  user's callback, and the drivers' bindings in the handler table do not disturb each other.
  For the mailbox: a command's response arrives in the buffer given for it, every pending
  response is collected once, clients exclude each other. For the services: what the monitor
  is asked, in which order, and how its answers become results; for the memories' error
  correction, that errors are counted and acknowledged exactly once.
  For the I2C and SPI transfers: whatever the device answers and however the interrupts arrive, the
  bytes on the bus are a prefix of the buffer, the bytes received are stored in order, the counts the
  driver reports are those of the trace, and the descriptors stay well formed under any sequence of
  operations, interrupts and completions.
  For the flash: every byte of a write goes to its address and no program operation crosses a page,
  every byte of a read comes from its address also where a bank ends, and which sectors an erase reaches.
  Where the code deviates from its documentation the deviation is a theorem as well, for instance
  \<open>gic_set_int_pending\<close> in \<open>Arm_Gic\<close> or the baud rate read back in \<open>Uart_LL\<close>.

  Concurrency. An operation is atomic in the model except where the code waits for its interrupt:
  there the interrupts that arrive meanwhile are an argument. Interleavings of operations and
  interrupts are the step relations \<open>timer_reaches\<close>, \<open>wdt_reaches\<close>, \<open>tx_reaches\<close>,
  \<open>mbox_reaches\<close>, \<open>i2c_reaches\<close>, \<open>i2c_runs\<close>, \<open>spi_reaches\<close>, \<open>spi_runs\<close> and \<open>flash_reaches\<close>. The I2C slave's emptying of its FIFO may not
  end, if the device never stops delivering: then the handler is \<open>None\<close>.

  Not modelled: queues and pipes of the abstraction layer, which no modelled driver uses; log
  output; the drivers for Ethernet, USB, SD/MMC, I3C, crypto services, SMMU and the
  other devices listed in the manifest; vendored kernel ports, TCP glue and command line; the
  samples.
\<close>

end
